(* ===== verification/Prelude.thy ===== *)
theory Prelude
  imports Complex_Main
begin

text \<open>
  Shared vocabulary of the development: Python values and dictionaries, text operations,
  the time axis, document stores, and the generic lemmas on lists, options and maps that
  the component theories use.

  Text is a \<^typ>\<open>string\<close>, read as the UTF-8 bytes of the Python or SQL text. A
  \<open>datetime\<close> is an \<^typ>\<open>int\<close>, the microseconds of an aware instant since the
  epoch; \<open>datetime.now(UTC)\<close> and \<open>uuid4()\<close> are arguments of the operations that call
  them. Python integers are \<^typ>\<open>int\<close>; counters that start at zero and are only
  incremented, or that carry \<open>ge=0\<close> in their model class, are \<^typ>\<open>nat\<close>.
\<close>

section \<open>Fact collections\<close>

named_theorems store_simps \<open>equations of the document-store operations\<close>
named_theorems step_simps \<open>equations that unfold one step of a component\<close>
named_theorems inv_intros \<open>preservation of a component invariant\<close>

section \<open>Types\<close>

type_synonym datetime = int
type_synonym uuid = string

text \<open>
  A finite \<open>decimal.Decimal\<close>: coefficient times a power of ten; the sign of a zero is not kept.
\<close>

datatype decimal = Decimal (d_coeff: int) (d_exp: int)

text \<open>
  Values that the code types as \<open>Any\<close>. A float is held by its \<open>repr\<close> text, since the
  code never computes with one that reaches a model; dictionaries keep insertion order.
  \<open>VTime\<close> is an aware \<open>datetime\<close>, \<open>VNaive\<close> one without a time zone, held as the microseconds
  its fields would mean in UTC.
\<close>

datatype pyval =
    VNone
  | VBool bool
  | VInt int
  | VFloat string
  | VStr string
  | VTime datetime
  | VNaive datetime
  | VDecimal decimal
  | VList "pyval list"
  | VDict "(string \<times> pyval) list"

type_synonym pydict = "(string \<times> pyval) list"

section \<open>Python primitives\<close>

fun truthy :: "pyval \<Rightarrow> bool" where
  "truthy VNone = False"
| "truthy (VBool b) = b"
| "truthy (VInt i) = (i \<noteq> 0)"
| "truthy (VFloat r) = (r \<noteq> ''0.0'' \<and> r \<noteq> ''-0.0'')"
| "truthy (VStr s) = (s \<noteq> [])"
| "truthy (VTime _) = True"
| "truthy (VNaive _) = True"
| "truthy (VDecimal d) = (d_coeff d \<noteq> 0)"
| "truthy (VList xs) = (xs \<noteq> [])"
| "truthy (VDict d) = (d \<noteq> [])"

text \<open>\<open>d.get(k)\<close> with the missing key as \<^const>\<open>VNone\<close>, and \<open>d.setdefault(k, v)\<close>.\<close>

definition dget :: "pydict \<Rightarrow> string \<Rightarrow> pyval" where
  "dget d k = (case map_of d k of None \<Rightarrow> VNone | Some v \<Rightarrow> v)"

definition dsetdefault :: "pydict \<Rightarrow> string \<Rightarrow> pyval \<Rightarrow> pydict" where
  "dsetdefault d k v = (if map_of d k = None then d @ [(k, v)] else d)"

text \<open>\<open>d[k] = v\<close> keeps the position of an existing key, as a Python dict does.\<close>

fun dput :: "pydict \<Rightarrow> string \<Rightarrow> pyval \<Rightarrow> pydict" where
  "dput [] k v = [(k, v)]"
| "dput ((k', w) # d) k v = (if k' = k then (k, v) # d else (k', w) # dput d k v)"

lemma map_of_dput [simp]: "map_of (dput d k v) = (map_of d)(k \<mapsto> v)"
  by (induction d k v rule: dput.induct) auto

lemma dget_dput: "dget (dput d k v) k' = (if k' = k then v else dget d k')"
  by (simp add: dget_def)

text \<open>\<open>x or y\<close> on optional values whose falsy values are \<open>None\<close> and the empty text.\<close>

definition str_or :: "string option \<Rightarrow> string option \<Rightarrow> string option" where
  "str_or a b = (case a of Some (c # cs) \<Rightarrow> Some (c # cs) | _ \<Rightarrow> b)"

text \<open>A text option that is truthy: present and not empty.\<close>

definition str_truthy :: "string option \<Rightarrow> bool" where
  "str_truthy a = (case a of Some (c # cs) \<Rightarrow> True | _ \<Rightarrow> False)"

lemma str_truthy_simps [simp]:
  "\<not> str_truthy None" "\<not> str_truthy (Some [])" "str_truthy (Some (c # cs))"
  by (simp_all add: str_truthy_def)

lemma str_truthy_iff: "str_truthy a \<longleftrightarrow> (\<exists>s. a = Some s \<and> s \<noteq> [])"
  by (auto simp: str_truthy_def split: option.splits list.splits)

subsection \<open>Whitespace stripping\<close>

text \<open>
  \<open>str.strip()\<close> removes every Unicode whitespace code point at both ends; the list holds
  the UTF-8 encoding of each of them. SQL's \<open>BTRIM\<close> removes the ASCII space only.
\<close>

definition py_whitespace :: "string list" where
  "py_whitespace =
     [[CHR 0x09], [CHR 0x0A], [CHR 0x0B], [CHR 0x0C], [CHR 0x0D], [CHR 0x1C], [CHR 0x1D],
      [CHR 0x1E], [CHR 0x1F], [CHR 0x20], [CHR 0xC2, CHR 0x85], [CHR 0xC2, CHR 0xA0],
      [CHR 0xE1, CHR 0x9A, CHR 0x80], [CHR 0xE2, CHR 0x80, CHR 0x80],
      [CHR 0xE2, CHR 0x80, CHR 0x81], [CHR 0xE2, CHR 0x80, CHR 0x82],
      [CHR 0xE2, CHR 0x80, CHR 0x83], [CHR 0xE2, CHR 0x80, CHR 0x84],
      [CHR 0xE2, CHR 0x80, CHR 0x85], [CHR 0xE2, CHR 0x80, CHR 0x86],
      [CHR 0xE2, CHR 0x80, CHR 0x87], [CHR 0xE2, CHR 0x80, CHR 0x88],
      [CHR 0xE2, CHR 0x80, CHR 0x89], [CHR 0xE2, CHR 0x80, CHR 0x8A],
      [CHR 0xE2, CHR 0x80, CHR 0xA8], [CHR 0xE2, CHR 0x80, CHR 0xA9],
      [CHR 0xE2, CHR 0x80, CHR 0xAF], [CHR 0xE2, CHR 0x81, CHR 0x9F],
      [CHR 0xE3, CHR 0x80, CHR 0x80]]"

fun drop_first_prefix :: "string list \<Rightarrow> string \<Rightarrow> string option" where
  "drop_first_prefix [] s = None"
| "drop_first_prefix (w # ws) s =
     (if w \<noteq> [] \<and> take (length w) s = w then Some (drop (length w) s)
      else drop_first_prefix ws s)"

lemma drop_first_prefix_shorter:
  "drop_first_prefix ws s = Some t \<Longrightarrow> length t < length s"
proof (induction ws s rule: drop_first_prefix.induct)
  case (2 w ws s)
  show ?case
  proof (cases "w \<noteq> [] \<and> take (length w) s = w")
    case True
    then have "0 < length w" and "length w \<le> length s"
      by (auto simp: min_def dest: arg_cong [where f = length] split: if_splits)
    moreover from True 2(2) have "t = drop (length w) s" by simp
    ultimately show ?thesis by (simp only: length_drop)
  next
    case False
    with 2 show ?thesis by (auto split: if_splits)
  qed
qed simp

function strip_front :: "string list \<Rightarrow> string \<Rightarrow> string" where
  "strip_front ws s =
     (case drop_first_prefix ws s of None \<Rightarrow> s | Some t \<Rightarrow> strip_front ws t)"
  by pat_completeness auto
termination
  by (relation "measure (\<lambda>(ws, s). length s)") (auto dest: drop_first_prefix_shorter)

declare strip_front.simps [simp del]

definition strip_with :: "string list \<Rightarrow> string \<Rightarrow> string" where
  "strip_with ws s = rev (strip_front (map rev ws) (rev (strip_front ws s)))"

definition py_strip :: "string \<Rightarrow> string" where
  "py_strip = strip_with py_whitespace"

definition sql_btrim :: "string \<Rightarrow> string" where
  "sql_btrim = strip_with ['' '']"

lemma strip_front_done: "drop_first_prefix ws (strip_front ws s) = None"
proof (induction ws s rule: strip_front.induct)
  case (1 ws s)
  then show ?case
    by (cases "drop_first_prefix ws s") (simp_all add: strip_front.simps [of ws s])
qed

lemma strip_front_fixed: "drop_first_prefix ws s = None \<Longrightarrow> strip_front ws s = s"
  by (simp add: strip_front.simps)

lemma strip_front_idem [simp]: "strip_front ws (strip_front ws s) = strip_front ws s"
  by (rule strip_front_fixed) (rule strip_front_done)

lemma drop_first_prefix_Nil [simp]: "drop_first_prefix ws [] = None"
  by (induction ws) auto

lemma strip_front_Nil [simp]: "strip_front ws [] = []"
  by (rule strip_front_fixed) simp

lemma py_strip_Nil [simp]: "py_strip [] = []"
  by (simp add: py_strip_def strip_with_def)

subsection \<open>Bounded text\<close>

definition clip :: "nat \<Rightarrow> string \<Rightarrow> string" where
  "clip n s = take n s"

lemma length_clip [simp]: "length (clip n s) \<le> n"
  by (simp add: clip_def)

subsection \<open>ASCII case and containment\<close>

text \<open>
  \<open>str.lower\<close>, \<open>str.upper\<close> and \<open>str.isalnum\<close> on ASCII text; bytes above 127 are kept and
  count as letters.
\<close>

definition ascii_lower :: "string \<Rightarrow> string" where
  "ascii_lower s =
     map (\<lambda>c. if 65 \<le> (of_char c :: nat) \<and> of_char c \<le> (90 :: nat)
              then char_of (of_char c + (32 :: nat)) else c) s"

definition ascii_upper :: "string \<Rightarrow> string" where
  "ascii_upper s =
     map (\<lambda>c. if 97 \<le> (of_char c :: nat) \<and> of_char c \<le> (122 :: nat)
              then char_of (of_char c - (32 :: nat)) else c) s"

definition is_alnum :: "char \<Rightarrow> bool" where
  "is_alnum c \<longleftrightarrow>
     (let n = (of_char c :: nat)
      in 48 \<le> n \<and> n \<le> 57 \<or> 65 \<le> n \<and> n \<le> 90 \<or> 97 \<le> n \<and> n \<le> 122 \<or> 128 \<le> n)"

definition starts_with :: "string \<Rightarrow> string \<Rightarrow> bool" where
  "starts_with p s \<longleftrightarrow> take (length p) s = p"

text \<open>\<open>p in s\<close>\<close>

fun has_infix :: "string \<Rightarrow> string \<Rightarrow> bool" where
  "has_infix p [] \<longleftrightarrow> p = []"
| "has_infix p (c # s) \<longleftrightarrow> starts_with p (c # s) \<or> has_infix p s"

section \<open>Lists\<close>

text \<open>
  Replace the first entry that satisfies \<open>p\<close>, or append a new one: the update a timeline
  or an ordered dictionary makes for one key.
\<close>

fun upsert :: "('a \<Rightarrow> bool) \<Rightarrow> ('a \<Rightarrow> 'a) \<Rightarrow> 'a \<Rightarrow> 'a list \<Rightarrow> 'a list" where
  "upsert p f d [] = [f d]"
| "upsert p f d (x # xs) = (if p x then f x # xs else x # upsert p f d xs)"

lemma upsert_map_key:
  assumes "\<And>x. key (f x) = key x" and "key d = k"
  shows "map key (upsert (\<lambda>x. key x = k) f d xs)
           = (if k \<in> key ` set xs then map key xs else map key xs @ [k])"
  using assms by (induction xs) auto

lemma upsert_distinct:
  assumes "\<And>x. key (f x) = key x" and "key d = k" and "distinct (map key xs)"
  shows "distinct (map key (upsert (\<lambda>x. key x = k) f d xs))"
  using assms by (simp add: upsert_map_key [where key = key and f = f])

lemma find_upsert:
  assumes "\<And>x. key (f x) = key x" and "key d = k"
  shows "List.find (\<lambda>x. key x = k') (upsert (\<lambda>x. key x = k) f d xs)
           = (if k' = k
              then Some (f (case List.find (\<lambda>x. key x = k) xs of None \<Rightarrow> d | Some x \<Rightarrow> x))
              else List.find (\<lambda>x. key x = k') xs)"
  using assms by (induction xs) auto

lemma set_upsert: "set (upsert p f d xs) \<subseteq> set xs \<union> f ` insert d (set xs)"
  by (induction xs) auto

lemma find_Some_set: "List.find p xs = Some x \<Longrightarrow> x \<in> set xs \<and> p x"
  by (induction xs) (auto split: if_splits)

lemma find_None_all: "List.find p xs = None \<Longrightarrow> x \<in> set xs \<Longrightarrow> \<not> p x"
  by (induction xs) (auto split: if_splits)

section \<open>Document stores\<close>

text \<open>
  A MongoDB collection with a unique identity is a map from that identity to the document.
  \<open>update_one\<close> applies one guarded update atomically; \<open>modified_count == 1\<close> holds when
  the stored document actually changed. \<open>find_one_and_update\<close> returns the document after
  the update, or nothing when the guard did not match.
\<close>

type_synonym ('k, 'd) store = "'k \<rightharpoonup> 'd"

definition update_one ::
  "'k \<Rightarrow> ('d \<Rightarrow> bool) \<Rightarrow> ('d \<Rightarrow> 'd) \<Rightarrow> ('k, 'd) store \<Rightarrow> bool \<times> ('k, 'd) store" where
  "update_one k guard f m =
     (case m k of
        None \<Rightarrow> (False, m)
      | Some d \<Rightarrow> if guard d then (f d \<noteq> d, m(k \<mapsto> f d)) else (False, m))"

definition find_one_and_update ::
  "'k \<Rightarrow> ('d \<Rightarrow> bool) \<Rightarrow> ('d \<Rightarrow> 'd) \<Rightarrow> ('k, 'd) store \<Rightarrow> 'd option \<times> ('k, 'd) store" where
  "find_one_and_update k guard f m =
     (case m k of
        None \<Rightarrow> (None, m)
      | Some d \<Rightarrow> if guard d then (Some (f d), m(k \<mapsto> f d)) else (None, m))"

lemma update_one_None [store_simps]: "m k = None \<Longrightarrow> update_one k g f m = (False, m)"
  by (simp add: update_one_def)

lemma update_one_Some [store_simps]:
  "m k = Some d \<Longrightarrow> update_one k g f m = (if g d then (f d \<noteq> d, m(k \<mapsto> f d)) else (False, m))"
  by (simp add: update_one_def)

lemma update_one_other: "k' \<noteq> k \<Longrightarrow> snd (update_one k g f m) k' = m k'"
  by (simp add: update_one_def split: option.splits)

lemma update_one_doc:
  "snd (update_one k g f m) k = map_option (\<lambda>d. if g d then f d else d) (m k)"
  by (simp add: update_one_def split: option.splits)

lemma update_one_modified:
  "fst (update_one k g f m) \<longleftrightarrow> (\<exists>d. m k = Some d \<and> g d \<and> f d \<noteq> d)"
  by (auto simp: update_one_def split: option.splits)

lemma update_one_all:
  assumes "\<And>k' d. m k' = Some d \<Longrightarrow> P k' d"
    and "\<And>d. m k = Some d \<Longrightarrow> P k d \<Longrightarrow> g d \<Longrightarrow> P k (f d)"
    and "snd (update_one k g f m) k' = Some d"
  shows "P k' d"
  using assms by (auto simp: update_one_def split: option.splits if_splits)

lemma find_one_and_update_Some [store_simps]:
  "m k = Some d \<Longrightarrow>
     find_one_and_update k g f m = (if g d then (Some (f d), m(k \<mapsto> f d)) else (None, m))"
  by (simp add: find_one_and_update_def)

lemma find_one_and_update_None [store_simps]:
  "m k = None \<Longrightarrow> find_one_and_update k g f m = (None, m)"
  by (simp add: find_one_and_update_def)

lemma find_one_and_update_store:
  "snd (find_one_and_update k g f m) = snd (update_one k g f m)"
  by (simp add: find_one_and_update_def update_one_def split: option.splits)

lemma find_one_and_update_fst:
  "fst (find_one_and_update k g f m) = Some e \<longleftrightarrow> (\<exists>d. m k = Some d \<and> g d \<and> e = f d)"
  by (auto simp: find_one_and_update_def split: option.splits)

subsection \<open>Collections without a unique key\<close>

text \<open>
  A collection that is queried and sorted is the list of its documents. An update applies to
  the first document its filter matches.
\<close>

fun update_first :: "('d \<Rightarrow> bool) \<Rightarrow> ('d \<Rightarrow> 'd) \<Rightarrow> 'd list \<Rightarrow> 'd list" where
  "update_first p f [] = []"
| "update_first p f (d # ds) = (if p d then f d # ds else d # update_first p f ds)"

definition update_doc :: "('d \<Rightarrow> bool) \<Rightarrow> ('d \<Rightarrow> 'd) \<Rightarrow> 'd list \<Rightarrow> bool \<times> 'd list" where
  "update_doc p f ds =
     (case List.find p ds of
        None \<Rightarrow> (False, ds)
      | Some d \<Rightarrow> (f d \<noteq> d, update_first p f ds))"

definition find_and_update_doc ::
  "('d \<Rightarrow> bool) \<Rightarrow> ('d \<Rightarrow> 'd) \<Rightarrow> 'd list \<Rightarrow> 'd option \<times> 'd list" where
  "find_and_update_doc p f ds =
     (case List.find p ds of
        None \<Rightarrow> (None, ds)
      | Some d \<Rightarrow> (Some (f d), update_first p f ds))"

lemma update_first_all:
  assumes "\<And>d. d \<in> set ds \<Longrightarrow> P d" and "\<And>d. P d \<Longrightarrow> p d \<Longrightarrow> P (f d)"
    and "d \<in> set (update_first p f ds)"
  shows "P d"
  using assms by (induction ds) (auto split: if_splits)

lemma update_first_none: "List.find p ds = None \<Longrightarrow> update_first p f ds = ds"
  by (induction ds) (auto split: if_splits)

lemma update_first_keys:
  "(\<And>d. key (f d) = key d) \<Longrightarrow> map key (update_first p f ds) = map key ds"
  by (induction ds) auto

lemma snd_update_doc [simp]: "snd (update_doc p f ds) = update_first p f ds"
  by (simp add: update_doc_def update_first_none split: option.splits)

lemma snd_find_and_update_doc [simp]: "snd (find_and_update_doc p f ds) = update_first p f ds"
  by (simp add: find_and_update_doc_def update_first_none split: option.splits)

lemma find_key_None: "k \<notin> key ` set ds \<Longrightarrow> List.find (\<lambda>d. key d = k \<and> g d) ds = None"
  by (induction ds) auto

text \<open>The effect of a guarded update of the document \<open>k\<close> on a lookup by key.\<close>

lemma find_update_first:
  assumes "distinct (map key ds)" and "\<And>d. key (f d) = key d"
  shows "List.find (\<lambda>d. key d = k') (update_first (\<lambda>d. key d = k \<and> g d) f ds) =
    map_option (\<lambda>d. if k' = k \<and> g d then f d else d) (List.find (\<lambda>d. key d = k') ds)"
  using assms
proof (induction ds)
  case (Cons x ds)
  have other: "update_first (\<lambda>d. key d = k \<and> g d) f ds = ds" if "key x = k"
  proof -
    have "List.find (\<lambda>d. key d = k \<and> g d) ds = None"
      using Cons.prems(1) that by (intro find_key_None) simp
    then show ?thesis by (rule update_first_none)
  qed
  from Cons other show ?case by auto
qed simp

lemma find_update_guard:
  assumes "distinct (map key ds)"
  shows "List.find (\<lambda>d. key d = k \<and> g d) ds =
    (case List.find (\<lambda>d. key d = k) ds of None \<Rightarrow> None | Some d \<Rightarrow> if g d then Some d else None)"
  using assms
proof (induction ds)
  case (Cons x ds)
  have "List.find (\<lambda>d. key d = k \<and> g d) ds = None" if "key x = k"
    using Cons.prems that by (intro find_key_None) simp
  with Cons show ?case by auto
qed simp

end
