(* ===== verification/Checkpoint.thy ===== *)
theory Checkpoint
  imports Prelude
begin

text \<open>
  \<open>src/src/domain/ingestion/checkpoints.py\<close> (the document) and
  \<open>src/src/infrastructure/ingestion/checkpoint_repository.py\<close> (its repository): the state
  machine that sequences the source units of one stream. The collection is a map from the
  stream identity, which carries a unique index, to the document. Every operation is one
  or two atomic database commands; the document \<open>snap\<close> an operation is given is the copy
  its caller holds, which may be older than the stored one. One operation reads the clock
  once (\<open>now\<close>), and takes the identifiers it draws as arguments.
\<close>

section \<open>Data\<close>

datatype ingestion_mode = SCHEDULED | BACKFILL

datatype checkpoint_status =
  CK_ABSENT | CK_DISCOVERED | CK_PROCESSING | CK_COMPLETED | CK_FAILED | CK_BLOCKED

datatype unit_status =
  SU_PENDING | SU_PROCESSING | SU_COMPLETED | SU_FAILED | SU_BLOCKED | SU_WAITING_REVIEW
| SU_REPLAYED | SU_SKIPPED

text \<open>The five fields of \<open>_stream_filter\<close>.\<close>

record stream_id =
  si_partner :: string
  si_fetch_config_id :: string
  si_source_type :: string
  si_stream_key :: string
  si_mode :: ingestion_mode

record unit_summary =
  su_unit_key :: string
  su_label :: "pyval option"
  su_page :: "pyval option"
  su_status :: unit_status
  su_cursor_before :: "string option"
  su_cursor_after :: "string option"
  su_attempt_count :: nat
  su_last_error :: "string option"
  su_error_code :: "string option"
  su_retryable :: "bool option"
  su_next_retry_at :: "datetime option"
  su_started_at :: "datetime option"
  su_completed_at :: "datetime option"
  su_updated_at :: datetime

record recovery_event =
  ev_id :: uuid
  ev_unit_key :: string
  ev_status :: string
  ev_timestamp :: datetime
  ev_error_code :: "string option"
  ev_message :: "string option"
  ev_action :: "string option"
  ev_actor :: "string option"
  ev_reason :: "string option"

record checkpoint =
  ck_id :: uuid
  ck_stream :: stream_id
  ck_current_unit_key :: "string option"
  ck_last_completed_unit_key :: "string option"
  ck_cursor_before :: "string option"
  ck_cursor_after :: "string option"
  ck_high_water_mark :: "pydict option"
  ck_stream_ended :: bool
  ck_status :: checkpoint_status
  ck_attempt_count :: nat
  ck_claim_id :: "uuid option"
  ck_last_error :: "string option"
  ck_error_code :: "string option"
  ck_retryable :: "bool option"
  ck_next_retry_at :: "datetime option"
  ck_blocked_at :: "datetime option"
  ck_blocked_reason :: "string option"
  ck_last_error_metadata :: pydict
  ck_resolution_metadata :: pydict
  ck_started_at :: "datetime option"
  ck_completed_at :: "datetime option"
  ck_updated_at :: datetime
  ck_config_version :: "string option"
  ck_source_endpoint :: "string option"
  ck_runtime_run_id :: "string option"
  ck_source_file_id :: "string option"
  ck_stream_metadata :: pydict
  ck_unit_timeline :: "unit_summary list"
  ck_recovery_events :: "recovery_event list"

type_synonym ckpt_db = "(stream_id, checkpoint) store"

datatype ckpt_error =
  NegativeClaimTimeout | MaxAttemptsBelowOne | CheckpointDisappeared | ActionNotRetryOrSkip

fun unit_status_value :: "unit_status \<Rightarrow> string" where
  "unit_status_value SU_PENDING = ''PENDING''"
| "unit_status_value SU_PROCESSING = ''PROCESSING''"
| "unit_status_value SU_COMPLETED = ''COMPLETED''"
| "unit_status_value SU_FAILED = ''FAILED''"
| "unit_status_value SU_BLOCKED = ''BLOCKED''"
| "unit_status_value SU_WAITING_REVIEW = ''WAITING_REVIEW''"
| "unit_status_value SU_REPLAYED = ''REPLAYED''"
| "unit_status_value SU_SKIPPED = ''SKIPPED''"

section \<open>Timeline entries and recovery events\<close>

text \<open>The keyword arguments of \<open>_unit_timeline_update\<close>, with their defaults.\<close>

record timeline_args =
  ta_status :: unit_status
  ta_page :: "pyval option"
  ta_label :: "pyval option"
  ta_cursor_before :: "string option"
  ta_cursor_after :: "string option"
  ta_attempt_count :: "nat option"
  ta_last_error :: "string option"
  ta_error_code :: "string option"
  ta_retryable :: "bool option"
  ta_next_retry_at :: "datetime option"
  ta_started_at :: "datetime option"
  ta_completed_at :: "datetime option"
  ta_clear_error :: bool

definition timeline_defaults :: "unit_status \<Rightarrow> timeline_args" where
  "timeline_defaults s =
     \<lparr>ta_status = s, ta_page = None, ta_label = None, ta_cursor_before = None,
      ta_cursor_after = None, ta_attempt_count = None, ta_last_error = None,
      ta_error_code = None, ta_retryable = None, ta_next_retry_at = None,
      ta_started_at = None, ta_completed_at = None, ta_clear_error = False\<rparr>"

definition new_unit_summary :: "string \<Rightarrow> datetime \<Rightarrow> unit_summary" where
  "new_unit_summary k now =
     \<lparr>su_unit_key = k, su_label = None, su_page = None, su_status = SU_PENDING,
      su_cursor_before = None, su_cursor_after = None, su_attempt_count = 0,
      su_last_error = None, su_error_code = None, su_retryable = None,
      su_next_retry_at = None, su_started_at = None, su_completed_at = None,
      su_updated_at = now\<rparr>"

definition apply_timeline_args ::
  "datetime \<Rightarrow> timeline_args \<Rightarrow> unit_summary \<Rightarrow> unit_summary" where
  "apply_timeline_args now a u =
     u\<lparr>su_status := ta_status a,
       su_updated_at := now,
       su_page := (if ta_page a = None then su_page u else ta_page a),
       su_label := (if ta_label a = None then su_label u else ta_label a),
       su_cursor_before :=
         (if ta_cursor_before a = None then su_cursor_before u else ta_cursor_before a),
       su_cursor_after :=
         (if ta_cursor_after a = None then su_cursor_after u else ta_cursor_after a),
       su_attempt_count :=
         (case ta_attempt_count a of None \<Rightarrow> su_attempt_count u | Some n \<Rightarrow> n),
       su_last_error := (if ta_clear_error a then None else ta_last_error a),
       su_error_code := (if ta_clear_error a then None else ta_error_code a),
       su_retryable := (if ta_clear_error a then None else ta_retryable a),
       su_next_retry_at := (if ta_clear_error a then None else ta_next_retry_at a),
       su_started_at := (if ta_started_at a = None then su_started_at u else ta_started_at a),
       su_completed_at := ta_completed_at a\<rparr>"

definition unit_timeline_update ::
  "datetime \<Rightarrow> checkpoint \<Rightarrow> string \<Rightarrow> timeline_args \<Rightarrow> unit_summary list" where
  "unit_timeline_update now c k a =
     upsert (\<lambda>u. su_unit_key u = k) (apply_timeline_args now a) (new_unit_summary k now)
       (ck_unit_timeline c)"

definition recovery_event_update ::
  "uuid \<Rightarrow> string \<Rightarrow> string \<Rightarrow> datetime \<Rightarrow> recovery_event" where
  "recovery_event_update eid k status now =
     \<lparr>ev_id = eid, ev_unit_key = k, ev_status = status, ev_timestamp = now,
      ev_error_code = None, ev_message = None, ev_action = None, ev_actor = None,
      ev_reason = None\<rparr>"

definition find_unit :: "string \<Rightarrow> checkpoint \<Rightarrow> unit_summary option" where
  "find_unit k c = List.find (\<lambda>u. su_unit_key u = k) (ck_unit_timeline c)"

section \<open>Creating and claiming\<close>

text \<open>The arguments of \<open>claim_unit\<close> and the identifiers it draws.\<close>

record claim_args =
  ca_stream :: stream_id
  ca_unit_key :: string
  ca_cursor_before :: "string option"
  ca_expected_previous :: "string option"
  ca_max_attempts :: "int option"
  ca_config_version :: "string option"
  ca_source_endpoint :: "string option"
  ca_stream_metadata :: "pydict option"
  ca_runtime_run_id :: "string option"
  ca_source_file_id :: "string option"
  ca_attempt :: "int option"
  ca_claim_timeout :: int

record claim_ids =
  id_doc :: uuid
  id_claim :: uuid
  id_event :: uuid

definition claim_metadata :: "claim_args \<Rightarrow> pydict" where
  "claim_metadata a =
     (let md = (case ca_stream_metadata a of None \<Rightarrow> [] | Some d \<Rightarrow> d)
      in case ca_attempt a of
           None \<Rightarrow> md
         | Some n \<Rightarrow> dsetdefault md ''attempt'' (VInt (max 1 n)))"

text \<open>\<open>IngestionCheckpoint.model_validate\<close> of the identity and the claim context.\<close>

definition new_checkpoint :: "claim_args \<Rightarrow> uuid \<Rightarrow> datetime \<Rightarrow> checkpoint" where
  "new_checkpoint a did now =
     \<lparr>ck_id = did, ck_stream = ca_stream a, ck_current_unit_key = None,
      ck_last_completed_unit_key = None, ck_cursor_before = None, ck_cursor_after = None,
      ck_high_water_mark = None, ck_stream_ended = False, ck_status = CK_ABSENT,
      ck_attempt_count = 0, ck_claim_id = None, ck_last_error = None, ck_error_code = None,
      ck_retryable = None, ck_next_retry_at = None, ck_blocked_at = None,
      ck_blocked_reason = None, ck_last_error_metadata = [], ck_resolution_metadata = [],
      ck_started_at = None, ck_completed_at = None, ck_updated_at = now,
      ck_config_version = ca_config_version a, ck_source_endpoint = ca_source_endpoint a,
      ck_runtime_run_id = ca_runtime_run_id a, ck_source_file_id = ca_source_file_id a,
      ck_stream_metadata = claim_metadata a, ck_unit_timeline = [],
      ck_recovery_events = []\<rparr>"

definition create_or_get :: "checkpoint \<Rightarrow> ckpt_db \<Rightarrow> (checkpoint \<times> bool) \<times> ckpt_db" where
  "create_or_get c db =
     (case db (ck_stream c) of
        Some e \<Rightarrow> ((e, False), db)
      | None \<Rightarrow> ((c, True), db(ck_stream c \<mapsto> c)))"

definition next_attempt_count :: "string \<Rightarrow> checkpoint \<Rightarrow> nat" where
  "next_attempt_count k snap =
     (case find_unit k snap of None \<Rightarrow> 1 | Some u \<Rightarrow> su_attempt_count u + 1)"

text \<open>The \<open>$or\<close> of the claim query: an idle or retryable checkpoint, or a stale claim.\<close>

definition claim_idle :: "datetime \<Rightarrow> checkpoint \<Rightarrow> bool" where
  "claim_idle now d \<longleftrightarrow>
     ck_status d \<in> {CK_ABSENT, CK_DISCOVERED, CK_COMPLETED} \<or>
     (ck_status d = CK_FAILED \<and> ck_retryable d \<noteq> Some False \<and>
      (case ck_next_retry_at d of None \<Rightarrow> True | Some t \<Rightarrow> t \<le> now))"

definition claim_stale :: "claim_args \<Rightarrow> datetime \<Rightarrow> checkpoint \<Rightarrow> bool" where
  "claim_stale a now d \<longleftrightarrow>
     ck_status d = CK_PROCESSING \<and>
     (case ck_started_at d of None \<Rightarrow> False
      | Some t \<Rightarrow> t \<le> now - ca_claim_timeout a * 1000000) \<and>
     (case ca_max_attempts a of None \<Rightarrow> True | Some m \<Rightarrow> int (ck_attempt_count d) < m)"

definition claim_query :: "claim_args \<Rightarrow> datetime \<Rightarrow> checkpoint \<Rightarrow> bool" where
  "claim_query a now d \<longleftrightarrow>
     ck_last_completed_unit_key d = ca_expected_previous a \<and>
     (claim_idle now d \<or> claim_stale a now d)"

definition none_if_null :: "pyval \<Rightarrow> pyval option" where
  "none_if_null v = (if v = VNone then None else Some v)"

definition claim_update ::
  "claim_args \<Rightarrow> datetime \<Rightarrow> claim_ids \<Rightarrow> checkpoint \<Rightarrow> checkpoint \<Rightarrow> checkpoint" where
  "claim_update a now ids snap d =
     d\<lparr>ck_current_unit_key := Some (ca_unit_key a),
       ck_cursor_before := ca_cursor_before a,
       ck_status := CK_PROCESSING,
       ck_claim_id := Some (id_claim ids),
       ck_last_error := None,
       ck_error_code := None,
       ck_retryable := None,
       ck_next_retry_at := None,
       ck_blocked_at := None,
       ck_blocked_reason := None,
       ck_last_error_metadata := [],
       ck_started_at := Some now,
       ck_completed_at := None,
       ck_updated_at := now,
       ck_config_version := ca_config_version a,
       ck_source_endpoint := ca_source_endpoint a,
       ck_runtime_run_id := ca_runtime_run_id a,
       ck_source_file_id := ca_source_file_id a,
       ck_stream_metadata := claim_metadata a,
       ck_unit_timeline :=
         unit_timeline_update now snap (ca_unit_key a)
           ((timeline_defaults SU_PROCESSING)
              \<lparr>ta_page := none_if_null (dget (claim_metadata a) ''page''),
               ta_label := none_if_null (dget (claim_metadata a) ''label''),
               ta_cursor_before := ca_cursor_before a,
               ta_attempt_count := Some (next_attempt_count (ca_unit_key a) snap),
               ta_started_at := Some now,
               ta_clear_error := True\<rparr>),
       ck_attempt_count := next_attempt_count (ca_unit_key a) snap,
       ck_recovery_events :=
         ck_recovery_events d
           @ [recovery_event_update (id_event ids) (ca_unit_key a)
                (unit_status_value SU_PROCESSING) now]\<rparr>"

definition exhausted_message :: string where
  "exhausted_message = ''Maximum source-unit attempts exhausted.''"

text \<open>\<open>stale_query\<close> and \<open>stale_update\<close>: blocking an exhausted claim of another worker.\<close>

definition exhausted_query :: "checkpoint \<Rightarrow> checkpoint \<Rightarrow> bool" where
  "exhausted_query e d \<longleftrightarrow>
     ck_current_unit_key d = ck_current_unit_key e \<and> ck_status d = CK_PROCESSING"

definition exhausted_update :: "datetime \<Rightarrow> checkpoint \<Rightarrow> checkpoint \<Rightarrow> checkpoint" where
  "exhausted_update now e d =
     (let d' = d\<lparr>ck_status := CK_BLOCKED, ck_retryable := Some False,
                 ck_blocked_at := Some now, ck_blocked_reason := Some exhausted_message,
                 ck_updated_at := now\<rparr>
      in case ck_current_unit_key e of
           Some (c # cs) \<Rightarrow>
             d'\<lparr>ck_unit_timeline :=
                  unit_timeline_update now e (c # cs)
                    ((timeline_defaults SU_BLOCKED)
                       \<lparr>ta_last_error := Some exhausted_message,
                        ta_error_code := ck_error_code e,
                        ta_retryable := Some False\<rparr>)\<rparr>
         | _ \<Rightarrow> d')"

text \<open>What \<open>claim_unit\<close> does once its claim query matched nothing.\<close>

definition claim_lost ::
  "claim_args \<Rightarrow> datetime \<Rightarrow> ckpt_db \<Rightarrow> (ckpt_error + checkpoint \<times> bool) \<times> ckpt_db" where
  "claim_lost a now db =
     (case db (ca_stream a) of
        None \<Rightarrow> (Inl CheckpointDisappeared, db)
      | Some e \<Rightarrow>
          (case ca_max_attempts a of
             Some m \<Rightarrow>
               if ck_status e = CK_PROCESSING \<and> m \<le> int (ck_attempt_count e)
               then (Inr (e, False),
                     snd (update_one (ca_stream a) (exhausted_query e)
                            (exhausted_update now e) db))
               else (Inr (e, False), db)
           | None \<Rightarrow> (Inr (e, False), db)))"

definition claim_unit ::
  "claim_args \<Rightarrow> datetime \<Rightarrow> claim_ids \<Rightarrow> ckpt_db
     \<Rightarrow> (ckpt_error + checkpoint \<times> bool) \<times> ckpt_db" where
  "claim_unit a now ids db0 =
     (let ((snap, _), db) = create_or_get (new_checkpoint a (id_doc ids) now) db0
      in if ck_last_completed_unit_key snap = Some (ca_unit_key a) then (Inr (snap, False), db)
         else if ca_claim_timeout a < 0 then (Inl NegativeClaimTimeout, db)
         else if (case ca_max_attempts a of None \<Rightarrow> False | Some m \<Rightarrow> m < 1)
           then (Inl MaxAttemptsBelowOne, db)
         else
           (case find_one_and_update (ca_stream a) (claim_query a now)
                   (claim_update a now ids snap) db of
              (Some raw, db') \<Rightarrow> (Inr (raw, True), db')
            | (None, db') \<Rightarrow> claim_lost a now db'))"

end
