(* ===== verification/CheckpointOps.thy ===== *)
theory CheckpointOps
  imports Checkpoint
begin

text \<open>
  The remaining operations of
  \<open>src/src/infrastructure/ingestion/checkpoint_repository.py\<close>: completing, advancing,
  failing, releasing, resolving and closing a stream. Each is a guard on the stored
  document and an update of it, run by \<^const>\<open>update_one\<close>; the boolean is
  \<open>modified_count == 1\<close>.
\<close>

section \<open>Transitions made by the claim holder\<close>

text \<open>The query that every transition of a claim holder uses: unit, status and claim id.\<close>

definition holder_query :: "checkpoint \<Rightarrow> string \<Rightarrow> checkpoint \<Rightarrow> bool" where
  "holder_query snap k d \<longleftrightarrow>
     ck_current_unit_key d = Some k \<and> ck_status d = CK_PROCESSING \<and>
     ck_claim_id d = ck_claim_id snap"

definition push_event :: "recovery_event \<Rightarrow> checkpoint \<Rightarrow> checkpoint" where
  "push_event e d = d\<lparr>ck_recovery_events := ck_recovery_events d @ [e]\<rparr>"

lemma push_event_neq: "ck_recovery_events d' = ck_recovery_events d \<Longrightarrow> push_event e d' \<noteq> d"
proof
  assume same: "ck_recovery_events d' = ck_recovery_events d" and "push_event e d' = d"
  then have "ck_recovery_events (push_event e d') = ck_recovery_events d" by simp
  with same show False by (simp add: push_event_def)
qed

record fail_args =
  fa_unit_key :: string
  fa_error :: string
  fa_error_code :: string
  fa_retryable :: bool
  fa_next_retry_at :: "datetime option"
  fa_max_attempts :: "int option"
  fa_error_metadata :: pydict

definition fail_blocks :: "fail_args \<Rightarrow> checkpoint \<Rightarrow> bool" where
  "fail_blocks a snap \<longleftrightarrow>
     \<not> fa_retryable a \<or>
     (case fa_max_attempts a of None \<Rightarrow> False | Some m \<Rightarrow> m \<le> int (ck_attempt_count snap))"

definition fail_update ::
  "fail_args \<Rightarrow> datetime \<Rightarrow> uuid \<Rightarrow> checkpoint \<Rightarrow> checkpoint \<Rightarrow> checkpoint" where
  "fail_update a now eid snap d =
     (let blocked = fail_blocks a snap;
          ustatus = (if blocked then SU_BLOCKED else SU_FAILED);
          retry_at = (if blocked then None else fa_next_retry_at a)
      in push_event
           ((recovery_event_update eid (fa_unit_key a) (unit_status_value ustatus) now)
              \<lparr>ev_error_code := Some (fa_error_code a), ev_message := Some (fa_error a)\<rparr>)
           (d\<lparr>ck_status := (if blocked then CK_BLOCKED else CK_FAILED),
              ck_last_error := Some (fa_error a),
              ck_error_code := Some (fa_error_code a),
              ck_retryable := Some (fa_retryable a),
              ck_next_retry_at := retry_at,
              ck_blocked_at := (if blocked then Some now else None),
              ck_blocked_reason := (if blocked then Some (fa_error a) else None),
              ck_last_error_metadata := fa_error_metadata a,
              ck_updated_at := now,
              ck_unit_timeline :=
                unit_timeline_update now snap (fa_unit_key a)
                  ((timeline_defaults ustatus)
                     \<lparr>ta_attempt_count := Some (ck_attempt_count snap),
                      ta_last_error := Some (fa_error a),
                      ta_error_code := Some (fa_error_code a),
                      ta_retryable := Some (fa_retryable a),
                      ta_next_retry_at := retry_at\<rparr>)\<rparr>))"

definition mark_failed ::
  "fail_args \<Rightarrow> datetime \<Rightarrow> uuid \<Rightarrow> checkpoint \<Rightarrow> ckpt_db \<Rightarrow> (ckpt_error + bool) \<times> ckpt_db" where
  "mark_failed a now eid snap db =
     (if (case fa_max_attempts a of None \<Rightarrow> False | Some m \<Rightarrow> m < 1)
      then (Inl MaxAttemptsBelowOne, db)
      else let (ok, db') = update_one (ck_stream snap) (holder_query snap (fa_unit_key a))
                             (fail_update a now eid snap) db
           in (Inr ok, db'))"

definition review_error_code :: string where
  "review_error_code = ''configuration_approval_required''"

definition release_update ::
  "string \<Rightarrow> string \<Rightarrow> datetime \<Rightarrow> uuid \<Rightarrow> checkpoint \<Rightarrow> checkpoint \<Rightarrow> checkpoint" where
  "release_update k reason now eid snap d =
     push_event
       ((recovery_event_update eid k (unit_status_value SU_WAITING_REVIEW) now)
          \<lparr>ev_error_code := Some review_error_code, ev_message := Some reason\<rparr>)
       (d\<lparr>ck_status := CK_DISCOVERED,
          ck_current_unit_key := None,
          ck_claim_id := None,
          ck_last_error := Some reason,
          ck_error_code := Some review_error_code,
          ck_retryable := None,
          ck_next_retry_at := None,
          ck_blocked_at := None,
          ck_blocked_reason := None,
          ck_started_at := None,
          ck_updated_at := now,
          ck_unit_timeline :=
            unit_timeline_update now snap k
              ((timeline_defaults SU_WAITING_REVIEW)
                 \<lparr>ta_attempt_count := Some (ck_attempt_count snap),
                  ta_last_error := Some reason,
                  ta_error_code := Some review_error_code\<rparr>)\<rparr>)"

definition release_for_review ::
  "string \<Rightarrow> string \<Rightarrow> datetime \<Rightarrow> uuid \<Rightarrow> checkpoint \<Rightarrow> ckpt_db \<Rightarrow> bool \<times> ckpt_db" where
  "release_for_review k reason now eid snap db =
     update_one (ck_stream snap) (holder_query snap k) (release_update k reason now eid snap) db"

text \<open>\<open>(high_water_mark or {}).get("hasMore") is False\<close>\<close>

definition has_more_is_false :: "pydict option \<Rightarrow> bool" where
  "has_more_is_false hwm =
     (dget (case hwm of None \<Rightarrow> [] | Some d \<Rightarrow> d) ''hasMore'' = VBool False)"

definition skip_resolved :: "checkpoint \<Rightarrow> bool" where
  "skip_resolved snap \<longleftrightarrow> dget (ck_resolution_metadata snap) ''action'' = VStr ''SKIP''"

definition complete_update ::
  "string \<Rightarrow> string option \<Rightarrow> pydict option \<Rightarrow> datetime \<Rightarrow> uuid
     \<Rightarrow> checkpoint \<Rightarrow> checkpoint \<Rightarrow> checkpoint" where
  "complete_update k cursor_after hwm now eid snap d =
     (let ustatus = (if skip_resolved snap then SU_SKIPPED else SU_COMPLETED)
      in push_event (recovery_event_update eid k (unit_status_value ustatus) now)
           (d\<lparr>ck_status := CK_COMPLETED,
              ck_last_completed_unit_key := Some k,
              ck_cursor_after := cursor_after,
              ck_high_water_mark := hwm,
              ck_stream_ended := has_more_is_false hwm,
              ck_last_error := None,
              ck_error_code := None,
              ck_retryable := None,
              ck_next_retry_at := None,
              ck_blocked_at := None,
              ck_blocked_reason := None,
              ck_resolution_metadata := [],
              ck_completed_at := Some now,
              ck_updated_at := now,
              ck_last_error_metadata := [],
              ck_unit_timeline :=
                unit_timeline_update now snap k
                  ((timeline_defaults ustatus)
                     \<lparr>ta_attempt_count := Some (ck_attempt_count snap),
                      ta_cursor_after := cursor_after,
                      ta_clear_error := True,
                      ta_completed_at := Some now\<rparr>)\<rparr>))"

definition mark_completed ::
  "string \<Rightarrow> string option \<Rightarrow> pydict option \<Rightarrow> datetime \<Rightarrow> uuid
     \<Rightarrow> checkpoint \<Rightarrow> ckpt_db \<Rightarrow> bool \<times> ckpt_db" where
  "mark_completed k cursor_after hwm now eid snap db =
     update_one (ck_stream snap) (holder_query snap k)
       (complete_update k cursor_after hwm now eid snap) db"

section \<open>Advancing the stream\<close>

definition advance_query :: "string \<Rightarrow> checkpoint \<Rightarrow> bool" where
  "advance_query k d \<longleftrightarrow>
     ck_current_unit_key d = Some k \<and> ck_last_completed_unit_key d = Some k \<and>
     ck_status d = CK_COMPLETED"

definition advance_update :: "datetime \<Rightarrow> checkpoint \<Rightarrow> checkpoint" where
  "advance_update now d =
     d\<lparr>ck_status := CK_DISCOVERED, ck_current_unit_key := None, ck_updated_at := now\<rparr>"

definition advance :: "string \<Rightarrow> datetime \<Rightarrow> checkpoint \<Rightarrow> ckpt_db \<Rightarrow> bool \<times> ckpt_db" where
  "advance k now snap db =
     update_one (ck_stream snap) (advance_query k) (advance_update now) db"

section \<open>Operator transitions\<close>

definition resolution_dict :: "string \<Rightarrow> string \<Rightarrow> string \<Rightarrow> datetime \<Rightarrow> pydict" where
  "resolution_dict action reason operator_id now =
     [(''action'', VStr action), (''reason'', VStr reason), (''operatorId'', VStr operator_id),
      (''resolvedAt'', VTime now)]"

definition blocked_query :: "string \<Rightarrow> checkpoint \<Rightarrow> bool" where
  "blocked_query k d \<longleftrightarrow> ck_current_unit_key d = Some k \<and> ck_status d = CK_BLOCKED"

definition resolve_update ::
  "string \<Rightarrow> string \<Rightarrow> string \<Rightarrow> string \<Rightarrow> datetime \<Rightarrow> uuid
     \<Rightarrow> checkpoint \<Rightarrow> checkpoint \<Rightarrow> checkpoint" where
  "resolve_update k action reason operator_id now eid snap d =
     push_event
       ((recovery_event_update eid k ''RESOLVED'' now)
          \<lparr>ev_action := Some action, ev_actor := Some operator_id, ev_reason := Some reason\<rparr>)
       (d\<lparr>ck_status := CK_DISCOVERED,
          ck_retryable := Some True,
          ck_next_retry_at := None,
          ck_blocked_at := None,
          ck_blocked_reason := None,
          ck_resolution_metadata := resolution_dict action reason operator_id now,
          ck_updated_at := now,
          ck_unit_timeline :=
            unit_timeline_update now snap k
              ((timeline_defaults SU_PENDING)\<lparr>ta_retryable := Some True\<rparr>)\<rparr>)"

definition resolve_blocked ::
  "string \<Rightarrow> string \<Rightarrow> string \<Rightarrow> string \<Rightarrow> datetime \<Rightarrow> uuid \<Rightarrow> checkpoint \<Rightarrow> ckpt_db
     \<Rightarrow> (ckpt_error + bool) \<times> ckpt_db" where
  "resolve_blocked k action reason operator_id now eid snap db =
     (if action \<notin> {''RETRY'', ''SKIP''} then (Inl ActionNotRetryOrSkip, db)
      else let (ok, db') = update_one (ck_stream snap) (blocked_query k)
                             (resolve_update k action reason operator_id now eid snap) db
           in (Inr ok, db'))"

definition manual_retry_query :: "string \<Rightarrow> checkpoint \<Rightarrow> bool" where
  "manual_retry_query k d \<longleftrightarrow>
     ck_current_unit_key d = Some k \<and> ck_status d = CK_FAILED \<and> ck_retryable d = Some True"

definition manual_retry_update ::
  "string \<Rightarrow> string \<Rightarrow> string \<Rightarrow> datetime \<Rightarrow> uuid \<Rightarrow> checkpoint \<Rightarrow> checkpoint \<Rightarrow> checkpoint" where
  "manual_retry_update k operator_id reason now eid snap d =
     push_event
       ((recovery_event_update eid k ''RETRY_REQUESTED'' now)
          \<lparr>ev_action := Some ''RETRY'', ev_actor := Some operator_id, ev_reason := Some reason\<rparr>)
       (d\<lparr>ck_next_retry_at := None,
          ck_updated_at := now,
          ck_resolution_metadata := resolution_dict ''RETRY'' reason operator_id now,
          ck_unit_timeline :=
            unit_timeline_update now snap k
              ((timeline_defaults SU_FAILED)
                 \<lparr>ta_attempt_count := Some (ck_attempt_count snap),
                  ta_last_error := ck_last_error snap,
                  ta_error_code := ck_error_code snap,
                  ta_retryable := Some True\<rparr>)\<rparr>)"

definition prepare_manual_retry ::
  "string \<Rightarrow> string \<Rightarrow> datetime \<Rightarrow> uuid \<Rightarrow> checkpoint \<Rightarrow> ckpt_db \<Rightarrow> bool \<times> ckpt_db" where
  "prepare_manual_retry operator_id reason now eid snap db =
     (if ck_status snap \<noteq> CK_FAILED then (False, db)
      else if \<not> str_truthy (ck_current_unit_key snap) \<or> ck_retryable snap \<noteq> Some True
        then (False, db)
      else case ck_current_unit_key snap of
             None \<Rightarrow> (False, db)
           | Some k \<Rightarrow>
               update_one (ck_stream snap) (manual_retry_query k)
                 (manual_retry_update k operator_id reason now eid snap) db)"

section \<open>Closing a staged stream after review\<close>

text \<open>
  One entry of \<open>completed_units\<close>: the value of \<open>payload.get("unitKey") or
  payload.get("unit_key")\<close> when it is text, and the four optional fields.
\<close>

record completed_unit =
  cu_unit_key :: "string option"
  cu_page :: "pyval option"
  cu_label :: "pyval option"
  cu_cursor_before :: "string option"
  cu_cursor_after :: "string option"

text \<open>\<open>{item.unit_key: item for item in timeline}\<close>, in insertion order.\<close>

definition timeline_dict :: "unit_summary list \<Rightarrow> unit_summary list" where
  "timeline_dict us =
     foldl (\<lambda>acc u. upsert (\<lambda>v. su_unit_key v = su_unit_key u) (\<lambda>_. u) u acc) [] us"

definition completed_unit_update ::
  "datetime \<Rightarrow> completed_unit \<Rightarrow> unit_summary \<Rightarrow> unit_summary" where
  "completed_unit_update now p u =
     u\<lparr>su_status := SU_COMPLETED, su_last_error := None, su_error_code := None,
       su_retryable := None, su_next_retry_at := None, su_completed_at := Some now,
       su_updated_at := now,
       su_page := (if cu_page p = None then su_page u else cu_page p),
       su_label := (if cu_label p = None then su_label u else cu_label p),
       su_cursor_before :=
         (if cu_cursor_before p = None then su_cursor_before u else cu_cursor_before p),
       su_cursor_after :=
         (if cu_cursor_after p = None then su_cursor_after u else cu_cursor_after p)\<rparr>"

fun close_units ::
  "datetime \<Rightarrow> completed_unit list \<Rightarrow> unit_summary list \<Rightarrow> unit_summary list" where
  "close_units now [] us = us"
| "close_units now (p # ps) us =
     (case cu_unit_key p of
        Some (c # cs) \<Rightarrow>
          close_units now ps
            (upsert (\<lambda>u. su_unit_key u = c # cs) (completed_unit_update now p)
               (new_unit_summary (c # cs) now) us)
      | _ \<Rightarrow> close_units now ps us)"

definition open_stream_query :: "checkpoint \<Rightarrow> bool" where
  "open_stream_query d \<longleftrightarrow> ck_status d = CK_DISCOVERED \<and> \<not> ck_stream_ended d"

definition close_update ::
  "string \<Rightarrow> string option \<Rightarrow> pydict option \<Rightarrow> completed_unit list \<Rightarrow> datetime \<Rightarrow> uuid
     \<Rightarrow> checkpoint \<Rightarrow> checkpoint \<Rightarrow> checkpoint" where
  "close_update k cursor_after hwm units now eid snap d =
     push_event
       ((recovery_event_update eid k (unit_status_value SU_COMPLETED) now)
          \<lparr>ev_reason := Some ''Post-approval staged stream reconciliation completed.''\<rparr>)
       (d\<lparr>ck_status := CK_DISCOVERED,
          ck_current_unit_key := None,
          ck_last_completed_unit_key := Some k,
          ck_cursor_after := cursor_after,
          ck_high_water_mark := hwm,
          ck_stream_ended := True,
          ck_last_error := None,
          ck_error_code := None,
          ck_retryable := None,
          ck_next_retry_at := None,
          ck_resolution_metadata := [],
          ck_completed_at := Some now,
          ck_updated_at := now,
          ck_last_error_metadata := [],
          ck_unit_timeline :=
            close_units now
              (if units = []
               then [\<lparr>cu_unit_key = Some k, cu_page = None, cu_label = None,
                      cu_cursor_before = None, cu_cursor_after = cursor_after\<rparr>]
               else units)
              (timeline_dict (ck_unit_timeline snap))\<rparr>)"

definition mark_stream_completed_after_review ::
  "string \<Rightarrow> string option \<Rightarrow> pydict option \<Rightarrow> completed_unit list \<Rightarrow> datetime \<Rightarrow> uuid
     \<Rightarrow> checkpoint \<Rightarrow> ckpt_db \<Rightarrow> bool \<times> ckpt_db" where
  "mark_stream_completed_after_review k cursor_after hwm units now eid snap db =
     update_one (ck_stream snap) open_stream_query
       (close_update k cursor_after hwm units now eid snap) db"

definition review_failure_update ::
  "string \<Rightarrow> string \<Rightarrow> string \<Rightarrow> datetime \<Rightarrow> uuid \<Rightarrow> checkpoint \<Rightarrow> checkpoint \<Rightarrow> checkpoint" where
  "review_failure_update k err code now eid snap d =
     push_event
       ((recovery_event_update eid k ''FAILED'' now)
          \<lparr>ev_error_code := Some code, ev_message := Some err\<rparr>)
       (d\<lparr>ck_status := CK_FAILED,
          ck_current_unit_key := Some k,
          ck_last_error := Some err,
          ck_error_code := Some code,
          ck_retryable := Some True,
          ck_next_retry_at := None,
          ck_blocked_at := None,
          ck_blocked_reason := None,
          ck_last_error_metadata := [],
          ck_updated_at := now,
          ck_unit_timeline :=
            unit_timeline_update now snap k
              ((timeline_defaults SU_FAILED)
                 \<lparr>ta_last_error := Some err,
                  ta_error_code := Some code,
                  ta_retryable := Some True\<rparr>)\<rparr>)"

definition mark_stream_failed_after_review ::
  "string \<Rightarrow> string \<Rightarrow> string \<Rightarrow> datetime \<Rightarrow> uuid \<Rightarrow> checkpoint \<Rightarrow> ckpt_db
     \<Rightarrow> bool \<times> ckpt_db" where
  "mark_stream_failed_after_review k err code now eid snap db =
     update_one (ck_stream snap) open_stream_query
       (review_failure_update k err code now eid snap) db"

section \<open>Context updates and queries\<close>

definition update_source_context ::
  "string option \<Rightarrow> string option \<Rightarrow> datetime \<Rightarrow> checkpoint \<Rightarrow> ckpt_db \<Rightarrow> bool \<times> ckpt_db" where
  "update_source_context source_file_id runtime_run_id now snap db =
     (if source_file_id = None \<and> runtime_run_id = None then (False, db)
      else update_one (ck_stream snap) (\<lambda>d. ck_id d = ck_id snap)
             (\<lambda>d. d\<lparr>ck_source_file_id :=
                      (if source_file_id = None then ck_source_file_id d else source_file_id),
                    ck_runtime_run_id :=
                      (if runtime_run_id = None then ck_runtime_run_id d else runtime_run_id),
                    ck_updated_at := now\<rparr>) db)"

text \<open>The filters of \<open>find_by_source_unit_key\<close> and \<open>find_pending_or_failed\<close>.\<close>

definition owns_source_unit :: "string \<Rightarrow> checkpoint \<Rightarrow> bool" where
  "owns_source_unit k d \<longleftrightarrow>
     ck_current_unit_key d = Some k \<or> ck_last_completed_unit_key d = Some k \<or>
     k \<in> su_unit_key ` set (ck_unit_timeline d)"

definition pending_or_failed :: "ingestion_mode option \<Rightarrow> datetime \<Rightarrow> checkpoint \<Rightarrow> bool" where
  "pending_or_failed mode now d \<longleftrightarrow>
     (ck_status d \<in> {CK_ABSENT, CK_DISCOVERED} \<or>
      (ck_status d = CK_FAILED \<and> ck_retryable d \<noteq> Some False \<and>
       (case ck_next_retry_at d of None \<Rightarrow> True | Some t \<Rightarrow> t \<le> now))) \<and>
     (case mode of None \<Rightarrow> True | Some m \<Rightarrow> si_mode (ck_stream d) = m)"

end
