(* ===== verification/CheckpointInv.thy ===== *)
theory CheckpointInv
  imports CheckpointOps
begin

text \<open>
  The document invariant of a checkpoint and its preservation. The locale
  \<open>ckpt_transition\<close> is the contract every guarded update of the repository keeps; it is
  interpreted once for each operation, and the operations' preservation and
  \<open>modified_count\<close> lemmas are its facts.
\<close>

section \<open>The invariant\<close>

definition ckpt_wf :: "checkpoint \<Rightarrow> bool" where
  "ckpt_wf c \<longleftrightarrow>
     distinct (map su_unit_key (ck_unit_timeline c)) \<and>
     (ck_status c = CK_ABSENT \<longrightarrow>
        ck_current_unit_key c = None \<and> ck_last_completed_unit_key c = None) \<and>
     (ck_status c = CK_PROCESSING \<longrightarrow>
        ck_current_unit_key c \<noteq> None \<and> ck_claim_id c \<noteq> None \<and> ck_started_at c \<noteq> None \<and>
        1 \<le> ck_attempt_count c) \<and>
     (ck_status c = CK_COMPLETED \<longrightarrow>
        ck_current_unit_key c \<noteq> None \<and>
        ck_last_completed_unit_key c = ck_current_unit_key c) \<and>
     (ck_status c = CK_FAILED \<longrightarrow>
        ck_current_unit_key c \<noteq> None \<and> ck_retryable c = Some True) \<and>
     (ck_status c = CK_BLOCKED \<longrightarrow>
        ck_current_unit_key c \<noteq> None \<and> ck_blocked_at c \<noteq> None \<and>
        ck_blocked_reason c \<noteq> None) \<and>
     (ck_next_retry_at c \<noteq> None \<longrightarrow> ck_status c = CK_FAILED)"

definition ckpt_db_wf :: "ckpt_db \<Rightarrow> bool" where
  "ckpt_db_wf db \<longleftrightarrow> (\<forall>i c. db i = Some c \<longrightarrow> ck_stream c = i \<and> ckpt_wf c)"

lemma ckpt_db_wfD: "ckpt_db_wf db \<Longrightarrow> db i = Some c \<Longrightarrow> ck_stream c = i \<and> ckpt_wf c"
  by (simp add: ckpt_db_wf_def)

lemma ckpt_wf_distinct: "ckpt_wf c \<Longrightarrow> distinct (map su_unit_key (ck_unit_timeline c))"
  by (simp add: ckpt_wf_def)

lemma apply_timeline_args_key [simp]:
  "su_unit_key (apply_timeline_args now a u) = su_unit_key u"
  by (simp add: apply_timeline_args_def)

lemma new_unit_summary_key [simp]: "su_unit_key (new_unit_summary k now) = k"
  by (simp add: new_unit_summary_def)

lemma distinct_timeline_update:
  "ckpt_wf snap \<Longrightarrow> distinct (map su_unit_key (unit_timeline_update now snap k a))"
  by (simp add: unit_timeline_update_def upsert_distinct ckpt_wf_distinct)

lemma find_timeline_update:
  "List.find (\<lambda>u. su_unit_key u = k') (unit_timeline_update now snap k a)
     = (if k' = k
        then Some (apply_timeline_args now a
                     (case find_unit k snap of None \<Rightarrow> new_unit_summary k now | Some u \<Rightarrow> u))
        else find_unit k' snap)"
  by (simp add: unit_timeline_update_def find_upsert find_unit_def)

lemma timeline_dict_distinct: "distinct (map su_unit_key (timeline_dict us))"
proof -
  have "distinct (map su_unit_key acc) \<Longrightarrow>
      distinct (map su_unit_key
        (foldl (\<lambda>acc u. upsert (\<lambda>v. su_unit_key v = su_unit_key u) (\<lambda>_. u) u acc) acc us))"
    for acc
  proof (induction us arbitrary: acc)
    case (Cons u us)
    have "map su_unit_key (upsert (\<lambda>v. su_unit_key v = su_unit_key u) (\<lambda>_. u) u xs)
        = (if su_unit_key u \<in> su_unit_key ` set xs then map su_unit_key xs
           else map su_unit_key xs @ [su_unit_key u])" for xs
      by (induction xs) auto
    with Cons show ?case by simp
  qed simp
  then show ?thesis by (simp add: timeline_dict_def)
qed

lemma completed_unit_update_key [simp]:
  "su_unit_key (completed_unit_update now p u) = su_unit_key u"
  by (simp add: completed_unit_update_def)

lemma close_units_distinct:
  "distinct (map su_unit_key us) \<Longrightarrow> distinct (map su_unit_key (close_units now ps us))"
  by (induction now ps us rule: close_units.induct)
    (auto simp: upsert_distinct split: option.splits list.splits)

section \<open>The contract of a guarded update\<close>

locale ckpt_transition =
  fixes guard :: "checkpoint \<Rightarrow> checkpoint \<Rightarrow> bool"
    and upd :: "checkpoint \<Rightarrow> checkpoint \<Rightarrow> checkpoint"
  assumes stream: "ck_stream (upd snap d) = ck_stream d"
    and wf: "ckpt_wf snap \<Longrightarrow> ckpt_wf d \<Longrightarrow> guard snap d \<Longrightarrow> ckpt_wf (upd snap d)"
    and changes: "guard snap d \<Longrightarrow> upd snap d \<noteq> d"
begin

lemma preserves:
  "ckpt_wf snap \<Longrightarrow> ckpt_db_wf db \<Longrightarrow>
     ckpt_db_wf (snd (update_one i (guard snap) (upd snap) db))"
  by (auto simp: ckpt_db_wf_def update_one_def stream wf split: option.splits if_splits)

lemma modified_iff:
  "fst (update_one i (guard snap) (upd snap) db)
     \<longleftrightarrow> (\<exists>d. db i = Some d \<and> guard snap d)"
  by (auto simp: update_one_modified changes)

lemma succeeds:
  "db i = Some d \<Longrightarrow> guard snap d \<Longrightarrow>
     update_one i (guard snap) (upd snap) db = (True, db(i \<mapsto> upd snap d))"
  by (simp add: update_one_Some changes)

lemma refused:
  "(\<And>d. db i = Some d \<Longrightarrow> \<not> guard snap d) \<Longrightarrow>
     update_one i (guard snap) (upd snap) db = (False, db)"
  by (auto simp: update_one_def split: option.splits)

end

section \<open>Every operation keeps the contract\<close>

lemma push_event_stream [simp]: "ck_stream (push_event e d) = ck_stream d"
  by (simp add: push_event_def)

lemma neq_by_events: "ck_recovery_events d' = ck_recovery_events d @ [e] \<Longrightarrow> d' \<noteq> d"
  by auto

lemma next_attempt_count_pos: "1 \<le> next_attempt_count k snap" "0 < next_attempt_count k snap"
  by (simp_all add: next_attempt_count_def split: option.splits)

interpretation claim_tr: ckpt_transition
  "\<lambda>snap. claim_query a now" "claim_update a now ids" for a now ids
proof (unfold_locales, goal_cases)
  case (1 snap d) show ?case by (simp add: claim_update_def)
next
  case (2 snap d)
  with distinct_timeline_update [OF 2(1)] show ?case
    by (simp add: claim_update_def ckpt_wf_def [of "_\<lparr>ck_recovery_events := _\<rparr>"]
        next_attempt_count_pos Suc_leI)
next
  case (3 snap d) show ?case by (rule neq_by_events) (simp add: claim_update_def)
qed

interpretation exhausted_tr: ckpt_transition exhausted_query "exhausted_update now" for now
proof (unfold_locales, goal_cases)
  case (1 snap d) show ?case
    by (simp add: exhausted_update_def Let_def split: option.splits list.splits)
next
  case (2 snap d)
  then show ?case
    by (auto simp: exhausted_update_def exhausted_query_def Let_def
        ckpt_wf_def [of "_\<lparr>ck_status := _\<rparr>"] ckpt_wf_def [of "_\<lparr>ck_updated_at := _\<rparr>"]
        ckpt_wf_def [of "_\<lparr>ck_unit_timeline := _\<rparr>"] ckpt_wf_def [of d]
        distinct_timeline_update split: option.splits list.splits)
next
  case (3 snap d)
  then have "ck_status (exhausted_update now snap d) \<noteq> ck_status d"
    by (simp add: exhausted_update_def exhausted_query_def Let_def
        split: option.splits list.splits)
  then show ?case by auto
qed

lemmas doc_wf_defs = ckpt_wf_def [of "push_event _ _"] ckpt_wf_def [of "_\<lparr>ck_updated_at := _\<rparr>"]

interpretation fail_tr: ckpt_transition
  "\<lambda>snap. holder_query snap (fa_unit_key a)" "fail_update a now eid" for a now eid
proof (unfold_locales, goal_cases)
  case (1 snap d) show ?case by (simp add: fail_update_def Let_def)
next
  case (2 snap d)
  with distinct_timeline_update [OF 2(1)] show ?case
    by (simp add: fail_update_def Let_def holder_query_def fail_blocks_def doc_wf_defs)
      (simp add: push_event_def)
next
  case (3 snap d) show ?case
    by (rule neq_by_events) (simp add: fail_update_def Let_def push_event_def)
qed

interpretation release_tr: ckpt_transition
  "\<lambda>snap. holder_query snap k" "release_update k reason now eid" for k reason now eid
proof (unfold_locales, goal_cases)
  case (1 snap d) show ?case by (simp add: release_update_def)
next
  case (2 snap d)
  with distinct_timeline_update [OF 2(1)] show ?case
    by (simp add: release_update_def doc_wf_defs) (simp add: push_event_def)
next
  case (3 snap d) show ?case
    by (rule neq_by_events) (simp add: release_update_def push_event_def)
qed

interpretation complete_tr: ckpt_transition
  "\<lambda>snap. holder_query snap k" "complete_update k cursor hwm now eid" for k cursor hwm now eid
proof (unfold_locales, goal_cases)
  case (1 snap d) show ?case by (simp add: complete_update_def Let_def)
next
  case (2 snap d)
  with distinct_timeline_update [OF 2(1)] show ?case
    by (simp add: complete_update_def Let_def holder_query_def doc_wf_defs)
      (simp add: push_event_def)
next
  case (3 snap d) show ?case
    by (rule neq_by_events) (simp add: complete_update_def Let_def push_event_def)
qed

interpretation advance_tr: ckpt_transition
  "\<lambda>_. advance_query k" "\<lambda>_. advance_update now" for k now
proof (unfold_locales, goal_cases)
  case (1 snap d) show ?case by (simp add: advance_update_def)
next
  case (2 snap d)
  then show ?case
    by (auto simp: advance_update_def advance_query_def ckpt_wf_def)
next
  case (3 snap d)
  then have "ck_status (advance_update now d) \<noteq> ck_status d"
    by (simp add: advance_update_def advance_query_def)
  then show ?case by auto
qed

interpretation resolve_tr: ckpt_transition
  "\<lambda>_. blocked_query k" "resolve_update k action reason op now eid"
  for k action reason op now eid
proof (unfold_locales, goal_cases)
  case (1 snap d) show ?case by (simp add: resolve_update_def)
next
  case (2 snap d)
  with distinct_timeline_update [OF 2(1)] show ?case
    by (simp add: resolve_update_def doc_wf_defs) (simp add: push_event_def)
next
  case (3 snap d) show ?case
    by (rule neq_by_events) (simp add: resolve_update_def push_event_def)
qed

interpretation manual_retry_tr: ckpt_transition
  "\<lambda>_. manual_retry_query k" "manual_retry_update k op reason now eid" for k op reason now eid
proof (unfold_locales, goal_cases)
  case (1 snap d) show ?case by (simp add: manual_retry_update_def)
next
  case (2 snap d)
  with distinct_timeline_update [OF 2(1)] show ?case
    by (simp add: manual_retry_update_def manual_retry_query_def doc_wf_defs)
      (simp add: push_event_def)
next
  case (3 snap d) show ?case
    by (rule neq_by_events) (simp add: manual_retry_update_def push_event_def)
qed

interpretation close_tr: ckpt_transition
  "\<lambda>_. open_stream_query" "close_update k cursor hwm units now eid"
  for k cursor hwm units now eid
proof (unfold_locales, goal_cases)
  case (1 snap d) show ?case by (simp add: close_update_def)
next
  case (2 snap d)
  with close_units_distinct [OF timeline_dict_distinct] show ?case
    by (simp add: close_update_def doc_wf_defs del: close_units.simps)
      (simp add: push_event_def del: close_units.simps)
next
  case (3 snap d) show ?case
    by (rule neq_by_events) (simp add: close_update_def push_event_def)
qed

interpretation review_failure_tr: ckpt_transition
  "\<lambda>_. open_stream_query" "review_failure_update k err code now eid" for k err code now eid
proof (unfold_locales, goal_cases)
  case (1 snap d) show ?case by (simp add: review_failure_update_def)
next
  case (2 snap d)
  with distinct_timeline_update [OF 2(1)] show ?case
    by (simp add: review_failure_update_def doc_wf_defs) (simp add: push_event_def)
next
  case (3 snap d) show ?case
    by (rule neq_by_events) (simp add: review_failure_update_def push_event_def)
qed

end
