(* ===== verification/CheckpointClaim.thy ===== *)
theory CheckpointClaim
  imports CheckpointInv
begin

text \<open>
  The sequential behaviour of \<open>claim_unit\<close> and of the transitions: a closed form of the
  claim on every branch, preservation of the document invariant, and what each operation
  leaves alone.
\<close>

section \<open>The claim in closed form\<close>

text \<open>The document a claim works on: the stored one, or the one it creates.\<close>

definition claim_target :: "claim_args \<Rightarrow> datetime \<Rightarrow> claim_ids \<Rightarrow> ckpt_db \<Rightarrow> checkpoint" where
  "claim_target a now ids db =
     (case db (ca_stream a) of None \<Rightarrow> new_checkpoint a (id_doc ids) now | Some d \<Rightarrow> d)"

definition claim_exhausted :: "claim_args \<Rightarrow> checkpoint \<Rightarrow> bool" where
  "claim_exhausted a d \<longleftrightarrow>
     ck_status d = CK_PROCESSING \<and>
     (case ca_max_attempts a of None \<Rightarrow> False | Some m \<Rightarrow> m \<le> int (ck_attempt_count d))"

lemma new_checkpoint_stream [simp]: "ck_stream (new_checkpoint a did now) = ca_stream a"
  by (simp add: new_checkpoint_def)

lemma create_or_get_eq:
  "create_or_get (new_checkpoint a (id_doc ids) now) db =
     ((claim_target a now ids db, db (ca_stream a) = None),
      db(ca_stream a \<mapsto> claim_target a now ids db))"
  by (auto simp: create_or_get_def claim_target_def split: option.splits)

text \<open>
  The branches of a claim, in the order the code takes them. The error for a checkpoint
  that disappeared is never among them when no other worker deletes documents.
\<close>

definition claim_branches ::
  "claim_args \<Rightarrow> datetime \<Rightarrow> claim_ids \<Rightarrow> checkpoint
     \<Rightarrow> (ckpt_error + checkpoint \<times> bool) \<times> checkpoint" where
  "claim_branches a now ids d =
     (if ck_last_completed_unit_key d = Some (ca_unit_key a) then (Inr (d, False), d)
      else if ca_claim_timeout a < 0 then (Inl NegativeClaimTimeout, d)
      else if (case ca_max_attempts a of None \<Rightarrow> False | Some m \<Rightarrow> m < 1)
        then (Inl MaxAttemptsBelowOne, d)
      else if claim_query a now d
        then (Inr (claim_update a now ids d d, True), claim_update a now ids d d)
      else if claim_exhausted a d then (Inr (d, False), exhausted_update now d d)
      else (Inr (d, False), d))"

lemma claim_unit_eq:
  "claim_unit a now ids db =
     (let (r, d') = claim_branches a now ids (claim_target a now ids db)
      in (r, db(ca_stream a \<mapsto> d')))"
proof -
  let ?d = "claim_target a now ids db" and ?i = "ca_stream a"
  have lost: "claim_lost a now (db(?i \<mapsto> ?d)) =
      (if claim_exhausted a ?d then (Inr (?d, False), db(?i \<mapsto> exhausted_update now ?d ?d))
       else (Inr (?d, False), db(?i \<mapsto> ?d)))"
    by (auto simp: claim_lost_def claim_exhausted_def update_one_def exhausted_query_def
        split: option.splits)
  show ?thesis
    by (simp add: claim_unit_def create_or_get_eq claim_branches_def lost Let_def
        find_one_and_update_def)
qed

section \<open>Preservation of the document invariant\<close>

lemma new_checkpoint_wf [intro, simp]: "ckpt_wf (new_checkpoint a did now)"
  by (simp add: new_checkpoint_def ckpt_wf_def)

lemma ckpt_db_wf_upd:
  "ckpt_db_wf db \<Longrightarrow> ckpt_wf d \<Longrightarrow> ck_stream d = i \<Longrightarrow> ckpt_db_wf (db(i \<mapsto> d))"
  by (auto simp: ckpt_db_wf_def)

lemma claim_target_wf:
  "ckpt_db_wf db \<Longrightarrow>
     ckpt_wf (claim_target a now ids db) \<and> ck_stream (claim_target a now ids db) = ca_stream a"
  by (auto simp: claim_target_def dest: ckpt_db_wfD split: option.splits)

lemma claim_branches_wf:
  assumes "ckpt_wf d" and "claim_branches a now ids d = (r, d')"
  shows "ckpt_wf d' \<and> ck_stream d' = ck_stream d"
  using assms
  by (auto simp: claim_branches_def claim_tr.stream exhausted_tr.stream claim_exhausted_def
      exhausted_query_def intro!: claim_tr.wf exhausted_tr.wf split: if_splits)

lemma claim_unit_wf [inv_intros]:
  assumes "ckpt_db_wf db"
  shows "ckpt_db_wf (snd (claim_unit a now ids db))"
proof -
  obtain r d' where b: "claim_branches a now ids (claim_target a now ids db) = (r, d')"
    by fastforce
  with claim_target_wf [OF assms, of a now ids] have "ckpt_wf d' \<and> ck_stream d' = ca_stream a"
    using claim_branches_wf [OF _ b] by auto
  with assms b show ?thesis by (auto simp: claim_unit_eq intro: ckpt_db_wf_upd)
qed

lemma mark_failed_wf [inv_intros]:
  "ckpt_wf c \<Longrightarrow> ckpt_db_wf db \<Longrightarrow> ckpt_db_wf (snd (mark_failed a now eid c db))"
  by (simp add: mark_failed_def fail_tr.preserves split: prod.split)
    (metis fail_tr.preserves snd_conv)

lemma release_for_review_wf [inv_intros]:
  "ckpt_wf c \<Longrightarrow> ckpt_db_wf db \<Longrightarrow>
     ckpt_db_wf (snd (release_for_review k reason now eid c db))"
  unfolding release_for_review_def by (rule release_tr.preserves)

lemma mark_completed_wf [inv_intros]:
  "ckpt_wf c \<Longrightarrow> ckpt_db_wf db \<Longrightarrow>
     ckpt_db_wf (snd (mark_completed k cur hwm now eid c db))"
  unfolding mark_completed_def by (rule complete_tr.preserves)

lemma advance_wf [inv_intros]:
  "ckpt_wf c \<Longrightarrow> ckpt_db_wf db \<Longrightarrow> ckpt_db_wf (snd (advance k now c db))"
  unfolding advance_def by (rule advance_tr.preserves)

lemma resolve_blocked_wf [inv_intros]:
  "ckpt_wf c \<Longrightarrow> ckpt_db_wf db \<Longrightarrow>
     ckpt_db_wf (snd (resolve_blocked k action reason op now eid c db))"
  by (simp add: resolve_blocked_def split: prod.split)
    (metis resolve_tr.preserves snd_conv)

lemma prepare_manual_retry_wf [inv_intros]:
  "ckpt_wf c \<Longrightarrow> ckpt_db_wf db \<Longrightarrow>
     ckpt_db_wf (snd (prepare_manual_retry op reason now eid c db))"
  by (auto simp: prepare_manual_retry_def manual_retry_tr.preserves split: option.split)

lemma mark_stream_completed_after_review_wf [inv_intros]:
  "ckpt_wf c \<Longrightarrow> ckpt_db_wf db \<Longrightarrow>
     ckpt_db_wf (snd (mark_stream_completed_after_review k cur hwm us now eid c db))"
  unfolding mark_stream_completed_after_review_def by (rule close_tr.preserves)

lemma mark_stream_failed_after_review_wf [inv_intros]:
  "ckpt_wf c \<Longrightarrow> ckpt_db_wf db \<Longrightarrow>
     ckpt_db_wf (snd (mark_stream_failed_after_review k err code now eid c db))"
  unfolding mark_stream_failed_after_review_def by (rule review_failure_tr.preserves)

lemma update_source_context_wf [inv_intros]:
  "ckpt_db_wf db \<Longrightarrow> ckpt_db_wf (snd (update_source_context f r now c db))"
  by (auto simp: update_source_context_def update_one_def ckpt_db_wf_def ckpt_wf_def
      split: option.splits)

section \<open>Frame: other streams, the claim id and the last completed unit\<close>

lemma claim_unit_other:
  "i \<noteq> ca_stream a \<Longrightarrow> snd (claim_unit a now ids db) i = db i"
  by (simp add: claim_unit_eq split: prod.split)

lemma mark_failed_store:
  "snd (mark_failed a now eid c db) =
     (if (case fa_max_attempts a of None \<Rightarrow> False | Some m \<Rightarrow> m < 1) then db
      else snd (update_one (ck_stream c) (holder_query c (fa_unit_key a))
                  (fail_update a now eid c) db))"
  by (simp add: mark_failed_def split: prod.split option.split)

lemma resolve_blocked_store:
  "snd (resolve_blocked k action reason op now eid c db) =
     (if action \<notin> {''RETRY'', ''SKIP''} then db
      else snd (update_one (ck_stream c) (blocked_query k)
                  (resolve_update k action reason op now eid c) db))"
  by (simp add: resolve_blocked_def split: prod.split)

lemma prepare_manual_retry_store:
  "snd (prepare_manual_retry op reason now eid c db) = db \<or>
   (\<exists>k. snd (prepare_manual_retry op reason now eid c db) =
      snd (update_one (ck_stream c) (manual_retry_query k)
             (manual_retry_update k op reason now eid c) db))"
  by (auto simp: prepare_manual_retry_def split: option.split)

lemma update_claim_id [simp]:
  "ck_claim_id (claim_update a now ids snap d) = Some (id_claim ids)"
  "ck_claim_id (exhausted_update now snap d) = ck_claim_id d"
  "ck_claim_id (fail_update fa now eid snap d) = ck_claim_id d"
  "ck_claim_id (release_update k reason now eid snap d) = None"
  "ck_claim_id (complete_update k cur hwm now eid snap d) = ck_claim_id d"
  "ck_claim_id (advance_update now d) = ck_claim_id d"
  "ck_claim_id (resolve_update k action reason op now eid snap d) = ck_claim_id d"
  "ck_claim_id (manual_retry_update k op reason now eid snap d) = ck_claim_id d"
  "ck_claim_id (close_update k cur hwm us now eid snap d) = ck_claim_id d"
  "ck_claim_id (review_failure_update k err code now eid snap d) = ck_claim_id d"
  by (simp_all add: claim_update_def exhausted_update_def fail_update_def release_update_def
      complete_update_def advance_update_def resolve_update_def manual_retry_update_def
      close_update_def review_failure_update_def push_event_def Let_def
      split: option.splits list.splits)

lemma update_last_completed [simp]:
  "ck_last_completed_unit_key (claim_update a now ids snap d) = ck_last_completed_unit_key d"
  "ck_last_completed_unit_key (exhausted_update now snap d) = ck_last_completed_unit_key d"
  "ck_last_completed_unit_key (fail_update fa now eid snap d) = ck_last_completed_unit_key d"
  "ck_last_completed_unit_key (release_update k reason now eid snap d)
     = ck_last_completed_unit_key d"
  "ck_last_completed_unit_key (complete_update k cur hwm now eid snap d) = Some k"
  "ck_last_completed_unit_key (advance_update now d) = ck_last_completed_unit_key d"
  "ck_last_completed_unit_key (resolve_update k action reason op now eid snap d)
     = ck_last_completed_unit_key d"
  "ck_last_completed_unit_key (manual_retry_update k op reason now eid snap d)
     = ck_last_completed_unit_key d"
  "ck_last_completed_unit_key (close_update k cur hwm us now eid snap d) = Some k"
  "ck_last_completed_unit_key (review_failure_update k err code now eid snap d)
     = ck_last_completed_unit_key d"
  by (simp_all add: claim_update_def exhausted_update_def fail_update_def release_update_def
      complete_update_def advance_update_def resolve_update_def manual_retry_update_def
      close_update_def review_failure_update_def push_event_def Let_def
      split: option.splits list.splits)

lemma update_status [simp]:
  "ck_status (claim_update a now ids snap d) = CK_PROCESSING"
  "ck_status (exhausted_update now snap d) = CK_BLOCKED"
  "ck_status (fail_update fa now eid snap d)
     = (if fail_blocks fa snap then CK_BLOCKED else CK_FAILED)"
  "ck_status (release_update k reason now eid snap d) = CK_DISCOVERED"
  "ck_status (complete_update k cur hwm now eid snap d) = CK_COMPLETED"
  "ck_status (advance_update now d) = CK_DISCOVERED"
  "ck_status (resolve_update k action reason op now eid snap d) = CK_DISCOVERED"
  "ck_status (manual_retry_update k op reason now eid snap d) = ck_status d"
  "ck_status (close_update k cur hwm us now eid snap d) = CK_DISCOVERED"
  "ck_status (review_failure_update k err code now eid snap d) = CK_FAILED"
  by (simp_all add: claim_update_def exhausted_update_def fail_update_def release_update_def
      complete_update_def advance_update_def resolve_update_def manual_retry_update_def
      close_update_def review_failure_update_def push_event_def Let_def
      split: option.splits list.splits)

lemma claimed_holds:
  "holder_query (claim_update a now ids snap d) (ca_unit_key a) (claim_update a now ids snap d)"
  by (simp add: holder_query_def claim_update_def)

end
