(* ===== verification/CheckpointRace.thy ===== *)
theory CheckpointRace
  imports CheckpointClaim
begin

text \<open>
  Workers that run the repository's operations concurrently. A step is one atomic database
  command: a claim is a read (\<open>create_or_get\<close>), the conditional \<open>find_one_and_update\<close> on
  the copy read earlier, and, when that matched nothing, a second read and the command
  that blocks an exhausted claim. Between two of them any other worker or operator may
  run, and a worker may stop at any point. \<open>rc_claims\<close> and \<open>rc_log\<close> are history: which
  worker drew a claim id for which claim, and the completions of each stream with the
  predecessor their claim expected.
\<close>

section \<open>Steps\<close>

datatype phase =
  Idle
| Claiming claim_args checkpoint
| Rereading claim_args datetime
| Blocking claim_args checkpoint datetime
| Holding claim_args checkpoint

record race =
  rc_db :: ckpt_db
  rc_phase :: "nat \<Rightarrow> phase"
  rc_claims :: "uuid \<rightharpoonup> nat \<times> claim_args"
  rc_log :: "stream_id \<Rightarrow> (string option \<times> string) list"

text \<open>The early exits of \<open>claim_unit\<close> between the first read and the claim query.\<close>

definition claim_proceeds :: "claim_args \<Rightarrow> checkpoint \<Rightarrow> bool" where
  "claim_proceeds a snap \<longleftrightarrow>
     ck_last_completed_unit_key snap \<noteq> Some (ca_unit_key a) \<and> 0 \<le> ca_claim_timeout a \<and>
     (case ca_max_attempts a of None \<Rightarrow> True | Some m \<Rightarrow> 1 \<le> m)"

definition set_phase :: "nat \<Rightarrow> phase \<Rightarrow> race \<Rightarrow> race" where
  "set_phase w p s = s\<lparr>rc_phase := (rc_phase s)(w := p)\<rparr>"

definition log_completion :: "bool \<Rightarrow> stream_id \<Rightarrow> string option \<times> string \<Rightarrow> race \<Rightarrow> race" where
  "log_completion ok i e s =
     (if ok then s\<lparr>rc_log := (rc_log s)(i := rc_log s i @ [e])\<rparr> else s)"

definition last_completed :: "ckpt_db \<Rightarrow> stream_id \<Rightarrow> string option" where
  "last_completed db i =
     (case db i of None \<Rightarrow> None | Some d \<Rightarrow> ck_last_completed_unit_key d)"

inductive race_step :: "race \<Rightarrow> race \<Rightarrow> bool" where
  read:
    "\<lbrakk>rc_phase s w = Idle;
      create_or_get (new_checkpoint a did now) (rc_db s) = ((snap, created), db)\<rbrakk>
     \<Longrightarrow> race_step s (set_phase w (if claim_proceeds a snap then Claiming a snap else Idle)
                        (s\<lparr>rc_db := db\<rparr>))"
| claim:
    "\<lbrakk>rc_phase s w = Claiming a snap; id_claim ids \<notin> dom (rc_claims s);
      find_one_and_update (ca_stream a) (claim_query a now) (claim_update a now ids snap)
        (rc_db s) = (Some raw, db)\<rbrakk>
     \<Longrightarrow> race_step s (set_phase w (Holding a raw)
           (s\<lparr>rc_db := db, rc_claims := (rc_claims s)(id_claim ids \<mapsto> (w, a))\<rparr>))"
| miss:
    "\<lbrakk>rc_phase s w = Claiming a snap;
      find_one_and_update (ca_stream a) (claim_query a now) (claim_update a now ids snap)
        (rc_db s) = (None, db)\<rbrakk>
     \<Longrightarrow> race_step s (set_phase w (Rereading a now) s)"
| reread:
    "\<lbrakk>rc_phase s w = Rereading a now; rc_db s (ca_stream a) = Some e\<rbrakk>
     \<Longrightarrow> race_step s (set_phase w (if claim_exhausted a e then Blocking a e now else Idle) s)"
| block:
    "rc_phase s w = Blocking a e now
     \<Longrightarrow> race_step s (set_phase w Idle
           (s\<lparr>rc_db := snd (update_one (ca_stream a) (exhausted_query e)
                              (exhausted_update now e) (rc_db s))\<rparr>))"
| complete:
    "\<lbrakk>rc_phase s w = Holding a c;
      mark_completed k cur hwm now eid c (rc_db s) = (ok, db)\<rbrakk>
     \<Longrightarrow> race_step s (log_completion ok (ck_stream c) (ca_expected_previous a, k)
                        (s\<lparr>rc_db := db\<rparr>))"
| fail:
    "rc_phase s w = Holding a c
     \<Longrightarrow> race_step s (s\<lparr>rc_db := snd (mark_failed fa now eid c (rc_db s))\<rparr>)"
| release:
    "rc_phase s w = Holding a c
     \<Longrightarrow> race_step s (s\<lparr>rc_db := snd (release_for_review k reason now eid c (rc_db s))\<rparr>)"
| advance:
    "rc_phase s w = Holding a c
     \<Longrightarrow> race_step s (s\<lparr>rc_db := snd (advance k now c (rc_db s))\<rparr>)"
| stop:
    "race_step s (set_phase w Idle s)"
| resolve:
    "ckpt_wf c
     \<Longrightarrow> race_step s (s\<lparr>rc_db := snd (resolve_blocked k action reason op now eid c (rc_db s))\<rparr>)"
| manual_retry:
    "ckpt_wf c
     \<Longrightarrow> race_step s (s\<lparr>rc_db := snd (prepare_manual_retry op reason now eid c (rc_db s))\<rparr>)"
| close:
    "\<lbrakk>ckpt_wf c;
      mark_stream_completed_after_review k cur hwm us now eid c (rc_db s) = (ok, db)\<rbrakk>
     \<Longrightarrow> race_step s (log_completion ok (ck_stream c)
                        (last_completed (rc_db s) (ck_stream c), k) (s\<lparr>rc_db := db\<rparr>))"
| review_failure:
    "ckpt_wf c
     \<Longrightarrow> race_step s
           (s\<lparr>rc_db := snd (mark_stream_failed_after_review k err code now eid c (rc_db s))\<rparr>)"
| source_context:
    "race_step s (s\<lparr>rc_db := snd (update_source_context f r now c (rc_db s))\<rparr>)"

definition race_init :: race where
  "race_init = \<lparr>rc_db = (\<lambda>_. None), rc_phase = (\<lambda>_. Idle), rc_claims = (\<lambda>_. None),
                rc_log = (\<lambda>_. [])\<rparr>"

inductive race_reach :: "race \<Rightarrow> bool" where
  start: "race_reach race_init"
| step: "\<lbrakk>race_reach s; race_step s t\<rbrakk> \<Longrightarrow> race_reach t"

section \<open>The invariant\<close>

text \<open>
  A chain of completions: each entry expected the unit completed just before it, and the
  last one is what the checkpoint records.
\<close>

fun completion_chain :: "string option \<Rightarrow> (string option \<times> string) list \<Rightarrow> string option \<Rightarrow> bool"
  where
  "completion_chain p [] q = (p = q)"
| "completion_chain p ((e, k) # xs) q = (e = p \<and> completion_chain (Some k) xs q)"

lemma completion_chain_append:
  "completion_chain p xs q \<Longrightarrow> completion_chain p (xs @ [(q, k)]) (Some k)"
  by (induction p xs q rule: completion_chain.induct) auto

text \<open>The claim recorded for the document of a stream that is being processed.\<close>

definition claimed_by :: "race \<Rightarrow> stream_id \<Rightarrow> checkpoint \<Rightarrow> bool" where
  "claimed_by s i d \<longleftrightarrow>
     (\<exists>cid w a. ck_claim_id d = Some cid \<and> rc_claims s cid = Some (w, a) \<and>
        ca_stream a = i \<and> ck_current_unit_key d = Some (ca_unit_key a) \<and>
        ca_expected_previous a = ck_last_completed_unit_key d)"

fun phase_ok :: "race \<Rightarrow> nat \<Rightarrow> phase \<Rightarrow> bool" where
  "phase_ok s w (Claiming a snap) = (ckpt_wf snap \<and> ck_stream snap = ca_stream a)"
| "phase_ok s w (Blocking a e now) = ckpt_wf e"
| "phase_ok s w (Holding a c) =
     (ckpt_wf c \<and> ck_stream c = ca_stream a \<and>
      (\<exists>cid. ck_claim_id c = Some cid \<and> rc_claims s cid = Some (w, a)))"
| "phase_ok s w _ = True"

definition race_inv :: "race \<Rightarrow> bool" where
  "race_inv s \<longleftrightarrow>
     ckpt_db_wf (rc_db s) \<and> (\<forall>w. phase_ok s w (rc_phase s w)) \<and>
     (\<forall>i d. rc_db s i = Some d \<longrightarrow> ck_status d = CK_PROCESSING \<longrightarrow> claimed_by s i d) \<and>
     (\<forall>i. completion_chain None (rc_log s i) (last_completed (rc_db s) i))"

lemma race_inv_init: "race_inv race_init"
  by (simp add: race_inv_def race_init_def ckpt_db_wf_def last_completed_def)

lemma race_invD:
  assumes "race_inv s"
  shows "ckpt_db_wf (rc_db s)" and "phase_ok s w (rc_phase s w)"
    and "rc_db s i = Some d \<Longrightarrow> ck_status d = CK_PROCESSING \<Longrightarrow> claimed_by s i d"
    and "completion_chain None (rc_log s i) (last_completed (rc_db s) i)"
  using assms by (auto simp: race_inv_def)

lemma race_invI:
  assumes "ckpt_db_wf (rc_db s)" and "\<And>w. phase_ok s w (rc_phase s w)"
    and "\<And>i d. rc_db s i = Some d \<Longrightarrow> ck_status d = CK_PROCESSING \<Longrightarrow> claimed_by s i d"
    and "\<And>i. completion_chain None (rc_log s i) (last_completed (rc_db s) i)"
  shows "race_inv s"
  using assms by (simp add: race_inv_def)

lemma phase_ok_cong:
  "rc_claims s = rc_claims t \<Longrightarrow> phase_ok s w p = phase_ok t w p"
  by (cases p) auto

lemma set_phase_simps [simp]:
  "rc_db (set_phase w p s) = rc_db s" "rc_claims (set_phase w p s) = rc_claims s"
  "rc_log (set_phase w p s) = rc_log s"
  "rc_phase (set_phase w p s) = (rc_phase s)(w := p)"
  by (simp_all add: set_phase_def)

lemma race_inv_phase: "race_inv s \<Longrightarrow> phase_ok s w p \<Longrightarrow> race_inv (set_phase w p s)"
  by (auto simp: race_inv_def claimed_by_def phase_ok_cong [of "set_phase w p s" s])

text \<open>
  An update that neither claims nor completes: it keeps the last completed unit, and a
  document it leaves in progress is still in progress for the same claim.
\<close>

definition quiet :: "(checkpoint \<Rightarrow> bool) \<Rightarrow> (checkpoint \<Rightarrow> checkpoint) \<Rightarrow> bool" where
  "quiet g f \<longleftrightarrow>
     (\<forall>d. g d \<longrightarrow>
        ck_last_completed_unit_key (f d) = ck_last_completed_unit_key d \<and>
        (ck_status (f d) = CK_PROCESSING \<longrightarrow>
           ck_status d = CK_PROCESSING \<and> ck_claim_id (f d) = ck_claim_id d \<and>
           ck_current_unit_key (f d) = ck_current_unit_key d))"

lemma race_inv_quiet:
  assumes inv: "race_inv s" and q: "quiet g f"
    and wf: "ckpt_db_wf (snd (update_one i g f (rc_db s)))"
  shows "race_inv (s\<lparr>rc_db := snd (update_one i g f (rc_db s))\<rparr>)"
proof -
  let ?db = "snd (update_one i g f (rc_db s))" and ?t = "s\<lparr>rc_db := snd (update_one i g f (rc_db s))\<rparr>"
  have last: "last_completed ?db j = last_completed (rc_db s) j" for j
    using q by (auto simp: last_completed_def update_one_def quiet_def split: option.splits)
  have proc: "claimed_by ?t j d" if d: "?db j = Some d" "ck_status d = CK_PROCESSING" for j d
  proof -
    obtain e where e: "rc_db s j = Some e" "ck_status e = CK_PROCESSING"
      "ck_claim_id d = ck_claim_id e" "ck_current_unit_key d = ck_current_unit_key e"
      "ck_last_completed_unit_key d = ck_last_completed_unit_key e"
      using d q by (auto simp: update_one_def quiet_def split: option.splits if_splits)
    with race_invD(3) [OF inv e(1,2)] show ?thesis by (auto simp: claimed_by_def)
  qed
  show ?thesis
    using inv wf proc last
    by (auto simp: race_inv_def phase_ok_cong [of ?t s])
qed


section \<open>Every step keeps the invariant\<close>

lemma update_claim_keeps [simp]:
  "ck_current_unit_key (manual_retry_update k op reason now eid snap d) = ck_current_unit_key d"
  by (simp add: manual_retry_update_def push_event_def)

lemma quiet_updates:
  "quiet (exhausted_query e) (exhausted_update now e)"
  "quiet (holder_query c (fa_unit_key fa)) (fail_update fa now eid c)"
  "quiet (holder_query c k) (release_update k reason now eid c)"
  "quiet (advance_query k) (advance_update now)"
  "quiet (blocked_query k) (resolve_update k action reason op now eid c)"
  "quiet (manual_retry_query k) (manual_retry_update k op reason now eid c)"
  "quiet open_stream_query (review_failure_update k err code now eid c)"
  by (simp_all add: quiet_def)

lemma race_inv_same: "race_inv s \<Longrightarrow> race_inv (s\<lparr>rc_db := rc_db s\<rparr>)"
  by simp

lemma race_inv_fail:
  assumes "race_inv s" and "ckpt_wf c"
  shows "race_inv (s\<lparr>rc_db := snd (mark_failed fa now eid c (rc_db s))\<rparr>)"
  using race_inv_quiet [OF assms(1) quiet_updates(2)] mark_failed_wf [OF assms(2)]
    race_invD(1) [OF assms(1)] assms(1)
  by (simp add: mark_failed_store fail_tr.preserves assms(2) split: option.split)

lemma race_inv_resolve:
  assumes "race_inv s" and "ckpt_wf c"
  shows "race_inv (s\<lparr>rc_db := snd (resolve_blocked k action reason op now eid c (rc_db s))\<rparr>)"
  using race_inv_quiet [OF assms(1) quiet_updates(5)] race_invD(1) [OF assms(1)] assms(1)
  by (simp add: resolve_blocked_store resolve_tr.preserves assms(2))

lemma race_inv_manual_retry:
  assumes "race_inv s" and "ckpt_wf c"
  shows "race_inv (s\<lparr>rc_db := snd (prepare_manual_retry op reason now eid c (rc_db s))\<rparr>)"
  using prepare_manual_retry_store [of op reason now eid c "rc_db s"]
    race_inv_quiet [OF assms(1) quiet_updates(6)] race_invD(1) [OF assms(1)] assms(1)
  by (metis manual_retry_tr.preserves assms(2) race_inv_same)

lemma race_inv_context:
  assumes "race_inv s"
  shows "race_inv (s\<lparr>rc_db := snd (update_source_context f r now c (rc_db s))\<rparr>)"
proof (cases "f = None \<and> r = None")
  case True
  with assms show ?thesis by (simp add: update_source_context_def)
next
  case False
  let ?f = "\<lambda>d. d\<lparr>ck_source_file_id := if f = None then ck_source_file_id d else f,
                   ck_runtime_run_id := if r = None then ck_runtime_run_id d else r,
                   ck_updated_at := now\<rparr>"
  have q: "quiet (\<lambda>d. ck_id d = ck_id c) ?f" by (simp add: quiet_def)
  have eq: "snd (update_source_context f r now c (rc_db s))
      = snd (update_one (ck_stream c) (\<lambda>d. ck_id d = ck_id c) ?f (rc_db s))"
    by (simp only: update_source_context_def False if_False)
  have wf: "ckpt_db_wf (snd (update_source_context f r now c (rc_db s)))"
    by (rule update_source_context_wf) (rule race_invD(1) [OF assms])
  show ?thesis
    unfolding eq by (rule race_inv_quiet [OF assms q]) (rule wf [unfolded eq])
qed

lemma race_inv_log:
  assumes inv: "race_inv s" and wf: "ckpt_db_wf db" and c: "ck_stream c = i"
    and upd: "update_one i g f (rc_db s) = (ok, db)"
    and ok: "ok = (\<exists>d. rc_db s i = Some d \<and> g d)"
    and f: "\<And>d. g d \<Longrightarrow> ck_status (f d) \<noteq> CK_PROCESSING \<and>
                          ck_last_completed_unit_key (f d) = Some k"
    and p: "\<And>d. rc_db s i = Some d \<Longrightarrow> g d \<Longrightarrow> p = ck_last_completed_unit_key d"
  shows "race_inv (log_completion ok (ck_stream c) (p, k) (s\<lparr>rc_db := db\<rparr>))"
proof (cases ok)
  case False
  with upd ok have "db = rc_db s" by (auto simp: update_one_def split: option.splits if_splits)
  with inv False show ?thesis by (simp add: log_completion_def)
next
  case True
  with ok obtain d where d: "rc_db s i = Some d" "g d" by auto
  with upd have db: "db = (rc_db s)(i \<mapsto> f d)" by (auto simp: update_one_def)
  let ?t = "log_completion ok (ck_stream c) (p, k) (s\<lparr>rc_db := db\<rparr>)"
  have t: "rc_db ?t = db" "rc_claims ?t = rc_claims s" "rc_phase ?t = rc_phase s"
    "rc_log ?t = (rc_log s)(i := rc_log s i @ [(p, k)])"
    using True c by (simp_all add: log_completion_def)
  have "completion_chain None (rc_log s i) p"
    using race_invD(4) [OF inv, of i] d p by (simp add: last_completed_def)
  then have "completion_chain None (rc_log s i @ [(p, k)]) (Some k)"
    by (rule completion_chain_append)
  moreover have "completion_chain None (rc_log s j) (last_completed db j)" if "j \<noteq> i" for j
    using race_invD(4) [OF inv, of j] that db by (simp add: last_completed_def)
  moreover have "claimed_by ?t j e" if "db j = Some e" "ck_status e = CK_PROCESSING" for j e
  proof -
    from that db d f have "rc_db s j = Some e" by (auto split: if_splits)
    from race_invD(3) [OF inv this that(2)] t show ?thesis by (auto simp: claimed_by_def)
  qed
  moreover have "last_completed db i = Some k"
    using d f by (simp add: db last_completed_def)
  ultimately show ?thesis
    using wf race_invD(2) [OF inv]
    by (intro race_invI) (auto simp: t(1,3,4) phase_ok_cong [OF t(2)])
qed

lemma race_inv_complete:
  assumes inv: "race_inv s" and ph: "rc_phase s w = Holding a c"
    and m: "mark_completed k cur hwm now eid c (rc_db s) = (ok, db)"
  shows "race_inv (log_completion ok (ck_stream c) (ca_expected_previous a, k) (s\<lparr>rc_db := db\<rparr>))"
proof (rule race_inv_log [OF inv _ refl])
  from race_invD(2) [OF inv, of w] ph obtain cid where
    c: "ckpt_wf c" "ck_stream c = ca_stream a" "ck_claim_id c = Some cid"
      "rc_claims s cid = Some (w, a)" by auto
  show "ckpt_db_wf db"
    using mark_completed_wf [OF c(1) race_invD(1) [OF inv]] m by (metis snd_conv)
  show "update_one (ck_stream c) (holder_query c k) (complete_update k cur hwm now eid c)
      (rc_db s) = (ok, db)" using m by (simp add: mark_completed_def)
  with complete_tr.modified_iff
  show "ok = (\<exists>d. rc_db s (ck_stream c) = Some d \<and> holder_query c k d)" by (metis fst_conv)
  show "ca_expected_previous a = ck_last_completed_unit_key d"
    if d: "rc_db s (ck_stream c) = Some d" "holder_query c k d" for d
    using race_invD(3) [OF inv d(1)] d(2) c by (auto simp: claimed_by_def holder_query_def)
qed simp_all

lemma race_inv_close:
  assumes inv: "race_inv s" and c: "ckpt_wf c"
    and m: "mark_stream_completed_after_review k cur hwm us now eid c (rc_db s) = (ok, db)"
  shows "race_inv (log_completion ok (ck_stream c)
           (last_completed (rc_db s) (ck_stream c), k) (s\<lparr>rc_db := db\<rparr>))"
proof (rule race_inv_log [OF inv _ refl])
  show "ckpt_db_wf db"
    using mark_stream_completed_after_review_wf [OF c race_invD(1) [OF inv]] m
    by (metis snd_conv)
  show "update_one (ck_stream c) open_stream_query (close_update k cur hwm us now eid c)
      (rc_db s) = (ok, db)" using m by (simp add: mark_stream_completed_after_review_def)
  with close_tr.modified_iff
  show "ok = (\<exists>d. rc_db s (ck_stream c) = Some d \<and> open_stream_query d)" by (metis fst_conv)
qed (simp_all add: last_completed_def)

lemma race_inv_claim:
  assumes inv: "race_inv s" and ph: "rc_phase s w = Claiming a snap"
    and fresh: "id_claim ids \<notin> dom (rc_claims s)"
    and m: "find_one_and_update (ca_stream a) (claim_query a now) (claim_update a now ids snap)
              (rc_db s) = (Some raw, db)"
  shows "race_inv (set_phase w (Holding a raw)
           (s\<lparr>rc_db := db, rc_claims := (rc_claims s)(id_claim ids \<mapsto> (w, a))\<rparr>))"
proof -
  let ?i = "ca_stream a"
  from m obtain d where d: "rc_db s ?i = Some d" "claim_query a now d"
    and raw: "raw = claim_update a now ids snap d" and db: "db = (rc_db s)(?i \<mapsto> raw)"
    by (auto simp: find_one_and_update_def split: option.splits if_splits)
  from race_invD(2) [OF inv, of w] ph have snap: "ckpt_wf snap" by simp
  from ckpt_db_wfD [OF race_invD(1) [OF inv] d(1)] snap d(2)
  have raw_ok: "ckpt_wf raw \<and> ck_stream raw = ?i"
    by (simp add: raw claim_tr.wf claim_tr.stream)
  have keeps: "phase_ok (s\<lparr>rc_db := db, rc_claims := (rc_claims s)(id_claim ids \<mapsto> (w, a))\<rparr>) v p"
    if "phase_ok s v p" for v p
    using that fresh by (cases p) auto
  have last: "last_completed db j = last_completed (rc_db s) j" for j
    using d(1) by (simp add: db last_completed_def raw)
  have key: "ck_current_unit_key raw = Some (ca_unit_key a)"
    by (simp add: raw claim_update_def)
  let ?t = "set_phase w (Holding a raw)
              (s\<lparr>rc_db := db, rc_claims := (rc_claims s)(id_claim ids \<mapsto> (w, a))\<rparr>)"
  have cong: "phase_ok ?t v p
      = phase_ok (s\<lparr>rc_db := db, rc_claims := (rc_claims s)(id_claim ids \<mapsto> (w, a))\<rparr>) v p" for v p
    by (rule phase_ok_cong) simp
  show ?thesis
  proof (rule race_invI)
    show "ckpt_db_wf (rc_db ?t)"
      using race_invD(1) [OF inv] raw_ok by (simp add: db ckpt_db_wf_upd)
    show "completion_chain None (rc_log ?t i) (last_completed (rc_db ?t) i)" for i
      using race_invD(4) [OF inv, of i] by (simp add: last)
    show "phase_ok ?t v (rc_phase ?t v)" for v
      using keeps race_invD(2) [OF inv, of v] raw_ok by (simp add: cong) (simp add: raw)
    show "claimed_by ?t j e" if "rc_db ?t j = Some e" "ck_status e = CK_PROCESSING" for j e
    proof (cases "j = ?i")
      case True
      have "e = raw" using that(1) True db by simp
      moreover have "ck_claim_id raw = Some (id_claim ids)"
        "ck_last_completed_unit_key raw = ca_expected_previous a"
        using d(2) by (simp_all add: raw claim_query_def)
      moreover have "rc_claims ?t (id_claim ids) = Some (w, a)" by simp
      ultimately show ?thesis unfolding claimed_by_def using key True by metis
    next
      case False
      with that db have "rc_db s j = Some e" by simp
      from race_invD(3) [OF inv this that(2)] obtain cid v b where
        b: "ck_claim_id e = Some cid" "rc_claims s cid = Some (v, b)" "ca_stream b = j"
          "ck_current_unit_key e = Some (ca_unit_key b)"
          "ca_expected_previous b = ck_last_completed_unit_key e"
        unfolding claimed_by_def by blast
      with fresh have "rc_claims ?t cid = Some (v, b)" by auto
      with b show ?thesis unfolding claimed_by_def by blast
    qed
  qed
qed

lemma race_inv_read:
  assumes inv: "race_inv s"
    and m: "create_or_get (new_checkpoint a did now) (rc_db s) = ((snap, created), db)"
  shows "race_inv (set_phase w (if claim_proceeds a snap then Claiming a snap else Idle)
                     (s\<lparr>rc_db := db\<rparr>))"
proof -
  note wf = race_invD(1) [OF inv]
  have snap: "ckpt_wf snap \<and> ck_stream snap = ca_stream a"
    and db: "db = rc_db s \<or> rc_db s (ca_stream a) = None \<and>
               db = (rc_db s)(ca_stream a \<mapsto> new_checkpoint a did now)"
    using m by (auto simp: create_or_get_def dest: ckpt_db_wfD [OF wf] split: option.splits)
  have new: "ck_status (new_checkpoint a did now) = CK_ABSENT"
    "ck_last_completed_unit_key (new_checkpoint a did now) = None"
    by (simp_all add: new_checkpoint_def)
  have last: "last_completed db i = last_completed (rc_db s) i" for i
    using db new by (auto simp: last_completed_def)
  have inv': "race_inv (s\<lparr>rc_db := db\<rparr>)"
  proof (rule race_invI)
    show "ckpt_db_wf (rc_db (s\<lparr>rc_db := db\<rparr>))"
      using db wf by (auto intro: ckpt_db_wf_upd)
    show "phase_ok (s\<lparr>rc_db := db\<rparr>) v (rc_phase (s\<lparr>rc_db := db\<rparr>) v)" for v
      using race_invD(2) [OF inv, of v] by (simp add: phase_ok_cong [of "s\<lparr>rc_db := db\<rparr>" s])
    show "claimed_by (s\<lparr>rc_db := db\<rparr>) j e"
      if "rc_db (s\<lparr>rc_db := db\<rparr>) j = Some e" "ck_status e = CK_PROCESSING" for j e
    proof -
      from that db new have "rc_db s j = Some e" by (auto split: if_splits)
      from race_invD(3) [OF inv this that(2)] show ?thesis by (simp add: claimed_by_def)
    qed
    show "completion_chain None (rc_log (s\<lparr>rc_db := db\<rparr>) i)
        (last_completed (rc_db (s\<lparr>rc_db := db\<rparr>)) i)" for i
      using race_invD(4) [OF inv, of i] by (simp add: last)
  qed
  with snap show ?thesis by (auto intro!: race_inv_phase)
qed

lemma race_inv_step: "race_step s t \<Longrightarrow> race_inv s \<Longrightarrow> race_inv t"
proof (induction rule: race_step.induct)
  case (block s w a e now)
  then have "ckpt_wf e" using race_invD(2) [OF block(2), of w] by simp
  with block race_invD(1) [OF block(2)] have "race_inv (s\<lparr>rc_db := snd (update_one (ca_stream a)
      (exhausted_query e) (exhausted_update now e) (rc_db s))\<rparr>)"
    by (intro race_inv_quiet quiet_updates exhausted_tr.preserves)
  then show ?case by (rule race_inv_phase) simp
next
  case (fail s w a c fa now eid)
  then show ?case using race_invD(2) [OF fail(2), of w] by (simp add: race_inv_fail)
next
  case (release s w a c k reason now eid)
  then have "ckpt_wf c" using race_invD(2) [OF release(2), of w] by simp
  with release race_invD(1) [OF release(2)] show ?case
    unfolding release_for_review_def
    by (intro race_inv_quiet quiet_updates release_tr.preserves)
next
  case (advance s w a c k now)
  then have "ckpt_wf c" using race_invD(2) [OF advance(2), of w] by simp
  with advance race_invD(1) [OF advance(2)] show ?case
    unfolding advance_def
    by (intro race_inv_quiet quiet_updates advance_tr.preserves)
next
  case (review_failure c s k err code now eid)
  then show ?case
    unfolding mark_stream_failed_after_review_def
    by (intro race_inv_quiet quiet_updates review_failure_tr.preserves race_invD(1))
next
  case (reread s w a now e)
  then have "ckpt_wf e" using ckpt_db_wfD [OF race_invD(1)] by blast
  with reread(3) show ?case by (auto intro: race_inv_phase)
next
  case read
  then show ?case by (intro race_inv_read)
qed (simp_all add: race_inv_claim race_inv_complete race_inv_resolve
      race_inv_manual_retry race_inv_close race_inv_context race_inv_phase)

lemma race_reach_inv: "race_reach s \<Longrightarrow> race_inv s"
  by (induction rule: race_reach.induct) (auto intro: race_inv_init race_inv_step)

end
