(* ===== verification/CheckpointProps.thy ===== *)
theory CheckpointProps
  imports CheckpointRace
begin

text \<open>
  Properties of the checkpoint repository: what a claim returns on every branch, how
  attempts are counted, and what concurrent workers can and cannot do to each other.
\<close>

section \<open>A claim is a run of the atomic steps\<close>

lemma race_step_set_phase:
  "race_reach s \<Longrightarrow> race_step s t \<Longrightarrow> race_reach t"
  by (rule race_reach.step)

lemma claim_wins_branch:
  assumes "claim_unit a now ids db = (Inr (c, True), db')"
  shows "claim_proceeds a (claim_target a now ids db)"
    and "claim_query a now (claim_target a now ids db)"
    and "c = claim_update a now ids (claim_target a now ids db) (claim_target a now ids db)"
    and "db' = db(ca_stream a \<mapsto> c)"
  using assms
  by (auto simp: claim_unit_eq claim_branches_def claim_proceeds_def
      split: if_splits option.splits)

lemma race_claim_run:
  assumes reach: "race_reach s" and idle: "rc_phase s w = Idle"
    and fresh: "id_claim ids \<notin> dom (rc_claims s)"
    and won: "claim_unit a now ids (rc_db s) = (Inr (c, True), db')"
  shows "race_reach (set_phase w (Holding a c)
           (s\<lparr>rc_db := db', rc_claims := (rc_claims s)(id_claim ids \<mapsto> (w, a))\<rparr>))"
proof -
  let ?d = "claim_target a now ids (rc_db s)"
  let ?s1 = "set_phase w (Claiming a ?d) (s\<lparr>rc_db := (rc_db s)(ca_stream a \<mapsto> ?d)\<rparr>)"
  note b = claim_wins_branch [OF won]
  have "race_step s (set_phase w (if claim_proceeds a ?d then Claiming a ?d else Idle)
                       (s\<lparr>rc_db := (rc_db s)(ca_stream a \<mapsto> ?d)\<rparr>))"
    by (rule race_step.read [OF idle]) (rule create_or_get_eq)
  then have one: "race_reach ?s1" using reach b(1) by (auto intro: race_reach.step)
  have "race_step ?s1 (set_phase w (Holding a c)
      (?s1\<lparr>rc_db := db', rc_claims := (rc_claims ?s1)(id_claim ids \<mapsto> (w, a))\<rparr>))"
    using fresh b by (intro race_step.claim) (auto simp: find_one_and_update_def)
  moreover have "set_phase w (Holding a c)
      (?s1\<lparr>rc_db := db', rc_claims := (rc_claims ?s1)(id_claim ids \<mapsto> (w, a))\<rparr>)
    = set_phase w (Holding a c)
        (s\<lparr>rc_db := db', rc_claims := (rc_claims s)(id_claim ids \<mapsto> (w, a))\<rparr>)"
    by (simp add: set_phase_def)
  ultimately show ?thesis using one race_reach.step by metis
qed

section \<open>Fencing\<close>

lemma holder_claim_ids_differ:
  assumes "race_reach s" and "rc_phase s w = Holding a c" and "rc_phase s v = Holding b e"
    and "w \<noteq> v"
  shows "ck_claim_id c \<noteq> ck_claim_id e"
  using race_invD(2) [OF race_reach_inv [OF assms(1)], of w]
    race_invD(2) [OF race_reach_inv [OF assms(1)], of v] assms(2-4)
  by auto

lemma refused_transitions:
  assumes "db (ck_stream c) = Some d" and "ck_claim_id d \<noteq> ck_claim_id c"
  shows "mark_completed k cur hwm now eid c db = (False, db)"
    and "snd (mark_failed fa now eid c db) = db"
    and "release_for_review k reason now eid c db = (False, db)"
  using assms
  by (auto simp: mark_completed_def mark_failed_def release_for_review_def update_one_def
      holder_query_def split: option.split)


section \<open>Counting attempts\<close>

text \<open>One attempt: claim the unit and, if the claim was acquired, fail it.\<close>

definition attempt_cycle ::
  "claim_args \<Rightarrow> fail_args \<Rightarrow> datetime \<Rightarrow> claim_ids \<Rightarrow> uuid \<Rightarrow> ckpt_db \<Rightarrow> ckpt_db" where
  "attempt_cycle a fa now ids eid db =
     (case claim_unit a now ids db of
        (Inr (c, True), db') \<Rightarrow> snd (mark_failed fa now eid c db')
      | (_, db') \<Rightarrow> db')"

fun attempts ::
  "claim_args \<Rightarrow> (nat \<Rightarrow> fail_args) \<Rightarrow> (nat \<Rightarrow> datetime) \<Rightarrow> (nat \<Rightarrow> claim_ids) \<Rightarrow> (nat \<Rightarrow> uuid)
     \<Rightarrow> nat \<Rightarrow> ckpt_db \<Rightarrow> ckpt_db" where
  "attempts a fa clock ids eid 0 db = db"
| "attempts a fa clock ids eid (Suc n) db =
     attempt_cycle a (fa n) (clock n) (ids n) (eid n) (attempts a fa clock ids eid n db)"

text \<open>What is stored after \<open>n\<close> failed attempts with a budget of \<open>m\<close>.\<close>

definition after_attempts :: "claim_args \<Rightarrow> nat \<Rightarrow> nat \<Rightarrow> checkpoint \<Rightarrow> bool" where
  "after_attempts a m n d \<longleftrightarrow>
     ck_attempt_count d = min n m \<and> ck_last_completed_unit_key d = None \<and>
     ck_status d = (if m \<le> n then CK_BLOCKED else CK_FAILED) \<and>
     ck_retryable d = Some True \<and> (m \<le> n \<longrightarrow> ck_next_retry_at d = None) \<and> ck_stream d = ca_stream a \<and>
     ck_current_unit_key d = Some (ca_unit_key a) \<and>
     map_option su_attempt_count (find_unit (ca_unit_key a) d) = Some (min n m)"

lemma find_unit_claimed:
  "find_unit k (claim_update a now ids snap d) =
     (if k = ca_unit_key a
      then Some (apply_timeline_args now
             ((timeline_defaults SU_PROCESSING)
                \<lparr>ta_page := none_if_null (dget (claim_metadata a) ''page''),
                 ta_label := none_if_null (dget (claim_metadata a) ''label''),
                 ta_cursor_before := ca_cursor_before a,
                 ta_attempt_count := Some (next_attempt_count (ca_unit_key a) snap),
                 ta_started_at := Some now, ta_clear_error := True\<rparr>)
             (case find_unit (ca_unit_key a) snap of
                None \<Rightarrow> new_unit_summary (ca_unit_key a) now | Some u \<Rightarrow> u))
      else find_unit k snap)"
  by (simp add: claim_update_def find_unit_def [of _ "_\<lparr>ck_recovery_events := _\<rparr>"]
      find_timeline_update cong: option.case_cong)

lemma find_unit_push [simp]: "find_unit k (push_event e d) = find_unit k d"
  by (simp add: push_event_def find_unit_def)

lemma find_unit_failed:
  "map_option su_attempt_count (find_unit k (fail_update fa now eid snap d)) =
     (if k = fa_unit_key fa then Some (ck_attempt_count snap)
      else map_option su_attempt_count (find_unit k snap))"
  by (simp add: fail_update_def Let_def find_unit_def [of _ "_\<lparr>ck_unit_timeline := _\<rparr>"]
      find_timeline_update apply_timeline_args_def)

lemma attempt_cycle_doc:
  assumes d: "db (ca_stream a) = Some d" and t: "0 \<le> ca_claim_timeout a"
    and m: "ca_max_attempts a = Some (int m)" "1 \<le> m"
    and fa: "fa_unit_key fa = ca_unit_key a" "fa_max_attempts fa = Some (int m)"
    and s: "ck_stream d = ca_stream a"
    and q: "claim_query a now d" "ck_last_completed_unit_key d \<noteq> Some (ca_unit_key a)"
  shows "attempt_cycle a fa now ids eid db (ca_stream a)
           = Some (fail_update fa now eid (claim_update a now ids d d) (claim_update a now ids d d))"
proof -
  let ?c = "claim_update a now ids d d"
  have "claim_unit a now ids db = (Inr (?c, True), db(ca_stream a \<mapsto> ?c))"
    using assms by (simp add: claim_unit_eq claim_target_def claim_branches_def)
  moreover have "ck_stream ?c = ca_stream a"
    using s by (simp add: claim_tr.stream)
  ultimately show ?thesis
    using fa m claimed_holds [of a now ids d d]
    by (simp add: attempt_cycle_def mark_failed_store update_one_def)
qed

lemma fail_update_fields:
  "ck_attempt_count (fail_update fa now eid snap d) = ck_attempt_count d"
  "ck_retryable (fail_update fa now eid snap d) = Some (fa_retryable fa)"
  "ck_current_unit_key (fail_update fa now eid snap d) = ck_current_unit_key d"
  "ck_next_retry_at (fail_update fa now eid snap d)
     = (if fail_blocks fa snap then None else fa_next_retry_at fa)"
  by (simp_all add: fail_update_def Let_def push_event_def)

lemma claim_update_fields:
  "ck_attempt_count (claim_update a now ids snap d) = next_attempt_count (ca_unit_key a) snap"
  "ck_current_unit_key (claim_update a now ids snap d) = Some (ca_unit_key a)"
  by (simp_all add: claim_update_def)

lemma after_cycle:
  assumes d: "db (ca_stream a) = Some d" and t: "0 \<le> ca_claim_timeout a"
    and m: "ca_max_attempts a = Some (int m)" "1 \<le> m" "n < m"
    and p: "ca_expected_previous a = None"
    and fa: "fa_unit_key fa = ca_unit_key a" "fa_max_attempts fa = Some (int m)"
      "fa_retryable fa"
    and s: "ck_stream d = ca_stream a" "ck_last_completed_unit_key d = None"
    and q: "claim_idle now d" and c: "next_attempt_count (ca_unit_key a) d = Suc n"
  shows "\<exists>e. attempt_cycle a fa now ids eid db (ca_stream a) = Some e \<and>
             after_attempts a m (Suc n) e \<and>
             ck_next_retry_at e = (if m \<le> Suc n then None else fa_next_retry_at fa)"
proof -
  have "claim_query a now d" using q s p by (simp add: claim_query_def)
  then have e: "attempt_cycle a fa now ids eid db (ca_stream a)
      = Some (fail_update fa now eid (claim_update a now ids d d) (claim_update a now ids d d))"
    using assms by (intro attempt_cycle_doc) simp_all
  show ?thesis
    using s m fa c
    by (simp add: e after_attempts_def fail_update_fields claim_update_fields
        find_unit_failed fail_tr.stream claim_tr.stream fail_blocks_def
        del: map_option_eq_Some split: if_splits)
qed

lemma attempts_state:
  assumes db: "db (ca_stream a) = None" and t: "0 \<le> ca_claim_timeout a"
    and m: "ca_max_attempts a = Some (int m)" "1 \<le> m" and p: "ca_expected_previous a = None"
    and fa: "\<And>n. fa_unit_key (fa n) = ca_unit_key a \<and> fa_max_attempts (fa n) = Some (int m) \<and>
                  fa_retryable (fa n) \<and>
                  (case fa_next_retry_at (fa n) of None \<Rightarrow> True | Some r \<Rightarrow> r \<le> clock (Suc n))"
  shows "\<exists>d. attempts a fa clock ids eid (Suc n) db (ca_stream a) = Some d \<and>
             after_attempts a m (Suc n) d \<and>
             (case ck_next_retry_at d of None \<Rightarrow> True | Some r \<Rightarrow> r \<le> clock (Suc n))"
proof (induction n)
  case 0
  let ?d = "new_checkpoint a (id_doc (ids 0)) (clock 0)"
  have "\<exists>e. attempt_cycle a (fa 0) (clock 0) (ids 0) (eid 0) (db(ca_stream a \<mapsto> ?d)) (ca_stream a)
      = Some e \<and> after_attempts a m (Suc 0) e \<and>
      ck_next_retry_at e = (if m \<le> Suc 0 then None else fa_next_retry_at (fa 0))"
    using t m p fa [of 0]
    by (intro after_cycle [where d = ?d])
      (simp_all add: new_checkpoint_def claim_idle_def next_attempt_count_def find_unit_def)
  moreover have "attempt_cycle a (fa 0) (clock 0) (ids 0) (eid 0) (db(ca_stream a \<mapsto> ?d))
      = attempt_cycle a (fa 0) (clock 0) (ids 0) (eid 0) db"
    using db by (simp add: attempt_cycle_def claim_unit_eq claim_target_def)
  ultimately show ?case using fa [of 0] by (auto split: if_splits)
next
  case (Suc n)
  then obtain d where d: "attempts a fa clock ids eid (Suc n) db (ca_stream a) = Some d"
    "after_attempts a m (Suc n) d"
    "case ck_next_retry_at d of None \<Rightarrow> True | Some r \<Rightarrow> r \<le> clock (Suc n)" by blast
  show ?case
  proof (cases "m \<le> Suc n")
    case True
    with d(2) have b: "ck_status d = CK_BLOCKED" by (simp add: after_attempts_def)
    then have "attempts a fa clock ids eid (Suc (Suc n)) db (ca_stream a) = Some d"
      using d(1,2) t m True
      by (simp add: attempt_cycle_def claim_unit_eq claim_target_def claim_branches_def
          claim_query_def claim_idle_def claim_stale_def claim_exhausted_def after_attempts_def)
    moreover have "after_attempts a m (Suc (Suc n)) d"
      using d(2) True by (simp add: after_attempts_def)
    moreover have "ck_next_retry_at d = None"
      using d(2) True by (simp add: after_attempts_def)
    ultimately show ?thesis by simp
  next
    case False
    then have "next_attempt_count (ca_unit_key a) d = Suc (Suc n)" "claim_idle (clock (Suc n)) d"
      using d(2,3) by (auto simp: after_attempts_def next_attempt_count_def claim_idle_def)
    then have "\<exists>e. attempt_cycle a (fa (Suc n)) (clock (Suc n)) (ids (Suc n)) (eid (Suc n))
          (attempts a fa clock ids eid (Suc n) db) (ca_stream a) = Some e \<and>
        after_attempts a m (Suc (Suc n)) e \<and>
        ck_next_retry_at e = (if m \<le> Suc (Suc n) then None else fa_next_retry_at (fa (Suc n)))"
      using d(1,2) t m p fa [of "Suc n"] False
      by (intro after_cycle [where d = d]) (simp_all add: after_attempts_def)
    then show ?thesis using fa [of "Suc n"] by (auto split: if_splits)
  qed
qed


section \<open>Properties: one claim\<close>

text \<open>The outcome of \<open>claim_unit\<close> on every input, when nothing runs in between: the unit
  completed last is never claimed again, a negative timeout and a non-positive attempt bound are
  errors that leave the document as it was, a claim is acquired exactly when its query matches,
  and a claim that finds another one out of attempts blocks it. Only the stream's own document
  is written, and the error for a checkpoint that disappeared never occurs.\<close>

theorem claim_unit_outcome:
  "claim_unit a now ids db =
     (let d = claim_target a now ids db;
          store = (\<lambda>e. db(ca_stream a \<mapsto> e))
      in if ck_last_completed_unit_key d = Some (ca_unit_key a) then (Inr (d, False), store d)
         else if ca_claim_timeout a < 0 then (Inl NegativeClaimTimeout, store d)
         else if (case ca_max_attempts a of None \<Rightarrow> False | Some m \<Rightarrow> m < 1)
           then (Inl MaxAttemptsBelowOne, store d)
         else if claim_query a now d
           then (Inr (claim_update a now ids d d, True), store (claim_update a now ids d d))
         else if claim_exhausted a d then (Inr (d, False), store (exhausted_update now d d))
         else (Inr (d, False), store d))"
  by (simp add: claim_unit_eq claim_branches_def Let_def)

text \<open>What an acquired claim leaves: the stored document is the returned one, in
  PROCESSING for the unit under the fresh claim id, started now; the unit's attempt count is
  one more than its timeline entry said, whatever the other units' counts are; the timeline
  entries of the other units, the last completed unit and every other stream are unchanged.\<close>

theorem acquired_claim_effect:
  assumes "claim_unit a now ids db = (Inr (c, True), db')"
  shows "db' (ca_stream a) = Some c \<and> ck_status c = CK_PROCESSING \<and>
    ck_current_unit_key c = Some (ca_unit_key a) \<and> ck_claim_id c = Some (id_claim ids) \<and>
    ck_started_at c = Some now \<and> ck_last_completed_unit_key c = ca_expected_previous a \<and>
    ck_attempt_count c = next_attempt_count (ca_unit_key a) (claim_target a now ids db) \<and>
    map_option su_attempt_count (find_unit (ca_unit_key a) c) = Some (ck_attempt_count c) \<and>
    map_option su_status (find_unit (ca_unit_key a) c) = Some SU_PROCESSING \<and>
    (\<forall>k. k = ca_unit_key a \<or> find_unit k c = find_unit k (claim_target a now ids db)) \<and>
    (\<forall>i. i = ca_stream a \<or> db' i = db i)"
  using claim_wins_branch [OF assms]
  by (simp add: find_unit_claimed claim_update_fields claim_query_def
      apply_timeline_args_def timeline_defaults_def del: map_option_eq_Some)
    (simp add: claim_update_def)

section \<open>Properties: attempts\<close>

text \<open>C39: Attempts are bounded per unit. From a stream that does not exist yet, \<open>n + 1\<close>
  rounds of claiming the unit and failing it retryably, each retry time reached before the next
  round, leave the attempt count at \<open>min (n + 1) m\<close>: the unit is FAILED and claimable up to the
  last allowed attempt, is BLOCKED by the \<open>m\<close>-th failure, and no later round changes that.\<close>

theorem attempts_block_at_maximum:
  assumes "db (ca_stream a) = None" and "0 \<le> ca_claim_timeout a"
    and "ca_max_attempts a = Some (int m)" and "1 \<le> m" and "ca_expected_previous a = None"
    and "\<And>n. fa_unit_key (fa n) = ca_unit_key a \<and> fa_max_attempts (fa n) = Some (int m) \<and>
             fa_retryable (fa n) \<and>
             (case fa_next_retry_at (fa n) of None \<Rightarrow> True | Some r \<Rightarrow> r \<le> clock (Suc n))"
  shows "\<exists>d. attempts a fa clock ids eid (Suc n) db (ca_stream a) = Some d \<and>
             ck_attempt_count d = min (Suc n) m \<and>
             ck_status d = (if m \<le> Suc n then CK_BLOCKED else CK_FAILED) \<and>
             ck_current_unit_key d = Some (ca_unit_key a)"
proof -
  have "\<exists>d. attempts a fa clock ids eid (Suc n) db (ca_stream a) = Some d \<and>
             after_attempts a m (Suc n) d \<and>
             (case ck_next_retry_at d of None \<Rightarrow> True | Some r \<Rightarrow> r \<le> clock (Suc n))"
    by (intro attempts_state assms)
  then show ?thesis by (auto simp: after_attempts_def)
qed


section \<open>A concrete race\<close>

text \<open>Two workers claim page 1 of one stream, the second when the first claim is stale.\<close>

definition demo_claim :: claim_args where
  "demo_claim =
     \<lparr>ca_stream = \<lparr>si_partner = ''acme'', si_fetch_config_id = ''fc'', si_source_type = ''API'',
                   si_stream_key = ''daily'', si_mode = SCHEDULED\<rparr>,
      ca_unit_key = ''p1'', ca_cursor_before = None, ca_expected_previous = None,
      ca_max_attempts = Some 3, ca_config_version = None, ca_source_endpoint = None,
      ca_stream_metadata = None, ca_runtime_run_id = None, ca_source_file_id = None,
      ca_attempt = None, ca_claim_timeout = 900\<rparr>"

definition demo_ids :: "string \<Rightarrow> claim_ids" where
  "demo_ids x = \<lparr>id_doc = ''doc'', id_claim = x, id_event = x @ ''-event''\<rparr>"

definition demo_new :: checkpoint where
  "demo_new = new_checkpoint demo_claim ''doc'' 0"

definition demo_first :: checkpoint where
  "demo_first = claim_update demo_claim 0 (demo_ids ''a'') demo_new demo_new"

definition demo_second :: checkpoint where
  "demo_second = claim_update demo_claim 900000000 (demo_ids ''b'') demo_first demo_first"

lemma demo_simps [simp]:
  "id_claim (demo_ids x) = x" "id_doc (demo_ids x) = ''doc''"
  "ck_stream demo_new = ca_stream demo_claim" "ck_stream demo_first = ca_stream demo_claim"
  "ck_stream demo_second = ca_stream demo_claim"
  "ck_claim_id demo_first = Some ''a''" "ck_claim_id demo_second = Some ''b''"
  by (simp_all add: demo_ids_def demo_new_def demo_first_def demo_second_def claim_tr.stream)

lemma demo_first_claim:
  "claim_unit demo_claim 0 (demo_ids ''a'') (\<lambda>_. None)
     = (Inr (demo_first, True), [ca_stream demo_claim \<mapsto> demo_first])"
  by (simp add: claim_unit_eq claim_target_def claim_branches_def demo_first_def demo_new_def
      claim_query_def claim_idle_def)
    (simp add: demo_claim_def new_checkpoint_def)

lemma demo_second_claim:
  "claim_unit demo_claim 900000000 (demo_ids ''b'') [ca_stream demo_claim \<mapsto> demo_first]
     = (Inr (demo_second, True), [ca_stream demo_claim \<mapsto> demo_second])"
  by (simp add: claim_unit_eq claim_target_def claim_branches_def demo_second_def
      claim_query_def claim_stale_def)
    (simp add: demo_first_def demo_new_def demo_claim_def new_checkpoint_def claim_update_def
      next_attempt_count_def find_unit_def)

definition demo_race_one :: race where
  "demo_race_one = set_phase 0 (Holding demo_claim demo_first)
     (race_init\<lparr>rc_db := [ca_stream demo_claim \<mapsto> demo_first],
                rc_claims := [''a'' \<mapsto> (0, demo_claim)]\<rparr>)"

definition demo_race_two :: race where
  "demo_race_two = set_phase 1 (Holding demo_claim demo_second)
     (demo_race_one\<lparr>rc_db := [ca_stream demo_claim \<mapsto> demo_second],
                    rc_claims := [''a'' \<mapsto> (0, demo_claim), ''b'' \<mapsto> (1, demo_claim)]\<rparr>)"

lemma demo_race_one_reach: "race_reach demo_race_one"
  using race_claim_run [OF race_reach.start, of 0 "demo_ids ''a''" demo_claim 0 demo_first]
    demo_first_claim
  by (simp add: race_init_def demo_race_one_def)

lemma demo_race_two_reach: "race_reach demo_race_two"
  using race_claim_run [OF demo_race_one_reach, of 1 "demo_ids ''b''" demo_claim 900000000
      demo_second] demo_second_claim
  by (simp add: demo_race_two_def) (simp add: demo_race_one_def race_init_def set_phase_def)

lemma demo_race_two_simps [simp]:
  "rc_phase demo_race_two 0 = Holding demo_claim demo_first"
  "rc_phase demo_race_two 1 = Holding demo_claim demo_second"
  "rc_phase demo_race_two (Suc 0) = Holding demo_claim demo_second"
  "rc_db demo_race_two = [ca_stream demo_claim \<mapsto> demo_second]"
  by (simp_all add: demo_race_two_def demo_race_one_def)

lemma demo_second_holds: "holder_query demo_second ''p1'' demo_second"
  using claimed_holds [of demo_claim 900000000 "demo_ids ''b''" demo_first demo_first]
  by (simp add: demo_second_def) (simp add: demo_claim_def)

theorem acquired_claim_effect_witness:
  "ck_attempt_count demo_second = next_attempt_count ''p1'' demo_first \<and>
   ck_attempt_count demo_second = 2"
proof -
  have k: "ca_unit_key demo_claim = ''p1''" by (simp add: demo_claim_def)
  have n: "find_unit ''p1'' demo_new = None"
    by (simp add: demo_new_def new_checkpoint_def find_unit_def)
  have "next_attempt_count ''p1'' demo_first = 2"
    by (simp add: next_attempt_count_def demo_first_def find_unit_claimed k n
        apply_timeline_args_def timeline_defaults_def)
  with acquired_claim_effect [OF demo_second_claim] show ?thesis
    by (simp add: claim_target_def k)
qed

text \<open>A retryable failure of page 1 whose retry is due one second later.\<close>

definition demo_fail :: "nat \<Rightarrow> fail_args" where
  "demo_fail n =
     \<lparr>fa_unit_key = ''p1'', fa_error = ''timeout'', fa_error_code = ''source_timeout'',
      fa_retryable = True, fa_next_retry_at = Some (int n * 60000000 + 1000000),
      fa_max_attempts = Some 3, fa_error_metadata = []\<rparr>"

theorem attempts_block_at_maximum_witness:
  "\<exists>d. attempts demo_claim demo_fail (\<lambda>n. int n * 60000000) (\<lambda>_. demo_ids ''a'') (\<lambda>_. ''e'')
         (Suc 2) (\<lambda>_. None) (ca_stream demo_claim) = Some d \<and>
       ck_attempt_count d = min (Suc 2) 3 \<and>
       ck_status d = (if (3 :: nat) \<le> Suc 2 then CK_BLOCKED else CK_FAILED) \<and>
       ck_current_unit_key d = Some (ca_unit_key demo_claim)"
  by (rule attempts_block_at_maximum) (simp_all add: demo_claim_def demo_fail_def)

section \<open>Properties: concurrent workers\<close>

text \<open>C2: Fencing. In every interleaving of workers and operators, when two workers hold
  claims on one stream and the document carries the claim of the second, the first one is fenced
  off: it can neither complete nor fail nor release the unit, and its attempt changes nothing in
  the database. A worker whose stale claim was taken over cannot move the stream.\<close>

theorem stale_holder_is_fenced:
  assumes "race_reach s" and "rc_phase s w = Holding a c" and "rc_phase s v = Holding b e"
    and "w \<noteq> v" and "rc_db s (ck_stream c) = Some d" and "ck_claim_id d = ck_claim_id e"
  shows "mark_completed k cur hwm now eid c (rc_db s) = (False, rc_db s) \<and>
    snd (mark_failed fa now eid c (rc_db s)) = rc_db s \<and>
    release_for_review k reason now eid c (rc_db s) = (False, rc_db s)"
proof -
  have "ck_claim_id d \<noteq> ck_claim_id c"
    using holder_claim_ids_differ [OF assms(1-4)] assms(6) by simp
  with assms(5) show ?thesis by (simp add: refused_transitions)
qed

theorem stale_holder_is_fenced_witness:
  "mark_completed ''p1'' None None 1 ''x'' demo_first (rc_db demo_race_two)
     = (False, rc_db demo_race_two)"
  using stale_holder_is_fenced [OF demo_race_two_reach, of 0 demo_claim demo_first 1 demo_claim
      demo_second demo_second]
  by simp

text \<open>C5: The completions of a stream form a chain in every interleaving: the first one was
  claimed for a stream with nothing completed, every later one by a claim that expected exactly
  the unit completed before it, and the checkpoint's \<open>lastCompletedUnitKey\<close> is the last of them.
  No completion is lost, made twice from the same predecessor, or made out of order, and closing
  a stream after review extends the same chain.\<close>

theorem completions_form_a_chain:
  assumes "race_reach s"
  shows "completion_chain None (rc_log s i) (last_completed (rc_db s) i)"
  by (rule race_invD(4)) (rule race_reach_inv [OF assms])

definition demo_done :: "bool \<times> ckpt_db" where
  "demo_done = mark_completed ''p1'' None None 1 ''x'' demo_second (rc_db demo_race_two)"

lemma demo_done_reach:
  "race_reach (log_completion True (ca_stream demo_claim) (None, ''p1'')
                 (demo_race_two\<lparr>rc_db := snd demo_done\<rparr>))"
proof -
  have "demo_done = (True, snd demo_done)"
    using demo_second_holds
      complete_tr.succeeds [of "rc_db demo_race_two" _ demo_second demo_second "''p1''"]
    by (simp add: demo_done_def mark_completed_def)
  then have "race_step demo_race_two (log_completion True (ck_stream demo_second)
      (ca_expected_previous demo_claim, ''p1'') (demo_race_two\<lparr>rc_db := snd demo_done\<rparr>))"
    by (intro race_step.complete [where w = 1]) (simp_all add: demo_done_def)
  with demo_race_two_reach show ?thesis
    by (auto intro: race_reach.step simp: demo_claim_def)
qed

theorem completions_form_a_chain_witness:
  "completion_chain None [(None, ''p1'')] (last_completed (snd demo_done) (ca_stream demo_claim))"
  using completions_form_a_chain [OF demo_done_reach, of "ca_stream demo_claim"]
  by (simp add: log_completion_def) (simp add: demo_race_two_def demo_race_one_def race_init_def)


text \<open>In every interleaving every stored checkpoint is well formed: its timeline holds each
  unit once; a checkpoint in progress has a unit, a claim id, a start time and at least one
  attempt; a completed one records its unit as the last completed; a failed one has a unit and is
  retryable; a blocked one has its unit, time and reason; and only a failed one has a retry time.\<close>

theorem reachable_checkpoints_well_formed:
  assumes "race_reach s" and "rc_db s i = Some d"
  shows "ck_stream d = i \<and> ckpt_wf d"
  using race_invD(1) [OF race_reach_inv [OF assms(1)]] assms(2) by (rule ckpt_db_wfD)

theorem reachable_checkpoints_well_formed_witness: "ckpt_wf demo_second"
  using reachable_checkpoints_well_formed [OF demo_race_two_reach, of _ demo_second] by simp

lemma not_blocked_guards:
  assumes "ck_status d = CK_BLOCKED"
  shows "\<not> claim_query a now d" "\<not> exhausted_query e d" "\<not> holder_query c k d"
    "\<not> advance_query k d" "\<not> manual_retry_query k d" "\<not> open_stream_query d"
  using assms
  by (simp_all add: claim_query_def claim_idle_def claim_stale_def exhausted_query_def
      holder_query_def advance_query_def manual_retry_query_def open_stream_query_def)

lemma update_one_refused: "db i = Some d \<Longrightarrow> \<not> g d \<Longrightarrow> snd (update_one j g f db) i = Some d"
  by (cases "j = i") (auto simp: update_one_def split: option.splits)

lemma blocked_step_keeps:
  assumes "race_step s t" and "rc_db s i = Some d" and "ck_status d = CK_BLOCKED"
    and "\<And>k action reason op now eid c.
           t \<noteq> s\<lparr>rc_db := snd (resolve_blocked k action reason op now eid c (rc_db s))\<rparr>"
  shows "\<exists>d'. rc_db t i = Some d' \<and> ck_status d' = CK_BLOCKED \<and>
              ck_current_unit_key d' = ck_current_unit_key d"
  using assms(1)
proof cases
  case (read w a did now snap created db)
  with assms(2,3) show ?thesis
    by (auto simp: create_or_get_def split: option.splits)
next
  case (claim w a snap ids now raw db)
  with assms(2,3) not_blocked_guards(1) show ?thesis
    by (auto simp: find_one_and_update_def split: option.splits if_splits)
next
  case (complete w a c k cur hwm now eid ok db)
  then have "rc_db t = snd (mark_completed k cur hwm now eid c (rc_db s))"
    by (simp add: log_completion_def)
  with assms(2,3) show ?thesis
    by (simp add: mark_completed_def update_one_refused not_blocked_guards)
next
  case (close c k cur hwm us now eid ok db)
  then have "rc_db t = snd (mark_stream_completed_after_review k cur hwm us now eid c (rc_db s))"
    by (simp add: log_completion_def)
  with assms(2,3) show ?thesis
    by (simp add: mark_stream_completed_after_review_def update_one_refused not_blocked_guards)
next
  case (manual_retry c op reason now eid)
  with assms(2,3) prepare_manual_retry_store [of op reason now eid c "rc_db s"] show ?thesis
    by (auto simp: update_one_refused not_blocked_guards)
next
  case (source_context f r now c)
  with assms(2,3) show ?thesis
    by (auto simp: update_source_context_def update_one_def split: option.splits)
qed (use assms(2-4) in
    \<open>auto simp: update_one_refused not_blocked_guards mark_failed_store
       release_for_review_def advance_def mark_stream_failed_after_review_def split: option.splits\<close>)

text \<open>A blocked stream stays blocked. Whatever step any worker or operator takes, a BLOCKED
  checkpoint is still BLOCKED on the same unit after it, unless the step is a call of
  \<open>resolve_blocked\<close>: no claim, retry, completion, failure or closing gets past a block.\<close>

theorem only_resolution_unblocks:
  assumes "race_step s t" and "rc_db s i = Some d" and "ck_status d = CK_BLOCKED"
  shows "(\<exists>d'. rc_db t i = Some d' \<and> ck_status d' = CK_BLOCKED \<and>
              ck_current_unit_key d' = ck_current_unit_key d) \<or>
    (\<exists>k action reason op now eid c.
       t = s\<lparr>rc_db := snd (resolve_blocked k action reason op now eid c (rc_db s))\<rparr>)"
  using blocked_step_keeps [OF assms] by blast

text \<open>A claimer blocks another worker's live last attempt. When a stream is being processed
  on its last allowed attempt and the claim is not yet stale, a second \<open>claim_unit\<close> for it is
  refused, yet it moves the checkpoint to BLOCKED; the worker that still holds the claim can then
  no longer complete the unit. The exhaustion query has no condition on \<open>startedAt\<close>.\<close>

theorem live_last_attempt_is_blocked:
  assumes "db (ca_stream a) = Some d" and "ck_status d = CK_PROCESSING"
    and "ck_started_at d = Some t" and "now - ca_claim_timeout a * 1000000 < t"
    and "0 \<le> ca_claim_timeout a" and "ca_max_attempts a = Some m" and "1 \<le> m"
    and "m \<le> int (ck_attempt_count d)"
    and "ck_last_completed_unit_key d \<noteq> Some (ca_unit_key a)" and "ck_stream d = ca_stream a"
  shows "\<exists>d' db'. claim_unit a now ids db = (Inr (d, False), db') \<and>
    db' (ca_stream a) = Some d' \<and> ck_status d' = CK_BLOCKED \<and>
    mark_completed k cur hwm later eid d db' = (False, db')"
proof -
  have "\<not> claim_query a now d"
    using assms(2-4) by (simp add: claim_query_def claim_idle_def claim_stale_def)
  moreover have "claim_exhausted a d" using assms(2,6,8) by (simp add: claim_exhausted_def)
  ultimately have "claim_unit a now ids db
      = (Inr (d, False), db(ca_stream a \<mapsto> exhausted_update now d d))"
    using assms by (simp add: claim_unit_eq claim_target_def claim_branches_def)
  then show ?thesis
    using assms(10) by (simp add: mark_completed_def update_one_def holder_query_def)
qed


theorem live_last_attempt_is_blocked_witness:
  "\<exists>d' db'.
     claim_unit (demo_claim\<lparr>ca_max_attempts := Some 1\<rparr>) 1000000 (demo_ids ''b'')
       [ca_stream demo_claim \<mapsto> demo_first] = (Inr (demo_first, False), db') \<and>
     db' (ca_stream demo_claim) = Some d' \<and> ck_status d' = CK_BLOCKED \<and>
     mark_completed ''p1'' None None 2000000 ''x'' demo_first db' = (False, db')"
  using live_last_attempt_is_blocked [of "[ca_stream demo_claim \<mapsto> demo_first]"
      "demo_claim\<lparr>ca_max_attempts := Some 1\<rparr>" demo_first 0 1000000 1]
  by (simp add: demo_first_def demo_new_def claim_tr.stream)
    (simp add: demo_claim_def claim_update_def new_checkpoint_def next_attempt_count_def
      find_unit_def)

theorem only_resolution_unblocks_witness:
  "\<exists>d'. [ca_stream demo_claim \<mapsto> exhausted_update 1 demo_first demo_first] (ca_stream demo_claim)
          = Some d' \<and> ck_status d' = CK_BLOCKED"
  using only_resolution_unblocks [OF race_step.stop,
      of "demo_race_two\<lparr>rc_db := [ca_stream demo_claim \<mapsto> exhausted_update 1 demo_first demo_first]\<rparr>"
        "ca_stream demo_claim" "exhausted_update 1 demo_first demo_first" 0]
  by simp

end
