(* ===== verification/SourceUnits.thy ===== *)
theory SourceUnits
  imports Checkpoint
begin

text \<open>
  \<open>src/src/domain/ingestion/source_units.py\<close>: the source unit handed over by a fetcher, and
  the outcome every supported ingestion result is normalised to before the state machine
  acts on it; \<open>src/src/application/automation/stream_identity.py\<close>: which units of a stream
  are left after its checkpoint; and the bounded error text of \<open>src/src/core/utils.py\<close>.
\<close>

section \<open>Error text\<close>

text \<open>
  \<open>sanitize_runtime_error\<close>. The argument \<open>redact\<close> stands for the two \<open>re.sub\<close> calls, \<open>s\<close> is
  \<open>str(value or "")\<close>. Lengths count characters of ASCII text.
\<close>

definition py_rstrip :: "string \<Rightarrow> string" where
  "py_rstrip s = rev (strip_front (map rev py_whitespace) (rev s))"

definition sanitize_runtime_error :: "(string \<Rightarrow> string) \<Rightarrow> string \<Rightarrow> nat \<Rightarrow> string" where
  "sanitize_runtime_error redact s max_length =
     (let t = (if py_strip s = [] then ''Unexpected runtime error.'' else py_strip s);
          t = redact t
      in if max_length < length t then py_rstrip (take (max_length - 3) t) @ ''...'' else t)"

lemma drop_first_prefix_length:
  "drop_first_prefix ws s = Some t \<Longrightarrow> length t \<le> length s"
  using drop_first_prefix_shorter by fastforce

lemma length_strip_front: "length (strip_front ws s) \<le> length s"
proof (induction ws s rule: strip_front.induct)
  case (1 ws s)
  show ?case
  proof (cases "drop_first_prefix ws s")
    case None
    then show ?thesis by (simp add: strip_front.simps)
  next
    case (Some t)
    with 1 drop_first_prefix_length [OF Some] show ?thesis
      by (simp add: strip_front.simps [of ws s])
  qed
qed

lemma length_py_rstrip: "length (py_rstrip s) \<le> length s"
  using length_strip_front [of "map rev py_whitespace" "rev s"] by (simp add: py_rstrip_def)

lemma length_clipped: "3 \<le> n \<Longrightarrow> length (py_rstrip (take (n - 3) t) @ ''...'') \<le> n"
  using length_py_rstrip [of "take (n - 3) t"] by simp linarith

lemma sanitize_bounded: "3 \<le> n \<Longrightarrow> length (sanitize_runtime_error redact s n) \<le> n"
  using length_clipped [of n] by (simp only: sanitize_runtime_error_def Let_def split: if_split) simp

section \<open>Source units\<close>

record source_unit =
  um_source_unit_key :: "string option"
  um_source_identity :: pydict
  um_local_path :: "string option"
  um_file_size :: int
  um_content_hash :: "string option"
  um_status :: "string option"
  um_page :: "int option"
  um_cursor_before :: "string option"
  um_cursor_after :: "string option"
  um_high_water_mark :: "pydict option"
  um_status_code :: "int option"
  um_content_type :: "string option"
  um_item_count :: "int option"
  um_has_more :: "bool option"
  um_error :: "string option"
  um_error_code :: "string option"
  um_fetch_metadata :: pydict

text \<open>\<open>SourceUnitMetadata(sourceUnitKey=k)\<close>\<close>

definition new_source_unit :: "string option \<Rightarrow> source_unit" where
  "new_source_unit k =
     \<lparr>um_source_unit_key = k, um_source_identity = [], um_local_path = None, um_file_size = 0,
      um_content_hash = None, um_status = None, um_page = None, um_cursor_before = None,
      um_cursor_after = None, um_high_water_mark = None, um_status_code = None,
      um_content_type = None, um_item_count = None, um_has_more = None, um_error = None,
      um_error_code = None, um_fetch_metadata = []\<rparr>"

section \<open>Ingestion outcomes\<close>

record ingestion_outcome =
  io_success :: bool
  io_error :: pyval
  io_error_code :: pyval
  io_retryable :: bool
  io_next_retry_at :: pyval
  io_error_metadata :: pyval
  io_waiting :: bool
  io_quality_decision :: pyval
  io_orchestration_action :: pyval
  io_quality_counters :: pyval
  io_top_rule_codes :: "pyval list"

definition new_outcome :: "bool \<Rightarrow> ingestion_outcome" where
  "new_outcome b =
     \<lparr>io_success = b, io_error = VStr ''Source unit ingestion failed'',
      io_error_code = VStr ''source_unit_failed'', io_retryable = True,
      io_next_retry_at = VNone, io_error_metadata = VDict [], io_waiting = False,
      io_quality_decision = VNone, io_orchestration_action = VNone,
      io_quality_counters = VDict [], io_top_rule_codes = []\<rparr>"

text \<open>
  The attributes \<open>from_result\<close> reads of a result object such as \<open>IngestionResult\<close>; an
  absent attribute is \<^const>\<open>VNone\<close>, for \<open>error_code\<close> it is \<^const>\<open>None\<close>.
\<close>

record object_result =
  or_processing_status :: pyval
  or_outcome :: pyval
  or_orchestration_action :: pyval
  or_quality_decision :: pyval
  or_top_rule_codes :: "pyval list"
  or_error :: pyval
  or_error_code :: "pyval option"
  or_quality_counters :: pyval

datatype ingest_result =
  ResOutcome ingestion_outcome
| ResBool bool
| ResMap pydict
| ResObject object_result

definition accepted_duplicate :: "pyval \<Rightarrow> bool" where
  "accepted_duplicate v \<longleftrightarrow> v = VStr ''FILE_DUPLICATE'' \<or> v = VStr ''FETCH_UNIT_REPLAY''"

definition completed_status :: "pyval \<Rightarrow> bool" where
  "completed_status v \<longleftrightarrow> v = VStr ''COMPLETED'' \<or> v = VStr ''PARTIAL''"

text \<open>\<open>_first\<close>: the first key with a value that is not \<open>None\<close>.\<close>

fun first_of :: "pydict \<Rightarrow> string list \<Rightarrow> pyval \<Rightarrow> pyval" where
  "first_of d [] v0 = v0"
| "first_of d (k # ks) v0 = (if dget d k \<noteq> VNone then dget d k else first_of d ks v0)"

text \<open>\<open>list(v or [])\<close>; \<^const>\<open>None\<close> is the \<open>TypeError\<close> of a value that is not iterable.\<close>

fun py_list :: "pyval \<Rightarrow> pyval list option" where
  "py_list (VList xs) = Some xs"
| "py_list (VStr s) = Some (map (\<lambda>c. VStr [c]) s)"
| "py_list (VDict d) = Some (map (\<lambda>e. VStr (fst e)) d)"
| "py_list v = (if truthy v then None else Some [])"

text \<open>
  The reason of a quality review. \<open>str_of\<close> is Python's \<open>str\<close> of a value that is not text.
\<close>

definition text_of :: "(pyval \<Rightarrow> string) \<Rightarrow> pyval \<Rightarrow> string" where
  "text_of str_of v = (case v of VStr s \<Rightarrow> s | _ \<Rightarrow> str_of v)"

definition quality_review_reason :: "(pyval \<Rightarrow> string) \<Rightarrow> pyval list \<Rightarrow> pyval \<Rightarrow> pyval" where
  "quality_review_reason str_of codes action =
     VStr (''quality_review:'' @
       (if action = VStr ''HOLD_FOR_REVIEW'' then ''CONFLICTING_DUPLICATE''
        else case codes of c # _ \<Rightarrow> text_of str_of c | [] \<Rightarrow> ''UNSPECIFIED''))"

definition resolved_error ::
  "(pyval \<Rightarrow> string) \<Rightarrow> pyval \<Rightarrow> bool \<Rightarrow> pyval list \<Rightarrow> pyval \<Rightarrow> pyval" where
  "resolved_error str_of err waiting codes action =
     (if err \<noteq> VNone then err
      else if waiting then quality_review_reason str_of codes action
      else VStr ''Source unit ingestion failed'')"

text \<open>\<open>result.get("retryable", True)\<close>, where \<open>None\<close> counts as retryable.\<close>

definition map_retryable :: "pydict \<Rightarrow> bool" where
  "map_retryable d = (dget d ''retryable'' = VNone \<or> truthy (dget d ''retryable''))"

definition map_action :: "pydict \<Rightarrow> pyval" where
  "map_action d = first_of d [''orchestrationAction'', ''orchestration_action''] VNone"

definition map_waiting :: "pydict \<Rightarrow> bool" where
  "map_waiting d \<longleftrightarrow>
     dget d ''outcome'' = VStr ''WAITING_REVIEW'' \<or> truthy (dget d ''waitingForReview'') \<or>
     truthy (dget d ''waiting_for_review'') \<or> map_action d = VStr ''HOLD_FOR_REVIEW''"

definition outcome_of_map :: "(pyval \<Rightarrow> string) \<Rightarrow> pydict \<Rightarrow> ingestion_outcome option" where
  "outcome_of_map str_of d =
     (case py_list (first_of d [''topRuleCodes'', ''top_rule_codes''] (VList [])) of
        None \<Rightarrow> None
      | Some codes \<Rightarrow>
          (let quality_failed = (map_action d = VStr ''FAIL'')
           in Some
             \<lparr>io_success =
                (truthy (dget d ''success'') \<or> accepted_duplicate (dget d ''outcome'') \<or>
                 dget d ''outcome'' = VStr ''PARTIAL'') \<and> \<not> quality_failed,
              io_error =
                resolved_error str_of (first_of d [''error''] VNone) (map_waiting d) codes
                  (map_action d),
              io_error_code =
                (if quality_failed then VStr ''quality_batch_fatal''
                 else first_of d [''errorCode'', ''error_code''] (VStr ''source_unit_failed'')),
              io_retryable = map_retryable d,
              io_next_retry_at = first_of d [''nextRetryAt'', ''next_retry_at''] VNone,
              io_error_metadata = first_of d [''errorMetadata'', ''error_metadata''] (VDict []),
              io_waiting = map_waiting d,
              io_quality_decision = first_of d [''qualityDecision'', ''quality_decision''] VNone,
              io_orchestration_action = map_action d,
              io_quality_counters =
                first_of d [''qualityCounters'', ''quality_counters''] (VDict []),
              io_top_rule_codes = codes\<rparr>))"

definition outcome_of_object :: "(pyval \<Rightarrow> string) \<Rightarrow> object_result \<Rightarrow> ingestion_outcome" where
  "outcome_of_object str_of r =
     (let action = or_orchestration_action r;
          waiting = (or_outcome r = VStr ''WAITING_REVIEW'' \<or> action = VStr ''HOLD_FOR_REVIEW'');
          quality_failed = (action = VStr ''FAIL'')
      in (new_outcome
            ((completed_status (or_processing_status r) \<or> accepted_duplicate (or_outcome r)) \<and>
             \<not> quality_failed))
           \<lparr>io_error := resolved_error str_of (or_error r) waiting (or_top_rule_codes r) action,
            io_error_code :=
              (if quality_failed then VStr ''quality_batch_fatal''
               else case or_error_code r of None \<Rightarrow> VStr ''source_persist_error'' | Some c \<Rightarrow> c),
            io_waiting := waiting,
            io_quality_decision := or_quality_decision r,
            io_orchestration_action := action,
            io_quality_counters :=
              (if truthy (or_quality_counters r) then or_quality_counters r else VDict []),
            io_top_rule_codes := or_top_rule_codes r\<rparr>)"

definition from_result ::
  "(pyval \<Rightarrow> string) \<Rightarrow> ingest_result \<Rightarrow> ingestion_outcome option" where
  "from_result str_of r =
     (case r of
        ResOutcome io \<Rightarrow> Some io
      | ResBool b \<Rightarrow> Some (new_outcome b)
      | ResMap d \<Rightarrow> outcome_of_map str_of d
      | ResObject ob \<Rightarrow> Some (outcome_of_object str_of ob))"

section \<open>Units left after a checkpoint\<close>

definition completed_hash :: "checkpoint option \<Rightarrow> pyval" where
  "completed_hash c =
     dget (case c of None \<Rightarrow> [] | Some d \<Rightarrow>
             (case ck_high_water_mark d of None \<Rightarrow> [] | Some h \<Rightarrow> h)) ''contentHash''"

definition completed_key :: "checkpoint option \<Rightarrow> string option" where
  "completed_key c =
     (case c of None \<Rightarrow> None | Some d \<Rightarrow> str_or (ck_last_completed_unit_key d) None)"

definition opt_str :: "string option \<Rightarrow> pyval" where
  "opt_str s = (case s of None \<Rightarrow> VNone | Some t \<Rightarrow> VStr t)"

fun after_unit :: "string option \<Rightarrow> pyval \<Rightarrow> source_unit list \<Rightarrow> source_unit list option" where
  "after_unit k h [] = None"
| "after_unit k h (u # us) =
     (if um_source_unit_key u = k \<or> (truthy h \<and> opt_str (um_content_hash u) = h) then Some us
      else after_unit k h us)"

definition units_after_checkpoint ::
  "source_unit list \<Rightarrow> checkpoint option \<Rightarrow> source_unit list" where
  "units_after_checkpoint us c =
     (case after_unit (completed_key c) (completed_hash c) us of None \<Rightarrow> us | Some vs \<Rightarrow> vs)"

end
