(* ===== verification/Retry.thy ===== *)
theory Retry
  imports Prelude
begin

text \<open>
  \<open>src/src/domain/ingestion/retry_policy.py\<close>: the bounded exponential backoff shared by
  the fetchers and the source-unit orchestration. A policy is built by \<open>make_policy\<close>,
  whose error branches are those of \<open>__post_init__\<close>; the theorems are about the policies
  it accepts.
\<close>

section \<open>The policy\<close>

datatype retry_disposition = RETRYABLE | TERMINAL

record retry_policy =
  max_attempts :: int
  initial_backoff_seconds :: int
  max_backoff_seconds :: int
  retryable_error_codes :: "string list"

datatype policy_error =
    MaxAttemptsTooSmall
  | NegativeInitialBackoff
  | MaxBackoffBelowInitial

definition default_retryable_codes :: "string list" where
  "default_retryable_codes =
     [''fetch_timeout'', ''fetch_network_error'', ''fetch_http_429'', ''fetch_http_5xx'',
      ''source_persist_error'', ''checkpoint_advance_error'', ''checkpoint_stale'']"

definition default_policy :: retry_policy where
  "default_policy =
     \<lparr>max_attempts = 3, initial_backoff_seconds = 60, max_backoff_seconds = 3600,
      retryable_error_codes = default_retryable_codes\<rparr>"

definition make_policy :: "retry_policy \<Rightarrow> policy_error + retry_policy" where
  "make_policy p =
     (if max_attempts p < 1 then Inl MaxAttemptsTooSmall
      else if initial_backoff_seconds p < 0 then Inl NegativeInitialBackoff
      else if max_backoff_seconds p < initial_backoff_seconds p then Inl MaxBackoffBelowInitial
      else Inr p)"

definition classify_error :: "retry_policy \<Rightarrow> string \<Rightarrow> retry_disposition" where
  "classify_error p code =
     (if code \<in> set (retryable_error_codes p) then RETRYABLE else TERMINAL)"

definition can_retry :: "retry_policy \<Rightarrow> string \<Rightarrow> int \<Rightarrow> bool" where
  "can_retry p code attempt \<longleftrightarrow>
     classify_error p code = RETRYABLE \<and> 0 \<le> attempt \<and> attempt < max_attempts p"

text \<open>The delay of \<open>next_retry_at\<close>; \<open>max(attempt_count - 1, 0)\<close> is the exponent.\<close>

definition backoff_seconds :: "retry_policy \<Rightarrow> int \<Rightarrow> int" where
  "backoff_seconds p attempt =
     min (initial_backoff_seconds p * 2 ^ nat (max (attempt - 1) 0)) (max_backoff_seconds p)"

definition next_retry_at :: "retry_policy \<Rightarrow> string \<Rightarrow> int \<Rightarrow> datetime \<Rightarrow> datetime option" where
  "next_retry_at p code attempt now =
     (if \<not> can_retry p code attempt then None
      else Some (now + backoff_seconds p attempt * 1000000))"

section \<open>Bounds and monotonicity\<close>

lemma make_policy_Inr:
  "make_policy p = Inr q \<longleftrightarrow>
     q = p \<and> 1 \<le> max_attempts p \<and> 0 \<le> initial_backoff_seconds p \<and>
     initial_backoff_seconds p \<le> max_backoff_seconds p"
  by (auto simp: make_policy_def)

lemma make_policy_default: "make_policy default_policy = Inr default_policy"
  by (simp add: make_policy_Inr default_policy_def)

lemma backoff_lower:
  assumes "make_policy p = Inr q"
  shows "initial_backoff_seconds p \<le> backoff_seconds p attempt"
proof -
  let ?n = "nat (max (attempt - 1) 0)"
  from assms have i: "0 \<le> initial_backoff_seconds p"
    and m: "initial_backoff_seconds p \<le> max_backoff_seconds p"
    by (auto simp: make_policy_Inr)
  have "initial_backoff_seconds p * 1 \<le> initial_backoff_seconds p * 2 ^ ?n"
    using i by (intro mult_left_mono) auto
  with m show ?thesis by (simp add: backoff_seconds_def)
qed

lemma backoff_upper: "backoff_seconds p attempt \<le> max_backoff_seconds p"
  by (simp add: backoff_seconds_def)

lemma backoff_mono:
  assumes "make_policy p = Inr q" and "a \<le> b"
  shows "backoff_seconds p a \<le> backoff_seconds p b"
proof -
  from assms(1) have i: "0 \<le> initial_backoff_seconds p" by (auto simp: make_policy_Inr)
  from assms(2) have "(2::int) ^ nat (max (a - 1) 0) \<le> 2 ^ nat (max (b - 1) 0)"
    by (intro power_increasing) auto
  with i have "initial_backoff_seconds p * 2 ^ nat (max (a - 1) 0)
      \<le> initial_backoff_seconds p * 2 ^ nat (max (b - 1) 0)"
    by (intro mult_left_mono)
  then show ?thesis by (auto simp: backoff_seconds_def)
qed

lemma next_retry_at_None [simp]: "next_retry_at p code a now = None \<longleftrightarrow> \<not> can_retry p code a"
  by (simp add: next_retry_at_def)

lemma next_retry_at_Some:
  "next_retry_at p code a now = Some t \<longleftrightarrow>
     can_retry p code a \<and> t = now + backoff_seconds p a * 1000000"
  by (auto simp: next_retry_at_def)

end
