(* ===== verification/Orchestrator.thy ===== *)
theory Orchestrator
  imports SourceUnits CheckpointOps Retry
begin

text \<open>
  \<open>src/src/application/ingestion/source_unit_orchestrator.py\<close>: \<open>process_source_units\<close> drives
  the units of one stream through the checkpoint repository and stops at the first unit that
  fails or waits for review; \<open>resume_held_source_unit\<close> runs it for one unit once its
  quarantine blockers are resolved. The repository, the ingestion of a unit, the two
  callbacks and the clock are the operations of a \<open>service\<close>, as they are parameters of the
  code; \<open>'s\<close> is the state they share.
\<close>

section \<open>What the orchestrator is given\<close>

record exn =
  ex_class :: string
  ex_text :: string

text \<open>The entries of \<open>stream_identity\<close> that the orchestrator reads.\<close>

record run_identity =
  ri_partner :: string
  ri_fetch_config_id :: string
  ri_source_type :: string
  ri_stream_key :: string
  ri_last_completed :: "string option"
  ri_config_version :: "string option"
  ri_source_endpoint :: "string option"
  ri_stream_metadata :: "pydict option"
  ri_runtime_run_id :: "string option"
  ri_source_file_id :: "string option"
  ri_attempt :: "int option"

record claim_info =
  cl_expected_previous :: "string option"
  cl_last_completed :: "string option"
  cl_current :: "string option"
  cl_status :: checkpoint_status
  cl_attempt_count :: nat

text \<open>
  The result dictionary; an option is \<^const>\<open>None\<close> and a counter zero when the code leaves the
  key out.
\<close>

record run_result =
  rr_success :: bool
  rr_processed :: nat
  rr_failed :: nat
  rr_stopped_at :: "string option"
  rr_error :: "string option"
  rr_error_code :: "string option"
  rr_claim :: "claim_info option"
  rr_outcome :: "string option"
  rr_waiting :: bool
  rr_quality :: "(pyval \<times> pyval \<times> pyval \<times> pyval list) option"
  rr_replayed :: nat
  rr_skipped :: nat
  rr_reconciliation_skipped :: bool

datatype observation =
  Obs_Replayed
| Obs_Claimed
| Obs_Skipped
| Obs_Exception string
| Obs_Result run_result pyval
| Obs_Advance_Error run_result
| Obs_Ingested ingest_result

text \<open>
  \<open>sv_context\<close> is absent for a repository without \<open>update_source_context\<close>. What an observer
  or \<open>update_source_context\<close> raises is swallowed, so their steps only change the state;
  \<open>sv_on_completed\<close> may raise. \<open>sv_sanitize\<close> and \<open>sv_str\<close> are the text functions at the
  clock's state of the service.
\<close>

record 's service =
  sv_claim :: "claim_args \<Rightarrow> 's \<Rightarrow> (ckpt_error + checkpoint \<times> bool) \<times> 's"
  sv_complete :: "checkpoint \<Rightarrow> string \<Rightarrow> string option \<Rightarrow> pydict option \<Rightarrow> 's \<Rightarrow> bool \<times> 's"
  sv_advance :: "checkpoint \<Rightarrow> string \<Rightarrow> 's \<Rightarrow> bool \<times> 's"
  sv_fail :: "checkpoint \<Rightarrow> fail_args \<Rightarrow> 's \<Rightarrow> (ckpt_error + bool) \<times> 's"
  sv_release :: "checkpoint \<Rightarrow> string \<Rightarrow> string \<Rightarrow> 's \<Rightarrow> bool \<times> 's"
  sv_context :: "(checkpoint \<Rightarrow> string \<Rightarrow> string option \<Rightarrow> 's \<Rightarrow> 's) option"
  sv_ingest :: "source_unit \<Rightarrow> 's \<Rightarrow> (exn + ingest_result) \<times> 's"
  sv_observe :: "(source_unit \<Rightarrow> observation \<Rightarrow> checkpoint \<Rightarrow> 's \<Rightarrow> 's) option"
  sv_on_completed :: "(source_unit \<Rightarrow> 's \<Rightarrow> exn option \<times> 's) option"
  sv_now :: "'s \<Rightarrow> datetime"
  sv_redact :: "string \<Rightarrow> string"
  sv_str :: "pyval \<Rightarrow> string"

record run_config =
  rn_mode :: ingestion_mode
  rn_max_attempts :: "int option"
  rn_policy :: "retry_policy option"

text \<open>Exceptions that leave \<open>process_source_units\<close>, and the local variables of its loop.\<close>

datatype run_exn =
  Ex_Repository ckpt_error
| Ex_Ingest exn
| Ex_Not_Iterable
| Ex_On_Completed exn
| Ex_Key_Mismatch

record loop_vars =
  lv_processed :: nat
  lv_replayed :: nat
  lv_skipped :: nat
  lv_partial :: bool
  lv_duplicates :: "pyval list"
  lv_previous :: "string option"

datatype unit_end = Next loop_vars | Stop run_result | Raised run_exn

section \<open>Helpers\<close>

definition attempt_limit :: "run_config \<Rightarrow> int option" where
  "attempt_limit cfg =
     (case rn_policy cfg of Some p \<Rightarrow> Some (max_attempts p) | None \<Rightarrow> rn_max_attempts cfg)"

definition unit_claim_args ::
  "run_config \<Rightarrow> run_identity \<Rightarrow> source_unit \<Rightarrow> string \<Rightarrow> loop_vars \<Rightarrow> claim_args" where
  "unit_claim_args cfg i u k lv =
     \<lparr>ca_stream = \<lparr>si_partner = ri_partner i, si_fetch_config_id = ri_fetch_config_id i,
                   si_source_type = ri_source_type i, si_stream_key = ri_stream_key i,
                   si_mode = rn_mode cfg\<rparr>,
      ca_unit_key = k,
      ca_cursor_before = um_cursor_before u,
      ca_expected_previous = lv_previous lv,
      ca_max_attempts = attempt_limit cfg,
      ca_config_version = ri_config_version i,
      ca_source_endpoint = ri_source_endpoint i,
      ca_stream_metadata =
        Some (dput (case ri_stream_metadata i of None \<Rightarrow> [] | Some d \<Rightarrow> d) ''page''
                (case um_page u of None \<Rightarrow> VNone | Some n \<Rightarrow> VInt n)),
      ca_runtime_run_id = ri_runtime_run_id i,
      ca_source_file_id = ri_source_file_id i,
      ca_attempt = ri_attempt i,
      ca_claim_timeout = 900\<rparr>"

definition observe ::
  "'s service \<Rightarrow> source_unit \<Rightarrow> observation \<Rightarrow> checkpoint \<Rightarrow> 's \<Rightarrow> 's" where
  "observe sv u ob c s = (case sv_observe sv of None \<Rightarrow> s | Some f \<Rightarrow> f u ob c s)"

text \<open>\<open>sanitize_runtime_error\<close> of a value: falsy values count as the empty text.\<close>

definition sanitize :: "'s service \<Rightarrow> pyval \<Rightarrow> nat \<Rightarrow> string" where
  "sanitize sv v n =
     sanitize_runtime_error (sv_redact sv) (if truthy v then text_of (sv_str sv) v else []) n"

definition stopped :: "nat \<Rightarrow> string option \<Rightarrow> string \<Rightarrow> run_result" where
  "stopped n k err =
     \<lparr>rr_success = False, rr_processed = n, rr_failed = 1, rr_stopped_at = k,
      rr_error = Some err, rr_error_code = None, rr_claim = None, rr_outcome = None,
      rr_waiting = False, rr_quality = None, rr_replayed = 0, rr_skipped = 0,
      rr_reconciliation_skipped = False\<rparr>"

definition claim_not_acquired :: "nat \<Rightarrow> string \<Rightarrow> string option \<Rightarrow> checkpoint \<Rightarrow> run_result" where
  "claim_not_acquired n k previous c =
     (stopped n (Some k) ''Source unit claim was not acquired'')
       \<lparr>rr_error_code := Some ''source_unit_claim_not_acquired'',
        rr_claim := Some \<lparr>cl_expected_previous = previous,
                          cl_last_completed = ck_last_completed_unit_key c,
                          cl_current = ck_current_unit_key c, cl_status = ck_status c,
                          cl_attempt_count = ck_attempt_count c\<rparr>\<rparr>"

text \<open>The quality entries added to a result when a quality decision is present.\<close>

definition with_quality :: "ingestion_outcome \<Rightarrow> run_result \<Rightarrow> run_result" where
  "with_quality out r =
     (if io_quality_decision out = VNone then r
      else r\<lparr>rr_quality := Some (io_quality_decision out, io_orchestration_action out,
                                 io_quality_counters out, take 10 (io_top_rule_codes out))\<rparr>)"

definition raw_outcome :: "ingest_result \<Rightarrow> pyval" where
  "raw_outcome r =
     (case r of ResMap d \<Rightarrow> dget d ''outcome'' | ResObject ob \<Rightarrow> or_outcome ob | _ \<Rightarrow> VNone)"

definition result_error_code :: "ingest_result \<Rightarrow> pyval" where
  "result_error_code r =
     (case r of
        ResMap d \<Rightarrow> dget d ''errorCode''
      | ResObject ob \<Rightarrow> (case or_error_code ob of None \<Rightarrow> VNone | Some c \<Rightarrow> c)
      | ResOutcome out \<Rightarrow> io_error_code out
      | ResBool _ \<Rightarrow> VNone)"

definition attach_source_file ::
  "'s service \<Rightarrow> run_identity \<Rightarrow> checkpoint \<Rightarrow> ingest_result \<Rightarrow> 's \<Rightarrow> 's" where
  "attach_source_file sv i c r s =
     (case (r, sv_context sv) of
        (ResMap d, Some upd) \<Rightarrow>
          if dget d ''sourceFileId'' = VNone then s
          else upd c (text_of (sv_str sv) (dget d ''sourceFileId'')) (ri_runtime_run_id i) s
      | _ \<Rightarrow> s)"

section \<open>One claimed unit\<close>

text \<open>An operator decided to skip the unit: complete and advance without ingesting it.\<close>

definition skip_unit ::
  "'s service \<Rightarrow> checkpoint \<Rightarrow> source_unit \<Rightarrow> string \<Rightarrow> loop_vars \<Rightarrow> 's \<Rightarrow> unit_end \<times> 's" where
  "skip_unit sv c u k lv s0 =
     (let (completed, s) = sv_complete sv c k (um_cursor_after u) (um_high_water_mark u) s0;
          (advanced, s) = (if completed then sv_advance sv c k s else (False, s))
      in if \<not> advanced
         then (Stop (stopped (lv_processed lv) (Some k) ''Checkpoint skip advancement failed''), s)
         else (Next (lv\<lparr>lv_skipped := lv_skipped lv + 1, lv_previous := Some k\<rparr>),
               observe sv u Obs_Skipped c s))"

text \<open>The ingestion raised: fail the unit and raise again.\<close>

definition exception_fail_args :: "run_config \<Rightarrow> string \<Rightarrow> string \<Rightarrow> exn \<Rightarrow> fail_args" where
  "exception_fail_args cfg k err e =
     \<lparr>fa_unit_key = k, fa_error = err, fa_error_code = ''source_runtime_error'',
      fa_retryable = True, fa_next_retry_at = None, fa_max_attempts = attempt_limit cfg,
      fa_error_metadata = [(''exceptionType'', VStr (ex_class e))]\<rparr>"

definition unit_raised ::
  "'s service \<Rightarrow> run_config \<Rightarrow> checkpoint \<Rightarrow> source_unit \<Rightarrow> string \<Rightarrow> exn \<Rightarrow> 's
     \<Rightarrow> unit_end \<times> 's" where
  "unit_raised sv cfg c u k e s0 =
     (let err = sanitize_runtime_error (sv_redact sv) (ex_text e) 220
      in case sv_fail sv c (exception_fail_args cfg k err e) s0 of
           (Inl x, s) \<Rightarrow> (Raised (Ex_Repository x), s)
         | (Inr _, s) \<Rightarrow> (Raised (Ex_Ingest e), observe sv u (Obs_Exception err) c s))"

text \<open>The unit waits for review: release the claim.\<close>

definition unit_waits ::
  "'s service \<Rightarrow> checkpoint \<Rightarrow> source_unit \<Rightarrow> string \<Rightarrow> ingest_result \<Rightarrow> ingestion_outcome
     \<Rightarrow> nat \<Rightarrow> 's \<Rightarrow> unit_end \<times> 's" where
  "unit_waits sv c u k r out n s0 =
     (let reason = sanitize sv (io_error out) 220;
          (released, s) = sv_release sv c k reason s0;
          res = with_quality out
                  ((stopped n (Some k) reason)
                     \<lparr>rr_success := True, rr_failed := 0, rr_outcome := Some ''WAITING_REVIEW'',
                      rr_waiting := True\<rparr>)
      in if \<not> released
         then (Stop (stopped n (Some k) ''Checkpoint release for review failed''), s)
         else (Stop res, observe sv u (Obs_Result res (result_error_code r)) c s))"

text \<open>The ingestion failed: classify the error and fail the unit.\<close>

definition opt_time :: "pyval \<Rightarrow> datetime option" where
  "opt_time v = (case v of VTime t \<Rightarrow> Some t | _ \<Rightarrow> None)"

definition opt_dict :: "pyval \<Rightarrow> pydict" where
  "opt_dict v = (case v of VDict d \<Rightarrow> d | _ \<Rightarrow> [])"

definition classify_value :: "retry_policy \<Rightarrow> pyval \<Rightarrow> retry_disposition" where
  "classify_value p v = (case v of VStr code \<Rightarrow> classify_error p code | _ \<Rightarrow> TERMINAL)"

definition failure_args ::
  "'s service \<Rightarrow> run_config \<Rightarrow> checkpoint \<Rightarrow> string \<Rightarrow> ingestion_outcome \<Rightarrow> datetime \<Rightarrow> fail_args"
  where
  "failure_args sv cfg c k out now =
     (let quality_failure = (io_orchestration_action out = VStr ''FAIL'');
          code = text_of (sv_str sv) (io_error_code out);
          base =
            \<lparr>fa_unit_key = k, fa_error = sanitize sv (io_error out) 220,
             fa_error_code = sanitize sv (io_error_code out) 96,
             fa_retryable = io_retryable out \<and> \<not> quality_failure,
             fa_next_retry_at = (if quality_failure then None else opt_time (io_next_retry_at out)),
             fa_max_attempts = (if quality_failure then None else rn_max_attempts cfg),
             fa_error_metadata = opt_dict (io_error_metadata out)\<rparr>
      in case rn_policy cfg of
           None \<Rightarrow> base
         | Some p \<Rightarrow>
             if \<not> io_retryable out \<or> quality_failure then base
             else if classify_value p (io_error_code out) = TERMINAL
               then base\<lparr>fa_retryable := False, fa_next_retry_at := None\<rparr>
             else base\<lparr>fa_max_attempts := Some (max_attempts p),
                       fa_next_retry_at := next_retry_at p code (int (ck_attempt_count c)) now\<rparr>)"

definition unit_failed ::
  "'s service \<Rightarrow> run_config \<Rightarrow> checkpoint \<Rightarrow> source_unit \<Rightarrow> string \<Rightarrow> ingestion_outcome
     \<Rightarrow> nat \<Rightarrow> 's \<Rightarrow> unit_end \<times> 's" where
  "unit_failed sv cfg c u k out n s0 =
     (case sv_fail sv c (failure_args sv cfg c k out (sv_now sv s0)) s0 of
        (Inl x, s) \<Rightarrow> (Raised (Ex_Repository x), s)
      | (Inr _, s) \<Rightarrow>
          (let res = with_quality out (stopped n (Some k) (sanitize sv (io_error out) 220))
           in (Stop res,
               observe sv u (Obs_Result res (VStr (sanitize sv (io_error_code out) 96))) c s)))"

text \<open>The unit was ingested: complete it, advance the checkpoint, then notify.\<close>

definition complete_failed_args :: "run_config \<Rightarrow> string \<Rightarrow> fail_args" where
  "complete_failed_args cfg k =
     \<lparr>fa_unit_key = k, fa_error = ''Checkpoint completion update failed'',
      fa_error_code = ''checkpoint_advance_error'', fa_retryable = True,
      fa_next_retry_at = None, fa_max_attempts = rn_max_attempts cfg, fa_error_metadata = []\<rparr>"

definition unit_ingested ::
  "'s service \<Rightarrow> run_config \<Rightarrow> checkpoint \<Rightarrow> source_unit \<Rightarrow> string \<Rightarrow> ingest_result \<Rightarrow> loop_vars
     \<Rightarrow> 's \<Rightarrow> unit_end \<times> 's" where
  "unit_ingested sv cfg c u k r lv s0 =
     (let n = lv_processed lv;
          (completed, s) = sv_complete sv c k (um_cursor_after u) (um_high_water_mark u) s0
      in if \<not> completed
         then let res = stopped n (Some k) ''Checkpoint completion update failed''
              in case sv_fail sv c (complete_failed_args cfg k) s of
                   (Inl x, s) \<Rightarrow> (Raised (Ex_Repository x), s)
                 | (Inr _, s) \<Rightarrow> (Stop res, observe sv u (Obs_Advance_Error res) c s)
         else let (advanced, s) = sv_advance sv c k s
              in if \<not> advanced
                 then let res = stopped n (Some k) ''Checkpoint advance update failed''
                      in (Stop res, observe sv u (Obs_Advance_Error res) c s)
                 else let s = observe sv u (Obs_Ingested r) c s;
                          (raised, s) = (case sv_on_completed sv of
                                           None \<Rightarrow> (None, s) | Some f \<Rightarrow> f u s)
                      in case raised of
                           Some e \<Rightarrow> (Raised (Ex_On_Completed e), s)
                         | None \<Rightarrow> (Next (lv\<lparr>lv_previous := Some k,
                                             lv_processed := n + 1\<rparr>), s))"

text \<open>Everything after a claim was acquired.\<close>

definition run_claimed ::
  "'s service \<Rightarrow> run_config \<Rightarrow> run_identity \<Rightarrow> checkpoint \<Rightarrow> source_unit \<Rightarrow> string \<Rightarrow> loop_vars
     \<Rightarrow> 's \<Rightarrow> unit_end \<times> 's" where
  "run_claimed sv cfg i c u k lv s0 =
     (let s = observe sv u Obs_Claimed c s0
      in if skip_resolved c \<and> ck_current_unit_key c = Some k then skip_unit sv c u k lv s
         else case sv_ingest sv u s of
           (Inl e, s) \<Rightarrow> unit_raised sv cfg c u k e s
         | (Inr r, s) \<Rightarrow>
             (let s = attach_source_file sv i c r s;
                  lv = (if accepted_duplicate (raw_outcome r)
                        then lv\<lparr>lv_duplicates := lv_duplicates lv @ [raw_outcome r]\<rparr> else lv)
              in case from_result (sv_str sv) r of
                   None \<Rightarrow> (Raised Ex_Not_Iterable, s)
                 | Some out \<Rightarrow>
                     if io_waiting out then unit_waits sv c u k r out (lv_processed lv) s
                     else if \<not> io_success out then unit_failed sv cfg c u k out (lv_processed lv) s
                     else unit_ingested sv cfg c u k r
                            (lv\<lparr>lv_partial := lv_partial lv \<or> raw_outcome r = VStr ''PARTIAL''\<rparr>) s))"

section \<open>The loop\<close>

definition run_unit ::
  "'s service \<Rightarrow> run_config \<Rightarrow> run_identity \<Rightarrow> source_unit \<Rightarrow> loop_vars \<Rightarrow> 's \<Rightarrow> unit_end \<times> 's"
  where
  "run_unit sv cfg i u lv s0 =
     (case um_source_unit_key u of
        Some (ch # cs) \<Rightarrow>
          (let k = ch # cs
           in case sv_claim sv (unit_claim_args cfg i u k lv) s0 of
                (Inl x, s) \<Rightarrow> (Raised (Ex_Repository x), s)
              | (Inr (c, True), s) \<Rightarrow> run_claimed sv cfg i c u k lv s
              | (Inr (c, False), s) \<Rightarrow>
                  if ck_last_completed_unit_key c = Some k
                  then (Next (lv\<lparr>lv_replayed := lv_replayed lv + 1, lv_previous := Some k\<rparr>),
                        observe sv u Obs_Replayed c s)
                  else (Stop (claim_not_acquired (lv_processed lv) k (lv_previous lv) c), s))
      | _ \<Rightarrow> (Stop (stopped (lv_processed lv) None ''Source unit is missing sourceUnitKey''), s0))"

definition run_summary :: "loop_vars \<Rightarrow> run_result" where
  "run_summary lv =
     (let all_duplicate = (lv_duplicates lv \<noteq> [] \<and> length (lv_duplicates lv) = lv_processed lv)
      in \<lparr>rr_success = True, rr_processed = lv_processed lv, rr_failed = 0, rr_stopped_at = None,
          rr_error = None, rr_error_code = None, rr_claim = None,
          rr_outcome =
            (if all_duplicate
             then (if (\<forall>v \<in> set (lv_duplicates lv). v = VStr ''FILE_DUPLICATE'')
                   then Some ''FILE_DUPLICATE'' else Some ''FETCH_UNIT_REPLAY'')
             else if lv_partial lv then Some ''PARTIAL'' else None),
          rr_waiting = False, rr_quality = None, rr_replayed = lv_replayed lv,
          rr_skipped = lv_skipped lv, rr_reconciliation_skipped = all_duplicate\<rparr>)"

fun run_units ::
  "'s service \<Rightarrow> run_config \<Rightarrow> run_identity \<Rightarrow> source_unit list \<Rightarrow> loop_vars \<Rightarrow> 's
     \<Rightarrow> (run_exn + run_result) \<times> 's" where
  "run_units sv cfg i [] lv s = (Inr (run_summary lv), s)"
| "run_units sv cfg i (u # us) lv s =
     (case run_unit sv cfg i u lv s of
        (Next lv', s') \<Rightarrow> run_units sv cfg i us lv' s'
      | (Stop r, s') \<Rightarrow> (Inr r, s')
      | (Raised e, s') \<Rightarrow> (Inl e, s'))"

definition start_vars :: "run_identity \<Rightarrow> loop_vars" where
  "start_vars i =
     \<lparr>lv_processed = 0, lv_replayed = 0, lv_skipped = 0, lv_partial = False,
      lv_duplicates = [], lv_previous = ri_last_completed i\<rparr>"

definition process_source_units ::
  "'s service \<Rightarrow> run_config \<Rightarrow> run_identity \<Rightarrow> source_unit list \<Rightarrow> 's
     \<Rightarrow> (run_exn + run_result) \<times> 's" where
  "process_source_units sv cfg i us s = run_units sv cfg i us (start_vars i) s"

section \<open>Resuming a held unit\<close>

definition resume_held_source_unit ::
  "'s service \<Rightarrow> (string \<Rightarrow> 's \<Rightarrow> bool) \<Rightarrow> run_config \<Rightarrow> run_identity \<Rightarrow> string \<Rightarrow> source_unit
     \<Rightarrow> 's \<Rightarrow> (run_exn + run_result) \<times> 's" where
  "resume_held_source_unit sv has_unresolved_blockers cfg i k u s =
     (if um_source_unit_key u \<noteq> Some k then (Inl Ex_Key_Mismatch, s)
      else if has_unresolved_blockers k s
        then (Inr ((stopped 0 (Some k)
                ''Source unit has unresolved conflicting duplicate quarantine records.'')
                \<lparr>rr_outcome := Some ''QUARANTINE_BLOCKED'',
                 rr_error_code := Some ''quarantine_conflict_unresolved''\<rparr>), s)
      else process_source_units sv cfg i [u] s)"

text \<open>
  The identity that \<open>resume_quarantined_source_unit\<close>
  (\<open>src/src/application/ingestion/source_unit_resume.py\<close>) builds from the stored checkpoint.
\<close>

definition resume_identity :: "checkpoint \<Rightarrow> run_identity" where
  "resume_identity c =
     \<lparr>ri_partner = si_partner (ck_stream c),
      ri_fetch_config_id = si_fetch_config_id (ck_stream c),
      ri_source_type = si_source_type (ck_stream c),
      ri_stream_key = si_stream_key (ck_stream c),
      ri_last_completed = None,
      ri_config_version = ck_config_version c,
      ri_source_endpoint = ck_source_endpoint c,
      ri_stream_metadata = None,
      ri_runtime_run_id = ck_runtime_run_id c,
      ri_source_file_id = ck_source_file_id c,
      ri_attempt = (if ck_attempt_count c = 0 then None else Some (int (ck_attempt_count c) + 1))\<rparr>"

definition resume_config :: "checkpoint \<Rightarrow> run_config" where
  "resume_config c = \<lparr>rn_mode = si_mode (ck_stream c), rn_max_attempts = None, rn_policy = None\<rparr>"

definition resume_quarantined ::
  "'s service \<Rightarrow> (string \<Rightarrow> 's \<Rightarrow> bool) \<Rightarrow> checkpoint \<Rightarrow> string \<Rightarrow> source_unit \<Rightarrow> 's
     \<Rightarrow> (run_exn + run_result) \<times> 's" where
  "resume_quarantined sv has_unresolved_blockers c k u s =
     resume_held_source_unit sv has_unresolved_blockers (resume_config c) (resume_identity c) k u s"

end
