(* ===== verification/OrchestratorSpec.thy ===== *)
theory OrchestratorSpec
  imports Orchestrator CheckpointClaim CheckpointRace
begin

text \<open>
  The contract between the orchestrator and the checkpoint repository. The locale
  \<open>checkpoint_service\<close> says what a run of one stream relies on: a claim on an idle stream
  succeeds, the holder can complete, advance, fail and release, and ingesting or observing
  leaves the stream alone. What \<open>process_source_units\<close> does is proved inside it, and it is
  interpreted on the model of \<open>IngestionCheckpointRepository\<close>.
\<close>

section \<open>The contract\<close>

text \<open>Nothing about the stream changes between two states.\<close>

definition keeps ::
  "('s \<Rightarrow> string option) \<Rightarrow> ('s \<Rightarrow> bool) \<Rightarrow> ('s \<Rightarrow> checkpoint \<Rightarrow> string \<Rightarrow> bool)
     \<Rightarrow> ('s \<Rightarrow> string \<Rightarrow> bool) \<Rightarrow> ('s \<Rightarrow> bool) \<Rightarrow> ('s \<Rightarrow> checkpoint \<Rightarrow> fail_args \<Rightarrow> bool)
     \<Rightarrow> 's \<Rightarrow> 's \<Rightarrow> bool" where
  "keeps last_of ready holds completed busy failed s s' \<longleftrightarrow>
     last_of s' = last_of s \<and> (ready s \<longrightarrow> ready s') \<and> busy s' = busy s \<and>
     (\<forall>c fa. failed s c fa \<longrightarrow> failed s' c fa) \<and>
     (\<forall>c k. holds s c k \<longrightarrow> holds s' c k) \<and> (\<forall>k. completed s k \<longrightarrow> completed s' k)"

definition limit_ok :: "int option \<Rightarrow> bool" where
  "limit_ok m \<longleftrightarrow> (case m of None \<Rightarrow> True | Some n \<Rightarrow> 1 \<le> n)"

text \<open>How the ingestion of a unit ends, in every state.\<close>

definition ingests_as :: "'s service \<Rightarrow> (ingestion_outcome \<Rightarrow> bool) \<Rightarrow> source_unit \<Rightarrow> bool" where
  "ingests_as sv P u \<longleftrightarrow>
     (\<forall>s. \<exists>r out. fst (sv_ingest sv u s) = Inr r \<and> from_result (sv_str sv) r = Some out \<and> P out)"

definition succeeds_out :: "ingestion_outcome \<Rightarrow> bool" where
  "succeeds_out out \<longleftrightarrow> \<not> io_waiting out \<and> io_success out"

definition fails_out :: "ingestion_outcome \<Rightarrow> bool" where
  "fails_out out \<longleftrightarrow> \<not> io_waiting out \<and> \<not> io_success out"

definition raises :: "'s service \<Rightarrow> source_unit \<Rightarrow> bool" where
  "raises sv u \<longleftrightarrow> (\<forall>s. \<exists>e. fst (sv_ingest sv u s) = Inl e)"

definition quiet_completion :: "'s service \<Rightarrow> bool" where
  "quiet_completion sv \<longleftrightarrow>
     (case sv_on_completed sv of None \<Rightarrow> True | Some f \<Rightarrow> (\<forall>u s. fst (f u s) = None))"

definition run_stream :: "run_config \<Rightarrow> run_identity \<Rightarrow> stream_id" where
  "run_stream cfg i =
     \<lparr>si_partner = ri_partner i, si_fetch_config_id = ri_fetch_config_id i,
      si_source_type = ri_source_type i, si_stream_key = ri_stream_key i, si_mode = rn_mode cfg\<rparr>"

definition config_ok :: "run_config \<Rightarrow> bool" where
  "config_ok cfg \<longleftrightarrow> limit_ok (rn_max_attempts cfg) \<and> limit_ok (attempt_limit cfg)"

lemma unit_claim_args_simps [simp]:
  "ca_stream (unit_claim_args cfg i u k lv) = run_stream cfg i"
  "ca_claim_timeout (unit_claim_args cfg i u k lv) = 900"
  "ca_max_attempts (unit_claim_args cfg i u k lv) = attempt_limit cfg"
  "ca_expected_previous (unit_claim_args cfg i u k lv) = lv_previous lv"
  "ca_unit_key (unit_claim_args cfg i u k lv) = k"
  by (simp_all add: unit_claim_args_def run_stream_def)

lemma failure_args_simps [simp]: "fa_unit_key (failure_args sv cfg c k out now) = k"
  by (simp add: failure_args_def Let_def split: option.split)

lemma failure_args_limit:
  assumes "config_ok cfg"
  shows "limit_ok (fa_max_attempts (failure_args sv cfg c k out now))"
proof (cases "rn_policy cfg")
  case None
  with assms show ?thesis by (simp add: failure_args_def Let_def config_ok_def limit_ok_def)
next
  case (Some p)
  with assms have "1 \<le> max_attempts p" "limit_ok (rn_max_attempts cfg)"
    by (simp_all add: config_ok_def attempt_limit_def limit_ok_def)
  with Some show ?thesis by (simp add: failure_args_def Let_def limit_ok_def)
qed

text \<open>
  Units with keys, no two neighbours alike, of which the first is not the one completed last;
  and the unit completed last once they are all done.
\<close>

definition key_of :: "source_unit \<Rightarrow> string" where
  "key_of u = (case um_source_unit_key u of None \<Rightarrow> [] | Some k \<Rightarrow> k)"

fun unit_chain :: "string option \<Rightarrow> source_unit list \<Rightarrow> bool" where
  "unit_chain p [] = True"
| "unit_chain p (u # us) \<longleftrightarrow>
     um_source_unit_key u \<noteq> None \<and> um_source_unit_key u \<noteq> Some [] \<and>
     um_source_unit_key u \<noteq> p \<and> unit_chain (um_source_unit_key u) us"

definition chain_end :: "string option \<Rightarrow> source_unit list \<Rightarrow> string option" where
  "chain_end p us = (if us = [] then p else um_source_unit_key (last us))"

lemma unit_chain_append:
  "unit_chain p (us @ vs) \<longleftrightarrow> unit_chain p us \<and> unit_chain (chain_end p us) vs"
  by (induction p us rule: unit_chain.induct) (auto simp: chain_end_def)

locale checkpoint_service =
  fixes sv :: "'s service" and sid :: stream_id
    and last_of :: "'s \<Rightarrow> string option" and ready :: "'s \<Rightarrow> bool"
    and holds :: "'s \<Rightarrow> checkpoint \<Rightarrow> string \<Rightarrow> bool" and completed :: "'s \<Rightarrow> string \<Rightarrow> bool"
    and busy :: "'s \<Rightarrow> bool"
    and failed :: "'s \<Rightarrow> checkpoint \<Rightarrow> fail_args \<Rightarrow> bool" and ingested :: "'s \<Rightarrow> string list"
  assumes claim_ready:
    "ready s \<Longrightarrow> ca_stream a = sid \<Longrightarrow> ca_claim_timeout a = 900 \<Longrightarrow> limit_ok (ca_max_attempts a)
       \<Longrightarrow> ca_expected_previous a = last_of s \<Longrightarrow> last_of s \<noteq> Some (ca_unit_key a)
       \<Longrightarrow> \<exists>c s'. sv_claim sv a s = (Inr (c, True), s') \<and> holds s' c (ca_unit_key a) \<and>
                  last_of s' = last_of s \<and> ingested s' = ingested s"
    and not_skipped: "holds s c k \<Longrightarrow> \<not> skip_resolved c"
    and complete_held:
    "holds s c k \<Longrightarrow> \<exists>s'. sv_complete sv c k cur hwm s = (True, s') \<and> completed s' k \<and>
                          ingested s' = ingested s"
    and advance_completed:
    "completed s k \<Longrightarrow> ck_stream c = sid
       \<Longrightarrow> \<exists>s'. sv_advance sv c k s = (True, s') \<and> ready s' \<and> last_of s' = Some k \<and>
                ingested s' = ingested s"
    and holds_stream: "holds s c k \<Longrightarrow> ck_stream c = sid"
    and fail_held:
    "holds s c k \<Longrightarrow> fa_unit_key fa = k \<Longrightarrow> limit_ok (fa_max_attempts fa)
       \<Longrightarrow> \<exists>s'. sv_fail sv c fa s = (Inr True, s') \<and> last_of s' = last_of s \<and> \<not> busy s' \<and>
                failed s' c fa \<and> ingested s' = ingested s"
    and release_held:
    "holds s c k \<Longrightarrow> \<exists>s'. sv_release sv c k reason s = (True, s') \<and> ready s' \<and> \<not> busy s' \<and>
                          last_of s' = last_of s \<and> ingested s' = ingested s"
    and ingest_frame:
    "sv_ingest sv u s = (r, s') \<Longrightarrow> um_source_unit_key u = Some k
       \<Longrightarrow> keeps last_of ready holds completed busy failed s s' \<and> ingested s' = ingested s @ [k]"
    and observe_frame:
    "sv_observe sv = Some f
       \<Longrightarrow> keeps last_of ready holds completed busy failed s (f u ob c s) \<and> ingested (f u ob c s) = ingested s"
    and context_frame:
    "sv_context sv = Some g
       \<Longrightarrow> keeps last_of ready holds completed busy failed s (g c x y s) \<and> ingested (g c x y s) = ingested s"
    and on_completed_frame:
    "sv_on_completed sv = Some h \<Longrightarrow> h u s = (e, s')
       \<Longrightarrow> keeps last_of ready holds completed busy failed s s' \<and> ingested s' = ingested s"
begin

abbreviation same :: "'s \<Rightarrow> 's \<Rightarrow> bool" where
  "same s s' \<equiv> keeps last_of ready holds completed busy failed s s' \<and> ingested s' = ingested s"

lemma same_refl [simp]: "keeps last_of ready holds completed busy failed s s"
  by (simp add: keeps_def)

lemma keepsD:
  assumes "keeps last_of ready holds completed busy failed s s'"
  shows "last_of s' = last_of s" "ready s \<Longrightarrow> ready s'" "holds s c k \<Longrightarrow> holds s' c k"
    "completed s k \<Longrightarrow> completed s' k"
    "busy s' = busy s" "failed s c fa \<Longrightarrow> failed s' c fa"
  using assms by (simp_all add: keeps_def)

lemma keeps_trans:
  "keeps last_of ready holds completed busy failed s t \<Longrightarrow> keeps last_of ready holds completed busy failed t u
     \<Longrightarrow> keeps last_of ready holds completed busy failed s u"
  by (simp add: keeps_def)

lemma observe_same: "same s (observe sv u ob c s)"
  using observe_frame by (simp add: observe_def split: option.splits)

lemma attach_same: "same s (attach_source_file sv i c r s)"
  using context_frame
  by (auto simp: attach_source_file_def split: ingest_result.splits option.splits)


lemma acquire:
  assumes "ready s" and "run_stream cfg i = sid" and "config_ok cfg"
    and "lv_previous lv = last_of s" and "last_of s \<noteq> Some k"
  obtains c s1 where "sv_claim sv (unit_claim_args cfg i u k lv) s = (Inr (c, True), s1)"
    and "holds s1 c k" and "last_of s1 = last_of s" and "ingested s1 = ingested s"
  using claim_ready [OF assms(1), of "unit_claim_args cfg i u k lv"] assms(2-)
  by (auto simp: config_ok_def)

lemma run_unit_claimed:
  assumes "ready s" and "run_stream cfg i = sid" and "config_ok cfg"
    and "lv_previous lv = last_of s" and "last_of s \<noteq> Some k"
    and "um_source_unit_key u = Some k" and "k \<noteq> []"
  obtains c s1 where "run_unit sv cfg i u lv s = run_claimed sv cfg i c u k lv s1"
    and "holds s1 c k" and "last_of s1 = last_of s" and "ingested s1 = ingested s"
proof -
  obtain c s1 where "sv_claim sv (unit_claim_args cfg i u k lv) s = (Inr (c, True), s1)"
    "holds s1 c k" "last_of s1 = last_of s" "ingested s1 = ingested s"
    using acquire [OF assms(1-5)] .
  with assms(6,7) show thesis
    by (intro that [of c s1]) (auto simp: run_unit_def split: list.split)
qed

text \<open>The ingestion of a claimed unit, up to the point where its result is known.\<close>

lemma claimed_result:
  assumes held: "holds s c k" and key: "um_source_unit_key u = Some k"
    and res: "ingests_as sv P u"
  obtains r out s1 lv1 where "P out" and "holds s1 c k" and "last_of s1 = last_of s"
    and "ingested s1 = ingested s @ [k]"
    and "lv_processed lv1 = lv_processed lv" "lv_previous lv1 = lv_previous lv"
    and "run_claimed sv cfg i c u k lv s =
      (if io_waiting out then unit_waits sv c u k r out (lv_processed lv1) s1
       else if \<not> io_success out then unit_failed sv cfg c u k out (lv_processed lv1) s1
       else unit_ingested sv cfg c u k r
              (lv1\<lparr>lv_partial := lv_partial lv1 \<or> raw_outcome r = VStr ''PARTIAL''\<rparr>) s1)"
proof -
  let ?s0 = "observe sv u Obs_Claimed c s"
  obtain r s2 out where r: "sv_ingest sv u ?s0 = (Inr r, s2)"
    "from_result (sv_str sv) r = Some out" "P out"
    using res unfolding ingests_as_def by (metis prod.collapse)
  let ?s1 = "attach_source_file sv i c r s2"
  let ?lv = "if accepted_duplicate (raw_outcome r)
             then lv\<lparr>lv_duplicates := lv_duplicates lv @ [raw_outcome r]\<rparr> else lv"
  note o = observe_same [of s u Obs_Claimed c]
    and i = ingest_frame [OF r(1) key] and a = attach_same [of s2 i c r]
  have k1: "keeps last_of ready holds completed busy failed s ?s1"
    using o i a keeps_trans by blast
  have k2: "ingested ?s1 = ingested s @ [k]"
    using o i a by argo
  show thesis
  proof (rule that [of out ?s1 ?lv r])
    show "holds ?s1 c k" "last_of ?s1 = last_of s"
      using keepsD [OF k1] held by blast+
    show "run_claimed sv cfg i c u k lv s =
      (if io_waiting out then unit_waits sv c u k r out (lv_processed ?lv) ?s1
       else if \<not> io_success out then unit_failed sv cfg c u k out (lv_processed ?lv) ?s1
       else unit_ingested sv cfg c u k r
              (?lv\<lparr>lv_partial := lv_partial ?lv \<or> raw_outcome r = VStr ''PARTIAL''\<rparr>) ?s1)"
      using r not_skipped [OF held] by (simp add: run_claimed_def Let_def)
  qed (use r k2 in simp_all)
qed

lemma unit_succeeds:
  assumes held: "holds s c k" and q: "quiet_completion sv"
  obtains s' where
    "unit_ingested sv cfg c u k r lv s
       = (Next (lv\<lparr>lv_previous := Some k, lv_processed := lv_processed lv + 1\<rparr>), s')"
    and "ready s'" and "last_of s' = Some k" and "ingested s' = ingested s"
proof -
  obtain s1 where 1: "sv_complete sv c k (um_cursor_after u) (um_high_water_mark u) s = (True, s1)"
    "completed s1 k" "ingested s1 = ingested s" using complete_held [OF held] by blast
  obtain s2 where 2: "sv_advance sv c k s1 = (True, s2)" "ready s2" "last_of s2 = Some k"
    "ingested s2 = ingested s1" using advance_completed [OF 1(2) holds_stream [OF held]] by blast
  let ?s3 = "observe sv u (Obs_Ingested r) c s2"
  have 3: "ready ?s3" "last_of ?s3 = Some k" "ingested ?s3 = ingested s"
    using observe_same [of s2 u "Obs_Ingested r" c] 1 2 by (auto dest: keepsD)
  show thesis
  proof (cases "sv_on_completed sv")
    case None
    with 1 2 3 show thesis by (intro that [of ?s3]) (simp_all add: unit_ingested_def Let_def)
  next
    case (Some f)
    have "fst (f u ?s3) = None" using q Some by (simp add: quiet_completion_def)
    then obtain s4 where 4: "f u ?s3 = (None, s4)" by (cases "f u ?s3") simp
    have "ready s4" "last_of s4 = Some k" "ingested s4 = ingested s"
      using on_completed_frame [OF Some 4] 3 by (auto dest: keepsD)
    with Some 1 2 4 show thesis
      by (intro that [of s4]) (simp_all add: unit_ingested_def Let_def)
  qed
qed

lemma run_unit_good:
  assumes "ready s" and "run_stream cfg i = sid" and "config_ok cfg"
    and "lv_previous lv = last_of s" and "last_of s \<noteq> Some k"
    and "um_source_unit_key u = Some k" and "k \<noteq> []"
    and good: "ingests_as sv succeeds_out u" and q: "quiet_completion sv"
  obtains lv' s' where "run_unit sv cfg i u lv s = (Next lv', s')" and "ready s'"
    and "last_of s' = Some k" and "ingested s' = ingested s @ [k]"
    and "lv_previous lv' = Some k" and "lv_processed lv' = lv_processed lv + 1"
proof -
  obtain c s1 where 1: "run_unit sv cfg i u lv s = run_claimed sv cfg i c u k lv s1"
    "holds s1 c k" "last_of s1 = last_of s" "ingested s1 = ingested s"
    using run_unit_claimed [OF assms(1-7)] .
  obtain r out s2 lv1 where 2: "succeeds_out out" "holds s2 c k"
    "ingested s2 = ingested s1 @ [k]" "lv_processed lv1 = lv_processed lv"
    "run_claimed sv cfg i c u k lv s1 =
      (if io_waiting out then unit_waits sv c u k r out (lv_processed lv1) s2
       else if \<not> io_success out then unit_failed sv cfg c u k out (lv_processed lv1) s2
       else unit_ingested sv cfg c u k r
              (lv1\<lparr>lv_partial := lv_partial lv1 \<or> raw_outcome r = VStr ''PARTIAL''\<rparr>) s2)"
    by (rule claimed_result [OF 1(2) assms(6) good, where cfg = cfg and i = i and lv = lv])
  let ?lv = "lv1\<lparr>lv_partial := lv_partial lv1 \<or> raw_outcome r = VStr ''PARTIAL''\<rparr>"
  obtain s' where 3: "unit_ingested sv cfg c u k r ?lv s2
     = (Next (?lv\<lparr>lv_previous := Some k, lv_processed := lv_processed ?lv + 1\<rparr>), s')"
    "ready s'" "last_of s' = Some k" "ingested s' = ingested s2"
    by (rule unit_succeeds [OF 2(2) q, where lv = ?lv])
  show thesis
    by (rule that [where lv' = "?lv\<lparr>lv_previous := Some k, lv_processed := lv_processed ?lv + 1\<rparr>",
          OF _ 3(2,3)]) (use 1 2 3(1,4) in \<open>simp_all add: succeeds_out_def\<close>)
qed


lemma run_unit_result:
  assumes "ready s" and "run_stream cfg i = sid" and "config_ok cfg"
    and "lv_previous lv = last_of s" and "last_of s \<noteq> Some k"
    and "um_source_unit_key u = Some k" and "k \<noteq> []" and "ingests_as sv P u"
  obtains c r out s1 lv1 where "P out" and "holds s1 c k" and "last_of s1 = last_of s"
    and "ingested s1 = ingested s @ [k]" and "lv_processed lv1 = lv_processed lv"
    and "run_unit sv cfg i u lv s =
      (if io_waiting out then unit_waits sv c u k r out (lv_processed lv1) s1
       else if \<not> io_success out then unit_failed sv cfg c u k out (lv_processed lv1) s1
       else unit_ingested sv cfg c u k r
              (lv1\<lparr>lv_partial := lv_partial lv1 \<or> raw_outcome r = VStr ''PARTIAL''\<rparr>) s1)"
proof -
  obtain c s1 where 1: "run_unit sv cfg i u lv s = run_claimed sv cfg i c u k lv s1"
    "holds s1 c k" "last_of s1 = last_of s" "ingested s1 = ingested s"
    using run_unit_claimed [OF assms(1-7)] .
  show thesis
    by (rule claimed_result [OF 1(2) assms(6,8), where cfg = cfg and i = i and lv = lv], rule that)
      (use 1 in simp_all)
qed

lemma run_unit_fails:
  assumes "ready s" and "run_stream cfg i = sid" and "config_ok cfg"
    and "lv_previous lv = last_of s" and "last_of s \<noteq> Some k"
    and "um_source_unit_key u = Some k" and "k \<noteq> []"
    and "ingests_as sv P u" and P: "\<And>out. P out \<Longrightarrow> fails_out out"
  obtains r s' c out now where "P out" and "failed s' c (failure_args sv cfg c k out now)" and "run_unit sv cfg i u lv s = (Stop r, s')" and "\<not> rr_success r"
    and "rr_processed r = lv_processed lv" and "rr_stopped_at r = Some k" and "\<not> busy s'"
    and "last_of s' = last_of s" and "ingested s' = ingested s @ [k]"
proof -
  obtain c r out s1 lv1 where 1: "P out" "holds s1 c k" "last_of s1 = last_of s"
    "ingested s1 = ingested s @ [k]" "lv_processed lv1 = lv_processed lv"
    "run_unit sv cfg i u lv s =
      (if io_waiting out then unit_waits sv c u k r out (lv_processed lv1) s1
       else if \<not> io_success out then unit_failed sv cfg c u k out (lv_processed lv1) s1
       else unit_ingested sv cfg c u k r
              (lv1\<lparr>lv_partial := lv_partial lv1 \<or> raw_outcome r = VStr ''PARTIAL''\<rparr>) s1)"
    by (rule run_unit_result [OF assms(1-8)])
  obtain s2 where 2: "sv_fail sv c (failure_args sv cfg c k out (sv_now sv s1)) s1 = (Inr True, s2)"
    "last_of s2 = last_of s1" "\<not> busy s2" "ingested s2 = ingested s1"
    "failed s2 c (failure_args sv cfg c k out (sv_now sv s1))"
    using fail_held [OF 1(2) failure_args_simps failure_args_limit [OF assms(3)]] by blast
  let ?res = "with_quality out (stopped (lv_processed lv) (Some k) (sanitize sv (io_error out) 220))"
  have res: "\<not> rr_success ?res" "rr_processed ?res = lv_processed lv"
    "rr_stopped_at ?res = Some k" by (simp_all add: with_quality_def stopped_def)
  let ?s3 = "observe sv u (Obs_Result ?res (VStr (sanitize sv (io_error_code out) 96))) c s2"
  note o = observe_same [of s2 u "Obs_Result ?res (VStr (sanitize sv (io_error_code out) 96))" c]
  have "run_unit sv cfg i u lv s = (Stop ?res, ?s3)"
    using 1 2 P [OF 1(1)] by (simp add: fails_out_def unit_failed_def Let_def)
  moreover have "last_of ?s3 = last_of s" "\<not> busy ?s3" "ingested ?s3 = ingested s @ [k]"
    using o 1 2 by (simp_all add: keepsD(1,5) [OF conjunct1 [OF o]])
  moreover have "failed ?s3 c (failure_args sv cfg c k out (sv_now sv s1))"
    using keepsD(6) [OF conjunct1 [OF o]] 2(5) by blast
  ultimately show thesis using res 1(1) by (intro that [of out ?s3 c "sv_now sv s1" ?res])
qed

lemma run_unit_waits:
  assumes "ready s" and "run_stream cfg i = sid" and "config_ok cfg"
    and "lv_previous lv = last_of s" and "last_of s \<noteq> Some k"
    and "um_source_unit_key u = Some k" and "k \<noteq> []" and "ingests_as sv io_waiting u"
  obtains r s' where "run_unit sv cfg i u lv s = (Stop r, s')" and "rr_success r \<and> rr_waiting r"
    and "rr_processed r = lv_processed lv" and "rr_stopped_at r = Some k" and "ready s'"
    and "last_of s' = last_of s" and "ingested s' = ingested s @ [k]"
proof -
  obtain c r out s1 lv1 where 1: "io_waiting out" "holds s1 c k" "last_of s1 = last_of s"
    "ingested s1 = ingested s @ [k]" "lv_processed lv1 = lv_processed lv"
    "run_unit sv cfg i u lv s =
      (if io_waiting out then unit_waits sv c u k r out (lv_processed lv1) s1
       else if \<not> io_success out then unit_failed sv cfg c u k out (lv_processed lv1) s1
       else unit_ingested sv cfg c u k r
              (lv1\<lparr>lv_partial := lv_partial lv1 \<or> raw_outcome r = VStr ''PARTIAL''\<rparr>) s1)"
    by (rule run_unit_result [OF assms])
  let ?why = "sanitize sv (io_error out) 220"
  obtain s2 where 2: "sv_release sv c k ?why s1 = (True, s2)" "ready s2"
    "last_of s2 = last_of s1" "ingested s2 = ingested s1"
    using release_held [OF 1(2)] by blast
  let ?res = "with_quality out
      ((stopped (lv_processed lv) (Some k) ?why)
         \<lparr>rr_success := True, rr_failed := 0, rr_outcome := Some ''WAITING_REVIEW'',
          rr_waiting := True\<rparr>)"
  have res: "rr_success ?res \<and> rr_waiting ?res" "rr_processed ?res = lv_processed lv"
    "rr_stopped_at ?res = Some k" by (simp_all add: with_quality_def stopped_def)
  let ?s3 = "observe sv u (Obs_Result ?res (result_error_code r)) c s2"
  note o = observe_same [of s2 u "Obs_Result ?res (result_error_code r)" c]
  have "run_unit sv cfg i u lv s = (Stop ?res, ?s3)"
    using 1 2 by (simp add: unit_waits_def Let_def)
  moreover have "last_of ?s3 = last_of s" "ready ?s3" "ingested ?s3 = ingested s @ [k]"
    using o 1 2 by (simp_all add: keepsD(1,2) [OF conjunct1 [OF o]])
  ultimately show thesis using res by (intro that [of ?res ?s3])
qed

lemma run_unit_raises:
  assumes "ready s" and "run_stream cfg i = sid" and "config_ok cfg"
    and "lv_previous lv = last_of s" and "last_of s \<noteq> Some k"
    and "um_source_unit_key u = Some k" and "k \<noteq> []" and "raises sv u"
  obtains e s' where "run_unit sv cfg i u lv s = (Raised (Ex_Ingest e), s')" and "\<not> busy s'"
    and "last_of s' = last_of s" and "ingested s' = ingested s @ [k]"
proof -
  obtain c s1 where 1: "run_unit sv cfg i u lv s = run_claimed sv cfg i c u k lv s1"
    "holds s1 c k" "last_of s1 = last_of s" "ingested s1 = ingested s"
    using run_unit_claimed [OF assms(1-7)] .
  let ?s2 = "observe sv u Obs_Claimed c s1"
  note o = observe_same [of s1 u Obs_Claimed c]
  obtain e s3 where 3: "sv_ingest sv u ?s2 = (Inl e, s3)"
    using assms(8) unfolding raises_def by (metis prod.collapse)
  note n = ingest_frame [OF 3 assms(6)]
  have held: "holds s3 c k" "last_of s3 = last_of s" "ingested s3 = ingested s @ [k]"
    using keepsD(1,3) [OF conjunct1 [OF o]] keepsD(1,3) [OF conjunct1 [OF n]] o n 1 by simp_all
  let ?err = "sanitize_runtime_error (sv_redact sv) (ex_text e) 220"
  obtain s4 where 4: "sv_fail sv c (exception_fail_args cfg k ?err e) s3 = (Inr True, s4)"
    "last_of s4 = last_of s3" "\<not> busy s4" "ingested s4 = ingested s3"
    using fail_held [OF held(1), of "exception_fail_args cfg k ?err e"] assms(3)
    by (auto simp: exception_fail_args_def config_ok_def)
  let ?s5 = "observe sv u (Obs_Exception ?err) c s4"
  note q = observe_same [of s4 u "Obs_Exception ?err" c]
  have "run_unit sv cfg i u lv s = (Raised (Ex_Ingest e), ?s5)"
    using 1 3 4 not_skipped [OF 1(2)] by (simp add: run_claimed_def unit_raised_def Let_def)
  moreover have "last_of ?s5 = last_of s" "\<not> busy ?s5" "ingested ?s5 = ingested s @ [k]"
    using q held 4 by (simp_all add: keepsD(1,5) [OF conjunct1 [OF q]])
  ultimately show thesis by (intro that [of e ?s5])
qed


lemma run_units_prefix:
  assumes "ready s" and "run_stream cfg i = sid" and "config_ok cfg"
    and "lv_previous lv = last_of s" and "unit_chain (last_of s) us"
    and "\<And>u. u \<in> set us \<Longrightarrow> ingests_as sv succeeds_out u" and "quiet_completion sv"
  shows "\<exists>lv' s'. run_units sv cfg i (us @ rest) lv s = run_units sv cfg i rest lv' s' \<and>
    ready s' \<and> last_of s' = chain_end (last_of s) us \<and> lv_previous lv' = last_of s' \<and>
    ingested s' = ingested s @ map key_of us \<and> lv_processed lv' = lv_processed lv + length us"
  using assms(1,4-6)
proof (induction us arbitrary: lv s)
  case Nil
  then show ?case by (auto simp: chain_end_def)
next
  case (Cons u us)
  then obtain k where k: "um_source_unit_key u = Some k" "k \<noteq> []" "last_of s \<noteq> Some k"
    "unit_chain (Some k) us" by auto
  obtain lv1 s1 where 1: "run_unit sv cfg i u lv s = (Next lv1, s1)" "ready s1"
    "last_of s1 = Some k" "ingested s1 = ingested s @ [k]" "lv_previous lv1 = Some k"
    "lv_processed lv1 = lv_processed lv + 1"
    by (rule run_unit_good [OF Cons.prems(1) assms(2,3) Cons.prems(2) k(3,1,2) _ assms(7)])
      (use Cons.prems in simp_all)
  obtain lv2 s2 where 2: "run_units sv cfg i (us @ rest) lv1 s1 = run_units sv cfg i rest lv2 s2"
    "ready s2" "last_of s2 = chain_end (last_of s1) us" "lv_previous lv2 = last_of s2"
    "ingested s2 = ingested s1 @ map key_of us" "lv_processed lv2 = lv_processed lv1 + length us"
    using Cons.IH [of s1 lv1] 1 k(4) Cons.prems(4) by auto
  have "key_of u = k" using k by (simp add: key_of_def)
  with 1 2 k(1) show ?case
    by (intro exI [of _ lv2] exI [of _ s2]) (auto simp: chain_end_def)
qed

lemma run_to:
  assumes "ready s" and "run_stream cfg i = sid" and "config_ok cfg"
    and "ri_last_completed i = last_of s" and "unit_chain (last_of s) (us @ u # rest)"
    and "\<And>v. v \<in> set us \<Longrightarrow> ingests_as sv succeeds_out v" and "quiet_completion sv"
  obtains lv1 s1 k where
    "process_source_units sv cfg i (us @ u # rest) s = run_units sv cfg i (u # rest) lv1 s1"
    and "ready s1" and "last_of s1 = chain_end (last_of s) us" and "lv_previous lv1 = last_of s1"
    and "ingested s1 = ingested s @ map key_of us" and "lv_processed lv1 = length us"
    and "um_source_unit_key u = Some k" and "k \<noteq> []" and "last_of s1 \<noteq> Some k"
    and "key_of u = k"
proof -
  have p: "lv_previous (start_vars i) = last_of s" "lv_processed (start_vars i) = 0"
    using assms(4) by (simp_all add: start_vars_def)
  have chain: "unit_chain (last_of s) us" "unit_chain (chain_end (last_of s) us) (u # rest)"
    using assms(5) by (simp_all add: unit_chain_append)
  obtain lv1 s1 where 1: "run_units sv cfg i (us @ u # rest) (start_vars i) s
       = run_units sv cfg i (u # rest) lv1 s1" "ready s1"
    "last_of s1 = chain_end (last_of s) us" "lv_previous lv1 = last_of s1"
    "ingested s1 = ingested s @ map key_of us" "lv_processed lv1 = length us"
    using run_units_prefix [OF assms(1-3) p(1) chain(1) assms(6,7), of "u # rest"] p(2)
    by auto
  moreover obtain k where "um_source_unit_key u = Some k" "k \<noteq> []" "last_of s1 \<noteq> Some k"
    using chain(2) 1(3) by auto
  ultimately show thesis
    by (intro that [of lv1 s1 k]) (simp_all add: process_source_units_def key_of_def)
qed

lemma run_all_good:
  assumes "ready s" and "run_stream cfg i = sid" and "config_ok cfg"
    and "ri_last_completed i = last_of s" and "unit_chain (last_of s) us"
    and "\<And>u. u \<in> set us \<Longrightarrow> ingests_as sv succeeds_out u" and "quiet_completion sv"
  shows "\<exists>r s'. process_source_units sv cfg i us s = (Inr r, s') \<and> rr_success r \<and>
    rr_processed r = length us \<and> last_of s' = chain_end (last_of s) us \<and> ready s' \<and>
    ingested s' = ingested s @ map key_of us"
proof -
  have "lv_previous (start_vars i) = last_of s" using assms(4) by (simp add: start_vars_def)
  from run_units_prefix [OF assms(1-3) this assms(5-7), of "[]"] show ?thesis
    by (auto simp: process_source_units_def start_vars_def run_summary_def Let_def)
qed

lemma run_stops_at_failure:
  assumes "ready s" and "run_stream cfg i = sid" and "config_ok cfg"
    and "ri_last_completed i = last_of s" and "unit_chain (last_of s) (us @ u # rest)"
    and "\<And>v. v \<in> set us \<Longrightarrow> ingests_as sv succeeds_out v" and "quiet_completion sv"
    and "ingests_as sv P u" and "\<And>out. P out \<Longrightarrow> fails_out out"
  shows "\<exists>r s'. process_source_units sv cfg i (us @ u # rest) s = (Inr r, s') \<and> \<not> rr_success r \<and>
    rr_processed r = length us \<and> rr_stopped_at r = um_source_unit_key u \<and>
    last_of s' = chain_end (last_of s) us \<and> \<not> busy s' \<and>
    (\<exists>c out now. P out \<and> failed s' c (failure_args sv cfg c (key_of u) out now)) \<and>
    ingested s' = ingested s @ map key_of us @ [key_of u]"
proof -
  obtain lv1 s1 k where 1:
    "process_source_units sv cfg i (us @ u # rest) s = run_units sv cfg i (u # rest) lv1 s1"
    "ready s1" "last_of s1 = chain_end (last_of s) us" "lv_previous lv1 = last_of s1"
    "ingested s1 = ingested s @ map key_of us" "lv_processed lv1 = length us"
    and k: "um_source_unit_key u = Some k" "k \<noteq> []" "last_of s1 \<noteq> Some k" "key_of u = k"
    by (rule run_to [OF assms(1-7)])
  obtain r s2 c out now where 2: "P out" "failed s2 c (failure_args sv cfg c k out now)"
    "run_unit sv cfg i u lv1 s1 = (Stop r, s2)" "\<not> rr_success r"
    "rr_processed r = lv_processed lv1" "rr_stopped_at r = Some k" "\<not> busy s2"
    "last_of s2 = last_of s1" "ingested s2 = ingested s1 @ [k]"
    by (rule run_unit_fails [OF 1(2) assms(2,3) 1(4) k(3,1,2) assms(8,9)])
  then show ?thesis using 1 k by fastforce
qed

lemma run_stops_at_review:
  assumes "ready s" and "run_stream cfg i = sid" and "config_ok cfg"
    and "ri_last_completed i = last_of s" and "unit_chain (last_of s) (us @ u # rest)"
    and "\<And>v. v \<in> set us \<Longrightarrow> ingests_as sv succeeds_out v" and "quiet_completion sv"
    and "ingests_as sv io_waiting u"
  shows "\<exists>r s'. process_source_units sv cfg i (us @ u # rest) s = (Inr r, s') \<and>
    rr_success r \<and> rr_waiting r \<and> rr_processed r = length us \<and>
    rr_stopped_at r = um_source_unit_key u \<and> last_of s' = chain_end (last_of s) us \<and> ready s' \<and>
    ingested s' = ingested s @ map key_of us @ [key_of u]"
proof -
  obtain lv1 s1 k where 1:
    "process_source_units sv cfg i (us @ u # rest) s = run_units sv cfg i (u # rest) lv1 s1"
    "ready s1" "last_of s1 = chain_end (last_of s) us" "lv_previous lv1 = last_of s1"
    "ingested s1 = ingested s @ map key_of us" "lv_processed lv1 = length us"
    and k: "um_source_unit_key u = Some k" "k \<noteq> []" "last_of s1 \<noteq> Some k" "key_of u = k"
    by (rule run_to [OF assms(1-7)])
  obtain r s2 where 2: "run_unit sv cfg i u lv1 s1 = (Stop r, s2)" "rr_success r \<and> rr_waiting r"
    "rr_processed r = lv_processed lv1" "rr_stopped_at r = Some k" "ready s2"
    "last_of s2 = last_of s1" "ingested s2 = ingested s1 @ [k]"
    by (rule run_unit_waits [OF 1(2) assms(2,3) 1(4) k(3,1,2) assms(8)])
  then show ?thesis using 1 k by auto
qed

lemma run_raises:
  assumes "ready s" and "run_stream cfg i = sid" and "config_ok cfg"
    and "ri_last_completed i = last_of s" and "unit_chain (last_of s) (us @ u # rest)"
    and "\<And>v. v \<in> set us \<Longrightarrow> ingests_as sv succeeds_out v" and "quiet_completion sv"
    and "raises sv u"
  shows "\<exists>e s'. process_source_units sv cfg i (us @ u # rest) s = (Inl (Ex_Ingest e), s') \<and>
    last_of s' = chain_end (last_of s) us \<and> \<not> busy s' \<and>
    ingested s' = ingested s @ map key_of us @ [key_of u]"
proof -
  obtain lv1 s1 k where 1:
    "process_source_units sv cfg i (us @ u # rest) s = run_units sv cfg i (u # rest) lv1 s1"
    "ready s1" "last_of s1 = chain_end (last_of s) us" "lv_previous lv1 = last_of s1"
    "ingested s1 = ingested s @ map key_of us" "lv_processed lv1 = length us"
    and k: "um_source_unit_key u = Some k" "k \<noteq> []" "last_of s1 \<noteq> Some k" "key_of u = k"
    by (rule run_to [OF assms(1-7)])
  obtain e s2 where 2: "run_unit sv cfg i u lv1 s1 = (Raised (Ex_Ingest e), s2)" "\<not> busy s2"
    "last_of s2 = last_of s1" "ingested s2 = ingested s1 @ [k]"
    by (rule run_unit_raises [OF 1(2) assms(2,3) 1(4) k(3,1,2) assms(8)])
  then show ?thesis using 1 k by auto
qed

end

end
