(* ===== verification/OrchestratorRepo.thy ===== *)
theory OrchestratorRepo
  imports OrchestratorSpec
begin

text \<open>
  The orchestrator on the model of the checkpoint repository: one worker, whose state holds
  the checkpoint collection, the clock, the supply of fresh identifiers and the keys of the
  units it has handed to ingestion. What the ingestion of a unit returns may depend on the
  keys ingested so far, and it takes the time \<open>dur\<close>. \<open>checkpoint_service\<close> is interpreted
  here for every stream.
\<close>

record world =
  wo_db :: ckpt_db
  wo_now :: datetime
  wo_next :: nat
  wo_ingested :: "string list"

definition fresh_ids :: "(nat \<Rightarrow> uuid) \<Rightarrow> nat \<Rightarrow> claim_ids" where
  "fresh_ids mk n = \<lparr>id_doc = mk n, id_claim = mk (n + 1), id_event = mk (n + 2)\<rparr>"

definition with_db :: "('r \<times> ckpt_db) \<Rightarrow> nat \<Rightarrow> world \<Rightarrow> 'r \<times> world" where
  "with_db p n w = (fst p, w\<lparr>wo_db := snd p, wo_next := wo_next w + n\<rparr>)"

definition repo_service ::
  "(nat \<Rightarrow> uuid) \<Rightarrow> (source_unit \<Rightarrow> string list \<Rightarrow> exn + ingest_result) \<Rightarrow> (source_unit \<Rightarrow> nat)
     \<Rightarrow> (string \<Rightarrow> string) \<Rightarrow> (pyval \<Rightarrow> string) \<Rightarrow> world service" where
  "repo_service mk ing dur redact str_of =
     \<lparr>sv_claim = (\<lambda>a w. with_db (claim_unit a (wo_now w) (fresh_ids mk (wo_next w)) (wo_db w)) 3 w),
      sv_complete = (\<lambda>c k cur hwm w.
        with_db (mark_completed k cur hwm (wo_now w) (mk (wo_next w)) c (wo_db w)) 1 w),
      sv_advance = (\<lambda>c k w. with_db (advance k (wo_now w) c (wo_db w)) 0 w),
      sv_fail = (\<lambda>c fa w. with_db (mark_failed fa (wo_now w) (mk (wo_next w)) c (wo_db w)) 1 w),
      sv_release = (\<lambda>c k reason w.
        with_db (release_for_review k reason (wo_now w) (mk (wo_next w)) c (wo_db w)) 1 w),
      sv_context = Some (\<lambda>c f r w.
        snd (with_db (update_source_context (Some f) r (wo_now w) c (wo_db w)) 0 w)),
      sv_ingest = (\<lambda>u w. (ing u (wo_ingested w),
        w\<lparr>wo_now := wo_now w + int (dur u), wo_ingested := wo_ingested w @ [key_of u]\<rparr>)),
      sv_observe = None,
      sv_on_completed = None,
      sv_now = wo_now,
      sv_redact = redact,
      sv_str = str_of\<rparr>"

lemma repo_service_simps [simp]:
  "sv_claim (repo_service mk ing dur redact str_of) a w =
     with_db (claim_unit a (wo_now w) (fresh_ids mk (wo_next w)) (wo_db w)) 3 w"
  "sv_complete (repo_service mk ing dur redact str_of) c k cur hwm w =
     with_db (mark_completed k cur hwm (wo_now w) (mk (wo_next w)) c (wo_db w)) 1 w"
  "sv_advance (repo_service mk ing dur redact str_of) c k w =
     with_db (advance k (wo_now w) c (wo_db w)) 0 w"
  "sv_fail (repo_service mk ing dur redact str_of) c fa w =
     with_db (mark_failed fa (wo_now w) (mk (wo_next w)) c (wo_db w)) 1 w"
  "sv_release (repo_service mk ing dur redact str_of) c k reason w =
     with_db (release_for_review k reason (wo_now w) (mk (wo_next w)) c (wo_db w)) 1 w"
  "sv_ingest (repo_service mk ing dur redact str_of) u w =
     (ing u (wo_ingested w),
      w\<lparr>wo_now := wo_now w + int (dur u), wo_ingested := wo_ingested w @ [key_of u]\<rparr>)"
  "sv_observe (repo_service mk ing dur redact str_of) = None"
  "sv_on_completed (repo_service mk ing dur redact str_of) = None"
  "sv_str (repo_service mk ing dur redact str_of) = str_of"
  by (simp_all add: repo_service_def)

lemma with_db_simps [simp]:
  "fst (with_db p n w) = fst p" "wo_db (snd (with_db p n w)) = snd p"
  "wo_now (snd (with_db p n w)) = wo_now w" "wo_ingested (snd (with_db p n w)) = wo_ingested w"
  by (simp_all add: with_db_def)

section \<open>The stream as the contract sees it\<close>

definition stream_ready :: "stream_id \<Rightarrow> world \<Rightarrow> bool" where
  "stream_ready i w \<longleftrightarrow>
     (case wo_db w i of None \<Rightarrow> True
      | Some d \<Rightarrow> ck_stream d = i \<and> \<not> skip_resolved d \<and> claim_idle (wo_now w) d)"

definition stream_held :: "stream_id \<Rightarrow> world \<Rightarrow> checkpoint \<Rightarrow> string \<Rightarrow> bool" where
  "stream_held i w c k \<longleftrightarrow>
     ck_stream c = i \<and> \<not> skip_resolved c \<and>
     (\<exists>d. wo_db w i = Some d \<and> ck_stream d = i \<and> \<not> skip_resolved d \<and> holder_query c k d \<and>
        ck_attempt_count d = ck_attempt_count c)"

definition stream_completed :: "stream_id \<Rightarrow> world \<Rightarrow> string \<Rightarrow> bool" where
  "stream_completed i w k \<longleftrightarrow>
     (\<exists>d. wo_db w i = Some d \<and> ck_stream d = i \<and> \<not> skip_resolved d \<and> advance_query k d)"

definition stream_busy :: "stream_id \<Rightarrow> world \<Rightarrow> bool" where
  "stream_busy i w \<longleftrightarrow> (\<exists>d. wo_db w i = Some d \<and> ck_status d = CK_PROCESSING)"

text \<open>The unit was failed with these arguments by the holder of \<open>c\<close>.\<close>

definition stream_failed :: "stream_id \<Rightarrow> world \<Rightarrow> checkpoint \<Rightarrow> fail_args \<Rightarrow> bool" where
  "stream_failed i w c fa \<longleftrightarrow>
     (\<exists>d. wo_db w i = Some d \<and> ck_stream d = i \<and> \<not> skip_resolved d \<and>
        ck_current_unit_key d = Some (fa_unit_key fa) \<and> ck_attempt_count d = ck_attempt_count c \<and>
        ck_status d = (if fail_blocks fa c then CK_BLOCKED else CK_FAILED) \<and>
        ck_error_code d = Some (fa_error_code fa) \<and> ck_retryable d = Some (fa_retryable fa) \<and>
        ck_next_retry_at d = (if fail_blocks fa c then None else fa_next_retry_at fa))"

definition stream_last :: "stream_id \<Rightarrow> world \<Rightarrow> string option" where
  "stream_last i w = last_completed (wo_db w) i"

lemma skip_resolved_updates [simp]:
  "skip_resolved (claim_update a now ids snap d) = skip_resolved d"
  "skip_resolved (release_update k reason now eid snap d) = skip_resolved d"
  "\<not> skip_resolved (complete_update k cur hwm now eid snap d)"
  "skip_resolved (advance_update now d) = skip_resolved d"
  "\<not> skip_resolved (new_checkpoint a did now)"
  by (simp_all add: skip_resolved_def claim_update_def release_update_def complete_update_def
      advance_update_def new_checkpoint_def push_event_def dget_def Let_def)

lemma claim_idle_mono: "claim_idle now d \<Longrightarrow> now \<le> later \<Longrightarrow> claim_idle later d"
  by (auto simp: claim_idle_def split: option.splits)

lemma claim_ready_repo:
  assumes "stream_ready (ca_stream a) w" and "ca_claim_timeout a = 900"
    and "limit_ok (ca_max_attempts a)" and "ca_expected_previous a = stream_last (ca_stream a) w"
    and "stream_last (ca_stream a) w \<noteq> Some (ca_unit_key a)"
  shows "\<exists>c w'. with_db (claim_unit a (wo_now w) ids (wo_db w)) n w = (Inr (c, True), w') \<and>
    stream_held (ca_stream a) w' c (ca_unit_key a) \<and>
    stream_last (ca_stream a) w' = stream_last (ca_stream a) w \<and> wo_ingested w' = wo_ingested w"
proof -
  let ?d = "claim_target a (wo_now w) ids (wo_db w)"
  let ?c = "claim_update a (wo_now w) ids ?d ?d"
  have d: "ck_stream ?d = ca_stream a" "\<not> skip_resolved ?d" "claim_idle (wo_now w) ?d"
    "ck_last_completed_unit_key ?d = stream_last (ca_stream a) w"
    using assms(1)
    by (auto simp: stream_ready_def claim_target_def stream_last_def last_completed_def
        claim_idle_def new_checkpoint_def split: option.splits)
      (simp_all add: skip_resolved_def dget_def)
  have c: "claim_unit a (wo_now w) ids (wo_db w) = (Inr (?c, True), (wo_db w)(ca_stream a \<mapsto> ?c))"
    using assms(2-5) d
    by (simp add: claim_unit_eq claim_branches_def claim_query_def limit_ok_def
        split: option.splits)
  show ?thesis
    using d claimed_holds [of a "wo_now w" ids ?d ?d]
    by (simp add: c with_db_def stream_held_def stream_last_def last_completed_def
        claim_tr.stream)
qed


section \<open>The repository keeps the contract\<close>

lemma keeps_ingest:
  "keeps (stream_last i) (stream_ready i) (stream_held i) (stream_completed i) (stream_busy i)
     (stream_failed i) w
     (w\<lparr>wo_now := wo_now w + int n, wo_ingested := xs\<rparr>)"
  by (auto simp: keeps_def stream_last_def stream_ready_def stream_held_def stream_completed_def
      stream_busy_def stream_failed_def intro: claim_idle_mono split: option.splits)

lemma keeps_context:
  "keeps (stream_last i) (stream_ready i) (stream_held i) (stream_completed i) (stream_busy i)
     (stream_failed i) w
     (snd (with_db (update_source_context f r now c (wo_db w)) n w))"
proof -
  let ?f = "\<lambda>d. d\<lparr>ck_source_file_id := if f = None then ck_source_file_id d else f,
                   ck_runtime_run_id := if r = None then ck_runtime_run_id d else r,
                   ck_updated_at := now\<rparr>"
  have same: "claim_idle t (?f d) = claim_idle t d" "skip_resolved (?f d) = skip_resolved d"
    "holder_query e k (?f d) = holder_query e k d" "advance_query k (?f d) = advance_query k d"
    for t d e k
    by (simp_all add: claim_idle_def skip_resolved_def holder_query_def advance_query_def)
  show ?thesis
    using same
    by (auto simp: keeps_def stream_last_def last_completed_def stream_ready_def
        stream_held_def stream_completed_def stream_busy_def stream_failed_def
        update_source_context_def
        update_one_def split: option.splits)
qed

interpretation repo: checkpoint_service "repo_service mk ing dur redact str_of" i
  "stream_last i" "stream_ready i" "stream_held i" "stream_completed i" "stream_busy i"
  "stream_failed i" wo_ingested
  for mk ing dur redact str_of i
proof (unfold_locales, goal_cases)
  case (1 s a)
  then show ?case using claim_ready_repo [of a s] by simp
next
  case (2 s c k) then show ?case by (simp add: stream_held_def)
next
  case (3 s c k cur hwm)
  then obtain d where d: "wo_db s i = Some d" "ck_stream d = i" "holder_query c k d"
    "ck_stream c = i" by (auto simp: stream_held_def)
  let ?e = "complete_update k cur hwm (wo_now s) (mk (wo_next s)) c d"
  have "mark_completed k cur hwm (wo_now s) (mk (wo_next s)) c (wo_db s)
      = (True, (wo_db s)(i \<mapsto> ?e))"
    using complete_tr.succeeds d by (simp add: mark_completed_def)
  moreover have "advance_query k ?e" "ck_stream ?e = i"
    using d(2,3)
    by (simp_all add: advance_query_def complete_tr.stream)
      (simp add: complete_update_def Let_def push_event_def holder_query_def)
  ultimately show ?case by (simp add: with_db_def stream_completed_def)
next
  case (4 s k c)
  then obtain d where d: "wo_db s i = Some d" "ck_stream d = i" "\<not> skip_resolved d"
    "advance_query k d" by (auto simp: stream_completed_def)
  then have "advance k (wo_now s) c (wo_db s) = (True, (wo_db s)(i \<mapsto> advance_update (wo_now s) d))"
    using 4 advance_tr.succeeds by (simp add: advance_def)
  with d show ?case
    by (simp add: with_db_def stream_ready_def stream_last_def last_completed_def claim_idle_def
        advance_tr.stream) (simp add: advance_query_def)
next
  case (5 s c k) then show ?case by (simp add: stream_held_def)
next
  case (6 s c k fa)
  then obtain d where d: "wo_db s i = Some d" "holder_query c k d" "ck_stream c = i"
    "ck_stream d = i" "\<not> skip_resolved d" "ck_attempt_count d = ck_attempt_count c"
    by (auto simp: stream_held_def)
  let ?e = "fail_update fa (wo_now s) (mk (wo_next s)) c d"
  have "update_one i (holder_query c (fa_unit_key fa)) (fail_update fa (wo_now s) (mk (wo_next s)) c)
      (wo_db s) = (True, (wo_db s)(i \<mapsto> ?e))"
    using d 6(2) by (intro fail_tr.succeeds) simp_all
  then have "mark_failed fa (wo_now s) (mk (wo_next s)) c (wo_db s)
      = (Inr True, (wo_db s)(i \<mapsto> ?e))"
    using d(3) 6(3) by (simp add: mark_failed_def limit_ok_def split: option.splits)
  moreover have "stream_failed i (s\<lparr>wo_db := (wo_db s)(i \<mapsto> ?e), wo_next := n\<rparr>) c fa"
    for n
    using d 6(2)
    by (simp add: stream_failed_def fail_tr.stream holder_query_def)
      (simp add: fail_update_def push_event_def Let_def skip_resolved_def)
  ultimately show ?case
    using d by (simp add: with_db_def stream_last_def last_completed_def stream_busy_def)
next
  case (7 s c k reason)
  then obtain d where d: "wo_db s i = Some d" "ck_stream d = i" "\<not> skip_resolved d"
    "holder_query c k d" "ck_stream c = i" by (auto simp: stream_held_def)
  then have "release_for_review k reason (wo_now s) (mk (wo_next s)) c (wo_db s)
      = (True, (wo_db s)(i \<mapsto> release_update k reason (wo_now s) (mk (wo_next s)) c d))"
    using release_tr.succeeds by (simp add: release_for_review_def)
  with d show ?case
    by (simp add: with_db_def stream_ready_def stream_last_def last_completed_def stream_busy_def
        claim_idle_def release_tr.stream)
next
  case (8 s u r s' k) then show ?case by (auto simp: keeps_ingest key_of_def)
next
  case (9 f s u ob c) then show ?case by simp
next
  case (10 g s c x y)
  then have "g = (\<lambda>c f r w.
      snd (with_db (update_source_context (Some f) r (wo_now w) c (wo_db w)) 0 w))"
    by (simp add: repo_service_def)
  then show ?case using keeps_context by simp
next
  case (11 h u s e s') then show ?case by simp
qed

end
