(* ===== verification/OrchestratorProps.thy ===== *)
theory OrchestratorProps
  imports OrchestratorRepo
begin

text \<open>
  Properties of \<open>process_source_units\<close> on the checkpoint repository, of a second run after a
  failure, and of resuming a unit held for review.
\<close>

section \<open>The suffix after a checkpoint\<close>

text \<open>The content hash in a high-water mark, if any, is that of none of the units.\<close>

definition foreign_hash :: "pyval \<Rightarrow> source_unit list \<Rightarrow> bool" where
  "foreign_hash h us \<longleftrightarrow> (\<forall>v \<in> set us. \<not> (truthy h \<and> opt_str (um_content_hash v) = h))"

lemma after_unit_none:
  "foreign_hash h us \<Longrightarrow> (\<And>v. v \<in> set us \<Longrightarrow> um_source_unit_key v \<noteq> k) \<Longrightarrow> after_unit k h us = None"
  by (induction us) (auto simp: foreign_hash_def)

lemma after_unit_some:
  "foreign_hash h us \<Longrightarrow>
     (\<And>v. v \<in> set us \<Longrightarrow> um_source_unit_key v \<noteq> um_source_unit_key u) \<Longrightarrow>
     after_unit (um_source_unit_key u) h (us @ u # rest) = Some rest"
  by (induction us) (auto simp: foreign_hash_def)

lemma unit_chain_keys:
  "unit_chain p us \<Longrightarrow> u \<in> set us \<Longrightarrow> um_source_unit_key u \<noteq> None \<and> um_source_unit_key u \<noteq> Some []"
  by (induction p us rule: unit_chain.induct) auto

lemma completed_key_last:
  "stream_last i w \<noteq> Some [] \<Longrightarrow> completed_key (wo_db w i) = stream_last i w"
  by (auto simp: completed_key_def stream_last_def last_completed_def str_or_def
      split: option.splits list.splits)

lemma suffix_after_prefix:
  assumes hash: "foreign_hash h (us @ vs)" and chain: "unit_chain p (us @ vs)"
    and dist: "distinct (map um_source_unit_key (us @ vs))"
    and fresh: "\<And>v. v \<in> set (us @ vs) \<Longrightarrow> um_source_unit_key v \<noteq> p"
  shows "(case after_unit (chain_end p us) h (us @ vs) of None \<Rightarrow> us @ vs | Some xs \<Rightarrow> xs) = vs"
proof (cases us rule: rev_cases)
  case Nil
  with after_unit_none [of h vs p] hash fresh show ?thesis by (simp add: chain_end_def)
next
  case (snoc ws u)
  then have "after_unit (um_source_unit_key u) h (ws @ u # vs) = Some vs"
    using dist hash by (intro after_unit_some) (auto simp: image_iff foreign_hash_def)
  with snoc show ?thesis by (simp add: chain_end_def)
qed

section \<open>Properties\<close>

text \<open>C9: When every unit ingests successfully, a run on a claimable stream processes all of
  them in order, once each: the result is a success that counts every unit, the last unit is the
  stream's last completed one, the stream is claimable again, and the keys handed to ingestion
  are exactly those of the units, in order.\<close>

theorem all_units_processed_in_order:
  assumes "stream_ready (run_stream cfg i) w" and "config_ok cfg"
    and "ri_last_completed i = stream_last (run_stream cfg i) w"
    and "unit_chain (stream_last (run_stream cfg i) w) us"
    and "\<And>u. u \<in> set us \<Longrightarrow>
           ingests_as (repo_service mk ing dur redact str_of) succeeds_out u"
  shows "\<exists>r w'. process_source_units (repo_service mk ing dur redact str_of) cfg i us w
      = (Inr r, w') \<and> rr_success r \<and> rr_processed r = length us \<and>
    stream_last (run_stream cfg i) w' = chain_end (stream_last (run_stream cfg i) w) us \<and>
    stream_ready (run_stream cfg i) w' \<and> wo_ingested w' = wo_ingested w @ map key_of us"
  by (rule repo.run_all_good [OF assms(1) refl assms(2-5)]) (simp_all add: quiet_completion_def)

text \<open>C13: A run stops at the first unit that fails. The units before it are completed, in
  order; the failing unit is the one reported, is not completed and its claim is given up; no
  unit after it is ingested.\<close>

theorem run_stops_at_first_failure:
  assumes "stream_ready (run_stream cfg i) w" and "config_ok cfg"
    and "ri_last_completed i = stream_last (run_stream cfg i) w"
    and "unit_chain (stream_last (run_stream cfg i) w) (us @ u # rest)"
    and "\<And>v. v \<in> set us \<Longrightarrow>
           ingests_as (repo_service mk ing dur redact str_of) succeeds_out v"
    and "ingests_as (repo_service mk ing dur redact str_of) fails_out u"
  shows "\<exists>r w'. process_source_units (repo_service mk ing dur redact str_of) cfg i (us @ u # rest) w
      = (Inr r, w') \<and> \<not> rr_success r \<and> rr_processed r = length us \<and>
    rr_stopped_at r = um_source_unit_key u \<and>
    stream_last (run_stream cfg i) w' = chain_end (stream_last (run_stream cfg i) w) us \<and>
    \<not> stream_busy (run_stream cfg i) w' \<and>
    wo_ingested w' = wo_ingested w @ map key_of us @ [key_of u]"
  using repo.run_stops_at_failure [OF assms(1) refl assms(2-5) _ assms(6)]
  by (fastforce simp: quiet_completion_def)

text \<open>An ingestion that raises does not leave its unit in progress: the exception leaves the
  run, but the checkpoint has been failed or blocked first, the units before it stay completed,
  and nothing after it is ingested.\<close>

theorem raising_unit_is_not_left_in_progress:
  assumes "stream_ready (run_stream cfg i) w" and "config_ok cfg"
    and "ri_last_completed i = stream_last (run_stream cfg i) w"
    and "unit_chain (stream_last (run_stream cfg i) w) (us @ u # rest)"
    and "\<And>v. v \<in> set us \<Longrightarrow>
           ingests_as (repo_service mk ing dur redact str_of) succeeds_out v"
    and "raises (repo_service mk ing dur redact str_of) u"
  shows "\<exists>e w'. process_source_units (repo_service mk ing dur redact str_of) cfg i (us @ u # rest) w
      = (Inl (Ex_Ingest e), w') \<and>
    stream_last (run_stream cfg i) w' = chain_end (stream_last (run_stream cfg i) w) us \<and>
    \<not> stream_busy (run_stream cfg i) w' \<and>
    wo_ingested w' = wo_ingested w @ map key_of us @ [key_of u]"
  by (rule repo.run_raises [OF assms(1) refl assms(2-5) _ assms(6)])
    (simp_all add: quiet_completion_def)

text \<open>A unit that waits for review stops the run without completing it: the result is a
  success marked as waiting at that unit, the claim is released and the stream is claimable again
  at the same position.\<close>

theorem review_releases_the_unit:
  assumes "stream_ready (run_stream cfg i) w" and "config_ok cfg"
    and "ri_last_completed i = stream_last (run_stream cfg i) w"
    and "unit_chain (stream_last (run_stream cfg i) w) (us @ u # rest)"
    and "\<And>v. v \<in> set us \<Longrightarrow>
           ingests_as (repo_service mk ing dur redact str_of) succeeds_out v"
    and "ingests_as (repo_service mk ing dur redact str_of) io_waiting u"
  shows "\<exists>r w'. process_source_units (repo_service mk ing dur redact str_of) cfg i (us @ u # rest) w
      = (Inr r, w') \<and> rr_success r \<and> rr_waiting r \<and> rr_processed r = length us \<and>
    rr_stopped_at r = um_source_unit_key u \<and>
    stream_last (run_stream cfg i) w' = chain_end (stream_last (run_stream cfg i) w) us \<and>
    stream_ready (run_stream cfg i) w' \<and>
    wo_ingested w' = wo_ingested w @ map key_of us @ [key_of u]"
  by (rule repo.run_stops_at_review [OF assms(1) refl assms(2-5) _ assms(6)])
    (simp_all add: quiet_completion_def)



lemma failure_args_policy:
  assumes "rn_policy cfg = Some p" and "io_retryable out" and "io_error_code out = VStr code"
    and "io_orchestration_action out \<noteq> VStr ''FAIL''"
  shows "fa_retryable (failure_args sv cfg c k out now) \<longleftrightarrow> classify_error p code = RETRYABLE"
    and "classify_error p code = RETRYABLE \<Longrightarrow>
           fa_max_attempts (failure_args sv cfg c k out now) = Some (max_attempts p) \<and>
           fa_next_retry_at (failure_args sv cfg c k out now)
             = next_retry_at p code (int (ck_attempt_count c)) now"
  using assms by (auto simp: failure_args_def Let_def classify_value_def text_of_def
      intro: retry_disposition.exhaust [of "classify_error p code"])

text \<open>The retry policy decides what a failure leaves. When a run under a policy stops at a
  unit whose ingestion failed with a retryable outcome, the checkpoint is BLOCKED if the policy
  calls its error code terminal or the unit has used the policy's attempts, and is otherwise FAILED
  with the policy's next retry time: the failure's instant plus the bounded exponential back-off
  for the attempt just made.\<close>

theorem retry_policy_decides_state:
  assumes "stream_ready (run_stream cfg i) w" and "config_ok cfg" and "rn_policy cfg = Some p"
    and "ri_last_completed i = stream_last (run_stream cfg i) w"
    and "unit_chain (stream_last (run_stream cfg i) w) (us @ u # rest)"
    and "\<And>v. v \<in> set us \<Longrightarrow>
           ingests_as (repo_service mk ing dur redact str_of) succeeds_out v"
    and "ingests_as (repo_service mk ing dur redact str_of) (\<lambda>x. x = out) u"
    and "fails_out out" and "io_retryable out" and "io_error_code out = VStr code"
    and "io_orchestration_action out \<noteq> VStr ''FAIL''"
  shows "\<exists>r w' d now. process_source_units (repo_service mk ing dur redact str_of) cfg i
        (us @ u # rest) w = (Inr r, w') \<and> \<not> rr_success r \<and>
    wo_db w' (run_stream cfg i) = Some d \<and> ck_current_unit_key d = um_source_unit_key u \<and>
    (if classify_error p code = TERMINAL \<or> max_attempts p \<le> int (ck_attempt_count d)
     then ck_status d = CK_BLOCKED \<and> ck_next_retry_at d = None
     else ck_status d = CK_FAILED \<and>
       ck_next_retry_at d = Some (now + backoff_seconds p (int (ck_attempt_count d)) * 1000000))"
proof -
  let ?sv = "repo_service mk ing dur redact str_of"
  obtain r w' c now where 1: "process_source_units ?sv cfg i (us @ u # rest) w = (Inr r, w')"
    "\<not> rr_success r" "stream_failed (run_stream cfg i) w' c (failure_args ?sv cfg c (key_of u) out now)"
    using repo.run_stops_at_failure [OF assms(1) refl assms(2,4-6) _ assms(7)] assms(8)
    by (fastforce simp: quiet_completion_def)
  let ?fa = "failure_args ?sv cfg c (key_of u) out now"
  obtain d where d: "wo_db w' (run_stream cfg i) = Some d" "ck_current_unit_key d = Some (key_of u)"
    "ck_attempt_count d = ck_attempt_count c"
    "ck_status d = (if fail_blocks ?fa c then CK_BLOCKED else CK_FAILED)"
    "ck_next_retry_at d = (if fail_blocks ?fa c then None else fa_next_retry_at ?fa)"
    using 1(3) by (auto simp: stream_failed_def)
  have key: "Some (key_of u) = um_source_unit_key u"
    using unit_chain_keys [OF assms(5), of u] by (auto simp: key_of_def)
  note fa = failure_args_policy [OF assms(3,9,10,11), of ?sv c "key_of u" now]
  have "fail_blocks ?fa c \<longleftrightarrow>
      classify_error p code = TERMINAL \<or> max_attempts p \<le> int (ck_attempt_count d)"
    using fa d(3) by (cases "classify_error p code") (auto simp: fail_blocks_def)
  moreover have "fa_next_retry_at ?fa
      = Some (now + backoff_seconds p (int (ck_attempt_count d)) * 1000000)"
    if "classify_error p code \<noteq> TERMINAL" "\<not> max_attempts p \<le> int (ck_attempt_count d)"
    using fa(2) that d(3)
    by (cases "classify_error p code") (auto simp: next_retry_at_Some can_retry_def)
  ultimately show ?thesis using 1(1,2) d key by (intro exI [of _ r] exI [of _ w'] exI [of _ d] exI [of _ now]) auto
qed

text \<open>A policy that passes its construction checks gives bounded, monotone delays: every retry
  it allows is at least the initial and at most the maximal back-off after the failure, a later
  attempt never waits less than an earlier one, and no retry is given once the attempts are used
  up.\<close>

theorem backoff_is_bounded_and_monotone:
  assumes "make_policy p = Inr q" and "a \<le> b" and "next_retry_at p code b now = Some t"
  shows "now + initial_backoff_seconds p * 1000000 \<le> t \<and>
    t \<le> now + max_backoff_seconds p * 1000000 \<and> b < max_attempts p \<and>
    (\<forall>s. next_retry_at p code a now = Some s \<longrightarrow> s \<le> t)"
  using assms(3) backoff_lower [OF assms(1), of b] backoff_upper [of p b]
    backoff_mono [OF assms(1,2)]
  by (auto simp: next_retry_at_Some can_retry_def)

theorem backoff_is_bounded_and_monotone_witness:
  "next_retry_at default_policy ''fetch_timeout'' 2 0 = Some 120000000 \<and>
   120000000 \<le> 0 + max_backoff_seconds default_policy * 1000000"
  using backoff_is_bounded_and_monotone [OF make_policy_default, of 1 2 "''fetch_timeout''" 0
      120000000]
  by (simp add: next_retry_at_Some can_retry_def classify_error_def default_policy_def
      default_retryable_codes_def backoff_seconds_def)

text \<open>Resuming a held unit after review works only for the first unit of a stream. The stream
  identity that \<open>resume_quarantined_source_unit\<close> passes on has no \<open>lastCompletedUnitKey\<close>, so the
  claim expects that nothing was completed before: once any other unit of the stream has been
  completed, the claim is refused, the unit is not ingested, and the resume reports a failure
  whatever state the held unit is in.\<close>

theorem resume_fails_after_first_unit:
  assumes "wo_db w (ck_stream c) = Some d" and "ck_last_completed_unit_key d = Some p" and "p \<noteq> k"
    and "um_source_unit_key u = Some k" and "k \<noteq> []" and "\<not> blocked_by k w"
  shows "\<exists>r w'. resume_quarantined (repo_service mk ing dur redact str_of) blocked_by c k u w
      = (Inr r, w') \<and> \<not> rr_success r \<and>
    rr_error_code r = Some ''source_unit_claim_not_acquired'' \<and> wo_ingested w' = wo_ingested w"
proof -
  let ?i = "resume_identity c" and ?cfg = "resume_config c"
  let ?a = "unit_claim_args ?cfg ?i u k (start_vars ?i)"
  have st: "ca_stream ?a = ck_stream c"
    by (simp add: run_stream_def resume_identity_def resume_config_def)
  have prev: "ca_expected_previous ?a = None" "ca_max_attempts ?a = None"
    by (simp_all add: start_vars_def resume_identity_def attempt_limit_def resume_config_def)
  have "\<not> claim_query ?a now d" for now
    using assms(2) prev by (simp add: claim_query_def)
  then have "claim_unit ?a (wo_now w) (fresh_ids mk (wo_next w)) (wo_db w)
      = (Inr (d, False), (wo_db w)(ck_stream c \<mapsto> d))"
    using assms(1-3) prev
    by (simp add: claim_unit_eq claim_target_def claim_branches_def claim_exhausted_def st
        del: unit_claim_args_simps(1,3,4))
  then show ?thesis
    using assms
    by (auto simp: resume_quarantined_def resume_held_source_unit_def process_source_units_def
        run_unit_def with_db_def claim_not_acquired_def stopped_def split: list.split)
qed

text \<open>The suffix after a checkpoint may begin before the completed unit. A unit whose content
  hash equals the one in the checkpoint's high-water mark counts as the completed one when it comes
  first, so units after it are handed out again even when they were completed already.\<close>

theorem equal_content_hands_out_completed_units:
  assumes "dget h ''contentHash'' = VStr x" and "x \<noteq> []"
    and "ck_high_water_mark d = Some h" and "ck_last_completed_unit_key d = um_source_unit_key v"
    and "um_content_hash u = Some x"
  shows "units_after_checkpoint (u # us @ v # rest) (Some d) = us @ v # rest"
  using assms
  by (simp add: units_after_checkpoint_def completed_hash_def opt_str_def)

section \<open>Witnesses\<close>

definition demo_unit :: "string \<Rightarrow> source_unit" where
  "demo_unit k = new_source_unit (Some k)"

definition demo_identity :: run_identity where
  "demo_identity =
     \<lparr>ri_partner = ''acme'', ri_fetch_config_id = ''fc'', ri_source_type = ''API'',
      ri_stream_key = ''daily'', ri_last_completed = None, ri_config_version = None,
      ri_source_endpoint = None, ri_stream_metadata = None, ri_runtime_run_id = None,
      ri_source_file_id = None, ri_attempt = None\<rparr>"

definition demo_config :: run_config where
  "demo_config = \<lparr>rn_mode = SCHEDULED, rn_max_attempts = Some 3, rn_policy = Some default_policy\<rparr>"

definition demo_world :: world where
  "demo_world = \<lparr>wo_db = (\<lambda>_. None), wo_now = 0, wo_next = 0, wo_ingested = []\<rparr>"

text \<open>Ingestion of page 2 fails, waits for review, or raises; every other page succeeds.\<close>

definition demo_ingest :: "exn + ingest_result \<Rightarrow> source_unit \<Rightarrow> string list \<Rightarrow> exn + ingest_result"
  where
  "demo_ingest second u done =
     (if um_source_unit_key u = Some ''p2'' then second else Inr (ResBool True))"

abbreviation demo_service :: "exn + ingest_result \<Rightarrow> world service" where
  "demo_service second \<equiv>
     repo_service (\<lambda>n. replicate n (CHR ''x'')) (demo_ingest second) (\<lambda>_. 1) (\<lambda>s. s) (\<lambda>_. [])"

lemma demo_key [simp]: "um_source_unit_key (demo_unit k) = Some k" "key_of (demo_unit k) = k"
  by (simp_all add: demo_unit_def new_source_unit_def key_of_def)

lemma demo_start [simp]:
  "stream_ready i demo_world" "stream_last i demo_world = None"
  "ri_last_completed demo_identity = None" "config_ok demo_config"
  "wo_ingested demo_world = []"
  by (simp_all add: stream_ready_def stream_last_def last_completed_def demo_world_def
      demo_identity_def demo_config_def config_ok_def limit_ok_def attempt_limit_def
      default_policy_def)

lemma demo_good: "k \<noteq> ''p2'' \<Longrightarrow> ingests_as (demo_service x) succeeds_out (demo_unit k)"
  by (simp add: ingests_as_def demo_ingest_def from_result_def new_outcome_def succeeds_out_def)

lemma demo_second:
  "ingests_as (demo_service (Inr (ResBool True))) succeeds_out (demo_unit ''p2'')"
  "ingests_as (demo_service (Inr (ResBool False))) fails_out (demo_unit ''p2'')"
  "ingests_as (demo_service (Inr (ResMap [(''outcome'', VStr ''WAITING_REVIEW'')]))) io_waiting
     (demo_unit ''p2'')"
  "raises (demo_service (Inl e)) (demo_unit ''p2'')"
  by (simp_all add: ingests_as_def raises_def demo_ingest_def from_result_def new_outcome_def
      succeeds_out_def fails_out_def outcome_of_map_def map_waiting_def dget_def Let_def)

lemma demo_pages: "v \<in> set [demo_unit a, demo_unit b] \<Longrightarrow> v = demo_unit a \<or> v = demo_unit b"
  by simp

theorem all_units_processed_in_order_witness:
  "\<exists>r w'. process_source_units (demo_service (Inr (ResBool True))) demo_config demo_identity
      [demo_unit ''p1'', demo_unit ''p2''] demo_world = (Inr r, w') \<and> rr_success r \<and>
    rr_processed r = 2 \<and> wo_ingested w' = [''p1'', ''p2'']"
  using all_units_processed_in_order [of demo_config demo_identity demo_world
      "[demo_unit ''p1'', demo_unit ''p2'']" "\<lambda>n. replicate n (CHR ''x'')"
      "demo_ingest (Inr (ResBool True))" "\<lambda>_. 1" "\<lambda>s. s" "\<lambda>_. []"]
    demo_good demo_second(1)
  by fastforce

theorem run_stops_at_first_failure_witness:
  "\<exists>r w'. process_source_units (demo_service (Inr (ResBool False))) demo_config demo_identity
      ([demo_unit ''p1''] @ demo_unit ''p2'' # [demo_unit ''p3'']) demo_world = (Inr r, w') \<and>
    rr_stopped_at r = Some ''p2'' \<and> wo_ingested w' = [''p1'', ''p2'']"
  using run_stops_at_first_failure [of demo_config demo_identity demo_world
      "[demo_unit ''p1'']" "demo_unit ''p2''" "[demo_unit ''p3'']"
      "\<lambda>n. replicate n (CHR ''x'')" "demo_ingest (Inr (ResBool False))" "\<lambda>_. 1" "\<lambda>s. s" "\<lambda>_. []"]
    demo_good [of "''p1''"] demo_second(2)
  by fastforce

theorem raising_unit_is_not_left_in_progress_witness:
  "\<exists>e w'. process_source_units (demo_service (Inl \<lparr>ex_class = ''OSError'', ex_text = ''disk''\<rparr>))
      demo_config demo_identity ([demo_unit ''p1''] @ demo_unit ''p2'' # []) demo_world
      = (Inl (Ex_Ingest e), w') \<and> \<not> stream_busy (run_stream demo_config demo_identity) w'"
  using raising_unit_is_not_left_in_progress [of demo_config demo_identity demo_world
      "[demo_unit ''p1'']" "demo_unit ''p2''" "[]" "\<lambda>n. replicate n (CHR ''x'')"
      "demo_ingest (Inl \<lparr>ex_class = ''OSError'', ex_text = ''disk''\<rparr>)" "\<lambda>_. 1" "\<lambda>s. s" "\<lambda>_. []"]
    demo_good [of "''p1''"] demo_second(4)
  by fastforce

theorem review_releases_the_unit_witness:
  "\<exists>r w'. process_source_units
      (demo_service (Inr (ResMap [(''outcome'', VStr ''WAITING_REVIEW'')])))
      demo_config demo_identity ([demo_unit ''p1''] @ demo_unit ''p2'' # []) demo_world
      = (Inr r, w') \<and> rr_waiting r \<and> stream_ready (run_stream demo_config demo_identity) w'"
  using review_releases_the_unit [of demo_config demo_identity demo_world
      "[demo_unit ''p1'']" "demo_unit ''p2''" "[]" "\<lambda>n. replicate n (CHR ''x'')"
      "demo_ingest (Inr (ResMap [(''outcome'', VStr ''WAITING_REVIEW'')]))" "\<lambda>_. 1" "\<lambda>s. s" "\<lambda>_. []"]
    demo_good [of "''p1''"] demo_second(3)
  by fastforce


definition demo_plain_config :: run_config where
  "demo_plain_config = demo_config\<lparr>rn_policy := None, rn_max_attempts := None\<rparr>"

lemma demo_plain_ok [simp]: "config_ok demo_plain_config"
  by (simp add: demo_plain_config_def demo_config_def config_ok_def limit_ok_def attempt_limit_def)

lemma demo_three [simp]:
  "distinct (map um_source_unit_key ([demo_unit ''p1''] @ demo_unit ''p2'' # [demo_unit ''p3'']))"
  "unit_chain None ([demo_unit ''p1''] @ demo_unit ''p2'' # [demo_unit ''p3''])"
  by simp_all


definition demo_outcome :: ingestion_outcome where
  "demo_outcome = (new_outcome False)\<lparr>io_error_code := VStr ''fetch_timeout''\<rparr>"

lemma demo_outcome_ingest:
  "ingests_as (demo_service (Inr (ResOutcome demo_outcome))) (\<lambda>x. x = demo_outcome)
     (demo_unit ''p2'')"
  by (simp add: ingests_as_def demo_ingest_def from_result_def)

theorem retry_policy_decides_state_witness:
  "\<exists>r w' d now. process_source_units (demo_service (Inr (ResOutcome demo_outcome))) demo_config
      demo_identity ([demo_unit ''p1''] @ demo_unit ''p2'' # []) demo_world = (Inr r, w') \<and>
    wo_db w' (run_stream demo_config demo_identity) = Some d \<and>
    ck_current_unit_key d = Some ''p2'' \<and>
    (if classify_error default_policy ''fetch_timeout'' = TERMINAL \<or>
        max_attempts default_policy \<le> int (ck_attempt_count d)
     then ck_status d = CK_BLOCKED \<and> ck_next_retry_at d = None
     else ck_status d = CK_FAILED \<and> ck_next_retry_at d
       = Some (now + backoff_seconds default_policy (int (ck_attempt_count d)) * 1000000))"
proof -
  have "rn_policy demo_config = Some default_policy" by (simp add: demo_config_def)
  moreover have "fails_out demo_outcome" "io_retryable demo_outcome"
    "io_error_code demo_outcome = VStr ''fetch_timeout''"
    "io_orchestration_action demo_outcome \<noteq> VStr ''FAIL''"
    by (simp_all add: demo_outcome_def new_outcome_def fails_out_def)
  ultimately show ?thesis
    using retry_policy_decides_state [of demo_config demo_identity demo_world default_policy
        "[demo_unit ''p1'']" "demo_unit ''p2''" "[]" "\<lambda>n. replicate n (CHR ''x'')"
        "demo_ingest (Inr (ResOutcome demo_outcome))" "\<lambda>_. 1" "\<lambda>s. s" "\<lambda>_. []" demo_outcome
        "''fetch_timeout''"] demo_good [of "''p1''"] demo_outcome_ingest
    by fastforce
qed

theorem equal_content_hands_out_completed_units_witness:
  "units_after_checkpoint
     ((demo_unit ''p1'')\<lparr>um_content_hash := Some ''h''\<rparr> # [demo_unit ''p2''] @ demo_unit ''p3'' # [])
     (Some ((new_checkpoint (unit_claim_args demo_config demo_identity (demo_unit ''p3'') ''p3''
               (start_vars demo_identity)) ''doc'' 0)
        \<lparr>ck_high_water_mark := Some [(''contentHash'', VStr ''h'')],
         ck_last_completed_unit_key := Some ''p3''\<rparr>))
   = [demo_unit ''p2'', demo_unit ''p3'']"
  using equal_content_hands_out_completed_units [of "[(''contentHash'', VStr ''h'')]" "''h''"
      "(new_checkpoint (unit_claim_args demo_config demo_identity (demo_unit ''p3'') ''p3''
               (start_vars demo_identity)) ''doc'' 0)
        \<lparr>ck_high_water_mark := Some [(''contentHash'', VStr ''h'')],
         ck_last_completed_unit_key := Some ''p3''\<rparr>" "demo_unit ''p3''"
      "(demo_unit ''p1'')\<lparr>um_content_hash := Some ''h''\<rparr>" "[demo_unit ''p2'']" "[]"]
  by (simp add: dget_def)

definition demo_second_page :: checkpoint where
  "demo_second_page =
     (new_checkpoint (unit_claim_args demo_config demo_identity (demo_unit ''p2'') ''p2''
        (start_vars demo_identity)) ''doc'' 0)
       \<lparr>ck_status := CK_DISCOVERED, ck_last_completed_unit_key := Some ''p1''\<rparr>"

theorem resume_fails_after_first_unit_witness:
  "\<exists>r w'. resume_quarantined (demo_service (Inr (ResBool True))) (\<lambda>_ _. False) demo_second_page
      ''p2'' (demo_unit ''p2'')
      (demo_world\<lparr>wo_db := [ck_stream demo_second_page \<mapsto> demo_second_page]\<rparr>) = (Inr r, w') \<and>
    \<not> rr_success r \<and> rr_error_code r = Some ''source_unit_claim_not_acquired''"
  using resume_fails_after_first_unit [of
      "demo_world\<lparr>wo_db := [ck_stream demo_second_page \<mapsto> demo_second_page]\<rparr>" demo_second_page
      demo_second_page "''p1''" "''p2''" "demo_unit ''p2''" "\<lambda>_ _. False"
      "\<lambda>n. replicate n (CHR ''x'')" "demo_ingest (Inr (ResBool True))" "\<lambda>_. 1" "\<lambda>s. s" "\<lambda>_. []"]
  by (fastforce simp: demo_second_page_def)

end
