(* ===== verification/Quarantine.thy ===== *)
theory Quarantine
  imports Prelude
begin

text \<open>
  \<open>src/src/domain/ingestion/quarantine.py\<close> and
  \<open>src/src/infrastructure/ingestion/quarantine_repository.py\<close>: the quarantine of rejected
  rows. A record is claimed by an operator for a lease, resolved or released under the claim,
  escalated, or reclaimed when the lease has expired. The collection is the list of its
  documents. \<open>seen\<close> is the document an operation read before its guarded update, which may be
  older than the stored one; \<open>now\<close> is the clock, read once per operation.
\<close>

section \<open>Vocabulary\<close>

datatype q_status = Q_PENDING | Q_REPROCESSING | Q_RESOLVED | Q_REJECTED

datatype q_action = QA_REPROCESS | QA_ACCEPT_EXISTING | QA_REJECT | QA_ESCALATE

fun q_action_value :: "q_action \<Rightarrow> string" where
  "q_action_value QA_REPROCESS = ''REPROCESS''"
| "q_action_value QA_ACCEPT_EXISTING = ''ACCEPT_EXISTING''"
| "q_action_value QA_REJECT = ''REJECT''"
| "q_action_value QA_ESCALATE = ''ESCALATE''"

datatype q_priority = QPR_NORMAL | QPR_HIGH

fun q_priority_value :: "q_priority \<Rightarrow> string" where
  "q_priority_value QPR_NORMAL = ''NORMAL''"
| "q_priority_value QPR_HIGH = ''HIGH''"

datatype q_issue_type = QI_SCHEMA | QI_REQUIRED_FIELD | QI_FORMAT | QI_DUPLICATE | QI_RECOVERY | QI_OTHER

datatype q_phase = QPH_NORMALIZATION | QPH_VALIDATION | QPH_BATCH

datatype q_severity = QSV_RECORD | QSV_FATAL

datatype q_error =
  Q_Transition_Error | Q_Bad_Lease | Q_Bad_Action_Id | Q_Bad_Event | Q_No_Retention | Q_Bad_Limit

definition issue_type_codes :: "(q_issue_type \<times> string list) list" where
  "issue_type_codes =
     [(QI_SCHEMA, [''REQUIRED_SCHEMA_PATH'', ''MISSING_REQUIRED_SOURCE_COLUMN'',
                   ''SCHEMA_CONFIG_DRIFT'', ''SOURCE_STRUCTURE_UNREADABLE'', ''CONFIG_VALIDATION'']),
      (QI_REQUIRED_FIELD, [''MISSING_REQUIRED_FIELD'']),
      (QI_FORMAT, [''MALFORMED_ROW'', ''INVALID_AMOUNT'', ''NEGATIVE_AMOUNT'',
                   ''INVALID_TIMESTAMP'', ''INVALID_STATUS'']),
      (QI_DUPLICATE, [''EQUIVALENT_DUPLICATE'', ''CONFLICTING_DUPLICATE'']),
      (QI_RECOVERY, [''SOURCE_UNIT_RECOVERY_REQUIRED''])]"

definition issue_type_for_error_code :: "string option \<Rightarrow> q_issue_type" where
  "issue_type_for_error_code code =
     (let n = ascii_upper (case code of None \<Rightarrow> [] | Some c \<Rightarrow> c)
      in case List.find (\<lambda>e. n \<in> set (snd e)) issue_type_codes of
           None \<Rightarrow> QI_OTHER
         | Some e \<Rightarrow> fst e)"

definition error_codes_for_issue_type :: "q_issue_type \<Rightarrow> string list" where
  "error_codes_for_issue_type t =
     (case map_of issue_type_codes t of None \<Rightarrow> [] | Some cs \<Rightarrow> cs)"

text \<open>\<open>_ALLOWED_QUARANTINE_TRANSITIONS\<close>\<close>

fun allowed_targets :: "q_status \<Rightarrow> q_status list" where
  "allowed_targets Q_PENDING = [Q_REPROCESSING]"
| "allowed_targets Q_REPROCESSING = [Q_PENDING, Q_RESOLVED, Q_REJECTED]"
| "allowed_targets Q_RESOLVED = []"
| "allowed_targets Q_REJECTED = []"

definition assert_transition :: "q_status \<Rightarrow> q_status \<Rightarrow> q_error + unit" where
  "assert_transition c t = (if t \<in> set (allowed_targets c) then Inr () else Inl Q_Transition_Error)"

definition terminal :: "q_status \<Rightarrow> bool" where
  "terminal s \<longleftrightarrow> s \<in> {Q_RESOLVED, Q_REJECTED}"

record retention_policy =
  rp_resolved_days :: nat
  rp_rejected_days :: nat
  rp_sanitized_row_days :: nat

fun days_for :: "retention_policy \<Rightarrow> q_status \<Rightarrow> q_error + nat" where
  "days_for p Q_RESOLVED = Inr (rp_resolved_days p)"
| "days_for p Q_REJECTED = Inr (rp_rejected_days p)"
| "days_for p _ = Inl Q_No_Retention"

definition days :: "nat \<Rightarrow> datetime" where
  "days n = int n * 86400 * 1000000"

definition seconds :: "int \<Rightarrow> datetime" where
  "seconds n = n * 1000000"

definition hours :: "nat \<Rightarrow> datetime" where
  "hours n = int n * 3600 * 1000000"

section \<open>Documents\<close>

record q_event =
  qv_event_id :: uuid
  qv_from :: q_status
  qv_to :: q_status
  qv_action :: q_action
  qv_actor :: string
  qv_reason :: string
  qv_attempt :: nat
  qv_action_id :: "string option"
  qv_event_outcome :: "string option"
  qv_timestamp :: datetime
  qv_metadata :: pydict

text \<open>The checks of the event model; \<open>model_validate\<close> raises when one fails.\<close>

definition check_event :: "q_event \<Rightarrow> q_error + q_event" where
  "check_event e =
     (if 500 < length (qv_reason e) \<or> qv_attempt e < 1 \<or>
         (case qv_action_id e of None \<Rightarrow> False | Some a \<Rightarrow> a = [] \<or> 128 < length a) \<or>
         (case qv_event_outcome e of None \<Rightarrow> False | Some a \<Rightarrow> 128 < length a)
      then Inl Q_Bad_Event else Inr e)"

text \<open>The four fields a reservation sets together and a resolution unsets together.\<close>

record active_action =
  aa_id :: string
  aa_actor :: string
  aa_action :: q_action
  aa_started_at :: datetime

record q_doc =
  qd_id :: uuid
  qd_source_file_id :: string
  qd_source_unit_key :: "string option"
  qd_review_packet_id :: "string option"
  qd_post_approval_run_id :: "string option"
  qd_partner :: string
  qd_reconciliation_date :: datetime
  qd_row_number :: "int option"
  qd_raw_row :: pyval
  qd_ingestion_key :: "string option"
  qd_incoming_fingerprint :: "string option"
  qd_existing_fingerprint :: "string option"
  qd_errors :: "pydict list"
  qd_phase :: q_phase
  qd_severity :: q_severity
  qd_config_version :: "string option"
  qd_status :: q_status
  qd_priority :: q_priority
  qd_review_due_at :: "datetime option"
  qd_escalation_level :: nat
  qd_escalated_at :: "datetime option"
  qd_escalated_by :: "string option"
  qd_last_action_id :: "string option"
  qd_attempt_count :: nat
  qd_expires_at :: "datetime option"
  qd_claimed_by :: "string option"
  qd_claimed_at :: "datetime option"
  qd_claim_expires_at :: "datetime option"
  qd_last_attempt_error :: "string option"
  qd_resolution_metadata :: pydict
  qd_history :: "q_event list"
  qd_retention_until :: "datetime option"
  qd_created_at :: datetime
  qd_updated_at :: datetime
  qd_active :: "active_action option"

text \<open>The code an error entry carries, under any of its three spellings.\<close>

definition any_error_code :: "pydict \<Rightarrow> pyval" where
  "any_error_code e =
     (if truthy (dget e ''errorCode'') then dget e ''errorCode''
      else if truthy (dget e ''error_code'') then dget e ''error_code''
      else dget e ''code'')"

text \<open>The model validator \<open>_set_operator_defaults\<close>, with the configured review window.\<close>

definition set_operator_defaults :: "nat \<Rightarrow> q_doc \<Rightarrow> q_doc" where
  "set_operator_defaults sla_hours d =
     (let d = (if qd_severity d = QSV_FATAL \<or>
                  (\<exists>e \<in> set (qd_errors d). any_error_code e = VStr ''CONFLICTING_DUPLICATE'')
               then d\<lparr>qd_priority := QPR_HIGH\<rparr> else d)
      in if qd_review_due_at d = None
         then d\<lparr>qd_review_due_at := Some (qd_created_at d + hours sla_hours)\<rparr> else d)"

section \<open>Sanitising\<close>

definition secret_tokens :: "string list" where
  "secret_tokens =
     [''password'', ''secret'', ''token'', ''apikey'', ''authorization'', ''credential'', ''fingerprint'']"

definition normalized_key :: "string \<Rightarrow> string" where
  "normalized_key k = filter is_alnum (ascii_lower k)"

definition is_secret_key :: "string \<Rightarrow> bool" where
  "is_secret_key k \<longleftrightarrow> (\<exists>t \<in> set secret_tokens. has_infix t (normalized_key k))"

fun sanitize_raw_row :: "nat \<Rightarrow> pyval \<Rightarrow> pyval" where
  "sanitize_raw_row n (VDict d) =
     VDict (map (\<lambda>e. (fst e,
                      if is_secret_key (fst e) then VStr ''[REDACTED]''
                      else sanitize_raw_row n (snd e))) d)"
| "sanitize_raw_row n (VList xs) = VList (map (sanitize_raw_row n) xs)"
| "sanitize_raw_row n (VStr s) = VStr (if n < length s then take n s @ ''...'' else s)"
| "sanitize_raw_row n v = v"

definition forbidden_metadata_key :: "string \<Rightarrow> bool" where
  "forbidden_metadata_key k \<longleftrightarrow>
     (let n = normalized_key k
      in (\<exists>t \<in> set [''raw'', ''fingerprint'', ''password'', ''secret'', ''token'', ''credential''].
            has_infix t n) \<or>
         n \<in> {''error'', ''exception'', ''trace'', ''stacktrace'', ''traceback'', ''authorization''} \<or>
         (starts_with ''error'' n \<and> n \<noteq> ''errorcode'') \<or>
         starts_with ''api'' n \<or> starts_with ''auth'' n)"

fun bounded_value :: "pyval \<Rightarrow> pyval option" where
  "bounded_value (VStr s) = Some (VStr (take 512 s))"
| "bounded_value (VInt i) = Some (VInt i)"
| "bounded_value (VFloat r) = Some (VFloat r)"
| "bounded_value (VBool b) = Some (VBool b)"
| "bounded_value VNone = Some VNone"
| "bounded_value _ = None"

definition bounded_metadata :: "pydict \<Rightarrow> pydict" where
  "bounded_metadata d =
     List.map_filter
       (\<lambda>e. if forbidden_metadata_key (fst e) then None
            else map_option (Pair (fst e)) (bounded_value (snd e))) d"

definition bounded_text :: "string \<Rightarrow> string" where
  "bounded_text s = take 500 (py_strip s)"

definition bounded_action_id :: "string \<Rightarrow> q_error + string" where
  "bounded_action_id a =
     (let t = py_strip a
      in if 1 \<le> length t \<and> length t \<le> 128 then Inr t else Inl Q_Bad_Action_Id)"

definition bounded_action_id_opt :: "string option \<Rightarrow> q_error + string option" where
  "bounded_action_id_opt a =
     (case a of None \<Rightarrow> Inr None
      | Some x \<Rightarrow> (case bounded_action_id x of Inl e \<Rightarrow> Inl e | Inr t \<Rightarrow> Inr (Some t)))"

definition bounded_limit :: "int \<Rightarrow> int \<Rightarrow> int" where
  "bounded_limit v maximum = max 1 (min v maximum)"

lemma bounded_text_length [simp]: "length (bounded_text s) \<le> 500"
  by (simp add: bounded_text_def)

end
