(* ===== verification/QuarantineRepo.thy ===== *)
theory QuarantineRepo
  imports Quarantine "HOL-Library.Product_Lexorder" "HOL-Library.List_Lexorder" "HOL-Library.Char_ord"
begin

text \<open>
  The operations of \<open>IngestionQuarantineRepository\<close> in
  \<open>src/src/infrastructure/ingestion/quarantine_repository.py\<close>: each write is one guarded
  update of one document, after a read whose result is the argument \<open>seen\<close>.
\<close>

type_synonym q_store = "q_doc list"

definition find_by_id :: "uuid \<Rightarrow> q_store \<Rightarrow> q_doc option" where
  "find_by_id rid ds = List.find (\<lambda>d. qd_id d = rid) ds"

section \<open>Creation and lineage\<close>

definition bounded_expiry :: "datetime \<Rightarrow> q_doc \<Rightarrow> q_doc" where
  "bounded_expiry expires_at d =
     d\<lparr>qd_expires_at :=
         Some (case qd_expires_at d of None \<Rightarrow> expires_at | Some t \<Rightarrow> min t expires_at)\<rparr>"

definition create_many :: "nat \<Rightarrow> datetime \<Rightarrow> q_doc list \<Rightarrow> q_store \<Rightarrow> nat \<times> q_store" where
  "create_many retention_days now rs ds =
     (if rs = [] then (0, ds)
      else (length rs, ds @ map (bounded_expiry (now + days retention_days)) rs))"

definition rebind_source_file :: "string \<Rightarrow> string \<Rightarrow> q_store \<Rightarrow> nat \<times> q_store" where
  "rebind_source_file src target ds =
     (if src = target then 0 else length (filter (\<lambda>d. qd_source_file_id d = src) ds),
      map (\<lambda>d. if qd_source_file_id d = src then d\<lparr>qd_source_file_id := target\<rparr> else d) ds)"

section \<open>Claims\<close>

definition used_action :: "string \<Rightarrow> q_doc \<Rightarrow> bool" where
  "used_action a d \<longleftrightarrow> (\<exists>e \<in> set (qd_history d). qv_action_id e = Some a)"

fun fresh_action :: "string option \<Rightarrow> q_doc \<Rightarrow> bool" where
  "fresh_action None d \<longleftrightarrow> True"
| "fresh_action (Some a) d \<longleftrightarrow> \<not> used_action a d"

definition due_text :: "(datetime \<Rightarrow> string) \<Rightarrow> q_doc \<Rightarrow> pyval" where
  "due_text isofmt d = (case qd_review_due_at d of None \<Rightarrow> VNone | Some t \<Rightarrow> VStr (isofmt t))"

definition claim_event ::
  "(datetime \<Rightarrow> string) \<Rightarrow> uuid \<Rightarrow> string \<Rightarrow> int \<Rightarrow> string option \<Rightarrow> datetime \<Rightarrow> q_doc \<Rightarrow> q_event" where
  "claim_event isofmt eid operator lease aid now cur =
     \<lparr>qv_event_id = eid, qv_from = Q_PENDING, qv_to = Q_REPROCESSING, qv_action = QA_REPROCESS,
      qv_actor = operator, qv_reason = ''Quarantine record claimed for processing.'',
      qv_attempt = qd_attempt_count cur + 1, qv_action_id = aid,
      qv_event_outcome = Some ''CLAIMED'', qv_timestamp = now,
      qv_metadata =
        [(''leaseSeconds'', VInt lease), (''claimedBy'', VStr operator),
         (''priority'', VStr (q_priority_value (qd_priority cur))),
         (''reviewDueAt'', due_text isofmt cur)]\<rparr>"

definition claim_filter :: "uuid \<Rightarrow> string option \<Rightarrow> q_doc \<Rightarrow> bool" where
  "claim_filter rid aid d \<longleftrightarrow> qd_id d = rid \<and> (qd_status d = Q_PENDING \<and> fresh_action aid d)"

definition claim_update ::
  "string \<Rightarrow> int \<Rightarrow> string option \<Rightarrow> datetime \<Rightarrow> q_event \<Rightarrow> q_doc \<Rightarrow> q_doc" where
  "claim_update operator lease aid now ev d =
     d\<lparr>qd_status := Q_REPROCESSING, qd_claimed_by := Some operator, qd_claimed_at := Some now,
       qd_claim_expires_at := Some (now + seconds lease), qd_last_attempt_error := None,
       qd_last_action_id := aid, qd_updated_at := now,
       qd_attempt_count := qd_attempt_count d + 1, qd_history := qd_history d @ [ev]\<rparr>"

definition claim ::
  "(datetime \<Rightarrow> string) \<Rightarrow> uuid \<Rightarrow> uuid \<Rightarrow> string \<Rightarrow> int \<Rightarrow> string option \<Rightarrow> datetime \<Rightarrow> q_doc option
     \<Rightarrow> q_store \<Rightarrow> (q_error + q_doc option) \<times> q_store" where
  "claim isofmt eid rid operator lease action_id now seen ds =
     (if lease < 1 then (Inl Q_Bad_Lease, ds)
      else case bounded_action_id_opt action_id of
        Inl e \<Rightarrow> (Inl e, ds)
      | Inr aid \<Rightarrow>
          (case seen of
             None \<Rightarrow> (Inr None, ds)
           | Some cur \<Rightarrow>
               if qd_status cur \<noteq> Q_PENDING then (Inr None, ds)
               else (case check_event (claim_event isofmt eid operator lease aid now cur) of
                       Inl e \<Rightarrow> (Inl e, ds)
                     | Inr ev \<Rightarrow>
                         let (r, ds') = find_and_update_doc (claim_filter rid aid)
                                          (claim_update operator lease aid now ev) ds
                         in (Inr r, ds'))))"

definition reclaim_filter :: "uuid \<Rightarrow> datetime \<Rightarrow> q_doc \<Rightarrow> bool" where
  "reclaim_filter rid now d \<longleftrightarrow>
     qd_id d = rid \<and>
     (qd_status d = Q_REPROCESSING \<and> (case qd_claim_expires_at d of None \<Rightarrow> False | Some t \<Rightarrow> t \<le> now))"

definition reclaim_update :: "datetime \<Rightarrow> q_doc \<Rightarrow> q_doc" where
  "reclaim_update now d =
     d\<lparr>qd_status := Q_PENDING, qd_claimed_by := None, qd_claimed_at := None,
       qd_claim_expires_at := None,
       qd_last_attempt_error := Some ''Operator claim lease expired.'', qd_updated_at := now\<rparr>"

definition reclaim_expired_claim :: "uuid \<Rightarrow> datetime \<Rightarrow> q_store \<Rightarrow> q_doc option \<times> q_store" where
  "reclaim_expired_claim rid now ds =
     find_and_update_doc (reclaim_filter rid now) (reclaim_update now) ds"

section \<open>Reservations\<close>

datatype reservation =
  RES_RESERVED | RES_NOT_FOUND | RES_COMPLETED | RES_IN_PROGRESS | RES_CONFLICT

definition reserve_filter :: "uuid \<Rightarrow> string \<Rightarrow> string \<Rightarrow> q_doc \<Rightarrow> bool" where
  "reserve_filter rid operator aid d \<longleftrightarrow>
     qd_id d = rid \<and>
     (qd_status d = Q_REPROCESSING \<and> qd_claimed_by d = Some operator \<and> \<not> used_action aid d \<and>
      qd_active d = None)"

definition reserve_update :: "string \<Rightarrow> string \<Rightarrow> q_action \<Rightarrow> datetime \<Rightarrow> q_doc \<Rightarrow> q_doc" where
  "reserve_update operator aid action now d =
     d\<lparr>qd_active :=
         Some \<lparr>aa_id = aid, aa_actor = operator, aa_action = action, aa_started_at = now\<rparr>\<rparr>"

definition reserve_action ::
  "uuid \<Rightarrow> string \<Rightarrow> string \<Rightarrow> q_action \<Rightarrow> datetime \<Rightarrow> q_store \<Rightarrow> (q_error + reservation) \<times> q_store" where
  "reserve_action rid operator action_id action now ds =
     (case bounded_action_id action_id of
        Inl e \<Rightarrow> (Inl e, ds)
      | Inr aid \<Rightarrow>
          (case find_and_update_doc (reserve_filter rid operator aid)
                  (reserve_update operator aid action now) ds of
             (Some d, ds') \<Rightarrow> (Inr RES_RESERVED, ds')
           | (None, ds') \<Rightarrow>
               (Inr (case find_by_id rid ds' of
                       None \<Rightarrow> RES_NOT_FOUND
                     | Some d \<Rightarrow> if used_action aid d then RES_COMPLETED
                                 else if qd_active d \<noteq> None then RES_IN_PROGRESS
                                 else RES_CONFLICT), ds')))"

section \<open>Release and resolution\<close>

definition claim_expired :: "q_doc \<Rightarrow> datetime \<Rightarrow> bool" where
  "claim_expired d now \<longleftrightarrow> (case qd_claim_expires_at d of None \<Rightarrow> False | Some t \<Rightarrow> t \<le> now)"

text \<open>The guard both operations check on the document they read.\<close>

definition owns_claim :: "string \<Rightarrow> datetime \<Rightarrow> q_doc option \<Rightarrow> bool" where
  "owns_claim operator now seen \<longleftrightarrow>
     (case seen of None \<Rightarrow> False
      | Some cur \<Rightarrow> qd_status cur = Q_REPROCESSING \<and> qd_claimed_by cur = Some operator \<and>
                    \<not> claim_expired cur now)"

definition owner_filter ::
  "uuid \<Rightarrow> string \<Rightarrow> string option \<Rightarrow> datetime \<Rightarrow> q_doc option \<Rightarrow> q_doc \<Rightarrow> bool" where
  "owner_filter rid operator aid now seen d \<longleftrightarrow>
     qd_id d = rid \<and>
     (qd_status d = Q_REPROCESSING \<and> qd_claimed_by d = Some operator \<and> fresh_action aid d \<and>
      (case seen of None \<Rightarrow> True
       | Some cur \<Rightarrow> qd_claim_expires_at cur = None \<or>
           (case qd_claim_expires_at d of None \<Rightarrow> False | Some t \<Rightarrow> now < t)))"

definition release_event ::
  "uuid \<Rightarrow> string \<Rightarrow> string \<Rightarrow> string option \<Rightarrow> string option \<Rightarrow> pydict \<Rightarrow> datetime \<Rightarrow> q_doc \<Rightarrow> q_event" where
  "release_event eid operator reason aid oc md now cur =
     \<lparr>qv_event_id = eid, qv_from = Q_REPROCESSING, qv_to = Q_PENDING, qv_action = QA_REPROCESS,
      qv_actor = operator, qv_reason = reason, qv_attempt = qd_attempt_count cur,
      qv_action_id = aid, qv_event_outcome = oc, qv_timestamp = now,
      qv_metadata = bounded_metadata md\<rparr>"

definition release_update ::
  "string \<Rightarrow> string option \<Rightarrow> datetime \<Rightarrow> q_event \<Rightarrow> q_doc \<Rightarrow> q_doc" where
  "release_update reason aid now ev d =
     d\<lparr>qd_status := Q_PENDING, qd_claimed_by := None, qd_claimed_at := None,
       qd_claim_expires_at := None, qd_last_attempt_error := Some reason,
       qd_last_action_id := aid, qd_updated_at := now, qd_history := qd_history d @ [ev],
       qd_active := None\<rparr>"

definition release_for_retry ::
  "uuid \<Rightarrow> uuid \<Rightarrow> string \<Rightarrow> string \<Rightarrow> pydict \<Rightarrow> string option \<Rightarrow> string option \<Rightarrow> datetime
     \<Rightarrow> q_doc option \<Rightarrow> q_store \<Rightarrow> (q_error + bool) \<times> q_store" where
  "release_for_retry eid rid operator reason md action_id oc now seen ds =
     (case bounded_action_id_opt action_id of
        Inl e \<Rightarrow> (Inl e, ds)
      | Inr aid \<Rightarrow>
          if \<not> owns_claim operator now seen then (Inr False, ds)
          else (case assert_transition Q_REPROCESSING Q_PENDING of
                  Inl e \<Rightarrow> (Inl e, ds)
                | Inr u \<Rightarrow>
                    (case check_event
                            (release_event eid operator (bounded_text reason) aid oc md now (the seen)) of
                       Inl e \<Rightarrow> (Inl e, ds)
                     | Inr ev \<Rightarrow>
                         let (b, ds') = update_doc (owner_filter rid operator aid now seen)
                                          (release_update (bounded_text reason) aid now ev) ds
                         in (Inr b, ds'))))"

definition resolve_event ::
  "uuid \<Rightarrow> q_status \<Rightarrow> string \<Rightarrow> q_action \<Rightarrow> string \<Rightarrow> string option \<Rightarrow> string option \<Rightarrow> pydict
     \<Rightarrow> datetime \<Rightarrow> q_doc \<Rightarrow> q_event" where
  "resolve_event eid target operator action reason aid oc md now cur =
     \<lparr>qv_event_id = eid, qv_from = Q_REPROCESSING, qv_to = target, qv_action = action,
      qv_actor = operator, qv_reason = bounded_text reason, qv_attempt = qd_attempt_count cur,
      qv_action_id = aid, qv_event_outcome = oc, qv_timestamp = now,
      qv_metadata = bounded_metadata md\<rparr>"

definition resolve_update ::
  "q_status \<Rightarrow> pydict \<Rightarrow> datetime \<Rightarrow> string option \<Rightarrow> datetime \<Rightarrow> q_event \<Rightarrow> q_doc \<Rightarrow> q_doc" where
  "resolve_update target md retention_until aid now ev d =
     d\<lparr>qd_status := target, qd_claimed_by := None, qd_claimed_at := None,
       qd_claim_expires_at := None, qd_last_attempt_error := None,
       qd_resolution_metadata := bounded_metadata md, qd_retention_until := Some retention_until,
       qd_last_action_id := aid, qd_updated_at := now, qd_history := qd_history d @ [ev],
       qd_active := None\<rparr>"

definition resolve ::
  "retention_policy \<Rightarrow> uuid \<Rightarrow> uuid \<Rightarrow> q_status \<Rightarrow> string \<Rightarrow> q_action \<Rightarrow> string \<Rightarrow> pydict
     \<Rightarrow> string option \<Rightarrow> string option \<Rightarrow> datetime \<Rightarrow> q_doc option \<Rightarrow> q_store
     \<Rightarrow> (q_error + bool) \<times> q_store" where
  "resolve policy eid rid target operator action reason md action_id oc now seen ds =
     (case assert_transition Q_REPROCESSING target of
        Inl e \<Rightarrow> (Inl e, ds)
      | Inr u \<Rightarrow>
          (case bounded_action_id_opt action_id of
             Inl e \<Rightarrow> (Inl e, ds)
           | Inr aid \<Rightarrow>
               if \<not> owns_claim operator now seen then (Inr False, ds)
               else (case days_for policy target of
                       Inl e \<Rightarrow> (Inl e, ds)
                     | Inr n \<Rightarrow>
                         (case check_event
                                 (resolve_event eid target operator action reason aid oc md now (the seen)) of
                            Inl e \<Rightarrow> (Inl e, ds)
                          | Inr ev \<Rightarrow>
                              let (b, ds') = update_doc (owner_filter rid operator aid now seen)
                                               (resolve_update target md (now + days n) aid now ev) ds
                              in (Inr b, ds')))))"

section \<open>Escalation\<close>

definition escalate_event ::
  "(datetime \<Rightarrow> string) \<Rightarrow> uuid \<Rightarrow> string \<Rightarrow> string \<Rightarrow> string \<Rightarrow> nat \<Rightarrow> datetime \<Rightarrow> q_doc \<Rightarrow> q_event" where
  "escalate_event isofmt eid operator reason aid level now cur =
     \<lparr>qv_event_id = eid, qv_from = qd_status cur, qv_to = qd_status cur, qv_action = QA_ESCALATE,
      qv_actor = operator, qv_reason = bounded_text reason, qv_attempt = qd_attempt_count cur,
      qv_action_id = Some aid, qv_event_outcome = Some ''ESCALATED'', qv_timestamp = now,
      qv_metadata =
        [(''escalationLevel'', VInt (int level)),
         (''claimedBy'', if qd_status cur = Q_REPROCESSING then VStr operator else VNone),
         (''priority'', VStr (q_priority_value (qd_priority cur))),
         (''reviewDueAt'', due_text isofmt cur)]\<rparr>"

definition escalate_filter :: "uuid \<Rightarrow> string \<Rightarrow> string \<Rightarrow> datetime \<Rightarrow> q_doc \<Rightarrow> q_doc \<Rightarrow> bool" where
  "escalate_filter rid operator aid now cur d \<longleftrightarrow>
     qd_id d = rid \<and>
     (qd_status d = qd_status cur \<and> qd_escalation_level d = qd_escalation_level cur \<and>
      (qd_status cur \<noteq> Q_REPROCESSING \<or> qd_claimed_by d = Some operator) \<and> \<not> used_action aid d \<and>
      (qd_claim_expires_at cur = None \<or>
       (case qd_claim_expires_at d of None \<Rightarrow> False | Some t \<Rightarrow> now < t)))"

definition escalate_update :: "string \<Rightarrow> string \<Rightarrow> nat \<Rightarrow> datetime \<Rightarrow> q_event \<Rightarrow> q_doc \<Rightarrow> q_doc" where
  "escalate_update operator aid level now ev d =
     d\<lparr>qd_escalation_level := level, qd_escalated_at := Some now, qd_escalated_by := Some operator,
       qd_last_action_id := Some aid, qd_updated_at := now, qd_history := qd_history d @ [ev]\<rparr>"

definition may_escalate :: "string \<Rightarrow> q_status \<Rightarrow> datetime \<Rightarrow> q_doc \<Rightarrow> bool" where
  "may_escalate operator expected now cur \<longleftrightarrow>
     qd_status cur \<in> {Q_PENDING, Q_REPROCESSING} \<and> qd_status cur = expected \<and>
     \<not> (qd_status cur = Q_REPROCESSING \<and> qd_claimed_by cur \<noteq> Some operator) \<and>
     \<not> 3 \<le> qd_escalation_level cur \<and>
     \<not> (qd_status cur = Q_REPROCESSING \<and> claim_expired cur now)"

definition escalate ::
  "(datetime \<Rightarrow> string) \<Rightarrow> uuid \<Rightarrow> uuid \<Rightarrow> string \<Rightarrow> string \<Rightarrow> q_status \<Rightarrow> string \<Rightarrow> datetime
     \<Rightarrow> q_doc option \<Rightarrow> q_store \<Rightarrow> (q_error + q_doc option) \<times> q_store" where
  "escalate isofmt eid rid operator action_id expected reason now seen ds =
     (case bounded_action_id action_id of
        Inl e \<Rightarrow> (Inl e, ds)
      | Inr aid \<Rightarrow>
          (case seen of
             None \<Rightarrow> (Inr None, ds)
           | Some cur \<Rightarrow>
               if \<not> may_escalate operator expected now cur then (Inr None, ds)
               else let level = min (qd_escalation_level cur + 1) 3
                    in case check_event (escalate_event isofmt eid operator reason aid level now cur) of
                         Inl e \<Rightarrow> (Inl e, ds)
                       | Inr ev \<Rightarrow>
                           let (b, ds') = update_doc (escalate_filter rid operator aid now cur)
                                            (escalate_update operator aid level now ev) ds
                           in (Inr (if b then find_by_id rid ds' else None), ds')))"

definition find_action :: "uuid \<Rightarrow> string \<Rightarrow> q_store \<Rightarrow> q_error + q_event option" where
  "find_action rid action_id ds =
     (case bounded_action_id action_id of
        Inl e \<Rightarrow> Inl e
      | Inr aid \<Rightarrow>
          Inr (case List.find (\<lambda>d. qd_id d = rid \<and> used_action aid d) ds of
                 None \<Rightarrow> None
               | Some d \<Rightarrow> List.find (\<lambda>e. qv_action_id e = Some aid) (qd_history d)))"

end
