(* ===== verification/QuarantineInv.thy ===== *)
theory QuarantineInv
  imports QuarantineRepo "HOL-Library.Sublist"
begin

text \<open>
  Operators and workers on one quarantine collection: every operation of the repository as an
  atomic step, with the document it read before as any version that was ever stored. The
  locale holds what every guarded update keeps; it is interpreted on each update of the
  repository.
\<close>

section \<open>Purging\<close>

definition purgeable :: "datetime \<Rightarrow> q_doc \<Rightarrow> bool" where
  "purgeable now d \<longleftrightarrow>
     qd_status d \<in> {Q_RESOLVED, Q_REJECTED} \<and>
     (case qd_retention_until d of None \<Rightarrow> False | Some t \<Rightarrow> t \<le> now)"

definition purge_batch :: "nat \<Rightarrow> datetime \<Rightarrow> q_store \<Rightarrow> q_doc list" where
  "purge_batch limit now ds =
     take limit (sort_key (\<lambda>d. (case qd_retention_until d of None \<Rightarrow> 0 | Some t \<Rightarrow> t, qd_id d))
                          (filter (purgeable now) ds))"

text \<open>The documents of the batch are deleted one after the other, by their id.\<close>

fun delete_ids :: "uuid list \<Rightarrow> q_store \<Rightarrow> nat \<times> q_store" where
  "delete_ids [] ds = (0, ds)"
| "delete_ids (i # is) ds =
     (let deleted = (case find_by_id i ds of None \<Rightarrow> 0 | Some d \<Rightarrow> 1);
          (n, ds') = delete_ids is (filter (\<lambda>d. qd_id d \<noteq> i) ds)
      in (deleted + n, ds'))"

definition purge_expired :: "nat \<Rightarrow> datetime \<Rightarrow> q_store \<Rightarrow> (q_error + nat) \<times> q_store" where
  "purge_expired limit now ds =
     (if limit < 1 then (Inl Q_Bad_Limit, ds)
      else let (n, ds') = delete_ids (map qd_id (purge_batch limit now ds)) ds in (Inr n, ds'))"

lemma delete_ids_docs: "snd (delete_ids is ds) = filter (\<lambda>d. qd_id d \<notin> set is) ds"
  by (induction "is" ds rule: delete_ids.induct) (auto split: prod.splits intro: filter_cong)

section \<open>The document invariant\<close>

definition action_ids :: "q_doc \<Rightarrow> string list" where
  "action_ids d = List.map_filter qv_action_id (qd_history d)"

definition is_claim :: "q_event \<Rightarrow> bool" where
  "is_claim e \<longleftrightarrow> qv_from e = Q_PENDING \<and> qv_to e = Q_REPROCESSING"

definition is_escalation :: "q_event \<Rightarrow> bool" where
  "is_escalation e \<longleftrightarrow> qv_from e = qv_to e"

definition event_ok :: "q_event \<Rightarrow> bool" where
  "event_ok e \<longleftrightarrow> qv_to e \<in> set (qv_from e # allowed_targets (qv_from e)) \<and> 1 \<le> qv_attempt e"

definition claim_ok :: "q_doc \<Rightarrow> bool" where
  "claim_ok d \<longleftrightarrow>
     (qd_status d = Q_REPROCESSING \<longrightarrow> qd_claimed_by d \<noteq> None \<and> qd_claim_expires_at d \<noteq> None) \<and>
     (qd_status d \<noteq> Q_REPROCESSING \<longrightarrow> qd_claimed_by d = None \<and> qd_claim_expires_at d = None) \<and>
     (terminal (qd_status d) \<longrightarrow> qd_retention_until d \<noteq> None \<and> qd_active d = None)"

definition counts_ok :: "q_doc \<Rightarrow> bool" where
  "counts_ok d \<longleftrightarrow>
     qd_attempt_count d = Suc (length (filter is_claim (qd_history d))) \<and>
     qd_escalation_level d = length (filter is_escalation (qd_history d)) \<and>
     qd_escalation_level d \<le> 3"

definition q_ok :: "q_doc \<Rightarrow> bool" where
  "q_ok d \<longleftrightarrow> claim_ok d \<and> counts_ok d \<and> distinct (action_ids d) \<and> (\<forall>e \<in> set (qd_history d). event_ok e)"

lemma used_action_iff: "used_action a d \<longleftrightarrow> a \<in> set (action_ids d)"
  by (auto simp: used_action_def action_ids_def List.map_filter_def image_iff)

lemma action_ids_append:
  "qd_history d' = qd_history d @ [e] \<Longrightarrow>
     action_ids d' = action_ids d @ (case qv_action_id e of None \<Rightarrow> [] | Some a \<Rightarrow> [a])"
  by (simp add: action_ids_def List.map_filter_def split: option.splits)

lemma action_ids_distinct:
  assumes "qd_history d' = qd_history d @ [e]" and "distinct (action_ids d)"
    and "fresh_action (qv_action_id e) d"
  shows "distinct (action_ids d')"
  using assms(2,3) by (cases "qv_action_id e")
    (simp_all add: action_ids_append [OF assms(1)] used_action_iff)

text \<open>The evolution of one document; a terminal one only changes its lineage.\<close>

definition evolves :: "q_doc \<Rightarrow> q_doc \<Rightarrow> bool" where
  "evolves d d' \<longleftrightarrow>
     qd_id d' = qd_id d \<and>
     qd_status d' \<in> set (qd_status d # allowed_targets (qd_status d)) \<and>
     prefix (qd_history d) (qd_history d') \<and>
     (terminal (qd_status d) \<longrightarrow> d' = d\<lparr>qd_source_file_id := qd_source_file_id d'\<rparr>)"

lemma evolves_refl [simp]: "evolves d d"
  by (simp add: evolves_def)

section \<open>What every guarded update keeps\<close>

locale q_update =
  fixes flt :: "q_doc \<Rightarrow> bool" and upd :: "q_doc \<Rightarrow> q_doc"
  assumes keeps_id: "qd_id (upd d) = qd_id d"
    and keeps_ok: "q_ok d \<Longrightarrow> flt d \<Longrightarrow> q_ok (upd d)"
    and moves: "flt d \<Longrightarrow> qd_status (upd d) \<in> set (qd_status d # allowed_targets (qd_status d))"
    and not_terminal: "flt d \<Longrightarrow> \<not> terminal (qd_status d)"
    and extends: "prefix (qd_history d) (qd_history (upd d))"
begin

lemma ids: "map qd_id (update_first flt upd ds) = map qd_id ds"
  by (rule update_first_keys) (rule keeps_id)

lemma all_ok:
  assumes "\<And>d. d \<in> set ds \<Longrightarrow> q_ok d" and "d \<in> set (update_first flt upd ds)"
  shows "q_ok d"
  by (rule update_first_all [where P = q_ok, OF assms(1) keeps_ok assms(2)])

lemma evolution: "d \<in> set ds \<Longrightarrow> \<exists>d' \<in> set (update_first flt upd ds). evolves d d'"
proof (induction ds)
  case (Cons x ds)
  show ?case
  proof (cases "d = x \<and> flt x")
    case True
    then have "evolves d (upd d)"
      using moves not_terminal extends keeps_id by (simp add: evolves_def)
    with True show ?thesis by auto
  next
    case False
    with Cons show ?thesis by (auto intro: evolves_refl)
  qed
qed simp

end

section \<open>The updates of the repository\<close>

lemma claim_pieces:
  "\<not> is_escalation (claim_event isofmt eid operator lease aid now cur)"
  "is_claim (claim_event isofmt eid operator lease aid now cur)"
  "event_ok (claim_event isofmt eid operator lease aid now cur)"
  "qv_action_id (claim_event isofmt eid operator lease aid now cur) = aid"
  by (simp_all add: claim_event_def is_escalation_def is_claim_def event_ok_def)

interpretation q_claim: q_update "claim_filter rid aid"
  "claim_update operator lease aid now (claim_event isofmt eid operator lease aid now cur)"
proof
  fix d
  let ?e = "claim_event isofmt eid operator lease aid now cur"
  let ?u = "claim_update operator lease aid now ?e d"
  show "qd_id ?u = qd_id d" by (simp add: claim_update_def)
  show "prefix (qd_history d) (qd_history ?u)" by (simp add: claim_update_def)
  assume f: "claim_filter rid aid d"
  then show "\<not> terminal (qd_status d)" by (simp add: claim_filter_def terminal_def)
  show "qd_status ?u \<in> set (qd_status d # allowed_targets (qd_status d))"
    using f by (simp add: claim_filter_def claim_update_def)
  assume ok: "q_ok d"
  have "distinct (action_ids ?u)"
    by (rule action_ids_distinct [of _ d ?e])
      (use ok f in \<open>simp_all add: claim_update_def claim_pieces claim_filter_def q_ok_def\<close>)
  then show "q_ok ?u"
    using ok by (simp add: q_ok_def claim_ok_def counts_ok_def claim_update_def claim_pieces terminal_def)
qed

interpretation q_reclaim: q_update "reclaim_filter rid now" "reclaim_update now"
  by unfold_locales
    (auto simp: reclaim_filter_def reclaim_update_def terminal_def q_ok_def claim_ok_def
       counts_ok_def action_ids_def)

interpretation q_reserve: q_update "reserve_filter rid operator aid" "reserve_update operator aid action now"
  by unfold_locales
    (auto simp: reserve_filter_def reserve_update_def terminal_def q_ok_def claim_ok_def
       counts_ok_def action_ids_def)

text \<open>An owner's event closes the claim; the attempt it records is at least one.\<close>

definition seen_ok :: "q_doc option \<Rightarrow> bool" where
  "seen_ok seen \<longleftrightarrow> (case seen of None \<Rightarrow> False | Some cur \<Rightarrow> 1 \<le> qd_attempt_count cur)"

lemma release_pieces:
  "\<not> is_escalation (release_event eid operator reason aid oc md now cur)"
  "\<not> is_claim (release_event eid operator reason aid oc md now cur)"
  "1 \<le> qd_attempt_count cur \<Longrightarrow> event_ok (release_event eid operator reason aid oc md now cur)"
  "qv_action_id (release_event eid operator reason aid oc md now cur) = aid"
  by (simp_all add: release_event_def is_escalation_def is_claim_def event_ok_def)

interpretation q_release: q_update
  "\<lambda>d. owner_filter rid operator aid now seen d \<and> seen_ok seen"
  "release_update reason aid now (release_event eid operator reason aid oc md now (the seen))"
proof
  fix d
  let ?e = "release_event eid operator reason aid oc md now (the seen)"
  let ?u = "release_update reason aid now ?e d"
  show "qd_id ?u = qd_id d" by (simp add: release_update_def)
  show "prefix (qd_history d) (qd_history ?u)" by (simp add: release_update_def)
  assume f: "owner_filter rid operator aid now seen d \<and> seen_ok seen"
  then show "\<not> terminal (qd_status d)" by (simp add: owner_filter_def terminal_def)
  show "qd_status ?u \<in> set (qd_status d # allowed_targets (qd_status d))"
    using f by (simp add: owner_filter_def release_update_def)
  assume ok: "q_ok d"
  have "distinct (action_ids ?u)"
    by (rule action_ids_distinct [of _ d ?e])
      (use ok f in \<open>simp_all add: release_update_def release_pieces owner_filter_def q_ok_def\<close>)
  moreover have "1 \<le> qd_attempt_count (the seen)" using f by (simp add: seen_ok_def split: option.splits)
  ultimately show "q_ok ?u"
    using ok by (simp add: q_ok_def claim_ok_def counts_ok_def release_update_def release_pieces terminal_def)
qed

lemma resolve_pieces:
  "target \<in> {Q_RESOLVED, Q_REJECTED} \<Longrightarrow>
     \<not> is_escalation (resolve_event eid target operator action reason aid oc md now cur)"
  "\<not> is_claim (resolve_event eid target operator action reason aid oc md now cur)"
  "target \<in> {Q_RESOLVED, Q_REJECTED} \<Longrightarrow> 1 \<le> qd_attempt_count cur \<Longrightarrow>
     event_ok (resolve_event eid target operator action reason aid oc md now cur)"
  "qv_action_id (resolve_event eid target operator action reason aid oc md now cur) = aid"
  by (auto simp add: resolve_event_def is_escalation_def is_claim_def event_ok_def)

interpretation q_resolve: q_update
  "\<lambda>d. owner_filter rid operator aid now seen d \<and> seen_ok seen \<and> target \<in> {Q_RESOLVED, Q_REJECTED}"
  "resolve_update target md until aid now
     (resolve_event eid target operator action reason aid oc md now (the seen))"
proof
  fix d
  let ?e = "resolve_event eid target operator action reason aid oc md now (the seen)"
  let ?u = "resolve_update target md until aid now ?e d"
  show "qd_id ?u = qd_id d" by (simp add: resolve_update_def)
  show "prefix (qd_history d) (qd_history ?u)" by (simp add: resolve_update_def)
  assume f: "owner_filter rid operator aid now seen d \<and> seen_ok seen \<and> target \<in> {Q_RESOLVED, Q_REJECTED}"
  then show "\<not> terminal (qd_status d)" by (simp add: owner_filter_def terminal_def)
  show "qd_status ?u \<in> set (qd_status d # allowed_targets (qd_status d))"
    using f by (auto simp add: owner_filter_def resolve_update_def)
  assume ok: "q_ok d"
  have "distinct (action_ids ?u)"
    by (rule action_ids_distinct [of _ d ?e])
      (use ok f in \<open>simp_all add: resolve_update_def resolve_pieces owner_filter_def q_ok_def\<close>)
  moreover have "1 \<le> qd_attempt_count (the seen)" using f by (simp add: seen_ok_def split: option.splits)
  moreover have "target \<in> {Q_RESOLVED, Q_REJECTED}" using f by simp
  ultimately show "q_ok ?u"
    using ok by (auto simp add: q_ok_def claim_ok_def counts_ok_def resolve_update_def resolve_pieces)
qed

lemma escalate_pieces:
  "is_escalation (escalate_event isofmt eid operator reason aid level now cur)"
  "\<not> is_claim (escalate_event isofmt eid operator reason aid level now cur)"
  "1 \<le> qd_attempt_count cur \<Longrightarrow>
     event_ok (escalate_event isofmt eid operator reason aid level now cur)"
  "qv_action_id (escalate_event isofmt eid operator reason aid level now cur) = Some aid"
  by (auto simp add: escalate_event_def is_escalation_def is_claim_def event_ok_def)

interpretation q_escalate: q_update
  "\<lambda>d. escalate_filter rid operator aid now cur d \<and> may_escalate operator expected now cur \<and>
       1 \<le> qd_attempt_count cur"
  "escalate_update operator aid (min (qd_escalation_level cur + 1) 3) now
     (escalate_event isofmt eid operator reason aid (min (qd_escalation_level cur + 1) 3) now cur)"
proof
  fix d
  let ?n = "min (qd_escalation_level cur + 1) 3"
  let ?e = "escalate_event isofmt eid operator reason aid ?n now cur"
  let ?u = "escalate_update operator aid ?n now ?e d"
  show "qd_id ?u = qd_id d" by (simp add: escalate_update_def)
  show "prefix (qd_history d) (qd_history ?u)" by (simp add: escalate_update_def)
  assume f: "escalate_filter rid operator aid now cur d \<and> may_escalate operator expected now cur \<and>
       1 \<le> qd_attempt_count cur"
  then show "\<not> terminal (qd_status d)" by (auto simp: escalate_filter_def may_escalate_def terminal_def)
  show "qd_status ?u \<in> set (qd_status d # allowed_targets (qd_status d))"
    by (simp add: escalate_update_def)
  assume ok: "q_ok d"
  have "distinct (action_ids ?u)"
    by (rule action_ids_distinct [of _ d ?e])
      (use ok f in \<open>simp_all add: escalate_update_def escalate_pieces escalate_filter_def q_ok_def\<close>)
  moreover have "?n = Suc (qd_escalation_level d)" "?n \<le> 3"
    using f by (auto simp: escalate_filter_def may_escalate_def)
  ultimately show "q_ok ?u"
    using ok f by (simp add: q_ok_def claim_ok_def counts_ok_def escalate_update_def escalate_pieces)
qed

end
