(* ===== verification/QuarantineRace.thy ===== *)
theory QuarantineRace
  imports QuarantineInv
begin

text \<open>
  The quarantine collection under concurrent operators: the step relation over the operations
  of the repository, its reachable states, the collection invariant, and the properties of the
  record life cycle.
\<close>

section \<open>Steps\<close>

record q_state =
  qs_docs :: q_store
  qs_seen :: "q_doc set"

definition advance :: "q_state \<Rightarrow> q_store \<Rightarrow> q_state" where
  "advance s ds = \<lparr>qs_docs = ds, qs_seen = qs_seen s \<union> set ds\<rparr>"

text \<open>A caller holds any version of the record that was ever stored, or found none.\<close>

definition may_read :: "q_state \<Rightarrow> uuid \<Rightarrow> q_doc option \<Rightarrow> bool" where
  "may_read s rid seen \<longleftrightarrow> (case seen of None \<Rightarrow> True | Some d \<Rightarrow> d \<in> qs_seen s \<and> qd_id d = rid)"

text \<open>A record as the ingestion pipeline creates it: pending, unclaimed, without history.\<close>

definition new_doc :: "q_doc \<Rightarrow> bool" where
  "new_doc d \<longleftrightarrow>
     qd_status d = Q_PENDING \<and> qd_claimed_by d = None \<and> qd_claim_expires_at d = None \<and>
     qd_history d = [] \<and> qd_attempt_count d = 1 \<and> qd_escalation_level d = 0 \<and>
     qd_retention_until d = None \<and> qd_active d = None"

inductive q_step :: "datetime \<Rightarrow> q_state \<Rightarrow> q_state \<Rightarrow> bool" where
  create: "\<forall>d \<in> set rs. new_doc d \<Longrightarrow> distinct (map qd_id rs) \<Longrightarrow>
    qd_id ` set rs \<inter> qd_id ` qs_seen s = {} \<Longrightarrow>
    q_step now s (advance s (snd (create_many n now rs (qs_docs s))))"
| rebind: "q_step now s (advance s (snd (rebind_source_file src target (qs_docs s))))"
| take_claim: "may_read s rid seen \<Longrightarrow>
    q_step now s (advance s (snd (claim isofmt eid rid operator lease aid now seen (qs_docs s))))"
| reclaim: "q_step now s (advance s (snd (reclaim_expired_claim rid now (qs_docs s))))"
| reserve: "q_step now s (advance s (snd (reserve_action rid operator aid action now (qs_docs s))))"
| release: "may_read s rid seen \<Longrightarrow>
    q_step now s
      (advance s (snd (release_for_retry eid rid operator reason md aid oc now seen (qs_docs s))))"
| resolve: "may_read s rid seen \<Longrightarrow>
    q_step now s
      (advance s (snd (resolve policy eid rid target operator action reason md aid oc now seen (qs_docs s))))"
| escalate: "may_read s rid seen \<Longrightarrow>
    q_step now s
      (advance s (snd (escalate isofmt eid rid operator aid' expected reason now seen (qs_docs s))))"
| purge: "q_step now s (advance s (snd (purge_expired limit now (qs_docs s))))"

inductive q_reach :: "q_state \<Rightarrow> bool" where
  empty: "q_reach \<lparr>qs_docs = [], qs_seen = {}\<rparr>"
| step: "q_reach s \<Longrightarrow> q_step now s s' \<Longrightarrow> q_reach s'"

section \<open>The collection invariant\<close>

definition q_inv :: "q_state \<Rightarrow> bool" where
  "q_inv s \<longleftrightarrow> distinct (map qd_id (qs_docs s)) \<and> set (qs_docs s) \<subseteq> qs_seen s \<and>
     (\<forall>d \<in> qs_seen s. q_ok d)"

text \<open>An operation of the repository is a guarded update or changes nothing.\<close>

definition guarded :: "q_store \<Rightarrow> q_store \<Rightarrow> bool" where
  "guarded ds ds' \<longleftrightarrow> ds' = ds \<or> (\<exists>flt upd. q_update flt upd \<and> ds' = update_first flt upd ds)"

lemma guardedI: "q_update flt upd \<Longrightarrow> guarded ds (update_first flt upd ds)"
  by (auto simp: guarded_def)

lemma guarded_same [simp]: "guarded ds ds"
  by (simp add: guarded_def)

lemma guarded_ids: "guarded ds ds' \<Longrightarrow> map qd_id ds' = map qd_id ds"
  by (auto simp: guarded_def dest: q_update.ids)

lemma guarded_ok:
  assumes "guarded ds ds'" and "\<And>d. d \<in> set ds \<Longrightarrow> q_ok d" and "d \<in> set ds'"
  shows "q_ok d"
proof (cases "ds' = ds")
  case False
  then obtain flt upd where u: "q_update flt upd" "ds' = update_first flt upd ds"
    using assms(1) by (auto simp: guarded_def)
  show ?thesis by (rule q_update.all_ok [OF u(1) assms(2)]) (use assms(3) u(2) in simp_all)
qed (use assms in simp)

lemma guarded_evolves:
  assumes "guarded ds ds'" and "d \<in> set ds"
  shows "\<exists>d' \<in> set ds'. evolves d d'"
proof (cases "ds' = ds")
  case False
  then obtain flt upd where u: "q_update flt upd" "ds' = update_first flt upd ds"
    using assms(1) by (auto simp: guarded_def)
  from q_update.evolution [OF u(1) assms(2)] show ?thesis by (simp only: u(2))
qed (use assms evolves_refl in blast)

lemma guarded_claim: "guarded ds (snd (claim isofmt eid rid operator lease aid now seen ds))"
  by (auto simp: claim_def check_event_def Let_def split: prod.splits sum.splits option.splits
      intro!: guardedI q_claim.q_update_axioms dest: arg_cong [where f = snd])

lemma guarded_reclaim: "guarded ds (snd (reclaim_expired_claim rid now ds))"
  by (simp add: reclaim_expired_claim_def guardedI q_reclaim.q_update_axioms)

lemma guarded_reserve: "guarded ds (snd (reserve_action rid operator aid action now ds))"
  by (auto simp: reserve_action_def split: prod.splits sum.splits option.splits
      intro!: guardedI q_reserve.q_update_axioms dest!: arg_cong [where f = snd])


lemma check_event_Inr: "check_event e = Inr ev \<Longrightarrow> ev = e"
  by (simp add: check_event_def split: if_splits)

lemma update_doc_docs: "update_doc p f ds = (b, ds') \<Longrightarrow> ds' = update_first p f ds"
  by (drule arg_cong [where f = snd]) simp

lemma update_first_cong: "(\<And>d. p d = q d) \<Longrightarrow> update_first p f ds = update_first q f ds"
  by (induction ds) auto

lemma guarded_weaken:
  assumes "q_update (\<lambda>d. flt d \<and> g) upd" and "g"
  shows "guarded ds (update_first flt upd ds)"
  using guardedI [OF assms(1), of ds] assms(2) by simp

lemma guarded_release:
  assumes "\<And>d. seen = Some d \<Longrightarrow> q_ok d"
  shows "guarded ds (snd (release_for_retry eid rid operator reason md action_id oc now seen ds))"
proof -
  have "guarded ds (update_first (owner_filter rid operator aid now seen)
      (release_update r aid now (release_event eid operator r aid oc md now (the seen))) ds)"
    if "owns_claim operator now seen" for aid r
  proof -
    have "seen_ok seen"
      using that assms by (auto simp: owns_claim_def seen_ok_def q_ok_def counts_ok_def split: option.splits)
    with q_release.q_update_axioms show ?thesis by (rule guarded_weaken)
  qed
  then show ?thesis
    by (auto simp: release_for_retry_def split: prod.splits sum.splits
        dest!: check_event_Inr update_doc_docs)
qed

lemma guarded_resolve:
  assumes "\<And>d. seen = Some d \<Longrightarrow> q_ok d"
  shows "guarded ds (snd (resolve policy eid rid target operator action reason md action_id oc now seen ds))"
proof -
  have "guarded ds (update_first (owner_filter rid operator aid now seen)
      (resolve_update target md until aid now
        (resolve_event eid target operator action reason aid oc md now (the seen))) ds)"
    if "owns_claim operator now seen" "target \<in> {Q_RESOLVED, Q_REJECTED}" for aid until
  proof -
    have "seen_ok seen \<and> target \<in> {Q_RESOLVED, Q_REJECTED}"
      using that assms by (auto simp: owns_claim_def seen_ok_def q_ok_def counts_ok_def split: option.splits)
    with q_resolve.q_update_axioms show ?thesis by (rule guarded_weaken)
  qed
  moreover have "target \<in> {Q_RESOLVED, Q_REJECTED}" if "days_for policy target = Inr n" for n
    using that by (cases target) simp_all
  ultimately show ?thesis
    by (auto simp: resolve_def split: prod.splits sum.splits
        dest!: check_event_Inr update_doc_docs)
qed

lemma guarded_escalate:
  assumes "\<And>d. seen = Some d \<Longrightarrow> q_ok d"
  shows "guarded ds (snd (escalate isofmt eid rid operator action_id expected reason now seen ds))"
proof -
  have "guarded ds (update_first (escalate_filter rid operator aid now cur)
      (escalate_update operator aid (min (qd_escalation_level cur + 1) 3) now
        (escalate_event isofmt eid operator reason aid (min (qd_escalation_level cur + 1) 3) now cur)) ds)"
    if "seen = Some cur" "may_escalate operator expected now cur" for aid cur
  proof -
    have "may_escalate operator expected now cur \<and> 1 \<le> qd_attempt_count cur"
      using that assms by (auto simp: q_ok_def counts_ok_def)
    with q_escalate.q_update_axioms show ?thesis by (rule guarded_weaken)
  qed
  then show ?thesis
    by (auto simp: escalate_def Let_def split: sum.splits option.splits prod.splits
        dest!: check_event_Inr update_doc_docs)
qed

section \<open>Every reachable state satisfies the invariant\<close>

lemma seen_all_ok: "q_inv s \<Longrightarrow> may_read s rid seen \<Longrightarrow> seen = Some d \<Longrightarrow> q_ok d"
  by (simp add: q_inv_def may_read_def)

lemma inv_guarded:
  assumes inv: "q_inv s" and g: "guarded (qs_docs s) ds'"
  shows "q_inv (advance s ds')"
proof -
  have "q_ok d" if "d \<in> set ds'" for d
    by (rule guarded_ok [OF g _ that]) (use inv in \<open>auto simp: q_inv_def\<close>)
  then show ?thesis
    using inv guarded_ids [OF g] by (auto simp: q_inv_def advance_def)
qed

lemma new_doc_ok: "new_doc d \<Longrightarrow> q_ok (bounded_expiry t d)"
  by (simp add: new_doc_def bounded_expiry_def q_ok_def claim_ok_def counts_ok_def terminal_def
      action_ids_def List.map_filter_def)

lemma bounded_expiry_id [simp]: "qd_id (bounded_expiry t d) = qd_id d"
  by (simp add: bounded_expiry_def)

lemma inv_create:
  assumes inv: "q_inv s" and new: "\<forall>d \<in> set rs. new_doc d" and "distinct (map qd_id rs)"
    and "qd_id ` set rs \<inter> qd_id ` qs_seen s = {}"
  shows "q_inv (advance s (snd (create_many n now rs (qs_docs s))))"
proof -
  have "qd_id ` set (qs_docs s) \<subseteq> qd_id ` qs_seen s" using inv by (auto simp: q_inv_def)
  then have "distinct (map qd_id (snd (create_many n now rs (qs_docs s))))"
    using inv assms(3,4) by (auto simp: q_inv_def create_many_def o_def image_image)
  moreover have "q_ok d" if "d \<in> set (snd (create_many n now rs (qs_docs s)))" for d
    using that inv new new_doc_ok by (auto simp: create_many_def q_inv_def split: if_splits)
  ultimately show ?thesis using inv by (auto simp: q_inv_def advance_def)
qed

lemma source_file_ok: "q_ok d \<Longrightarrow> q_ok (d\<lparr>qd_source_file_id := f\<rparr>)"
  by (simp add: q_ok_def claim_ok_def counts_ok_def action_ids_def)

lemma inv_rebind:
  assumes "q_inv s"
  shows "q_inv (advance s (snd (rebind_source_file src target (qs_docs s))))"
proof -
  have "map qd_id (snd (rebind_source_file src target (qs_docs s))) = map qd_id (qs_docs s)"
    by (simp add: rebind_source_file_def)
  moreover have "q_ok d" if "d \<in> set (snd (rebind_source_file src target (qs_docs s)))" for d
    using that assms by (auto simp: q_inv_def rebind_source_file_def source_file_ok)
  ultimately show ?thesis using assms by (auto simp: q_inv_def advance_def simp del: map_map)
qed

lemma purge_docs:
  "snd (purge_expired limit now ds) =
     (if limit < 1 then ds
      else filter (\<lambda>d. qd_id d \<notin> qd_id ` set (purge_batch limit now ds)) ds)"
  using delete_ids_docs [of "map qd_id (purge_batch limit now ds)" ds]
  by (cases "delete_ids (map qd_id (purge_batch limit now ds)) ds") (simp add: purge_expired_def)

lemma inv_purge:
  assumes "q_inv s"
  shows "q_inv (advance s (snd (purge_expired limit now (qs_docs s))))"
  using assms by (auto simp: q_inv_def advance_def purge_docs distinct_map_filter)

lemma q_inv_step: "q_step now s s' \<Longrightarrow> q_inv s \<Longrightarrow> q_inv s'"
proof (induction rule: q_step.induct)
  case (create rs s now n)
  then show ?case by (intro inv_create)
next
  case (rebind now s src target)
  then show ?case by (rule inv_rebind)
next
  case (take_claim s rid seen now isofmt eid operator lease aid)
  then show ?case by (intro inv_guarded guarded_claim)
next
  case (reclaim now s rid)
  then show ?case by (intro inv_guarded guarded_reclaim)
next
  case (reserve now s rid operator aid action)
  then show ?case by (intro inv_guarded guarded_reserve)
next
  case (release s rid seen now eid operator reason md aid oc)
  then show ?case by (intro inv_guarded guarded_release) (auto dest: seen_all_ok)
next
  case (resolve s rid seen now policy eid target operator action reason md aid oc)
  then show ?case by (intro inv_guarded guarded_resolve) (auto dest: seen_all_ok)
next
  case (escalate s rid seen now isofmt eid operator aid' expected reason)
  then show ?case by (intro inv_guarded guarded_escalate) (auto dest: seen_all_ok)
next
  case (purge now s limit)
  then show ?case by (intro inv_purge)
qed

lemma q_reach_inv: "q_reach s \<Longrightarrow> q_inv s"
proof (induction rule: q_reach.induct)
  case empty
  show ?case by (simp add: q_inv_def)
next
  case (step s now s')
  then show ?case by (auto intro: q_inv_step)
qed

end
