(* ===== verification/QuarantineProps.thy ===== *)
theory QuarantineProps
  imports QuarantineRace
begin

text \<open>
  The properties of the quarantine repository: the life cycle of a record, its history, and
  the fencing of operators by their leases.
\<close>

section \<open>Evolution of a step\<close>

lemma evolves_source_file: "evolves d (d\<lparr>qd_source_file_id := f\<rparr>)"
  by (simp add: evolves_def)

lemma purged_was_purgeable:
  assumes "distinct (map qd_id ds)" and "d \<in> set ds"
    and "qd_id d \<in> qd_id ` set (purge_batch limit now ds)"
  shows "purgeable now d"
proof -
  obtain b where b: "b \<in> set (purge_batch limit now ds)" "qd_id b = qd_id d" using assms(3) by force
  then have "b \<in> set ds" "purgeable now b"
    by (auto simp: purge_batch_def dest!: in_set_takeD)
  moreover from this b assms have "b = d" by (auto simp: distinct_map inj_on_def)
  ultimately show ?thesis by simp
qed

lemma step_evolves:
  assumes "q_step now s s'" and "q_inv s" and "d \<in> set (qs_docs s)"
  shows "(\<exists>d' \<in> set (qs_docs s'). evolves d d') \<or>
    (purgeable now d \<and> qd_id d \<notin> qd_id ` set (qs_docs s'))"
  using assms
proof (induction rule: q_step.induct)
  case (create rs s now n)
  then have "d \<in> set (qs_docs (advance s (snd (create_many n now rs (qs_docs s)))))"
    by (simp add: advance_def create_many_def)
  then show ?case using evolves_refl by blast
next
  case (rebind now s src target)
  then have "(if qd_source_file_id d = src then d\<lparr>qd_source_file_id := target\<rparr> else d)
      \<in> set (qs_docs (advance s (snd (rebind_source_file src target (qs_docs s)))))"
    by (simp add: advance_def rebind_source_file_def)
  moreover have "evolves d (if qd_source_file_id d = src then d\<lparr>qd_source_file_id := target\<rparr> else d)"
    using evolves_source_file by simp
  ultimately show ?case by blast
next
  case (take_claim s rid seen now isofmt eid operator lease aid)
  then show ?case
    using guarded_evolves [OF guarded_claim] by (simp add: advance_def)
next
  case (reclaim now s rid)
  then show ?case using guarded_evolves [OF guarded_reclaim] by (simp add: advance_def)
next
  case (reserve now s rid operator aid action)
  then show ?case using guarded_evolves [OF guarded_reserve] by (simp add: advance_def)
next
  case (release s rid seen now eid operator reason md aid oc)
  then have "q_ok c" if "seen = Some c" for c using that by (auto dest: seen_all_ok)
  then show ?case using guarded_evolves [OF guarded_release] release by (simp add: advance_def)
next
  case (resolve s rid seen now policy eid target operator action reason md aid oc)
  then have "q_ok c" if "seen = Some c" for c using that by (auto dest: seen_all_ok)
  then show ?case using guarded_evolves [OF guarded_resolve] resolve by (simp add: advance_def)
next
  case (escalate s rid seen now isofmt eid operator aid' expected reason)
  then have "q_ok c" if "seen = Some c" for c using that by (auto dest: seen_all_ok)
  then show ?case using guarded_evolves [OF guarded_escalate] escalate by (simp add: advance_def)
next
  case (purge now s limit)
  show ?case
  proof (cases "d \<in> set (snd (purge_expired limit now (qs_docs s)))")
    case True
    then show ?thesis using evolves_refl [of d] by (auto simp: advance_def simp del: evolves_refl)
  next
    case False
    with purge have "qd_id d \<in> qd_id ` set (purge_batch limit now (qs_docs s))" "1 \<le> limit"
      by (auto simp: purge_docs split: if_splits)
    with purge show ?thesis
      using purged_was_purgeable [of "qs_docs s" d limit now]
      by (auto simp: advance_def purge_docs q_inv_def)
  qed
qed

section \<open>The owner's write\<close>

lemma owner_write:
  assumes inv: "q_inv s" and read: "may_read s rid seen" and own: "owns_claim operator now seen"
    and upd: "\<And>d. upd d \<noteq> d"
  shows "update_doc (owner_filter rid operator aid now seen) upd (qs_docs s) =
    (case find_by_id rid (qs_docs s) of
       None \<Rightarrow> (False, qs_docs s)
     | Some d \<Rightarrow>
         if qd_status d = Q_REPROCESSING \<and> qd_claimed_by d = Some operator \<and> fresh_action aid d \<and>
            (\<exists>t. qd_claim_expires_at d = Some t \<and> now < t)
         then (True, update_first (\<lambda>d. qd_id d = rid) upd (qs_docs s))
         else (False, qs_docs s))"
proof -
  obtain cur where cur: "seen = Some cur" "qd_status cur = Q_REPROCESSING"
    using own by (auto simp: owns_claim_def split: option.splits)
  then have "q_ok cur" using seen_all_ok [OF inv read] by simp
  with cur have exp: "qd_claim_expires_at cur \<noteq> None" by (simp add: q_ok_def claim_ok_def)
  define g where "g d \<longleftrightarrow> qd_status d = Q_REPROCESSING \<and> qd_claimed_by d = Some operator \<and>
    fresh_action aid d \<and> (\<exists>t. qd_claim_expires_at d = Some t \<and> now < t)" for d
  have flt: "owner_filter rid operator aid now seen = (\<lambda>d. qd_id d = rid \<and> g d)"
    using cur(1) exp by (auto simp: fun_eq_iff owner_filter_def g_def split: option.splits)
  have dist: "distinct (map qd_id (qs_docs s))" using inv by (simp add: q_inv_def)
  note find = find_update_guard [OF dist, of rid g]
  have first: "update_first (\<lambda>d. qd_id d = rid \<and> g d) upd ds = update_first (\<lambda>d. qd_id d = rid) upd ds"
    if "List.find (\<lambda>d. qd_id d = rid) ds = Some d" "g d" for ds d
    using that by (induction ds) (auto split: if_splits)
  show ?thesis
    using find first upd
    by (auto simp: update_doc_def flt find_by_id_def g_def [symmetric] split: option.splits)
qed

lemma history_changes [simp]:
  "release_update r aid now ev d \<noteq> d" "resolve_update t md u aid now ev d \<noteq> d"
  by (auto simp: release_update_def resolve_update_def dest!: arg_cong [where f = qd_history])

lemma find_after_update:
  assumes "find_by_id rid ds = Some d" and "\<And>d. qd_id (upd d) = qd_id d"
  shows "find_by_id rid (update_first (\<lambda>d. qd_id d = rid) upd ds) = Some (upd d)"
  using assms by (induction ds) (auto simp: find_by_id_def split: if_splits)

section \<open>A concrete record\<close>

definition demo_quarantined :: q_doc where
  "demo_quarantined =
     \<lparr>qd_id = ''q1'', qd_source_file_id = ''f1'', qd_source_unit_key = Some ''u1'',
      qd_review_packet_id = None, qd_post_approval_run_id = None, qd_partner = ''PARTNER_A'',
      qd_reconciliation_date = 0, qd_row_number = Some 3, qd_raw_row = VList [],
      qd_ingestion_key = Some ''k1'', qd_incoming_fingerprint = Some ''in'',
      qd_existing_fingerprint = Some ''ex'',
      qd_errors = [[(''errorCode'', VStr ''CONFLICTING_DUPLICATE'')]],
      qd_phase = QPH_BATCH, qd_severity = QSV_RECORD, qd_config_version = None,
      qd_status = Q_PENDING, qd_priority = QPR_HIGH, qd_review_due_at = None,
      qd_escalation_level = 0, qd_escalated_at = None, qd_escalated_by = None,
      qd_last_action_id = None, qd_attempt_count = 1, qd_expires_at = None,
      qd_claimed_by = None, qd_claimed_at = None, qd_claim_expires_at = None,
      qd_last_attempt_error = None, qd_resolution_metadata = [], qd_history = [],
      qd_retention_until = None, qd_created_at = 0, qd_updated_at = 0, qd_active = None\<rparr>"

definition demo_start :: q_state where
  "demo_start = \<lparr>qs_docs = [], qs_seen = {}\<rparr>"

definition demo_created :: q_state where
  "demo_created = advance demo_start (snd (create_many 30 0 [demo_quarantined] (qs_docs demo_start)))"

definition demo_claimed :: q_state where
  "demo_claimed =
     advance demo_created
       (snd (claim (\<lambda>_. []) ''e1'' ''q1'' ''alice'' 900 (Some ''a1'') 1
               (find_by_id ''q1'' (qs_docs demo_created)) (qs_docs demo_created)))"

lemma demo_created_docs: "qs_docs demo_created = [bounded_expiry (days 30) demo_quarantined]"
  by (simp add: demo_created_def demo_start_def advance_def create_many_def)

lemma demo_created_reach: "q_reach demo_created"
proof -
  have "q_step 0 demo_start demo_created"
    unfolding demo_created_def
    by (rule q_step.create) (simp_all add: new_doc_def demo_quarantined_def demo_start_def)
  with q_reach.empty show ?thesis unfolding demo_start_def [symmetric] by (rule q_reach.step)
qed

lemma demo_read: "may_read demo_created ''q1'' (find_by_id ''q1'' (qs_docs demo_created))"
  by (simp add: may_read_def demo_created_docs find_by_id_def demo_quarantined_def)
    (simp add: demo_created_def demo_start_def advance_def create_many_def demo_quarantined_def)

lemma demo_claim_step: "q_step 1 demo_created demo_claimed"
  unfolding demo_claimed_def by (rule q_step.take_claim) (rule demo_read)

lemma demo_claimed_reach: "q_reach demo_claimed"
  using demo_created_reach demo_claim_step by (rule q_reach.step)

definition demo_claim_view :: "q_doc option \<Rightarrow> (q_status \<times> string option \<times> datetime option \<times> nat) option" where
  "demo_claim_view d =
     map_option (\<lambda>d. (qd_status d, qd_claimed_by d, qd_claim_expires_at d, qd_attempt_count d)) d"

lemma demo_claimed_doc:
  "demo_claim_view (find_by_id ''q1'' (qs_docs demo_claimed))
     = Some (Q_REPROCESSING, Some ''alice'', Some 900000001, 2)"
proof -
  have a: "bounded_action_id_opt (Some ''a1'') = Inr (Some ''a1'')" by code_simp
  show ?thesis
    by (simp add: demo_claimed_def demo_created_docs claim_def a find_by_id_def bounded_expiry_def
        demo_quarantined_def check_event_def claim_event_def advance_def find_and_update_doc_def
        claim_filter_def used_action_def claim_update_def demo_claim_view_def seconds_def
        q_priority_value.simps due_text_def)
qed

section \<open>Properties\<close>

text \<open>C8: Under every interleaving of operators and workers a quarantine record moves only along
  PENDING to REPROCESSING and from there to PENDING, RESOLVED or REJECTED; its history is only
  appended to; a terminal record never changes again apart from the file it is bound to, and
  disappears only when its retention has passed.\<close>

theorem quarantine_record_life_cycle:
  assumes "q_reach s" and "q_step now s s'" and "d \<in> set (qs_docs s)"
  shows "(\<exists>d' \<in> set (qs_docs s'). qd_id d' = qd_id d \<and>
       qd_status d' \<in> set (qd_status d # allowed_targets (qd_status d)) \<and>
       prefix (qd_history d) (qd_history d') \<and>
       (\<not> terminal (qd_status d) \<or> d' = d\<lparr>qd_source_file_id := qd_source_file_id d'\<rparr>)) \<or>
     (terminal (qd_status d) \<and> (\<exists>t. qd_retention_until d = Some t \<and> t \<le> now) \<and>
      qd_id d \<notin> qd_id ` set (qs_docs s'))"
  using step_evolves [OF assms(2) q_reach_inv [OF assms(1)] assms(3)]
  by (auto simp: evolves_def purgeable_def terminal_def split: option.splits)

theorem quarantine_record_life_cycle_witness:
  "\<exists>d \<in> set (qs_docs demo_created). \<exists>d' \<in> set (qs_docs demo_claimed).
     qd_status d = Q_PENDING \<and> qd_status d' \<in> {Q_PENDING, Q_REPROCESSING} \<and>
     prefix (qd_history d) (qd_history d')"
proof -
  let ?d = "bounded_expiry (days 30) demo_quarantined"
  have d: "?d \<in> set (qs_docs demo_created)" "qd_status ?d = Q_PENDING"
    by (simp_all add: demo_created_docs bounded_expiry_def demo_quarantined_def)
  with quarantine_record_life_cycle [OF demo_created_reach demo_claim_step d(1)]
  show ?thesis by (fastforce simp: terminal_def)
qed

text \<open>C25: In every reachable state the history of a record accounts for it: no action id occurs
  twice, the attempt count is one more than the number of claims, the escalation level is the
  number of escalations and at most three, every event is a legal transition or an escalation,
  a record is claimed exactly while it is being reprocessed, and a terminal one has a retention
  date.\<close>

theorem quarantine_history_accounts_for_record:
  assumes "q_reach s" and "d \<in> set (qs_docs s)"
  shows "distinct (action_ids d) \<and>
    qd_attempt_count d = Suc (length (filter is_claim (qd_history d))) \<and>
    qd_escalation_level d = length (filter is_escalation (qd_history d)) \<and>
    qd_escalation_level d \<le> 3 \<and> list_all event_ok (qd_history d) \<and>
    (qd_claimed_by d \<noteq> None \<longleftrightarrow> qd_status d = Q_REPROCESSING) \<and>
    (\<not> terminal (qd_status d) \<or> qd_retention_until d \<noteq> None)"
proof -
  have "q_ok d" using q_reach_inv [OF assms(1)] assms(2) by (auto simp: q_inv_def)
  then show ?thesis by (auto simp: q_ok_def claim_ok_def counts_ok_def list_all_iff)
qed

theorem quarantine_history_accounts_for_record_witness:
  "\<exists>d \<in> set (qs_docs demo_claimed). qd_status d = Q_REPROCESSING \<and> distinct (action_ids d) \<and>
     length (filter is_claim (qd_history d)) = 1"
proof -
  obtain d where d: "find_by_id ''q1'' (qs_docs demo_claimed) = Some d" "qd_status d = Q_REPROCESSING"
      "qd_attempt_count d = 2"
    using demo_claimed_doc by (auto simp: demo_claim_view_def)
  then have "d \<in> set (qs_docs demo_claimed)" by (auto simp: find_by_id_def dest: find_Some_set)
  with quarantine_history_accounts_for_record [OF demo_claimed_reach this] d show ?thesis
    by (intro bexI [of _ d]) auto
qed

text \<open>C23: Only the live owner of a claim closes it. A resolution that reports success found the
  record claimed by that operator under an unexpired lease, with the action id unused, and leaves
  it terminal and unclaimed; one that does not report success changes nothing, whatever older
  version of the record its caller had read.\<close>

theorem only_the_live_owner_resolves:
  assumes "q_reach s" and "may_read s rid seen"
    and "resolve policy eid rid target operator action reason md (Some a) oc now seen (qs_docs s)
           = (r, ds')"
  shows "(r = Inr True \<and>
      (\<exists>d d' t. find_by_id rid (qs_docs s) = Some d \<and> qd_status d = Q_REPROCESSING \<and>
         qd_claimed_by d = Some operator \<and> qd_claim_expires_at d = Some t \<and> now < t \<and>
         py_strip a \<notin> set (action_ids d) \<and>
         find_by_id rid ds' = Some d' \<and> qd_status d' = target \<and> terminal target \<and>
         qd_claimed_by d' = None \<and> py_strip a \<in> set (action_ids d'))) \<or>
    (r \<noteq> Inr True \<and> ds' = qs_docs s)"
proof (cases "ds' = qs_docs s \<and> r \<noteq> Inr True")
  case False
  then obtain n ev b where own: "owns_claim operator now seen" and n: "days_for policy target = Inr n"
    and aid: "bounded_action_id_opt (Some a) = Inr (Some (py_strip a))"
    and ev: "ev = resolve_event eid target operator action reason (Some (py_strip a)) oc md now (the seen)"
    and w: "update_doc (owner_filter rid operator (Some (py_strip a)) now seen)
        (resolve_update target md (now + days n) (Some (py_strip a)) now ev) (qs_docs s) = (b, ds')"
      "r = Inr b"
    using assms(3)
    by (auto simp: resolve_def bounded_action_id_opt_def bounded_action_id_def Let_def
        split: sum.splits if_splits prod.splits dest!: check_event_Inr)
  let ?up = "resolve_update target md (now + days n) (Some (py_strip a)) now ev"
  have eq: "update_doc (owner_filter rid operator (Some (py_strip a)) now seen) ?up (qs_docs s) =
    (case find_by_id rid (qs_docs s) of
       None \<Rightarrow> (False, qs_docs s)
     | Some d \<Rightarrow>
         if qd_status d = Q_REPROCESSING \<and> qd_claimed_by d = Some operator \<and>
            fresh_action (Some (py_strip a)) d \<and> (\<exists>t. qd_claim_expires_at d = Some t \<and> now < t)
         then (True, update_first (\<lambda>d. qd_id d = rid) ?up (qs_docs s)) else (False, qs_docs s))"
    by (rule owner_write [OF q_reach_inv [OF assms(1)] assms(2) own]) simp
  with w False obtain d t where d: "find_by_id rid (qs_docs s) = Some d" "qd_status d = Q_REPROCESSING"
      "qd_claimed_by d = Some operator" "\<not> used_action (py_strip a) d"
      "qd_claim_expires_at d = Some t" "now < t"
      "b" "ds' = update_first (\<lambda>d. qd_id d = rid) ?up (qs_docs s)"
    by (auto split: option.splits if_splits)
  have "find_by_id rid ds' = Some (?up d)"
    unfolding d(8) by (rule find_after_update [OF d(1)]) (simp add: resolve_update_def)
  moreover have "py_strip a \<in> set (action_ids (?up d))"
    unfolding used_action_iff [symmetric] by (simp add: ev resolve_event_def used_action_def resolve_update_def)
  moreover have "terminal target" using n by (cases target) (simp_all add: terminal_def)
  moreover have "qd_status (?up d) = target" "qd_claimed_by (?up d) = None"
    by (simp_all add: resolve_update_def)
  ultimately show ?thesis using d w(2) by (auto simp: used_action_iff)
qed simp

definition demo_policy :: retention_policy where
  "demo_policy = \<lparr>rp_resolved_days = 90, rp_rejected_days = 365, rp_sanitized_row_days = 30\<rparr>"

definition demo_resolve :: "(q_error + bool) \<times> q_store" where
  "demo_resolve =
     resolve demo_policy ''e2'' ''q1'' Q_RESOLVED ''alice'' QA_REPROCESS ''done'' [] (Some ''a2'') None 2
       (find_by_id ''q1'' (qs_docs demo_claimed)) (qs_docs demo_claimed)"

lemma demo_claimed_read: "may_read demo_claimed ''q1'' (find_by_id ''q1'' (qs_docs demo_claimed))"
proof -
  have "set (qs_docs demo_claimed) \<subseteq> qs_seen demo_claimed"
    using q_reach_inv [OF demo_claimed_reach] by (simp add: q_inv_def)
  then show ?thesis
    by (auto simp: may_read_def find_by_id_def split: option.splits dest: find_Some_set)
qed

lemma demo_resolve_true: "fst demo_resolve = Inr True"
proof -
  have a: "bounded_action_id_opt (Some ''a1'') = Inr (Some ''a1'')"
    "bounded_action_id_opt (Some ''a2'') = Inr (Some ''a2'')"
    "bounded_text ''done'' = ''done''" by code_simp+
  show ?thesis
    by (simp add: demo_resolve_def demo_policy_def resolve_def demo_claimed_def demo_created_docs
        claim_def a find_by_id_def bounded_expiry_def demo_quarantined_def check_event_def
        claim_event_def advance_def find_and_update_doc_def claim_filter_def used_action_def
        claim_update_def seconds_def due_text_def assert_transition_def owns_claim_def
        claim_expired_def resolve_event_def update_doc_def owner_filter_def resolve_update_def)
qed

theorem only_the_live_owner_resolves_witness:
  "\<exists>d'. find_by_id ''q1'' (snd demo_resolve) = Some d' \<and> qd_status d' = Q_RESOLVED \<and>
     qd_claimed_by d' = None"
proof -
  have "resolve demo_policy ''e2'' ''q1'' Q_RESOLVED ''alice'' QA_REPROCESS ''done'' [] (Some ''a2'')
      None 2 (find_by_id ''q1'' (qs_docs demo_claimed)) (qs_docs demo_claimed)
      = (Inr True, snd demo_resolve)"
    using demo_resolve_true by (simp add: demo_resolve_def prod_eq_iff)
  from only_the_live_owner_resolves [OF demo_claimed_reach demo_claimed_read this]
  show ?thesis by auto
qed

end
