(* ===== verification/Quality.thy ===== *)
theory Quality
  imports Prelude "HOL-Library.Product_Lexorder" "HOL-Library.List_Lexorder" "HOL-Library.Char_ord"
    "HOL-Library.Multiset"
begin

text \<open>
  \<open>src/src/domain/ingestion/quality.py\<close> and
  \<open>src/src/application/ingestion/quality_policy.py\<close>: the quality language of ingestion. A rule
  emits violations; an evaluation of a row or a file infers its outcome from them; a summary
  counts outcomes and rule codes and takes one decision; the policy maps the decision to an
  orchestration action.
\<close>

section \<open>Vocabulary\<close>

datatype rule_code =
  QR_REQUIRED_SCHEMA_PATH | QR_MISSING_REQUIRED_SOURCE_COLUMN | QR_SCHEMA_CONFIG_DRIFT
| QR_SOURCE_STRUCTURE_UNREADABLE | QR_CONFIG_VALIDATION | QR_MISSING_REQUIRED_FIELD
| QR_MALFORMED_ROW | QR_INVALID_AMOUNT | QR_NEGATIVE_AMOUNT | QR_INVALID_TIMESTAMP
| QR_INVALID_STATUS | QR_EQUIVALENT_DUPLICATE | QR_CONFLICTING_DUPLICATE

fun rule_code_value :: "rule_code \<Rightarrow> string" where
  "rule_code_value QR_REQUIRED_SCHEMA_PATH = ''REQUIRED_SCHEMA_PATH''"
| "rule_code_value QR_MISSING_REQUIRED_SOURCE_COLUMN = ''MISSING_REQUIRED_SOURCE_COLUMN''"
| "rule_code_value QR_SCHEMA_CONFIG_DRIFT = ''SCHEMA_CONFIG_DRIFT''"
| "rule_code_value QR_SOURCE_STRUCTURE_UNREADABLE = ''SOURCE_STRUCTURE_UNREADABLE''"
| "rule_code_value QR_CONFIG_VALIDATION = ''CONFIG_VALIDATION''"
| "rule_code_value QR_MISSING_REQUIRED_FIELD = ''MISSING_REQUIRED_FIELD''"
| "rule_code_value QR_MALFORMED_ROW = ''MALFORMED_ROW''"
| "rule_code_value QR_INVALID_AMOUNT = ''INVALID_AMOUNT''"
| "rule_code_value QR_NEGATIVE_AMOUNT = ''NEGATIVE_AMOUNT''"
| "rule_code_value QR_INVALID_TIMESTAMP = ''INVALID_TIMESTAMP''"
| "rule_code_value QR_INVALID_STATUS = ''INVALID_STATUS''"
| "rule_code_value QR_EQUIVALENT_DUPLICATE = ''EQUIVALENT_DUPLICATE''"
| "rule_code_value QR_CONFLICTING_DUPLICATE = ''CONFLICTING_DUPLICATE''"

datatype quality_phase = QP_CONFIGURATION | QP_FILE | QP_NORMALIZATION | QP_VALIDATION | QP_PERSISTENCE

fun phase_value :: "quality_phase \<Rightarrow> string" where
  "phase_value QP_CONFIGURATION = ''CONFIGURATION''"
| "phase_value QP_FILE = ''FILE''"
| "phase_value QP_NORMALIZATION = ''NORMALIZATION''"
| "phase_value QP_VALIDATION = ''VALIDATION''"
| "phase_value QP_PERSISTENCE = ''PERSISTENCE''"

datatype severity = QS_INFO | QS_WARNING | QS_ERROR | QS_FATAL

fun severity_value :: "severity \<Rightarrow> string" where
  "severity_value QS_INFO = ''INFO''"
| "severity_value QS_WARNING = ''WARNING''"
| "severity_value QS_ERROR = ''ERROR''"
| "severity_value QS_FATAL = ''FATAL''"

datatype outcome =
  QO_VALID | QO_WARNING | QO_REJECT | QO_EQUIVALENT_DUPLICATE | QO_CONFLICTING_DUPLICATE
| QO_BATCH_FATAL

fun outcome_value :: "outcome \<Rightarrow> string" where
  "outcome_value QO_VALID = ''VALID''"
| "outcome_value QO_WARNING = ''WARNING''"
| "outcome_value QO_REJECT = ''REJECT''"
| "outcome_value QO_EQUIVALENT_DUPLICATE = ''EQUIVALENT_DUPLICATE''"
| "outcome_value QO_CONFLICTING_DUPLICATE = ''CONFLICTING_DUPLICATE''"
| "outcome_value QO_BATCH_FATAL = ''BATCH_FATAL''"

datatype decision = QD_PASS | QD_REVIEW | QD_FAIL

datatype action = OA_CONTINUE | OA_HOLD_FOR_REVIEW | OA_FAIL

lemma rule_code_value_inj [simp]: "rule_code_value a = rule_code_value b \<longleftrightarrow> a = b"
  by (cases a; cases b) simp_all

lemma outcome_value_inj [simp]: "outcome_value a = outcome_value b \<longleftrightarrow> a = b"
  by (cases a; cases b) simp_all

record violation =
  qv_code :: rule_code
  qv_phase :: quality_phase
  qv_severity :: severity
  qv_outcome :: outcome
  qv_field :: "string option"
  qv_message :: string
  qv_expected :: pyval
  qv_actual :: pyval
  qv_row :: "int option"
  qv_trace :: "string option"
  qv_config_version :: "string option"

text \<open>\<open>QualityViolation()\<close> with its defaults.\<close>

definition default_violation :: violation where
  "default_violation =
     \<lparr>qv_code = QR_MALFORMED_ROW, qv_phase = QP_NORMALIZATION, qv_severity = QS_ERROR,
      qv_outcome = QO_REJECT, qv_field = None, qv_message = ''Quality validation failed.'',
      qv_expected = VNone, qv_actual = VNone, qv_row = None, qv_trace = None,
      qv_config_version = None\<rparr>"

section \<open>Evaluations\<close>

text \<open>The model validator \<open>infer_outcome\<close>, from the declared outcome and the violations.\<close>

definition infer_outcome :: "outcome \<Rightarrow> violation list \<Rightarrow> outcome" where
  "infer_outcome declared vs =
     (if vs = [] then declared
      else if (\<exists>v \<in> set vs. qv_outcome v = QO_BATCH_FATAL \<or> qv_severity v = QS_FATAL) \<or>
              declared = QO_BATCH_FATAL then QO_BATCH_FATAL
      else if (\<exists>v \<in> set vs. qv_outcome v = QO_CONFLICTING_DUPLICATE) \<or>
              declared = QO_CONFLICTING_DUPLICATE then QO_CONFLICTING_DUPLICATE
      else if declared = QO_REJECT \<or> (\<exists>v \<in> set vs. qv_outcome v = QO_REJECT) then QO_REJECT
      else if declared = QO_WARNING \<or>
              (\<exists>v \<in> set vs. qv_outcome v = QO_WARNING \<or> qv_severity v = QS_WARNING)
        then QO_WARNING
      else if declared = QO_EQUIVALENT_DUPLICATE \<or>
              (\<forall>v \<in> set vs. qv_outcome v = QO_EQUIVALENT_DUPLICATE) then QO_EQUIVALENT_DUPLICATE
      else QO_REJECT)"

record evaluation =
  qe_outcome :: outcome
  qe_violations :: "violation list"
  qe_row_context :: pydict

definition make_evaluation :: "outcome \<Rightarrow> violation list \<Rightarrow> pydict \<Rightarrow> evaluation" where
  "make_evaluation declared vs ctx =
     \<lparr>qe_outcome = infer_outcome declared vs, qe_violations = vs, qe_row_context = ctx\<rparr>"

definition valid_outcome :: "outcome \<Rightarrow> bool" where
  "valid_outcome oc \<longleftrightarrow> oc \<in> {QO_VALID, QO_WARNING, QO_EQUIVALENT_DUPLICATE}"

section \<open>Counters\<close>

text \<open>A \<open>dict[str, int]\<close> in insertion order; \<open>Counter\<close> reads a missing key as zero.\<close>

type_synonym counter = "(string \<times> nat) list"

definition cget :: "counter \<Rightarrow> string \<Rightarrow> nat" where
  "cget c k = (case map_of c k of None \<Rightarrow> 0 | Some n \<Rightarrow> n)"

fun cinc :: "counter \<Rightarrow> string \<Rightarrow> counter" where
  "cinc [] k = [(k, 1)]"
| "cinc ((k', n) # c) k = (if k' = k then (k', n + 1) # c else (k', n) # cinc c k)"

definition count_all :: "counter \<Rightarrow> string list \<Rightarrow> counter" where
  "count_all c ks = foldl cinc c ks"

lemma cget_cinc [simp]: "cget (cinc c k) k' = cget c k' + (if k' = k then 1 else 0)"
  by (induction c k rule: cinc.induct) (auto simp: cget_def)

lemma set_cinc [simp]: "fst ` set (cinc c k) = insert k (fst ` set c)"
  by (induction c k rule: cinc.induct) auto

lemma distinct_cinc [simp]: "distinct (map fst c) \<Longrightarrow> distinct (map fst (cinc c k))"
proof (induction c k rule: cinc.induct)
  case (2 k' n c k)
  then show ?case using set_cinc [of c k] by auto
qed simp

lemma cinc_pos: "(\<And>k n. (k, n) \<in> set c \<Longrightarrow> 0 < n) \<Longrightarrow> (k', n') \<in> set (cinc c k) \<Longrightarrow> 0 < n'"
  by (induction c k rule: cinc.induct) (auto split: if_splits)

lemma count_all_simps [simp]:
  "count_all c [] = c" "count_all c (k # ks) = count_all (cinc c k) ks"
  "count_all c (ks @ ls) = count_all (count_all c ks) ls"
  by (simp_all add: count_all_def)

lemma cget_count_all: "cget (count_all c ks) k = cget c k + count_list ks k"
  by (induction ks arbitrary: c) auto

lemma cget_Nil [simp]: "cget [] k = 0"
  by (simp add: cget_def)

lemma distinct_count_all: "distinct (map fst c) \<Longrightarrow> distinct (map fst (count_all c ks))"
  by (induction ks arbitrary: c) auto

lemma set_count_all: "fst ` set (count_all c ks) = fst ` set c \<union> set ks"
  by (induction ks arbitrary: c) auto

lemma count_all_pos:
  "(\<And>k n. (k, n) \<in> set c \<Longrightarrow> 0 < n) \<Longrightarrow> (k, n) \<in> set (count_all c ks) \<Longrightarrow> 0 < n"
proof (induction ks arbitrary: c)
  case (Cons x ks)
  have "\<And>k n. (k, n) \<in> set (cinc c x) \<Longrightarrow> 0 < n" using cinc_pos Cons.prems(1) by blast
  from Cons.IH [OF this] Cons.prems(2) show ?case by simp
qed simp

lemma in_counter_iff:
  assumes "distinct (map fst c)"
  shows "(k, n) \<in> set c \<longleftrightarrow> k \<in> fst ` set c \<and> n = cget c k"
proof (cases "map_of c k")
  case None
  then show ?thesis by (force simp: map_of_eq_None_iff)
next
  case (Some m)
  then have "(k, m) \<in> set c" by (rule map_of_SomeD)
  moreover have "n = m" if "(k, n) \<in> set c"
    using map_of_is_SomeI [OF assms that] Some by simp
  ultimately show ?thesis by (auto simp: cget_def Some intro: rev_image_eqI)
qed

section \<open>Summaries\<close>

record summary =
  qm_decision :: decision
  qm_rule_counts :: counter
  qm_outcome_counts :: counter
  qm_top_rule_codes :: "string list"

definition decision_of :: "counter \<Rightarrow> counter \<Rightarrow> decision" where
  "decision_of rules outcomes =
     (if 0 < cget outcomes (outcome_value QO_BATCH_FATAL) then QD_FAIL
      else if 0 < cget rules (rule_code_value QR_CONFLICTING_DUPLICATE) \<or>
              0 < cget outcomes (outcome_value QO_REJECT) \<or>
              0 < cget outcomes (outcome_value QO_WARNING) \<or>
              0 < cget outcomes (outcome_value QO_CONFLICTING_DUPLICATE) then QD_REVIEW
      else QD_PASS)"

definition top_rule_codes :: "counter \<Rightarrow> string list" where
  "top_rule_codes rules = take 10 (map fst (sort_key (\<lambda>e. (- int (snd e), fst e)) rules))"

definition from_counts :: "counter \<Rightarrow> counter \<Rightarrow> summary" where
  "from_counts rules outcomes =
     \<lparr>qm_decision = decision_of rules outcomes, qm_rule_counts = rules,
      qm_outcome_counts = outcomes, qm_top_rule_codes = top_rule_codes rules\<rparr>"

definition evaluation_outcomes :: "evaluation list \<Rightarrow> string list" where
  "evaluation_outcomes es = map (\<lambda>e. outcome_value (qe_outcome e)) es"

definition evaluation_codes :: "evaluation list \<Rightarrow> string list" where
  "evaluation_codes es =
     concat (map (\<lambda>e. map (\<lambda>v. rule_code_value (qv_code v)) (qe_violations e)) es)"

definition from_evaluations :: "evaluation list \<Rightarrow> summary" where
  "from_evaluations es =
     from_counts (count_all [] (evaluation_codes es)) (count_all [] (evaluation_outcomes es))"

definition from_violations :: "violation list \<Rightarrow> outcome option \<Rightarrow> summary" where
  "from_violations vs oc =
     (if vs = []
      then \<lparr>qm_decision = QD_PASS, qm_rule_counts = [], qm_outcome_counts = [],
            qm_top_rule_codes = []\<rparr>
      else from_evaluations
             [make_evaluation (case oc of None \<Rightarrow> QO_VALID | Some x \<Rightarrow> x) vs []])"

definition evaluation_decision :: "evaluation \<Rightarrow> decision" where
  "evaluation_decision e = qm_decision (from_evaluations [e])"

text \<open>\<open>orchestration_action_for\<close>\<close>

definition orchestration_action_for :: "summary \<Rightarrow> action" where
  "orchestration_action_for m =
     (if qm_decision m = QD_FAIL then OA_FAIL
      else if cget (qm_rule_counts m) (rule_code_value QR_CONFLICTING_DUPLICATE) \<noteq> 0 \<or>
              cget (qm_outcome_counts m) (outcome_value QO_CONFLICTING_DUPLICATE) \<noteq> 0
        then OA_HOLD_FOR_REVIEW
      else OA_CONTINUE)"

section \<open>The decision without counters\<close>

text \<open>The specification: the worst outcome seen decides.\<close>

definition worst_decision :: "evaluation list \<Rightarrow> decision" where
  "worst_decision es =
     (if \<exists>e \<in> set es. qe_outcome e = QO_BATCH_FATAL then QD_FAIL
      else if \<exists>e \<in> set es. qe_outcome e \<in> {QO_REJECT, QO_WARNING, QO_CONFLICTING_DUPLICATE} \<or>
                (\<exists>v \<in> set (qe_violations e). qv_code v = QR_CONFLICTING_DUPLICATE) then QD_REVIEW
      else QD_PASS)"

lemma count_pos_outcome:
  "0 < count_list (evaluation_outcomes es) (outcome_value oc) \<longleftrightarrow> (\<exists>e \<in> set es. qe_outcome e = oc)"
  by (induction es) (auto simp: evaluation_outcomes_def)

lemma count_pos_code:
  "0 < count_list (evaluation_codes es) (rule_code_value rc) \<longleftrightarrow>
     (\<exists>e \<in> set es. \<exists>v \<in> set (qe_violations e). qv_code v = rc)"
proof -
  have "0 < count_list xs x \<longleftrightarrow> x \<in> set xs" for xs :: "string list" and x
    by (metis count_list_0_iff gr0I less_numeral_extra(3))
  then show ?thesis by (auto simp: evaluation_codes_def image_iff)
qed

lemma decision_from_evaluations:
  "qm_decision (from_evaluations es) = worst_decision es"
  unfolding from_evaluations_def from_counts_def decision_of_def worst_decision_def
  by (simp add: cget_count_all count_pos_outcome count_pos_code del: rule_code_value.simps
      outcome_value.simps)

lemma action_from_evaluations:
  "orchestration_action_for (from_evaluations es) =
     (if \<exists>e \<in> set es. qe_outcome e = QO_BATCH_FATAL then OA_FAIL
      else if \<exists>e \<in> set es. qe_outcome e = QO_CONFLICTING_DUPLICATE \<or>
                (\<exists>v \<in> set (qe_violations e). qv_code v = QR_CONFLICTING_DUPLICATE)
        then OA_HOLD_FOR_REVIEW
      else OA_CONTINUE)"
proof -
  have "cget (qm_rule_counts (from_evaluations es)) (rule_code_value QR_CONFLICTING_DUPLICATE) \<noteq> 0
      \<longleftrightarrow> (\<exists>e \<in> set es. \<exists>v \<in> set (qe_violations e). qv_code v = QR_CONFLICTING_DUPLICATE)"
    using count_pos_code [of es QR_CONFLICTING_DUPLICATE]
    by (simp add: from_evaluations_def from_counts_def cget_count_all del: rule_code_value.simps)
  moreover have "cget (qm_outcome_counts (from_evaluations es))
        (outcome_value QO_CONFLICTING_DUPLICATE) \<noteq> 0
      \<longleftrightarrow> (\<exists>e \<in> set es. qe_outcome e = QO_CONFLICTING_DUPLICATE)"
    using count_pos_outcome [of es QO_CONFLICTING_DUPLICATE]
    by (simp add: from_evaluations_def from_counts_def cget_count_all del: outcome_value.simps)
  ultimately show ?thesis
    by (auto simp: orchestration_action_for_def decision_from_evaluations worst_decision_def
        simp del: rule_code_value.simps outcome_value.simps)
qed


section \<open>Order of evaluations\<close>

lemma counter_eq_mset:
  assumes "distinct (map fst c)" and "distinct (map fst d)" and "\<And>k. cget c k = cget d k"
    and "fst ` set c = fst ` set d"
  shows "mset c = mset d"
proof -
  have "set c = set d"
    using in_counter_iff [OF assms(1)] in_counter_iff [OF assms(2)] assms(3,4) by auto
  moreover have "distinct c" "distinct d" using assms(1,2) by (auto simp: distinct_map)
  ultimately show ?thesis by (simp add: set_eq_iff_mset_eq_distinct)
qed

lemma top_rule_codes_mset:
  assumes "mset c = mset d" and "distinct (map fst c)"
  shows "top_rule_codes c = top_rule_codes d"
proof -
  let ?f = "\<lambda>e :: string \<times> nat. (- int (snd e), fst e)"
  have "inj_on ?f (set c)" by (auto simp: inj_on_def)
  then have "sort_key ?f c = sort_key ?f d"
    using assms(1) by (intro sort_key_inj_key_eq) simp_all
  then show ?thesis by (simp add: top_rule_codes_def)
qed

lemma count_all_mset:
  assumes "mset ks = mset ls"
  shows "mset (count_all [] ks) = mset (count_all [] ls)"
proof (rule counter_eq_mset)
  show "distinct (map fst (count_all [] ks))" "distinct (map fst (count_all [] ls))"
    by (simp_all add: distinct_count_all)
  show "cget (count_all [] ks) k = cget (count_all [] ls) k" for k
    using assms by (simp add: cget_count_all flip: count_mset)
  show "fst ` set (count_all [] ks) = fst ` set (count_all [] ls)"
    using assms by (simp add: set_count_all) (metis set_mset_mset)
qed

lemma evaluation_mset:
  assumes "mset es = mset fs"
  shows "mset (evaluation_outcomes es) = mset (evaluation_outcomes fs)"
    and "mset (evaluation_codes es) = mset (evaluation_codes fs)"
proof -
  show "mset (evaluation_outcomes es) = mset (evaluation_outcomes fs)"
    using assms by (simp add: evaluation_outcomes_def)
  have "mset (evaluation_codes xs)
      = \<Sum>\<^sub># (image_mset (\<lambda>e. mset (map (\<lambda>v. rule_code_value (qv_code v)) (qe_violations e))) (mset xs))"
    for xs by (induction xs) (simp_all add: evaluation_codes_def)
  then show "mset (evaluation_codes es) = mset (evaluation_codes fs)" using assms by simp
qed

lemma top_rule_codes_sorted:
  "sorted_wrt (\<lambda>a b. cget c b \<le> cget c a) (top_rule_codes c)"
  if "distinct (map fst c)"
proof -
  let ?f = "\<lambda>e :: string \<times> nat. (- int (snd e), fst e)"
  have "sorted_wrt (\<lambda>x y. ?f x \<le> ?f y) (sort_key ?f c)"
    using sorted_sort_key [of ?f c] by (simp add: sorted_map)
  then have s: "sorted_wrt (\<lambda>x y. snd y \<le> snd x) (sort_key ?f c)"
    by (rule sorted_wrt_mono_rel [rotated]) (auto simp: less_eq_prod_def)
  have key: "snd x = cget c (fst x)" if "x \<in> set c" for x
    using in_counter_iff [OF \<open>distinct (map fst c)\<close>, of "fst x" "snd x"] that by simp
  from s have "sorted_wrt (\<lambda>x y. cget c (fst y) \<le> cget c (fst x)) (sort_key ?f c)"
    by (rule sorted_wrt_mono_rel [rotated]) (simp add: key)
  then show ?thesis
    by (simp add: top_rule_codes_def sorted_wrt_map sorted_wrt_take flip: take_map)
qed

section \<open>Properties\<close>

text \<open>The quality decision of a set of evaluations is that of its worst outcome: FAIL as soon
  as one is BATCH_FATAL, REVIEW when there is none but some row was rejected, carried a warning or
  is a conflicting duplicate, and PASS otherwise; the orchestration action is FAIL, then
  HOLD_FOR_REVIEW for a conflicting duplicate, then CONTINUE.\<close>

theorem decision_is_the_worst_outcome:
  "qm_decision (from_evaluations es) = worst_decision es \<and>
   orchestration_action_for (from_evaluations es) =
     (if \<exists>e \<in> set es. qe_outcome e = QO_BATCH_FATAL then OA_FAIL
      else if \<exists>e \<in> set es. qe_outcome e = QO_CONFLICTING_DUPLICATE \<or>
                (\<exists>v \<in> set (qe_violations e). qv_code v = QR_CONFLICTING_DUPLICATE)
        then OA_HOLD_FOR_REVIEW
      else OA_CONTINUE)"
  by (simp only: decision_from_evaluations action_from_evaluations simp_thms)

text \<open>A summary does not depend on the order of the evaluations: any permutation of them has
  the same decision, the same orchestration action, the same count for every rule and outcome and
  the same top rule codes; there are at most ten of those, ordered by falling count.\<close>

theorem summary_ignores_order:
  assumes "mset es = mset fs"
  shows "qm_decision (from_evaluations es) = qm_decision (from_evaluations fs) \<and>
    orchestration_action_for (from_evaluations es) = orchestration_action_for (from_evaluations fs) \<and>
    (\<forall>k. cget (qm_rule_counts (from_evaluations es)) k = cget (qm_rule_counts (from_evaluations fs)) k) \<and>
    qm_top_rule_codes (from_evaluations es) = qm_top_rule_codes (from_evaluations fs) \<and>
    length (qm_top_rule_codes (from_evaluations es)) \<le> 10 \<and>
    sorted_wrt (\<lambda>a b. cget (qm_rule_counts (from_evaluations es)) b
                      \<le> cget (qm_rule_counts (from_evaluations es)) a)
      (qm_top_rule_codes (from_evaluations es))"
proof -
  note m = evaluation_mset [OF assms]
  have "cget (count_all [] (evaluation_codes es)) k = cget (count_all [] (evaluation_codes fs)) k"
    "cget (count_all [] (evaluation_outcomes es)) k = cget (count_all [] (evaluation_outcomes fs)) k"
    for k using m by (simp_all add: cget_count_all flip: count_mset)
  moreover have "top_rule_codes (count_all [] (evaluation_codes es))
      = top_rule_codes (count_all [] (evaluation_codes fs))"
    using count_all_mset [OF m(2)] by (intro top_rule_codes_mset) (simp_all add: distinct_count_all)
  moreover have "sorted_wrt (\<lambda>a b. cget (count_all [] (evaluation_codes es)) b
                      \<le> cget (count_all [] (evaluation_codes es)) a)
      (top_rule_codes (count_all [] (evaluation_codes es)))"
    by (rule top_rule_codes_sorted) (simp add: distinct_count_all)
  moreover have "length (top_rule_codes c) \<le> 10" for c by (simp add: top_rule_codes_def)
  ultimately show ?thesis
    by (simp add: from_evaluations_def from_counts_def decision_of_def orchestration_action_for_def)
qed

theorem summary_ignores_order_witness:
  "qm_decision (from_evaluations
      [make_evaluation QO_VALID [default_violation] [], make_evaluation QO_VALID [] []])
    = qm_decision (from_evaluations
      [make_evaluation QO_VALID [] [], make_evaluation QO_VALID [default_violation] []])"
  using summary_ignores_order
    [of "[make_evaluation QO_VALID [default_violation] [], make_evaluation QO_VALID [] []]"
        "[make_evaluation QO_VALID [] [], make_evaluation QO_VALID [default_violation] []]"]
  by simp

text \<open>\<open>infer_outcome\<close> fails closed. It is idempotent; an evaluation with violations is never
  VALID; and the outcome counts as valid only when no violation is fatal, rejecting or a
  conflicting duplicate and the declared outcome was not either.\<close>

theorem infer_outcome_fails_closed:
  "infer_outcome (infer_outcome oc vs) vs = infer_outcome oc vs \<and>
   (vs = [] \<or> infer_outcome oc vs \<noteq> QO_VALID) \<and>
   (valid_outcome (infer_outcome oc vs) =
     (valid_outcome oc \<and>
      \<not> (\<exists>v \<in> set vs. qv_severity v = QS_FATAL \<or>
            qv_outcome v \<in> {QO_BATCH_FATAL, QO_CONFLICTING_DUPLICATE, QO_REJECT}) \<and>
      (vs = [] \<or> oc \<noteq> QO_VALID \<or>
       (\<exists>v \<in> set vs. qv_outcome v = QO_WARNING \<or> qv_severity v = QS_WARNING) \<or>
       \<not> (\<exists>v \<in> set vs. qv_outcome v \<noteq> QO_EQUIVALENT_DUPLICATE))))"
  by (cases oc) (auto simp: infer_outcome_def valid_outcome_def)

theorem infer_outcome_fails_closed_witness:
  "infer_outcome QO_VALID [default_violation] \<noteq> QO_VALID \<and>
   \<not> valid_outcome (infer_outcome QO_VALID [default_violation])"
  using infer_outcome_fails_closed [of QO_VALID "[default_violation]"]
  by (simp add: default_violation_def)

end
