(* ===== verification/PartnerStore.thy ===== *)
theory PartnerStore
  imports Quality
begin

text \<open>
  \<open>src/src/domain/partner_transaction/duplicates.py\<close> and the batch write of
  \<open>src/src/infrastructure/partner_transaction/repository.py\<close>: the partner transactions keyed
  by \<open>(identify, ingestion_key)\<close>, the conflict-safe insert of a batch, and the classification
  of every row that was not inserted as an equivalent or a conflicting duplicate by comparing
  payload fingerprints.
\<close>

section \<open>Amounts\<close>

text \<open>
  \<open>normalize\<close> strips the trailing zeros of a decimal (amounts have fewer digits than the context
  precision of 28).
\<close>

fun nat_text :: "nat \<Rightarrow> string" where
  "nat_text n = (if n < 10 then [char_of (48 + n)]
                 else nat_text (n div 10) @ [char_of (48 + n mod 10)])"

declare nat_text.simps [simp del]

fun strip_zeros :: "nat \<Rightarrow> int \<Rightarrow> nat \<times> int" where
  "strip_zeros n e = (if n \<noteq> 0 \<and> n mod 10 = 0 then strip_zeros (n div 10) (e + 1) else (n, e))"

declare strip_zeros.simps [simp del]

text \<open>\<open>format(value, "f")\<close> of a positive coefficient and an exponent.\<close>

definition fixed_text :: "nat \<Rightarrow> int \<Rightarrow> string" where
  "fixed_text n e =
     (if 0 \<le> e then nat_text n @ replicate (nat e) (CHR ''0'')
      else let k = nat (- e); ds = nat_text n;
               padded = replicate (k + 1 - length ds) (CHR ''0'') @ ds
           in take (length padded - k) padded @ ''.'' @ drop (length padded - k) padded)"

definition normalized_decimal :: "decimal \<Rightarrow> string" where
  "normalized_decimal d =
     (if d_coeff d = 0 then ''0''
      else let (n, e) = strip_zeros (nat \<bar>d_coeff d\<bar>) (d_exp d)
           in (if d_coeff d < 0 then ''-'' else []) @ fixed_text n e)"

text \<open>A \<open>NUMERIC(20, 4)\<close> column rounds half away from zero to four places.\<close>

definition round_half_up :: "int \<Rightarrow> int \<Rightarrow> int" where
  "round_half_up n m = (if 0 \<le> n then (2 * n + m) div (2 * m) else - ((2 * (- n) + m) div (2 * m)))"

definition numeric_20_4 :: "decimal \<Rightarrow> decimal" where
  "numeric_20_4 d =
     (if - 4 \<le> d_exp d then Decimal (d_coeff d * 10 ^ nat (d_exp d + 4)) (- 4)
      else Decimal (round_half_up (d_coeff d) (10 ^ nat (- 4 - d_exp d))) (- 4))"

lemma strip_zeros_step: "n \<noteq> 0 \<Longrightarrow> strip_zeros (n * 10) e = strip_zeros n (e + 1)"
  by (subst strip_zeros.simps) simp

lemma strip_zeros_scale: "n \<noteq> 0 \<Longrightarrow> strip_zeros (n * 10 ^ k) e = strip_zeros n (e + int k)"
proof (induction k arbitrary: e)
  case (Suc k)
  have "strip_zeros (n * 10 ^ Suc k) e = strip_zeros (n * 10 ^ k * 10) e"
    by (simp add: algebra_simps)
  also have "\<dots> = strip_zeros n (e + 1 + int k)"
    using Suc strip_zeros_step [of "n * 10 ^ k" e] by simp
  finally show ?case by (simp add: algebra_simps)
qed simp

lemma normalized_decimal_scale:
  "normalized_decimal (Decimal (c * 10 ^ k) (e - int k)) = normalized_decimal (Decimal c e)"
proof (cases "c = 0")
  case False
  have "nat \<bar>c * 10 ^ k\<bar> = nat \<bar>c\<bar> * 10 ^ k"
    by (simp add: abs_mult nat_mult_distrib nat_power_eq)
  moreover have "c * 10 ^ k < 0 \<longleftrightarrow> c < 0" by (simp add: mult_less_0_iff)
  ultimately show ?thesis
    using False strip_zeros_scale [of "nat \<bar>c\<bar>" k "e - int k"]
    by (simp add: normalized_decimal_def)
qed (simp add: normalized_decimal_def)

text \<open>An amount with at most four decimals keeps its text when it is stored.\<close>

lemma normalized_decimal_stored:
  assumes "- 4 \<le> d_exp d"
  shows "normalized_decimal (numeric_20_4 d) = normalized_decimal d"
proof -
  obtain c e where d: "d = Decimal c e" by (cases d)
  then have "normalized_decimal (Decimal (c * 10 ^ nat (e + 4)) (- 4)) = normalized_decimal d"
    using assms normalized_decimal_scale [of c "nat (e + 4)" e] by simp
  with assms d show ?thesis by (simp only: numeric_20_4_def if_True decimal.sel)
qed

section \<open>Rows and fingerprints\<close>

record partner_row =
  pr_id :: uuid
  pr_request_id :: uuid
  pr_identify :: string
  pr_workflow_type :: string
  pr_reconciliation_date :: datetime
  pr_operation_status :: string
  pr_reconciliation_status :: string
  pr_connector_data :: string
  pr_extra_data :: string
  pr_source_file_id :: uuid
  pr_ingestion_key :: string
  pr_partner_id :: string
  pr_partner_trace :: "string option"
  pr_partner_status :: string
  pr_partner_amount :: decimal
  pr_partner_currency :: string
  pr_partner_trans_date :: "datetime option"
  pr_timestamp_basis :: string
  pr_partner_metadata :: pydict
  pr_created_by :: string
  pr_created_date :: datetime
  pr_last_modified_by :: string
  pr_last_modified_date :: datetime

type_synonym row_key = "string \<times> string"

definition row_key :: "partner_row \<Rightarrow> row_key" where
  "row_key r = (pr_identify r, pr_ingestion_key r)"

text \<open>
  \<open>isofmt\<close> is \<open>datetime.isoformat\<close> in UTC with microseconds, \<open>dumps\<close> the canonical
  \<open>json.dumps\<close> and \<open>sha\<close> the SHA-256 hex digest.
\<close>

record hashing =
  hs_iso :: "datetime \<Rightarrow> string"
  hs_dumps :: "pyval \<Rightarrow> string"
  hs_sha :: "string \<Rightarrow> string"

fun canonical_metadata :: "(datetime \<Rightarrow> string) \<Rightarrow> pyval \<Rightarrow> pyval" where
  "canonical_metadata isofmt (VDecimal d) = VStr (normalized_decimal d)"
| "canonical_metadata isofmt (VTime t) = VStr (isofmt t)"
| "canonical_metadata isofmt (VNaive t) = VStr (isofmt t)"
| "canonical_metadata isofmt (VDict d) =
     VDict (sort_key fst (map (\<lambda>e. (fst e, canonical_metadata isofmt (snd e))) d))"
| "canonical_metadata isofmt (VList xs) = VList (map (canonical_metadata isofmt) xs)"
| "canonical_metadata isofmt v = v"

definition canonical_payload :: "(datetime \<Rightarrow> string) \<Rightarrow> partner_row \<Rightarrow> pyval" where
  "canonical_payload isofmt r =
     VDict
       [(''partner_id'', VStr (pr_partner_id r)),
        (''partner_trace'', case pr_partner_trace r of None \<Rightarrow> VNone | Some t \<Rightarrow> VStr t),
        (''partner_status'', VStr (pr_partner_status r)),
        (''amount'', VStr (normalized_decimal (pr_partner_amount r))),
        (''currency'', VStr (pr_partner_currency r)),
        (''transDate'', case pr_partner_trans_date r of None \<Rightarrow> VNone | Some t \<Rightarrow> VStr (isofmt t)),
        (''metadata'', canonical_metadata isofmt (VDict (pr_partner_metadata r)))]"

definition fingerprint_payload :: "hashing \<Rightarrow> partner_row \<Rightarrow> string" where
  "fingerprint_payload h r = hs_sha h (hs_dumps h (canonical_payload (hs_iso h) r))"

text \<open>
  \<open>json.dumps\<close> of the metadata when a row becomes a tuple of the staging table: it raises
  \<open>TypeError\<close> on a decimal or a \<open>datetime\<close> anywhere in the value.
\<close>

fun is_json :: "pyval \<Rightarrow> bool" where
  "is_json (VTime _) = False"
| "is_json (VNaive _) = False"
| "is_json (VDecimal _) = False"
| "is_json (VList xs) = list_all is_json xs"
| "is_json (VDict d) = list_all (\<lambda>e. is_json (snd e)) d"
| "is_json _ = True"

definition row_json :: "partner_row \<Rightarrow> bool" where
  "row_json r \<longleftrightarrow> is_json (VDict (pr_partner_metadata r))"

section \<open>Batch results\<close>

record duplicate_detail =
  dd_identify :: string
  dd_ingestion_key :: string
  dd_duplicate_type :: rule_code
  dd_incoming_index :: nat
  dd_incoming_fingerprint :: string
  dd_existing_fingerprint :: string
  dd_partner_id :: "string option"
  dd_partner_trace :: "string option"
  dd_row_context :: pydict

record batch_result =
  br_inserted :: nat
  br_duplicates :: nat
  br_equivalent_duplicates :: nat
  br_conflicting_duplicates :: nat
  br_failed :: nat
  br_duplicate_details :: "duplicate_detail list"

datatype batch_error = Bad_Metadata | Bad_Accounting | Bad_Type_Counts | Bad_Indexes

definition attempted :: "batch_result \<Rightarrow> nat" where
  "attempted b = br_inserted b + br_duplicates b + br_failed b"

definition count_type :: "rule_code \<Rightarrow> duplicate_detail list \<Rightarrow> nat" where
  "count_type rc ds = length (filter (\<lambda>d. dd_duplicate_type d = rc) ds)"

text \<open>The model validator \<open>validate_duplicate_accounting\<close>.\<close>

definition validate_accounting :: "batch_result \<Rightarrow> batch_error + batch_result" where
  "validate_accounting b =
     (let ds = br_duplicate_details b; idx = map dd_incoming_index ds
      in if br_equivalent_duplicates b + br_conflicting_duplicates b \<noteq> br_duplicates b \<or>
            length ds \<noteq> br_duplicates b then Inl Bad_Accounting
         else if count_type QR_EQUIVALENT_DUPLICATE ds \<noteq> br_equivalent_duplicates b \<or>
                 count_type QR_CONFLICTING_DUPLICATE ds \<noteq> br_conflicting_duplicates b
           then Inl Bad_Type_Counts
         else if length (remdups idx) \<noteq> length idx \<or> (\<exists>i \<in> set idx. attempted b \<le> i)
           then Inl Bad_Indexes
         else Inr b)"

section \<open>The conflict-safe insert\<close>

type_synonym partner_table = "partner_row list"

definition store_row :: "partner_row \<Rightarrow> partner_row" where
  "store_row r = r\<lparr>pr_partner_amount := numeric_20_4 (pr_partner_amount r)\<rparr>"

text \<open>\<open>INSERT ... ORDER BY incoming_ordinal ON CONFLICT DO NOTHING RETURNING\<close>\<close>

fun insert_new :: "partner_table \<Rightarrow> partner_row list \<Rightarrow> partner_table \<times> row_key list" where
  "insert_new t [] = (t, [])"
| "insert_new t (r # rs) =
     (if row_key r \<in> row_key ` set t then insert_new t rs
      else let (t', ks) = insert_new (t @ [store_row r]) rs in (t', row_key r # ks))"

text \<open>
  The rows of the classification query: the keys of the batch that were not all inserted,
  with the number (0 or 1) of rows inserted for the key.
\<close>

definition conflict_counts :: "partner_row list \<Rightarrow> row_key list \<Rightarrow> (row_key \<times> nat) list" where
  "conflict_counts rs ks =
     filter (\<lambda>(k, n). n < length (filter (\<lambda>r. row_key r = k) rs))
       (map (\<lambda>k. (k, if k \<in> set ks then 1 else 0)) (remdups (map row_key rs)))"

definition insert_rows_conflict_safe ::
  "partner_row list \<Rightarrow> partner_table \<Rightarrow> (nat \<times> (row_key \<times> nat) list) \<times> partner_table" where
  "insert_rows_conflict_safe rs t =
     (let (t', ks) = insert_new t rs in ((length ks, conflict_counts rs ks), t'))"

definition find_key :: "partner_table \<Rightarrow> row_key \<Rightarrow> partner_row option" where
  "find_key t k = List.find (\<lambda>r. row_key r = k) t"

text \<open>The rows of one key that were not inserted, with their positions in the batch.\<close>

definition incoming_of :: "row_key \<Rightarrow> partner_row list \<Rightarrow> (nat \<times> partner_row) list" where
  "incoming_of k rs = filter (\<lambda>e. row_key (snd e) = k) (List.enumerate 0 rs)"

definition duplicate_detail_of ::
  "hashing \<Rightarrow> partner_row \<Rightarrow> nat \<times> partner_row \<Rightarrow> duplicate_detail" where
  "duplicate_detail_of h existing e =
     \<lparr>dd_identify = pr_identify (snd e), dd_ingestion_key = pr_ingestion_key (snd e),
      dd_duplicate_type =
        (if fingerprint_payload h (snd e) = fingerprint_payload h existing
         then QR_EQUIVALENT_DUPLICATE else QR_CONFLICTING_DUPLICATE),
      dd_incoming_index = fst e,
      dd_incoming_fingerprint = fingerprint_payload h (snd e),
      dd_existing_fingerprint = fingerprint_payload h existing,
      dd_partner_id = Some (pr_partner_id (snd e)),
      dd_partner_trace = pr_partner_trace (snd e), dd_row_context = []\<rparr>"

definition key_details ::
  "hashing \<Rightarrow> partner_table \<Rightarrow> partner_row list \<Rightarrow> row_key \<times> nat \<Rightarrow> duplicate_detail list" where
  "key_details h t rs e =
     (case find_key t (fst e) of
        None \<Rightarrow> []
      | Some existing \<Rightarrow>
          map (duplicate_detail_of h existing) (drop (snd e) (incoming_of (fst e) rs)))"

definition empty_result :: "nat \<Rightarrow> batch_result" where
  "empty_result n =
     \<lparr>br_inserted = n, br_duplicates = 0, br_equivalent_duplicates = 0,
      br_conflicting_duplicates = 0, br_failed = 0, br_duplicate_details = []\<rparr>"

definition write_rows ::
  "hashing \<Rightarrow> partner_row list \<Rightarrow> partner_table \<Rightarrow> (batch_error + batch_result) \<times> partner_table"
  where
  "write_rows h rs t =
     (if rs = [] then (validate_accounting (empty_result 0), t)
      else let ((inserted, conflicts), t') = insert_rows_conflict_safe rs t
           in if conflicts = [] then (validate_accounting (empty_result inserted), t')
              else let ds = concat (map (key_details h t' rs) (sort_key fst conflicts))
                   in (validate_accounting
                         \<lparr>br_inserted = inserted, br_duplicates = length rs - inserted,
                          br_equivalent_duplicates = count_type QR_EQUIVALENT_DUPLICATE ds,
                          br_conflicting_duplicates = count_type QR_CONFLICTING_DUPLICATE ds,
                          br_failed = 0, br_duplicate_details = ds\<rparr>, t'))"

text \<open>
  \<open>insert_many\<close>: every row is made a tuple before the transaction starts.
\<close>

definition insert_many ::
  "hashing \<Rightarrow> partner_row list \<Rightarrow> partner_table \<Rightarrow> (batch_error + batch_result) \<times> partner_table"
  where
  "insert_many h rs t =
     (if list_all row_json rs then write_rows h rs t else (Inl Bad_Metadata, t))"


section \<open>The insert keeps the table\<close>

definition table_ok :: "partner_table \<Rightarrow> bool" where
  "table_ok t \<longleftrightarrow> distinct (map row_key t)"

lemma row_key_store [simp]: "row_key (store_row r) = row_key r"
  by (simp add: row_key_def store_row_def)

lemma insert_new_spec:
  assumes "insert_new t rs = (t', ks)"
  shows "\<exists>new. t' = t @ new \<and> map row_key new = ks \<and> set new \<subseteq> store_row ` set rs"
    and "distinct ks" and "set ks = row_key ` set rs - row_key ` set t"
    and "row_key ` set t' = row_key ` set t \<union> row_key ` set rs"
    and "table_ok t \<Longrightarrow> table_ok t'"
proof -
  have "(\<exists>new. t' = t @ new \<and> map row_key new = ks \<and> set new \<subseteq> store_row ` set rs) \<and>
      distinct ks \<and> set ks = row_key ` set rs - row_key ` set t"
    using assms
  proof (induction t rs arbitrary: t' ks rule: insert_new.induct)
    case (2 t r rs)
    show ?case
    proof (cases "row_key r \<in> row_key ` set t")
      case True
      then have "insert_new t rs = (t', ks)" using 2(3) by simp
      from 2(1) [OF True this] True show ?thesis by (auto simp: insert_absorb)
    next
      case False
      with 2(3) obtain ls where l: "insert_new (t @ [store_row r]) rs = (t', ls)" "ks = row_key r # ls"
        by (auto split: prod.splits)
      from 2(2) [OF False l(1)] obtain new where "t' = t @ [store_row r] @ new"
        "map row_key new = ls" "set new \<subseteq> store_row ` set rs" "distinct ls"
        "set ls = row_key ` set rs - insert (row_key r) (row_key ` set t)" by auto
      with False l(2) show ?thesis
        by (intro conjI exI [of _ "store_row r # new"]) (auto, metis image_eqI)
    qed
  qed simp
  then obtain new where new: "t' = t @ new" "map row_key new = ks" "set new \<subseteq> store_row ` set rs"
    "distinct ks" "set ks = row_key ` set rs - row_key ` set t" by blast
  then show "\<exists>new. t' = t @ new \<and> map row_key new = ks \<and> set new \<subseteq> store_row ` set rs"
    "distinct ks" "set ks = row_key ` set rs - row_key ` set t" by blast+
  have "row_key ` set new = set ks" using new(2) by force
  with new show "row_key ` set t' = row_key ` set t \<union> row_key ` set rs"
    "table_ok t \<Longrightarrow> table_ok t'"
    by (auto simp: table_ok_def image_Un)
qed

lemma insert_new_known: "row_key ` set rs \<subseteq> row_key ` set t \<Longrightarrow> insert_new t rs = (t, [])"
  by (induction t rs rule: insert_new.induct) auto

lemma find_key_append:
  "find_key (t @ u) k = (case find_key t k of None \<Rightarrow> find_key u k | Some r \<Rightarrow> Some r)"
  by (induction t) (auto simp: find_key_def)

lemma find_key_Some: "k \<in> row_key ` set t \<Longrightarrow> \<exists>r. find_key t k = Some r \<and> r \<in> set t \<and> row_key r = k"
  by (induction t) (auto simp: find_key_def)

section \<open>Accounting\<close>

lemma distinct_concat_map:
  assumes "distinct xs" and "\<And>x. x \<in> set xs \<Longrightarrow> distinct (f x)"
    and "\<And>x y. x \<in> set xs \<Longrightarrow> y \<in> set xs \<Longrightarrow> x \<noteq> y \<Longrightarrow> set (f x) \<inter> set (f y) = {}"
  shows "distinct (concat (map f xs))"
  using assms by (induction xs) (simp_all, blast)

lemma sum_key_counts:
  "(\<Sum>k \<leftarrow> remdups (map row_key rs). length (filter (\<lambda>r. row_key r = k) rs)) = length rs"
proof -
  have "(\<Sum>k \<leftarrow> remdups ks. length (filter (\<lambda>x. x = k) ks)) = length ks" for ks :: "row_key list"
  proof -
    have "(\<Sum>k \<leftarrow> remdups ks. length (filter (\<lambda>x. x = k) ks))
        = (\<Sum>k \<in> set ks. count (mset ks) k)"
      by (simp add: sum_list_distinct_conv_sum_set count_mset count_list_eq_length_filter
          eq_commute cong: filter_cong)
    then show ?thesis by (simp add: size_multiset_overloaded_eq flip: size_mset)
  qed
  from this [of "map row_key rs"] show ?thesis by (simp add: filter_map o_def)
qed

lemma incoming_of_props:
  "length (incoming_of k rs) = length (filter (\<lambda>r. row_key r = k) rs)"
  "distinct (map fst (incoming_of k rs))"
  "e \<in> set (incoming_of k rs) \<longleftrightarrow> fst e < length rs \<and> snd e = rs ! fst e \<and> row_key (snd e) = k"
proof -
  have "map snd (filter (\<lambda>e. row_key (snd e) = k) (List.enumerate n rs))
      = filter (\<lambda>r. row_key r = k) rs" for n
    by (induction rs arbitrary: n) auto
  from arg_cong [OF this, of length 0]
  show "length (incoming_of k rs) = length (filter (\<lambda>r. row_key r = k) rs)"
    by (simp add: incoming_of_def)
  show "distinct (map fst (incoming_of k rs))"
    by (simp add: incoming_of_def distinct_map_filter)
  show "e \<in> set (incoming_of k rs) \<longleftrightarrow> fst e < length rs \<and> snd e = rs ! fst e \<and> row_key (snd e) = k"
    by (cases e) (auto simp: incoming_of_def in_set_enumerate_eq)
qed


abbreviation key_count :: "partner_row list \<Rightarrow> row_key \<Rightarrow> nat" where
  "key_count rs k \<equiv> length (filter (\<lambda>r. row_key r = k) rs)"

lemma in_conflict_counts:
  "e \<in> set (conflict_counts rs ks) \<longleftrightarrow>
     fst e \<in> row_key ` set rs \<and> snd e = (if fst e \<in> set ks then 1 else 0) \<and>
     snd e < key_count rs (fst e)"
  by (cases e) (auto simp: conflict_counts_def)

lemma distinct_conflict_counts: "distinct (map fst (conflict_counts rs ks))"
  unfolding conflict_counts_def
  by (rule distinct_map_filter) (simp add: o_def)

lemma conflict_total:
  assumes "distinct ks" and "set ks \<subseteq> row_key ` set rs"
  shows "(\<Sum>e \<leftarrow> conflict_counts rs ks. key_count rs (fst e) - snd e) + length ks = length rs"
proof -
  let ?K = "remdups (map row_key rs)" and ?f = "\<lambda>k. if k \<in> set ks then 1 else (0::nat)"
  have "(\<Sum>e \<leftarrow> conflict_counts rs ks. key_count rs (fst e) - snd e)
      = (\<Sum>e \<leftarrow> map (\<lambda>k. (k, ?f k)) ?K. key_count rs (fst e) - snd e)"
    unfolding conflict_counts_def by (rule sum_list_map_filter) auto
  also have "\<dots> = (\<Sum>k \<leftarrow> ?K. key_count rs k - ?f k)" by (simp add: o_def)
  finally have "(\<Sum>e \<leftarrow> conflict_counts rs ks. key_count rs (fst e) - snd e) + (\<Sum>k \<leftarrow> ?K. ?f k)
      = (\<Sum>k \<leftarrow> ?K. key_count rs k - ?f k) + (\<Sum>k \<leftarrow> ?K. ?f k)" by simp
  also have "\<dots> = (\<Sum>k \<leftarrow> ?K. key_count rs k)"
  proof -
    have "?f k \<le> key_count rs k" if "k \<in> set ?K" for k
      using that by (auto simp: Suc_le_eq filter_empty_conv)
    then have "map (\<lambda>k. key_count rs k - ?f k + ?f k) ?K = map (key_count rs) ?K"
      by (intro map_cong) auto
    then show ?thesis by (simp only: sum_list_addf [symmetric])
  qed
  also have "\<dots> = length rs" by (rule sum_key_counts)
  finally have "(\<Sum>e \<leftarrow> conflict_counts rs ks. key_count rs (fst e) - snd e) + (\<Sum>k \<leftarrow> ?K. ?f k)
      = length rs" .
  moreover have "(\<Sum>k \<leftarrow> ?K. ?f k) = length ks"
  proof -
    have "(\<Sum>k \<leftarrow> ?K. ?f k) = (\<Sum>k \<in> row_key ` set rs. ?f k)"
      by (simp add: sum_list_distinct_conv_sum_set)
    also have "\<dots> = card (row_key ` set rs \<inter> set ks)" by (simp add: sum.If_cases)
    also have "row_key ` set rs \<inter> set ks = set ks" using assms(2) by auto
    finally show ?thesis using assms(1) by (simp add: distinct_card)
  qed
  ultimately show ?thesis by simp
qed

text \<open>Everything the details of a batch say, for the table after the insert.\<close>

definition batch_details ::
  "hashing \<Rightarrow> partner_table \<Rightarrow> partner_row list \<Rightarrow> row_key list \<Rightarrow> duplicate_detail list" where
  "batch_details h t' rs ks =
     concat (map (key_details h t' rs) (sort_key fst (conflict_counts rs ks)))"

lemma batch_details_spec:
  assumes ins: "insert_new t rs = (t', ks)"
  shows "length (batch_details h t' rs ks) + length ks = length rs"
    and "distinct (map dd_incoming_index (batch_details h t' rs ks))"
    and "d \<in> set (batch_details h t' rs ks) \<Longrightarrow>
      \<exists>existing. dd_incoming_index d < length rs \<and>
        find_key t' (row_key (rs ! dd_incoming_index d)) = Some existing \<and>
        d = duplicate_detail_of h existing (dd_incoming_index d, rs ! dd_incoming_index d)"
proof -
  note i = insert_new_spec [OF ins]
  let ?C = "conflict_counts rs ks"
  have found: "\<exists>r. find_key t' (fst e) = Some r" if "e \<in> set ?C" for e
    using that i(4) find_key_Some [of "fst e" t'] by (auto simp: in_conflict_counts)
  have len: "length (key_details h t' rs e) = key_count rs (fst e) - snd e" if "e \<in> set ?C" for e
    using found [OF that] by (auto simp: key_details_def incoming_of_props(1))
  have "length (batch_details h t' rs ks)
      = sum_list (map (\<lambda>e. length (key_details h t' rs e)) (sort_key fst ?C))"
    by (simp add: batch_details_def length_concat o_def)
  also have "\<dots> = sum_list (map (\<lambda>e. length (key_details h t' rs e)) ?C)"
    by (simp flip: sum_mset_sum_list)
  also have "\<dots> = (\<Sum>e \<leftarrow> ?C. key_count rs (fst e) - snd e)"
    using len by (simp cong: map_cong)
  finally show "length (batch_details h t' rs ks) + length ks = length rs"
    using conflict_total [OF i(2)] i(3) by simp
  have mem: "\<exists>existing. dd_incoming_index d < length rs \<and>
        row_key (rs ! dd_incoming_index d) = fst e \<and> find_key t' (fst e) = Some existing \<and>
        d = duplicate_detail_of h existing (dd_incoming_index d, rs ! dd_incoming_index d)"
    if m: "d \<in> set (key_details h t' rs e)" for d e
  proof -
    obtain r where r: "find_key t' (fst e) = Some r"
      using m by (cases "find_key t' (fst e)") (auto simp: key_details_def)
    then obtain x where x: "x \<in> set (incoming_of (fst e) rs)" "d = duplicate_detail_of h r x"
      using m by (auto simp: key_details_def dest!: in_set_dropD)
    then have "dd_incoming_index d = fst x" by (simp add: duplicate_detail_of_def)
    with r x show ?thesis by (cases x) (auto simp: incoming_of_props(3))
  qed
  show "\<exists>existing. dd_incoming_index d < length rs \<and>
        find_key t' (row_key (rs ! dd_incoming_index d)) = Some existing \<and>
        d = duplicate_detail_of h existing (dd_incoming_index d, rs ! dd_incoming_index d)"
    if d: "d \<in> set (batch_details h t' rs ks)"
  proof -
    obtain e where "d \<in> set (key_details h t' rs e)" using d by (auto simp: batch_details_def)
    from mem [OF this] show ?thesis by metis
  qed
  have "map dd_incoming_index (batch_details h t' rs ks)
      = concat (map (\<lambda>e. map dd_incoming_index (key_details h t' rs e)) (sort_key fst ?C))"
    by (simp add: batch_details_def map_concat o_def)
  also have "distinct \<dots>"
  proof (rule distinct_concat_map)
    show "distinct (sort_key fst ?C)"
      using distinct_conflict_counts [of rs ks] by (simp add: distinct_map)
    show "distinct (map dd_incoming_index (key_details h t' rs e))" for e
      using incoming_of_props(2) [of "fst e" rs]
      by (auto simp: key_details_def o_def duplicate_detail_of_def drop_map [symmetric]
          split: option.splits)
    show "set (map dd_incoming_index (key_details h t' rs e)) \<inter>
        set (map dd_incoming_index (key_details h t' rs f)) = {}"
      if "e \<in> set (sort_key fst ?C)" "f \<in> set (sort_key fst ?C)" "e \<noteq> f" for e f
    proof -
      have "fst e \<noteq> fst f"
        using that distinct_conflict_counts [of rs ks] by (auto simp: distinct_map inj_on_def)
      moreover have "row_key (rs ! i) = fst g"
        if i: "i \<in> set (map dd_incoming_index (key_details h t' rs g))" for i g
      proof -
        obtain d where "d \<in> set (key_details h t' rs g)" "i = dd_incoming_index d"
          using i by auto
        with mem [of d g] show ?thesis by blast
      qed
      ultimately show ?thesis by (metis disjoint_iff)
    qed
  qed
  finally show "distinct (map dd_incoming_index (batch_details h t' rs ks))" .
qed

lemma count_types:
  "(\<And>d. d \<in> set ds \<Longrightarrow> dd_duplicate_type d \<in> {QR_EQUIVALENT_DUPLICATE, QR_CONFLICTING_DUPLICATE})
     \<Longrightarrow> count_type QR_EQUIVALENT_DUPLICATE ds + count_type QR_CONFLICTING_DUPLICATE ds = length ds"
proof (induction ds)
  case (Cons d ds)
  then have "dd_duplicate_type d \<in> {QR_EQUIVALENT_DUPLICATE, QR_CONFLICTING_DUPLICATE}" by simp
  with Cons show ?case by (auto simp: count_type_def)
qed (simp add: count_type_def)

definition batch_outcome ::
  "hashing \<Rightarrow> partner_table \<Rightarrow> partner_row list \<Rightarrow> row_key list \<Rightarrow> batch_result" where
  "batch_outcome h t' rs ks =
     (let ds = batch_details h t' rs ks
      in \<lparr>br_inserted = length ks, br_duplicates = length rs - length ks,
          br_equivalent_duplicates = count_type QR_EQUIVALENT_DUPLICATE ds,
          br_conflicting_duplicates = count_type QR_CONFLICTING_DUPLICATE ds,
          br_failed = 0, br_duplicate_details = ds\<rparr>)"

lemma batch_outcome_simps [simp]:
  "br_inserted (batch_outcome h t' rs ks) = length ks"
  "br_duplicates (batch_outcome h t' rs ks) = length rs - length ks"
  "br_equivalent_duplicates (batch_outcome h t' rs ks)
     = count_type QR_EQUIVALENT_DUPLICATE (batch_details h t' rs ks)"
  "br_conflicting_duplicates (batch_outcome h t' rs ks)
     = count_type QR_CONFLICTING_DUPLICATE (batch_details h t' rs ks)"
  "br_failed (batch_outcome h t' rs ks) = 0"
  "br_duplicate_details (batch_outcome h t' rs ks) = batch_details h t' rs ks"
  by (simp_all add: batch_outcome_def Let_def)

lemma detail_of_batch:
  assumes ins: "insert_new t rs = (t', ks)" and d: "d \<in> set (batch_details h t' rs ks)"
  shows "\<exists>existing \<in> set t'. row_key existing = row_key (rs ! dd_incoming_index d) \<and>
      dd_existing_fingerprint d = fingerprint_payload h existing \<and>
      dd_duplicate_type d =
        (if fingerprint_payload h (rs ! dd_incoming_index d) = fingerprint_payload h existing
         then QR_EQUIVALENT_DUPLICATE else QR_CONFLICTING_DUPLICATE)"
proof -
  let ?r = "rs ! dd_incoming_index d"
  obtain existing where e: "find_key t' (row_key ?r) = Some existing"
      "d = duplicate_detail_of h existing (dd_incoming_index d, ?r)"
    using batch_details_spec(3) [OF ins d] by blast
  have "existing \<in> set t' \<and> row_key existing = row_key ?r"
    using e(1) find_Some_set by (fastforce simp: find_key_def)
  moreover have "dd_existing_fingerprint d = dd_existing_fingerprint
      (duplicate_detail_of h existing (dd_incoming_index d, ?r))"
    "dd_duplicate_type d = dd_duplicate_type
      (duplicate_detail_of h existing (dd_incoming_index d, ?r))"
    using e(2) by (rule arg_cong)+
  ultimately show ?thesis
    by (intro bexI [of _ existing]) (simp_all add: duplicate_detail_of_def)
qed

lemma detail_type:
  "insert_new t rs = (t', ks) \<Longrightarrow> d \<in> set (batch_details h t' rs ks) \<Longrightarrow>
    dd_duplicate_type d \<in> {QR_EQUIVALENT_DUPLICATE, QR_CONFLICTING_DUPLICATE}"
  by (drule (1) detail_of_batch [where h = h]) (auto split: if_splits)

text \<open>A batch write never violates its own accounting.\<close>

lemma write_rows_eq:
  assumes ins: "insert_new t rs = (t', ks)"
  shows "write_rows h rs t = (Inr (batch_outcome h t' rs ks), t')"
proof -
  note b = batch_details_spec [OF ins, where h = h]
  let ?ds = "batch_details h t' rs ks"
  have ok: "validate_accounting (batch_outcome h t' rs ks) = Inr (batch_outcome h t' rs ks)"
    using b(1,2) b(3) count_types [of ?ds, OF detail_type [OF ins]]
    by (fastforce simp: validate_accounting_def batch_outcome_def Let_def attempted_def
        distinct_remdups_id)
  show ?thesis
  proof (cases "conflict_counts rs ks = []")
    case True
    then have "?ds = []" by (simp add: batch_details_def)
    with b(1) have "batch_outcome h t' rs ks = empty_result (length ks)"
      by (simp add: batch_outcome_def empty_result_def count_type_def)
    with ok ins True show ?thesis
      by (auto simp: write_rows_def insert_rows_conflict_safe_def)
  next
    case False
    then have "rs \<noteq> []" by (auto simp: conflict_counts_def)
    with ok ins False show ?thesis
      by (simp add: write_rows_def insert_rows_conflict_safe_def batch_outcome_def
          batch_details_def Let_def)
  qed
qed

lemma insert_many_eq:
  assumes "insert_new t rs = (t', ks)" and "list_all row_json rs"
  shows "insert_many h rs t = (Inr (batch_outcome h t' rs ks), t')"
  using write_rows_eq [OF assms(1)] assms(2) by (simp add: insert_many_def)

lemma insert_many_json: "insert_many h rs t = (Inr b, t') \<Longrightarrow> list_all row_json rs"
  by (simp add: insert_many_def split: if_splits)

lemma insert_many_bad: "\<not> list_all row_json rs \<Longrightarrow> insert_many h rs t = (Inl Bad_Metadata, t)"
  by (simp only: insert_many_def if_False)

section \<open>Which rows are duplicates\<close>

lemma sorted_incoming: "sorted_wrt (<) (map fst (incoming_of k rs))"
proof -
  have "sorted_wrt (<) (map fst (filter P (List.enumerate n rs)))" for P and n :: nat
  proof (induction rs arbitrary: n)
    case (Cons r rs)
    then show ?case by (auto simp: in_set_enumerate_eq)
  qed simp
  then show ?thesis by (simp add: incoming_of_def)
qed

lemma in_drop_one:
  assumes "sorted_wrt (<) (map fst xs)"
  shows "e \<in> set (drop (Suc 0) xs) \<longleftrightarrow> e \<in> set xs \<and> (\<exists>e' \<in> set xs. fst e' < (fst e :: nat))"
  using assms by (cases xs) auto

lemma duplicate_indexes:
  assumes ins: "insert_new t rs = (t', ks)"
  shows "i \<in> dd_incoming_index ` set (batch_details h t' rs ks) \<longleftrightarrow>
    i < length rs \<and> (row_key (rs ! i) \<in> row_key ` set t \<or>
      (\<exists>j < i. row_key (rs ! j) = row_key (rs ! i)))"
proof -
  note n = insert_new_spec [OF ins]
  let ?C = "conflict_counts rs ks"
  have found: "\<exists>r. find_key t' (fst e) = Some r" if "e \<in> set ?C" for e
    using that n(4) find_key_Some [of "fst e" t'] by (auto simp: in_conflict_counts)
  have key: "dd_incoming_index ` set (key_details h t' rs e)
      = fst ` set (drop (snd e) (incoming_of (fst e) rs))" if "e \<in> set ?C" for e
    using found [OF that] by (force simp: key_details_def duplicate_detail_of_def image_image)
  have "dd_incoming_index ` set (batch_details h t' rs ks)
      = (\<Union>e \<in> set ?C. dd_incoming_index ` set (key_details h t' rs e))"
    by (auto simp: batch_details_def)
  also have "\<dots> = (\<Union>e \<in> set ?C. fst ` set (drop (snd e) (incoming_of (fst e) rs)))"
    using key by simp
  finally have idx: "i \<in> dd_incoming_index ` set (batch_details h t' rs ks) \<longleftrightarrow>
      (\<exists>e \<in> set ?C. \<exists>x \<in> set (drop (snd e) (incoming_of (fst e) rs)). fst x = i)" by auto
  let ?k = "row_key (rs ! i)" and ?n = "if row_key (rs ! i) \<in> set ks then 1 else (0::nat)"
  have "(\<exists>e \<in> set ?C. \<exists>x \<in> set (drop (snd e) (incoming_of (fst e) rs)). fst x = i) \<longleftrightarrow>
      i < length rs \<and> (i, rs ! i) \<in> set (drop ?n (incoming_of ?k rs))" (is "?L \<longleftrightarrow> ?R")
  proof
    assume ?L
    then obtain e x where e: "e \<in> set ?C" and x: "x \<in> set (drop (snd e) (incoming_of (fst e) rs))"
      and i: "fst x = i" by blast
    from x have "x \<in> set (incoming_of (fst e) rs)" by (rule in_set_dropD)
    with i have "i < length rs" "x = (i, rs ! i)" "fst e = ?k"
      by (auto simp: incoming_of_props(3) prod_eq_iff)
    with e x show ?R by (simp add: in_conflict_counts)
  next
    assume r: ?R
    have "drop ?n (incoming_of ?k rs) \<noteq> []" using r by auto
    then have "?n < key_count rs ?k" by (simp add: incoming_of_props(1) split: if_splits)
    with r have "(?k, ?n) \<in> set ?C" by (auto simp: in_conflict_counts)
    with r show ?L by (intro bexI [of _ "(?k, ?n)"] bexI [of _ "(i, rs ! i)"]) auto
  qed
  also have "\<dots> \<longleftrightarrow> i < length rs \<and> (?k \<in> row_key ` set t \<or> (\<exists>j < i. row_key (rs ! j) = ?k))"
  proof (cases "i < length rs")
    case True
    then have in_rs: "?k \<in> row_key ` set rs" by simp
    show ?thesis
    proof (cases "?k \<in> row_key ` set t")
      case known: True
      then have "?k \<notin> set ks" using n(3) by blast
      then show ?thesis using True known by (auto simp: incoming_of_props(3))
    next
      case new: False
      then have "?k \<in> set ks" using n(3) in_rs by blast
      moreover have "(\<exists>e' \<in> set (incoming_of ?k rs). fst e' < i)
          \<longleftrightarrow> (\<exists>j < i. row_key (rs ! j) = ?k)"
      proof
        assume "\<exists>e' \<in> set (incoming_of ?k rs). fst e' < i"
        then show "\<exists>j < i. row_key (rs ! j) = ?k" by (auto simp: incoming_of_props(3))
      next
        assume "\<exists>j < i. row_key (rs ! j) = ?k"
        then obtain j where "j < i" "row_key (rs ! j) = ?k" by blast
        then show "\<exists>e' \<in> set (incoming_of ?k rs). fst e' < i"
          using True by (intro bexI [of _ "(j, rs ! j)"]) (auto simp: incoming_of_props(3))
      qed
      moreover have "(i, rs ! i) \<in> set (incoming_of ?k rs)"
        using True by (simp add: incoming_of_props(3))
      ultimately show ?thesis
        using True new in_drop_one [OF sorted_incoming, of "(i, rs ! i)" ?k rs] by simp
    qed
  qed simp
  finally show ?thesis using idx by simp
qed

section \<open>Replays\<close>

lemma fingerprint_stored:
  "- 4 \<le> d_exp (pr_partner_amount r) \<Longrightarrow> fingerprint_payload h (store_row r) = fingerprint_payload h r"
  by (simp add: fingerprint_payload_def canonical_payload_def store_row_def normalized_decimal_stored)

lemma find_key_distinct:
  "table_ok t \<Longrightarrow> r \<in> set t \<Longrightarrow> find_key t (row_key r) = Some r"
proof (induction t)
  case (Cons x t)
  then show ?case by (cases "x = r") (force simp: find_key_def table_ok_def)+
qed simp

lemma replay_eq:
  assumes "insert_new t rs = (t', ks)" and "list_all row_json rs"
  shows "insert_many h rs t' = (Inr (batch_outcome h t' rs []), t')"
proof -
  have "insert_new t' rs = (t', [])" using insert_new_spec(4) [OF assms(1)] by (intro insert_new_known) auto
  then show ?thesis using assms(2) by (rule insert_many_eq)
qed

lemma stored_row_found:
  assumes ins: "insert_new t rs = (t', ks)" and ok: "table_ok t"
    and r: "r \<in> set rs" and new: "row_key r \<notin> row_key ` set t"
    and once: "\<And>r'. r' \<in> set rs \<Longrightarrow> row_key r' = row_key r \<Longrightarrow> r' = r"
  shows "find_key t' (row_key r) = Some (store_row r)"
proof -
  obtain nr where t': "t' = t @ nr" and sub: "set nr \<subseteq> store_row ` set rs"
    using insert_new_spec(1) [OF ins] by blast
  have "row_key r \<in> row_key ` set t'" using insert_new_spec(4) [OF ins] r by auto
  with new t' obtain x where x: "x \<in> set nr" "row_key x = row_key r" by auto
  with sub obtain r' where "r' \<in> set rs" "x = store_row r'" by auto
  with x once have "x = store_row r" by force
  moreover have "x \<in> set t'" using x t' by simp
  ultimately show ?thesis
    using find_key_distinct [OF insert_new_spec(5) [OF ins ok], of x] x(2) by simp
qed

lemma all_equivalent:
  "(\<And>d. d \<in> set ds \<Longrightarrow> dd_duplicate_type d = QR_EQUIVALENT_DUPLICATE) \<Longrightarrow>
     count_type QR_EQUIVALENT_DUPLICATE ds = length ds \<and> count_type QR_CONFLICTING_DUPLICATE ds = 0"
  by (induction ds) (auto simp: count_type_def)

section \<open>A concrete batch\<close>

definition demo_hashing :: hashing where
  "demo_hashing =
     \<lparr>hs_iso = (\<lambda>_. ''t''),
      hs_dumps = (\<lambda>v. case v of VDict d \<Rightarrow> (case dget d ''amount'' of VStr a \<Rightarrow> a | _ \<Rightarrow> []) | _ \<Rightarrow> []),
      hs_sha = (\<lambda>s. s)\<rparr>"

definition demo_row :: "string \<Rightarrow> decimal \<Rightarrow> partner_row" where
  "demo_row k a =
     \<lparr>pr_id = ''u'', pr_request_id = ''q'', pr_identify = ''PARTNER_A'',
      pr_workflow_type = ''PARTNER'', pr_reconciliation_date = 0,
      pr_operation_status = ''NEW'', pr_reconciliation_status = ''NEW'', pr_connector_data = [],
      pr_extra_data = [], pr_source_file_id = ''f'', pr_ingestion_key = k, pr_partner_id = k,
      pr_partner_trace = None, pr_partner_status = ''OK'', pr_partner_amount = a,
      pr_partner_currency = ''VND'', pr_partner_trans_date = None,
      pr_timestamp_basis = ''SOURCE'', pr_partner_metadata = [], pr_created_by = ''s'',
      pr_created_date = 0, pr_last_modified_by = ''s'', pr_last_modified_date = 0\<rparr>"

lemma demo_row_key [simp]: "row_key (demo_row k a) = (''PARTNER_A'', k)"
  by (simp add: row_key_def demo_row_def)

lemma demo_amount [simp]: "pr_partner_amount (demo_row k a) = a"
  by (simp add: demo_row_def)

lemma demo_fingerprint:
  "fingerprint_payload demo_hashing (r\<lparr>pr_partner_amount := a\<rparr>) = normalized_decimal a"
  "fingerprint_payload demo_hashing r = normalized_decimal (pr_partner_amount r)"
  by (simp_all add: fingerprint_payload_def canonical_payload_def demo_hashing_def dget_def)

section \<open>Properties\<close>


text \<open>A row of a batch is reported as a duplicate exactly when its key is already stored or an
  earlier row of the same batch has it; the report compares it with the row that is stored under
  its key and calls it equivalent exactly when the two fingerprints agree.\<close>

theorem duplicates_are_classified_by_fingerprint:
  assumes "insert_many h rs t = (Inr b, t')"
  shows "dd_incoming_index ` set (br_duplicate_details b) =
      {i. i < length rs \<and> (row_key (rs ! i) \<in> row_key ` set t \<or>
            (\<exists>j < i. row_key (rs ! j) = row_key (rs ! i)))} \<and>
    \<not> (\<exists>d \<in> set (br_duplicate_details b). \<not> (\<exists>existing \<in> set t'.
          row_key existing = row_key (rs ! dd_incoming_index d) \<and>
          dd_existing_fingerprint d = fingerprint_payload h existing \<and>
          dd_duplicate_type d =
            (if fingerprint_payload h (rs ! dd_incoming_index d) = fingerprint_payload h existing
             then QR_EQUIVALENT_DUPLICATE else QR_CONFLICTING_DUPLICATE)))"
proof -
  obtain u ks where ins: "insert_new t rs = (u, ks)" by (cases "insert_new t rs") auto
  then have b: "b = batch_outcome h u rs ks" "u = t'"
    using insert_many_eq [OF ins insert_many_json [OF assms], of h] assms by simp_all
  have "\<exists>existing \<in> set t'. row_key existing = row_key (rs ! dd_incoming_index d) \<and>
      dd_existing_fingerprint d = fingerprint_payload h existing \<and>
      dd_duplicate_type d =
        (if fingerprint_payload h (rs ! dd_incoming_index d) = fingerprint_payload h existing
         then QR_EQUIVALENT_DUPLICATE else QR_CONFLICTING_DUPLICATE)"
    if d: "d \<in> set (batch_details h t' rs ks)" for d
    using detail_of_batch [OF ins [unfolded b(2)] d] by blast
  then show ?thesis using duplicate_indexes [OF ins, of _ h] b
    by (auto simp: set_eq_iff)
qed

theorem duplicates_are_classified_by_fingerprint_witness:
  "\<exists>b t'. insert_many demo_hashing [demo_row ''k'' (Decimal 5 0), demo_row ''k'' (Decimal 7 0)] []
      = (Inr b, t') \<and> dd_incoming_index ` set (br_duplicate_details b) = {1}"
proof -
  let ?rs = "[demo_row ''k'' (Decimal 5 0), demo_row ''k'' (Decimal 7 0)]"
  obtain t' ks where ins: "insert_new [] ?rs = (t', ks)" by (cases "insert_new [] ?rs") auto
  have eq: "insert_many demo_hashing ?rs [] = (Inr (batch_outcome demo_hashing t' ?rs ks), t')"
    by (rule insert_many_eq [OF ins]) (simp add: row_json_def demo_row_def)
  have "{i. i < length ?rs \<and> (row_key (?rs ! i) \<in> row_key ` set [] \<or>
      (\<exists>j < i. row_key (?rs ! j) = row_key (?rs ! i)))} = {1}"
    by (auto simp: less_Suc_eq numeral_2_eq_2)
  with duplicates_are_classified_by_fingerprint [OF eq]
  have "dd_incoming_index ` set (br_duplicate_details (batch_outcome demo_hashing t' ?rs ks)) = {1}"
    by (simp only:)
  with eq show ?thesis by (intro exI [of _ "batch_outcome demo_hashing t' ?rs ks"] exI [of _ t']) simp
qed



text \<open>An amount with more than four decimals is stored rounded, so replaying the very same row
  reports a conflicting duplicate, whose summary holds the file for review, although nothing in
  the payload changed.\<close>

theorem rounded_amount_replays_as_conflict:
  assumes "normalized_decimal (numeric_20_4 (pr_partner_amount r))
             \<noteq> normalized_decimal (pr_partner_amount r)"
    and "\<And>a. fingerprint_payload h (r\<lparr>pr_partner_amount := a\<rparr>) = fingerprint_payload h r \<Longrightarrow>
           normalized_decimal a = normalized_decimal (pr_partner_amount r)"
    and "row_key r \<notin> row_key ` set t" and "table_ok t"
    and "insert_many h [r] t = (Inr b, t')" and "insert_many h [r] t' = (Inr b', t'')"
  shows "br_inserted b = 1 \<and> br_inserted b' = 0 \<and> br_equivalent_duplicates b' = 0 \<and>
    br_conflicting_duplicates b' = 1"
proof -
  note json = insert_many_json [OF assms(5)]
  have ins: "insert_new t [r] = (t @ [store_row r], [row_key r])" using assms(3) by simp
  have b: "b = batch_outcome h t' [r] [row_key r]" and t': "t' = t @ [store_row r]"
    using insert_many_eq [OF ins json, of h] assms(5) by simp_all
  note ins = ins [folded t']
  have b': "b' = batch_outcome h t' [r] []" using replay_eq [OF ins json, of h] assms(6) by simp
  have "find_key t' (row_key r) = Some (store_row r)"
    using assms(3,4) by (intro stored_row_found [OF ins]) simp_all
  moreover have "fingerprint_payload h r \<noteq> fingerprint_payload h (store_row r)"
    using assms(1,2) by (metis store_row_def)
  ultimately have "batch_details h t' [r] []
      = [duplicate_detail_of h (store_row r) (0, r)]" and
    "dd_duplicate_type (duplicate_detail_of h (store_row r) (0, r)) = QR_CONFLICTING_DUPLICATE"
    by (simp_all add: batch_details_def conflict_counts_def key_details_def incoming_of_def
        duplicate_detail_of_def)
  then show ?thesis by (simp add: b b' count_type_def)
qed

theorem rounded_amount_replays_as_conflict_witness:
  "\<exists>b t' b' t''. insert_many demo_hashing [demo_row ''k'' (Decimal 15 (- 5))] [] = (Inr b, t') \<and>
     insert_many demo_hashing [demo_row ''k'' (Decimal 15 (- 5))] t' = (Inr b', t'') \<and>
     br_conflicting_duplicates b' = 1"
proof -
  let ?r = "demo_row ''k'' (Decimal 15 (- 5))"
  obtain t' ks where ins: "insert_new [] [?r] = (t', ks)" by (cases "insert_new [] [?r]") auto
  have "list_all row_json [?r]" by (simp add: row_json_def demo_row_def)
  note w = insert_many_eq [OF ins this, of demo_hashing] and r = replay_eq [OF ins this, of demo_hashing]
  have "normalized_decimal (numeric_20_4 (Decimal 15 (- 5)))
      \<noteq> normalized_decimal (Decimal 15 (- 5))" by code_simp
  then have a: "normalized_decimal (numeric_20_4 (pr_partner_amount ?r))
      \<noteq> normalized_decimal (pr_partner_amount ?r)" by simp
  have f: "normalized_decimal a = normalized_decimal (pr_partner_amount ?r)"
    if "fingerprint_payload demo_hashing (?r\<lparr>pr_partner_amount := a\<rparr>)
          = fingerprint_payload demo_hashing ?r" for a
    using that by (simp add: demo_fingerprint)
  have "br_conflicting_duplicates (batch_outcome demo_hashing t' [?r] []) = 1"
  proof -
    have "row_key ?r \<notin> row_key ` set []" "table_ok []" by (simp_all add: table_ok_def)
    from rounded_amount_replays_as_conflict [OF a f this w r] show ?thesis by blast
  qed
  then show ?thesis using w r
    by (intro exI [of _ "batch_outcome demo_hashing t' [?r] ks"] exI [of _ t']
        exI [of _ "batch_outcome demo_hashing t' [?r] []"]) (simp del: batch_outcome_simps)
qed

end
