(* ===== verification/QuarantineService.thy ===== *)
theory QuarantineService
  imports QuarantineProps PartnerStore
begin

text \<open>
  \<open>src/src/application/ingestion/quarantine_service.py\<close> and
  \<open>src/src/application/ingestion/quarantine_reprocessing.py\<close>: claiming, resolving and
  escalating one quarantine record. The row readers, the row processor, the transaction writer
  and the fingerprint reader are collaborators injected into the service; they are the fields
  of \<open>q_env\<close>. The service's writes go to the quarantine collection, the partner transactions
  and the audit log of \<open>q_world\<close>. The exceptions the service does not catch leave as \<open>Inl\<close>.
\<close>

section \<open>Requests and results\<close>

datatype reprocess_mode = RM_REPLAY_SOURCE_ROW | RM_CORRECTED_ROW | RM_ACCEPT_EXISTING | RM_REJECT

record reprocess_request =
  rq_record_id :: uuid
  rq_operator_id :: string
  rq_action_id :: string
  rq_expected_status :: q_status
  rq_mode :: reprocess_mode
  rq_corrected_row :: "pyval option"
  rq_mapping_version :: "string option"
  rq_expected_existing_fingerprint :: "string option"
  rq_reason :: "string option"

record resolved_input =
  in_row :: pyval
  in_origin :: string
  in_mapping_version :: "string option"
  in_row_number :: "int option"

record row_counters =
  rc_input_rows :: nat
  rc_persisted_rows :: nat
  rc_rejected_rows :: nat
  rc_duplicate_rows :: nat
  rc_failed_rows :: nat
  rc_persistence_failed_rows :: nat
  rc_quarantined_rows :: nat

text \<open>\<open>serialize_quarantine_counters\<close>\<close>

definition quarantine_counters :: "nat \<Rightarrow> nat \<Rightarrow> nat \<Rightarrow> nat \<Rightarrow> nat \<Rightarrow> nat \<Rightarrow> row_counters" where
  "quarantine_counters i p r du f q =
     \<lparr>rc_input_rows = i, rc_persisted_rows = p, rc_rejected_rows = r, rc_duplicate_rows = du,
      rc_failed_rows = f, rc_persistence_failed_rows = f, rc_quarantined_rows = q\<rparr>"

definition operation_table :: "(string \<times> nat \<times> nat \<times> nat \<times> nat) list" where
  "operation_table =
     [(''VALIDATION_FAILED'', 0, 1, 0, 0), (''CONFLICT_REMAINS'', 0, 0, 1, 0),
      (''EQUIVALENT_DUPLICATE'', 0, 0, 1, 0), (''ACCEPTED_EXISTING'', 0, 0, 1, 0),
      (''RETRYABLE_FAILURE'', 0, 0, 0, 1), (''SOURCE_EVIDENCE_UNAVAILABLE'', 0, 0, 0, 1),
      (''CORRECTED_ROW_REQUIRED'', 0, 0, 0, 1), (''FINGERPRINT_MISMATCH'', 0, 0, 0, 1),
      (''FINGERPRINT_UNAVAILABLE'', 0, 0, 0, 1), (''REJECTED'', 0, 1, 0, 0)]"

definition operation_counters :: "string \<Rightarrow> row_counters" where
  "operation_counters oc =
     (let (p, r, du, f) = (case map_of operation_table oc of None \<Rightarrow> (1, 0, 0, 0) | Some x \<Rightarrow> x)
      in quarantine_counters 1 p r du f 0)"

record resolution_result =
  rr_record_id :: uuid
  rr_success :: bool
  rr_status :: "q_status option"
  rr_outcome :: string
  rr_action :: q_action
  rr_reason :: "string option"
  rr_errors :: "pydict list"
  rr_quality_counters :: "row_counters option"
  rr_failure_classification :: "string option"
  rr_action_id :: "string option"
  rr_previous_status :: "q_status option"
  rr_attempt_count :: "nat option"
  rr_source_evidence_available :: pyval
  rr_escalation_level :: pyval
  rr_claimed_by :: pyval
  rr_priority :: "q_priority option"
  rr_review_due_at :: "datetime option"

text \<open>\<open>QuarantineResolutionResult\<close> with the defaults of its optional fields.\<close>

definition new_result ::
  "uuid \<Rightarrow> bool \<Rightarrow> q_status option \<Rightarrow> string \<Rightarrow> q_action \<Rightarrow> string option \<Rightarrow> resolution_result" where
  "new_result rid success st oc act reason =
     \<lparr>rr_record_id = rid, rr_success = success, rr_status = st, rr_outcome = oc, rr_action = act,
      rr_reason = reason, rr_errors = [], rr_quality_counters = None,
      rr_failure_classification = None, rr_action_id = None, rr_previous_status = None,
      rr_attempt_count = None, rr_source_evidence_available = VNone, rr_escalation_level = VNone,
      rr_claimed_by = VNone, rr_priority = None, rr_review_due_at = None\<rparr>"

definition level_value :: "q_doc \<Rightarrow> pyval" where
  "level_value d = VInt (int (qd_escalation_level d))"

definition opt_text :: "string option \<Rightarrow> pyval" where
  "opt_text s = (case s of None \<Rightarrow> VNone | Some t \<Rightarrow> VStr t)"

section \<open>Collaborators\<close>

datatype 'a reply = Returned 'a | Raised_Value_Error | Raised_Other

record processed_row =
  pw_valid :: bool
  pw_container :: "partner_row option"
  pw_errors :: "pydict list"

record audit_entry =
  ae_action :: string
  ae_record_id :: uuid
  ae_actor :: string
  ae_reason :: string
  ae_action_id :: string
  ae_previous_status :: q_status
  ae_new_status :: q_status
  ae_outcome :: string
  ae_error_code :: string
  ae_attempt :: nat

record q_world =
  qw_docs :: q_store
  qw_table :: partner_table
  qw_audit :: "audit_entry list"

type_synonym row_reader = "(string \<Rightarrow> int \<Rightarrow> pyval option reply) option"

record q_env =
  qe_policy :: retention_policy
  qe_isofmt :: "datetime \<Rightarrow> string"
  qe_parse_time :: "string \<Rightarrow> datetime option"
  qe_str :: "pyval \<Rightarrow> string"
  qe_source_file :: row_reader
  qe_raw_page :: row_reader
  qe_process :: "q_doc \<Rightarrow> reprocess_request \<Rightarrow> pyval \<Rightarrow> int \<Rightarrow> processed_row option"
  qe_persist :: "partner_row \<Rightarrow> partner_table \<Rightarrow> batch_result option \<times> partner_table"
  qe_fingerprint :: "(q_doc \<Rightarrow> string option option) option"
  qe_audits :: bool

text \<open>The clock at the service's own check, at the repository call between, and at its write.\<close>

record q_clock =
  qc_check :: datetime
  qc_middle :: datetime
  qc_write :: datetime

datatype service_error = SE_Repository q_error | SE_Reader

type_synonym service_result = "service_error + resolution_result"

section \<open>Input of a replay\<close>

definition read_row :: "row_reader \<Rightarrow> string option \<Rightarrow> int option \<Rightarrow> pyval option reply" where
  "read_row reader key row_number =
     (case (reader, key, row_number) of
        (Some f, Some k, Some n) \<Rightarrow> f k n
      | _ \<Rightarrow> Returned None)"

definition resolve_reprocess_input ::
  "q_env \<Rightarrow> q_doc \<Rightarrow> reprocess_request \<Rightarrow> resolved_input reply" where
  "resolve_reprocess_input env d rq =
     (let input = (\<lambda>row origin version.
            Returned \<lparr>in_row = row, in_origin = origin, in_mapping_version = version,
                      in_row_number = qd_row_number d\<rparr>);
          version = str_or (rq_mapping_version rq) (qd_config_version d)
      in case rq_mode rq of
           RM_ACCEPT_EXISTING \<Rightarrow> input VNone ''ACCEPT_EXISTING'' (rq_mapping_version rq)
         | RM_CORRECTED_ROW \<Rightarrow>
             (case rq_corrected_row rq of
                None \<Rightarrow> Raised_Value_Error
              | Some row \<Rightarrow> input row ''CORRECTED_ROW'' (rq_mapping_version rq))
         | _ \<Rightarrow>
             (case read_row (qe_source_file env) (Some (qd_source_file_id d)) (qd_row_number d) of
                Raised_Value_Error \<Rightarrow> Raised_Value_Error
              | Raised_Other \<Rightarrow> Raised_Other
              | Returned (Some row) \<Rightarrow> input row ''AUTHORITATIVE_SOURCE_FILE'' version
              | Returned None \<Rightarrow>
                  (case read_row (qe_raw_page env) (qd_source_unit_key d) (qd_row_number d) of
                     Raised_Value_Error \<Rightarrow> Raised_Value_Error
                   | Raised_Other \<Rightarrow> Raised_Other
                   | Returned (Some row) \<Rightarrow> input row ''STAGED_RAW_PAGE'' version
                   | Returned None \<Rightarrow> Raised_Value_Error)))"

fun action_for :: "reprocess_mode \<Rightarrow> q_action" where
  "action_for RM_ACCEPT_EXISTING = QA_ACCEPT_EXISTING"
| "action_for RM_REJECT = QA_REJECT"
| "action_for _ = QA_REPROCESS"

section \<open>Replayed actions\<close>

definition event_success :: "q_event \<Rightarrow> bool" where
  "event_success e \<longleftrightarrow>
     qv_to e \<in> {Q_RESOLVED, Q_REJECTED} \<or>
     qv_event_outcome e \<in> {Some ''CLAIMED'', Some ''ESCALATED''}"

definition event_due_at :: "q_env \<Rightarrow> q_event \<Rightarrow> datetime option" where
  "event_due_at env e =
     (case dget (qv_metadata e) ''reviewDueAt'' of
        VTime t \<Rightarrow> Some t
      | VStr s \<Rightarrow> qe_parse_time env s
      | _ \<Rightarrow> None)"

definition event_priority :: "q_event \<Rightarrow> q_priority option" where
  "event_priority e =
     (case dget (qv_metadata e) ''priority'' of
        VStr s \<Rightarrow> if s = ''NORMAL'' then Some QPR_NORMAL else if s = ''HIGH'' then Some QPR_HIGH else None
      | _ \<Rightarrow> None)"

definition result_from_event :: "q_env \<Rightarrow> uuid \<Rightarrow> q_event \<Rightarrow> resolution_result" where
  "result_from_event env rid e =
     (let oc = (case str_or (qv_event_outcome e) (Some (q_action_value (qv_action e))) of
                  Some x \<Rightarrow> x | None \<Rightarrow> [])
      in (new_result rid (event_success e) (Some (qv_to e)) oc (qv_action e) (Some (qv_reason e)))
           \<lparr>rr_quality_counters :=
              (if oc \<in> {''CLAIMED'', ''ESCALATED''} then None else Some (operation_counters oc)),
            rr_action_id := qv_action_id e, rr_previous_status := Some (qv_from e),
            rr_attempt_count := Some (qv_attempt e),
            rr_source_evidence_available := dget (qv_metadata e) ''sourceEvidenceAvailable'',
            rr_escalation_level := dget (qv_metadata e) ''escalationLevel'',
            rr_claimed_by := dget (qv_metadata e) ''claimedBy'',
            rr_priority := event_priority e, rr_review_due_at := event_due_at env e\<rparr>)"

definition action_mismatch :: "string \<Rightarrow> q_action \<Rightarrow> string option \<Rightarrow> q_event \<Rightarrow> bool" where
  "action_mismatch operator act expected e \<longleftrightarrow>
     qv_actor e \<noteq> operator \<or> qv_action e \<noteq> act \<or>
     (case expected of
        Some oc \<Rightarrow> qv_event_outcome e \<noteq> Some oc
      | None \<Rightarrow> act = QA_REPROCESS \<and> qv_event_outcome e = Some ''CLAIMED'')"

definition replayed_action ::
  "q_env \<Rightarrow> uuid \<Rightarrow> string \<Rightarrow> string \<Rightarrow> q_action \<Rightarrow> string option \<Rightarrow> q_store
     \<Rightarrow> q_error + resolution_result option" where
  "replayed_action env rid action_id operator act expected ds =
     (case find_action rid action_id ds of
        Inl e \<Rightarrow> Inl e
      | Inr None \<Rightarrow> Inr None
      | Inr (Some e) \<Rightarrow>
          Inr (Some
            (if action_mismatch operator act expected e
             then (new_result rid False (Some (qv_to e)) ''ACTION_ID_REUSE_CONFLICT'' act
                     (Some ''Action ID was already used by another operator action.''))
                    \<lparr>rr_action_id := Some action_id, rr_previous_status := Some (qv_from e),
                     rr_attempt_count := Some (qv_attempt e)\<rparr>
             else result_from_event env rid e)))"

definition missing_record :: "uuid \<Rightarrow> q_action \<Rightarrow> resolution_result" where
  "missing_record rid act =
     new_result rid False None ''RECORD_NOT_FOUND'' act (Some ''Quarantine record was not found.'')"

definition stale_record :: "q_doc \<Rightarrow> q_action \<Rightarrow> resolution_result" where
  "stale_record d act =
     (new_result (qd_id d) False (Some (qd_status d)) ''STALE_STATUS'' act
        (Some ''Quarantine record status no longer matches the expected status.''))
       \<lparr>rr_previous_status := Some (qd_status d), rr_attempt_count := Some (qd_attempt_count d),
        rr_escalation_level := level_value d\<rparr>"

text \<open>The refusals of a record that was read and is left as it is.\<close>

definition refused :: "q_doc \<Rightarrow> uuid \<Rightarrow> string \<Rightarrow> string \<Rightarrow> q_action \<Rightarrow> string \<Rightarrow> resolution_result" where
  "refused d rid action_id oc act reason =
     (new_result rid False (Some (qd_status d)) oc act (Some reason))
       \<lparr>rr_action_id := Some action_id, rr_previous_status := Some (qd_status d),
        rr_attempt_count := Some (qd_attempt_count d), rr_escalation_level := level_value d\<rparr>"

section \<open>Audit\<close>

definition record_error_code :: "q_env \<Rightarrow> q_doc \<Rightarrow> string" where
  "record_error_code env d =
     (case List.find (\<lambda>e. truthy (any_error_code e)) (qd_errors d) of
        None \<Rightarrow> ''UNSPECIFIED''
      | Some e \<Rightarrow> (case any_error_code e of VStr s \<Rightarrow> s | v \<Rightarrow> qe_str env v))"

definition emit_audit ::
  "q_env \<Rightarrow> string \<Rightarrow> q_doc \<Rightarrow> string \<Rightarrow> string \<Rightarrow> string \<Rightarrow> q_status \<Rightarrow> q_status \<Rightarrow> string
     \<Rightarrow> q_world \<Rightarrow> q_world" where
  "emit_audit env act d actor reason action_id previous new oc w =
     (if \<not> qe_audits env then w
      else w\<lparr>qw_audit := qw_audit w @
               [\<lparr>ae_action = act, ae_record_id = qd_id d, ae_actor = actor,
                 ae_reason = take 500 (py_strip reason), ae_action_id = action_id,
                 ae_previous_status = previous, ae_new_status = new, ae_outcome = oc,
                 ae_error_code = record_error_code env d, ae_attempt = qd_attempt_count d\<rparr>]\<rparr>)"

section \<open>Claiming\<close>

definition claim_refused :: "uuid \<Rightarrow> string \<Rightarrow> q_doc \<Rightarrow> resolution_result" where
  "claim_refused rid action_id d =
     (new_result rid False (Some Q_PENDING) ''CLAIM_NOT_ACQUIRED'' QA_REPROCESS
        (Some ''Quarantine record could not be claimed.''))
       \<lparr>rr_action_id := Some action_id, rr_previous_status := Some Q_PENDING,
        rr_attempt_count := Some (qd_attempt_count d)\<rparr>"

definition claim_acquired :: "uuid \<Rightarrow> string \<Rightarrow> q_doc \<Rightarrow> resolution_result" where
  "claim_acquired rid action_id d =
     (new_result rid True (Some Q_REPROCESSING) ''CLAIMED'' QA_REPROCESS None)
       \<lparr>rr_action_id := Some action_id, rr_previous_status := Some Q_PENDING,
        rr_attempt_count := Some (qd_attempt_count d), rr_escalation_level := level_value d,
        rr_claimed_by := opt_text (qd_claimed_by d), rr_priority := Some (qd_priority d),
        rr_review_due_at := qd_review_due_at d\<rparr>"

text \<open>The default lease of the repository is 900 seconds.\<close>

definition claim_pending ::
  "q_env \<Rightarrow> q_clock \<Rightarrow> uuid \<Rightarrow> uuid \<Rightarrow> string \<Rightarrow> string \<Rightarrow> q_doc \<Rightarrow> q_world \<Rightarrow> service_result \<times> q_world" where
  "claim_pending env ck eid rid operator action_id current w =
     (let (r, ds) = claim (qe_isofmt env) eid rid operator 900 (Some action_id) (qc_write ck)
                      (find_by_id rid (qw_docs w)) (qw_docs w);
          w = w\<lparr>qw_docs := ds\<rparr>
      in case r of
           Inl e \<Rightarrow> (Inl (SE_Repository e), w)
         | Inr None \<Rightarrow> (Inr (claim_refused rid action_id current), w)
         | Inr (Some d) \<Rightarrow>
             (Inr (claim_acquired rid action_id d),
              emit_audit env ''QUARANTINE_CLAIMED'' d operator
                ''Quarantine record claimed for processing.'' action_id Q_PENDING Q_REPROCESSING
                ''CLAIMED'' w))"

definition service_claim ::
  "q_env \<Rightarrow> q_clock \<Rightarrow> uuid \<Rightarrow> uuid \<Rightarrow> string \<Rightarrow> string \<Rightarrow> q_status \<Rightarrow> q_world
     \<Rightarrow> service_result \<times> q_world" where
  "service_claim env ck eid rid operator action_id expected w =
     (case replayed_action env rid action_id operator QA_REPROCESS (Some ''CLAIMED'') (qw_docs w) of
        Inl e \<Rightarrow> (Inl (SE_Repository e), w)
      | Inr (Some r) \<Rightarrow> (Inr r, w)
      | Inr None \<Rightarrow>
          (case find_by_id rid (qw_docs w) of
             None \<Rightarrow> (Inr (missing_record rid QA_REPROCESS), w)
           | Some current \<Rightarrow>
               if expected \<noteq> Q_PENDING then (Inr (stale_record current QA_REPROCESS), w)
               else if qd_status current \<noteq> expected then
                 (if qd_status current = Q_REPROCESSING \<and> claim_expired current (qc_check ck)
                  then let (reclaimed, ds) = reclaim_expired_claim rid (qc_middle ck) (qw_docs w);
                           w = w\<lparr>qw_docs := ds\<rparr>
                       in case reclaimed of
                            None \<Rightarrow> (Inr (stale_record current QA_REPROCESS), w)
                          | Some d \<Rightarrow>
                              if qd_status d \<noteq> Q_PENDING
                              then (Inr (stale_record current QA_REPROCESS), w)
                              else claim_pending env ck eid rid operator action_id d w
                  else (Inr (stale_record current QA_REPROCESS), w))
               else claim_pending env ck eid rid operator action_id current w))"

section \<open>Closing a claim\<close>

definition with_evidence :: "pydict \<Rightarrow> bool option \<Rightarrow> pydict" where
  "with_evidence md ev =
     (case ev of None \<Rightarrow> md | Some b \<Rightarrow> dput md ''sourceEvidenceAvailable'' (VBool b))"

definition evidence_value :: "bool option \<Rightarrow> pyval" where
  "evidence_value ev = (case ev of None \<Rightarrow> VNone | Some b \<Rightarrow> VBool b)"

definition closing_result ::
  "q_doc \<Rightarrow> reprocess_request \<Rightarrow> bool \<Rightarrow> q_status \<Rightarrow> string \<Rightarrow> q_action \<Rightarrow> string \<Rightarrow> string
     \<Rightarrow> pydict list \<Rightarrow> string option \<Rightarrow> bool option \<Rightarrow> resolution_result" where
  "closing_result d rq ok st oc act reason counted errs fc ev =
     (new_result (qd_id d) ok (Some st) oc act (Some reason))
       \<lparr>rr_errors := errs, rr_quality_counters := Some (operation_counters counted),
        rr_failure_classification := fc, rr_action_id := Some (rq_action_id rq),
        rr_previous_status := Some Q_REPROCESSING, rr_attempt_count := Some (qd_attempt_count d),
        rr_source_evidence_available := evidence_value ev, rr_escalation_level := level_value d,
        rr_priority := Some (qd_priority d), rr_review_due_at := qd_review_due_at d\<rparr>"

definition service_release ::
  "q_env \<Rightarrow> q_clock \<Rightarrow> uuid \<Rightarrow> q_doc \<Rightarrow> reprocess_request \<Rightarrow> string \<Rightarrow> pydict \<Rightarrow> string
     \<Rightarrow> pydict list \<Rightarrow> string \<Rightarrow> bool option \<Rightarrow> q_world \<Rightarrow> service_result \<times> q_world" where
  "service_release env ck eid d rq reason md oc errs fc ev w =
     (let (r, ds) = release_for_retry eid (rq_record_id rq) (rq_operator_id rq) reason
                      (with_evidence md ev) (Some (rq_action_id rq)) (Some oc) (qc_write ck)
                      (find_by_id (rq_record_id rq) (qw_docs w)) (qw_docs w);
          w = w\<lparr>qw_docs := ds\<rparr>
      in case r of
           Inl e \<Rightarrow> (Inl (SE_Repository e), w)
         | Inr released \<Rightarrow>
             (Inr (closing_result d rq False (if released then Q_PENDING else Q_REPROCESSING) oc
                     (action_for (rq_mode rq)) reason oc errs (Some fc) ev),
              if released
              then emit_audit env ''QUARANTINE_RETRY_SCHEDULED'' d (rq_operator_id rq) reason
                     (rq_action_id rq) Q_REPROCESSING Q_PENDING oc w
              else w))"

fun resolve_audit_action :: "q_action \<Rightarrow> string" where
  "resolve_audit_action QA_REPROCESS = ''QUARANTINE_REPROCESSED''"
| "resolve_audit_action QA_ACCEPT_EXISTING = ''QUARANTINE_ACCEPTED_EXISTING''"
| "resolve_audit_action _ = ''QUARANTINE_REJECTED''"

definition terminal_resolve ::
  "q_env \<Rightarrow> q_clock \<Rightarrow> uuid \<Rightarrow> q_doc \<Rightarrow> reprocess_request \<Rightarrow> q_status \<Rightarrow> q_action \<Rightarrow> string
     \<Rightarrow> pydict \<Rightarrow> string \<Rightarrow> string option \<Rightarrow> bool option \<Rightarrow> q_world \<Rightarrow> service_result \<times> q_world" where
  "terminal_resolve env ck eid d rq target act reason md oc fc ev w =
     (let (r, ds) = resolve (qe_policy env) eid (rq_record_id rq) target (rq_operator_id rq) act reason
                      (with_evidence md ev) (Some (rq_action_id rq)) (Some oc) (qc_write ck)
                      (find_by_id (rq_record_id rq) (qw_docs w)) (qw_docs w);
          w = w\<lparr>qw_docs := ds\<rparr>
      in case r of
           Inl e \<Rightarrow> (Inl (SE_Repository e), w)
         | Inr ok \<Rightarrow>
             (Inr (closing_result d rq ok (if ok then target else Q_REPROCESSING)
                     (if ok then oc else ''RESOLUTION_CONFLICT'') act reason oc [] fc ev),
              if ok
              then emit_audit env (resolve_audit_action act) d (rq_operator_id rq) reason
                     (rq_action_id rq) Q_REPROCESSING target oc w
              else w))"

abbreviation deterministic_failure :: string where
  "deterministic_failure \<equiv> ''DETERMINISTIC_RESOLUTION_FAILURE''"

abbreviation infrastructure_failure :: string where
  "infrastructure_failure \<equiv> ''RETRYABLE_INFRASTRUCTURE''"

abbreviation dependency_failed :: string where
  "dependency_failed \<equiv> ''Quarantine reprocess dependency failed.''"

definition accept_existing ::
  "q_env \<Rightarrow> q_clock \<Rightarrow> uuid \<Rightarrow> q_doc \<Rightarrow> reprocess_request \<Rightarrow> q_world \<Rightarrow> service_result \<times> q_world" where
  "accept_existing env ck eid d rq w =
     (let mismatch =
            service_release env ck eid d rq
              ''Existing transaction fingerprint no longer matches quarantine evidence.'' []
              ''FINGERPRINT_MISMATCH'' [] deterministic_failure None w
      in if rq_expected_existing_fingerprint rq \<noteq> None \<and>
            rq_expected_existing_fingerprint rq \<noteq> qd_existing_fingerprint d then mismatch
         else case qe_fingerprint env of
           None \<Rightarrow>
             service_release env ck eid d rq
               ''Existing transaction fingerprint could not be verified.'' []
               ''FINGERPRINT_UNAVAILABLE'' [] deterministic_failure None w
         | Some reader \<Rightarrow>
             (case reader d of
                None \<Rightarrow>
                  service_release env ck eid d rq dependency_failed [] ''RETRYABLE_FAILURE'' []
                    infrastructure_failure None w
              | Some current \<Rightarrow>
                  if \<not> str_truthy current \<or> current \<noteq> qd_existing_fingerprint d then mismatch
                  else terminal_resolve env ck eid d rq Q_RESOLVED QA_ACCEPT_EXISTING
                         ''Existing transaction fingerprint accepted by operator.''
                         [(''existingFingerprint'', opt_text current)] ''ACCEPTED_EXISTING''
                         None None w))"

definition first_error :: "q_env \<Rightarrow> pydict list \<Rightarrow> string option" where
  "first_error env errs =
     (let value = (\<lambda>e. if truthy (dget e ''reason'') then dget e ''reason''
                       else if truthy (dget e ''message'') then dget e ''message''
                       else dget e ''error'')
      in case List.find (\<lambda>e. truthy (value e)) errs of
           None \<Rightarrow> None
         | Some e \<Rightarrow> Some (case value e of VStr s \<Rightarrow> s | v \<Rightarrow> qe_str env v))"

text \<open>\<open>row_number or 1\<close>\<close>

definition row_number_or_one :: "int option \<Rightarrow> int" where
  "row_number_or_one n = (case n of None \<Rightarrow> 1 | Some i \<Rightarrow> if i = 0 then 1 else i)"

text \<open>What happens to a replayed row once it is known to be valid: the write decides.\<close>

definition finish_write ::
  "q_env \<Rightarrow> q_clock \<Rightarrow> uuid \<Rightarrow> q_doc \<Rightarrow> reprocess_request \<Rightarrow> resolved_input \<Rightarrow> bool
     \<Rightarrow> batch_result \<Rightarrow> q_world \<Rightarrow> service_result \<times> q_world" where
  "finish_write env ck eid d rq input ev b w =
     (if 0 < br_conflicting_duplicates b then
        service_release env ck eid d rq
          ''Reprocessed row still conflicts with an existing transaction.''
          [(''conflictingDuplicates'', VInt (int (br_conflicting_duplicates b)))]
          ''CONFLICT_REMAINS'' [] deterministic_failure (Some ev) w
      else if 0 < br_failed b then
        service_release env ck eid d rq ''Transaction persistence reported a failed write.'' []
          ''RETRYABLE_FAILURE'' [] infrastructure_failure (Some ev) w
      else
        terminal_resolve env ck eid d rq Q_RESOLVED QA_REPROCESS
          (if 0 < br_equivalent_duplicates b
           then ''Reprocess produced an equivalent existing transaction.''
           else ''Quarantine row reprocessed successfully.'')
          [(''origin'', VStr (in_origin input)),
           (''mappingVersion'', opt_text (in_mapping_version input)),
           (''sourceEvidenceAvailable'', VBool ev)]
          (if 0 < br_equivalent_duplicates b then ''EQUIVALENT_DUPLICATE'' else ''RESOLVED'')
          None (Some ev) w)"

definition replay_row ::
  "q_env \<Rightarrow> q_clock \<Rightarrow> uuid \<Rightarrow> q_doc \<Rightarrow> reprocess_request \<Rightarrow> resolved_input \<Rightarrow> q_world
     \<Rightarrow> service_result \<times> q_world" where
  "replay_row env ck eid d rq input w =
     (let ev = in_origin input \<in> {''AUTHORITATIVE_SOURCE_FILE'', ''STAGED_RAW_PAGE''};
          dependency = service_release env ck eid d rq dependency_failed [] ''RETRYABLE_FAILURE'' []
                         infrastructure_failure (Some ev)
      in case qe_process env d rq (in_row input) (row_number_or_one (in_row_number input)) of
           None \<Rightarrow> dependency w
         | Some p \<Rightarrow>
             (case (pw_valid p, pw_container p) of
                (True, Some row) \<Rightarrow>
                  (case qe_persist env row (qw_table w) of
                     (None, t) \<Rightarrow> dependency (w\<lparr>qw_table := t\<rparr>)
                   | (Some b, t) \<Rightarrow> finish_write env ck eid d rq input ev b (w\<lparr>qw_table := t\<rparr>))
              | _ \<Rightarrow>
                  service_release env ck eid d rq
                    (case str_or (first_error env (pw_errors p))
                            (Some ''Deterministic row validation failed.'') of
                       Some r \<Rightarrow> r | None \<Rightarrow> [])
                    [(''errors'', VList (map VDict (pw_errors p)))] ''VALIDATION_FAILED''
                    (pw_errors p) deterministic_failure (Some ev) w))"

text \<open>Everything after the reservation.\<close>

definition resolve_reserved ::
  "q_env \<Rightarrow> q_clock \<Rightarrow> uuid \<Rightarrow> q_doc \<Rightarrow> reprocess_request \<Rightarrow> q_world \<Rightarrow> service_result \<times> q_world" where
  "resolve_reserved env ck eid d rq w =
     (case rq_mode rq of
        RM_REJECT \<Rightarrow>
          terminal_resolve env ck eid d rq Q_REJECTED QA_REJECT
            (py_strip (case rq_reason rq of None \<Rightarrow> [] | Some r \<Rightarrow> r)) [] ''REJECTED''
            (Some ''TERMINAL_OPERATOR_REJECTION'') None w
      | RM_ACCEPT_EXISTING \<Rightarrow> accept_existing env ck eid d rq w
      | _ \<Rightarrow>
          (case resolve_reprocess_input env d rq of
             Raised_Other \<Rightarrow> (Inl SE_Reader, w)
           | Raised_Value_Error \<Rightarrow>
               (if rq_mode rq = RM_CORRECTED_ROW
                then service_release env ck eid d rq
                       ''A corrected row is required for this resolution.'' []
                       ''CORRECTED_ROW_REQUIRED'' [] deterministic_failure (Some False) w
                else service_release env ck eid d rq
                       ''Authoritative source evidence is unavailable for replay.'' []
                       ''SOURCE_EVIDENCE_UNAVAILABLE'' [] deterministic_failure (Some False) w)
           | Returned input \<Rightarrow> replay_row env ck eid d rq input w))"

definition in_progress_outcome :: "reservation \<Rightarrow> string" where
  "in_progress_outcome res =
     (if res = RES_IN_PROGRESS then ''ACTION_IN_PROGRESS'' else ''ACTION_ID_REUSE_CONFLICT'')"

text \<open>\<open>refusal\<close> gathers the checks the code makes on the record before it reserves the action.\<close>

definition refusal :: "q_clock \<Rightarrow> reprocess_request \<Rightarrow> q_doc \<Rightarrow> resolution_result option" where
  "refusal ck rq d =
     (let act = action_for (rq_mode rq); rid = rq_record_id rq; aid = rq_action_id rq
      in if rq_expected_status rq \<noteq> Q_REPROCESSING \<or> qd_status d \<noteq> rq_expected_status rq
         then Some (stale_record d act)
         else if qd_claimed_by d \<noteq> Some (rq_operator_id rq)
         then Some (refused d rid aid ''WRONG_OWNER'' act
                      ''Quarantine record is claimed by another operator.'')
         else if claim_expired d (qc_check ck)
         then Some (refused d rid aid ''CLAIM_EXPIRED'' act
                      ''The operator claim has expired and can no longer mutate the record.'')
         else if rq_mode rq = RM_REJECT \<and>
                 py_strip (case rq_reason rq of None \<Rightarrow> [] | Some r \<Rightarrow> r) = []
         then Some (refused d rid aid ''REASON_REQUIRED'' act
                      ''Operator reason is required for rejection.'')
         else None)"

definition resolve_claimed ::
  "q_env \<Rightarrow> q_clock \<Rightarrow> uuid \<Rightarrow> reprocess_request \<Rightarrow> q_world \<Rightarrow> service_result \<times> q_world" where
  "resolve_claimed env ck eid rq w =
     (let act = action_for (rq_mode rq); rid = rq_record_id rq; aid = rq_action_id rq;
          op = rq_operator_id rq
      in case replayed_action env rid aid op act None (qw_docs w) of
           Inl e \<Rightarrow> (Inl (SE_Repository e), w)
         | Inr (Some r) \<Rightarrow> (Inr r, w)
         | Inr None \<Rightarrow>
             (case find_by_id rid (qw_docs w) of
                None \<Rightarrow> (Inr (missing_record rid act), w)
              | Some d \<Rightarrow>
                  (case refusal ck rq d of
                     Some r \<Rightarrow> (Inr r, w)
                   | None \<Rightarrow>
                       (case reserve_action rid op aid act (qc_middle ck) (qw_docs w) of
                          (Inl e, ds) \<Rightarrow> (Inl (SE_Repository e), w\<lparr>qw_docs := ds\<rparr>)
                        | (Inr RES_RESERVED, ds) \<Rightarrow>
                            resolve_reserved env ck eid d rq (w\<lparr>qw_docs := ds\<rparr>)
                        | (Inr res, ds) \<Rightarrow>
                            (let conflict =
                                   refused d rid aid (in_progress_outcome res) act
                                     ''The operator action is already being processed.''
                             in if res = RES_COMPLETED
                                then (case replayed_action env rid aid op act None ds of
                                        Inl e \<Rightarrow> (Inl (SE_Repository e), w\<lparr>qw_docs := ds\<rparr>)
                                      | Inr (Some r) \<Rightarrow> (Inr r, w\<lparr>qw_docs := ds\<rparr>)
                                      | Inr None \<Rightarrow> (Inr conflict, w\<lparr>qw_docs := ds\<rparr>))
                                else (Inr conflict, w\<lparr>qw_docs := ds\<rparr>))))))"

section \<open>Claim and resolve in one call\<close>

definition service_resolve ::
  "q_env \<Rightarrow> q_clock \<Rightarrow> q_clock \<Rightarrow> uuid \<Rightarrow> uuid \<Rightarrow> reprocess_request \<Rightarrow> q_world
     \<Rightarrow> service_result \<times> q_world" where
  "service_resolve env ck ck' eid eid' rq w =
     (case service_claim env ck eid (rq_record_id rq) (rq_operator_id rq)
             (take 120 (rq_action_id rq) @ '':claim'') (rq_expected_status rq) w of
        (Inl e, w') \<Rightarrow> (Inl e, w')
      | (Inr r, w') \<Rightarrow>
          if \<not> rr_success r then (Inr r, w')
          else resolve_claimed env ck' eid' (rq\<lparr>rq_expected_status := Q_REPROCESSING\<rparr>) w')"

section \<open>Escalating\<close>

definition service_escalate ::
  "q_env \<Rightarrow> q_clock \<Rightarrow> uuid \<Rightarrow> uuid \<Rightarrow> string \<Rightarrow> string \<Rightarrow> q_status \<Rightarrow> string \<Rightarrow> q_world
     \<Rightarrow> service_result \<times> q_world" where
  "service_escalate env ck eid rid operator action_id expected reason w =
     (let act = QA_ESCALATE
      in case replayed_action env rid action_id operator act None (qw_docs w) of
           Inl e \<Rightarrow> (Inl (SE_Repository e), w)
         | Inr (Some r) \<Rightarrow> (Inr r, w)
         | Inr None \<Rightarrow>
             (case find_by_id rid (qw_docs w) of
                None \<Rightarrow> (Inr (missing_record rid act), w)
              | Some d \<Rightarrow>
                  if qd_status d \<noteq> expected \<or> expected \<notin> {Q_PENDING, Q_REPROCESSING}
                  then (Inr (stale_record d act), w)
                  else if qd_status d = Q_REPROCESSING \<and> qd_claimed_by d \<noteq> Some operator
                  then (Inr (refused d rid action_id ''WRONG_OWNER'' act
                               ''Quarantine record is claimed by another operator.''), w)
                  else if qd_status d = Q_REPROCESSING \<and> claim_expired d (qc_check ck)
                  then (Inr (refused d rid action_id ''CLAIM_EXPIRED'' act
                               ''The operator claim has expired and can no longer mutate the record.''), w)
                  else if py_strip reason = []
                  then (Inr (refused d rid action_id ''REASON_REQUIRED'' act
                               ''Operator reason is required for escalation.''), w)
                  else let (r, ds) = escalate (qe_isofmt env) eid rid operator action_id expected reason
                                       (qc_write ck) (find_by_id rid (qw_docs w)) (qw_docs w);
                           w = w\<lparr>qw_docs := ds\<rparr>
                       in case r of
                            Inl e \<Rightarrow> (Inl (SE_Repository e), w)
                          | Inr None \<Rightarrow>
                              (Inr (refused d rid action_id ''ESCALATION_CONFLICT'' act
                                      ''Quarantine record could not be escalated.''), w)
                          | Inr (Some x) \<Rightarrow>
                              (Inr ((new_result rid True (Some (qd_status d)) ''ESCALATED'' act
                                       (Some (take 500 (py_strip reason))))
                                      \<lparr>rr_action_id := Some action_id,
                                       rr_previous_status := Some (qd_status d),
                                       rr_attempt_count := Some (qd_attempt_count d),
                                       rr_escalation_level := level_value x,
                                       rr_claimed_by := opt_text (qd_claimed_by x),
                                       rr_priority := Some (qd_priority x),
                                       rr_review_due_at := qd_review_due_at x\<rparr>),
                               emit_audit env ''QUARANTINE_ESCALATED'' d operator reason action_id
                                 (qd_status d) (qd_status d) ''ESCALATED'' w)))"

end
