(* ===== verification/QuarantineServiceProps.thy ===== *)
theory QuarantineServiceProps
  imports QuarantineService
begin

text \<open>
  The properties of the quarantine service: what it reports is what is stored, a repeated
  request is answered from the history, and a reservation that outlives its lease blocks every
  later resolution.
\<close>

section \<open>Sequential effect of the repository operations\<close>

abbreviation unique_ids :: "q_store \<Rightarrow> bool" where
  "unique_ids ds \<equiv> distinct (map qd_id ds)"

lemma find_other:
  assumes "\<And>d. flt d \<Longrightarrow> qd_id d = k" and "k \<noteq> rid" and "\<And>d. qd_id (upd d) = qd_id d"
  shows "find_by_id rid (update_first flt upd ds) = find_by_id rid ds"
  using assms by (induction ds) (auto simp: find_by_id_def)

lemma find_guarded_update:
  assumes "unique_ids ds" and "\<And>d. flt d \<longleftrightarrow> qd_id d = rid \<and> g d" and "\<And>d. qd_id (upd d) = qd_id d"
  shows "find_by_id rid (update_first flt upd ds)
    = map_option (\<lambda>d. if g d then upd d else d) (find_by_id rid ds)"
proof -
  have "flt = (\<lambda>d. qd_id d = rid \<and> g d)" using assms(2) by auto
  then show ?thesis
    using find_update_first [OF assms(1), where f = upd and k = rid and g = g and k' = rid] assms(3)
    by (simp add: find_by_id_def)
qed

lemma update_doc_guarded:
  assumes "unique_ids ds" and "\<And>d. flt d \<longleftrightarrow> qd_id d = rid \<and> g d" and "\<And>d. upd d \<noteq> d"
    and "\<And>d. qd_id (upd d) = qd_id d" and "update_doc flt upd ds = (b, ds')"
  shows "(b \<and> (\<exists>d. find_by_id rid ds = Some d \<and> g d \<and> find_by_id rid ds' = Some (upd d))) \<or>
    (\<not> b \<and> ds' = ds)"
proof -
  have flt: "flt = (\<lambda>d. qd_id d = rid \<and> g d)" using assms(2) by auto
  have "List.find flt ds = (case find_by_id rid ds of None \<Rightarrow> None | Some d \<Rightarrow> if g d then Some d else None)"
    using find_update_guard [OF assms(1), of rid g] by (simp add: flt find_by_id_def)
  moreover note find_guarded_update [OF assms(1,2,4)]
  moreover have "ds' = update_first flt upd ds" by (rule update_doc_docs [OF assms(5)])
  ultimately show ?thesis
    using assms(3,5) by (auto simp: update_doc_def split: option.splits if_splits)
qed

text \<open>What an owner who reads the stored record and closes its claim does.\<close>

definition owner_guard :: "string \<Rightarrow> string option \<Rightarrow> datetime \<Rightarrow> q_doc option \<Rightarrow> q_doc \<Rightarrow> bool" where
  "owner_guard operator aid now seen d \<longleftrightarrow>
     qd_status d = Q_REPROCESSING \<and> qd_claimed_by d = Some operator \<and> fresh_action aid d \<and>
      (case seen of None \<Rightarrow> True
       | Some cur \<Rightarrow> qd_claim_expires_at cur = None \<or>
           (case qd_claim_expires_at d of None \<Rightarrow> False | Some t \<Rightarrow> now < t))"

lemma owner_filter_guard:
  "owner_filter rid operator aid now seen d \<longleftrightarrow> qd_id d = rid \<and> owner_guard operator aid now seen d"
  by (simp add: owner_filter_def owner_guard_def)

lemma bounded_some: "bounded_action_id_opt (Some a) = Inr x \<Longrightarrow> x = Some (py_strip a)"
  by (auto simp: bounded_action_id_opt_def bounded_action_id_def Let_def split: if_splits sum.splits)

lemma update_ids [simp]:
  "qd_id (release_update r aid now ev d) = qd_id d"
  "qd_id (resolve_update t md u aid now ev d) = qd_id d"
  by (simp_all add: release_update_def resolve_update_def)

lemma resolve_effect:
  assumes "unique_ids ds"
    and "resolve policy eid rid target operator action reason md (Some a) oc now (find_by_id rid ds) ds
      = (r, ds')"
  shows "(r = Inr True \<and> terminal target \<and>
      (\<exists>d u. find_by_id rid ds = Some d \<and> qd_status d = Q_REPROCESSING \<and>
         find_by_id rid ds' = Some (resolve_update target md u (Some (py_strip a)) now
           (resolve_event eid target operator action reason (Some (py_strip a)) oc md now d) d))) \<or>
    (r \<noteq> Inr True \<and> ds' = ds)"
proof (cases "ds' = ds \<and> r \<noteq> Inr True")
  case False
  then obtain n b where n: "days_for policy target = Inr n"
    and own: "owns_claim operator now (find_by_id rid ds)"
    and w: "update_doc (owner_filter rid operator (Some (py_strip a)) now (find_by_id rid ds))
        (resolve_update target md (now + days n) (Some (py_strip a)) now
          (resolve_event eid target operator action reason (Some (py_strip a)) oc md now
            (the (find_by_id rid ds)))) ds = (b, ds')" "r = Inr b"
    using assms(2) by (auto simp: resolve_def split: sum.splits if_splits prod.splits
        dest!: check_event_Inr bounded_some)
  have "terminal target" using n by (cases target) (simp_all add: terminal_def)
  moreover from update_doc_guarded [OF assms(1) owner_filter_guard _ _ w(1)]
  have "(b \<and> (\<exists>d. find_by_id rid ds = Some d \<and> owner_guard operator (Some (py_strip a)) now (find_by_id rid ds) d \<and>
      find_by_id rid ds' = Some (resolve_update target md (now + days n) (Some (py_strip a)) now
          (resolve_event eid target operator action reason (Some (py_strip a)) oc md now
            (the (find_by_id rid ds))) d))) \<or> (\<not> b \<and> ds' = ds)" by simp
  ultimately show ?thesis using False w(2) by (auto simp: owner_guard_def)
qed simp

lemma release_effect:
  assumes "unique_ids ds"
    and "release_for_retry eid rid operator reason md (Some a) oc now (find_by_id rid ds) ds = (r, ds')"
  shows "(r = Inr True \<and>
      (\<exists>d. find_by_id rid ds = Some d \<and> qd_status d = Q_REPROCESSING \<and>
         find_by_id rid ds' = Some (release_update (bounded_text reason) (Some (py_strip a)) now
           (release_event eid operator (bounded_text reason) (Some (py_strip a)) oc md now d) d))) \<or>
    (r \<noteq> Inr True \<and> ds' = ds)"
proof (cases "ds' = ds \<and> r \<noteq> Inr True")
  case False
  then obtain b where w: "update_doc (owner_filter rid operator (Some (py_strip a)) now (find_by_id rid ds))
        (release_update (bounded_text reason) (Some (py_strip a)) now
          (release_event eid operator (bounded_text reason) (Some (py_strip a)) oc md now
            (the (find_by_id rid ds)))) ds = (b, ds')" "r = Inr b"
    using assms(2) by (auto simp: release_for_retry_def split: sum.splits if_splits prod.splits
        dest!: check_event_Inr bounded_some)
  from update_doc_guarded [OF assms(1) owner_filter_guard _ _ w(1)]
  have "(b \<and> (\<exists>d. find_by_id rid ds = Some d \<and> owner_guard operator (Some (py_strip a)) now (find_by_id rid ds) d \<and>
      find_by_id rid ds' = Some (release_update (bounded_text reason) (Some (py_strip a)) now
          (release_event eid operator (bounded_text reason) (Some (py_strip a)) oc md now
            (the (find_by_id rid ds))) d))) \<or> (\<not> b \<and> ds' = ds)" by simp
  then show ?thesis using False w(2) by (auto simp: owner_guard_def)
qed simp

lemma reserve_effect:
  assumes "unique_ids ds" and "reserve_action rid operator a action now ds = (Inr res, ds')"
  shows "(res = RES_RESERVED \<and>
      (\<exists>d. find_by_id rid ds = Some d \<and> qd_active d = None \<and>
         find_by_id rid ds' = Some (reserve_update operator (py_strip a) action now d))) \<or>
    (res \<noteq> RES_RESERVED \<and> ds' = ds)"
proof -
  let ?g = "\<lambda>d. qd_status d = Q_REPROCESSING \<and> qd_claimed_by d = Some operator \<and>
    \<not> used_action (py_strip a) d \<and> qd_active d = None"
  have aid: "bounded_action_id a = Inr (py_strip a)"
    using assms(2) by (auto simp: reserve_action_def bounded_action_id_def Let_def split: if_splits)
  let ?f = "reserve_filter rid operator (py_strip a)" and ?u = "reserve_update operator (py_strip a) action now"
  have flt: "?f = (\<lambda>d. qd_id d = rid \<and> ?g d)" by (auto simp: reserve_filter_def)
  have "List.find ?f ds = (case find_by_id rid ds of None \<Rightarrow> None | Some d \<Rightarrow> if ?g d then Some d else None)"
    using find_update_guard [OF assms(1), of rid ?g] by (simp only: flt find_by_id_def)
  moreover have "find_by_id rid (update_first ?f ?u ds)
      = map_option (\<lambda>d. if ?g d then ?u d else d) (find_by_id rid ds)"
    by (rule find_guarded_update [OF assms(1)]) (auto simp: reserve_filter_def reserve_update_def)
  ultimately show ?thesis
    using assms(2) by (auto simp: reserve_action_def aid find_and_update_doc_def
        split: option.splits if_splits)
qed

section \<open>Every way a claim is closed\<close>

text \<open>
  The result of one closing call tells the stored status; a success is terminal, and its event
  carries the request's action id, operator and action and the reported outcome.
\<close>

definition own_event :: "reprocess_request \<Rightarrow> resolution_result \<Rightarrow> q_status \<Rightarrow> q_action \<Rightarrow> q_event \<Rightarrow> bool" where
  "own_event rq r st act e \<longleftrightarrow>
     qv_action_id e = Some (py_strip (rq_action_id rq)) \<and> qv_actor e = rq_operator_id rq \<and>
     qv_action e = act \<and> qv_event_outcome e = Some (rr_outcome r) \<and>
     rr_outcome r \<notin> {[], ''CLAIMED'', ''ESCALATED''} \<and> qv_to e = st"

definition closing_action :: "reprocess_request \<Rightarrow> q_status \<Rightarrow> q_action" where
  "closing_action rq st = (if terminal st then action_for (rq_mode rq) else QA_REPROCESS)"

definition closes :: "reprocess_request \<Rightarrow> q_doc \<Rightarrow> service_result \<times> q_world \<Rightarrow> bool" where
  "closes rq d x \<longleftrightarrow>
     (case x of (Inl e, w') \<Rightarrow> True
      | (Inr r, w') \<Rightarrow>
          (case find_by_id (rq_record_id rq) (qw_docs w') of
             None \<Rightarrow> False
           | Some d' \<Rightarrow> rr_status r = Some (qd_status d') \<and>
             (rr_success r \<longleftrightarrow> terminal (qd_status d')) \<and>
             (qd_status d' \<noteq> Q_REPROCESSING \<longrightarrow>
                (\<exists>e. qd_history d' = qd_history d @ [e] \<and>
                   own_event rq r (qd_status d') (closing_action rq (qd_status d')) e))))"

text \<open>The outcomes of a closing call are never those of a claim or an escalation.\<close>

definition closing_outcome :: "string \<Rightarrow> bool" where
  "closing_outcome oc \<longleftrightarrow> oc \<notin> {[], ''CLAIMED'', ''ESCALATED''}"

lemma closing_outcomes [simp]:
  "closing_outcome ''FINGERPRINT_MISMATCH''" "closing_outcome ''FINGERPRINT_UNAVAILABLE''"
  "closing_outcome ''RETRYABLE_FAILURE''" "closing_outcome ''CONFLICT_REMAINS''"
  "closing_outcome ''VALIDATION_FAILED''" "closing_outcome ''CORRECTED_ROW_REQUIRED''"
  "closing_outcome ''SOURCE_EVIDENCE_UNAVAILABLE''" "closing_outcome ''REJECTED''"
  "closing_outcome ''ACCEPTED_EXISTING''" "closing_outcome ''EQUIVALENT_DUPLICATE''"
  "closing_outcome ''RESOLVED''"
  by (simp_all add: closing_outcome_def)

definition reserved :: "reprocess_request \<Rightarrow> q_doc \<Rightarrow> q_world \<Rightarrow> bool" where
  "reserved rq d w \<longleftrightarrow>
     unique_ids (qw_docs w) \<and> find_by_id (rq_record_id rq) (qw_docs w) = Some d \<and>
     qd_status d = Q_REPROCESSING"

lemma reserved_table [simp]: "reserved rq d (w\<lparr>qw_table := t\<rparr>) = reserved rq d w"
  by (simp add: reserved_def)

lemma emit_audit_docs [simp]:
  "qw_docs (emit_audit env x d a b c p n oc w) = qw_docs w"
  "qw_table (emit_audit env x d a b c p n oc w) = qw_table w"
  by (simp_all add: emit_audit_def)

lemma closing_result_simps [simp]:
  "rr_success (closing_result d rq ok st oc act reason counted errs fc ev) = ok"
  "rr_status (closing_result d rq ok st oc act reason counted errs fc ev) = Some st"
  "rr_outcome (closing_result d rq ok st oc act reason counted errs fc ev) = oc"
  by (simp_all add: closing_result_def new_result_def)

lemma not_terminal [simp]: "\<not> terminal Q_PENDING" "\<not> terminal Q_REPROCESSING"
  by (simp_all add: terminal_def)

lemma service_release_closes:
  assumes "reserved rq d w" and "closing_outcome oc"
  shows "closes rq d (service_release env ck eid d0 rq reason md oc errs fc ev w)"
proof -
  obtain r ds where r: "release_for_retry eid (rq_record_id rq) (rq_operator_id rq) reason
      (with_evidence md ev) (Some (rq_action_id rq)) (Some oc) (qc_write ck)
      (find_by_id (rq_record_id rq) (qw_docs w)) (qw_docs w) = (r, ds)"
    by (cases "release_for_retry eid (rq_record_id rq) (rq_operator_id rq) reason
      (with_evidence md ev) (Some (rq_action_id rq)) (Some oc) (qc_write ck)
      (find_by_id (rq_record_id rq) (qw_docs w)) (qw_docs w)") auto
  have "unique_ids (qw_docs w)" using assms by (simp add: reserved_def)
  note eff = release_effect [OF this r]
  have eq: "service_release env ck eid d0 rq reason md oc errs fc ev w =
    (case r of Inl e \<Rightarrow> (Inl (SE_Repository e), w\<lparr>qw_docs := ds\<rparr>)
     | Inr released \<Rightarrow>
         (Inr (closing_result d0 rq False (if released then Q_PENDING else Q_REPROCESSING) oc
                 (action_for (rq_mode rq)) reason oc errs (Some fc) ev),
          if released
          then emit_audit env ''QUARANTINE_RETRY_SCHEDULED'' d0 (rq_operator_id rq) reason
                 (rq_action_id rq) Q_REPROCESSING Q_PENDING oc (w\<lparr>qw_docs := ds\<rparr>)
          else w\<lparr>qw_docs := ds\<rparr>))"
    by (simp add: service_release_def r Let_def)
  from eff assms show ?thesis
    unfolding eq
    by (cases r) (auto simp: closes_def reserved_def release_update_def own_event_def
        release_event_def closing_action_def closing_outcome_def)
qed

lemma terminal_resolve_closes:
  assumes "reserved rq d w" and "act = action_for (rq_mode rq)" and "closing_outcome oc"
  shows "closes rq d (terminal_resolve env ck eid d0 rq target act reason md oc fc ev w)"
proof -
  obtain r ds where r: "resolve (qe_policy env) eid (rq_record_id rq) target (rq_operator_id rq) act
      reason (with_evidence md ev) (Some (rq_action_id rq)) (Some oc) (qc_write ck)
      (find_by_id (rq_record_id rq) (qw_docs w)) (qw_docs w) = (r, ds)"
    by (cases "resolve (qe_policy env) eid (rq_record_id rq) target (rq_operator_id rq) act
      reason (with_evidence md ev) (Some (rq_action_id rq)) (Some oc) (qc_write ck)
      (find_by_id (rq_record_id rq) (qw_docs w)) (qw_docs w)") auto
  have "unique_ids (qw_docs w)" using assms by (simp add: reserved_def)
  note eff = resolve_effect [OF this r]
  have eq: "terminal_resolve env ck eid d0 rq target act reason md oc fc ev w =
    (case r of Inl e \<Rightarrow> (Inl (SE_Repository e), w\<lparr>qw_docs := ds\<rparr>)
     | Inr ok \<Rightarrow>
         (Inr (closing_result d0 rq ok (if ok then target else Q_REPROCESSING)
                 (if ok then oc else ''RESOLUTION_CONFLICT'') act reason oc [] fc ev),
          if ok
          then emit_audit env (resolve_audit_action act) d0 (rq_operator_id rq) reason
                 (rq_action_id rq) Q_REPROCESSING target oc (w\<lparr>qw_docs := ds\<rparr>)
          else w\<lparr>qw_docs := ds\<rparr>))"
    by (simp add: terminal_resolve_def r Let_def)
  from eff assms show ?thesis
    unfolding eq
    by (cases r) (auto simp: closes_def reserved_def resolve_update_def own_event_def
        resolve_event_def closing_action_def closing_outcome_def)
qed

lemmas closing = service_release_closes terminal_resolve_closes

lemma accept_existing_closes:
  assumes "reserved rq d w" and "rq_mode rq = RM_ACCEPT_EXISTING"
  shows "closes rq d (accept_existing env ck eid d0 rq w)"
  using assms by (auto simp: accept_existing_def Let_def closing split: option.splits)

lemma replay_row_closes:
  assumes "reserved rq d w" and "action_for (rq_mode rq) = QA_REPROCESS"
  shows "closes rq d (replay_row env ck eid d0 rq input w)"
proof -
  have "closes rq d (finish_write env ck eid d0 rq input ev b (w\<lparr>qw_table := t\<rparr>))" for ev b t
    using assms by (simp add: finish_write_def closing)
  then show ?thesis
    using assms by (auto simp: replay_row_def Let_def closing split: option.splits prod.splits bool.splits)
qed

lemma resolve_reserved_closes:
  assumes "reserved rq d w"
  shows "closes rq d (resolve_reserved env ck eid d0 rq w)"
  using assms
  by (cases "rq_mode rq")
    (auto simp: resolve_reserved_def closing accept_existing_closes replay_row_closes closes_def [of _ _ "(Inl _, _)"]
      split: reply.splits)

section \<open>One resolution\<close>

lemma find_action_none:
  assumes "find_action rid a ds = Inr None"
  shows "replayed_action env rid a operator act ex ds = Inr None"
    and "find_by_id rid ds = Some d \<Longrightarrow> \<not> used_action (py_strip a) d"
    and "bounded_action_id a = Inr (py_strip a)"
proof -
  show "replayed_action env rid a operator act ex ds = Inr None"
    using assms by (simp add: replayed_action_def)
  show b: "bounded_action_id a = Inr (py_strip a)"
    using assms by (auto simp: find_action_def bounded_action_id_def Let_def split: if_splits)
  show "\<not> used_action (py_strip a) d" if "find_by_id rid ds = Some d"
  proof
    assume u: "used_action (py_strip a) d"
    have "d \<in> set ds \<and> qd_id d = rid" using that by (auto simp: find_by_id_def dest: find_Some_set)
    then have "List.find (\<lambda>d. qd_id d = rid \<and> used_action (py_strip a) d) ds \<noteq> None"
      using u by (auto simp: find_None_iff)
    then obtain x where x: "List.find (\<lambda>d. qd_id d = rid \<and> used_action (py_strip a) d) ds = Some x" by blast
    then have "\<exists>e \<in> set (qd_history x). qv_action_id e = Some (py_strip a)"
      by (auto simp: used_action_def dest!: find_Some_set)
    then have "List.find (\<lambda>e. qv_action_id e = Some (py_strip a)) (qd_history x) \<noteq> None"
      by (auto simp: find_None_iff)
    with assms x show False by (simp add: find_action_def b)
  qed
qed

lemma find_action_event:
  assumes "unique_ids ds" and "find_by_id rid ds = Some d" and "bounded_action_id a = Inr (py_strip a)"
    and "qd_history d = h @ [e]" and "qv_action_id e = Some (py_strip a)"
    and "\<not> (\<exists>x \<in> set h. qv_action_id x = Some (py_strip a))"
  shows "find_action rid a ds = Inr (Some e)"
proof -
  have "used_action (py_strip a) d" using assms(4,5) by (simp add: used_action_def)
  then have "List.find (\<lambda>d. qd_id d = rid \<and> used_action (py_strip a) d) ds = Some d"
    using find_update_guard [OF assms(1), of rid "used_action (py_strip a)"] assms(2)
    by (simp add: find_by_id_def)
  moreover have "List.find (\<lambda>x. qv_action_id x = Some (py_strip a)) (h @ [e]) = Some e"
    using assms(5,6) by (induction h) auto
  ultimately show ?thesis by (simp add: find_action_def assms(3,4))
qed

lemma refusal_status:
  "refusal ck rq d = Some r \<Longrightarrow> rr_status r = Some (qd_status d) \<and> \<not> rr_success r"
  by (auto simp: refusal_def Let_def stale_record_def refused_def new_result_def split: if_splits)

lemma refusal_none: "refusal ck rq d = None \<Longrightarrow> qd_status d = Q_REPROCESSING"
  by (auto simp: refusal_def Let_def split: if_splits)

lemma reserve_history [simp]:
  "qd_history (reserve_update o' a act now d) = qd_history d"
  "qd_status (reserve_update o' a act now d) = qd_status d"
  by (simp_all add: reserve_update_def)

text \<open>The call answers from the stored record, or closes the claim it has reserved.\<close>

lemma resolve_claimed_cases:
  assumes "unique_ids (qw_docs w)" and "find_action (rq_record_id rq) (rq_action_id rq) (qw_docs w) = Inr None"
    and "find_by_id (rq_record_id rq) (qw_docs w) = Some d"
    and "resolve_claimed env ck eid rq w = (Inr r, w')"
  shows "(qw_docs w' = qw_docs w \<and> qw_table w' = qw_table w \<and> rr_status r = Some (qd_status d) \<and>
          \<not> rr_success r) \<or>
    (\<exists>d1 ds. qd_status d = Q_REPROCESSING \<and> qd_history d1 = qd_history d \<and> map qd_id ds = map qd_id (qw_docs w) \<and>
       reserved rq d1 (w\<lparr>qw_docs := ds\<rparr>) \<and>
       resolve_reserved env ck eid d rq (w\<lparr>qw_docs := ds\<rparr>) = (Inr r, w'))"
proof -
  let ?rid = "rq_record_id rq" and ?aid = "rq_action_id rq" and ?act = "action_for (rq_mode rq)"
  note none = find_action_none [OF assms(2)]
  show ?thesis
  proof (cases "refusal ck rq d")
    case (Some x)
    with assms none(1) show ?thesis
      by (auto simp: resolve_claimed_def Let_def dest: refusal_status)
  next
    case None
    obtain x ds where x: "reserve_action ?rid (rq_operator_id rq) ?aid ?act (qc_middle ck) (qw_docs w)
        = (x, ds)" by (cases "reserve_action ?rid (rq_operator_id rq) ?aid ?act (qc_middle ck) (qw_docs w)") auto
    show ?thesis
    proof (cases x)
      case (Inl e)
      with assms none(1) None x show ?thesis by (simp add: resolve_claimed_def Let_def)
    next
      case (Inr res)
      note eff = reserve_effect [OF assms(1) x [unfolded Inr]]
      show ?thesis
      proof (cases "res = RES_RESERVED")
        case True
        with eff assms(3) have f: "find_by_id ?rid ds
            = Some (reserve_update (rq_operator_id rq) (py_strip ?aid) ?act (qc_middle ck) d)" by auto
        have "ds = snd (reserve_action ?rid (rq_operator_id rq) ?aid ?act (qc_middle ck) (qw_docs w))"
          by (simp add: x)
        then have ids: "map qd_id ds = map qd_id (qw_docs w)"
          using guarded_ids [OF guarded_reserve] by metis
        with assms(1) f refusal_none [OF None] have "reserved rq
            (reserve_update (rq_operator_id rq) (py_strip ?aid) ?act (qc_middle ck) d) (w\<lparr>qw_docs := ds\<rparr>)"
          by (simp add: reserved_def)
        moreover have "resolve_reserved env ck eid d rq (w\<lparr>qw_docs := ds\<rparr>) = (Inr r, w')"
          using assms(3,4) none(1) None x Inr True by (simp add: resolve_claimed_def Let_def)
        ultimately show ?thesis using reserve_history(1) ids refusal_none [OF None] by blast
      next
        case False
        with eff have ds: "ds = qw_docs w" by simp
        have "(Inr r, w') = (Inr (refused d ?rid ?aid (in_progress_outcome res) ?act
            ''The operator action is already being processed.''), w\<lparr>qw_docs := ds\<rparr>)"
          using assms(3,4) none(1) None x Inr False ds
          by (cases res) (simp_all add: resolve_claimed_def Let_def)
        then show ?thesis by (simp add: ds refused_def new_result_def)
      qed
    qed
  qed
qed

section \<open>What a closing call touches\<close>

definition touches_only :: "uuid \<Rightarrow> q_store \<Rightarrow> q_store \<Rightarrow> bool" where
  "touches_only k ds ds' \<longleftrightarrow>
     ds' = ds \<or>
     (\<exists>flt upd. (\<forall>d. flt d \<longrightarrow> qd_id d = k) \<and> (\<forall>d. qd_id (upd d) = qd_id d) \<and>
        ds' = update_first flt upd ds)"

lemma touches_only_same [simp]: "touches_only k ds ds"
  by (simp add: touches_only_def)

lemma touches_only_update:
  "(\<And>d. flt d \<Longrightarrow> qd_id d = k) \<Longrightarrow> (\<And>d. qd_id (upd d) = qd_id d) \<Longrightarrow>
     touches_only k ds (update_first flt upd ds)"
  by (auto simp: touches_only_def)

lemma touches_only_ids: "touches_only k ds ds' \<Longrightarrow> map qd_id ds' = map qd_id ds"
  by (auto simp: touches_only_def update_first_keys)

lemma touches_release:
  "touches_only rid ds (snd (release_for_retry eid rid operator reason md aid oc now seen ds))"
  by (auto simp: release_for_retry_def split: prod.splits sum.splits
      dest!: update_doc_docs intro!: touches_only_update simp: owner_filter_def)

lemma touches_resolve:
  "touches_only rid ds (snd (resolve policy eid rid target operator action reason md aid oc now seen ds))"
  by (auto simp: resolve_def split: prod.splits sum.splits
      dest!: update_doc_docs intro!: touches_only_update simp: owner_filter_def)

lemma touches_service_release:
  "touches_only (rq_record_id rq) (qw_docs w)
     (qw_docs (snd (service_release env ck eid d rq reason md oc errs fc ev w)))"
  using touches_release [of "rq_record_id rq" "qw_docs w"]
  by (auto simp: service_release_def Let_def split: prod.splits sum.splits) (metis snd_conv)+

lemma touches_terminal_resolve:
  "touches_only (rq_record_id rq) (qw_docs w)
     (qw_docs (snd (terminal_resolve env ck eid d rq target act reason md oc fc ev w)))"
  using touches_resolve [of "rq_record_id rq" "qw_docs w"]
  by (auto simp: terminal_resolve_def Let_def split: prod.splits sum.splits) (metis snd_conv)+

lemmas touching = touches_service_release touches_terminal_resolve

lemma touches_finish_write:
  "touches_only (rq_record_id rq) (qw_docs w)
     (qw_docs (snd (finish_write env ck eid d rq input ev b (w\<lparr>qw_table := t\<rparr>))))"
  using touching [of rq "w\<lparr>qw_table := t\<rparr>"] by (simp add: finish_write_def)

lemma touches_resolve_reserved:
  "touches_only (rq_record_id rq) (qw_docs w) (qw_docs (snd (resolve_reserved env ck eid d rq w)))"
proof -
  have "touches_only (rq_record_id rq) (qw_docs w) (qw_docs (snd (accept_existing env ck eid d rq w)))"
    by (auto simp: accept_existing_def Let_def touching split: option.splits)
  moreover have "touches_only (rq_record_id rq) (qw_docs w)
      (qw_docs (snd (replay_row env ck eid d rq input w)))" for input
    using touching [of rq "w\<lparr>qw_table := t\<rparr>" for t]
    by (auto simp: replay_row_def Let_def touching touches_finish_write
        split: option.splits prod.splits bool.splits)
  ultimately show ?thesis
    by (cases "rq_mode rq") (auto simp: resolve_reserved_def touching split: reply.splits)
qed

end
