(* ===== verification/QuarantineGuarantees.thy ===== *)
theory QuarantineGuarantees
  imports QuarantineServiceProps
begin

text \<open>
  The guarantees of the quarantine service over any sequence of its calls, and the two gaps in
  them: a reservation that outlives its lease, and the retry of a refused accept-existing.
\<close>

section \<open>A reservation that is never released\<close>

definition held :: "uuid \<Rightarrow> active_action \<Rightarrow> q_store \<Rightarrow> bool" where
  "held rid a ds \<longleftrightarrow> unique_ids ds \<and>
     (\<exists>d \<in> set ds. qd_id d = rid \<and> qd_active d = Some a \<and> \<not> terminal (qd_status d))"

lemma in_update_first: "d \<in> set ds \<Longrightarrow> d \<in> set (update_first p f ds) \<or> p d \<and> f d \<in> set (update_first p f ds)"
  by (induction ds) auto

lemma held_update:
  assumes "held rid a ds" and "\<And>d. qd_id (upd d) = qd_id d"
    and "\<And>d. flt d \<Longrightarrow> qd_id d = rid \<Longrightarrow> qd_active d = Some a \<Longrightarrow> \<not> terminal (qd_status d) \<Longrightarrow>
      qd_active (upd d) = Some a \<and> \<not> terminal (qd_status (upd d))"
  shows "held rid a (update_first flt upd ds)"
proof -
  obtain d where "d \<in> set ds" and d: "qd_id d = rid" "qd_active d = Some a" "\<not> terminal (qd_status d)"
    using assms(1) by (auto simp: held_def)
  with in_update_first [of d ds flt upd] assms(2,3)
  have "\<exists>d \<in> set (update_first flt upd ds). qd_id d = rid \<and> qd_active d = Some a \<and> \<not> terminal (qd_status d)"
    by metis
  moreover have "unique_ids (update_first flt upd ds)"
    using assms(1,2) by (simp add: held_def update_first_keys)
  ultimately show ?thesis by (simp add: held_def)
qed

lemma held_claim: "held rid a ds \<Longrightarrow> held rid a (snd (claim isofmt eid k op' lease aid now seen ds))"
  by (auto simp: claim_def Let_def split: prod.splits sum.splits option.splits
      dest!: arg_cong [where f = snd and y = "(_, _)"] intro!: held_update simp: claim_update_def)

lemma held_reclaim: "held rid a ds \<Longrightarrow> held rid a (snd (reclaim_expired_claim k now ds))"
  by (auto simp: reclaim_expired_claim_def reclaim_update_def intro!: held_update)

lemma held_reserve: "held rid a ds \<Longrightarrow> held rid a (snd (reserve_action k op' aid act now ds))"
  by (auto simp: reserve_action_def reserve_update_def reserve_filter_def
      split: prod.splits sum.splits option.splits
      dest!: arg_cong [where f = snd and y = "(_, _)"] intro!: held_update)

lemma held_escalate: "held rid a ds \<Longrightarrow> held rid a (snd (escalate isofmt eid k op' aid ex r now seen ds))"
  by (auto simp: escalate_def Let_def escalate_update_def split: prod.splits sum.splits option.splits
      dest!: update_doc_docs intro!: held_update)

lemma held_other: "held rid a ds \<Longrightarrow> touches_only k ds ds' \<Longrightarrow> k \<noteq> rid \<Longrightarrow> held rid a ds'"
  by (auto simp: touches_only_def intro!: held_update)

lemma held_find:
  assumes "held rid a ds"
  shows "\<exists>d. find_by_id rid ds = Some d \<and> qd_active d = Some a \<and> \<not> terminal (qd_status d)"
  using assms
proof (induction ds)
  case (Cons x ds)
  then show ?case by (force simp: held_def find_by_id_def)
qed (simp add: held_def)

lemma held_not_reserved:
  assumes "held rid a ds" and "reserve_action rid op' aid act now ds = (Inr res, ds')"
  shows "res \<noteq> RES_RESERVED"
  using reserve_effect [OF _ assms(2)] held_find [OF assms(1)] assms(1) by (auto simp: held_def)

lemma held_claim_pending:
  "held rid a (qw_docs w) \<Longrightarrow> held rid a (qw_docs (snd (claim_pending env ck eid k op' aid d w)))"
  using held_claim [of rid a "qw_docs w"]
  by (auto simp: claim_pending_def Let_def split: prod.splits sum.splits option.splits) (metis snd_conv)+

lemma held_service_claim:
  assumes h: "held rid a (qw_docs w)"
  shows "held rid a (qw_docs (snd (service_claim env ck eid k op' aid ex w)))"
proof -
  have "held rid a ds" if "reclaim_expired_claim k now (qw_docs w) = (x, ds)" for x ds now
    using held_reclaim [OF h, of k now] that by simp
  then have "held rid a (qw_docs (snd (claim_pending env ck eid k op' aid d (w\<lparr>qw_docs := ds\<rparr>))))"
    if "reclaim_expired_claim k now (qw_docs w) = (x, ds)" for x ds d now
    using that by (intro held_claim_pending) simp
  with h held_claim_pending [OF h] held_reclaim [OF h, of k "qc_middle ck"] show ?thesis
    by (auto simp: service_claim_def Let_def split: prod.splits sum.splits option.splits)
qed

lemma held_resolve_claimed:
  assumes h: "held rid a (qw_docs w)"
  shows "held rid a (qw_docs (snd (resolve_claimed env ck eid rq w)))"
proof -
  let ?k = "rq_record_id rq" and ?act = "action_for (rq_mode rq)"
  obtain x ds where x: "reserve_action ?k (rq_operator_id rq) (rq_action_id rq) ?act (qc_middle ck)
      (qw_docs w) = (x, ds)"
    by (cases "reserve_action ?k (rq_operator_id rq) (rq_action_id rq) ?act (qc_middle ck) (qw_docs w)") auto
  then have ds: "held rid a ds" using held_reserve [OF h] by (metis snd_conv)
  have "held rid a (qw_docs (snd (resolve_reserved env ck eid d rq (w\<lparr>qw_docs := ds\<rparr>))))"
    if "x = Inr RES_RESERVED" for d
  proof -
    have "?k \<noteq> rid" using held_not_reserved [OF h] x that by blast
    with touches_resolve_reserved [of rq "w\<lparr>qw_docs := ds\<rparr>"] ds show ?thesis
      by (intro held_other [OF ds]) auto
  qed
  with h ds x show ?thesis
    by (auto simp: resolve_claimed_def Let_def split: sum.splits option.splits reservation.splits)
qed

lemma held_service_resolve:
  assumes "held rid a (qw_docs w)"
  shows "held rid a (qw_docs (snd (service_resolve env ck ck' eid eid' rq w)))"
  using held_service_claim [OF assms] held_resolve_claimed
  by (auto simp: service_resolve_def split: prod.splits sum.splits) (metis snd_conv)+

lemma held_service_escalate:
  assumes "held rid a (qw_docs w)"
  shows "held rid a (qw_docs (snd (service_escalate env ck eid k op' aid ex r w)))"
  using assms held_escalate [OF assms]
  by (auto simp: service_escalate_def Let_def split: prod.splits sum.splits option.splits) (metis snd_conv)+

text \<open>Any sequence of calls of the service, by any operators on any records.\<close>

inductive service_run :: "q_world \<Rightarrow> q_world \<Rightarrow> bool" where
  stop: "service_run w w"
| claimed: "service_run w w' \<Longrightarrow>
    service_run w (snd (service_claim env ck eid k op' aid ex w'))"
| resolved: "service_run w w' \<Longrightarrow> service_run w (snd (resolve_claimed env ck eid rq w'))"
| both: "service_run w w' \<Longrightarrow> service_run w (snd (service_resolve env ck ck' eid eid' rq w'))"
| escalated: "service_run w w' \<Longrightarrow>
    service_run w (snd (service_escalate env ck eid k op' aid ex r w'))"

lemma held_run: "service_run w w' \<Longrightarrow> held rid a (qw_docs w) \<Longrightarrow> held rid a (qw_docs w')"
  by (induction rule: service_run.induct)
    (auto intro: held_service_claim held_resolve_claimed held_service_resolve held_service_escalate)

section \<open>Repeating a request\<close>

text \<open>A closed claim leaves an event that a repetition of the same request finds.\<close>

lemma closed_event:
  assumes "unique_ids (qw_docs w)"
    and "find_action (rq_record_id rq) (rq_action_id rq) (qw_docs w) = Inr None"
    and "find_by_id (rq_record_id rq) (qw_docs w) = Some d" and "qd_status d = Q_REPROCESSING"
    and "resolve_claimed env ck eid rq w = (Inr r, w')" and "rr_status r \<noteq> Some Q_REPROCESSING"
  shows "\<exists>e. find_action (rq_record_id rq) (rq_action_id rq) (qw_docs w') = Inr (Some e) \<and>
    (\<exists>st. rr_status r = Some st \<and> rr_success r = terminal st \<and>
       own_event rq r st (closing_action rq st) e)"
proof -
  note none = find_action_none [OF assms(2)]
  from resolve_claimed_cases [OF assms(1,2,3,5)] assms(4,6)
  obtain d1 ds where h: "qd_history d1 = qd_history d" and res: "reserved rq d1 (w\<lparr>qw_docs := ds\<rparr>)"
    and run: "resolve_reserved env ck eid d rq (w\<lparr>qw_docs := ds\<rparr>) = (Inr r, w')"
    and ids: "map qd_id ds = map qd_id (qw_docs w)" by auto
  have "closes rq d1 (Inr r, w')" using resolve_reserved_closes [OF res] run by metis
  with assms(6) h obtain d' e where d': "find_by_id (rq_record_id rq) (qw_docs w') = Some d'"
    "rr_status r = Some (qd_status d')" "rr_success r = terminal (qd_status d')"
    "qd_history d' = qd_history d @ [e]"
    "own_event rq r (qd_status d') (closing_action rq (qd_status d')) e"
    by (auto simp: closes_def split: option.splits)
  have "unique_ids (qw_docs w')"
    using touches_only_ids [OF touches_resolve_reserved, of env ck eid d rq "w\<lparr>qw_docs := ds\<rparr>"]
      run ids assms(1) by simp
  moreover have "\<not> (\<exists>x \<in> set (qd_history d). qv_action_id x = Some (py_strip (rq_action_id rq)))"
    using none(2) [OF assms(3)] by (simp add: used_action_def)
  ultimately have "find_action (rq_record_id rq) (rq_action_id rq) (qw_docs w') = Inr (Some e)"
    using d'(1,4,5) none(3) by (intro find_action_event) (auto simp: own_event_def)
  with d' show ?thesis by blast
qed

lemma result_from_event_simps [simp]:
  "rr_success (result_from_event env rid e) = event_success e"
  "rr_status (result_from_event env rid e) = Some (qv_to e)"
  "rr_outcome (result_from_event env rid e) =
     (case str_or (qv_event_outcome e) (Some (q_action_value (qv_action e))) of Some x \<Rightarrow> x | None \<Rightarrow> [])"
  by (simp_all add: result_from_event_def new_result_def Let_def)

lemma replay_result:
  assumes "find_action (rq_record_id rq) (rq_action_id rq) (qw_docs w) = Inr (Some e)"
    and "resolve_claimed env ck eid rq w = (x, w')"
  shows "w' = w \<and> (\<exists>r. x = Inr r \<and>
    (if action_mismatch (rq_operator_id rq) (action_for (rq_mode rq)) None e
     then rr_outcome r = ''ACTION_ID_REUSE_CONFLICT'' \<and> \<not> rr_success r
     else r = result_from_event env (rq_record_id rq) e))"
  using assms by (auto simp: resolve_claimed_def Let_def replayed_action_def new_result_def)

section \<open>A concrete service\<close>

definition demo_env :: q_env where
  "demo_env =
     \<lparr>qe_policy = demo_policy, qe_isofmt = (\<lambda>_. []), qe_parse_time = (\<lambda>_. None), qe_str = (\<lambda>_. []),
      qe_source_file = None, qe_raw_page = None, qe_process = (\<lambda>_ _ _ _. None),
      qe_persist = (\<lambda>_ t. (None, t)), qe_fingerprint = Some (\<lambda>_. Some (Some ''ex'')),
      qe_audits = True\<rparr>"

definition demo_clock :: "datetime \<Rightarrow> q_clock" where
  "demo_clock t = \<lparr>qc_check = t, qc_middle = t, qc_write = t\<rparr>"

text \<open>The record \<open>q1\<close> claimed by Alice until \<open>100\<close>.\<close>

definition demo_owned :: q_doc where
  "demo_owned =
     demo_quarantined\<lparr>qd_status := Q_REPROCESSING, qd_claimed_by := Some ''alice'',
                      qd_claim_expires_at := Some 100\<rparr>"

definition demo_world :: "q_doc \<Rightarrow> q_world" where
  "demo_world d = \<lparr>qw_docs = [d], qw_table = [], qw_audit = []\<rparr>"

definition demo_request :: "reprocess_mode \<Rightarrow> string option \<Rightarrow> reprocess_request" where
  "demo_request m fp =
     \<lparr>rq_record_id = ''q1'', rq_operator_id = ''alice'', rq_action_id = ''a1'',
      rq_expected_status = Q_REPROCESSING, rq_mode = m, rq_corrected_row = None,
      rq_mapping_version = None, rq_expected_existing_fingerprint = fp, rq_reason = Some ''no''\<rparr>"

lemma demo_strip: "py_strip ''a1'' = ''a1''" "py_strip ''no'' = ''no''"
  "bounded_action_id ''a1'' = Inr ''a1''" "bounded_action_id_opt (Some ''a1'') = Inr (Some ''a1'')"
  by code_simp+

lemma demo_no_action: "find_action ''q1'' ''a1'' (qw_docs (demo_world demo_owned)) = Inr None"
  by (simp add: find_action_def demo_strip demo_world_def demo_owned_def demo_quarantined_def
      used_action_def)

lemma demo_world_record:
  "unique_ids (qw_docs (demo_world demo_owned))"
  "find_by_id ''q1'' (qw_docs (demo_world demo_owned)) = Some demo_owned"
  "qd_status demo_owned = Q_REPROCESSING"
  by (simp_all add: demo_world_def find_by_id_def demo_owned_def demo_quarantined_def)

definition reported :: "service_result \<times> q_world \<Rightarrow> (q_status option \<times> bool \<times> string) option" where
  "reported x =
     (case fst x of Inl e \<Rightarrow> None | Inr r \<Rightarrow> Some (rr_status r, rr_success r, rr_outcome r))"

abbreviation demo_accept :: "string option \<Rightarrow> q_world \<Rightarrow> service_result \<times> q_world" where
  "demo_accept fp w \<equiv>
     resolve_claimed demo_env (demo_clock 5) ''e'' (demo_request RM_ACCEPT_EXISTING fp) w"

lemma demo_accept_released:
  "reported (demo_accept (Some ''other'') (demo_world demo_owned))
     = Some (Some Q_PENDING, False, ''FINGERPRINT_MISMATCH'')"
  by code_simp

lemma demo_accept_resolved:
  "reported (demo_accept None (demo_world demo_owned))
     = Some (Some Q_RESOLVED, True, ''ACCEPTED_EXISTING'')"
  by code_simp

lemma reported_obtain:
  assumes "reported x = Some (st, b, oc)"
  shows "\<exists>r w'. x = (Inr r, w') \<and> rr_status r = st \<and> rr_success r = b \<and> rr_outcome r = oc"
  using assms by (cases x) (auto simp: reported_def split: sum.splits)

lemma demo_request_sel [simp]:
  "rq_record_id (demo_request m fp) = ''q1''" "rq_action_id (demo_request m fp) = ''a1''"
  "rq_mode (demo_request m fp) = m"
  by (simp_all add: demo_request_def)

section \<open>Properties\<close>

text \<open>What a resolution reports is what is stored. For a request whose action id is new, the
  reported status is the status of the record after the call, and it reports success exactly when
  this call has made the record RESOLVED or REJECTED.\<close>

theorem resolution_reports_the_stored_record:
  assumes "distinct (map qd_id (qw_docs w))"
    and "find_action (rq_record_id rq) (rq_action_id rq) (qw_docs w) = Inr None"
    and "find_by_id (rq_record_id rq) (qw_docs w) = Some d"
    and "resolve_claimed env ck eid rq w = (Inr r, w')"
  shows "\<exists>d'. find_by_id (rq_record_id rq) (qw_docs w') = Some d' \<and> rr_status r = Some (qd_status d') \<and>
    (rr_success r \<longleftrightarrow> terminal (qd_status d') \<and> \<not> terminal (qd_status d))"
  using resolve_claimed_cases [OF assms]
proof (elim disjE exE conjE)
  fix d1 ds
  assume "reserved rq d1 (w\<lparr>qw_docs := ds\<rparr>)" "resolve_reserved env ck eid d rq (w\<lparr>qw_docs := ds\<rparr>) = (Inr r, w')"
    and st: "qd_status d = Q_REPROCESSING"
  then have "closes rq d1 (Inr r, w')" using resolve_reserved_closes by metis
  with st show ?thesis by (auto simp: closes_def split: option.splits)
qed (use assms(3) in auto)

theorem resolution_reports_the_stored_record_witness:
  "\<exists>d'. find_by_id ''q1'' (qw_docs (snd (demo_accept None (demo_world demo_owned)))) = Some d' \<and>
     qd_status d' = Q_RESOLVED"
proof -
  obtain r w' where r: "demo_accept None (demo_world demo_owned) = (Inr r, w')"
    "rr_status r = Some Q_RESOLVED"
    using reported_obtain [OF demo_accept_resolved] by blast
  from resolution_reports_the_stored_record [OF demo_world_record(1) _ _ r(1)] r(2) show ?thesis
    by (auto simp: r(1) demo_no_action demo_world_record(2))
qed

text \<open>Repeating a resolution is harmless. Once a request has closed the claim it was made
  under, the same request, at any later time and with any collaborators, changes nothing and
  reports the same status, outcome and success.\<close>

theorem repeated_resolution_is_answered_from_history:
  assumes "distinct (map qd_id (qw_docs w))"
    and "find_action (rq_record_id rq) (rq_action_id rq) (qw_docs w) = Inr None"
    and "find_by_id (rq_record_id rq) (qw_docs w) = Some d" and "qd_status d = Q_REPROCESSING"
    and "resolve_claimed env ck eid rq w = (Inr r, w')" and "rr_status r \<noteq> Some Q_REPROCESSING"
    and "rr_success r \<or> rq_mode rq \<notin> {RM_ACCEPT_EXISTING, RM_REJECT}"
    and "resolve_claimed env' ck' eid' rq w' = (x, w'')"
  shows "w'' = w' \<and> (\<exists>r'. x = Inr r' \<and> rr_status r' = rr_status r \<and> rr_outcome r' = rr_outcome r \<and>
    rr_success r' = rr_success r)"
proof -
  obtain e st where e: "find_action (rq_record_id rq) (rq_action_id rq) (qw_docs w') = Inr (Some e)"
    and st: "rr_status r = Some st" "rr_success r = terminal st"
    and own: "own_event rq r st (closing_action rq st) e"
    using closed_event [OF assms(1-6)] by blast
  have "action_for (rq_mode rq) = QA_REPROCESS" if "\<not> terminal st"
    using assms(7) st that by (cases "rq_mode rq") auto
  then have "\<not> action_mismatch (rq_operator_id rq) (action_for (rq_mode rq)) None e"
    using own by (auto simp: action_mismatch_def own_event_def closing_action_def)
  moreover have "event_success e = terminal st"
    using own by (auto simp: event_success_def own_event_def terminal_def)
  moreover have "str_or (qv_event_outcome e) z = Some (rr_outcome r)" for z
    using own by (cases "rr_outcome r") (auto simp: own_event_def str_or_def)
  ultimately show ?thesis using replay_result [OF e assms(8)] own st by (auto simp: own_event_def)
qed

theorem repeated_resolution_is_answered_from_history_witness:
  "\<exists>r' w'. demo_accept None (snd (demo_accept None (demo_world demo_owned))) = (Inr r', w') \<and>
     rr_outcome r' = ''ACCEPTED_EXISTING'' \<and> rr_success r'"
proof -
  let ?rq = "demo_request RM_ACCEPT_EXISTING None"
  obtain r w' where r: "demo_accept None (demo_world demo_owned) = (Inr r, w')"
    "rr_status r = Some Q_RESOLVED" "rr_success r" "rr_outcome r = ''ACCEPTED_EXISTING''"
    using reported_obtain [OF demo_accept_resolved] by blast
  obtain x w'' where x: "demo_accept None w' = (x, w'')" by (cases "demo_accept None w'") auto
  have "find_action (rq_record_id ?rq) (rq_action_id ?rq) (qw_docs (demo_world demo_owned)) = Inr None"
    "find_by_id (rq_record_id ?rq) (qw_docs (demo_world demo_owned)) = Some demo_owned"
    "rr_status r \<noteq> Some Q_REPROCESSING" "rr_success r \<or> rq_mode ?rq \<notin> {RM_ACCEPT_EXISTING, RM_REJECT}"
    using r(2,3) by (simp_all add: demo_no_action demo_world_record(2))
  from repeated_resolution_is_answered_from_history
    [OF demo_world_record(1) this(1,2) demo_world_record(3) r(1) this(3,4) x] r x
  show ?thesis by auto
qed

text \<open>The gap of the lease. A reservation is cleared only by the call that closes the claim, not
  by the reclaim of an expired lease. So once an operator reserved an action and the lease ran
  out, the record goes back to the queue and can be claimed, but no sequence of service calls by
  any operators ever resolves or rejects it.\<close>

theorem expired_reservation_blocks_resolution:
  assumes "distinct (map qd_id (qw_docs w))" and "find_by_id rid (qw_docs w) = Some d"
    and "qd_status d = Q_REPROCESSING" and "qd_active d = Some a"
    and "qd_claim_expires_at d = Some t" and "t \<le> now"
    and "reclaim_expired_claim rid now (qw_docs w) = (x, ds)"
    and "service_run (w\<lparr>qw_docs := ds\<rparr>) w'"
  shows "(\<exists>d0. x = Some d0 \<and> find_by_id rid ds = Some d0 \<and> qd_status d0 = Q_PENDING \<and>
      qd_claimed_by d0 = None) \<and>
    (\<exists>d'. find_by_id rid (qw_docs w') = Some d' \<and> qd_active d' = Some a \<and> \<not> terminal (qd_status d'))"
proof -
  let ?g = "\<lambda>d. qd_status d = Q_REPROCESSING \<and>
    (case qd_claim_expires_at d of None \<Rightarrow> False | Some t \<Rightarrow> t \<le> now)"
  have flt: "reclaim_filter rid now = (\<lambda>d. qd_id d = rid \<and> ?g d)" by (auto simp: reclaim_filter_def)
  have "List.find (reclaim_filter rid now) (qw_docs w) = Some d"
    using find_update_guard [OF assms(1), of rid ?g] assms(2-6) by (simp add: flt find_by_id_def)
  then have x: "x = Some (reclaim_update now d)" using assms(7)
    by (simp add: reclaim_expired_claim_def find_and_update_doc_def)
  have ds: "ds = update_first (reclaim_filter rid now) (reclaim_update now) (qw_docs w)"
    using assms(7) by (metis reclaim_expired_claim_def snd_conv snd_find_and_update_doc)
  have f: "find_by_id rid ds = Some (reclaim_update now d)"
    unfolding ds using find_guarded_update [OF assms(1), of "reclaim_filter rid now" rid ?g "reclaim_update now"]
      assms(2-6) by (simp add: flt reclaim_update_def)
  have "d \<in> set (qw_docs w)" "qd_id d = rid"
    using assms(2) by (auto simp: find_by_id_def dest: find_Some_set)
  then have "held rid a (qw_docs w)" using assms(1,3,4) by (auto simp: held_def)
  then have "held rid a ds" using held_reclaim assms(7) by (metis snd_conv)
  with held_run [OF assms(8)] have "held rid a (qw_docs w')" by simp
  from held_find [OF this] x f show ?thesis by (simp add: reclaim_update_def)
qed

definition demo_reserved :: q_doc where
  "demo_reserved =
     demo_owned\<lparr>qd_active := Some \<lparr>aa_id = ''a0'', aa_actor = ''alice'', aa_action = QA_REPROCESS,
                                  aa_started_at = 7\<rparr>\<rparr>"

theorem expired_reservation_blocks_resolution_witness:
  "\<exists>d'. find_by_id ''q1''
       (qw_docs (snd (service_resolve demo_env (demo_clock 101) (demo_clock 102) ''e1'' ''e2''
          ((demo_request RM_REJECT None)\<lparr>rq_operator_id := ''bob'', rq_expected_status := Q_PENDING\<rparr>)
          ((demo_world demo_reserved)
             \<lparr>qw_docs := snd (reclaim_expired_claim ''q1'' 101 (qw_docs (demo_world demo_reserved)))\<rparr>))))
     = Some d' \<and> \<not> terminal (qd_status d')"
proof -
  let ?w = "demo_world demo_reserved" and ?rq = "(demo_request RM_REJECT None)
      \<lparr>rq_operator_id := ''bob'', rq_expected_status := Q_PENDING\<rparr>"
  obtain x ds where r: "reclaim_expired_claim ''q1'' 101 (qw_docs ?w) = (x, ds)"
    by (cases "reclaim_expired_claim ''q1'' 101 (qw_docs ?w)") auto
  have pre: "unique_ids (qw_docs ?w)" "find_by_id ''q1'' (qw_docs ?w) = Some demo_reserved"
    "qd_status demo_reserved = Q_REPROCESSING"
    "qd_active demo_reserved = Some \<lparr>aa_id = ''a0'', aa_actor = ''alice'', aa_action = QA_REPROCESS,
      aa_started_at = 7\<rparr>" "qd_claim_expires_at demo_reserved = Some 100" "100 \<le> (101 :: int)"
    by (simp_all add: demo_world_def demo_reserved_def demo_owned_def demo_quarantined_def find_by_id_def)
  have run: "service_run (?w\<lparr>qw_docs := ds\<rparr>)
      (snd (service_resolve demo_env (demo_clock 101) (demo_clock 102) ''e1'' ''e2'' ?rq (?w\<lparr>qw_docs := ds\<rparr>)))"
    by (rule service_run.both) (rule service_run.stop)
  from expired_reservation_blocks_resolution [OF pre r run] r show ?thesis by auto
qed

text \<open>The gap of accept-existing. A request to accept the existing transaction that is refused
  and released is stored as a REPROCESS action, so repeating the same request, by the same
  operator, is answered as if another action had used its id, and never as the refusal it was.\<close>

theorem refused_accept_is_not_recognised:
  assumes "distinct (map qd_id (qw_docs w))"
    and "find_action (rq_record_id rq) (rq_action_id rq) (qw_docs w) = Inr None"
    and "find_by_id (rq_record_id rq) (qw_docs w) = Some d" and "qd_status d = Q_REPROCESSING"
    and "rq_mode rq = RM_ACCEPT_EXISTING"
    and "resolve_claimed env ck eid rq w = (Inr r, w')" and "rr_status r = Some Q_PENDING"
    and "resolve_claimed env' ck' eid' rq w' = (x, w'')"
  shows "w'' = w' \<and> (\<exists>r'. x = Inr r' \<and> rr_outcome r' = ''ACTION_ID_REUSE_CONFLICT'')"
proof -
  obtain e st where e: "find_action (rq_record_id rq) (rq_action_id rq) (qw_docs w') = Inr (Some e)"
    and st: "rr_status r = Some st" and own: "own_event rq r st (closing_action rq st) e"
    using closed_event [OF assms(1-4,6)] assms(7) by auto
  then have "qv_action e = QA_REPROCESS"
    using assms(7) by (simp add: own_event_def closing_action_def)
  then have "action_mismatch (rq_operator_id rq) (action_for (rq_mode rq)) None e"
    using assms(5) by (simp add: action_mismatch_def)
  with replay_result [OF e assms(8)] show ?thesis by auto
qed

theorem refused_accept_is_not_recognised_witness:
  "\<exists>r' w'. demo_accept (Some ''other'') (snd (demo_accept (Some ''other'') (demo_world demo_owned)))
     = (Inr r', w') \<and> rr_outcome r' = ''ACTION_ID_REUSE_CONFLICT''"
proof -
  let ?rq = "demo_request RM_ACCEPT_EXISTING (Some ''other'')"
  obtain r w' where r: "demo_accept (Some ''other'') (demo_world demo_owned) = (Inr r, w')"
    "rr_status r = Some Q_PENDING"
    using reported_obtain [OF demo_accept_released] by blast
  obtain x w'' where x: "demo_accept (Some ''other'') w' = (x, w'')"
    by (cases "demo_accept (Some ''other'') w'") auto
  have "find_action (rq_record_id ?rq) (rq_action_id ?rq) (qw_docs (demo_world demo_owned)) = Inr None"
    "find_by_id (rq_record_id ?rq) (qw_docs (demo_world demo_owned)) = Some demo_owned"
    "rq_mode ?rq = RM_ACCEPT_EXISTING"
    by (simp_all add: demo_no_action demo_world_record(2))
  from refused_accept_is_not_recognised
    [OF demo_world_record(1) this(1,2) demo_world_record(3) this(3) r x] r x
  show ?thesis by auto
qed

end
