(* ===== verification/Timestamps.thy ===== *)
theory Timestamps
  imports Prelude "HOL-Library.Monad_Syntax"
begin

text \<open>
  \<open>src/src/normalizer/timestamps.py\<close>: the partner timestamps that are accepted, and the
  calendar arithmetic of \<open>datetime\<close> they rest on. A time is the number of microseconds since
  1970-01-01; digits are ASCII digits.
\<close>

section \<open>The proleptic Gregorian calendar\<close>

definition leap_year :: "int \<Rightarrow> bool" where
  "leap_year y \<longleftrightarrow> y mod 4 = 0 \<and> (y mod 100 \<noteq> 0 \<or> y mod 400 = 0)"

definition days_in_month :: "int \<Rightarrow> int \<Rightarrow> int" where
  "days_in_month y m =
     (if m = 2 then (if leap_year y then 29 else 28)
      else if m \<in> {4, 6, 9, 11} then 30 else 31)"

text \<open>Days from the start of year 1 to the start of year \<open>z + 1\<close>.\<close>

definition days_before :: "int \<Rightarrow> int" where
  "days_before z = 365 * z + z div 4 - z div 100 + z div 400"

fun days_before_month :: "int \<Rightarrow> nat \<Rightarrow> int" where
  "days_before_month y 0 = 0"
| "days_before_month y (Suc 0) = 0"
| "days_before_month y (Suc (Suc m)) = days_before_month y (Suc m) + days_in_month y (int (Suc m))"

definition unix_epoch_days :: int where
  "unix_epoch_days = 719162"

record civil =
  cv_year :: int
  cv_month :: int
  cv_day :: int
  cv_hour :: int
  cv_minute :: int
  cv_second :: int
  cv_micro :: int

definition valid_civil :: "civil \<Rightarrow> bool" where
  "valid_civil c \<longleftrightarrow>
     1 \<le> cv_year c \<and> cv_year c \<le> 9999 \<and> 1 \<le> cv_month c \<and> cv_month c \<le> 12 \<and>
     1 \<le> cv_day c \<and> cv_day c \<le> days_in_month (cv_year c) (cv_month c) \<and>
     0 \<le> cv_hour c \<and> cv_hour c \<le> 23 \<and> 0 \<le> cv_minute c \<and> cv_minute c \<le> 59 \<and>
     0 \<le> cv_second c \<and> cv_second c \<le> 59 \<and> 0 \<le> cv_micro c \<and> cv_micro c \<le> 999999"

definition days_of :: "civil \<Rightarrow> int" where
  "days_of c =
     days_before (cv_year c - 1) + days_before_month (cv_year c) (nat (cv_month c)) + cv_day c - 1
     - unix_epoch_days"

definition micros_of :: "civil \<Rightarrow> datetime" where
  "micros_of c =
     (((days_of c * 24 + cv_hour c) * 60 + cv_minute c) * 60 + cv_second c) * 1000000 + cv_micro c"

text \<open>\<open>datetime.min\<close> and \<open>datetime.max\<close>; outside them \<open>astimezone\<close> raises \<open>OverflowError\<close>.\<close>

definition min_micros :: datetime where
  "min_micros = - 719162 * 86400000000"

definition max_micros :: datetime where
  "max_micros = 2932897 * 86400000000 - 1"

definition in_range :: "datetime \<Rightarrow> bool" where
  "in_range t \<longleftrightarrow> min_micros \<le> t \<and> t \<le> max_micros"

section \<open>Scanning\<close>

definition digit_value :: "char \<Rightarrow> nat option" where
  "digit_value c =
     (let n = (of_char c :: nat) in if 48 \<le> n \<and> n \<le> 57 then Some (n - 48) else None)"

text \<open>Exactly \<open>k\<close> digits, with the accumulated value.\<close>

fun scan_digits :: "nat \<Rightarrow> int \<Rightarrow> string \<Rightarrow> (int \<times> string) option" where
  "scan_digits 0 acc s = Some (acc, s)"
| "scan_digits (Suc k) acc [] = None"
| "scan_digits (Suc k) acc (c # s) =
     (case digit_value c of None \<Rightarrow> None | Some d \<Rightarrow> scan_digits k (acc * 10 + int d) s)"

fun scan_char :: "char \<Rightarrow> string \<Rightarrow> string option" where
  "scan_char x [] = None"
| "scan_char x (c # s) = (if c = x then Some s else None)"

definition scan_ymd :: "string \<Rightarrow> ((int \<times> int \<times> int) \<times> string) option" where
  "scan_ymd s =
     do { (y, s) \<leftarrow> scan_digits 4 0 s; s \<leftarrow> scan_char (CHR ''-'') s;
          (m, s) \<leftarrow> scan_digits 2 0 s; s \<leftarrow> scan_char (CHR ''-'') s;
          (d, s) \<leftarrow> scan_digits 2 0 s; Some ((y, m, d), s) }"

definition scan_dmy :: "string \<Rightarrow> ((int \<times> int \<times> int) \<times> string) option" where
  "scan_dmy s =
     do { (d, s) \<leftarrow> scan_digits 2 0 s; s \<leftarrow> scan_char (CHR ''/'') s;
          (m, s) \<leftarrow> scan_digits 2 0 s; s \<leftarrow> scan_char (CHR ''/'') s;
          (y, s) \<leftarrow> scan_digits 4 0 s; Some ((y, m, d), s) }"

definition scan_hms :: "string \<Rightarrow> ((int \<times> int \<times> int) \<times> string) option" where
  "scan_hms s =
     do { (h, s) \<leftarrow> scan_digits 2 0 s; s \<leftarrow> scan_char (CHR '':'') s;
          (mi, s) \<leftarrow> scan_digits 2 0 s; s \<leftarrow> scan_char (CHR '':'') s;
          (sec, s) \<leftarrow> scan_digits 2 0 s; Some ((h, mi, sec), s) }"

text \<open>The optional fraction: one to six digits after a point, padded to microseconds.\<close>

fun scan_run :: "nat \<Rightarrow> string \<Rightarrow> nat list \<times> string" where
  "scan_run (Suc k) (c # s) =
     (case digit_value c of
        None \<Rightarrow> ([], c # s) | Some d \<Rightarrow> (let (ds, rest) = scan_run k s in (d # ds, rest)))"
| "scan_run k s = ([], s)"

definition digits_number :: "nat list \<Rightarrow> int" where
  "digits_number ds = foldl (\<lambda>a d. a * 10 + int d) 0 ds"

definition scan_fraction :: "string \<Rightarrow> (int \<times> string) option" where
  "scan_fraction s =
     (case s of
        c # rest \<Rightarrow>
          if c = CHR ''.'' then
            (let (ds, rest') = scan_run 6 rest
             in if ds = [] then None
                else Some (digits_number (ds @ replicate (6 - length ds) 0), rest'))
          else Some (0, s)
      | [] \<Rightarrow> Some (0, s))"

text \<open>\<open>Z\<close> or a signed offset of hours and minutes, at the end of the text, in minutes.\<close>

definition scan_offset :: "string \<Rightarrow> int option" where
  "scan_offset s =
     (if s = ''Z'' then Some 0
      else case s of
        [] \<Rightarrow> None
      | c # s \<Rightarrow>
          if c = CHR ''+'' \<or> c = CHR ''-'' then
            do { (h, s) \<leftarrow> scan_digits 2 0 s; s \<leftarrow> scan_char (CHR '':'') s;
                 (m, s) \<leftarrow> scan_digits 2 0 s;
                 if s = [] \<and> h \<le> 23 \<and> m \<le> 59
                 then Some (if c = CHR ''-'' then - (h * 60 + m) else h * 60 + m) else None }
          else None)"

section \<open>Parsing\<close>

text \<open>A parsed time: without a zone, or converted to UTC.\<close>

datatype py_datetime = DT_Naive datetime | DT_Utc datetime

definition civil_of :: "int \<times> int \<times> int \<Rightarrow> int \<times> int \<times> int \<Rightarrow> int \<Rightarrow> civil" where
  "civil_of d t us =
     \<lparr>cv_year = fst d, cv_month = fst (snd d), cv_day = snd (snd d), cv_hour = fst t,
      cv_minute = fst (snd t), cv_second = snd (snd t), cv_micro = us\<rparr>"

definition checked :: "civil \<Rightarrow> datetime option" where
  "checked c = (if valid_civil c then Some (micros_of c) else None)"

definition normalize_aware :: "datetime \<Rightarrow> py_datetime option" where
  "normalize_aware t = (if in_range t then Some (DT_Utc t) else None)"

definition parse_offset_form :: "string \<Rightarrow> py_datetime option" where
  "parse_offset_form s =
     do { (d, s) \<leftarrow> scan_ymd s; s \<leftarrow> scan_char (CHR ''T'') s; (t, s) \<leftarrow> scan_hms s;
          (us, s) \<leftarrow> scan_fraction s; off \<leftarrow> scan_offset s;
          local \<leftarrow> checked (civil_of d t us);
          normalize_aware (local - off * 60000000) }"

definition parse_date_form ::
  "(string \<Rightarrow> ((int \<times> int \<times> int) \<times> string) option) \<Rightarrow> string \<Rightarrow> py_datetime option" where
  "parse_date_form scan s =
     do { (d, s) \<leftarrow> scan s;
          t \<leftarrow> (if s = [] then checked (civil_of d (0, 0, 0) 0) else None);
          Some (DT_Naive t) }"

definition parse_date_time_form ::
  "(string \<Rightarrow> ((int \<times> int \<times> int) \<times> string) option) \<Rightarrow> string \<Rightarrow> py_datetime option" where
  "parse_date_time_form scan s =
     do { (d, s) \<leftarrow> scan s; s \<leftarrow> scan_char (CHR '' '') s; (hms, s) \<leftarrow> scan_hms s;
          t \<leftarrow> (if s = [] then checked (civil_of d hms 0) else None);
          Some (DT_Naive t) }"

fun first_some :: "('a \<Rightarrow> 'b option) list \<Rightarrow> 'a \<Rightarrow> 'b option" where
  "first_some [] x = None"
| "first_some (f # fs) x = (case f x of None \<Rightarrow> first_some fs x | Some y \<Rightarrow> Some y)"

definition parse_text :: "string \<Rightarrow> py_datetime option" where
  "parse_text =
     first_some
       [parse_offset_form, parse_date_form scan_ymd, parse_date_form scan_dmy,
        parse_date_time_form scan_ymd, parse_date_time_form scan_dmy]"

text \<open>\<open>parse_transaction_timestamp\<close>; \<^const>\<open>None\<close> is \<open>TimestampParseError\<close>.\<close>

definition parse_transaction_timestamp :: "pyval \<Rightarrow> py_datetime option" where
  "parse_transaction_timestamp v =
     (case v of
        VTime t \<Rightarrow> normalize_aware t
      | VNaive t \<Rightarrow> Some (DT_Naive t)
      | VStr s \<Rightarrow> parse_text s
      | _ \<Rightarrow> None)"

text \<open>
  \<open>normalize_transaction_timestamp\<close>; \<open>zone\<close> is the partner time zone, the instant of a local
  time, or \<^const>\<open>None\<close> where the conversion raises.
\<close>

definition normalize_transaction_timestamp ::
  "(datetime \<Rightarrow> datetime option) \<Rightarrow> pyval \<Rightarrow> datetime option" where
  "normalize_transaction_timestamp zone v =
     (case parse_transaction_timestamp v of
        None \<Rightarrow> None
      | Some (DT_Utc t) \<Rightarrow> Some t
      | Some (DT_Naive t) \<Rightarrow> (case zone t of None \<Rightarrow> None | Some u \<Rightarrow> if in_range u then Some u else None))"

end
