(* ===== verification/Mappers.thy ===== *)
theory Mappers
  imports PartnerStore Timestamps
begin

text \<open>
  \<open>src/src/domain/partner_transaction/models.py\<close> and
  \<open>src/src/infrastructure/partner_transaction/mappers.py\<close>: the canonical transaction that the
  row processor builds, and its translation to and from the columns of the PostgreSQL table.
  The fast container and the validated one have the same fields.
\<close>

section \<open>Containers\<close>

record partner_data =
  pd_id :: string
  pd_trace :: "string option"
  pd_status :: string
  pd_amount :: decimal
  pd_currency :: string
  pd_trans_date :: "py_datetime option"
  pd_timestamp_basis :: pyval
  pd_extra :: pydict

record data_container =
  dc_id :: uuid
  dc_request_id :: uuid
  dc_identify :: string
  dc_workflow_type :: string
  dc_reconciliation_date :: py_datetime
  dc_operation_status :: string
  dc_reconciliation_status :: string
  dc_connector_data :: string
  dc_extra_data :: string
  dc_source_file_id :: uuid
  dc_ingestion_key :: string
  dc_partner_data :: partner_data
  dc_created_by :: string
  dc_created_date :: py_datetime
  dc_last_modified_by :: string
  dc_last_modified_date :: py_datetime

section \<open>Columns\<close>

text \<open>\<open>as_utc_naive\<close>: a column holds the UTC fields of a time without its zone.\<close>

fun as_utc_naive :: "py_datetime \<Rightarrow> datetime" where
  "as_utc_naive (DT_Naive t) = t"
| "as_utc_naive (DT_Utc t) = t"

text \<open>
  The policy argument of \<open>data_container_to_row\<close> is the partner time zone; \<^const>\<open>None\<close> is
  \<open>TimestampParseError\<close>.
\<close>

definition row_trans_date ::
  "(datetime \<Rightarrow> datetime option) option \<Rightarrow> py_datetime option \<Rightarrow> datetime option option" where
  "row_trans_date policy d =
     (case d of
        None \<Rightarrow> Some None
      | Some t \<Rightarrow>
          (case policy of
             None \<Rightarrow> Some (Some (as_utc_naive t))
           | Some zone \<Rightarrow>
               map_option Some
                 (normalize_transaction_timestamp zone
                    (case t of DT_Naive x \<Rightarrow> VNaive x | DT_Utc x \<Rightarrow> VTime x))))"

text \<open>
  A column of text only takes text: a time basis of another type makes the write raise, which is
  \<^const>\<open>None\<close> here.
\<close>

definition row_timestamp_basis ::
  "(datetime \<Rightarrow> datetime option) option \<Rightarrow> pyval \<Rightarrow> string option" where
  "row_timestamp_basis policy v =
     (if policy \<noteq> None then Some ''CANONICAL_UTC''
      else case v of VStr s \<Rightarrow> Some s | _ \<Rightarrow> None)"

definition data_container_to_row ::
  "(datetime \<Rightarrow> datetime option) option \<Rightarrow> data_container \<Rightarrow> partner_row option" where
  "data_container_to_row policy c =
     (let pd = dc_partner_data c
      in case (row_trans_date policy (pd_trans_date pd),
               row_timestamp_basis policy (pd_timestamp_basis pd)) of
           (Some td, Some basis) \<Rightarrow>
             Some \<lparr>pr_id = dc_id c, pr_request_id = dc_request_id c, pr_identify = dc_identify c,
                   pr_workflow_type = dc_workflow_type c,
                   pr_reconciliation_date = as_utc_naive (dc_reconciliation_date c),
                   pr_operation_status = dc_operation_status c,
                   pr_reconciliation_status = dc_reconciliation_status c,
                   pr_connector_data = dc_connector_data c, pr_extra_data = dc_extra_data c,
                   pr_source_file_id = dc_source_file_id c,
                   pr_ingestion_key = dc_ingestion_key c,
                   pr_partner_id = pd_id pd, pr_partner_trace = pd_trace pd,
                   pr_partner_status = pd_status pd, pr_partner_amount = pd_amount pd,
                   pr_partner_currency = pd_currency pd, pr_partner_trans_date = td,
                   pr_timestamp_basis = basis, pr_partner_metadata = pd_extra pd,
                   pr_created_by = dc_created_by c,
                   pr_created_date = as_utc_naive (dc_created_date c),
                   pr_last_modified_by = dc_last_modified_by c,
                   pr_last_modified_date = as_utc_naive (dc_last_modified_date c)\<rparr>
         | _ \<Rightarrow> None)"

definition row_to_data_container :: "partner_row \<Rightarrow> data_container" where
  "row_to_data_container r =
     \<lparr>dc_id = pr_id r, dc_request_id = pr_request_id r, dc_identify = pr_identify r,
      dc_workflow_type = pr_workflow_type r,
      dc_reconciliation_date = DT_Naive (pr_reconciliation_date r),
      dc_operation_status = pr_operation_status r,
      dc_reconciliation_status = pr_reconciliation_status r,
      dc_connector_data = pr_connector_data r, dc_extra_data = pr_extra_data r,
      dc_source_file_id = pr_source_file_id r, dc_ingestion_key = pr_ingestion_key r,
      dc_partner_data =
        \<lparr>pd_id = pr_partner_id r, pd_trace = pr_partner_trace r, pd_status = pr_partner_status r,
         pd_amount = pr_partner_amount r, pd_currency = pr_partner_currency r,
         pd_trans_date = map_option DT_Naive (pr_partner_trans_date r),
         pd_timestamp_basis = VStr (pr_timestamp_basis r), pd_extra = pr_partner_metadata r\<rparr>,
      dc_created_by = pr_created_by r, dc_created_date = DT_Naive (pr_created_date r),
      dc_last_modified_by = pr_last_modified_by r,
      dc_last_modified_date = DT_Naive (pr_last_modified_date r)\<rparr>"

section \<open>Round trips\<close>

text \<open>Reading forgets the zone of a time: every time comes back as naive UTC.\<close>

definition naive_times :: "data_container \<Rightarrow> data_container" where
  "naive_times c =
     c\<lparr>dc_reconciliation_date := DT_Naive (as_utc_naive (dc_reconciliation_date c)),
       dc_created_date := DT_Naive (as_utc_naive (dc_created_date c)),
       dc_last_modified_date := DT_Naive (as_utc_naive (dc_last_modified_date c)),
       dc_partner_data := (dc_partner_data c)\<lparr>pd_trans_date :=
         map_option (\<lambda>t. DT_Naive (as_utc_naive t)) (pd_trans_date (dc_partner_data c))\<rparr>\<rparr>"

lemma row_of_container [simp]: "data_container_to_row None (row_to_data_container r) = Some r"
  by (cases "pr_partner_trans_date r")
    (simp_all add: data_container_to_row_def row_to_data_container_def row_trans_date_def
      row_timestamp_basis_def Let_def)

lemma container_of_row:
  "data_container_to_row None c = Some r \<Longrightarrow> row_to_data_container r = naive_times c"
  by (auto simp: data_container_to_row_def row_to_data_container_def row_trans_date_def
      row_timestamp_basis_def Let_def naive_times_def split: option.splits pyval.splits)

lemma row_key_container:
  "data_container_to_row policy c = Some r \<Longrightarrow> row_key r = (dc_identify c, dc_ingestion_key c)"
  by (auto simp: data_container_to_row_def Let_def row_key_def split: option.splits)

lemma row_json_container:
  "data_container_to_row policy c = Some r \<Longrightarrow> row_json r = is_json (VDict (pd_extra (dc_partner_data c)))"
  by (auto simp: data_container_to_row_def Let_def row_json_def split: option.splits)

end
