(* ===== verification/RunState.thy ===== *)
theory RunState
  imports Mappers SourceUnits
begin

text \<open>
  \<open>src/src/pipeline/run_state.py\<close> with the serializers of
  \<open>src/src/application/ingestion/contracts.py\<close>: the mutable state of one ingestion run. It
  counts rows, folds the quality evaluations into rule and outcome counters, keeps a decision
  and an orchestration action up to date and retains a bounded sample of errors. Clock
  readings and durations are left out; where a summary prints them they are an argument.
\<close>

section \<open>Serialized violations\<close>

text \<open>
  \<open>re_json\<close> is pydantic's JSON form of an \<open>Any\<close> value, \<open>re_redact\<close> stands for the two substitutions of \<open>sanitize_runtime_error\<close> and \<open>re_iso\<close> \<open>datetime.isoformat\<close>.
\<close>

record run_env =
  re_json :: "pyval \<Rightarrow> pyval"
  re_str :: "pyval \<Rightarrow> string"
  re_redact :: "string \<Rightarrow> string"
  re_iso :: "datetime \<Rightarrow> string"

text \<open>\<open>str(value)\<close>; \<open>re_str\<close> answers for values that are not text.\<close>

definition str_of :: "run_env \<Rightarrow> pyval \<Rightarrow> string" where
  "str_of E v = (case v of VStr t \<Rightarrow> t | _ \<Rightarrow> re_str E v)"

definition text_value :: "string option \<Rightarrow> pyval" where
  "text_value s = (case s of None \<Rightarrow> VNone | Some t \<Rightarrow> VStr t)"

definition int_value :: "int option \<Rightarrow> pyval" where
  "int_value i = (case i of None \<Rightarrow> VNone | Some n \<Rightarrow> VInt n)"

text \<open>\<open>exclude_none\<close>: an entry without a value is not printed.\<close>

definition entry :: "string \<Rightarrow> pyval \<Rightarrow> pydict" where
  "entry k v = (if v = VNone then [] else [(k, v)])"

definition serialize_quality_violation :: "run_env \<Rightarrow> violation \<Rightarrow> pydict" where
  "serialize_quality_violation E v =
     [(''field'', text_value (qv_field v)), (''reason'', VStr (qv_message v)),
      (''errorCode'', VStr (rule_code_value (qv_code v))),
      (''phase'', VStr (phase_value (qv_phase v))),
      (''severity'', VStr (severity_value (qv_severity v))),
      (''outcome'', VStr (outcome_value (qv_outcome v)))] @
     (if qv_expected v = VNone then [] else [(''expected'', re_json E (qv_expected v))]) @
     (if qv_actual v = VNone then [] else [(''actual'', re_json E (qv_actual v))]) @
     entry ''row'' (int_value (qv_row v)) @
     entry ''trace'' (text_value (qv_trace v)) @
     entry ''configVersion'' (text_value (qv_config_version v))"

fun decision_value :: "decision \<Rightarrow> string" where
  "decision_value QD_PASS = ''PASS''"
| "decision_value QD_REVIEW = ''REVIEW''"
| "decision_value QD_FAIL = ''FAIL''"

fun action_value :: "action \<Rightarrow> string" where
  "action_value OA_CONTINUE = ''CONTINUE''"
| "action_value OA_HOLD_FOR_REVIEW = ''HOLD_FOR_REVIEW''"
| "action_value OA_FAIL = ''FAIL''"

definition counter_value :: "counter \<Rightarrow> pyval" where
  "counter_value c = VDict (map (\<lambda>e. (fst e, VInt (int (snd e)))) c)"

definition serialize_quality_summary :: "summary \<Rightarrow> action \<Rightarrow> pydict" where
  "serialize_quality_summary m act =
     [(''decision'', VStr (decision_value (qm_decision m))), (''action'', VStr (action_value act)),
      (''ruleCounts'', counter_value (qm_rule_counts m)),
      (''outcomeCounts'', counter_value (qm_outcome_counts m)),
      (''topRuleCodes'', VList (map VStr (take 10 (qm_top_rule_codes m))))]"

section \<open>Row outcomes\<close>

text \<open>
  \<open>RowOutcome\<close> of \<open>src/src/pipeline/row_processor.py\<close>, without its timings; the row processor
  extends it with the normalized data.
\<close>

record row_outcome =
  ro_container :: "data_container option"
  ro_ingestion_key :: "string option"
  ro_violations :: "violation list"
  ro_outcome :: outcome
  ro_row_context :: pydict

definition row_is_valid :: "('r) row_outcome_scheme \<Rightarrow> bool" where
  "row_is_valid r \<longleftrightarrow> valid_outcome (ro_outcome r)"

definition row_errors :: "run_env \<Rightarrow> ('r) row_outcome_scheme \<Rightarrow> pydict list" where
  "row_errors E r = map (serialize_quality_violation E) (ro_violations r)"

definition failure_reason :: "('r) row_outcome_scheme \<Rightarrow> string option" where
  "failure_reason r = (case ro_violations r of [] \<Rightarrow> None | v # _ \<Rightarrow> Some (qv_message v))"

definition failure_trace :: "('r) row_outcome_scheme \<Rightarrow> string" where
  "failure_trace r =
     (case List.find (\<lambda>v. str_truthy (qv_trace v)) (ro_violations r) of
        None \<Rightarrow> [] | Some v \<Rightarrow> the (qv_trace v))"

section \<open>The state of a run\<close>

definition error_sample_limit :: nat where
  "error_sample_limit = 5"

record run_state =
  rs_total_rows :: nat
  rs_success_rows :: nat
  rs_failed_rows :: nat
  rs_duplicate_rows :: nat
  rs_rejected_rows :: nat
  rs_persistence_failed_rows :: nat
  rs_quarantined_rows :: nat
  rs_equivalent_duplicate_rows :: nat
  rs_conflicting_duplicate_rows :: nat
  rs_warning_rows :: nat
  rs_rule_counts :: counter
  rs_outcome_counts :: counter
  rs_decision :: decision
  rs_action :: action
  rs_errors :: "pydict list"
  rs_ingestion_keys :: "string list"
  rs_started_at :: datetime
  rs_finished_at :: "datetime option"
  rs_current_stage :: "string option"
  rs_last_error :: "string option"
  rs_last_error_code :: "string option"
  rs_run_id :: "string option"
  rs_partner :: "string option"
  rs_attempt :: int
  rs_source_file_id :: "string option"
  rs_current_unit_key :: "string option"
  rs_current_page :: pyval
  rs_checkpoint_before :: pydict
  rs_checkpoint_after :: pydict
  rs_error_count :: nat
  rs_error_samples_dropped :: nat
  rs_row_error_logs :: nat
  rs_error_fields :: "string set"

text \<open>\<open>IngestionRunState(errors=...)\<close> with \<open>__post_init__\<close>.\<close>

definition error_field :: "run_env \<Rightarrow> pydict \<Rightarrow> string set" where
  "error_field E e = (if truthy (dget e ''field'') then {str_of E (dget e ''field'')} else {})"

definition new_run :: "run_env \<Rightarrow> datetime \<Rightarrow> pydict list \<Rightarrow> run_state" where
  "new_run E now errors =
     \<lparr>rs_total_rows = 0, rs_success_rows = 0, rs_failed_rows = 0, rs_duplicate_rows = 0,
      rs_rejected_rows = 0, rs_persistence_failed_rows = 0, rs_quarantined_rows = 0,
      rs_equivalent_duplicate_rows = 0, rs_conflicting_duplicate_rows = 0, rs_warning_rows = 0,
      rs_rule_counts = [], rs_outcome_counts = [], rs_decision = QD_PASS, rs_action = OA_CONTINUE,
      rs_errors = errors, rs_ingestion_keys = [], rs_started_at = now, rs_finished_at = None,
      rs_current_stage = None, rs_last_error = None, rs_last_error_code = None, rs_run_id = None,
      rs_partner = None, rs_attempt = 1, rs_source_file_id = None, rs_current_unit_key = None,
      rs_current_page = VNone, rs_checkpoint_before = [], rs_checkpoint_after = [],
      rs_error_count = max 0 (length errors), rs_error_samples_dropped = 0,
      rs_row_error_logs = 0, rs_error_fields = \<Union> (error_field E ` set errors)\<rparr>"

section \<open>Rows and errors\<close>

definition record_row :: "run_state \<Rightarrow> nat \<times> run_state" where
  "record_row s = (rs_total_rows s + 1, s\<lparr>rs_total_rows := rs_total_rows s + 1\<rparr>)"

definition add_error :: "run_env \<Rightarrow> run_state \<Rightarrow> pydict \<Rightarrow> run_state" where
  "add_error E s e =
     (let s = s\<lparr>rs_error_count := rs_error_count s + 1,
                rs_error_fields := rs_error_fields s \<union> error_field E e\<rparr>
      in if length (rs_errors s) < error_sample_limit
         then s\<lparr>rs_errors := rs_errors s @ [e]\<rparr>
         else s\<lparr>rs_error_samples_dropped := rs_error_samples_dropped s + 1\<rparr>)"

definition add_errors :: "run_env \<Rightarrow> pydict list \<Rightarrow> run_state \<Rightarrow> run_state" where
  "add_errors E es s = foldl (add_error E) s es"

text \<open>An item of \<open>record_invalid_row\<close>: a dictionary, or a violation that is serialized first.\<close>

datatype error_item = EI_Dict pydict | EI_Violation violation

fun item_dict :: "run_env \<Rightarrow> error_item \<Rightarrow> pydict" where
  "item_dict E (EI_Dict d) = d"
| "item_dict E (EI_Violation v) = serialize_quality_violation E v"

definition record_invalid_row :: "run_env \<Rightarrow> error_item list \<Rightarrow> run_state \<Rightarrow> run_state" where
  "record_invalid_row E items s =
     add_errors E (map (item_dict E) items)
       (s\<lparr>rs_failed_rows := rs_failed_rows s + 1, rs_rejected_rows := rs_rejected_rows s + 1\<rparr>)"

definition record_valid_row :: "string option \<Rightarrow> run_state \<Rightarrow> run_state" where
  "record_valid_row k s =
     s\<lparr>rs_ingestion_keys := rs_ingestion_keys s @ [case k of None \<Rightarrow> [] | Some t \<Rightarrow> t]\<rparr>"

definition should_log_row_error :: "run_state \<Rightarrow> bool \<times> run_state" where
  "should_log_row_error s =
     (if error_sample_limit \<le> rs_row_error_logs s then (False, s)
      else (True, s\<lparr>rs_row_error_logs := rs_row_error_logs s + 1\<rparr>))"

section \<open>Quality\<close>

definition advance_disposition :: "outcome \<Rightarrow> run_state \<Rightarrow> run_state" where
  "advance_disposition oc s =
     (if oc = QO_BATCH_FATAL then s\<lparr>rs_decision := QD_FAIL, rs_action := OA_FAIL\<rparr>
      else if rs_decision s = QD_FAIL then s
      else if oc = QO_CONFLICTING_DUPLICATE
        then s\<lparr>rs_decision := QD_REVIEW, rs_action := OA_HOLD_FOR_REVIEW\<rparr>
      else if oc = QO_REJECT \<or> oc = QO_WARNING then s\<lparr>rs_decision := QD_REVIEW\<rparr>
      else s)"

definition count_kind :: "outcome \<Rightarrow> bool \<Rightarrow> run_state \<Rightarrow> run_state" where
  "count_kind oc warn s =
     (if oc = QO_CONFLICTING_DUPLICATE
      then s\<lparr>rs_conflicting_duplicate_rows := rs_conflicting_duplicate_rows s + 1\<rparr>
      else if oc = QO_EQUIVALENT_DUPLICATE
      then s\<lparr>rs_equivalent_duplicate_rows := rs_equivalent_duplicate_rows s + 1\<rparr>
      else if oc = QO_WARNING \<and> warn then s\<lparr>rs_warning_rows := rs_warning_rows s + 1\<rparr>
      else s)"

definition record_quality :: "outcome \<Rightarrow> violation list \<Rightarrow> bool \<Rightarrow> run_state \<Rightarrow> run_state" where
  "record_quality oc vs warn s =
     (let s = s\<lparr>rs_outcome_counts := cinc (rs_outcome_counts s) (outcome_value oc)\<rparr>
      in if oc = QO_VALID then s
         else advance_disposition oc
                (count_kind oc warn
                   (s\<lparr>rs_rule_counts :=
                        foldl (\<lambda>c v. cinc c (rule_code_value (qv_code v))) (rs_rule_counts s) vs\<rparr>)))"

definition record_row_outcome :: "run_env \<Rightarrow> ('r) row_outcome_scheme \<Rightarrow> run_state \<Rightarrow> run_state" where
  "record_row_outcome E r s =
     (let s = (if row_is_valid r
               then let s = record_valid_row (ro_ingestion_key r) s
                    in if ro_outcome r = QO_WARNING then add_errors E (row_errors E r) s else s
               else record_invalid_row E (map EI_Violation (ro_violations r)) s)
      in record_quality (ro_outcome r) (ro_violations r) True s)"

definition record_quality_evaluation :: "evaluation \<Rightarrow> run_state \<Rightarrow> run_state" where
  "record_quality_evaluation e s =
     record_quality (qe_outcome e) (qe_violations e)
       (dget (qe_row_context e) ''rowNumber'' \<noteq> VNone) s"

section \<open>Batch results\<close>

fun as_row_number :: "pyval \<Rightarrow> int option" where
  "as_row_number (VInt i) = Some i"
| "as_row_number _ = None"

definition duplicate_violation :: "duplicate_detail \<Rightarrow> violation" where
  "duplicate_violation d =
     (if dd_duplicate_type d = QR_CONFLICTING_DUPLICATE
      then \<lparr>qv_code = QR_CONFLICTING_DUPLICATE, qv_phase = QP_PERSISTENCE, qv_severity = QS_ERROR,
            qv_outcome = QO_CONFLICTING_DUPLICATE, qv_field = Some ''ingestion_key'',
            qv_message = ''Duplicate key has a conflicting payload.'',
            qv_expected = VStr (dd_existing_fingerprint d),
            qv_actual = VStr (dd_incoming_fingerprint d),
            qv_row = as_row_number (dget (dd_row_context d) ''rowNumber''), qv_trace = None,
            qv_config_version = None\<rparr>
      else \<lparr>qv_code = QR_EQUIVALENT_DUPLICATE, qv_phase = QP_PERSISTENCE, qv_severity = QS_INFO,
            qv_outcome = QO_EQUIVALENT_DUPLICATE, qv_field = Some ''ingestion_key'',
            qv_message = ''Duplicate key has an equivalent payload.'',
            qv_expected = VStr (dd_existing_fingerprint d),
            qv_actual = VStr (dd_incoming_fingerprint d),
            qv_row = as_row_number (dget (dd_row_context d) ''rowNumber''), qv_trace = None,
            qv_config_version = None\<rparr>)"

definition duplicate_evaluation :: "duplicate_detail \<Rightarrow> evaluation" where
  "duplicate_evaluation d =
     make_evaluation
       (if dd_duplicate_type d = QR_CONFLICTING_DUPLICATE then QO_CONFLICTING_DUPLICATE
        else QO_EQUIVALENT_DUPLICATE)
       [duplicate_violation d] (dd_row_context d)"

definition batch_errors :: "batch_result \<Rightarrow> pydict list" where
  "batch_errors b =
     (if br_duplicates b = 0 then []
      else [[(''field'', VStr ''transaction_duplicate''),
             (''reason'', VStr (nat_text (br_duplicates b) @
                ('' transaction(s) skipped because the ingestion key already exists'')))]]) @
     (if br_failed b = 0 then []
      else [[(''field'', VStr ''batch_conflict''),
             (''reason'', VStr (nat_text (br_failed b) @
                ('' transaction(s) failed during batch persistence'')))]])"

definition record_batch_result :: "run_env \<Rightarrow> batch_result \<Rightarrow> run_state \<Rightarrow> run_state" where
  "record_batch_result E b s =
     add_errors E (batch_errors b)
       (foldl (\<lambda>s d. record_quality_evaluation (duplicate_evaluation d) s)
          (s\<lparr>rs_success_rows := rs_success_rows s + br_inserted b,
             rs_duplicate_rows := rs_duplicate_rows s + br_duplicates b,
             rs_failed_rows := rs_failed_rows s + br_failed b,
             rs_persistence_failed_rows := rs_persistence_failed_rows s + br_failed b\<rparr>)
          (br_duplicate_details b))"

definition record_persistence_failure :: "run_state \<Rightarrow> run_state" where
  "record_persistence_failure s =
     s\<lparr>rs_failed_rows := rs_failed_rows s + 1,
       rs_persistence_failed_rows := rs_persistence_failed_rows s + 1\<rparr>"

definition record_quarantined :: "nat \<Rightarrow> run_state \<Rightarrow> run_state" where
  "record_quarantined n s = s\<lparr>rs_quarantined_rows := rs_quarantined_rows s + n\<rparr>"

section \<open>Context and summaries\<close>

record source_context =
  sc_run_id :: "string option"
  sc_partner :: "string option"
  sc_source_file_id :: "string option"
  sc_source_unit_key :: "string option"
  sc_page :: "int option"
  sc_checkpoint_before :: "pydict option"
  sc_checkpoint_after :: "pydict option"
  sc_attempt :: "int option"

definition override :: "'a option \<Rightarrow> 'a \<Rightarrow> 'a" where
  "override new old = (case new of None \<Rightarrow> old | Some v \<Rightarrow> v)"

definition override_opt :: "'a option \<Rightarrow> 'a option \<Rightarrow> 'a option" where
  "override_opt new old = (case new of None \<Rightarrow> old | Some v \<Rightarrow> Some v)"

definition set_source_context :: "source_context \<Rightarrow> run_state \<Rightarrow> run_state" where
  "set_source_context c s =
     s\<lparr>rs_run_id := override_opt (sc_run_id c) (rs_run_id s),
       rs_partner := override_opt (sc_partner c) (rs_partner s),
       rs_source_file_id := override_opt (sc_source_file_id c) (rs_source_file_id s),
       rs_current_unit_key := override_opt (sc_source_unit_key c) (rs_current_unit_key s),
       rs_current_page := override (map_option VInt (sc_page c)) (rs_current_page s),
       rs_checkpoint_before := override (sc_checkpoint_before c) (rs_checkpoint_before s),
       rs_checkpoint_after := override (sc_checkpoint_after c) (rs_checkpoint_after s),
       rs_attempt := (case sc_attempt c of None \<Rightarrow> rs_attempt s | Some i \<Rightarrow> max 1 i)\<rparr>"

text \<open>\<open>begin_stage\<close> and \<open>finish_run\<close>, without the durations they accumulate.\<close>

definition begin_stage :: "string \<Rightarrow> run_state \<Rightarrow> run_state" where
  "begin_stage stage s = s\<lparr>rs_current_stage := Some stage\<rparr>"

definition finish_run :: "datetime \<Rightarrow> run_state \<Rightarrow> run_state" where
  "finish_run now s = s\<lparr>rs_finished_at := Some now\<rparr>"

text \<open>The error is given by its \<open>str(value or "")\<close>.\<close>

definition record_error :: "run_env \<Rightarrow> string \<Rightarrow> string option \<Rightarrow> run_state \<Rightarrow> run_state" where
  "record_error E err code s =
     (let s = s\<lparr>rs_last_error := Some (sanitize_runtime_error (re_redact E) err 220)\<rparr>
      in if str_truthy code
         then s\<lparr>rs_last_error_code := Some (sanitize_runtime_error (re_redact E) (the code) 96)\<rparr>
         else s)"

definition row_counters :: "run_state \<Rightarrow> (string \<times> nat) list" where
  "row_counters s =
     [(''inputRows'', rs_total_rows s), (''persistedRows'', rs_success_rows s),
      (''rejectedRows'', rs_rejected_rows s), (''duplicateRows'', rs_duplicate_rows s),
      (''failedRows'', rs_persistence_failed_rows s),
      (''persistenceFailedRows'', rs_persistence_failed_rows s),
      (''quarantinedRows'', rs_quarantined_rows s)]"

definition quality_counters :: "run_state \<Rightarrow> (string \<times> nat) list" where
  "quality_counters s =
     row_counters s @
     (if rs_equivalent_duplicate_rows s = 0 then []
      else [(''equivalentDuplicateRows'', rs_equivalent_duplicate_rows s)]) @
     (if rs_conflicting_duplicate_rows s = 0 then []
      else [(''conflictingDuplicateRows'', rs_conflicting_duplicate_rows s)]) @
     (if rs_warning_rows s = 0 then [] else [(''warningRows'', rs_warning_rows s)])"

definition is_partial :: "run_state \<Rightarrow> bool" where
  "is_partial s \<longleftrightarrow>
     rs_rejected_rows s \<noteq> 0 \<or> rs_persistence_failed_rows s \<noteq> 0 \<or> rs_quarantined_rows s \<noteq> 0"

definition quality_summary :: "run_state \<Rightarrow> summary" where
  "quality_summary s = from_counts (rs_rule_counts s) (rs_outcome_counts s)"

record processing_stats =
  ps_total_rows :: nat
  ps_success_rows :: nat
  ps_failed_rows :: nat
  ps_duplicate_rows :: nat

definition run_stats :: "run_state \<Rightarrow> processing_stats" where
  "run_stats s =
     \<lparr>ps_total_rows = rs_total_rows s, ps_success_rows = rs_success_rows s,
      ps_failed_rows = rs_failed_rows s, ps_duplicate_rows = rs_duplicate_rows s\<rparr>"

text \<open>
  \<open>stage_summary\<close>; \<open>tm\<close> gives the values of its timing keys.
\<close>

definition stage_summary :: "run_env \<Rightarrow> (string \<Rightarrow> pyval) \<Rightarrow> run_state \<Rightarrow> pydict" where
  "stage_summary E tm s =
     [(''currentStage'', text_value (rs_current_stage s)),
      (''stageDurationsMs'', tm ''stageDurationsMs'')] @
     map (\<lambda>e. (fst e, VInt (int (snd e)))) (row_counters s) @
     [(''currentUnitKey'', text_value (rs_current_unit_key s)),
      (''currentPage'', rs_current_page s),
      (''checkpointBefore'', VDict (rs_checkpoint_before s)),
      (''checkpointAfter'', VDict (rs_checkpoint_after s)),
      (''startedAt'', VStr (re_iso E (rs_started_at s))),
      (''finishedAt'', text_value (map_option (re_iso E) (rs_finished_at s))),
      (''durationMs'', tm ''durationMs''), (''wallClockMs'', tm ''durationMs''),
      (''batchMetrics'', tm ''batchMetrics''),
      (''errorCount'', VInt (int (rs_error_count s))),
      (''errorSamplesDropped'', VInt (int (rs_error_samples_dropped s))),
      (''lastErrorCode'', text_value (rs_last_error_code s)),
      (''lastError'', text_value (rs_last_error s)),
      (''quality'', VDict (serialize_quality_summary (quality_summary s) (rs_action s)))]"

text \<open>\<open>merge_stage_summary\<close>: the counters, positions and errors of one file are folded in.\<close>

fun added :: "pyval \<Rightarrow> nat" where
  "added (VInt i) = nat (max 0 i)"
| "added _ = 0"

definition merge_text :: "run_env \<Rightarrow> pyval \<Rightarrow> string option \<Rightarrow> string option" where
  "merge_text E v old = (if v = VNone then old else Some (str_of E v))"

definition merge_dict :: "pyval \<Rightarrow> pydict \<Rightarrow> pydict" where
  "merge_dict v old = (case v of VDict d \<Rightarrow> d | _ \<Rightarrow> old)"

definition merge_error :: "run_env \<Rightarrow> pyval \<Rightarrow> nat \<Rightarrow> string option \<Rightarrow> string option" where
  "merge_error E v n old =
     (if truthy v then Some (sanitize_runtime_error (re_redact E) (str_of E v) n) else old)"

definition merge_stage_summary :: "run_env \<Rightarrow> pydict option \<Rightarrow> run_state \<Rightarrow> run_state" where
  "merge_stage_summary E summary s =
     (case summary of
        None \<Rightarrow> s
      | Some d \<Rightarrow>
          s\<lparr>rs_total_rows := rs_total_rows s + added (dget d ''inputRows''),
            rs_success_rows := rs_success_rows s + added (dget d ''persistedRows''),
            rs_rejected_rows := rs_rejected_rows s + added (dget d ''rejectedRows''),
            rs_duplicate_rows := rs_duplicate_rows s + added (dget d ''duplicateRows''),
            rs_persistence_failed_rows :=
              rs_persistence_failed_rows s + added (dget d ''persistenceFailedRows''),
            rs_quarantined_rows := rs_quarantined_rows s + added (dget d ''quarantinedRows''),
            rs_current_stage := merge_text E (dget d ''currentStage'') (rs_current_stage s),
            rs_current_unit_key := merge_text E (dget d ''currentUnitKey'') (rs_current_unit_key s),
            rs_current_page :=
              (if dget d ''currentPage'' = VNone then rs_current_page s else dget d ''currentPage''),
            rs_checkpoint_before := merge_dict (dget d ''checkpointBefore'') (rs_checkpoint_before s),
            rs_checkpoint_after := merge_dict (dget d ''checkpointAfter'') (rs_checkpoint_after s),
            rs_last_error := merge_error E (dget d ''lastError'') 220 (rs_last_error s),
            rs_last_error_code := merge_error E (dget d ''lastErrorCode'') 96 (rs_last_error_code s)\<rparr>)"

end
