(* ===== verification/Normalizer.thy ===== *)
theory Normalizer
  imports RunState Timestamps
begin

text \<open>
  \<open>src/src/normalizer/normalizer.py\<close> with the mapping types of \<open>src/src/core/types.py\<close>: a row of
  a partner file is turned into canonical field values by the configured field mappings, all
  conversion errors are collected, and the values are assembled into a canonical transaction on
  a fast or on a validated path.
\<close>

section \<open>Field mappings\<close>

datatype mapping_type = FM_STRING | FM_DECIMAL | FM_DATE | FM_CONSTANT | FM_MAPPING

datatype column = Col_Int int | Col_Text string

record field_mapping =
  fm_path :: string
  fm_column :: "column option"
  fm_source_field :: "string option"
  fm_type :: mapping_type
  fm_required :: bool
  fm_constant :: "string option"
  fm_mapping :: "(string \<times> string) list option"

text \<open>\<open>ReconciliationPolicy\<close>: the zone in which times without one are read.\<close>

record reconciliation_policy =
  rp_tolerance_seconds :: nat
  rp_timezone :: string

text \<open>
  \<open>ne_str\<close> is \<open>str\<close> of a value that is neither text, number nor truth value, \<open>ne_keys\<close> prints
  the keys of a row, \<open>ne_letter\<close> and \<open>ne_index\<close> are openpyxl's column conversions
  (\<^const>\<open>None\<close> is \<open>ValueError\<close>), \<open>ne_zone\<close> the time zone database and \<open>ne_coerce\<close> what pydantic
  makes of a value for a field of type \<open>datetime\<close>.
\<close>

record norm_env =
  ne_str :: "pyval \<Rightarrow> string"
  ne_keys :: "string list \<Rightarrow> string"
  ne_letter :: "int \<Rightarrow> string option"
  ne_index :: "string \<Rightarrow> int option"
  ne_zone :: "string \<Rightarrow> datetime \<Rightarrow> datetime option"
  ne_coerce :: "pyval \<Rightarrow> pyval option"

definition int_text :: "int \<Rightarrow> string" where
  "int_text i = (if i < 0 then ''-'' @ nat_text (nat (- i)) else nat_text (nat i))"

fun py_str :: "norm_env \<Rightarrow> pyval \<Rightarrow> string" where
  "py_str N (VStr s) = s"
| "py_str N (VInt i) = int_text i"
| "py_str N (VFloat r) = r"
| "py_str N (VBool b) = (if b then ''True'' else ''False'')"
| "py_str N v = ne_str N v"

definition quoted :: "string \<Rightarrow> string" where
  "quoted s = [CHR 0x27] @ s @ [CHR 0x27]"

definition em_dash :: string where
  "em_dash = [CHR 0xE2, CHR 0x80, CHR 0x94]"

fun column_text :: "column \<Rightarrow> string" where
  "column_text (Col_Int i) = int_text i"
| "column_text (Col_Text s) = s"

section \<open>Violations\<close>

definition norm_violation :: "rule_code \<Rightarrow> string \<Rightarrow> string \<Rightarrow> int option \<Rightarrow> violation" where
  "norm_violation code path message row =
     \<lparr>qv_code = code, qv_phase = QP_NORMALIZATION, qv_severity = QS_ERROR, qv_outcome = QO_REJECT,
      qv_field = Some path, qv_message = message, qv_expected = VNone, qv_actual = VNone,
      qv_row = row, qv_trace = None, qv_config_version = None\<rparr>"

definition required_fields :: "string list" where
  "required_fields = [''id'', ''amount'', ''currency'', ''status'']"

definition missing_code :: "field_mapping \<Rightarrow> rule_code" where
  "missing_code fm =
     (if fm_required fm \<or> fm_path fm \<in> set required_fields then QR_MISSING_REQUIRED_FIELD
      else QR_MALFORMED_ROW)"

definition missing :: "field_mapping \<Rightarrow> string \<Rightarrow> int option \<Rightarrow> violation" where
  "missing fm message row = norm_violation (missing_code fm) (fm_path fm) message row"

definition malformed :: "field_mapping \<Rightarrow> string \<Rightarrow> int option \<Rightarrow> violation" where
  "malformed fm message row = norm_violation QR_MALFORMED_ROW (fm_path fm) message row"

section \<open>Reading the source value\<close>

datatype source = Src_Value pyval | Src_Error violation | Src_Raise

definition is_digits :: "string \<Rightarrow> bool" where
  "is_digits s \<longleftrightarrow> s \<noteq> [] \<and> list_all (\<lambda>c. digit_value c \<noteq> None) s"

definition number_of :: "string \<Rightarrow> int" where
  "number_of s = foldl (\<lambda>a c. a * 10 + int (case digit_value c of None \<Rightarrow> 0 | Some d \<Rightarrow> d)) 0 s"

text \<open>A row that is a dictionary; its keys are text, so a column number is tried as a letter.\<close>

definition resolve_in_dict ::
  "norm_env \<Rightarrow> pydict \<Rightarrow> column \<Rightarrow> field_mapping \<Rightarrow> int option \<Rightarrow> source" where
  "resolve_in_dict N d col fm row =
     (let absent = Src_Error (malformed fm
            (''column '' @ column_text col @ '' not found in row keys: '' @ ne_keys N (map fst d)) row)
      in case col of
           Col_Text c \<Rightarrow> (case map_of d c of Some v \<Rightarrow> Src_Value v | None \<Rightarrow> absent)
         | Col_Int i \<Rightarrow>
             (case ne_letter N i of
                None \<Rightarrow> Src_Raise
              | Some c \<Rightarrow> (case map_of d c of Some v \<Rightarrow> Src_Value v | None \<Rightarrow> absent)))"

definition resolve_in_list ::
  "norm_env \<Rightarrow> pyval list \<Rightarrow> column \<Rightarrow> field_mapping \<Rightarrow> int option \<Rightarrow> source" where
  "resolve_in_list N xs col fm row =
     (case (case col of
              Col_Int i \<Rightarrow> Some i
            | Col_Text s \<Rightarrow> if is_digits s then Some (number_of s) else ne_index N s) of
        None \<Rightarrow> Src_Error (malformed fm (''invalid column letter '' @ quoted (column_text col)) row)
      | Some c \<Rightarrow>
          (let idx = c - 1
           in if idx < 0 \<or> int (length xs) \<le> idx
              then Src_Error (malformed fm
                (''column '' @ column_text col @ '' (index '' @ int_text idx @
                 '') out of range (row has '' @ nat_text (length xs) @ '' columns)'') row)
              else Src_Value (xs ! nat idx)))"

definition resolve_by_field ::
  "norm_env \<Rightarrow> pyval \<Rightarrow> field_mapping \<Rightarrow> int option \<Rightarrow> source" where
  "resolve_by_field N r fm row =
     (case fm_source_field fm of
        None \<Rightarrow> Src_Error (malformed fm ''no column configured'' row)
      | Some f \<Rightarrow>
          (case r of
             VDict d \<Rightarrow>
               (case map_of d f of
                  Some v \<Rightarrow> Src_Value v
                | None \<Rightarrow> Src_Error (malformed fm
                    (''sourceField '' @ quoted f @ '' not found in row keys: '' @ ne_keys N (map fst d)) row))
           | _ \<Rightarrow> Src_Error (malformed fm
                    (''sourceField lookup requires dict '' @ em_dash @ '' use column number instead'') row)))"

definition resolve_source :: "norm_env \<Rightarrow> pyval \<Rightarrow> field_mapping \<Rightarrow> int option \<Rightarrow> source" where
  "resolve_source N r fm row =
     (case fm_column fm of
        None \<Rightarrow> resolve_by_field N r fm row
      | Some col \<Rightarrow>
          (case r of
             VDict d \<Rightarrow> resolve_in_dict N d col fm row
           | VList xs \<Rightarrow> resolve_in_list N xs col fm row
           | _ \<Rightarrow> resolve_by_field N r fm row))"

section \<open>Decimals\<close>

datatype number = Finite decimal | Non_Finite

fun span_digits :: "string \<Rightarrow> string \<times> string" where
  "span_digits [] = ([], [])"
| "span_digits (c # s) =
     (if digit_value c = None then ([], c # s)
      else (let (ds, rest) = span_digits s in (c # ds, rest)))"

definition take_sign :: "string \<Rightarrow> int \<times> string" where
  "take_sign s =
     (case s of
        c # t \<Rightarrow> if c = CHR ''-'' then (- 1, t) else if c = CHR ''+'' then (1, t) else (1, s)
      | [] \<Rightarrow> (1, s))"

definition scan_exponent :: "string \<Rightarrow> int option" where
  "scan_exponent s =
     (case s of
        [] \<Rightarrow> Some 0
      | c # t \<Rightarrow>
          if c = CHR ''e'' \<or> c = CHR ''E''
          then (let (sg, u) = take_sign t in if is_digits u then Some (sg * number_of u) else None)
          else None)"

definition special_number :: "string \<Rightarrow> bool" where
  "special_number s \<longleftrightarrow>
     (let l = ascii_lower s
      in l = ''inf'' \<or> l = ''infinity'' \<or>
         starts_with ''nan'' l \<and> (drop 3 l = [] \<or> is_digits (drop 3 l)) \<or>
         starts_with ''snan'' l \<and> (drop 4 l = [] \<or> is_digits (drop 4 l)))"

text \<open>\<open>Decimal(text)\<close>; \<^const>\<open>None\<close> is \<open>InvalidOperation\<close>. Exponents beyond \<open>10\<^sup>18\<close> are not bounded.\<close>

definition parse_decimal :: "string \<Rightarrow> number option" where
  "parse_decimal text =
     (let (sg, s) = take_sign (filter (\<lambda>c. c \<noteq> CHR ''_'') (py_strip text))
      in if special_number s then Some Non_Finite
         else let (ds, rest) = span_digits s;
                  (fs, rest) = (case rest of
                                  c # t \<Rightarrow> if c = CHR ''.'' then span_digits t else ([], rest)
                                | [] \<Rightarrow> ([], rest))
              in if ds @ fs = [] then None
                 else map_option
                        (\<lambda>e. Finite (Decimal (sg * number_of (ds @ fs)) (e - int (length fs))))
                        (scan_exponent rest))"

text \<open>
  \<open>Decimal(str(value))\<close>: the text of a truth value, a time or a container is never a number.
\<close>

fun decimal_of_value :: "pyval \<Rightarrow> number option" where
  "decimal_of_value (VStr s) = parse_decimal s"
| "decimal_of_value (VInt i) = Some (Finite (Decimal i 0))"
| "decimal_of_value (VDecimal d) = Some (Finite d)"
| "decimal_of_value (VFloat r) = parse_decimal r"
| "decimal_of_value _ = None"

section \<open>Conversions\<close>

text \<open>A conversion gives a value, no value, or a violation.\<close>

type_synonym conversion = "violation + pyval option"

definition convert_string :: "norm_env \<Rightarrow> pyval \<Rightarrow> field_mapping \<Rightarrow> int option \<Rightarrow> conversion" where
  "convert_string N v fm row =
     (if v = VNone then Inl (missing fm ''value is None'' row)
      else if py_str N v = [] then Inl (missing fm ''value is empty string'' row)
      else Inr (Some (VStr (py_str N v))))"

definition invalid_amount :: "field_mapping \<Rightarrow> string \<Rightarrow> int option \<Rightarrow> violation" where
  "invalid_amount fm message row = norm_violation QR_INVALID_AMOUNT (fm_path fm) message row"

definition coerce_amount :: "pyval \<Rightarrow> field_mapping \<Rightarrow> int option \<Rightarrow> conversion" where
  "coerce_amount v fm row =
     (if v = VNone then Inl (missing fm ''value is None'' row)
      else if (case v of VFloat _ \<Rightarrow> True | _ \<Rightarrow> False)
        then Inl (invalid_amount fm ''float not allowed for monetary values'' row)
      else case decimal_of_value v of
             None \<Rightarrow> Inl (invalid_amount fm ''invalid decimal value for monetary amount'' row)
           | Some Non_Finite \<Rightarrow> Inl (invalid_amount fm ''non-finite decimal monetary value'' row)
           | Some (Finite d) \<Rightarrow> Inr (Some (VDecimal d)))"

fun type_name :: "pyval \<Rightarrow> string" where
  "type_name VNone = ''NoneType''"
| "type_name (VBool _) = ''bool''"
| "type_name (VInt _) = ''int''"
| "type_name (VFloat _) = ''float''"
| "type_name (VStr _) = ''str''"
| "type_name (VTime _) = ''datetime''"
| "type_name (VNaive _) = ''datetime''"
| "type_name (VDecimal _) = ''Decimal''"
| "type_name (VList _) = ''list''"
| "type_name (VDict _) = ''dict''"

definition optional_trans_date :: "reconciliation_policy option \<Rightarrow> field_mapping \<Rightarrow> bool" where
  "optional_trans_date policy fm \<longleftrightarrow>
     fm_path fm = ''transDate'' \<and> \<not> fm_required fm \<and> policy \<noteq> None"

definition invalid_timestamp :: "pyval \<Rightarrow> field_mapping \<Rightarrow> int option \<Rightarrow> violation" where
  "invalid_timestamp v fm row =
     (norm_violation QR_INVALID_TIMESTAMP (fm_path fm)
        ''Timestamp is not a supported date/time value.'' row)
     \<lparr>qv_expected := VStr ''ISO-8601 datetime with Z/UTC offset or an approved legacy date format'',
      qv_actual := VDict [(''type'', VStr (type_name v))]\<rparr>"

definition time_value :: "py_datetime \<Rightarrow> pyval" where
  "time_value d = (case d of DT_Naive t \<Rightarrow> VNaive t | DT_Utc t \<Rightarrow> VTime t)"

definition convert_date ::
  "norm_env \<Rightarrow> reconciliation_policy option \<Rightarrow> pyval \<Rightarrow> field_mapping \<Rightarrow> int option \<Rightarrow> conversion" where
  "convert_date N policy v fm row =
     (if v = VNone then
        if optional_trans_date policy fm then Inr None
        else Inl (missing fm ''value is None'' row)
      else if optional_trans_date policy fm \<and> (case v of VStr s \<Rightarrow> py_strip s = [] | _ \<Rightarrow> False)
        then Inr None
      else case (case policy of
                   Some p \<Rightarrow> map_option VTime
                               (normalize_transaction_timestamp (ne_zone N (rp_timezone p)) v)
                 | None \<Rightarrow> map_option time_value (parse_transaction_timestamp v)) of
             None \<Rightarrow> Inl (invalid_timestamp v fm row)
           | Some t \<Rightarrow> Inr (Some t))"

definition convert_mapping :: "norm_env \<Rightarrow> pyval \<Rightarrow> field_mapping \<Rightarrow> int option \<Rightarrow> conversion" where
  "convert_mapping N v fm row =
     (if v = VNone \<or> v = VStr [] then
        Inl (missing fm (''cannot map empty/null value for path '' @ quoted (fm_path fm)) row)
      else case fm_mapping fm of
        None \<Rightarrow> Inl (malformed fm (''mapping dict not configured for '' @ fm_path fm) row)
      | Some m \<Rightarrow>
          (case map_of m (py_str N v) of
             Some s \<Rightarrow> Inr (Some (VStr s))
           | None \<Rightarrow>
               (case map_of m ''others'' of
                  Some s \<Rightarrow> Inr (Some (VStr s))
                | None \<Rightarrow>
                    Inl (norm_violation
                      (if fm_path fm = ''status'' then QR_INVALID_STATUS else QR_MALFORMED_ROW)
                      (fm_path fm)
                      (''unmapped value '' @ quoted (py_str N v) @ '' for path '' @
                       quoted (fm_path fm) @ '' '' @ em_dash @ '' no '' @ quoted ''others'' @
                       '' fallback configured'') row))))"

definition convert_constant :: "field_mapping \<Rightarrow> int option \<Rightarrow> conversion" where
  "convert_constant fm row =
     (case fm_constant fm of
        Some (c # cs) \<Rightarrow> Inr (Some (VStr (c # cs)))
      | _ \<Rightarrow> Inl (missing fm ''constant value is not configured'' row))"

definition convert_source ::
  "norm_env \<Rightarrow> reconciliation_policy option \<Rightarrow> pyval \<Rightarrow> field_mapping \<Rightarrow> int option \<Rightarrow> conversion" where
  "convert_source N policy v fm row =
     (if v = VNone then
        if optional_trans_date policy fm then Inr None
        else Inl (missing fm ''source field value is None'' row)
      else case fm_type fm of
        FM_STRING \<Rightarrow> convert_string N v fm row
      | FM_DECIMAL \<Rightarrow> coerce_amount v fm row
      | FM_DATE \<Rightarrow> convert_date N policy v fm row
      | FM_MAPPING \<Rightarrow>
          if fm_mapping fm = None
          then Inl (malformed fm (''mapping dict not configured for '' @ fm_path fm) row)
          else convert_mapping N v fm row
      | FM_CONSTANT \<Rightarrow> convert_constant fm row)"

section \<open>One row\<close>

text \<open>Whatever the mapping type, the value of the path \<open>amount\<close> becomes a decimal.\<close>

definition amount_checked :: "field_mapping \<Rightarrow> int option \<Rightarrow> conversion \<Rightarrow> conversion" where
  "amount_checked fm row c =
     (case c of
        Inr (Some v) \<Rightarrow> if fm_path fm = ''amount'' then coerce_amount v fm row else c
      | _ \<Rightarrow> c)"

text \<open>The value of one mapping; \<^const>\<open>None\<close> is an exception.\<close>

definition map_field ::
  "norm_env \<Rightarrow> reconciliation_policy option \<Rightarrow> pyval \<Rightarrow> int option \<Rightarrow> field_mapping \<Rightarrow> conversion option"
  where
  "map_field N policy r row fm =
     map_option (amount_checked fm row)
       (if fm_type fm = FM_CONSTANT then Some (convert_constant fm row)
        else case resolve_source N r fm row of
               Src_Raise \<Rightarrow> None
             | Src_Error e \<Rightarrow> Some (Inl e)
             | Src_Value v \<Rightarrow> Some (convert_source N policy v fm row))"

type_synonym normalized = "pydict \<times> violation list"

fun add_conversion :: "field_mapping \<Rightarrow> conversion \<Rightarrow> normalized \<Rightarrow> normalized" where
  "add_conversion fm (Inl e) (data, errors) = (data, errors @ [e])"
| "add_conversion fm (Inr None) n = n"
| "add_conversion fm (Inr (Some v)) (data, errors) = (dput data (fm_path fm) v, errors)"

fun normalize_fields ::
  "norm_env \<Rightarrow> reconciliation_policy option \<Rightarrow> pyval \<Rightarrow> int option \<Rightarrow> field_mapping list \<Rightarrow>
     normalized \<Rightarrow> normalized option" where
  "normalize_fields N policy r row [] n = Some n"
| "normalize_fields N policy r row (fm # fms) n =
     (case map_field N policy r row fm of
        None \<Rightarrow> None
      | Some c \<Rightarrow> normalize_fields N policy r row fms (add_conversion fm c n))"

definition normalize_row ::
  "norm_env \<Rightarrow> reconciliation_policy option \<Rightarrow> field_mapping list \<Rightarrow> pyval \<Rightarrow> int option \<Rightarrow>
     normalized option" where
  "normalize_row N policy fms r row =
     map_option
       (\<lambda>(data, errors).
          (if policy = None then data else dput data ''timestampBasis'' (VStr ''CANONICAL_UTC''),
           errors))
       (normalize_fields N policy r row fms ([], []))"

end
