(* ===== verification/Transactions.thy ===== *)
theory Transactions
  imports Normalizer
begin

text \<open>
  The canonical transaction: assembly from normalized data in
  \<open>src/src/normalizer/normalizer.py\<close> (\<open>build_fast_dict\<close>, \<open>build_canonical\<close>) and the
  deterministic checks of \<open>src/src/validators/validator.py\<close>.
\<close>

section \<open>Transactions\<close>

text \<open>
  The fields of \<open>CanonicalTransaction\<close> and of the fast dictionary. On the fast path nothing
  fixes the type of the time and of its basis.
\<close>

record transaction =
  tx_id :: string
  tx_trace :: "string option"
  tx_amount :: decimal
  tx_currency :: string
  tx_status :: string
  tx_trans_date :: pyval
  tx_timestamp_basis :: pyval
  tx_extra :: pydict

definition transaction_statuses :: "string list" where
  "transaction_statuses = [''SUCCESS'', ''FAILED'', ''PENDING'', ''REVERSED'']"

fun is_status :: "pyval \<Rightarrow> bool" where
  "is_status (VStr s) \<longleftrightarrow> s \<in> set transaction_statuses"
| "is_status _ \<longleftrightarrow> False"

definition canonical_keys :: "string list" where
  "canonical_keys = [''id'', ''trace'', ''amount'', ''currency'', ''status'', ''transDate'', ''timestampBasis'']"

text \<open>
  \<open>_extract_extra\<close>. A path \<open>a.b\<close> writes into the dictionary under \<open>a\<close>; when a plain path \<open>a\<close>
  has put a value there, the assignment raises \<open>TypeError\<close>, which is \<^const>\<open>None\<close>.
\<close>

definition split_dot :: "string \<Rightarrow> (string \<times> string) option" where
  "split_dot k =
     (if CHR ''.'' \<in> set k
      then Some (takeWhile (\<lambda>c. c \<noteq> CHR ''.'') k, tl (dropWhile (\<lambda>c. c \<noteq> CHR ''.'') k))
      else None)"

definition put_extra :: "pydict \<Rightarrow> string \<Rightarrow> pyval \<Rightarrow> pydict option" where
  "put_extra extra k v =
     (case split_dot k of
        None \<Rightarrow> Some (dput extra k v)
      | Some (outer, inner) \<Rightarrow>
          if outer = ''extra'' then Some (dput extra inner v)
          else (case map_of extra outer of
                  None \<Rightarrow> Some (dput extra outer (VDict [(inner, v)]))
                | Some (VDict d) \<Rightarrow> Some (dput extra outer (VDict (dput d inner v)))
                | Some _ \<Rightarrow> None))"

fun extract_extra :: "pydict \<Rightarrow> pydict \<Rightarrow> pydict option" where
  "extract_extra [] extra = Some extra"
| "extract_extra ((k, v) # data) extra =
     (if k \<in> set canonical_keys then extract_extra data extra
      else case put_extra extra k v of
             None \<Rightarrow> None
           | Some extra' \<Rightarrow> extract_extra data extra')"

section \<open>Assembly\<close>

datatype built = Built transaction | Refused "violation list" | Raised

definition absent_fields :: "pydict \<Rightarrow> int option \<Rightarrow> violation list" where
  "absent_fields data row =
     map (\<lambda>f. norm_violation QR_MISSING_REQUIRED_FIELD f
                (''required field '' @ quoted f @ '' not found in normalized data'') row)
       (filter (\<lambda>f. map_of data f = None) required_fields)"

definition invalid_status :: "norm_env \<Rightarrow> pyval \<Rightarrow> int option \<Rightarrow> violation" where
  "invalid_status N v row =
     norm_violation QR_INVALID_STATUS ''status''
       (''invalid status value '' @ quoted (py_str N v) @ '' '' @ em_dash @
        '' must be one of SUCCESS, FAILED, PENDING, REVERSED'') row"

definition amount_error :: "int option \<Rightarrow> violation" where
  "amount_error row =
     norm_violation QR_INVALID_AMOUNT ''amount'' ''amount must be a Decimal monetary value'' row"

text \<open>The checks both builders make; \<open>finish\<close> assembles the transaction.\<close>

definition build_checked ::
  "norm_env \<Rightarrow> pydict \<Rightarrow> int option \<Rightarrow> (string \<Rightarrow> decimal \<Rightarrow> pydict \<Rightarrow> transaction option) \<Rightarrow> built"
  where
  "build_checked N data row finish =
     (if absent_fields data row \<noteq> [] then Refused (absent_fields data row)
      else case dget data ''status'' of
        VStr s \<Rightarrow>
          if is_status (VStr s) then
            (case dget data ''amount'' of
               VDecimal d \<Rightarrow>
                 (case extract_extra data [] of
                    None \<Rightarrow> Raised
                  | Some extra \<Rightarrow>
                      (case finish s d extra of None \<Rightarrow> Raised | Some tx \<Rightarrow> Built tx))
             | _ \<Rightarrow> Refused [amount_error row])
          else Refused [invalid_status N (VStr s) row]
      | v \<Rightarrow> Refused [invalid_status N v row])"

definition optional_text :: "norm_env \<Rightarrow> pydict \<Rightarrow> string \<Rightarrow> string option" where
  "optional_text N data k = map_option (py_str N) (map_of data k)"

definition basis_of :: "pydict \<Rightarrow> pyval" where
  "basis_of data = (case map_of data ''timestampBasis'' of None \<Rightarrow> VStr ''LEGACY_STORED'' | Some v \<Rightarrow> v)"

definition fast_transaction :: "norm_env \<Rightarrow> pydict \<Rightarrow> string \<Rightarrow> decimal \<Rightarrow> pydict \<Rightarrow> transaction" where
  "fast_transaction N data s d extra =
     \<lparr>tx_id = py_str N (dget data ''id''), tx_trace = optional_text N data ''trace'', tx_amount = d,
      tx_currency = py_str N (dget data ''currency''), tx_status = s,
      tx_trans_date = dget data ''transDate'', tx_timestamp_basis = basis_of data,
      tx_extra = extra\<rparr>"

definition build_fast_dict :: "norm_env \<Rightarrow> pydict \<Rightarrow> int option \<Rightarrow> built" where
  "build_fast_dict N data row =
     build_checked N data row (\<lambda>s d extra. Some (fast_transaction N data s d extra))"

text \<open>
  \<open>CanonicalTransaction(...)\<close>: pydantic takes a time as it is, tries to make one of anything
  else, and takes only text as a time basis; its \<open>ValidationError\<close> is \<^const>\<open>None\<close>.
\<close>

definition coerce_time :: "norm_env \<Rightarrow> pyval \<Rightarrow> pyval option" where
  "coerce_time N v =
     (case v of VNone \<Rightarrow> Some v | VTime _ \<Rightarrow> Some v | VNaive _ \<Rightarrow> Some v | _ \<Rightarrow> ne_coerce N v)"

definition canonical_transaction :: "norm_env \<Rightarrow> transaction \<Rightarrow> transaction option" where
  "canonical_transaction N tx =
     (case tx_timestamp_basis tx of
        VStr _ \<Rightarrow> map_option (\<lambda>t. tx\<lparr>tx_trans_date := t\<rparr>) (coerce_time N (tx_trans_date tx))
      | _ \<Rightarrow> None)"

definition build_canonical :: "norm_env \<Rightarrow> pydict \<Rightarrow> int option \<Rightarrow> built" where
  "build_canonical N data row =
     build_checked N data row (\<lambda>s d extra. canonical_transaction N (fast_transaction N data s d extra))"

section \<open>Validation\<close>

text \<open>\<open>_value\<close>: the field of a transaction by its name.\<close>

definition tx_value :: "transaction \<Rightarrow> string \<Rightarrow> pyval" where
  "tx_value tx f =
     (if f = ''id'' then VStr (tx_id tx)
      else if f = ''trace'' then text_value (tx_trace tx)
      else if f = ''amount'' then VDecimal (tx_amount tx)
      else if f = ''currency'' then VStr (tx_currency tx)
      else if f = ''status'' then VStr (tx_status tx)
      else if f = ''transDate'' then tx_trans_date tx
      else VNone)"

definition val_violation ::
  "rule_code \<Rightarrow> string \<Rightarrow> string \<Rightarrow> pyval \<Rightarrow> pyval \<Rightarrow> int option \<Rightarrow> string option \<Rightarrow> violation" where
  "val_violation code f message expected actual row trace =
     \<lparr>qv_code = code, qv_phase = QP_VALIDATION, qv_severity = QS_ERROR, qv_outcome = QO_REJECT,
      qv_field = Some f, qv_message = message, qv_expected = expected, qv_actual = actual,
      qv_row = row, qv_trace = trace, qv_config_version = None\<rparr>"

definition blank :: "pyval \<Rightarrow> bool" where
  "blank v = (case v of VNone \<Rightarrow> True | VStr s \<Rightarrow> py_strip s = [] | _ \<Rightarrow> False)"

definition validate_required ::
  "(string \<Rightarrow> pyval) \<Rightarrow> int option \<Rightarrow> string option \<Rightarrow> violation list" where
  "validate_required get row trace =
     map (\<lambda>f. val_violation QR_MISSING_REQUIRED_FIELD f
                (''Required field '' @ quoted f @ '' is empty or missing.'')
                (VStr ''non-empty value'') (get f) row trace)
       (filter (\<lambda>f. blank (get f)) [''id'', ''currency'']) @
     map (\<lambda>f. val_violation QR_MISSING_REQUIRED_FIELD f
                (''Required field '' @ quoted f @ '' is missing.'')
                (VStr ''value'') (get f) row trace)
       (filter (\<lambda>f. get f = VNone \<or> f = ''status'' \<and> blank (get f)) [''amount'', ''status''])"

definition validate_decimal ::
  "norm_env \<Rightarrow> (string \<Rightarrow> pyval) \<Rightarrow> int option \<Rightarrow> string option \<Rightarrow> violation list" where
  "validate_decimal N get row trace =
     (case get ''amount'' of
        VNone \<Rightarrow> []
      | VDecimal d \<Rightarrow>
          if d_coeff d < 0
          then [val_violation QR_NEGATIVE_AMOUNT ''amount''
                  (''Amount must be non-negative, got '' @ py_str N (VDecimal d) @ ''.'')
                  (VStr ''>= 0'') (VDecimal d) row trace]
          else []
      | v \<Rightarrow> [val_violation QR_INVALID_AMOUNT ''amount''
                ''Amount must be a Decimal-compatible monetary value.'' (VStr ''Decimal'') v row trace])"

definition validate_date :: "(string \<Rightarrow> pyval) \<Rightarrow> int option \<Rightarrow> string option \<Rightarrow> violation list" where
  "validate_date get row trace =
     (case get ''transDate'' of
        VNone \<Rightarrow> []
      | VTime _ \<Rightarrow> []
      | VNaive _ \<Rightarrow> []
      | v \<Rightarrow> [val_violation QR_INVALID_TIMESTAMP ''transDate'' ''transDate must be a datetime object.''
                (VStr ''datetime'') (VDict [(''type'', VStr (type_name v))]) row trace])"

definition validate_status ::
  "norm_env \<Rightarrow> (string \<Rightarrow> pyval) \<Rightarrow> int option \<Rightarrow> string option \<Rightarrow> violation list" where
  "validate_status N get row trace =
     (let v = get ''status''
      in if blank v \<or> is_status v then []
         else [val_violation QR_INVALID_STATUS ''status''
                 (''Invalid status value '' @ quoted (py_str N v) @ '' '' @ em_dash @
                  '' must be one of SUCCESS, FAILED, PENDING, REVERSED.'')
                 (VList (map VStr transaction_statuses)) v row trace])"

definition validate ::
  "norm_env \<Rightarrow> (string \<Rightarrow> pyval) \<Rightarrow> int option \<Rightarrow> string option \<Rightarrow> bool \<Rightarrow> evaluation" where
  "validate N get row trace include_context =
     (let tr = str_or trace (case get ''trace'' of VStr s \<Rightarrow> Some s | _ \<Rightarrow> None);
          vs = validate_required get row tr @ validate_decimal N get row tr @
               validate_date get row tr @ validate_status N get row tr
      in make_evaluation (if vs = [] then QO_VALID else QO_REJECT) vs
           (if include_context
            then [(''rowNumber'', int_value row), (''trace'', text_value tr)] else []))"

end
