(* ===== verification/RowProcessor.thy ===== *)
theory RowProcessor
  imports Transactions
begin

text \<open>
  \<open>src/src/pipeline/row_processor.py\<close>: one source row becomes a row outcome, which is either a
  rejection with its violations or a container ready to be stored under its ingestion key.
\<close>

section \<open>The processor\<close>

text \<open>
  The row processor of one file. \<open>pc_fresh\<close> gives the two random identifiers and the creation
  time of the container of a row.
\<close>

record processor =
  pc_env :: norm_env
  pc_policy :: "reconciliation_policy option"
  pc_mappings :: "field_mapping list"
  pc_fast :: bool
  pc_partner :: string
  pc_workflow_type :: string
  pc_reconciliation_date :: py_datetime
  pc_source_file_id :: uuid
  pc_fresh :: "int \<Rightarrow> uuid \<times> uuid \<times> datetime"

record processed_outcome = row_outcome +
  ro_normalized_data :: pydict

definition derive_ingestion_key :: "transaction \<Rightarrow> string option" where
  "derive_ingestion_key tx =
     (if tx_id tx \<noteq> [] then Some (tx_id tx)
      else if str_truthy (tx_trace tx) then tx_trace tx else None)"

definition partner_data_of :: "transaction \<Rightarrow> partner_data" where
  "partner_data_of tx =
     \<lparr>pd_id = tx_id tx, pd_trace = tx_trace tx, pd_status = tx_status tx, pd_amount = tx_amount tx,
      pd_currency = tx_currency tx,
      pd_trans_date = (case tx_trans_date tx of
                         VTime t \<Rightarrow> Some (DT_Utc t) | VNaive t \<Rightarrow> Some (DT_Naive t) | _ \<Rightarrow> None),
      pd_timestamp_basis = tx_timestamp_basis tx, pd_extra = tx_extra tx\<rparr>"

definition build_data_container :: "processor \<Rightarrow> int \<Rightarrow> transaction \<Rightarrow> string \<Rightarrow> data_container" where
  "build_data_container P row tx key =
     (case pc_fresh P row of
        (u1, u2, now) \<Rightarrow>
          \<lparr>dc_id = u1, dc_request_id = u2, dc_identify = pc_partner P,
           dc_workflow_type = pc_workflow_type P,
           dc_reconciliation_date = pc_reconciliation_date P,
           dc_operation_status = ''IN_PROGRESS'', dc_reconciliation_status = [],
           dc_connector_data = [], dc_extra_data = [], dc_source_file_id = pc_source_file_id P,
           dc_ingestion_key = key, dc_partner_data = partner_data_of tx,
           dc_created_by = ''system'', dc_created_date = DT_Utc now,
           dc_last_modified_by = ''system'', dc_last_modified_date = DT_Utc now\<rparr>)"

definition rejected_row :: "pydict \<Rightarrow> violation list \<Rightarrow> outcome \<Rightarrow> pydict \<Rightarrow> processed_outcome" where
  "rejected_row data vs oc ctx =
     \<lparr>ro_container = None, ro_ingestion_key = None, ro_violations = vs, ro_outcome = oc,
      ro_row_context = ctx, ro_normalized_data = data\<rparr>"

text \<open>\<open>process\<close>, once the row is normalized and the transaction is built.\<close>

definition process_built :: "processor \<Rightarrow> int \<Rightarrow> pydict \<Rightarrow> transaction \<Rightarrow> processed_outcome option" where
  "process_built P row data tx =
     (let e = validate (pc_env P) (tx_value tx) (Some row) (tx_trace tx) False;
          ctx = [(''rowNumber'', VInt row), (''trace'', text_value (tx_trace tx))]
      in if \<not> valid_outcome (qe_outcome e)
         then Some (rejected_row data (qe_violations e) (qe_outcome e) ctx)
         else map_option
                (\<lambda>key. \<lparr>ro_container = Some (build_data_container P row tx key),
                        ro_ingestion_key = Some key, ro_violations = qe_violations e,
                        ro_outcome = qe_outcome e, ro_row_context = ctx,
                        ro_normalized_data = data\<rparr>)
                (derive_ingestion_key tx))"

definition process :: "processor \<Rightarrow> pyval \<Rightarrow> int \<Rightarrow> processed_outcome option" where
  "process P r row =
     (case normalize_row (pc_env P) (pc_policy P) (pc_mappings P) r (Some row) of
        None \<Rightarrow> None
      | Some (data, errors) \<Rightarrow>
          if errors \<noteq> []
          then Some (rejected_row data errors QO_REJECT [(''rowNumber'', VInt row)])
          else case (if pc_fast P then build_fast_dict else build_canonical)
                      (pc_env P) data (Some row) of
                 Raised \<Rightarrow> None
               | Refused vs \<Rightarrow> Some (rejected_row data vs QO_REJECT [(''rowNumber'', VInt row)])
               | Built tx \<Rightarrow> process_built P row data tx)"

end
