(* ===== verification/Readers.thy ===== *)
theory Readers
  imports Normalizer
begin

text \<open>
  \<open>src/src/readers/\<close>: the streaming readers that turn a partner file into rows, and
  \<open>src/src/infrastructure/ingestion/source_row_reader.py\<close> with the raw readers of
  \<open>src/src/config/signature.py\<close>: reading one row again by its number when a quarantined row is
  replayed. Parsing the file itself (\<open>csv\<close>, \<open>json\<close>, calamine, openpyxl) gives the argument.
\<close>

section \<open>Source files\<close>

text \<open>
  The parsed content of a file: the records of a CSV or TSV file; the cells of the configured
  sheet and of the active sheet of a workbook; the value of a JSON document.
\<close>

datatype source_file =
  SF_Csv "string list list"
| SF_Excel "pyval list list" "pyval list list"
| SF_Json pyval

section \<open>Rows that are skipped\<close>

text \<open>The last three patterns are Chinese words for totals, in UTF-8.\<close>

definition skip_patterns :: "string list" where
  "skip_patterns =
     [''total'', ''grand total'', ''summary'', ''footer'',
      [CHR 0xE5, CHR 0x90, CHR 0x88, CHR 0xE8, CHR 0xAE, CHR 0xA1],
      [CHR 0xE6, CHR 0x80, CHR 0xBB, CHR 0xE8, CHR 0xAE, CHR 0xA1],
      [CHR 0xE5, CHR 0xB0, CHR 0x8F, CHR 0xE8, CHR 0xAE, CHR 0xA1]]"

definition matches_pattern :: "string \<Rightarrow> bool" where
  "matches_pattern cell \<longleftrightarrow> (\<exists>p \<in> set skip_patterns. has_infix p (ascii_lower cell))"

definition empty_cell :: "pyval \<Rightarrow> bool" where
  "empty_cell v \<longleftrightarrow> v = VNone \<or> v = VStr []"

definition csv_skips :: "string list \<Rightarrow> bool" where
  "csv_skips row \<longleftrightarrow> list_all (\<lambda>c. c = []) row \<or> (\<exists>c \<in> set row. matches_pattern c)"

text \<open>Only the first three cells of a worksheet row are searched for a pattern.\<close>

definition excel_skips :: "norm_env \<Rightarrow> pyval list \<Rightarrow> bool" where
  "excel_skips N row \<longleftrightarrow>
     list_all empty_cell row \<or>
     (\<exists>c \<in> set (take 3 row). c \<noteq> VNone \<and> matches_pattern (py_str N c))"

definition json_skips :: "pyval \<Rightarrow> bool" where
  "json_skips row =
     (case row of
        VList xs \<Rightarrow> list_all empty_cell xs
      | VDict d \<Rightarrow> list_all (\<lambda>e. empty_cell (snd e)) d
      | v \<Rightarrow> v = VNone)"

section \<open>Streaming\<close>

definition from_row :: "int \<Rightarrow> 'a list \<Rightarrow> 'a list" where
  "from_row start xs = drop (nat (start - 1)) xs"

definition csv_rows :: "int \<Rightarrow> string list list \<Rightarrow> pyval list" where
  "csv_rows start rows =
     map (\<lambda>r. VList (map VStr r)) (filter (\<lambda>r. \<not> csv_skips r) (from_row start rows))"

text \<open>\<open>whole\<close> gives the integer of a float that is one, as \<open>is_integer\<close> and \<open>int\<close> do.\<close>

definition clean_cell :: "(string \<Rightarrow> int option) \<Rightarrow> pyval \<Rightarrow> pyval" where
  "clean_cell whole v =
     (case v of
        VStr s \<Rightarrow> if s = [] then VNone else v
      | VFloat r \<Rightarrow> (case whole r of None \<Rightarrow> v | Some i \<Rightarrow> VInt i)
      | _ \<Rightarrow> v)"

definition excel_rows ::
  "norm_env \<Rightarrow> (string \<Rightarrow> int option) \<Rightarrow> int \<Rightarrow> pyval list list \<Rightarrow> pyval list" where
  "excel_rows N whole start rows =
     map VList (filter (\<lambda>r. \<not> excel_skips N r) (map (map (clean_cell whole)) (from_row start rows)))"

definition sanitize_cell :: "pyval \<Rightarrow> pyval" where
  "sanitize_cell v = (case v of VFloat r \<Rightarrow> VStr r | _ \<Rightarrow> v)"

definition sanitize_row :: "pyval \<Rightarrow> pyval" where
  "sanitize_row row =
     (case row of
        VDict d \<Rightarrow> VDict (map (\<lambda>e. (fst e, sanitize_cell (snd e))) d)
      | VList xs \<Rightarrow> VList (map sanitize_cell xs)
      | v \<Rightarrow> VList [sanitize_cell v])"

text \<open>The records of a JSON document; \<^const>\<open>None\<close> is the \<open>ValueError\<close> of another root.\<close>

definition json_records :: "pyval \<Rightarrow> pyval list option" where
  "json_records v =
     (case v of
        VDict d \<Rightarrow> (case dget d ''items'' of VList xs \<Rightarrow> Some xs | _ \<Rightarrow> None)
      | VList xs \<Rightarrow> Some xs
      | _ \<Rightarrow> None)"

definition json_rows :: "int \<Rightarrow> pyval \<Rightarrow> pyval list option" where
  "json_rows start v =
     map_option (\<lambda>xs. map sanitize_row (filter (\<lambda>r. \<not> json_skips r) (from_row start xs)))
       (json_records v)"

definition iter_rows ::
  "norm_env \<Rightarrow> (string \<Rightarrow> int option) \<Rightarrow> int \<Rightarrow> source_file \<Rightarrow> pyval list option" where
  "iter_rows N whole start f =
     (case f of
        SF_Csv rows \<Rightarrow> Some (csv_rows start rows)
      | SF_Excel sheet active \<Rightarrow> Some (excel_rows N whole start sheet)
      | SF_Json v \<Rightarrow> json_rows start v)"

section \<open>Reading one row again\<close>

definition normalize_cell :: "norm_env \<Rightarrow> pyval \<Rightarrow> string" where
  "normalize_cell N v = (if v = VNone then [] else py_strip (py_str N v))"

definition blank_row :: "string list \<Rightarrow> bool" where
  "blank_row row \<longleftrightarrow> list_all (\<lambda>c. c = []) row"

text \<open>\<open>_read_raw_csv\<close> and \<open>_read_raw_xlsx\<close>: leading blank rows are dropped, cells are stripped.\<close>

definition read_raw :: "nat \<Rightarrow> string list list \<Rightarrow> string list list" where
  "read_raw n rows = take n (dropWhile blank_row rows)"

text \<open>\<open>_read_raw_json\<close>: \<^const>\<open>None\<close> is the \<open>ValueError\<close> of another root.\<close>

definition raw_item :: "norm_env \<Rightarrow> pyval \<Rightarrow> string list" where
  "raw_item N v =
     (case v of
        VList xs \<Rightarrow> map (normalize_cell N) xs
      | VDict d \<Rightarrow> map (\<lambda>e. normalize_cell N (snd e)) d
      | _ \<Rightarrow> [normalize_cell N v])"

definition read_raw_json :: "norm_env \<Rightarrow> nat \<Rightarrow> pyval \<Rightarrow> string list list option" where
  "read_raw_json N n v = map_option (\<lambda>xs. map (raw_item N) (take n xs)) (json_records v)"

definition read_raw_rows :: "norm_env \<Rightarrow> nat \<Rightarrow> source_file \<Rightarrow> string list list option" where
  "read_raw_rows N n f =
     (case f of
        SF_Csv rows \<Rightarrow> Some (read_raw n (map (map py_strip) rows))
      | SF_Excel sheet active \<Rightarrow> Some (read_raw n (map (map (normalize_cell N)) active))
      | SF_Json v \<Rightarrow> read_raw_json N n v)"

fun sanitize_json_value :: "pyval \<Rightarrow> pyval" where
  "sanitize_json_value (VFloat r) = VStr r"
| "sanitize_json_value (VDict d) = VDict (map (\<lambda>e. (fst e, sanitize_json_value (snd e))) d)"
| "sanitize_json_value (VList xs) = VList (map sanitize_json_value xs)"
| "sanitize_json_value v = v"

definition as_row :: "pyval \<Rightarrow> pyval" where
  "as_row v = (case v of VList _ \<Rightarrow> v | VDict _ \<Rightarrow> v | _ \<Rightarrow> VList [v])"

text \<open>\<open>read_authoritative_row\<close>: \<^const>\<open>Inl\<close> is the \<open>ValueError\<close> of a row number below one.\<close>

definition read_authoritative_row :: "norm_env \<Rightarrow> source_file \<Rightarrow> int \<Rightarrow> unit + pyval option" where
  "read_authoritative_row N f n =
     (if n < 1 then Inl ()
      else Inr (case f of
        SF_Json v \<Rightarrow>
          (case (case v of VDict d \<Rightarrow> dget d ''items'' | _ \<Rightarrow> v) of
             VList xs \<Rightarrow>
               if int (length xs) < n then None
               else Some (as_row (sanitize_json_value (xs ! nat (n - 1))))
           | _ \<Rightarrow> None)
      | _ \<Rightarrow>
          (case read_raw_rows N (nat n) f of
             None \<Rightarrow> None
           | Some rows \<Rightarrow>
               if int (length rows) < n then None
               else Some (VList (map VStr (rows ! nat (n - 1)))))))"

text \<open>
  The number the row coordinator gives to the row it reads at position \<open>k\<close> of the stream.
\<close>

definition stream_row_number :: "int \<Rightarrow> nat \<Rightarrow> int" where
  "stream_row_number start k = start + int k"

section \<open>When the numbers agree\<close>

lemma read_raw_nth: "n < length (dropWhile blank_row rows) \<Longrightarrow> n < m \<Longrightarrow>
    read_raw m rows ! n = dropWhile blank_row rows ! n"
  by (simp add: read_raw_def)

lemma authoritative_csv:
  assumes "1 \<le> n" and "nat n \<le> length (dropWhile blank_row (map (map py_strip) rows))"
  shows "read_authoritative_row N (SF_Csv rows) n
    = Inr (Some (VList (map VStr (dropWhile blank_row (map (map py_strip) rows) ! nat (n - 1)))))"
proof -
  let ?rows = "dropWhile blank_row (map (map py_strip) rows)"
  have "length (read_raw (nat n) (map (map py_strip) rows)) = nat n"
    using assms(2) by (simp add: read_raw_def)
  moreover have "read_raw (nat n) (map (map py_strip) rows) ! nat (n - 1) = ?rows ! nat (n - 1)"
    using assms by (intro read_raw_nth) linarith+
  ultimately show ?thesis using assms(1)
    by (simp add: read_authoritative_row_def read_raw_rows_def)
qed

lemma csv_rows_at_skip:
  assumes "1 \<le> start" and "nat (start - 1) \<le> length pre"
    and "list_all (\<lambda>r. \<not> csv_skips r) (from_row start pre)" and "csv_skips s" and "\<not> csv_skips x"
  shows "csv_rows start (pre @ s # x # post) ! (length pre - nat (start - 1)) = VList (map VStr x)"
    and "length pre - nat (start - 1) < length (csv_rows start (pre @ s # x # post))"
proof -
  let ?k = "length pre - nat (start - 1)"
  have "from_row start (pre @ s # x # post) = from_row start pre @ s # x # post"
    using assms(2) by (simp add: from_row_def)
  moreover have "filter (\<lambda>r. \<not> csv_skips r) (from_row start pre) = from_row start pre"
    using assms(3) by (simp add: list_all_iff)
  ultimately have rows: "csv_rows start (pre @ s # x # post)
      = map (\<lambda>r. VList (map VStr r)) (from_row start pre @ x # filter (\<lambda>r. \<not> csv_skips r) post)"
    using assms(4,5) by (simp add: csv_rows_def)
  have "length (from_row start pre) = ?k" by (simp add: from_row_def)
  then show "csv_rows start (pre @ s # x # post) ! ?k = VList (map VStr x)"
    "?k < length (csv_rows start (pre @ s # x # post))"
    unfolding rows by (simp_all add: nth_append)
qed

section \<open>Properties\<close>

text \<open>A skipped row shifts every replay behind it. The stream counts only the rows it yields,
  while a quarantined row is read again by its physical position: when the rows of a CSV file before
  a blank or summary row are all kept, the row right after that one is streamed and recorded under
  the position of the skipped row, so replaying it reads the skipped row in its place.\<close>

theorem skipped_row_shifts_replay:
  assumes "2 \<le> start" and "nat (start - 1) \<le> length pre" and "\<not> blank_row (map py_strip (hd pre))"
    and "list_all (\<lambda>r. \<not> csv_skips r) (from_row start pre)" and "csv_skips s" and "\<not> csv_skips x"
  shows "\<exists>k < length (csv_rows start (pre @ s # x # post)).
    csv_rows start (pre @ s # x # post) ! k = VList (map VStr x) \<and>
    read_authoritative_row N (SF_Csv (pre @ s # x # post)) (stream_row_number start k)
      = Inr (Some (VList (map VStr (map py_strip s))))"
proof -
  let ?k = "length pre - nat (start - 1)" and ?rows = "pre @ s # x # post"
  have num: "stream_row_number start ?k = int (length pre) + 1"
    using assms(1,2) by (simp add: stream_row_number_def)
  have "pre \<noteq> []" using assms(1,2) by auto
  then have all: "dropWhile blank_row (map (map py_strip) ?rows) = map (map py_strip) ?rows"
    using assms(3) by (cases pre) simp_all
  have "read_authoritative_row N (SF_Csv ?rows) (int (length pre) + 1)
      = Inr (Some (VList (map VStr (map (map py_strip) ?rows ! length pre))))"
    using authoritative_csv [of "int (length pre) + 1" ?rows N, unfolded all] by simp
  moreover have "map (map py_strip) ?rows ! length pre = map py_strip s"
    by (simp add: nth_append)
  ultimately show ?thesis
    using csv_rows_at_skip [of start pre s x post] assms num
    by (intro exI [of _ ?k]) simp
qed

theorem skipped_row_shifts_replay_witness:
  "\<forall>N. \<exists>k. csv_rows 2 [[''id'', ''amount''], [''Total'', ''9''], [''T2'', ''5'']] ! k
       = VList [VStr ''T2'', VStr ''5''] \<and>
     read_authoritative_row N (SF_Csv [[''id'', ''amount''], [''Total'', ''9''], [''T2'', ''5'']])
        (stream_row_number 2 k) = Inr (Some (VList (map VStr (map py_strip [''Total'', ''9'']))))"
proof -
  have skip: "csv_skips [''Total'', ''9'']" and keep: "\<not> csv_skips [''T2'', ''5'']"
    and hd: "\<not> blank_row (map py_strip (hd [[''id'', ''amount'']]))" by code_simp+
  have "\<exists>k < length (csv_rows 2 ([[''id'', ''amount'']] @ [''Total'', ''9''] # [''T2'', ''5''] # [])).
      csv_rows 2 ([[''id'', ''amount'']] @ [''Total'', ''9''] # [''T2'', ''5''] # []) ! k
        = VList (map VStr [''T2'', ''5'']) \<and>
      read_authoritative_row N
        (SF_Csv ([[''id'', ''amount'']] @ [''Total'', ''9''] # [''T2'', ''5''] # []))
        (stream_row_number 2 k) = Inr (Some (VList (map VStr (map py_strip [''Total'', ''9'']))))" for N
    by (rule skipped_row_shifts_replay) (use skip keep hd in \<open>simp_all add: from_row_def\<close>)
  then show ?thesis by auto
qed

end
