(* ===== verification/RowPipeline.thy ===== *)
theory RowPipeline
  imports RowProcessor Readers QuarantineRepo
begin

text \<open>
  \<open>src/src/pipeline/batch_writer.py\<close>, \<open>row_batch_coordinator.py\<close> and \<open>row_pipeline.py\<close>: the row
  loop of one file. Accepted rows are buffered and written in batches, several of them
  concurrently; rejected rows and conflicting duplicates are stored as quarantine records; the
  run state counts everything. Timings are left out.
\<close>

section \<open>Batch writer\<close>

datatype write_error = WE_Contexts | WE_Columns | WE_Store batch_error | WE_Attempted

type_synonym batch = "data_container list \<times> pydict list option"

type_synonym write_result = "write_error + batch_result"

text \<open>The context of a row is attached to the detail of a conflicting duplicate.\<close>

definition attach_context :: "pydict list \<Rightarrow> duplicate_detail \<Rightarrow> duplicate_detail" where
  "attach_context ctxs d =
     (if dd_duplicate_type d = QR_CONFLICTING_DUPLICATE \<and> dd_incoming_index d < length ctxs
      then d\<lparr>dd_row_context := ctxs ! dd_incoming_index d\<rparr> else d)"

definition attach_contexts :: "pydict list option \<Rightarrow> batch_result \<Rightarrow> batch_result" where
  "attach_contexts ctxs b =
     (case ctxs of
        None \<Rightarrow> b
      | Some xs \<Rightarrow> b\<lparr>br_duplicate_details := map (attach_context xs) (br_duplicate_details b)\<rparr>)"

definition write_batch :: "hashing \<Rightarrow> batch \<Rightarrow> partner_table \<Rightarrow> write_result \<times> partner_table" where
  "write_batch h batch t =
     (case batch of (cs, ctxs) \<Rightarrow>
        if (case ctxs of None \<Rightarrow> False | Some xs \<Rightarrow> length xs \<noteq> length cs) then (Inl WE_Contexts, t)
        else case those (map (data_container_to_row None) cs) of
               None \<Rightarrow> (Inl WE_Columns, t)
             | Some rs \<Rightarrow>
                 (case insert_many h rs t of
                    (Inl e, t') \<Rightarrow> (Inl (WE_Store e), t')
                  | (Inr b, t') \<Rightarrow>
                      if attempted b \<noteq> length cs then (Inl WE_Attempted, t')
                      else (Inr (attach_contexts ctxs b), t')))"

record batch_writer =
  bw_workers :: nat
  bw_pending :: "batch list"
  bw_drains :: nat

definition new_writer :: "nat \<Rightarrow> batch_writer option" where
  "new_writer workers =
     (if workers < 1 then None
      else Some \<lparr>bw_workers = workers, bw_pending = [], bw_drains = 0\<rparr>)"

text \<open>
  The tasks of one drain commit in the order of the ranks that \<open>rank\<close> gives them; every order is
  possible. The results come back in the order of submission, and the first failure is raised.
\<close>

type_synonym schedule = "nat \<Rightarrow> nat \<Rightarrow> nat"

fun run_writes ::
  "hashing \<Rightarrow> (nat \<times> batch) list \<Rightarrow> partner_table \<Rightarrow> (nat \<times> write_result) list \<times> partner_table" where
  "run_writes h [] t = ([], t)"
| "run_writes h ((i, b) # bs) t =
     (let (r, t') = write_batch h b t; (rs, t'') = run_writes h bs t' in ((i, r) # rs, t''))"

fun first_error :: "(nat \<times> write_result) list \<Rightarrow> write_error option" where
  "first_error [] = None"
| "first_error ((i, Inl e) # rs) = Some e"
| "first_error ((i, Inr b) # rs) = first_error rs"

definition gather ::
  "nat \<Rightarrow> (nat \<times> write_result) list \<Rightarrow> write_error + batch_result list" where
  "gather n rs =
     (case first_error rs of
        Some e \<Rightarrow> Inl e
      | None \<Rightarrow> Inr (map (\<lambda>i. projr (the (map_of rs i))) [0..<n]))"

definition drain ::
  "hashing \<Rightarrow> schedule \<Rightarrow> batch_writer \<Rightarrow> partner_table \<Rightarrow>
     (write_error + batch_result list) \<times> batch_writer \<times> partner_table" where
  "drain h rank w t =
     (if bw_pending w = [] then (Inr [], w, t)
      else let n = length (bw_pending w);
               order = sort_key (rank (bw_drains w)) [0..<n];
               (rs, t') = run_writes h (map (\<lambda>i. (i, bw_pending w ! i)) order) t
           in (gather n rs, w\<lparr>bw_pending := [], bw_drains := bw_drains w + 1\<rparr>, t'))"

definition submit ::
  "hashing \<Rightarrow> schedule \<Rightarrow> batch \<Rightarrow> batch_writer \<Rightarrow> partner_table \<Rightarrow>
     (write_error + batch_result list) \<times> batch_writer \<times> partner_table" where
  "submit h rank b w t =
     (if fst b = [] then (Inr [], w, t)
      else if bw_workers w = 1
        then (case write_batch h b t of
                (Inl e, t') \<Rightarrow> (Inl e, w, t')
              | (Inr r, t') \<Rightarrow> (Inr [r], w, t'))
      else let w = w\<lparr>bw_pending := bw_pending w @ [b]\<rparr>
           in if length (bw_pending w) < bw_workers w then (Inr [], w, t) else drain h rank w t)"

section \<open>Quarantine records\<close>

record file_context =
  fx_file_id :: string
  fx_partner :: string
  fx_reconciliation_date :: datetime
  fx_fetch_unit_key :: "string option"
  fx_config_version :: "string option"
  fx_review_packet_id :: "string option"
  fx_post_approval_run_id :: "string option"

text \<open>\<open>IngestionQuarantineRecord(...)\<close> with the fields both constructors share.\<close>

definition new_record ::
  "uuid \<times> datetime \<Rightarrow> file_context \<Rightarrow> int option \<Rightarrow> pyval \<Rightarrow> pydict list \<Rightarrow> q_phase \<Rightarrow> q_doc" where
  "new_record fresh fx row raw errors phase =
     \<lparr>qd_id = fst fresh, qd_source_file_id = fx_file_id fx,
      qd_source_unit_key = fx_fetch_unit_key fx, qd_review_packet_id = fx_review_packet_id fx,
      qd_post_approval_run_id = fx_post_approval_run_id fx, qd_partner = fx_partner fx,
      qd_reconciliation_date = fx_reconciliation_date fx, qd_row_number = row, qd_raw_row = raw,
      qd_ingestion_key = None, qd_incoming_fingerprint = None, qd_existing_fingerprint = None,
      qd_errors = errors, qd_phase = phase, qd_severity = QSV_RECORD,
      qd_config_version = fx_config_version fx, qd_status = Q_PENDING, qd_priority = QPR_NORMAL,
      qd_review_due_at = None, qd_escalation_level = 0, qd_escalated_at = None,
      qd_escalated_by = None, qd_last_action_id = None, qd_attempt_count = 1, qd_expires_at = None,
      qd_claimed_by = None, qd_claimed_at = None, qd_claim_expires_at = None,
      qd_last_attempt_error = None, qd_resolution_metadata = [], qd_history = [],
      qd_retention_until = None, qd_created_at = snd fresh, qd_updated_at = snd fresh,
      qd_active = None\<rparr>"

definition quarantine_record ::
  "nat \<Rightarrow> uuid \<times> datetime \<Rightarrow> file_context \<Rightarrow> pyval \<Rightarrow> int \<Rightarrow> pydict list \<Rightarrow> q_doc" where
  "quarantine_record sla fresh fx raw row errors =
     set_operator_defaults sla
       (new_record fresh fx (Some row) (sanitize_raw_row 512 raw) errors QPH_VALIDATION)"

definition conflict_error :: "file_context \<Rightarrow> duplicate_detail \<Rightarrow> pyval \<Rightarrow> pyval \<Rightarrow> pydict" where
  "conflict_error fx d row raw =
     [(''field'', VStr ''ingestion_key''),
      (''reason'', VStr ''Duplicate key has a conflicting payload.''),
      (''errorCode'', VStr (rule_code_value QR_CONFLICTING_DUPLICATE)),
      (''phase'', VStr ''PERSISTENCE''), (''severity'', VStr ''ERROR''),
      (''outcome'', VStr (rule_code_value QR_CONFLICTING_DUPLICATE)),
      (''incomingFingerprint'', VStr (dd_incoming_fingerprint d)),
      (''existingFingerprint'', VStr (dd_existing_fingerprint d)),
      (''sourceFileId'', VStr (fx_file_id fx)),
      (''sourceUnitKey'', text_value (fx_fetch_unit_key fx)), (''rowNumber'', row),
      (''rawRow'', raw), (''configVersion'', text_value (fx_config_version fx))]"

definition conflict_record ::
  "nat \<Rightarrow> uuid \<times> datetime \<Rightarrow> file_context \<Rightarrow> duplicate_detail \<Rightarrow> q_doc" where
  "conflict_record sla fresh fx d =
     (let ctx = dd_row_context d; row = dget ctx ''rowNumber'';
          raw = sanitize_raw_row 512
                  (case map_of ctx ''rawRow'' of None \<Rightarrow> VDict [] | Some v \<Rightarrow> v)
      in set_operator_defaults sla
           ((new_record fresh fx (as_row_number row) raw [conflict_error fx d row raw] QPH_BATCH)
              \<lparr>qd_ingestion_key := Some (dd_ingestion_key d),
               qd_incoming_fingerprint := Some (dd_incoming_fingerprint d),
               qd_existing_fingerprint := Some (dd_existing_fingerprint d)\<rparr>))"

section \<open>The row loop\<close>

text \<open>
  What a run is set up with. \<open>su_fresh\<close> gives the identifier and creation time of the records, by
  their number, and \<open>su_now\<close> the clock at a flush of the quarantine.
\<close>

record run_setup =
  su_env :: run_env
  su_hashing :: hashing
  su_rank :: schedule
  su_processor :: processor
  su_start_row :: int
  su_batch_size :: nat
  su_context :: file_context
  su_fresh :: "nat \<Rightarrow> uuid \<times> datetime"
  su_now :: datetime
  su_sla_hours :: nat
  su_retention_days :: nat

text \<open>
  The state of the loop: the run state, the writer, the table, the quarantine collection when the
  pipeline has one, the three buffers, the number of records built and the row failures logged.
\<close>

record run_box =
  bx_state :: run_state
  bx_writer :: batch_writer
  bx_table :: partner_table
  bx_quarantine :: "q_store option"
  bx_quarantine_buffer :: "q_doc list"
  bx_batch :: "data_container list"
  bx_contexts :: "pydict list"
  bx_created :: nat
  bx_logged :: "(int \<times> string \<times> string) list"

datatype run_error = RX_Row | RX_Write write_error

type_synonym run_result = "(run_error \<times> run_box) + run_box"

definition emit_stage :: "string \<Rightarrow> run_box \<Rightarrow> run_box" where
  "emit_stage stage bx = bx\<lparr>bx_state := begin_stage stage (bx_state bx)\<rparr>"

definition flush_quarantine :: "run_setup \<Rightarrow> q_doc list \<Rightarrow> run_box \<Rightarrow> run_box" where
  "flush_quarantine su rs bx =
     (case bx_quarantine bx of
        None \<Rightarrow> bx
      | Some q \<Rightarrow>
          (let bx = emit_stage ''QUARANTINING'' bx;
               (n, q') = create_many (su_retention_days su) (su_now su) rs q
           in bx\<lparr>bx_quarantine := Some q', bx_state := record_quarantined n (bx_state bx)\<rparr>))"

definition conflicts_of :: "batch_result \<Rightarrow> duplicate_detail list" where
  "conflicts_of b =
     filter (\<lambda>d. dd_duplicate_type d = QR_CONFLICTING_DUPLICATE) (br_duplicate_details b)"

definition conflict_records :: "run_setup \<Rightarrow> nat \<Rightarrow> batch_result \<Rightarrow> q_doc list" where
  "conflict_records su n b =
     map (\<lambda>(i, d). conflict_record (su_sla_hours su) (su_fresh su i) (su_context su) d)
       (List.enumerate n (conflicts_of b))"

definition quarantine_conflicts :: "run_setup \<Rightarrow> batch_result \<Rightarrow> run_box \<Rightarrow> run_box" where
  "quarantine_conflicts su b bx =
     (if bx_quarantine bx = None \<or> conflicts_of b = [] then bx
      else let rs = conflict_records su (bx_created bx) b
           in flush_quarantine su rs (bx\<lparr>bx_created := bx_created bx + length rs\<rparr>))"

definition record_result :: "run_setup \<Rightarrow> run_box \<Rightarrow> batch_result \<Rightarrow> run_box" where
  "record_result su bx b =
     quarantine_conflicts su b
       (bx\<lparr>bx_state := record_batch_result (su_env su) b (bx_state bx)\<rparr>)"

text \<open>The results of a submission or of the last drain are recorded one after the other.\<close>

definition after_writes ::
  "run_setup \<Rightarrow> run_box \<Rightarrow> (write_error + batch_result list) \<times> batch_writer \<times> partner_table \<Rightarrow>
     run_result" where
  "after_writes su bx r =
     (case r of (res, w, t) \<Rightarrow>
        let bx = bx\<lparr>bx_writer := w, bx_table := t\<rparr>
        in (case res of
              Inl e \<Rightarrow> Inl (RX_Write e, bx)
            | Inr bs \<Rightarrow> Inr (foldl (record_result su) bx bs)))"

definition flush_batch :: "run_setup \<Rightarrow> run_box \<Rightarrow> run_result" where
  "flush_batch su bx =
     (let bx = emit_stage ''PERSISTING'' bx
      in case after_writes su bx
                (submit (su_hashing su) (su_rank su) (bx_batch bx, Some (bx_contexts bx))
                   (bx_writer bx) (bx_table bx)) of
           Inl e \<Rightarrow> Inl e
         | Inr bx \<Rightarrow> Inr (bx\<lparr>bx_batch := [], bx_contexts := []\<rparr>))"

definition log_failure :: "int \<Rightarrow> processed_outcome \<Rightarrow> run_box \<Rightarrow> run_box" where
  "log_failure row out bx =
     (let (log, s) = should_log_row_error (bx_state bx); bx = bx\<lparr>bx_state := s\<rparr>
      in if log
         then bx\<lparr>bx_logged := bx_logged bx @
                [(row, if failure_trace out = [] then ''row:'' @ int_text row else failure_trace out,
                  case failure_reason out of
                    Some (c # m) \<Rightarrow> c # m | _ \<Rightarrow> ''Row processing failed'')]\<rparr>
         else bx)"

definition reject_row ::
  "run_setup \<Rightarrow> pyval \<Rightarrow> int \<Rightarrow> processed_outcome \<Rightarrow> run_box \<Rightarrow> run_box" where
  "reject_row su r row out bx =
     log_failure row out
       (if bx_quarantine bx = None then bx
        else let d = quarantine_record (su_sla_hours su) (su_fresh su (bx_created bx))
                       (su_context su) r row (row_errors (su_env su) out);
                 bx = bx\<lparr>bx_quarantine_buffer := bx_quarantine_buffer bx @ [d],
                         bx_created := bx_created bx + 1\<rparr>
             in if su_batch_size su \<le> length (bx_quarantine_buffer bx)
                then (flush_quarantine su (bx_quarantine_buffer bx) bx)\<lparr>bx_quarantine_buffer := []\<rparr>
                else bx)"

definition accept_row ::
  "run_setup \<Rightarrow> pyval \<Rightarrow> int \<Rightarrow> data_container \<Rightarrow> run_box \<Rightarrow> run_result" where
  "accept_row su r row c bx =
     (let bx = bx\<lparr>bx_batch := bx_batch bx @ [c],
                 bx_contexts := bx_contexts bx @ [[(''rowNumber'', VInt row), (''rawRow'', r)]]\<rparr>
      in if su_batch_size su \<le> length (bx_batch bx) then flush_batch su bx else Inr bx)"

definition row_step :: "run_setup \<Rightarrow> pyval \<Rightarrow> run_box \<Rightarrow> run_result" where
  "row_step su r bx =
     (let (n, s) = record_row (bx_state bx); row = su_start_row su + int n - 1;
          bx = bx\<lparr>bx_state := s\<rparr>
      in case process (su_processor su) r row of
           None \<Rightarrow> Inl (RX_Row, bx)
         | Some out \<Rightarrow>
             (let bx = bx\<lparr>bx_state := record_row_outcome (su_env su) out (bx_state bx)\<rparr>
              in case (row_is_valid out, ro_container out) of
                   (True, Some c) \<Rightarrow> accept_row su r row c bx
                 | _ \<Rightarrow> Inr (reject_row su r row out bx)))"

fun row_loop :: "run_setup \<Rightarrow> pyval list \<Rightarrow> run_box \<Rightarrow> run_result" where
  "row_loop su [] bx = Inr bx"
| "row_loop su (r # rs) bx = (case row_step su r bx of Inl e \<Rightarrow> Inl e | Inr bx \<Rightarrow> row_loop su rs bx)"

definition finish_loop :: "run_setup \<Rightarrow> run_box \<Rightarrow> run_result" where
  "finish_loop su bx =
     (case (if bx_batch bx = [] then Inr bx else flush_batch su bx) of
        Inl e \<Rightarrow> Inl e
      | Inr bx \<Rightarrow>
          (case after_writes su bx (drain (su_hashing su) (su_rank su) (bx_writer bx) (bx_table bx)) of
             Inl e \<Rightarrow> Inl e
           | Inr bx \<Rightarrow>
               Inr (if bx_quarantine_buffer bx = [] then bx
                    else flush_quarantine su (bx_quarantine_buffer bx) bx)))"

text \<open>\<open>RowBatchCoordinator.run\<close> over the rows of the reader.\<close>

definition run_rows :: "run_setup \<Rightarrow> pyval list \<Rightarrow> run_box \<Rightarrow> run_result" where
  "run_rows su rows bx =
     (case row_loop su rows (emit_stage ''PROCESSING'' bx) of
        Inl e \<Rightarrow> Inl e
      | Inr bx \<Rightarrow> finish_loop su bx)"

text \<open>
  \<open>RowPipelineExecutor.run\<close>: the coordinator starts with empty buffers; a mapping without fields
  and a writer without workers are refused before any row is read.
\<close>

definition start_box :: "run_state \<Rightarrow> batch_writer \<Rightarrow> partner_table \<Rightarrow> q_store option \<Rightarrow> run_box" where
  "start_box s w t q =
     \<lparr>bx_state = s, bx_writer = w, bx_table = t, bx_quarantine = q, bx_quarantine_buffer = [],
      bx_batch = [], bx_contexts = [], bx_created = 0, bx_logged = []\<rparr>"

definition run_pipeline ::
  "run_setup \<Rightarrow> (string \<Rightarrow> int option) \<Rightarrow> nat \<Rightarrow> source_file \<Rightarrow> run_state \<Rightarrow> partner_table \<Rightarrow>
     q_store option \<Rightarrow> run_result option" where
  "run_pipeline su whole workers f s t q =
     (if pc_mappings (su_processor su) = [] then None
      else case (new_writer workers,
                 iter_rows (pc_env (su_processor su)) whole (su_start_row su) f) of
             (Some w, Some rows) \<Rightarrow> Some (run_rows su rows (start_box s w t q))
           | _ \<Rightarrow> None)"

end
