(* ===== verification/RunStateProps.thy ===== *)
theory RunStateProps
  imports RunState
begin

text \<open>
  What the incremental bookkeeping of a run amounts to: after any sequence of recorded events
  the state agrees with the summary computed from the whole history of evaluations, its error
  sample is a prefix of all errors, and a file summary folded into a runtime state adds the
  counters of the file.
\<close>

section \<open>Events of a run\<close>

datatype run_event =
  RE_Begin_Row
| RE_Row row_outcome
| RE_Evaluation evaluation
| RE_Batch batch_result
| RE_Error pydict
| RE_Lost_Row
| RE_Quarantined nat

fun apply_event :: "run_env \<Rightarrow> run_state \<Rightarrow> run_event \<Rightarrow> run_state" where
  "apply_event E s RE_Begin_Row = snd (record_row s)"
| "apply_event E s (RE_Row r) = record_row_outcome E r s"
| "apply_event E s (RE_Evaluation e) = record_quality_evaluation e s"
| "apply_event E s (RE_Batch b) = record_batch_result E b s"
| "apply_event E s (RE_Error d) = add_error E s d"
| "apply_event E s RE_Lost_Row = record_persistence_failure s"
| "apply_event E s (RE_Quarantined n) = record_quarantined n s"

definition run_events :: "run_env \<Rightarrow> run_state \<Rightarrow> run_event list \<Rightarrow> run_state" where
  "run_events E s evs = foldl (apply_event E) s evs"

text \<open>The abstract history: the evaluations and the errors an event stands for.\<close>

definition row_evaluation :: "('r) row_outcome_scheme \<Rightarrow> evaluation" where
  "row_evaluation r =
     \<lparr>qe_outcome = ro_outcome r, qe_violations = ro_violations r, qe_row_context = ro_row_context r\<rparr>"

fun event_evaluations :: "run_event \<Rightarrow> evaluation list" where
  "event_evaluations (RE_Row r) = [row_evaluation r]"
| "event_evaluations (RE_Evaluation e) = [e]"
| "event_evaluations (RE_Batch b) = map duplicate_evaluation (br_duplicate_details b)"
| "event_evaluations _ = []"

fun event_errors :: "run_env \<Rightarrow> run_event \<Rightarrow> pydict list" where
  "event_errors E (RE_Row r) =
     (if row_is_valid r \<and> ro_outcome r \<noteq> QO_WARNING then [] else row_errors E r)"
| "event_errors E (RE_Batch b) = batch_errors b"
| "event_errors E (RE_Error d) = [d]"
| "event_errors E _ = []"

text \<open>
  A VALID evaluation carries no violation, and a conflicting-duplicate violation occurs only in
  an evaluation that is conflicting or fatal.
\<close>

definition coherent :: "evaluation \<Rightarrow> bool" where
  "coherent e \<longleftrightarrow>
     (qe_outcome e = QO_VALID \<longrightarrow> qe_violations e = []) \<and>
     ((\<exists>v \<in> set (qe_violations e). qv_code v = QR_CONFLICTING_DUPLICATE) \<longrightarrow>
        qe_outcome e = QO_CONFLICTING_DUPLICATE \<or> qe_outcome e = QO_BATCH_FATAL)"

section \<open>The error sample\<close>

definition sampled :: "run_env \<Rightarrow> run_state \<Rightarrow> pydict list \<Rightarrow> bool" where
  "sampled E s errs \<longleftrightarrow>
     rs_errors s = take error_sample_limit errs \<and> rs_error_count s = length errs \<and>
     rs_error_samples_dropped s = length errs - error_sample_limit \<and>
     rs_error_fields s = \<Union> (error_field E ` set errs)"

lemma sampled_add_error: "sampled E s errs \<Longrightarrow> sampled E (add_error E s e) (errs @ [e])"
  by (auto simp: sampled_def add_error_def Let_def)

lemma sampled_add_errors: "sampled E s errs \<Longrightarrow> sampled E (add_errors E es s) (errs @ es)"
proof (induction es arbitrary: s errs)
  case (Cons e es)
  from Cons.IH [OF sampled_add_error [OF Cons.prems]] show ?case by (simp add: add_errors_def)
qed (simp add: add_errors_def)

text \<open>Everything but the errors is left alone by \<^const>\<open>add_errors\<close>.\<close>

lemma add_error_keeps [simp]:
  "rs_rule_counts (add_error E s e) = rs_rule_counts s"
  "rs_outcome_counts (add_error E s e) = rs_outcome_counts s"
  "rs_decision (add_error E s e) = rs_decision s" "rs_action (add_error E s e) = rs_action s"
  "rs_total_rows (add_error E s e) = rs_total_rows s"
  "rs_success_rows (add_error E s e) = rs_success_rows s"
  "rs_failed_rows (add_error E s e) = rs_failed_rows s"
  "rs_duplicate_rows (add_error E s e) = rs_duplicate_rows s"
  "rs_rejected_rows (add_error E s e) = rs_rejected_rows s"
  "rs_persistence_failed_rows (add_error E s e) = rs_persistence_failed_rows s"
  "rs_quarantined_rows (add_error E s e) = rs_quarantined_rows s"
  "rs_equivalent_duplicate_rows (add_error E s e) = rs_equivalent_duplicate_rows s"
  "rs_conflicting_duplicate_rows (add_error E s e) = rs_conflicting_duplicate_rows s"
  "rs_ingestion_keys (add_error E s e) = rs_ingestion_keys s"
  by (simp_all add: add_error_def Let_def)

lemma add_errors_keep:
  assumes "\<And>s e. f (add_error E s e) = f s"
  shows "f (add_errors E es s) = f s"
  using assms by (induction es arbitrary: s) (simp_all add: add_errors_def)

lemmas add_errors_keeps [simp] = add_error_keeps [THEN add_errors_keep]

text \<open>The quality bookkeeping touches neither the errors nor the row counters.\<close>

lemma record_quality_keeps [simp]:
  "rs_errors (record_quality oc vs w s) = rs_errors s"
  "rs_error_count (record_quality oc vs w s) = rs_error_count s"
  "rs_error_samples_dropped (record_quality oc vs w s) = rs_error_samples_dropped s"
  "rs_error_fields (record_quality oc vs w s) = rs_error_fields s"
  "rs_total_rows (record_quality oc vs w s) = rs_total_rows s"
  "rs_success_rows (record_quality oc vs w s) = rs_success_rows s"
  "rs_failed_rows (record_quality oc vs w s) = rs_failed_rows s"
  "rs_duplicate_rows (record_quality oc vs w s) = rs_duplicate_rows s"
  "rs_rejected_rows (record_quality oc vs w s) = rs_rejected_rows s"
  "rs_persistence_failed_rows (record_quality oc vs w s) = rs_persistence_failed_rows s"
  "rs_quarantined_rows (record_quality oc vs w s) = rs_quarantined_rows s"
  "rs_ingestion_keys (record_quality oc vs w s) = rs_ingestion_keys s"
  by (simp_all add: record_quality_def advance_disposition_def count_kind_def Let_def)

lemma record_evaluations_keep:
  assumes "\<And>oc vs w s. f (record_quality oc vs w s) = f s"
  shows "f (foldl (\<lambda>s d. record_quality_evaluation (g d) s) s ds) = f s"
  using assms by (induction ds arbitrary: s) (simp_all add: record_quality_evaluation_def)

lemmas record_evaluations_keeps [simp] = record_quality_keeps [THEN record_evaluations_keep]

section \<open>The quality history\<close>

definition agrees :: "run_state \<Rightarrow> evaluation list \<Rightarrow> bool" where
  "agrees s es \<longleftrightarrow>
     rs_rule_counts s = count_all [] (evaluation_codes es) \<and>
     rs_outcome_counts s = count_all [] (evaluation_outcomes es) \<and>
     rs_decision s = worst_decision es \<and>
     rs_action s = orchestration_action_for (from_evaluations es) \<and>
     rs_equivalent_duplicate_rows s
       = length (filter (\<lambda>e. qe_outcome e = QO_EQUIVALENT_DUPLICATE) es) \<and>
     rs_conflicting_duplicate_rows s
       = length (filter (\<lambda>e. qe_outcome e = QO_CONFLICTING_DUPLICATE) es)"

lemma fold_codes:
  "foldl (\<lambda>c v. cinc c (rule_code_value (qv_code v))) c vs
     = count_all c (map (\<lambda>v. rule_code_value (qv_code v)) vs)"
  by (induction vs arbitrary: c) simp_all

lemma evaluation_append [simp]:
  "evaluation_codes (es @ fs) = evaluation_codes es @ evaluation_codes fs"
  "evaluation_outcomes (es @ fs) = evaluation_outcomes es @ evaluation_outcomes fs"
  by (simp_all add: evaluation_codes_def evaluation_outcomes_def)

lemma worst_decision_append:
  assumes "coherent e"
  shows "worst_decision (es @ [e]) =
    (if qe_outcome e = QO_BATCH_FATAL then QD_FAIL
     else if worst_decision es = QD_FAIL then QD_FAIL
     else if qe_outcome e \<in> {QO_CONFLICTING_DUPLICATE, QO_REJECT, QO_WARNING} then QD_REVIEW
     else worst_decision es)"
  using assms by (auto simp: worst_decision_def coherent_def)

lemma action_append:
  assumes "coherent e"
  shows "orchestration_action_for (from_evaluations (es @ [e])) =
    (if qe_outcome e = QO_BATCH_FATAL then OA_FAIL
     else if worst_decision es = QD_FAIL then OA_FAIL
     else if qe_outcome e = QO_CONFLICTING_DUPLICATE then OA_HOLD_FOR_REVIEW
     else orchestration_action_for (from_evaluations es))"
  using assms unfolding action_from_evaluations by (auto simp: worst_decision_def coherent_def)

lemma fail_action: "worst_decision es = QD_FAIL \<Longrightarrow> orchestration_action_for (from_evaluations es) = OA_FAIL"
  unfolding action_from_evaluations by (auto simp: worst_decision_def split: if_splits)

lemma agrees_record_quality:
  assumes "coherent e" and "agrees s es"
  shows "agrees (record_quality (qe_outcome e) (qe_violations e) w s) (es @ [e])"
proof -
  have codes: "evaluation_codes [e] = map (\<lambda>v. rule_code_value (qv_code v)) (qe_violations e)"
    and outcomes: "evaluation_outcomes [e] = [outcome_value (qe_outcome e)]"
    by (simp_all add: evaluation_codes_def evaluation_outcomes_def)
  show ?thesis
  proof (cases "qe_outcome e = QO_VALID")
    case True
    with assms(1) have "qe_violations e = []" by (simp add: coherent_def)
    with True assms show ?thesis
      by (simp add: agrees_def record_quality_def codes outcomes worst_decision_append
          action_append fail_action)
  next
    case False
    with assms show ?thesis
      by (cases "qe_outcome e")
        (simp_all add: agrees_def record_quality_def Let_def codes outcomes fold_codes
          worst_decision_append action_append fail_action advance_disposition_def count_kind_def
          del: outcome_value.simps rule_code_value.simps)
  qed
qed

lemma agrees_same_quality:
  assumes "agrees s es"
    and "rs_rule_counts s' = rs_rule_counts s" "rs_outcome_counts s' = rs_outcome_counts s"
    "rs_decision s' = rs_decision s" "rs_action s' = rs_action s"
    "rs_equivalent_duplicate_rows s' = rs_equivalent_duplicate_rows s"
    "rs_conflicting_duplicate_rows s' = rs_conflicting_duplicate_rows s"
  shows "agrees s' es"
  using assms by (simp add: agrees_def)

lemma agrees_add_errors: "agrees s es \<Longrightarrow> agrees (add_errors E errs s) es"
  by (rule agrees_same_quality) simp_all

lemma agrees_evaluation:
  "coherent e \<Longrightarrow> agrees s es \<Longrightarrow> agrees (record_quality_evaluation e s) (es @ [e])"
  by (simp add: record_quality_evaluation_def agrees_record_quality)

lemma coherent_duplicate: "coherent (duplicate_evaluation d)"
  by (simp add: coherent_def duplicate_evaluation_def duplicate_violation_def make_evaluation_def
      infer_outcome_def)

lemma agrees_duplicates:
  "agrees s es \<Longrightarrow>
   agrees (foldl (\<lambda>s d. record_quality_evaluation (duplicate_evaluation d) s) s ds)
     (es @ map duplicate_evaluation ds)"
proof (induction ds arbitrary: s es)
  case (Cons d ds)
  from Cons.IH [OF agrees_evaluation [OF coherent_duplicate Cons.prems]] show ?case by simp
qed simp

lemma agrees_row:
  assumes "coherent (row_evaluation r)" and "agrees s es"
  shows "agrees (record_row_outcome E r s) (es @ [row_evaluation r])"
proof -
  have valid: "agrees (record_valid_row k s) es" and invalid: "agrees (record_invalid_row E items s) es"
    for k items
    using assms(2)
    by (auto simp: record_valid_row_def record_invalid_row_def
        intro: agrees_add_errors agrees_same_quality)
  note step = agrees_record_quality [OF assms(1), of _ es True, unfolded row_evaluation_def,
      simplified, folded row_evaluation_def]
  show ?thesis unfolding record_row_outcome_def Let_def
    by (rule step) (simp add: valid invalid agrees_add_errors)
qed

lemma agrees_batch:
  assumes "agrees s es"
  shows "agrees (record_batch_result E b s) (es @ map duplicate_evaluation (br_duplicate_details b))"
  unfolding record_batch_result_def
  by (intro agrees_add_errors agrees_duplicates agrees_same_quality [OF assms]) simp_all

lemma agrees_event:
  assumes "list_all coherent (event_evaluations ev)" and "agrees s es"
  shows "agrees (apply_event E s ev) (es @ event_evaluations ev)"
  using assms
proof (cases ev)
  case (RE_Error d)
  with assms(2) agrees_add_errors [of s es E "[d]"] show ?thesis by (simp add: add_errors_def)
qed (auto simp: agrees_row agrees_evaluation agrees_batch record_row_def
       record_persistence_failure_def record_quarantined_def elim!: agrees_same_quality)

lemma agrees_events:
  assumes "\<forall>ev \<in> set evs. list_all coherent (event_evaluations ev)" and "agrees s es"
  shows "agrees (run_events E s evs) (es @ concat (map event_evaluations evs))"
  using assms
proof (induction evs arbitrary: s es)
  case (Cons ev evs)
  have "agrees (apply_event E s ev) (es @ event_evaluations ev)"
    by (rule agrees_event) (use Cons.prems in simp_all)
  from Cons.IH [OF _ this] Cons.prems(1) show ?case by (simp add: run_events_def)
qed (simp add: run_events_def)

lemma agrees_new: "agrees (new_run E now errs) []"
  by (simp add: agrees_def new_run_def worst_decision_def action_from_evaluations
      evaluation_codes_def evaluation_outcomes_def)

lemma sampled_row:
  assumes "sampled E s errs"
  shows "sampled E (record_row_outcome E r s) (errs @ event_errors E (RE_Row r))"
proof -
  have same: "sampled E (record_quality oc vs w t) xs = sampled E t xs" for oc vs w t xs
    by (simp add: sampled_def)
  have valid: "sampled E (record_valid_row k s) errs" for k
    using assms by (simp add: sampled_def record_valid_row_def)
  have failed: "sampled E (s\<lparr>rs_failed_rows := m, rs_rejected_rows := n\<rparr>) errs" for m n
    using assms by (simp add: sampled_def)
  show ?thesis
    by (auto simp: record_row_outcome_def Let_def same record_invalid_row_def row_errors_def
        o_def valid_outcome_def row_is_valid_def valid failed intro!: sampled_add_errors)
qed

lemma sampled_event:
  assumes "sampled E s errs"
  shows "sampled E (apply_event E s ev) (errs @ event_errors E ev)"
proof (cases ev)
  case (RE_Row r)
  with sampled_row [OF assms] show ?thesis by simp
next
  case (RE_Batch b)
  have "sampled E (foldl (\<lambda>s d. record_quality_evaluation (duplicate_evaluation d) s)
      (s\<lparr>rs_success_rows := i, rs_duplicate_rows := j, rs_failed_rows := k,
         rs_persistence_failed_rows := l\<rparr>) ds) errs" for i j k l ds
    using assms by (simp add: sampled_def)
  with RE_Batch show ?thesis by (simp add: record_batch_result_def sampled_add_errors)
next
  case (RE_Error d)
  with sampled_add_error [OF assms] show ?thesis by simp
qed (use assms in \<open>auto simp: sampled_def record_row_def
      record_quality_evaluation_def record_persistence_failure_def record_quarantined_def\<close>)

lemma sampled_events:
  "sampled E s errs \<Longrightarrow> sampled E (run_events E s evs) (errs @ concat (map (event_errors E) evs))"
proof (induction evs arbitrary: s errs)
  case (Cons ev evs)
  from Cons.IH [OF sampled_event [OF Cons.prems]] show ?case by (simp add: run_events_def)
qed (simp add: run_events_def)

lemma sampled_new: "sampled E (new_run E now []) []"
  by (simp add: sampled_def new_run_def)

section \<open>Properties\<close>

definition demo_run_env :: run_env where
  "demo_run_env = \<lparr>re_json = id, re_str = \<lambda>_. ''?'', re_redact = id, re_iso = \<lambda>_. ''T''\<rparr>"

definition demo_rejected :: row_outcome where
  "demo_rejected =
     \<lparr>ro_container = None, ro_ingestion_key = None, ro_violations = [default_violation],
      ro_outcome = QO_REJECT, ro_row_context = []\<rparr>"

definition demo_conflict :: duplicate_detail where
  "demo_conflict =
     \<lparr>dd_identify = ''P'', dd_ingestion_key = ''k'', dd_duplicate_type = QR_CONFLICTING_DUPLICATE,
      dd_incoming_index = 0, dd_incoming_fingerprint = ''a'', dd_existing_fingerprint = ''b'',
      dd_partner_id = None, dd_partner_trace = None, dd_row_context = []\<rparr>"

definition demo_batch :: batch_result where
  "demo_batch =
     \<lparr>br_inserted = 0, br_duplicates = 1, br_equivalent_duplicates = 0,
      br_conflicting_duplicates = 1, br_failed = 0, br_duplicate_details = [demo_conflict]\<rparr>"

text \<open>C27: The incremental quality state of a run refines the summary of its whole history: after
  any sequence of recorded rows, file evaluations, batch results and errors whose evaluations are
  coherent, the summary, the decision and the orchestration action kept in the state are those
  that \<open>QualitySummary.from_evaluations\<close> and \<open>orchestration_action_for\<close> give for all evaluations
  together, and the duplicate counters count them.\<close>

theorem run_state_refines_history:
  assumes "\<forall>ev \<in> set evs. list_all coherent (event_evaluations ev)"
  shows "quality_summary (run_events E (new_run E now []) evs)
      = from_evaluations (concat (map event_evaluations evs)) \<and>
    rs_decision (run_events E (new_run E now []) evs)
      = qm_decision (from_evaluations (concat (map event_evaluations evs))) \<and>
    rs_action (run_events E (new_run E now []) evs)
      = orchestration_action_for (from_evaluations (concat (map event_evaluations evs))) \<and>
    rs_equivalent_duplicate_rows (run_events E (new_run E now []) evs)
      = length (filter (\<lambda>e. qe_outcome e = QO_EQUIVALENT_DUPLICATE)
          (concat (map event_evaluations evs))) \<and>
    rs_conflicting_duplicate_rows (run_events E (new_run E now []) evs)
      = length (filter (\<lambda>e. qe_outcome e = QO_CONFLICTING_DUPLICATE)
          (concat (map event_evaluations evs)))"
  using agrees_events [OF assms agrees_new, of E E now "[]"]
  by (simp add: agrees_def quality_summary_def from_evaluations_def
      decision_from_evaluations [unfolded from_evaluations_def])

theorem run_state_refines_history_witness:
  "rs_decision (run_events demo_run_env (new_run demo_run_env 0 [])
      [RE_Begin_Row, RE_Row demo_rejected, RE_Batch demo_batch]) = QD_REVIEW \<and>
   rs_action (run_events demo_run_env (new_run demo_run_env 0 [])
      [RE_Begin_Row, RE_Row demo_rejected, RE_Batch demo_batch]) = OA_HOLD_FOR_REVIEW"
  using run_state_refines_history
    [of "[RE_Begin_Row, RE_Row demo_rejected, RE_Batch demo_batch]" demo_run_env 0]
  by (simp add: coherent_def row_evaluation_def
      demo_rejected_def default_violation_def demo_batch_def action_from_evaluations
      decision_from_evaluations worst_decision_def duplicate_evaluation_def make_evaluation_def
      infer_outcome_def demo_conflict_def duplicate_violation_def)

text \<open>The error sample of a run is bounded and accounts for every error: it holds the first
  five errors recorded, the error count is the number of all errors, the dropped count is the rest,
  and the set of error fields covers the dropped errors too.\<close>

theorem error_sample_is_bounded:
  "rs_errors (run_events E (new_run E now []) evs)
     = take 5 (concat (map (event_errors E) evs)) \<and>
   rs_error_count (run_events E (new_run E now []) evs)
     = length (concat (map (event_errors E) evs)) \<and>
   rs_error_count (run_events E (new_run E now []) evs)
     = length (rs_errors (run_events E (new_run E now []) evs))
       + rs_error_samples_dropped (run_events E (new_run E now []) evs) \<and>
   rs_error_fields (run_events E (new_run E now []) evs)
     = \<Union> (error_field E ` set (concat (map (event_errors E) evs)))"
proof -
  have "sampled E (run_events E (new_run E now []) evs) ([] @ concat (map (event_errors E) evs))"
    by (rule sampled_events [OF sampled_new])
  then show ?thesis by (simp add: sampled_def error_sample_limit_def)
qed

text \<open>Folding the stage summary of a file into a runtime state restores what the file recorded:
  the six row counters are added, the page, the unit key and both checkpoints are taken over, the
  runtime state is partial exactly when it or the file was, and the total of failed rows, which a
  stage summary does not carry, stays what it was.\<close>

theorem merge_restores_stage_summary:
  "let m = merge_stage_summary E (Some (stage_summary E tm s)) t
   in row_counters m = map2 (\<lambda>a b. (fst a, snd a + snd b)) (row_counters t) (row_counters s) \<and>
      is_partial m = (is_partial t \<or> is_partial s) \<and>
      rs_checkpoint_before m = rs_checkpoint_before s \<and>
      rs_checkpoint_after m = rs_checkpoint_after s \<and>
      rs_current_unit_key m = override_opt (rs_current_unit_key s) (rs_current_unit_key t) \<and>
      rs_current_stage m = override_opt (rs_current_stage s) (rs_current_stage t) \<and>
      rs_current_page m
        = (if rs_current_page s = VNone then rs_current_page t else rs_current_page s) \<and>
      rs_failed_rows m = rs_failed_rows t"
proof -
  have tv: "merge_text E (text_value a) b = override_opt a b" for a b
    by (cases a) (simp_all add: merge_text_def text_value_def override_opt_def str_of_def)
  show ?thesis
    by (auto simp: Let_def merge_stage_summary_def stage_summary_def row_counters_def dget_def
        merge_dict_def tv is_partial_def)
qed

end
