(* ===== verification/RowProcessorProps.thy ===== *)
theory RowProcessorProps
  imports RowProcessor RunStateProps
begin

text \<open>
  What the row processor guarantees: every accepted row is well typed, every other row is
  rejected with at least one rejecting violation, and the fast path agrees with the validated
  one wherever pydantic has nothing to convert.
\<close>

section \<open>Normalized values\<close>

fun value_ok :: "reconciliation_policy option \<Rightarrow> pyval \<Rightarrow> bool" where
  "value_ok policy (VStr _) \<longleftrightarrow> True"
| "value_ok policy (VDecimal _) \<longleftrightarrow> True"
| "value_ok policy (VTime t) \<longleftrightarrow> in_range t"
| "value_ok policy (VNaive t) \<longleftrightarrow> policy = None"
| "value_ok policy _ \<longleftrightarrow> False"

fun is_decimal :: "pyval \<Rightarrow> bool" where
  "is_decimal (VDecimal _) \<longleftrightarrow> True"
| "is_decimal _ \<longleftrightarrow> False"

lemma is_decimal_iff: "is_decimal v \<longleftrightarrow> (\<exists>d. v = VDecimal d)"
  by (cases v) simp_all

definition rejecting :: "violation \<Rightarrow> bool" where
  "rejecting v \<longleftrightarrow>
     qv_outcome v = QO_REJECT \<and> qv_severity v = QS_ERROR \<and>
     qv_code v \<notin> {QR_CONFLICTING_DUPLICATE, QR_EQUIVALENT_DUPLICATE}"

text \<open>What a conversion may give.\<close>

fun conversion_ok :: "reconciliation_policy option \<Rightarrow> conversion \<Rightarrow> bool" where
  "conversion_ok policy (Inl e) \<longleftrightarrow> rejecting e"
| "conversion_ok policy (Inr None) \<longleftrightarrow> True"
| "conversion_ok policy (Inr (Some v)) \<longleftrightarrow> value_ok policy v"

lemma rejecting_norm [simp]:
  "rejecting (norm_violation c f m r) \<longleftrightarrow> c \<notin> {QR_CONFLICTING_DUPLICATE, QR_EQUIVALENT_DUPLICATE}"
  "rejecting (missing fm m r)" "rejecting (malformed fm m r)" "rejecting (invalid_amount fm m r)"
  "rejecting (invalid_timestamp v fm r)"
  by (simp_all add: rejecting_def norm_violation_def missing_def malformed_def invalid_amount_def
      invalid_timestamp_def missing_code_def)

lemma conversion_ok_cases [simp]:
  "conversion_ok policy (convert_string N v fm row)"
  "conversion_ok policy (convert_mapping N v fm row)"
  "conversion_ok policy (convert_constant fm row)"
  "conversion_ok policy (coerce_amount v fm row)"
  by (auto simp: convert_string_def convert_mapping_def convert_constant_def coerce_amount_def
      split: option.splits list.splits number.splits)

lemma coerce_amount_decimal: "coerce_amount v fm row = Inr (Some w) \<Longrightarrow> is_decimal w"
  by (auto simp: coerce_amount_def split: if_splits option.splits number.splits)

lemma normalize_aware_range: "normalize_aware t = Some d \<Longrightarrow> \<exists>u. d = DT_Utc u \<and> in_range u"
  by (auto simp: normalize_aware_def split: if_splits)

lemma parse_offset_utc:
  "parse_offset_form s = Some d \<Longrightarrow> \<exists>u. d = DT_Utc u \<and> in_range u"
  by (auto simp: parse_offset_form_def bind_eq_Some_conv split: prod.splits
      dest: normalize_aware_range)

lemma parse_text_range: "parse_text s = Some (DT_Utc u) \<Longrightarrow> in_range u"
  by (auto simp: parse_text_def parse_date_form_def parse_date_time_form_def bind_eq_Some_conv
      split: option.splits prod.splits if_splits dest: parse_offset_utc)

lemma parse_timestamp_range: "parse_transaction_timestamp v = Some (DT_Utc u) \<Longrightarrow> in_range u"
  by (auto simp: parse_transaction_timestamp_def split: pyval.splits
      dest: normalize_aware_range parse_text_range)

lemma normalize_timestamp_range: "normalize_transaction_timestamp zone v = Some u \<Longrightarrow> in_range u"
  by (auto simp: normalize_transaction_timestamp_def split: option.splits py_datetime.splits if_splits
      dest: parse_timestamp_range)

lemma conversion_ok_date [simp]: "conversion_ok policy (convert_date N policy v fm row)"
  by (cases policy)
    (auto simp: convert_date_def time_value_def optional_trans_date_def split: option.splits
      py_datetime.splits dest: normalize_timestamp_range parse_timestamp_range)

lemma conversion_ok_source: "conversion_ok policy (convert_source N policy v fm row)"
  by (auto simp: convert_source_def split: mapping_type.splits)

lemma resolve_rejecting: "resolve_source N r fm row = Src_Error e \<Longrightarrow> rejecting e"
  by (auto simp: resolve_source_def resolve_by_field_def resolve_in_dict_def resolve_in_list_def
      Let_def split: option.splits pyval.splits column.splits if_splits)

lemma map_field_converted:
  assumes "map_field N policy r row fm = Some c"
  shows "\<exists>c'. conversion_ok policy c' \<and> c = amount_checked fm row c'"
proof (cases "fm_type fm = FM_CONSTANT")
  case True
  with assms have "c = amount_checked fm row (convert_constant fm row)" by (simp add: map_field_def)
  then show ?thesis by (intro exI [of _ "convert_constant fm row"]) simp
next
  case False
  show ?thesis
  proof (cases "resolve_source N r fm row")
    case (Src_Value v)
    with False assms have "c = amount_checked fm row (convert_source N policy v fm row)"
      by (simp add: map_field_def)
    with conversion_ok_source show ?thesis by blast
  next
    case (Src_Error e)
    with False assms have "c = amount_checked fm row (Inl e)" by (simp add: map_field_def)
    with resolve_rejecting [OF Src_Error] show ?thesis by (intro exI [of _ "Inl e"]) simp
  qed (use False assms in \<open>simp add: map_field_def\<close>)
qed

lemma map_field_ok:
  assumes "map_field N policy r row fm = Some c"
  shows "conversion_ok policy c" and "c = Inr (Some v) \<Longrightarrow> fm_path fm = ''amount'' \<Longrightarrow> is_decimal v"
proof -
  obtain c' where c': "conversion_ok policy c'" "c = amount_checked fm row c'"
    using map_field_converted [OF assms] by blast
  then show "conversion_ok policy c"
    by (auto simp: amount_checked_def split: sum.splits option.splits)
  assume "c = Inr (Some v)" "fm_path fm = ''amount''"
  with c'(2) show "is_decimal v"
    by (auto simp: amount_checked_def split: sum.splits option.splits intro: coerce_amount_decimal)
qed

definition data_ok :: "reconciliation_policy option \<Rightarrow> pydict \<Rightarrow> bool" where
  "data_ok policy data \<longleftrightarrow>
     (\<forall>k v. map_of data k = Some v \<longrightarrow> value_ok policy v \<and> (k = ''amount'' \<longrightarrow> is_decimal v))"

lemma data_okD:
  "data_ok policy data \<Longrightarrow> map_of data k = Some v \<Longrightarrow> value_ok policy v"
  "data_ok policy data \<Longrightarrow> map_of data ''amount'' = Some v \<Longrightarrow> is_decimal v"
  by (auto simp: data_ok_def)

lemma normalize_fields_ok:
  assumes "normalize_fields N policy r row fms n = Some n'"
    and "data_ok policy (fst n)" and "list_all rejecting (snd n)"
  shows "data_ok policy (fst n') \<and> list_all rejecting (snd n')"
  using assms
proof (induction fms arbitrary: n)
  case (Cons fm fms)
  obtain c where c: "map_field N policy r row fm = Some c"
      "normalize_fields N policy r row fms (add_conversion fm c n) = Some n'"
    using Cons.prems(1) by (auto split: option.splits)
  note ok = map_field_ok [OF c(1)]
  have "data_ok policy (fst (add_conversion fm c n)) \<and>
      list_all rejecting (snd (add_conversion fm c n))"
    using ok Cons.prems(2,3) by (cases n; cases "(fm, c, n)" rule: add_conversion.cases)
      (auto simp: data_ok_def)
  with Cons.IH [OF c(2)] show ?case by simp
qed simp

lemma normalize_row_ok:
  assumes "normalize_row N policy fms r row = Some (data, errors)"
  shows "data_ok policy data" and "list_all rejecting errors"
    and "policy \<noteq> None \<Longrightarrow> map_of data ''timestampBasis'' = Some (VStr ''CANONICAL_UTC'')"
proof -
  obtain n where n: "normalize_fields N policy r row fms ([], []) = Some n"
      "data = (if policy = None then fst n else dput (fst n) ''timestampBasis'' (VStr ''CANONICAL_UTC''))"
      "errors = snd n"
    using assms by (auto simp: normalize_row_def split: prod.splits)
  from normalize_fields_ok [OF n(1)] have "data_ok policy (fst n)" "list_all rejecting (snd n)"
    by (simp_all add: data_ok_def)
  then show "data_ok policy data" "list_all rejecting errors"
    using n(2,3) by (auto simp: data_ok_def)
  show "policy \<noteq> None \<Longrightarrow> map_of data ''timestampBasis'' = Some (VStr ''CANONICAL_UTC'')"
    using n(2) by (simp only: if_False map_of_dput fun_upd_same)
qed

section \<open>Extra fields\<close>

text \<open>An extra value is a normalized value or a dictionary of normalized values.\<close>

definition extra_value_ok :: "reconciliation_policy option \<Rightarrow> pyval \<Rightarrow> bool" where
  "extra_value_ok policy v =
     (case v of VDict d \<Rightarrow> \<forall>k w. map_of d k = Some w \<longrightarrow> value_ok policy w | _ \<Rightarrow> value_ok policy v)"

definition extra_ok :: "reconciliation_policy option \<Rightarrow> pydict \<Rightarrow> bool" where
  "extra_ok policy d \<longleftrightarrow> (\<forall>k v. map_of d k = Some v \<longrightarrow> extra_value_ok policy v)"

lemma extra_value_scalar [simp]: "value_ok policy v \<Longrightarrow> extra_value_ok policy v"
  by (cases v) (simp_all add: extra_value_ok_def)

lemma extra_ok_dput: "extra_ok policy d \<Longrightarrow> extra_value_ok policy v \<Longrightarrow> extra_ok policy (dput d k v)"
  by (simp add: extra_ok_def)

lemma extra_value_dict:
  "extra_value_ok policy (VDict d) \<longleftrightarrow> (\<forall>k w. map_of d k = Some w \<longrightarrow> value_ok policy w)"
  by (simp add: extra_value_ok_def)

lemma put_extra_ok:
  assumes "put_extra extra k v = Some extra'" and "extra_ok policy extra" and "value_ok policy v"
  shows "extra_ok policy extra'"
proof (cases "split_dot k")
  case None
  with assms show ?thesis by (auto simp: put_extra_def extra_ok_dput)
next
  case (Some p)
  obtain outer inner where p: "p = (outer, inner)" by (cases p)
  show ?thesis
  proof (cases "outer = ''extra''")
    case True
    with assms Some p show ?thesis by (auto simp: put_extra_def extra_ok_dput)
  next
    case False
    show ?thesis
    proof (cases "map_of extra outer")
      case None
      have "extra_ok policy (dput extra outer (VDict [(inner, v)]))"
        using assms by (intro extra_ok_dput) (simp_all add: extra_value_dict)
      with assms(1) Some p False None show ?thesis by (simp add: put_extra_def)
    next
      case (Some w)
      with assms(1) \<open>split_dot k = Some p\<close> p False
      obtain d where d: "w = VDict d" "extra' = dput extra outer (VDict (dput d inner v))"
        by (cases w) (simp_all add: put_extra_def)
      have "extra_value_ok policy (VDict d)" using assms(2) Some d(1) by (simp add: extra_ok_def)
      with assms(3) have "extra_value_ok policy (VDict (dput d inner v))"
        by (simp add: extra_value_dict)
      with assms(2) show ?thesis unfolding d(2) by (rule extra_ok_dput)
    qed
  qed
qed

lemma extract_extra_ok:
  assumes "extract_extra data extra = Some extra'" and "extra_ok policy extra"
    and "list_all (\<lambda>e. value_ok policy (snd e)) data"
  shows "extra_ok policy extra'"
  using assms
proof (induction data extra rule: extract_extra.induct)
  case (2 k v data extra)
  then show ?case by (auto split: if_splits option.splits intro: put_extra_ok)
qed simp

section \<open>Validation\<close>

definition all_violations ::
  "norm_env \<Rightarrow> (string \<Rightarrow> pyval) \<Rightarrow> int option \<Rightarrow> string option \<Rightarrow> violation list" where
  "all_violations N get row tr =
     validate_required get row tr @ validate_decimal N get row tr @
     validate_date get row tr @ validate_status N get row tr"

lemma rejecting_val [simp]:
  "rejecting (val_violation c f m e a r t) \<longleftrightarrow> c \<notin> {QR_CONFLICTING_DUPLICATE, QR_EQUIVALENT_DUPLICATE}"
  by (simp add: rejecting_def val_violation_def)

lemma violations_rejecting [simp]:
  "list_all rejecting (validate_required get row tr)"
  "list_all rejecting (validate_decimal N get row tr)"
  "list_all rejecting (validate_date get row tr)"
  "list_all rejecting (validate_status N get row tr)"
proof -
  show "list_all rejecting (validate_required get row tr)"
    unfolding validate_required_def list_all_append list_all_iff set_map by simp
  show "list_all rejecting (validate_decimal N get row tr)"
    by (cases "get ''amount''") (simp_all add: validate_decimal_def)
  show "list_all rejecting (validate_date get row tr)"
    by (cases "get ''transDate''") (simp_all add: validate_date_def)
  show "list_all rejecting (validate_status N get row tr)"
    by (simp add: validate_status_def Let_def)
qed

lemma all_violations_rejecting: "list_all rejecting (all_violations N get row tr)"
  by (simp add: all_violations_def)

lemma infer_rejecting:
  "list_all rejecting vs \<Longrightarrow> infer_outcome (if vs = [] then QO_VALID else QO_REJECT) vs
     = (if vs = [] then QO_VALID else QO_REJECT)"
  by (auto simp: infer_outcome_def list_all_iff rejecting_def)

lemma validate_eq:
  "\<exists>tr. qe_violations (validate N get row trace ctx) = all_violations N get row tr \<and>
        qe_outcome (validate N get row trace ctx)
          = (if all_violations N get row tr = [] then QO_VALID else QO_REJECT)"
  using infer_rejecting [OF all_violations_rejecting]
  by (auto simp: validate_def Let_def make_evaluation_def all_violations_def)

definition valid_transaction :: "transaction \<Rightarrow> bool" where
  "valid_transaction tx \<longleftrightarrow>
     py_strip (tx_id tx) \<noteq> [] \<and> py_strip (tx_currency tx) \<noteq> [] \<and> 0 \<le> d_coeff (tx_amount tx) \<and>
     (case tx_trans_date tx of VNone \<Rightarrow> True | VTime _ \<Rightarrow> True | VNaive _ \<Rightarrow> True | _ \<Rightarrow> False)"

lemma status_not_blank: "is_status (VStr s) \<Longrightarrow> py_strip s \<noteq> []"
proof -
  have "list_all (\<lambda>s. py_strip s \<noteq> []) transaction_statuses" by code_simp
  then show "is_status (VStr s) \<Longrightarrow> py_strip s \<noteq> []" by (simp add: list_all_iff)
qed

lemma all_violations_valid:
  assumes "is_status (VStr (tx_status tx))"
  shows "all_violations N (tx_value tx) row tr = [] \<longleftrightarrow> valid_transaction tx"
proof -
  note b = status_not_blank [OF assms]
  have "validate_status N (tx_value tx) row tr = []"
    using assms by (simp add: validate_status_def tx_value_def)
  moreover have "validate_required (tx_value tx) row tr = [] \<longleftrightarrow>
      py_strip (tx_id tx) \<noteq> [] \<and> py_strip (tx_currency tx) \<noteq> []"
    using b by (simp add: validate_required_def tx_value_def blank_def)
  moreover have "validate_decimal N (tx_value tx) row tr = [] \<longleftrightarrow> 0 \<le> d_coeff (tx_amount tx)"
    by (simp add: validate_decimal_def tx_value_def not_less)
  moreover have "validate_date (tx_value tx) row tr = [] \<longleftrightarrow>
      (case tx_trans_date tx of VNone \<Rightarrow> True | VTime _ \<Rightarrow> True | VNaive _ \<Rightarrow> True | _ \<Rightarrow> False)"
    by (cases "tx_trans_date tx") (simp_all add: validate_date_def tx_value_def)
  ultimately show ?thesis by (simp add: all_violations_def valid_transaction_def conj_assoc)
qed

section \<open>Building\<close>

lemma build_checked_Built:
  assumes "build_checked N data row finish = Built tx"
  shows "\<exists>s d extra. dget data ''status'' = VStr s \<and> is_status (VStr s) \<and>
    dget data ''amount'' = VDecimal d \<and> extract_extra data [] = Some extra \<and>
    finish s d extra = Some tx"
  using assms by (auto simp: build_checked_def split: if_splits pyval.splits option.splits)

lemma absent_rejecting: "list_all rejecting (absent_fields data row)"
  by (simp add: absent_fields_def list_all_iff)

lemma build_checked_Refused:
  assumes "build_checked N data row finish = Refused vs"
  shows "vs \<noteq> [] \<and> list_all rejecting vs"
  using assms absent_rejecting
  by (auto simp: build_checked_def invalid_status_def amount_error_def split: if_splits pyval.splits option.splits)

text \<open>The transaction of either path, from the fast one.\<close>

definition build :: "bool \<Rightarrow> norm_env \<Rightarrow> pydict \<Rightarrow> int option \<Rightarrow> built" where
  "build fast = (if fast then build_fast_dict else build_canonical)"

lemma build_Refused: "build fast N data row = Refused vs \<Longrightarrow> vs \<noteq> [] \<and> list_all rejecting vs"
  by (auto simp: build_def build_fast_dict_def build_canonical_def split: if_splits
      dest: build_checked_Refused)

lemma build_Built:
  assumes "build fast N data row = Built tx"
  shows "\<exists>s d extra. dget data ''status'' = VStr s \<and> is_status (VStr s) \<and>
    dget data ''amount'' = VDecimal d \<and> extract_extra data [] = Some extra \<and>
    (let ft = fast_transaction N data s d extra
     in if fast then tx = ft else canonical_transaction N ft = Some tx)"
  using assms
  by (auto simp: build_def build_fast_dict_def build_canonical_def Let_def split: if_splits
      dest!: build_checked_Built)

lemma canonical_transaction_keeps:
  assumes "canonical_transaction N ft = Some tx"
  shows "tx_id tx = tx_id ft" "tx_trace tx = tx_trace ft" "tx_amount tx = tx_amount ft"
    "tx_currency tx = tx_currency ft" "tx_status tx = tx_status ft" "tx_extra tx = tx_extra ft"
    "tx_timestamp_basis tx = tx_timestamp_basis ft"
  using assms by (auto simp: canonical_transaction_def split: pyval.splits)

lemma build_fields:
  assumes "build fast N data row = Built tx"
  shows "\<exists>s d extra. dget data ''status'' = VStr s \<and> is_status (VStr s) \<and>
    dget data ''amount'' = VDecimal d \<and> extract_extra data [] = Some extra \<and>
    tx_status tx = s \<and> tx_amount tx = d \<and> tx_extra tx = extra \<and>
    tx_id tx = py_str N (dget data ''id'') \<and> tx_currency tx = py_str N (dget data ''currency'') \<and>
    tx_trace tx = optional_text N data ''trace'' \<and> tx_timestamp_basis tx = basis_of data \<and>
    (fast \<longrightarrow> tx_trans_date tx = dget data ''transDate'')"
  using build_Built [OF assms]
  by (auto simp: Let_def fast_transaction_def dest: canonical_transaction_keeps split: if_splits)

section \<open>Processing\<close>

lemma map_of_list_all: "data_ok policy data \<Longrightarrow> distinct (map fst data) \<Longrightarrow>
    list_all (\<lambda>e. value_ok policy (snd e)) data"
  by (auto simp: data_ok_def list_all_iff)

lemma distinct_dput: "distinct (map fst d) \<Longrightarrow> distinct (map fst (dput d k v))"
proof -
  have keys: "fst ` set (dput d k v) = insert k (fst ` set d)" for d
    by (induction d k v rule: dput.induct) auto
  show "distinct (map fst d) \<Longrightarrow> distinct (map fst (dput d k v))"
    using keys by (induction d k v rule: dput.induct) auto
qed

lemma normalize_fields_distinct:
  "normalize_fields N policy r row fms n = Some n' \<Longrightarrow> distinct (map fst (fst n)) \<Longrightarrow>
     distinct (map fst (fst n'))"
proof (induction fms arbitrary: n)
  case (Cons fm fms)
  then obtain c where c: "normalize_fields N policy r row fms (add_conversion fm c n) = Some n'"
    by (auto split: option.splits)
  have "distinct (map fst (fst (add_conversion fm c n)))"
    using Cons.prems(2) by (cases "(fm, c, n)" rule: add_conversion.cases) (auto intro: distinct_dput)
  with Cons.IH [OF c] show ?case by simp
qed simp

lemma normalize_row_distinct:
  assumes "normalize_row N policy fms r row = Some (data, errors)"
  shows "distinct (map fst data)"
  using assms normalize_fields_distinct [of N policy r row fms "([], [])"]
  by (auto simp: normalize_row_def split: prod.splits if_splits intro: distinct_dput)

lemma process_cases:
  assumes "process P r row = Some out"
  obtains (normalize) data errors where
      "normalize_row (pc_env P) (pc_policy P) (pc_mappings P) r (Some row) = Some (data, errors)"
      "errors \<noteq> []" "out = rejected_row data errors QO_REJECT [(''rowNumber'', VInt row)]"
  | (refuse) data vs where
      "build (pc_fast P) (pc_env P) data (Some row) = Refused vs"
      "out = rejected_row data vs QO_REJECT [(''rowNumber'', VInt row)]"
  | (validate) data tx where
      "normalize_row (pc_env P) (pc_policy P) (pc_mappings P) r (Some row) = Some (data, [])"
      "build (pc_fast P) (pc_env P) data (Some row) = Built tx"
      "process_built P row data tx = Some out"
  using assms unfolding process_def build_def
  by (auto split: option.splits prod.splits if_splits built.splits)

definition rejected_outcome :: "processed_outcome \<Rightarrow> bool" where
  "rejected_outcome out \<longleftrightarrow>
     ro_outcome out = QO_REJECT \<and> ro_container out = None \<and> ro_ingestion_key out = None \<and>
     ro_violations out \<noteq> [] \<and> list_all rejecting (ro_violations out)"

definition accepted_outcome :: "processor \<Rightarrow> int \<Rightarrow> transaction \<Rightarrow> processed_outcome \<Rightarrow> bool" where
  "accepted_outcome P row tx out \<longleftrightarrow>
     ro_outcome out = QO_VALID \<and> ro_violations out = [] \<and> ro_ingestion_key out = Some (tx_id tx) \<and>
     ro_container out = Some (build_data_container P row tx (tx_id tx))"

lemma process_built_cases:
  assumes "process_built P row data tx = Some out" and "is_status (VStr (tx_status tx))"
  shows "if valid_transaction tx then accepted_outcome P row tx out else rejected_outcome out"
proof -
  obtain tr where e: "qe_violations (validate (pc_env P) (tx_value tx) (Some row) (tx_trace tx) False)
        = all_violations (pc_env P) (tx_value tx) (Some row) tr"
      "qe_outcome (validate (pc_env P) (tx_value tx) (Some row) (tx_trace tx) False)
        = (if all_violations (pc_env P) (tx_value tx) (Some row) tr = [] then QO_VALID else QO_REJECT)"
    using validate_eq by blast
  show ?thesis
  proof (cases "valid_transaction tx")
    case True
    then have "all_violations (pc_env P) (tx_value tx) (Some row) tr = []"
      using all_violations_valid [OF assms(2)] by blast
    moreover have "tx_id tx \<noteq> []" using True by (auto simp: valid_transaction_def)
    ultimately show ?thesis using True assms(1) e
      by (auto simp: process_built_def Let_def valid_outcome_def derive_ingestion_key_def
          accepted_outcome_def)
  next
    case False
    then have ne: "all_violations (pc_env P) (tx_value tx) (Some row) tr \<noteq> []"
      using all_violations_valid [OF assms(2)] by blast
    with False assms(1) e all_violations_rejecting show ?thesis
      by (auto simp: process_built_def Let_def valid_outcome_def rejected_outcome_def rejected_row_def)
  qed
qed

lemma process_outcome:
  assumes "process P r row = Some out"
  shows "rejected_outcome out \<or>
    (\<exists>data tx. normalize_row (pc_env P) (pc_policy P) (pc_mappings P) r (Some row) = Some (data, []) \<and>
       build (pc_fast P) (pc_env P) data (Some row) = Built tx \<and> valid_transaction tx \<and>
       accepted_outcome P row tx out)"
  using assms
proof (cases rule: process_cases)
  case (normalize data errors)
  with normalize_row_ok(2) [OF normalize(1)] show ?thesis
    by (simp add: rejected_outcome_def rejected_row_def)
next
  case (refuse data vs)
  with build_Refused [OF refuse(1)] show ?thesis
    by (simp add: rejected_outcome_def rejected_row_def)
next
  case (validate data tx)
  have "is_status (VStr (tx_status tx))" using build_fields [OF validate(2)] by auto
  from process_built_cases [OF validate(3) this] validate(1,2) show ?thesis
    by (auto split: if_splits)
qed

lemma rejected_not_accepted: "rejected_outcome out \<Longrightarrow> \<not> accepted_outcome P row tx out"
  by (simp add: rejected_outcome_def accepted_outcome_def)

lemma process_coherent: "process P r row = Some out \<Longrightarrow> coherent (row_evaluation out)"
  by (drule process_outcome)
    (auto simp: coherent_def row_evaluation_def rejected_outcome_def accepted_outcome_def
      list_all_iff rejecting_def)

end
