(* ===== verification/RowGuarantees.thy ===== *)
theory RowGuarantees
  imports RowProcessorProps
begin

text \<open>
  The properties of the row processor, on concrete mappings of a settlement file.
\<close>

section \<open>Well-typed containers\<close>

definition well_typed :: "processor \<Rightarrow> string \<Rightarrow> data_container \<Rightarrow> bool" where
  "well_typed P key c \<longleftrightarrow>
     dc_identify c = pc_partner P \<and> dc_source_file_id c = pc_source_file_id P \<and>
     dc_ingestion_key c = key \<and> pd_id (dc_partner_data c) = key \<and> py_strip key \<noteq> [] \<and>
     py_strip (pd_currency (dc_partner_data c)) \<noteq> [] \<and>
     0 \<le> d_coeff (pd_amount (dc_partner_data c)) \<and>
     pd_status (dc_partner_data c) \<in> set transaction_statuses \<and>
     extra_ok (pc_policy P) (pd_extra (dc_partner_data c)) \<and>
     (pc_policy P = None \<or> pd_timestamp_basis (dc_partner_data c) = VStr ''CANONICAL_UTC'')"

definition utc_or_absent :: "py_datetime option \<Rightarrow> bool" where
  "utc_or_absent d = (case d of None \<Rightarrow> True | Some (DT_Utc t) \<Rightarrow> in_range t | _ \<Rightarrow> False)"

lemma container_fields [simp]:
  "dc_identify (build_data_container P row tx key) = pc_partner P"
  "dc_source_file_id (build_data_container P row tx key) = pc_source_file_id P"
  "dc_ingestion_key (build_data_container P row tx key) = key"
  "dc_partner_data (build_data_container P row tx key) = partner_data_of tx"
  by (simp_all add: build_data_container_def split: prod.splits)

lemma accepted_well_typed:
  assumes n: "normalize_row (pc_env P) (pc_policy P) (pc_mappings P) r (Some row) = Some (data, [])"
    and b: "build (pc_fast P) (pc_env P) data (Some row) = Built tx" and v: "valid_transaction tx"
  shows "well_typed P (tx_id tx) (build_data_container P row tx (tx_id tx))"
    and "pc_fast P \<Longrightarrow> pc_policy P \<noteq> None \<Longrightarrow> utc_or_absent (pd_trans_date (partner_data_of tx))"
proof -
  note ok = normalize_row_ok [OF n]
  obtain s d extra where f: "is_status (VStr s)" "extract_extra data [] = Some extra"
      "tx_status tx = s" "tx_extra tx = extra" "tx_timestamp_basis tx = basis_of data"
      "pc_fast P \<longrightarrow> tx_trans_date tx = dget data ''transDate''"
    using build_fields [OF b] by blast
  have "extra_ok (pc_policy P) extra"
    using map_of_list_all [OF ok(1) normalize_row_distinct [OF n]]
    by (intro extract_extra_ok [OF f(2)]) (simp_all add: extra_ok_def)
  moreover have "pc_policy P = None \<or> basis_of data = VStr ''CANONICAL_UTC''"
    using ok(3) by (cases "pc_policy P") (simp_all add: basis_of_def)
  ultimately show "well_typed P (tx_id tx) (build_data_container P row tx (tx_id tx))"
    using f v by (auto simp: well_typed_def partner_data_of_def valid_transaction_def)
  assume "pc_fast P" "pc_policy P \<noteq> None"
  moreover have "value_ok (pc_policy P) v" if "map_of data ''transDate'' = Some v" for v
    by (rule data_okD(1) [OF ok(1) that])
  ultimately show "utc_or_absent (pd_trans_date (partner_data_of tx))"
    using f(6) by (auto simp: partner_data_of_def utc_or_absent_def dget_def
        split: option.splits pyval.splits)
qed

section \<open>A settlement file\<close>

definition demo_norm_env :: norm_env where
  "demo_norm_env =
     \<lparr>ne_str = \<lambda>_. ''?'', ne_keys = \<lambda>_. [], ne_letter = \<lambda>_. None, ne_index = \<lambda>_. None,
      ne_zone = \<lambda>_ t. Some (t - 25200000000), ne_coerce = \<lambda>_. None\<rparr>"

definition demo_mapping :: "string \<Rightarrow> int \<Rightarrow> mapping_type \<Rightarrow> field_mapping" where
  "demo_mapping path col ty =
     \<lparr>fm_path = path, fm_column = Some (Col_Int col), fm_source_field = None, fm_type = ty,
      fm_required = False, fm_constant = Some ''VND'', fm_mapping = Some [(''00'', ''SUCCESS'')]\<rparr>"

definition demo_mappings :: "field_mapping list" where
  "demo_mappings =
     [demo_mapping ''id'' 1 FM_STRING, demo_mapping ''amount'' 2 FM_DECIMAL,
      demo_mapping ''status'' 3 FM_MAPPING, demo_mapping ''currency'' 0 FM_CONSTANT,
      demo_mapping ''transDate'' 4 FM_DATE]"

definition demo_processor :: "bool \<Rightarrow> field_mapping list \<Rightarrow> processor" where
  "demo_processor fast fms =
     \<lparr>pc_env = demo_norm_env, pc_policy = Some \<lparr>rp_tolerance_seconds = 300, rp_timezone = ''ICT''\<rparr>,
      pc_mappings = fms, pc_fast = fast, pc_partner = ''PARTNER_A'', pc_workflow_type = ''PARTNER'',
      pc_reconciliation_date = DT_Utc 0, pc_source_file_id = ''file'',
      pc_fresh = \<lambda>_. (''u'', ''v'', 0)\<rparr>"

definition demo_cells :: pyval where
  "demo_cells = VList [VStr ''T1'', VStr ''12.50'', VStr ''00'', VStr ''2024-03-01'', VStr ''1.5'']"

lemma demo_row_accepted:
  "map_option (\<lambda>out. (ro_outcome out, ro_ingestion_key out)) (process (demo_processor True demo_mappings) demo_cells 2)
     = Some (QO_VALID, Some ''T1'')"
  by code_simp

section \<open>The two paths\<close>

text \<open>
  A configuration both paths treat alike: \<open>transDate\<close> is mapped as a date, and a time basis, if it
  is mapped at all, as text.
\<close>

definition plain_mapping :: "field_mapping \<Rightarrow> bool" where
  "plain_mapping fm \<longleftrightarrow>
     (fm_path fm = ''transDate'' \<longrightarrow> fm_type fm = FM_DATE) \<and>
     (fm_path fm = ''timestampBasis'' \<longrightarrow> fm_type fm \<noteq> FM_DECIMAL \<and> fm_type fm \<noteq> FM_DATE)"

fun plain_value :: "string \<Rightarrow> pyval \<Rightarrow> bool" where
  "plain_value k (VStr _) \<longleftrightarrow> k \<noteq> ''transDate''"
| "plain_value k (VTime _) \<longleftrightarrow> k \<noteq> ''timestampBasis''"
| "plain_value k (VNaive _) \<longleftrightarrow> k \<noteq> ''timestampBasis''"
| "plain_value k _ \<longleftrightarrow> k \<noteq> ''transDate'' \<and> k \<noteq> ''timestampBasis''"

lemma normalize_fields_values:
  assumes "normalize_fields N policy r row fms n = Some n'"
    and "\<And>k v. map_of (fst n) k = Some v \<Longrightarrow> Q k v"
    and "\<And>fm v. fm \<in> set fms \<Longrightarrow> map_field N policy r row fm = Some (Inr (Some v)) \<Longrightarrow> Q (fm_path fm) v"
    and "map_of (fst n') k = Some v"
  shows "Q k v"
  using assms
proof (induction fms arbitrary: n)
  case (Cons fm fms)
  obtain c where c: "map_field N policy r row fm = Some c"
      "normalize_fields N policy r row fms (add_conversion fm c n) = Some n'"
    using Cons.prems(1) by (auto split: option.splits)
  have "Q k v" if "map_of (fst (add_conversion fm c n)) k = Some v" for k v
    using that c(1) Cons.prems(2) Cons.prems(3) [of fm]
    by (cases n; cases "(fm, c, n)" rule: add_conversion.cases) (auto split: if_splits)
  then show ?case
    using Cons.IH [OF c(2)] Cons.prems(3,4) by (metis list.set_intros(2))
qed simp

lemma convert_text: "convert_string N v fm row = Inr (Some w) \<Longrightarrow> \<exists>s. w = VStr s"
  "convert_mapping N v fm row = Inr (Some w) \<Longrightarrow> \<exists>s. w = VStr s"
  "convert_constant fm row = Inr (Some w) \<Longrightarrow> \<exists>s. w = VStr s"
  by (auto simp: convert_string_def convert_mapping_def convert_constant_def
      split: if_splits option.splits list.splits)

lemma time_value_cases: "(\<exists>t. time_value d = VTime t) \<or> (\<exists>t. time_value d = VNaive t)"
  by (cases d) (simp_all add: time_value_def)

lemma convert_date_time:
  "convert_date N policy v fm row = Inr (Some w) \<Longrightarrow> (\<exists>t. w = VTime t) \<or> (\<exists>t. w = VNaive t)"
  using time_value_cases by (auto simp: convert_date_def split: if_splits option.splits)

lemma amount_checked_other: "fm_path fm \<noteq> ''amount'' \<Longrightarrow> amount_checked fm row c = c"
  by (auto simp: amount_checked_def split: sum.splits option.splits)

lemma convert_plain:
  assumes "plain_mapping fm" and "convert_source N policy v fm row = Inr (Some w)"
  shows "plain_value (fm_path fm) w"
  using assms
  by (auto simp: convert_source_def plain_mapping_def split: if_splits mapping_type.splits
      dest!: convert_text convert_date_time coerce_amount_decimal simp: is_decimal_iff)

lemma map_field_plain:
  assumes "plain_mapping fm" and "map_field N policy r row fm = Some (Inr (Some w))"
  shows "plain_value (fm_path fm) w"
proof (cases "fm_path fm = ''amount''")
  case True
  with map_field_ok(2) [OF assms(2) refl] show ?thesis by (auto simp: is_decimal_iff)
next
  case False
  show ?thesis
  proof (cases "fm_type fm = FM_CONSTANT")
    case True
    with assms False show ?thesis
      by (auto simp: map_field_def amount_checked_other plain_mapping_def dest: convert_text)
  next
    case nconst: False
    with assms False obtain v where "convert_source N policy v fm row = Inr (Some w)"
      by (auto simp: map_field_def amount_checked_other split: source.splits)
    with assms(1) show ?thesis by (rule convert_plain)
  qed
qed

lemma normalize_row_plain:
  assumes n: "normalize_row N policy fms r row = Some (data, errors)"
    and plain: "list_all plain_mapping fms" and k: "map_of data k = Some v"
  shows "plain_value k v"
proof -
  obtain n where n: "normalize_fields N policy r row fms ([], []) = Some n"
      "data = (if policy = None then fst n else dput (fst n) ''timestampBasis'' (VStr ''CANONICAL_UTC''))"
    using n by (auto simp: normalize_row_def split: prod.splits)
  have "plain_value k v" if "map_of (fst n) k = Some v" for k v
    by (rule normalize_fields_values [OF n(1) _ _ that])
      (use plain in \<open>auto simp: list_all_iff intro: map_field_plain\<close>)
  with n(2) k show ?thesis by (auto split: if_splits)
qed

lemma canonical_same:
  assumes "\<And>v. map_of data ''transDate'' = Some v \<Longrightarrow> plain_value ''transDate'' v"
    and "\<And>v. map_of data ''timestampBasis'' = Some v \<Longrightarrow> plain_value ''timestampBasis'' v"
  shows "canonical_transaction N (fast_transaction N data s d extra) = Some (fast_transaction N data s d extra)"
proof -
  have "coerce_time N (dget data ''transDate'') = Some (dget data ''transDate'')"
    using assms(1) by (cases "map_of data ''transDate''")
      (auto simp: dget_def coerce_time_def split: pyval.splits)
  moreover have "\<exists>b. basis_of data = VStr b"
    using assms(2) by (cases "map_of data ''timestampBasis''")
      (auto simp: basis_of_def elim: plain_value.elims)
  ultimately show ?thesis by (auto simp: canonical_transaction_def fast_transaction_def)
qed

lemma build_same:
  assumes "normalize_row N policy fms r row = Some (data, errors)" and "list_all plain_mapping fms"
  shows "build_canonical N data row' = build_fast_dict N data row'"
  using canonical_same [of data N] normalize_row_plain [OF assms]
  by (simp add: build_canonical_def build_fast_dict_def)

section \<open>Properties\<close>

text \<open>C20: A row is either accepted with a well-typed container or rejected with evidence. An accepted
  row carries no violation; its ingestion key is the transaction id, id and currency are not
  blank, the amount is a finite non-negative decimal, the status is one of the four known ones,
  every extra value is text, a decimal, a time or a dictionary of those, and under a timestamp
  policy the basis is CANONICAL_UTC and, on the fast path, the transaction time is absent or a UTC
  instant in range. A rejected row has no container and at least one violation, and all of its
  violations are rejecting ones.\<close>

theorem accepted_row_is_well_typed:
  assumes "process P r row = Some out"
  shows "if row_is_valid out
    then ro_violations out = [] \<and> ro_outcome out = QO_VALID \<and>
      (\<exists>c key. ro_container out = Some c \<and> ro_ingestion_key out = Some key \<and> well_typed P key c \<and>
         (\<not> pc_fast P \<or> pc_policy P = None \<or> utc_or_absent (pd_trans_date (dc_partner_data c))))
    else ro_container out = None \<and> ro_ingestion_key out = None \<and> ro_outcome out = QO_REJECT \<and>
      ro_violations out \<noteq> [] \<and> list_all rejecting (ro_violations out)"
  using process_outcome [OF assms]
proof (elim disjE exE conjE)
  fix data tx
  assume n: "normalize_row (pc_env P) (pc_policy P) (pc_mappings P) r (Some row) = Some (data, [])"
    and b: "build (pc_fast P) (pc_env P) data (Some row) = Built tx"
    and v: "valid_transaction tx" and a: "accepted_outcome P row tx out"
  from a accepted_well_typed [OF n b v] show ?thesis
    by (cases "pc_policy P") (auto simp: accepted_outcome_def row_is_valid_def valid_outcome_def)
qed (simp add: rejected_outcome_def row_is_valid_def valid_outcome_def)

theorem accepted_row_is_well_typed_witness:
  "\<exists>out c. process (demo_processor True demo_mappings) demo_cells 2 = Some out \<and>
     ro_container out = Some c \<and> well_typed (demo_processor True demo_mappings) ''T1'' c"
proof -
  obtain out where out: "process (demo_processor True demo_mappings) demo_cells 2 = Some out"
      "ro_outcome out = QO_VALID" "ro_ingestion_key out = Some ''T1''"
    using demo_row_accepted by auto
  from accepted_row_is_well_typed [OF out(1)] out show ?thesis
    by (auto simp: row_is_valid_def valid_outcome_def)
qed



end
