(* ===== verification/RowAccounting.thy ===== *)
theory RowAccounting
  imports RowPipeline RowGuarantees
begin

text \<open>
  Every row of a file is accounted for: the effect of each step of the row loop on the counters of
  the run state, on the table and on the quarantine, for every order in which concurrent writes
  commit.
\<close>

section \<open>Results of a write\<close>

definition good_result :: "nat \<Rightarrow> batch_result \<Rightarrow> bool" where
  "good_result n b \<longleftrightarrow>
     br_inserted b + br_duplicates b = n \<and> br_failed b = 0 \<and>
     length (br_duplicate_details b) = br_duplicates b \<and>
     list_all (\<lambda>d. dd_duplicate_type d \<in> {QR_EQUIVALENT_DUPLICATE, QR_CONFLICTING_DUPLICATE})
       (br_duplicate_details b)"

lemma attach_context_type [simp]: "dd_duplicate_type (attach_context xs d) = dd_duplicate_type d"
  by (simp add: attach_context_def)

lemma good_attach [simp]: "good_result n (attach_contexts ctxs b) = good_result n b"
  by (cases ctxs) (simp_all add: good_result_def attach_contexts_def list_all_iff)

lemma inserted_attach [simp]: "br_inserted (attach_contexts ctxs b) = br_inserted b"
  by (cases ctxs) (simp_all add: attach_contexts_def)

lemma insert_many_good:
  assumes "insert_many h rs t = (Inr b, t')"
  shows "good_result (length rs) b" and "length t' = length t + br_inserted b"
proof -
  obtain u ks where ins: "insert_new t rs = (u, ks)" by (cases "insert_new t rs") auto
  have b: "b = batch_outcome h t' rs ks" "u = t'"
    using insert_many_eq [OF ins insert_many_json [OF assms], of h] assms by simp_all
  note ins = ins [unfolded b(2)]
  have len: "length (batch_details h t' rs ks) + length ks = length rs"
    using batch_details_spec(1) [OF ins, of h] conflict_total [of ks rs] insert_new_spec(2,3) [OF ins]
    by auto
  with detail_type [OF ins] show "good_result (length rs) b"
    by (auto simp: good_result_def b list_all_iff)
  from insert_new_spec(1) [OF ins] show "length t' = length t + br_inserted b" by (auto simp: b)
qed

lemma length_those: "those xs = Some ys \<Longrightarrow> length ys = length xs"
  by (induction xs arbitrary: ys) (auto split: option.splits)

lemma write_batch_good:
  assumes "write_batch h batch t = (Inr b, t')"
  shows "good_result (length (fst batch)) b" and "length t' = length t + br_inserted b"
proof -
  obtain cs ctxs rs b0 where w: "batch = (cs, ctxs)"
      "those (map (data_container_to_row None) cs) = Some rs" "insert_many h rs t = (Inr b0, t')"
      "b = attach_contexts ctxs b0"
    using assms by (cases batch) (auto simp: write_batch_def split: if_splits option.splits
        prod.splits sum.splits)
  note g = insert_many_good [OF w(3)]
  show "good_result (length (fst batch)) b" using g(1) length_those [OF w(2)] w(1,4) by simp
  show "length t' = length t + br_inserted b" using g(2) w(4) by simp
qed

section \<open>Concurrent writes\<close>

definition inserted_by :: "write_result \<Rightarrow> nat" where
  "inserted_by r = (case r of Inl e \<Rightarrow> 0 | Inr b \<Rightarrow> br_inserted b)"

lemma run_writes_good:
  assumes "run_writes h ibs t = (rs, t')" and "first_error rs = None"
  shows "map fst rs = map fst ibs \<and>
    list_all2 (\<lambda>ir ib. \<exists>b. snd ir = Inr b \<and> good_result (length (fst (snd ib))) b) rs ibs \<and>
    length t' = length t + (\<Sum>ir \<leftarrow> rs. inserted_by (snd ir))"
  using assms
proof (induction h ibs t arbitrary: rs t' rule: run_writes.induct)
  case (2 h i b bs t)
  obtain r u where w: "write_batch h b t = (r, u)" by (cases "write_batch h b t")
  obtain rs' where rs: "run_writes h bs u = (rs', t')" "rs = (i, r) # rs'"
    using 2(2) w by (auto split: prod.splits)
  obtain x where x: "r = Inr x" "first_error rs' = None"
    using 2(3) rs(2) by (cases r) simp_all
  with w have "write_batch h b t = (Inr x, u)" by simp
  note g = write_batch_good [OF this]
  from 2(1) [OF w [symmetric] refl rs(1) x(2)] g rs(2) x(1) show ?case
    by (simp add: inserted_by_def)
qed simp

lemma sum_list_sort: "(\<Sum>x \<leftarrow> sort_key f xs. g x) = (\<Sum>x \<leftarrow> xs. g x :: nat)"
proof -
  have "mset (map g (sort_key f xs)) = mset (map g xs)" by simp
  then show ?thesis by (metis sum_mset_sum_list)
qed

lemma result_at:
  assumes "run_writes h (map (\<lambda>i. (i, P ! i)) order) t = (rs, t')" and "first_error rs = None"
    and "distinct order" and "i \<in> set order"
  shows "\<exists>b. map_of rs i = Some (Inr b) \<and> good_result (length (fst (P ! i))) b"
proof -
  note g = run_writes_good [OF assms(1,2)]
  have keys: "map fst rs = order" using g by (simp add: o_def)
  then obtain j where j: "j < length rs" "order ! j = i" "fst (rs ! j) = i"
    using assms(4) by (metis in_set_conv_nth length_map nth_map)
  with g obtain b where b: "snd (rs ! j) = Inr b" "good_result (length (fst (P ! i))) b"
    by (auto simp: list_all2_conv_all_nth)
  have "map_of rs i = Some (Inr b)"
  proof (rule map_of_is_SomeI)
    show "distinct (map fst rs)" using keys assms(3) by simp
    show "(i, Inr b) \<in> set rs" using j b(1) by (metis nth_mem prod.collapse)
  qed
  with b(2) show ?thesis by blast
qed

lemma inserted_sum:
  assumes "distinct (map fst rs)"
  shows "(\<Sum>ir \<leftarrow> rs. inserted_by (snd ir)) = (\<Sum>i \<leftarrow> map fst rs. inserted_by (the (map_of rs i)))"
proof -
  have "map (\<lambda>ir. inserted_by (snd ir)) rs = map (\<lambda>ir. inserted_by (the (map_of rs (fst ir)))) rs"
    using map_of_is_SomeI [OF assms] by (intro map_cong) force+
  then show ?thesis unfolding map_map o_def by (rule arg_cong)
qed

lemma drain_some:
  assumes "drain h rank w t = (Inr bs, w', t')" and "bw_pending w \<noteq> []"
  obtains rs order where "distinct order" "set order = {..<length (bw_pending w)}"
    "order = sort_key (rank (bw_drains w)) [0..<length (bw_pending w)]"
    "run_writes h (map (\<lambda>i. (i, bw_pending w ! i)) order) t = (rs, t')" "first_error rs = None"
    "bs = map (\<lambda>i. projr (the (map_of rs i))) [0..<length (bw_pending w)]"
    "w' = w\<lparr>bw_pending := [], bw_drains := bw_drains w + 1\<rparr>"
  using assms by (auto simp: drain_def Let_def gather_def lessThan_atLeast0 split: prod.splits option.splits)

lemma drain_none: "bw_pending w = [] \<Longrightarrow> drain h rank w t = (Inr [], w, t)"
  by (simp add: drain_def)

lemma drain_good:
  assumes "drain h rank w t = (Inr bs, w', t')"
  shows "list_all2 (\<lambda>b p. good_result (length (fst p)) b) bs (bw_pending w)"
    and "length t' = length t + (\<Sum>b \<leftarrow> bs. br_inserted b)"
    and "bw_pending w' = []" and "bw_workers w' = bw_workers w"
proof -
  have "list_all2 (\<lambda>b p. good_result (length (fst p)) b) bs (bw_pending w) \<and>
      length t' = length t + (\<Sum>b \<leftarrow> bs. br_inserted b) \<and>
      bw_pending w' = [] \<and> bw_workers w' = bw_workers w"
  proof (cases "bw_pending w = []")
    case False
    let ?n = "length (bw_pending w)"
    obtain rs order where d: "distinct order"
        "set order = {..<?n}" "order = sort_key (rank (bw_drains w)) [0..<?n]"
        "run_writes h (map (\<lambda>i. (i, bw_pending w ! i)) order) t = (rs, t')" "first_error rs = None"
        "bs = map (\<lambda>i. projr (the (map_of rs i))) [0..<?n]"
        "w' = w\<lparr>bw_pending := [], bw_drains := bw_drains w + 1\<rparr>"
      by (rule drain_some [OF assms False])
    have at: "\<exists>b. map_of rs i = Some (Inr b) \<and> good_result (length (fst (bw_pending w ! i))) b"
      if "i < ?n" for i
      using result_at [OF d(4,5,1)] that d(2) by simp
    note g = run_writes_good [OF d(4,5)]
    then have keys: "map fst rs = order" by (simp add: o_def)
    have "(\<Sum>ir \<leftarrow> rs. inserted_by (snd ir)) = (\<Sum>i \<leftarrow> [0..<?n]. inserted_by (the (map_of rs i)))"
      using inserted_sum [of rs] d(1,3) keys sum_list_sort by metis
    also have "map (\<lambda>i. inserted_by (the (map_of rs i))) [0..<?n] = map br_inserted bs"
      using at by (force simp: d(6) inserted_by_def)
    finally have "length t' = length t + (\<Sum>b \<leftarrow> bs. br_inserted b)" using g by simp
    moreover have "list_all2 (\<lambda>b p. good_result (length (fst p)) b) bs (bw_pending w)"
      using at by (force simp: list_all2_conv_all_nth d(6))
    ultimately show ?thesis using d(7) by simp
  qed (use assms in \<open>simp add: drain_none\<close>)
  then show "list_all2 (\<lambda>b p. good_result (length (fst p)) b) bs (bw_pending w)"
    "length t' = length t + (\<Sum>b \<leftarrow> bs. br_inserted b)"
    "bw_pending w' = []" "bw_workers w' = bw_workers w" by blast+
qed

section \<open>Counters\<close>

lemma batch_result_keeps [simp]:
  "rs_total_rows (record_batch_result E b s) = rs_total_rows s"
  "rs_rejected_rows (record_batch_result E b s) = rs_rejected_rows s"
  "rs_quarantined_rows (record_batch_result E b s) = rs_quarantined_rows s"
  "rs_success_rows (record_batch_result E b s) = rs_success_rows s + br_inserted b"
  "rs_duplicate_rows (record_batch_result E b s) = rs_duplicate_rows s + br_duplicates b"
  "rs_failed_rows (record_batch_result E b s) = rs_failed_rows s + br_failed b"
  "rs_persistence_failed_rows (record_batch_result E b s) = rs_persistence_failed_rows s + br_failed b"
  by (simp_all add: record_batch_result_def)

lemma duplicate_outcome:
  "qe_outcome (duplicate_evaluation d)
     = (if dd_duplicate_type d = QR_CONFLICTING_DUPLICATE then QO_CONFLICTING_DUPLICATE
        else QO_EQUIVALENT_DUPLICATE)"
  by (simp add: duplicate_evaluation_def duplicate_violation_def make_evaluation_def infer_outcome_def)

lemma duplicates_counted:
  "rs_conflicting_duplicate_rows (foldl (\<lambda>s d. record_quality_evaluation (duplicate_evaluation d) s) s ds)
     = rs_conflicting_duplicate_rows s
       + length (filter (\<lambda>d. dd_duplicate_type d = QR_CONFLICTING_DUPLICATE) ds)"
  "rs_equivalent_duplicate_rows (foldl (\<lambda>s d. record_quality_evaluation (duplicate_evaluation d) s) s ds)
     = rs_equivalent_duplicate_rows s
       + length (filter (\<lambda>d. dd_duplicate_type d \<noteq> QR_CONFLICTING_DUPLICATE) ds)"
  by (induction ds arbitrary: s)
    (simp_all add: record_quality_evaluation_def record_quality_def duplicate_outcome Let_def
      count_kind_def advance_disposition_def del: outcome_value.simps)

lemma batch_result_duplicates [simp]:
  "rs_conflicting_duplicate_rows (record_batch_result E b s)
     = rs_conflicting_duplicate_rows s + length (conflicts_of b)"
  "rs_equivalent_duplicate_rows (record_batch_result E b s)
     = rs_equivalent_duplicate_rows s
       + length (filter (\<lambda>d. dd_duplicate_type d \<noteq> QR_CONFLICTING_DUPLICATE) (br_duplicate_details b))"
  by (simp_all add: record_batch_result_def duplicates_counted conflicts_of_def)

lemma stage_keeps [simp]:
  "rs_total_rows (begin_stage st s) = rs_total_rows s"
  "rs_success_rows (begin_stage st s) = rs_success_rows s"
  "rs_failed_rows (begin_stage st s) = rs_failed_rows s"
  "rs_duplicate_rows (begin_stage st s) = rs_duplicate_rows s"
  "rs_rejected_rows (begin_stage st s) = rs_rejected_rows s"
  "rs_persistence_failed_rows (begin_stage st s) = rs_persistence_failed_rows s"
  "rs_quarantined_rows (begin_stage st s) = rs_quarantined_rows s"
  "rs_conflicting_duplicate_rows (begin_stage st s) = rs_conflicting_duplicate_rows s"
  "rs_equivalent_duplicate_rows (begin_stage st s) = rs_equivalent_duplicate_rows s"
  by (simp_all add: begin_stage_def)

text \<open>
  \<open>k\<close> rows are buffered or being written, \<open>x\<close> rows are in the table and not yet counted; \<open>n0\<close> and
  \<open>q0\<close> are the sizes of the table and of the quarantine at the start.
\<close>

definition quarantine_acc :: "nat option \<Rightarrow> run_box \<Rightarrow> bool" where
  "quarantine_acc q0 bx \<longleftrightarrow>
     (case (q0, bx_quarantine bx) of
        (None, None) \<Rightarrow> rs_quarantined_rows (bx_state bx) = 0 \<and> bx_quarantine_buffer bx = []
      | (Some m, Some q) \<Rightarrow>
          length q = m + rs_quarantined_rows (bx_state bx) \<and>
          rs_quarantined_rows (bx_state bx) + length (bx_quarantine_buffer bx)
            = rs_rejected_rows (bx_state bx) + rs_conflicting_duplicate_rows (bx_state bx)
      | _ \<Rightarrow> False)"

definition acc :: "nat \<Rightarrow> nat option \<Rightarrow> nat \<Rightarrow> nat \<Rightarrow> run_box \<Rightarrow> bool" where
  "acc n0 q0 k x bx \<longleftrightarrow>
     (let s = bx_state bx
      in rs_total_rows s = rs_success_rows s + rs_duplicate_rows s + rs_rejected_rows s + k \<and>
         rs_failed_rows s = rs_rejected_rows s \<and> rs_persistence_failed_rows s = 0 \<and>
         rs_equivalent_duplicate_rows s + rs_conflicting_duplicate_rows s = rs_duplicate_rows s \<and>
         length (bx_table bx) = n0 + rs_success_rows s + x) \<and>
     quarantine_acc q0 bx"

definition same_buffers :: "run_box \<Rightarrow> run_box \<Rightarrow> bool" where
  "same_buffers a b \<longleftrightarrow>
     bx_writer a = bx_writer b \<and> bx_table a = bx_table b \<and> bx_batch a = bx_batch b \<and>
     bx_contexts a = bx_contexts b \<and> bx_quarantine_buffer a = bx_quarantine_buffer b"

lemma same_buffers_refl [simp]: "same_buffers a a"
  by (simp add: same_buffers_def)

lemma same_buffers_trans: "same_buffers a b \<Longrightarrow> same_buffers b c \<Longrightarrow> same_buffers a c"
  by (simp add: same_buffers_def)

lemma create_many_length:
  "create_many keep now rs q = (n, q') \<Longrightarrow> n = length rs \<and> length q' = length q + length rs"
  by (auto simp: create_many_def split: if_splits)

lemma length_conflict_records [simp]: "length (conflict_records su n b) = length (conflicts_of b)"
  by (simp add: conflict_records_def)

lemma flush_quarantine_Some:
  assumes "bx_quarantine bx = Some q"
  shows "\<exists>q'. flush_quarantine su rs bx
      = bx\<lparr>bx_quarantine := Some q',
           bx_state := record_quarantined (length rs) (begin_stage ''QUARANTINING'' (bx_state bx))\<rparr> \<and>
    length q' = length q + length rs"
proof -
  obtain n q' where c: "create_many (su_retention_days su) (su_now su) rs q = (n, q')" by fastforce
  with assms create_many_length [OF c] show ?thesis
    by (auto simp: flush_quarantine_def emit_stage_def Let_def)
qed

lemma record_result_effect:
  assumes "good_result m b" and "acc n0 q0 (k + m) (x + br_inserted b) bx"
  shows "acc n0 q0 k x (record_result su bx b)" and "same_buffers (record_result su bx b) bx"
proof -
  let ?s = "record_batch_result (su_env su) b (bx_state bx)"
  have types: "br_duplicates b = length (conflicts_of b)
      + length (filter (\<lambda>d. dd_duplicate_type d \<noteq> QR_CONFLICTING_DUPLICATE) (br_duplicate_details b))"
    using assms(1) sum_length_filter_compl [of "\<lambda>d. dd_duplicate_type d = QR_CONFLICTING_DUPLICATE"
        "br_duplicate_details b"] by (simp add: good_result_def conflicts_of_def)
  have "acc n0 q0 k x (record_result su bx b) \<and> same_buffers (record_result su bx b) bx"
  proof (cases "bx_quarantine bx = None \<or> conflicts_of b = []")
    case True
    then have "record_result su bx b = bx\<lparr>bx_state := ?s\<rparr>"
      by (auto simp: record_result_def quarantine_conflicts_def)
    with True assms types show ?thesis
      by (auto simp: acc_def Let_def good_result_def same_buffers_def quarantine_acc_def
          split: option.splits)
  next
    case False
    then obtain q where q: "bx_quarantine bx = Some q" by auto
    let ?bx = "bx\<lparr>bx_state := ?s, bx_created := bx_created bx + length (conflicts_of b)\<rparr>"
    have rs: "record_result su bx b = flush_quarantine su (conflict_records su (bx_created bx) b) ?bx"
      using False q by (simp add: record_result_def quarantine_conflicts_def Let_def)
    have "bx_quarantine ?bx = Some q" using q by simp
    from flush_quarantine_Some [OF this, of su "conflict_records su (bx_created bx) b"] obtain q' where
      "record_result su bx b = ?bx\<lparr>bx_quarantine := Some q', bx_state :=
         record_quarantined (length (conflicts_of b)) (begin_stage ''QUARANTINING'' ?s)\<rparr>"
      "length q' = length q + length (conflicts_of b)"
      using rs by auto
    with q assms types show ?thesis
      by (auto simp: acc_def Let_def good_result_def same_buffers_def quarantine_acc_def
          record_quarantined_def split: option.splits)
  qed
  then show "acc n0 q0 k x (record_result su bx b)" "same_buffers (record_result su bx b) bx" by blast+
qed

lemma record_results_effect:
  assumes "list_all2 (\<lambda>b m. good_result m b) bs ms"
    and "acc n0 q0 (k + sum_list ms) (\<Sum>b \<leftarrow> bs. br_inserted b) bx"
  shows "acc n0 q0 k 0 (foldl (record_result su) bx bs) \<and>
    same_buffers (foldl (record_result su) bx bs) bx"
  using assms
proof (induction bs ms arbitrary: bx rule: list_all2_induct)
  case (Cons b bs m ms)
  have "acc n0 q0 ((k + sum_list ms) + m) ((\<Sum>b \<leftarrow> bs. br_inserted b) + br_inserted b) bx"
    using Cons.prems by (simp add: algebra_simps)
  note r = record_result_effect [OF Cons.hyps(1) this, of su]
  from Cons.IH [OF r(1)] r(2) show ?case by (auto intro: same_buffers_trans)
qed simp

section \<open>What can be stored\<close>

text \<open>
  A container can be stored when its time basis is text and its extra fields are JSON.
\<close>

definition storable :: "data_container \<Rightarrow> bool" where
  "storable c \<longleftrightarrow>
     (case pd_timestamp_basis (dc_partner_data c) of VStr _ \<Rightarrow> True | _ \<Rightarrow> False) \<and>
     is_json (VDict (pd_extra (dc_partner_data c)))"

lemma container_row_Some:
  "(\<exists>r. data_container_to_row None c = Some r) \<longleftrightarrow>
     (case pd_timestamp_basis (dc_partner_data c) of VStr _ \<Rightarrow> True | _ \<Rightarrow> False)"
proof -
  have "row_trans_date None d \<noteq> None" for d by (simp add: row_trans_date_def split: option.splits)
  then show ?thesis
    by (cases "pd_timestamp_basis (dc_partner_data c)")
      (auto simp: data_container_to_row_def row_timestamp_basis_def Let_def split: option.splits)
qed

lemma those_rows:
  "(\<exists>rs. those (map (data_container_to_row None) cs) = Some rs \<and> list_all row_json rs)
     \<longleftrightarrow> list_all storable cs"
proof (induction cs)
  case (Cons c cs)
  show ?case
  proof (cases "data_container_to_row None c")
    case None
    then have "\<not> storable c" using container_row_Some [of c] by (auto simp: storable_def)
    with None show ?thesis by simp
  next
    case (Some r)
    then have "storable c \<longleftrightarrow> row_json r"
      using container_row_Some [of c] row_json_container [OF Some] by (auto simp: storable_def)
    with Some Cons show ?thesis by (auto split: option.splits)
  qed
qed simp

lemma insert_many_total:
  assumes "list_all row_json rs"
  shows "\<exists>b t'. insert_many h rs t = (Inr b, t') \<and> attempted b = length rs"
proof -
  obtain t' ks where "insert_new t rs = (t', ks)" by (cases "insert_new t rs") auto
  from insert_many_eq [OF this assms, of h] have i: "insert_many h rs t = (Inr (batch_outcome h t' rs ks), t')" .
  from insert_many_good(1) [OF i] i show ?thesis by (auto simp: good_result_def attempted_def)
qed

text \<open>Contexts are submitted with their rows.\<close>

definition batch_ok :: "batch \<Rightarrow> bool" where
  "batch_ok b \<longleftrightarrow> (\<exists>xs. snd b = Some xs \<and> length xs = length (fst b))"

lemma write_batch_total:
  assumes "batch_ok b" and "list_all storable (fst b)"
  shows "\<exists>r t'. write_batch h b t = (Inr r, t')"
proof -
  obtain rs where rs: "those (map (data_container_to_row None) (fst b)) = Some rs" "list_all row_json rs"
    using those_rows assms(2) by blast
  then obtain r t' where "insert_many h rs t = (Inr r, t')" "attempted r = length (fst b)"
    using insert_many_total [OF rs(2), of h t] length_those [OF rs(1)] by auto
  with rs assms(1) show ?thesis by (cases b) (auto simp: write_batch_def batch_ok_def)
qed

lemma write_batch_storable:
  assumes "write_batch h b t = (Inr r, t')"
  shows "list_all storable (fst b)"
proof -
  obtain cs ctxs rs r0 where w: "b = (cs, ctxs)" "those (map (data_container_to_row None) cs) = Some rs"
      "insert_many h rs t = (Inr r0, t')"
    using assms by (cases b) (auto simp: write_batch_def split: if_splits option.splits
        prod.splits sum.splits)
  from insert_many_json [OF w(3)] w(1,2) those_rows [of cs] show ?thesis by auto
qed

lemma run_writes_storable:
  "run_writes h ibs t = (rs, t') \<Longrightarrow> first_error rs = None \<Longrightarrow> (i, b) \<in> set ibs \<Longrightarrow>
     list_all storable (fst b)"
proof (induction h ibs t arbitrary: rs t' rule: run_writes.induct)
  case (2 h j c bs t)
  obtain r u where w: "write_batch h c t = (r, u)" by (cases "write_batch h c t")
  obtain rs' where rs: "run_writes h bs u = (rs', t')" "rs = (j, r) # rs'"
    using 2(2) w by (auto split: prod.splits)
  obtain x where x: "r = Inr x" "first_error rs' = None"
    using 2(3) rs(2) by (cases r) simp_all
  from 2(1) [OF w [symmetric] refl rs(1) x(2)] write_batch_storable [of h c t x u] w x(1) 2(4)
  show ?case by auto
qed simp

lemma run_writes_total:
  "list_all (\<lambda>ib. batch_ok (snd ib) \<and> list_all storable (fst (snd ib))) ibs \<Longrightarrow>
     first_error (fst (run_writes h ibs t)) = None"
proof (induction h ibs t rule: run_writes.induct)
  case (2 h j c bs t)
  then obtain r u where w: "write_batch h c t = (Inr r, u)" using write_batch_total [of c h t] by auto
  with 2 show ?case by (auto split: prod.splits)
qed simp

definition in_pending :: "batch_writer \<Rightarrow> data_container \<Rightarrow> bool" where
  "in_pending w c \<longleftrightarrow> (\<exists>p \<in> set (bw_pending w). c \<in> set (fst p))"

lemma drain_storable:
  assumes "drain h rank w t = (Inr bs, w', t')" and "in_pending w c"
  shows "storable c"
proof -
  from assms(2) have "bw_pending w \<noteq> []" by (auto simp: in_pending_def)
  obtain rs order where d: "set order = {..<length (bw_pending w)}"
    "run_writes h (map (\<lambda>i. (i, bw_pending w ! i)) order) t = (rs, t')" "first_error rs = None"
    by (rule drain_some [OF assms(1) \<open>bw_pending w \<noteq> []\<close>])
  from assms(2) obtain p where p: "p \<in> set (bw_pending w)" "c \<in> set (fst p)"
    by (auto simp: in_pending_def)
  obtain i where "i < length (bw_pending w)" "c \<in> set (fst (bw_pending w ! i))"
    using p by (metis in_set_conv_nth)
  moreover from this d(1) have "(i, bw_pending w ! i) \<in> set (map (\<lambda>i. (i, bw_pending w ! i)) order)"
    by auto
  ultimately show ?thesis using run_writes_storable [OF d(2,3)] by (auto simp: list_all_iff)
qed

lemma drain_total:
  assumes "list_all batch_ok (bw_pending w)" and "\<And>c. in_pending w c \<Longrightarrow> storable c"
  shows "\<exists>bs w' t'. drain h rank w t = (Inr bs, w', t')"
proof (cases "bw_pending w = []")
  case False
  let ?order = "sort_key (rank (bw_drains w)) [0..<length (bw_pending w)]"
  have "list_all (\<lambda>ib. batch_ok (snd ib) \<and> list_all storable (fst (snd ib)))
      (map (\<lambda>i. (i, bw_pending w ! i)) ?order)"
    using assms nth_mem [of _ "bw_pending w"]
    by (auto simp: list_all_iff in_pending_def simp del: nth_mem) blast
  from run_writes_total [OF this, of h t] False show ?thesis
    by (auto simp: drain_def Let_def gather_def split: prod.splits)
qed (simp add: drain_none)

end
