(* ===== verification/RowRun.thy ===== *)
theory RowRun
  imports RowAccounting
begin

text \<open>
  The row loop as a whole: what a submission, a flush and the treatment of one row do to the
  accounting, and the properties of a complete run.
\<close>

section \<open>Submissions\<close>

definition pending_rows :: "batch_writer \<Rightarrow> nat" where
  "pending_rows w = (\<Sum>p \<leftarrow> bw_pending w. length (fst p))"

lemma drain_sizes:
  assumes "drain h rank w t = (Inr bs, w', t')"
  shows "\<exists>ms. list_all2 (\<lambda>b m. good_result m b) bs ms \<and> sum_list ms = pending_rows w"
  using drain_good(1) [OF assms]
  by (intro exI [of _ "map (\<lambda>p. length (fst p)) (bw_pending w)"])
    (simp add: pending_rows_def list_all2_map2)

lemma submit_cases:
  assumes "submit h rank b w t = (Inr bs, w', t')"
  obtains (empty) "fst b = []" "bs = []" "w' = w" "t' = t"
  | (one) r where "write_batch h b t = (Inr r, t')" "bs = [r]" "w' = w"
  | (queue) "bs = []" "w' = w\<lparr>bw_pending := bw_pending w @ [b]\<rparr>" "t' = t"
  | (drain) "drain h rank (w\<lparr>bw_pending := bw_pending w @ [b]\<rparr>) t = (Inr bs, w', t')"
proof (cases "fst b = []")
  case True
  with assms empty show thesis by (simp add: submit_def)
next
  case ne: False
  show thesis
  proof (cases "bw_workers w = 1")
    case True
    with assms ne one show thesis
      by (cases "write_batch h b t") (auto simp: submit_def split: sum.splits)
  next
    case False
    with assms ne queue drain show thesis
      by (cases "length (bw_pending w) + 1 < bw_workers w") (simp_all add: submit_def Let_def)
  qed
qed

lemma submit_good:
  assumes "submit h rank b w t = (Inr bs, w', t')"
  shows "(\<exists>ms. list_all2 (\<lambda>b m. good_result m b) bs ms \<and>
      sum_list ms + pending_rows w' = pending_rows w + length (fst b)) \<and>
    length t' = length t + (\<Sum>b \<leftarrow> bs. br_inserted b)"
  using assms
proof (cases rule: submit_cases)
  case (one r)
  from write_batch_good [OF one(1)] one show ?thesis
    by (auto intro!: exI [of _ "[length (fst b)]"])
next
  case drain
  from drain_sizes [OF drain] drain_good(2,3) [OF drain] show ?thesis
    by (auto simp: pending_rows_def)
qed (auto simp: pending_rows_def intro!: exI [of _ "[] :: nat list"])

lemma submit_storable:
  assumes "submit h rank b w t = (Inr bs, w', t')" and "c \<in> set (fst b) \<or> in_pending w c"
  shows "storable c \<or> in_pending w' c"
  using assms(1)
proof (cases rule: submit_cases)
  case (one r)
  from write_batch_storable [OF one(1)] assms(2) one(3) show ?thesis by (auto simp: list_all_iff)
next
  case drain
  from drain_storable [OF drain, of c] assms(2) show ?thesis by (auto simp: in_pending_def)
qed (use assms(2) in \<open>auto simp: in_pending_def\<close>)

lemma submit_pending:
  assumes "submit h rank b w t = (Inr bs, w', t')" and "p \<in> set (bw_pending w')"
  shows "p \<in> set (bw_pending w) \<or> p = b"
  using assms(1)
proof (cases rule: submit_cases)
  case drain
  from drain_good(3) [OF drain] assms(2) show ?thesis by simp
qed (use assms(2) in auto)

lemma submit_total:
  assumes "list_all batch_ok (bw_pending w)" and "batch_ok b"
    and "\<And>c. c \<in> set (fst b) \<or> in_pending w c \<Longrightarrow> storable c"
  shows "\<exists>bs w' t'. submit h rank b w t = (Inr bs, w', t')"
proof -
  let ?w = "w\<lparr>bw_pending := bw_pending w @ [b]\<rparr>"
  have "\<exists>r t'. write_batch h b t = (Inr r, t')"
    using assms(2,3) by (intro write_batch_total) (auto simp: list_all_iff)
  moreover have "\<exists>bs w' t'. drain h rank ?w t = (Inr bs, w', t')"
    using assms by (intro drain_total) (auto simp: in_pending_def)
  ultimately show ?thesis by (auto simp: submit_def Let_def)
qed

section \<open>The invariant of the loop\<close>

text \<open>
  The accounting between two rows, and that every container accepted so far, the set \<open>C\<close>, is
  storable or still buffered.
\<close>

definition buffered :: "run_box \<Rightarrow> data_container \<Rightarrow> bool" where
  "buffered bx c \<longleftrightarrow> c \<in> set (bx_batch bx) \<or> in_pending (bx_writer bx) c"

definition loop_inv :: "nat \<Rightarrow> nat option \<Rightarrow> data_container set \<Rightarrow> run_box \<Rightarrow> bool" where
  "loop_inv n0 q0 C bx \<longleftrightarrow>
     acc n0 q0 (length (bx_batch bx) + pending_rows (bx_writer bx)) 0 bx \<and>
     length (bx_contexts bx) = length (bx_batch bx) \<and>
     list_all batch_ok (bw_pending (bx_writer bx)) \<and>
     (\<forall>c. buffered bx c \<longrightarrow> c \<in> C) \<and> (\<forall>c \<in> C. storable c \<or> buffered bx c)"

lemma acc_emit [simp]: "acc n0 q0 k x (emit_stage st bx) = acc n0 q0 k x bx"
  by (simp add: acc_def emit_stage_def quarantine_acc_def Let_def split: option.splits)

lemma emit_keeps [simp]:
  "bx_batch (emit_stage st bx) = bx_batch bx" "bx_contexts (emit_stage st bx) = bx_contexts bx"
  "bx_writer (emit_stage st bx) = bx_writer bx" "bx_table (emit_stage st bx) = bx_table bx"
  "bx_quarantine (emit_stage st bx) = bx_quarantine bx"
  "bx_quarantine_buffer (emit_stage st bx) = bx_quarantine_buffer bx"
  by (simp_all add: emit_stage_def)

lemma loop_inv_emit [simp]: "loop_inv n0 q0 C (emit_stage st bx) = loop_inv n0 q0 C bx"
  by (simp add: loop_inv_def buffered_def)

text \<open>Recording the results of a submission that held \<open>k\<close> buffered rows.\<close>

lemma after_writes_acc:
  assumes "after_writes su bx (Inr bs, w', t') = Inr bx'"
    and "list_all2 (\<lambda>b m. good_result m b) bs ms"
    and "acc n0 q0 (k + sum_list ms) 0 bx" and "length t' = length (bx_table bx) + (\<Sum>b \<leftarrow> bs. br_inserted b)"
  shows "acc n0 q0 k 0 bx' \<and> bx_writer bx' = w' \<and> bx_batch bx' = bx_batch bx \<and>
    bx_contexts bx' = bx_contexts bx \<and> bx_quarantine_buffer bx' = bx_quarantine_buffer bx"
proof -
  let ?bx = "bx\<lparr>bx_writer := w', bx_table := t'\<rparr>"
  have "acc n0 q0 (k + sum_list ms) (\<Sum>b \<leftarrow> bs. br_inserted b) ?bx"
    using assms(3,4) by (simp add: acc_def quarantine_acc_def Let_def split: option.splits)
  from record_results_effect [OF assms(2) this, of su] assms(1) show ?thesis
    by (simp add: after_writes_def same_buffers_def)
qed

lemma flush_batch_inv:
  assumes "loop_inv n0 q0 C bx" and "flush_batch su bx = Inr bx'"
  shows "loop_inv n0 q0 C bx' \<and> bx_batch bx' = []"
proof -
  let ?bx = "emit_stage ''PERSISTING'' bx"
  obtain res w' t' where s: "submit (su_hashing su) (su_rank su) (bx_batch bx, Some (bx_contexts bx))
      (bx_writer bx) (bx_table bx) = (res, w', t')" by (metis prod.exhaust)
  obtain bs b1 where r: "res = Inr bs" "after_writes su ?bx (Inr bs, w', t') = Inr b1"
      "bx' = b1\<lparr>bx_batch := [], bx_contexts := []\<rparr>"
    using assms(2) s by (cases res) (auto simp: flush_batch_def after_writes_def Let_def)
  note s = s [unfolded r(1)]
  note g = submit_good [OF s, unfolded fst_conv]
  obtain ms where ms: "list_all2 (\<lambda>b m. good_result m b) bs ms"
      "sum_list ms + pending_rows w' = pending_rows (bx_writer bx) + length (bx_batch bx)"
    using g by blast
  have "length (bx_batch bx) + pending_rows (bx_writer bx) = pending_rows w' + sum_list ms"
    using ms(2) by simp
  then have before: "acc n0 q0 (pending_rows w' + sum_list ms) 0 ?bx"
    using assms(1) unfolding loop_inv_def by (simp only: acc_emit)
  have "length t' = length (bx_table ?bx) + (\<Sum>b \<leftarrow> bs. br_inserted b)"
    using g by (simp only: emit_keeps)
  from after_writes_acc [OF r(2) ms(1) before this]
  have a: "acc n0 q0 (pending_rows w') 0 b1" "bx_writer b1 = w'" by blast+
  have "acc n0 q0 (pending_rows w') 0 bx'"
    using a(1) r(3) by (simp add: acc_def quarantine_acc_def Let_def split: option.splits)
  moreover have "list_all batch_ok (bw_pending w')"
  proof -
    have "batch_ok (bx_batch bx, Some (bx_contexts bx))"
      using assms(1) by (simp add: loop_inv_def batch_ok_def)
    moreover have "batch_ok p" if "p \<in> set (bw_pending (bx_writer bx))" for p
      using assms(1) that by (simp add: loop_inv_def list_all_iff)
    ultimately show ?thesis using submit_pending [OF s] unfolding list_all_iff by blast
  qed
  moreover have "storable c \<or> in_pending w' c" if "c \<in> C" for c
    using assms(1) that submit_storable [OF s, of c] by (auto simp: loop_inv_def buffered_def)
  moreover have "c \<in> C" if "in_pending w' c" for c
  proof -
    have "c \<in> set (bx_batch bx) \<or> in_pending (bx_writer bx) c"
      using submit_pending [OF s] that by (fastforce simp: in_pending_def)
    with assms(1) show ?thesis by (auto simp: loop_inv_def buffered_def)
  qed
  ultimately show ?thesis using a(2) r(3) by (auto simp: loop_inv_def buffered_def)
qed

lemma flush_batch_total:
  assumes "loop_inv n0 q0 C bx" and "\<And>c. c \<in> C \<Longrightarrow> storable c"
  shows "\<exists>bx'. flush_batch su bx = Inr bx'"
proof -
  have "\<exists>bs w' t'. submit (su_hashing su) (su_rank su) (bx_batch bx, Some (bx_contexts bx))
      (bx_writer bx) (bx_table bx) = (Inr bs, w', t')"
    using assms by (intro submit_total) (auto simp: loop_inv_def batch_ok_def buffered_def)
  then show ?thesis by (auto simp: flush_batch_def after_writes_def Let_def)
qed

section \<open>One row\<close>

text \<open>Counting a row and recording its outcome.\<close>

lemma record_row_simps [simp]:
  "fst (record_row s) = rs_total_rows s + 1" "snd (record_row s) = s\<lparr>rs_total_rows := rs_total_rows s + 1\<rparr>"
  by (simp_all add: record_row_def)

lemma record_quality_duplicates:
  "oc \<noteq> QO_CONFLICTING_DUPLICATE \<Longrightarrow> rs_conflicting_duplicate_rows (record_quality oc vs w s)
     = rs_conflicting_duplicate_rows s"
  "oc \<noteq> QO_EQUIVALENT_DUPLICATE \<Longrightarrow> rs_equivalent_duplicate_rows (record_quality oc vs w s)
     = rs_equivalent_duplicate_rows s"
  by (simp_all add: record_quality_def advance_disposition_def count_kind_def Let_def)

definition bump :: "nat \<Rightarrow> run_state \<Rightarrow> run_state \<Rightarrow> bool" where
  "bump rejected s s' \<longleftrightarrow>
     rs_total_rows s' = rs_total_rows s \<and> rs_success_rows s' = rs_success_rows s \<and>
     rs_duplicate_rows s' = rs_duplicate_rows s \<and>
     rs_rejected_rows s' = rs_rejected_rows s + rejected \<and>
     rs_failed_rows s' = rs_failed_rows s + rejected \<and>
     rs_persistence_failed_rows s' = rs_persistence_failed_rows s \<and>
     rs_quarantined_rows s' = rs_quarantined_rows s \<and>
     rs_equivalent_duplicate_rows s' = rs_equivalent_duplicate_rows s \<and>
     rs_conflicting_duplicate_rows s' = rs_conflicting_duplicate_rows s"

lemma outcome_bump:
  assumes "ro_outcome out = QO_VALID \<or> ro_outcome out = QO_REJECT"
  shows "bump (if row_is_valid out then 0 else 1) s (record_row_outcome E out s)"
  using assms
  by (auto simp: bump_def record_row_outcome_def Let_def row_is_valid_def valid_outcome_def
      record_quality_duplicates record_valid_row_def record_invalid_row_def)

lemma acc_bump:
  assumes "acc n0 q0 k x bx" and "bump n s s'" and "s = (bx_state bx)\<lparr>rs_total_rows := rs_total_rows (bx_state bx) + 1\<rparr>"
    and "k' + n = k + 1" and "bx_quarantine bx = None \<and> buf = [] \<or>
      length buf = length (bx_quarantine_buffer bx) + n \<and> bx_quarantine bx \<noteq> None"
  shows "acc n0 q0 k' x (bx\<lparr>bx_state := s', bx_quarantine_buffer := buf\<rparr>)"
  using assms by (auto simp: acc_def bump_def quarantine_acc_def Let_def split: option.splits)

lemma flush_buffer_acc:
  assumes "acc n0 q0 k x bx" and "bx_quarantine bx \<noteq> None"
  shows "acc n0 q0 k x ((flush_quarantine su (bx_quarantine_buffer bx) bx)\<lparr>bx_quarantine_buffer := []\<rparr>)"
proof -
  obtain q where q: "bx_quarantine bx = Some q" using assms(2) by auto
  from flush_quarantine_Some [OF q, of su "bx_quarantine_buffer bx"] obtain q' where
    "flush_quarantine su (bx_quarantine_buffer bx) bx
      = bx\<lparr>bx_quarantine := Some q', bx_state := record_quarantined (length (bx_quarantine_buffer bx))
             (begin_stage ''QUARANTINING'' (bx_state bx))\<rparr>"
    "length q' = length q + length (bx_quarantine_buffer bx)" by blast
  with assms(1) q show ?thesis
    by (auto simp: acc_def quarantine_acc_def Let_def record_quarantined_def split: option.splits)
qed

lemma log_failure_keeps:
  "bx_batch (log_failure row out bx) = bx_batch bx"
  "bx_contexts (log_failure row out bx) = bx_contexts bx"
  "bx_writer (log_failure row out bx) = bx_writer bx"
  "acc n0 q0 k x (log_failure row out bx) = acc n0 q0 k x bx"
  "rs_total_rows (bx_state (log_failure row out bx)) = rs_total_rows (bx_state bx)"
  by (auto simp: log_failure_def should_log_row_error_def acc_def quarantine_acc_def Let_def
      split: prod.splits option.splits)

lemma flush_quarantine_keeps:
  "bx_batch (flush_quarantine su rs bx) = bx_batch bx"
  "bx_contexts (flush_quarantine su rs bx) = bx_contexts bx"
  "bx_writer (flush_quarantine su rs bx) = bx_writer bx"
  "rs_total_rows (bx_state (flush_quarantine su rs bx)) = rs_total_rows (bx_state bx)"
  by (auto simp: flush_quarantine_def record_quarantined_def Let_def emit_stage_def
      split: option.splits prod.splits)

lemma reject_row_keeps:
  "bx_batch (reject_row su r row out bx) = bx_batch bx"
  "bx_contexts (reject_row su r row out bx) = bx_contexts bx"
  "bx_writer (reject_row su r row out bx) = bx_writer bx"
  "rs_total_rows (bx_state (reject_row su r row out bx)) = rs_total_rows (bx_state bx)"
  by (simp_all add: reject_row_def log_failure_keeps flush_quarantine_keeps Let_def)

lemma acc_created [simp]: "acc n0 q0 k x (bx\<lparr>bx_created := n\<rparr>) = acc n0 q0 k x bx"
  by (simp add: acc_def quarantine_acc_def Let_def split: option.splits)

lemma reject_row_acc:
  assumes "acc n0 q0 k 0 bx" and "bump 1 s s'"
    and "s = (bx_state bx)\<lparr>rs_total_rows := rs_total_rows (bx_state bx) + 1\<rparr>"
  shows "acc n0 q0 k 0 (reject_row su r row out (bx\<lparr>bx_state := s'\<rparr>))"
proof (cases "bx_quarantine bx")
  case None
  then have empty: "bx_quarantine_buffer bx = []"
    using assms(1) by (auto simp: acc_def quarantine_acc_def split: option.splits)
  have "acc n0 q0 k 0 (bx\<lparr>bx_state := s', bx_quarantine_buffer := []\<rparr>)"
    by (rule acc_bump [OF assms]) (simp_all add: None)
  then have "acc n0 q0 k 0 (bx\<lparr>bx_state := s'\<rparr>)"
    using None empty by (simp add: acc_def quarantine_acc_def Let_def split: option.splits)
  then show ?thesis by (simp add: reject_row_def None) (simp only: log_failure_keeps)
next
  case (Some q)
  define d where "d = quarantine_record (su_sla_hours su) (su_fresh su (bx_created bx)) (su_context su)
    r row (row_errors (su_env su) out)"
  let ?bx = "bx\<lparr>bx_state := s', bx_quarantine_buffer := bx_quarantine_buffer bx @ [d],
    bx_created := bx_created bx + 1\<rparr>"
  have "acc n0 q0 k 0 (bx\<lparr>bx_state := s', bx_quarantine_buffer := bx_quarantine_buffer bx @ [d]\<rparr>)"
    by (rule acc_bump [OF assms]) (simp_all add: Some)
  then have "acc n0 q0 k 0 ?bx" by (simp only: acc_created)
  moreover from this have "acc n0 q0 k 0
      ((flush_quarantine su (bx_quarantine_buffer ?bx) ?bx)\<lparr>bx_quarantine_buffer := []\<rparr>)"
    by (rule flush_buffer_acc) (simp add: Some)
  moreover have "reject_row su r row out (bx\<lparr>bx_state := s'\<rparr>) = log_failure row out
      (if su_batch_size su \<le> length (bx_quarantine_buffer ?bx)
       then (flush_quarantine su (bx_quarantine_buffer ?bx) ?bx)\<lparr>bx_quarantine_buffer := []\<rparr> else ?bx)"
    by (simp add: reject_row_def Let_def Some d_def)
  ultimately show ?thesis by (simp only: log_failure_keeps) (simp split: if_splits)
qed

text \<open>Recording the results of writes changes neither the number of rows read nor of rejections.\<close>

definition same_input :: "run_box \<Rightarrow> run_box \<Rightarrow> bool" where
  "same_input a b \<longleftrightarrow> rs_total_rows (bx_state a) = rs_total_rows (bx_state b) \<and>
     rs_rejected_rows (bx_state a) = rs_rejected_rows (bx_state b)"

lemma flush_quarantine_input: "same_input (flush_quarantine su rs bx) bx"
  by (auto simp: same_input_def flush_quarantine_def record_quarantined_def Let_def emit_stage_def
      split: option.splits prod.splits)

lemma record_result_input: "same_input (record_result su bx b) bx"
  using flush_quarantine_input [of su]
  by (simp add: record_result_def quarantine_conflicts_def Let_def same_input_def)

lemma record_results_input: "same_input (foldl (record_result su) bx bs) bx"
proof (induction bs arbitrary: bx)
  case (Cons b bs)
  from Cons [of "record_result su bx b"] record_result_input [of su bx b] show ?case
    by (simp add: same_input_def)
qed (simp add: same_input_def)

lemma after_writes_input: "after_writes su bx r = Inr bx' \<Longrightarrow> same_input bx' bx"
  using record_results_input [of su "bx\<lparr>bx_writer := w, bx_table := t\<rparr>" for w t]
  by (auto simp: after_writes_def same_input_def Let_def split: prod.splits sum.splits)

lemma flush_batch_input:
  assumes "flush_batch su bx = Inr bx'"
  shows "same_input bx' bx"
proof -
  obtain b1 where "after_writes su (emit_stage ''PERSISTING'' bx)
      (submit (su_hashing su) (su_rank su) (bx_batch bx, Some (bx_contexts bx)) (bx_writer bx)
        (bx_table bx)) = Inr b1" "bx' = b1\<lparr>bx_batch := [], bx_contexts := []\<rparr>"
    using assms by (auto simp: flush_batch_def Let_def split: sum.splits)
  with after_writes_input [OF this(1)] show ?thesis by (simp add: same_input_def emit_stage_def)
qed

lemma reject_row_input:
  "same_input (reject_row su r row out bx) bx"
proof -
  have "same_input (log_failure row out bx) bx" for bx
    by (auto simp: same_input_def log_failure_def should_log_row_error_def Let_def split: prod.splits)
  moreover have "same_input (flush_quarantine su rs (bx\<lparr>bx_quarantine_buffer := b, bx_created := n\<rparr>)) bx"
    for rs b n
    using flush_quarantine_input [of su rs "bx\<lparr>bx_quarantine_buffer := b, bx_created := n\<rparr>"]
    by (simp add: same_input_def)
  ultimately show ?thesis by (simp add: reject_row_def Let_def same_input_def)
qed

section \<open>The loop\<close>

text \<open>The container a row is accepted with, and whether it is rejected.\<close>

definition accepted :: "processor \<Rightarrow> pyval \<Rightarrow> int \<Rightarrow> data_container option" where
  "accepted P r row =
     (case process P r row of
        None \<Rightarrow> None | Some out \<Rightarrow> if row_is_valid out then ro_container out else None)"

lemma process_valid:
  assumes "process P r row = Some out" and "row_is_valid out"
  obtains c where "ro_container out = Some c" "accepted P r row = Some c"
  using process_outcome [OF assms(1)] assms
  by (auto simp: accepted_def accepted_outcome_def rejected_outcome_def row_is_valid_def
      valid_outcome_def)

end
