(* ===== verification/RunCompletion.thy ===== *)
theory RunCompletion
  imports RowRun
begin

text \<open>
  The run of a whole file: the loop invariant holds from the empty buffers to the last drain, so
  every row is counted, stored or quarantined, and a run completes exactly when every accepted
  row can be stored.
\<close>

section \<open>One row\<close>

lemma same_input_counts:
  "same_input a b \<Longrightarrow> rs_total_rows (bx_state a) = rs_total_rows (bx_state b)"
  "same_input a b \<Longrightarrow> rs_rejected_rows (bx_state a) = rs_rejected_rows (bx_state b)"
  by (simp_all add: same_input_def)

lemma bump_counts:
  "bump n s s' \<Longrightarrow> rs_total_rows s' = rs_total_rows s"
  "bump n s s' \<Longrightarrow> rs_rejected_rows s' = rs_rejected_rows s + n"
  by (simp_all add: bump_def)

lemma acc_unquarantined: "acc n0 q0 k x bx \<Longrightarrow> bx_quarantine bx = None \<Longrightarrow> bx_quarantine_buffer bx = []"
  by (auto simp: acc_def quarantine_acc_def split: option.splits)

text \<open>The box of a row after its outcome has been recorded.\<close>

definition counted :: "run_setup \<Rightarrow> processed_outcome \<Rightarrow> run_box \<Rightarrow> run_box" where
  "counted su out bx =
     bx\<lparr>bx_state := record_row_outcome (su_env su) out (snd (record_row (bx_state bx)))\<rparr>"

definition row_number :: "run_setup \<Rightarrow> run_box \<Rightarrow> int" where
  "row_number su bx = su_start_row su + int (rs_total_rows (bx_state bx))"

lemma row_step_eq:
  "row_step su r bx =
     (case process (su_processor su) r (row_number su bx) of
        None \<Rightarrow> Inl (RX_Row, bx\<lparr>bx_state := snd (record_row (bx_state bx))\<rparr>)
      | Some out \<Rightarrow>
          (case accepted (su_processor su) r (row_number su bx) of
             Some c \<Rightarrow> accept_row su r (row_number su bx) c (counted su out bx)
           | None \<Rightarrow> Inr (reject_row su r (row_number su bx) out (counted su out bx))))"
proof -
  have "su_start_row su + int (fst (record_row (bx_state bx))) - 1 = row_number su bx"
    by (simp add: row_number_def)
  then show ?thesis
    by (auto simp: row_step_def Let_def counted_def accepted_def case_prod_unfold
        split: option.splits bool.splits)
qed

lemma process_outcome_bump:
  assumes "process (su_processor su) r row = Some out"
  shows "bump (if row_is_valid out then 0 else 1) (snd (record_row (bx_state bx)))
    (bx_state (counted su out bx))"
proof -
  have "ro_outcome out = QO_VALID \<or> ro_outcome out = QO_REJECT"
    using process_outcome [OF assms] by (auto simp: accepted_outcome_def rejected_outcome_def)
  then show ?thesis by (simp only: counted_def) (simp add: outcome_bump)
qed

lemma accept_row_box:
  assumes "loop_inv n0 q0 C bx" and "bump 0 (snd (record_row (bx_state bx))) s'"
  shows "loop_inv n0 q0 (insert c C)
    (bx\<lparr>bx_state := s', bx_batch := bx_batch bx @ [c], bx_contexts := bx_contexts bx @ [x]\<rparr>)"
proof -
  let ?k = "length (bx_batch bx) + pending_rows (bx_writer bx)"
  let ?bx = "bx\<lparr>bx_state := s', bx_batch := bx_batch bx @ [c], bx_contexts := bx_contexts bx @ [x]\<rparr>"
  have a: "acc n0 q0 ?k 0 bx" using assms(1) by (simp add: loop_inv_def)
  have "acc n0 q0 (?k + 1) 0 (bx\<lparr>bx_state := s', bx_quarantine_buffer := bx_quarantine_buffer bx\<rparr>)"
    by (rule acc_bump [OF a assms(2)]) (use acc_unquarantined [OF a] in auto)
  then have "acc n0 q0 (length (bx_batch ?bx) + pending_rows (bx_writer ?bx)) 0 ?bx"
    by (simp add: acc_def quarantine_acc_def Let_def split: option.splits)
  with assms(1) show ?thesis by (auto simp: loop_inv_def buffered_def)
qed

lemma reject_row_inv:
  assumes "loop_inv n0 q0 C bx" and "bump 1 (snd (record_row (bx_state bx))) s'"
  shows "loop_inv n0 q0 C (reject_row su r row out (bx\<lparr>bx_state := s'\<rparr>))"
proof -
  have "acc n0 q0 (length (bx_batch bx) + pending_rows (bx_writer bx)) 0 bx"
    using assms(1) by (simp add: loop_inv_def)
  from reject_row_acc [OF this assms(2)] assms(1) show ?thesis
    by (simp add: loop_inv_def buffered_def reject_row_keeps)
qed


text \<open>The progress of one row: it keeps the invariant, is counted, and is accepted or rejected.\<close>

lemma row_step_accepted:
  assumes "loop_inv n0 q0 C bx" and p: "process (su_processor su) r (row_number su bx) = Some out"
    and v: "row_is_valid out" and s: "row_step su r bx = Inr bx'"
    and c: "accepted (su_processor su) r (row_number su bx) = Some c"
  shows "loop_inv n0 q0 (insert c C) bx'"
    and "rs_total_rows (bx_state bx') = rs_total_rows (bx_state bx) + 1"
    and "rs_rejected_rows (bx_state bx') = rs_rejected_rows (bx_state bx)"
proof -
  let ?s = "bx_state (counted su out bx)"
  let ?bx = "bx\<lparr>bx_state := ?s, bx_batch := bx_batch bx @ [c],
    bx_contexts := bx_contexts bx @ [[(''rowNumber'', VInt (row_number su bx)), (''rawRow'', r)]]\<rparr>"
  have b: "bump 0 (snd (record_row (bx_state bx))) ?s"
    using process_outcome_bump [OF p] v by simp
  note inv = accept_row_box [OF assms(1) b]
  have counts: "rs_total_rows ?s = rs_total_rows (bx_state bx) + 1"
    "rs_rejected_rows ?s = rs_rejected_rows (bx_state bx)"
    using bump_counts [OF b] by simp_all
  have step: "bx' = ?bx \<or> flush_batch su ?bx = Inr bx'"
    using s p c by (auto simp: row_step_eq accept_row_def counted_def Let_def split: if_splits)
  then show "loop_inv n0 q0 (insert c C) bx'"
    using inv flush_batch_inv [OF inv] by blast
  have "same_input bx' ?bx" using step flush_batch_input by (auto simp: same_input_def)
  from same_input_counts [OF this] counts
  show "rs_total_rows (bx_state bx') = rs_total_rows (bx_state bx) + 1"
    "rs_rejected_rows (bx_state bx') = rs_rejected_rows (bx_state bx)" by simp_all
qed

lemma row_step_rejected:
  assumes "loop_inv n0 q0 C bx" and p: "process (su_processor su) r (row_number su bx) = Some out"
    and v: "\<not> row_is_valid out" and s: "row_step su r bx = Inr bx'"
  shows "loop_inv n0 q0 C bx'"
    and "rs_total_rows (bx_state bx') = rs_total_rows (bx_state bx) + 1"
    and "rs_rejected_rows (bx_state bx') = rs_rejected_rows (bx_state bx) + 1"
proof -
  let ?s = "bx_state (counted su out bx)"
  have b: "bump 1 (snd (record_row (bx_state bx))) ?s"
    using process_outcome_bump [OF p] v by simp
  have "accepted (su_processor su) r (row_number su bx) = None" using p v by (simp add: accepted_def)
  with s p have bx': "bx' = reject_row su r (row_number su bx) out (bx\<lparr>bx_state := ?s\<rparr>)"
    by (simp add: row_step_eq counted_def)
  show "loop_inv n0 q0 C bx'" unfolding bx' by (rule reject_row_inv [OF assms(1) b])
  from same_input_counts [OF reject_row_input [of su r "row_number su bx" out "bx\<lparr>bx_state := ?s\<rparr>"]]
  show "rs_total_rows (bx_state bx') = rs_total_rows (bx_state bx) + 1"
    "rs_rejected_rows (bx_state bx') = rs_rejected_rows (bx_state bx) + 1"
    using bump_counts [OF b] bx' by simp_all
qed

lemma row_step_total:
  assumes "loop_inv n0 q0 C bx" and p: "process (su_processor su) r (row_number su bx) = Some out"
    and "\<And>c. c \<in> C \<Longrightarrow> storable c"
    and "\<And>c. accepted (su_processor su) r (row_number su bx) = Some c \<Longrightarrow> storable c"
  shows "\<exists>bx'. row_step su r bx = Inr bx'"
proof (cases "accepted (su_processor su) r (row_number su bx)")
  case (Some c)
  then have v: "row_is_valid out" using p by (simp add: accepted_def split: if_splits)
  have b: "bump 0 (snd (record_row (bx_state bx))) (bx_state (counted su out bx))"
    using process_outcome_bump [OF p] v by simp
  note inv = accept_row_box [OF assms(1) b]
  have "\<exists>bx'. flush_batch su (bx\<lparr>bx_state := bx_state (counted su out bx),
      bx_batch := bx_batch bx @ [c], bx_contexts := bx_contexts bx @
        [[(''rowNumber'', VInt (row_number su bx)), (''rawRow'', r)]]\<rparr>) = Inr bx'"
    using assms(3,4) Some by (intro flush_batch_total [OF inv]) auto
  with p Some show ?thesis by (auto simp: row_step_eq accept_row_def counted_def Let_def)
qed (simp add: row_step_eq p)

section \<open>The loop\<close>

text \<open>
  The outcomes of the rows, numbered from the \<open>n\<close>th one on, the containers they are accepted with
  and the number of rejected rows.
\<close>

definition row_outcomes :: "run_setup \<Rightarrow> nat \<Rightarrow> pyval list \<Rightarrow> processed_outcome option list" where
  "row_outcomes su n rows =
     map (\<lambda>(i, r). process (su_processor su) r (su_start_row su + int i)) (List.enumerate n rows)"

fun accepted_containers :: "processed_outcome option list \<Rightarrow> data_container list" where
  "accepted_containers [] = []"
| "accepted_containers (None # os) = accepted_containers os"
| "accepted_containers (Some out # os) =
     (case (row_is_valid out, ro_container out) of
        (True, Some c) \<Rightarrow> c # accepted_containers os | _ \<Rightarrow> accepted_containers os)"

fun rejections :: "processed_outcome option list \<Rightarrow> nat" where
  "rejections [] = 0"
| "rejections (None # os) = rejections os"
| "rejections (Some out # os) = (if row_is_valid out then 0 else 1) + rejections os"

lemma row_outcomes_simps [simp]:
  "row_outcomes su n [] = []"
  "row_outcomes su n (r # rows) =
     process (su_processor su) r (su_start_row su + int n) # row_outcomes su (Suc n) rows"
  by (simp_all add: row_outcomes_def)

lemma accepted_containers_Cons:
  "accepted_containers (process P r row # os) =
     (case accepted P r row of Some c \<Rightarrow> [c] | None \<Rightarrow> []) @ accepted_containers os"
  by (auto simp: accepted_def split: option.splits bool.splits)

lemma row_loop_inv:
  assumes "row_loop su rows bx = Inr bx'" and "loop_inv n0 q0 C bx"
    and "rs_total_rows (bx_state bx) = n"
  shows "loop_inv n0 q0 (C \<union> set (accepted_containers (row_outcomes su n rows))) bx' \<and>
    rs_total_rows (bx_state bx') = n + length rows \<and>
    rs_rejected_rows (bx_state bx') = rs_rejected_rows (bx_state bx) + rejections (row_outcomes su n rows)"
  using assms
proof (induction rows arbitrary: n C bx)
  case (Cons r rows)
  obtain b1 where s: "row_step su r bx = Inr b1" "row_loop su rows b1 = Inr bx'"
    using Cons.prems(1) by (auto split: sum.splits)
  have row: "row_number su bx = su_start_row su + int n" using Cons.prems(3) by (simp add: row_number_def)
  obtain out where p: "process (su_processor su) r (row_number su bx) = Some out"
    using s(1) by (auto simp: row_step_eq split: option.splits)
  show ?case
  proof (cases "row_is_valid out")
    case True
    obtain c where c: "ro_container out = Some c" "accepted (su_processor su) r (row_number su bx) = Some c"
      by (rule process_valid [OF p True])
    note a = row_step_accepted [OF Cons.prems(2) p True s(1) c(2)]
    have "rs_total_rows (bx_state b1) = Suc n" using a(2) Cons.prems(3) by simp
    from Cons.IH [OF s(2) a(1) this] a(3) p c(1) True show ?thesis by (simp add: row)
  next
    case False
    note a = row_step_rejected [OF Cons.prems(2) p False s(1)]
    have "rs_total_rows (bx_state b1) = Suc n" using a(2) Cons.prems(3) by simp
    from Cons.IH [OF s(2) a(1) this] a(3) p False show ?thesis by (simp add: row)
  qed
qed simp


lemma row_loop_total:
  assumes "loop_inv n0 q0 C bx" and "rs_total_rows (bx_state bx) = n"
    and "None \<notin> set (row_outcomes su n rows)"
    and "\<And>c. c \<in> C \<union> set (accepted_containers (row_outcomes su n rows)) \<Longrightarrow> storable c"
  shows "\<exists>bx'. row_loop su rows bx = Inr bx'"
  using assms
proof (induction rows arbitrary: n C bx)
  case (Cons r rows)
  have row: "row_number su bx = su_start_row su + int n" using Cons.prems(2) by (simp add: row_number_def)
  obtain out where p: "process (su_processor su) r (row_number su bx) = Some out"
    using Cons.prems(3) by (cases "process (su_processor su) r (row_number su bx)") (simp_all add: row)
  have st: "storable c" if "accepted (su_processor su) r (row_number su bx) = Some c" for c
    using Cons.prems(4) [of c] that by (simp add: row accepted_containers_Cons)
  obtain b1 where s: "row_step su r bx = Inr b1"
    using row_step_total [OF Cons.prems(1) p _ st] Cons.prems(4) by auto
  have next_none: "None \<notin> set (row_outcomes su (Suc n) rows)" using Cons.prems(3) by simp
  show ?case
  proof (cases "row_is_valid out")
    case True
    obtain c where c: "ro_container out = Some c" "accepted (su_processor su) r (row_number su bx) = Some c"
      by (rule process_valid [OF p True])
    note a = row_step_accepted [OF Cons.prems(1) p True s c(2)]
    have "rs_total_rows (bx_state b1) = Suc n" using a(2) Cons.prems(2) by simp
    from Cons.IH [OF a(1) this next_none] Cons.prems(4) st c True p s show ?thesis
      by (auto simp: row)
  next
    case False
    note a = row_step_rejected [OF Cons.prems(1) p False s]
    have "rs_total_rows (bx_state b1) = Suc n" using a(2) Cons.prems(2) by simp
    from Cons.IH [OF a(1) this next_none] Cons.prems(4) False p s show ?thesis by (auto simp: row)
  qed
qed simp

section \<open>The end of the run\<close>

lemma finish_loop_cases:
  assumes "finish_loop su bx = Inr bx'"
  obtains b1 b2 where "bx_batch bx = [] \<and> b1 = bx \<or> flush_batch su bx = Inr b1"
    "after_writes su b1 (drain (su_hashing su) (su_rank su) (bx_writer b1) (bx_table b1)) = Inr b2"
    "bx' = (if bx_quarantine_buffer b2 = [] then b2 else flush_quarantine su (bx_quarantine_buffer b2) b2)"
proof -
  obtain b1 where b1: "(if bx_batch bx = [] then Inr bx else flush_batch su bx) = Inr b1"
    using assms by (auto simp: finish_loop_def split: sum.splits)
  with assms obtain b2 where
    "after_writes su b1 (drain (su_hashing su) (su_rank su) (bx_writer b1) (bx_table b1)) = Inr b2"
    "bx' = (if bx_quarantine_buffer b2 = [] then b2 else flush_quarantine su (bx_quarantine_buffer b2) b2)"
    by (auto simp: finish_loop_def split: sum.splits)
  moreover have "bx_batch bx = [] \<and> b1 = bx \<or> flush_batch su bx = Inr b1"
    using b1 by (simp split: if_splits)
  ultimately show thesis by (intro that)
qed

text \<open>What a finished run has done with its rows.\<close>

definition settled :: "nat \<Rightarrow> nat option \<Rightarrow> run_box \<Rightarrow> bool" where
  "settled n0 q0 bx \<longleftrightarrow>
     (let s = bx_state bx
      in rs_total_rows s = rs_success_rows s + rs_duplicate_rows s + rs_rejected_rows s \<and>
         rs_failed_rows s = rs_rejected_rows s \<and> rs_persistence_failed_rows s = 0 \<and>
         rs_equivalent_duplicate_rows s + rs_conflicting_duplicate_rows s = rs_duplicate_rows s \<and>
         length (bx_table bx) = n0 + rs_success_rows s \<and>
         (case (q0, bx_quarantine bx) of
            (None, None) \<Rightarrow> rs_quarantined_rows s = 0
          | (Some m, Some q) \<Rightarrow>
              length q = m + rs_quarantined_rows s \<and>
              rs_quarantined_rows s = rs_rejected_rows s + rs_conflicting_duplicate_rows s
          | _ \<Rightarrow> False))"

lemma acc_settled:
  assumes "acc n0 q0 0 0 bx" and "bx' = (if bx_quarantine_buffer bx = [] then bx
    else flush_quarantine su (bx_quarantine_buffer bx) bx)"
  shows "settled n0 q0 bx'"
proof (cases "bx_quarantine_buffer bx = []")
  case True
  with assms show ?thesis
    by (auto simp: acc_def settled_def quarantine_acc_def Let_def split: option.splits)
next
  case False
  then have q: "bx_quarantine bx \<noteq> None" using acc_unquarantined [OF assms(1)] by auto
  from flush_buffer_acc [OF assms(1) this, of su] False assms(2) show ?thesis
    by (auto simp: acc_def settled_def quarantine_acc_def Let_def split: option.splits)
qed

lemma finish_loop_settled:
  assumes "loop_inv n0 q0 C bx" and "finish_loop su bx = Inr bx'"
  shows "settled n0 q0 bx' \<and> same_input bx' bx \<and> (\<forall>c \<in> C. storable c)"
proof -
  obtain b1 b2 where f: "bx_batch bx = [] \<and> b1 = bx \<or> flush_batch su bx = Inr b1"
    "after_writes su b1 (drain (su_hashing su) (su_rank su) (bx_writer b1) (bx_table b1)) = Inr b2"
    "bx' = (if bx_quarantine_buffer b2 = [] then b2 else flush_quarantine su (bx_quarantine_buffer b2) b2)"
    by (rule finish_loop_cases [OF assms(2)])
  have b1: "loop_inv n0 q0 C b1" "bx_batch b1 = []" "same_input b1 bx"
    using f(1) assms(1) flush_batch_inv [OF assms(1)] flush_batch_input
    by (auto simp: same_input_def)
  obtain res w' t' where d: "drain (su_hashing su) (su_rank su) (bx_writer b1) (bx_table b1) = (res, w', t')"
    by (metis prod.exhaust)
  obtain bs where r: "res = Inr bs" using f(2) d by (cases res) (auto simp: after_writes_def Let_def)
  note d = d [unfolded r]
  obtain ms where ms: "list_all2 (\<lambda>b m. good_result m b) bs ms" "sum_list ms = pending_rows (bx_writer b1)"
    using drain_sizes [OF d] by blast
  have "acc n0 q0 (0 + sum_list ms) 0 b1" using b1(1,2) ms(2) by (simp add: loop_inv_def)
  with after_writes_acc [OF f(2) [unfolded d] ms(1) _ drain_good(2) [OF d]]
  have "acc n0 q0 0 0 b2" by blast
  from acc_settled [OF this f(3)] have "settled n0 q0 bx'" .
  moreover have "same_input bx' bx"
    using after_writes_input [OF f(2)] flush_quarantine_input [of su "bx_quarantine_buffer b2" b2] b1(3) f(3)
    by (auto simp: same_input_def split: if_splits)
  moreover have "\<forall>c \<in> C. storable c"
    using b1(1,2) drain_storable [OF d] by (auto simp: loop_inv_def buffered_def)
  ultimately show ?thesis by blast
qed

lemma finish_loop_total:
  assumes "loop_inv n0 q0 C bx" and "\<And>c. c \<in> C \<Longrightarrow> storable c"
  shows "\<exists>bx'. finish_loop su bx = Inr bx'"
proof -
  obtain b1 where b1: "(if bx_batch bx = [] then Inr bx else flush_batch su bx) = Inr b1"
    "loop_inv n0 q0 C b1"
  proof (cases "bx_batch bx = []")
    case False
    moreover obtain b1 where "flush_batch su bx = Inr b1"
      using flush_batch_total [OF assms] by blast
    ultimately show thesis using that flush_batch_inv [OF assms(1)] by simp
  qed (use assms(1) that in simp)
  have "\<exists>bs w' t'. drain (su_hashing su) (su_rank su) (bx_writer b1) (bx_table b1) = (Inr bs, w', t')"
    using b1(2) assms(2) by (intro drain_total) (auto simp: loop_inv_def buffered_def)
  with b1(1) show ?thesis by (auto simp: finish_loop_def after_writes_def Let_def)
qed

section \<open>The run\<close>

lemma new_writer_Some: "new_writer k = Some w \<Longrightarrow> w = \<lparr>bw_workers = k, bw_pending = [], bw_drains = 0\<rparr>"
  by (simp add: new_writer_def split: if_splits)

text \<open>A run state that has not counted any row yet, as a new one.\<close>

definition no_rows :: "run_state \<Rightarrow> bool" where
  "no_rows s \<longleftrightarrow>
     rs_total_rows s = 0 \<and> rs_success_rows s = 0 \<and> rs_failed_rows s = 0 \<and>
     rs_duplicate_rows s = 0 \<and> rs_rejected_rows s = 0 \<and> rs_persistence_failed_rows s = 0 \<and>
     rs_quarantined_rows s = 0 \<and> rs_equivalent_duplicate_rows s = 0 \<and>
     rs_conflicting_duplicate_rows s = 0"

lemma no_rows_new [simp]: "no_rows (new_run E now errors)"
  by (simp add: no_rows_def new_run_def)

lemma start_loop_inv:
  assumes "new_writer k = Some w" and "no_rows s"
  shows "loop_inv (length t) (map_option length q) {}
    (emit_stage ''PROCESSING'' (start_box s w t q))"
  unfolding loop_inv_emit new_writer_Some [OF assms(1)]
  using assms(2)
  by (auto simp: loop_inv_def acc_def quarantine_acc_def start_box_def no_rows_def pending_rows_def
      buffered_def in_pending_def Let_def split: option.splits)

lemma run_rows_settled:
  assumes "new_writer k = Some w" and "no_rows s"
    and r: "run_rows su rows (start_box s w t q) = Inr bx"
  shows "settled (length t) (map_option length q) bx \<and>
    rs_total_rows (bx_state bx) = length rows \<and>
    rs_rejected_rows (bx_state bx) = rejections (row_outcomes su 0 rows) \<and>
    list_all storable (accepted_containers (row_outcomes su 0 rows))"
proof -
  let ?bx = "emit_stage ''PROCESSING'' (start_box s w t q)"
  obtain b1 where b1: "row_loop su rows ?bx = Inr b1" "finish_loop su b1 = Inr bx"
    using r by (auto simp: run_rows_def split: sum.splits)
  have z: "rs_total_rows (bx_state ?bx) = 0" "rs_rejected_rows (bx_state ?bx) = 0"
    using assms(2) by (simp_all add: emit_stage_def start_box_def no_rows_def)
  note l = row_loop_inv [OF b1(1) start_loop_inv [OF assms(1,2)] z(1)]
  then have "loop_inv (length t) (map_option length q)
      (set (accepted_containers (row_outcomes su 0 rows))) b1" by simp
  from finish_loop_settled [OF this b1(2)] l z(2) show ?thesis
    by (auto simp: same_input_def list_all_iff)
qed

lemma run_rows_total:
  assumes "new_writer k = Some w" and "no_rows s" and "None \<notin> set (row_outcomes su 0 rows)"
    and "list_all storable (accepted_containers (row_outcomes su 0 rows))"
  shows "\<exists>bx. run_rows su rows (start_box s w t q) = Inr bx"
proof -
  let ?bx = "emit_stage ''PROCESSING'' (start_box s w t q)"
  note inv = start_loop_inv [OF assms(1,2), of t q]
  have z: "rs_total_rows (bx_state ?bx) = 0"
    using assms(2) by (simp add: emit_stage_def start_box_def no_rows_def)
  obtain b1 where b1: "row_loop su rows ?bx = Inr b1"
    using row_loop_total [OF inv z assms(3)] assms(4) by (auto simp: list_all_iff)
  have "loop_inv (length t) (map_option length q)
      (set (accepted_containers (row_outcomes su 0 rows))) b1"
    using row_loop_inv [OF b1 inv z] by simp
  from finish_loop_total [OF this, of su] assms(4) b1 show ?thesis
    by (auto simp: run_rows_def list_all_iff)
qed

end
