(* ===== verification/RunGuarantees.thy ===== *)
theory RunGuarantees
  imports RunCompletion
begin

text \<open>
  The properties of the run of one file, on concrete files of one and two rows.
\<close>

section \<open>A run\<close>

definition demo_context :: file_context where
  "demo_context =
     \<lparr>fx_file_id = ''file'', fx_partner = ''PARTNER_A'', fx_reconciliation_date = 0,
      fx_fetch_unit_key = None, fx_config_version = None, fx_review_packet_id = None,
      fx_post_approval_run_id = None\<rparr>"

definition demo_setup :: "field_mapping list \<Rightarrow> run_setup" where
  "demo_setup fms =
     \<lparr>su_env = demo_run_env, su_hashing = demo_hashing, su_rank = \<lambda>d i. 10 - i,
      su_processor = demo_processor True fms, su_start_row = 2, su_batch_size = 1,
      su_context = demo_context, su_fresh = \<lambda>n. (''q'', 0), su_now = 0, su_sla_hours = 24,
      su_retention_days = 30\<rparr>"

definition demo_writer :: batch_writer where
  "demo_writer = \<lparr>bw_workers = 3, bw_pending = [], bw_drains = 0\<rparr>"

definition demo_rows :: "pyval list" where
  "demo_rows =
     [demo_cells, VList [VStr ''T2'', VStr ''abc'', VStr ''00'', VStr ''2024-03-01'', VStr ''1.5''],
      demo_cells]"

definition fee_mappings :: "field_mapping list" where
  "fee_mappings = demo_mappings @ [demo_mapping ''extra.fee'' 5 FM_DECIMAL]"

lemma demo_new_writer: "new_writer 3 = Some demo_writer"
  by (simp add: new_writer_def demo_writer_def)

lemma demo_outcomes:
  "None \<notin> set (row_outcomes (demo_setup demo_mappings) 0 demo_rows)"
  "list_all storable (accepted_containers (row_outcomes (demo_setup demo_mappings) 0 demo_rows))"
  "rejections (row_outcomes (demo_setup demo_mappings) 0 demo_rows) = 1"
  by code_simp+

lemma fee_outcomes:
  "None \<notin> set (row_outcomes (demo_setup fee_mappings) 0 [demo_cells])"
  "\<not> list_all storable (accepted_containers (row_outcomes (demo_setup fee_mappings) 0 [demo_cells]))"
  by code_simp+

section \<open>Properties\<close>

text \<open>C1: A run that completes has accounted for every row of the file, whatever the number of
  workers and whatever order their concurrent writes commit in: the number of rows counted is the
  number of rows read; each is inserted, a duplicate or rejected, and the rejected ones are exactly
  those the row processor rejects; the table has grown by the rows inserted; every duplicate is
  equivalent or conflicting; nothing failed in persistence; and when the pipeline has a quarantine,
  that has grown by one record for every rejected row and every conflicting duplicate.\<close>

theorem run_accounts_for_every_row:
  assumes "new_writer k = Some w"
    and "run_rows su rows (start_box (new_run E now errors) w t q) = Inr bx"
  shows "let s = bx_state bx
    in rs_total_rows s = length rows \<and>
       rs_total_rows s = rs_success_rows s + rs_duplicate_rows s + rs_rejected_rows s \<and>
       rs_rejected_rows s = rejections (row_outcomes su 0 rows) \<and>
       rs_failed_rows s = rs_rejected_rows s \<and> rs_persistence_failed_rows s = 0 \<and>
       length (bx_table bx) = length t + rs_success_rows s \<and>
       rs_equivalent_duplicate_rows s + rs_conflicting_duplicate_rows s = rs_duplicate_rows s \<and>
       (case (q, bx_quarantine bx) of
          (None, None) \<Rightarrow> rs_quarantined_rows s = 0
        | (Some q0, Some q1) \<Rightarrow>
            rs_quarantined_rows s = rs_rejected_rows s + rs_conflicting_duplicate_rows s \<and>
            length q1 = length q0 + rs_quarantined_rows s
        | _ \<Rightarrow> False)"
  using run_rows_settled [OF assms(1) no_rows_new assms(2)] by (auto simp: settled_def Let_def split: option.splits)

theorem run_accounts_for_every_row_witness:
  "\<exists>bx q'. run_rows (demo_setup demo_mappings) demo_rows
       (start_box (new_run demo_run_env 0 []) demo_writer [] (Some [])) = Inr bx \<and>
     rs_total_rows (bx_state bx) = 3 \<and> rs_rejected_rows (bx_state bx) = 1 \<and>
     rs_success_rows (bx_state bx) + rs_duplicate_rows (bx_state bx) = 2 \<and>
     bx_quarantine bx = Some q' \<and> 1 \<le> length q'"
proof -
  obtain bx where bx: "run_rows (demo_setup demo_mappings) demo_rows
      (start_box (new_run demo_run_env 0 []) demo_writer [] (Some [])) = Inr bx"
    using run_rows_total [OF demo_new_writer no_rows_new demo_outcomes(1,2)] by blast
  from run_accounts_for_every_row [OF demo_new_writer bx] demo_outcomes(3) bx show ?thesis
    by (auto simp: Let_def demo_rows_def split: option.splits)
qed

text \<open>A run comes to its end exactly when everything it accepts can be stored: when no row raises,
  the run completes if and only if every accepted row has a text time basis and extra fields that
  are JSON. An extra field mapped as a decimal or a date is accepted by the row processor and
  cannot be stored, and then the whole file fails, whatever batch it is in.\<close>

theorem run_completes_iff_storable:
  assumes "new_writer k = Some w" and "None \<notin> set (row_outcomes su 0 rows)"
  shows "(\<exists>bx. run_rows su rows (start_box (new_run E now errors) w t q) = Inr bx)
    = list_all storable (accepted_containers (row_outcomes su 0 rows))"
  using run_rows_settled [OF assms(1) no_rows_new]
    run_rows_total [OF assms(1) no_rows_new assms(2)] by blast

theorem run_completes_iff_storable_witness:
  "(\<exists>bx. run_rows (demo_setup demo_mappings) demo_rows
      (start_box (new_run demo_run_env 0 []) demo_writer [] None) = Inr bx) \<and>
   \<not> (\<exists>bx. run_rows (demo_setup fee_mappings) [demo_cells]
      (start_box (new_run demo_run_env 0 []) demo_writer [] None) = Inr bx)"
  using run_completes_iff_storable [OF demo_new_writer demo_outcomes(1), of demo_run_env 0 "[]" "[]" None]
    run_completes_iff_storable [OF demo_new_writer fee_outcomes(1), of demo_run_env 0 "[]" "[]" None]
    demo_outcomes(2) fee_outcomes(2) by simp

end
