(* ===== verification/TimestampProps.thy ===== *)
theory TimestampProps
  imports Timestamps
begin

text \<open>
  Every documented format of a partner timestamp, written out from a civil time, is read back as
  that time, and different civil times are different instants.
\<close>

section \<open>Writing the formats\<close>

definition digit_char :: "int \<Rightarrow> char" where
  "digit_char d = char_of (48 + nat d)"

fun digits :: "nat \<Rightarrow> int \<Rightarrow> string" where
  "digits 0 n = []"
| "digits (Suc k) n = digits k (n div 10) @ [digit_char (n mod 10)]"

definition ymd_text :: "civil \<Rightarrow> string" where
  "ymd_text c = digits 4 (cv_year c) @ ''-'' @ digits 2 (cv_month c) @ ''-'' @ digits 2 (cv_day c)"

definition dmy_text :: "civil \<Rightarrow> string" where
  "dmy_text c = digits 2 (cv_day c) @ ''/'' @ digits 2 (cv_month c) @ ''/'' @ digits 4 (cv_year c)"

definition hms_text :: "civil \<Rightarrow> string" where
  "hms_text c = digits 2 (cv_hour c) @ '':'' @ digits 2 (cv_minute c) @ '':'' @ digits 2 (cv_second c)"

definition offset_text :: "bool \<Rightarrow> int \<Rightarrow> int \<Rightarrow> string" where
  "offset_text west h m = (if west then ''-'' else ''+'') @ digits 2 h @ '':'' @ digits 2 m"

definition offset_minutes :: "bool \<Rightarrow> int \<Rightarrow> int \<Rightarrow> int" where
  "offset_minutes west h m = (if west then - (h * 60 + m) else h * 60 + m)"

section \<open>Scanning what was written\<close>

lemma of_char_digit: "0 \<le> d \<Longrightarrow> d \<le> 9 \<Longrightarrow> (of_char (digit_char d) :: nat) = 48 + nat d"
  by (simp add: digit_char_def)

lemma digit_value_char [simp]: "0 \<le> d \<Longrightarrow> d \<le> 9 \<Longrightarrow> digit_value (digit_char d) = Some (nat d)"
  by (simp add: digit_value_def of_char_digit Let_def)

lemma scan_digits_append:
  "scan_digits j acc s = Some (a, s') \<Longrightarrow> scan_digits (j + k) acc s = scan_digits k a s'"
  by (induction j acc s rule: scan_digits.induct) (auto split: option.splits)

lemma scan_digits_written:
  assumes "0 \<le> n" and "n < 10 ^ k"
  shows "scan_digits k acc (digits k n @ s) = Some (acc * 10 ^ k + n, s)"
  using assms
proof (induction k arbitrary: n s)
  case (Suc k)
  have "n div 10 < 10 ^ k" using Suc.prems by (simp add: div_less_iff_less_mult mult.commute)
  with Suc.prems Suc.IH [of "n div 10" "digit_char (n mod 10) # s"]
  have "scan_digits k acc (digits k (n div 10) @ digit_char (n mod 10) # s)
      = Some (acc * 10 ^ k + n div 10, digit_char (n mod 10) # s)" by simp
  from scan_digits_append [OF this, of 1] Suc.prems show ?case
    by (simp add: algebra_simps)
qed simp

lemma scan_two [simp]: "0 \<le> n \<Longrightarrow> n < 100 \<Longrightarrow> scan_digits 2 0 (digits 2 n @ s) = Some (n, s)"
  using scan_digits_written [of n 2 0 s] by simp

lemma scan_four [simp]: "0 \<le> n \<Longrightarrow> n < 10000 \<Longrightarrow> scan_digits 4 0 (digits 4 n @ s) = Some (n, s)"
  using scan_digits_written [of n 4 0 s] by simp

lemma scan_six [simp]: "0 \<le> n \<Longrightarrow> n < 1000000 \<Longrightarrow> scan_digits 6 0 (digits 6 n @ s) = Some (n, s)"
  using scan_digits_written [of n 6 0 s] by simp


text \<open>The fraction.\<close>

lemma scan_run_append:
  "scan_run j s = (ds, s') \<Longrightarrow> length ds = j \<Longrightarrow>
     scan_run (j + k) s = (ds @ fst (scan_run k s'), snd (scan_run k s'))"
  by (induction j s arbitrary: ds rule: scan_run.induct)
    (auto split: option.splits prod.splits simp: Let_def)

lemma scan_run_written:
  assumes "0 \<le> n" and "n < 10 ^ k"
  shows "\<exists>ds. scan_run k (digits k n @ s) = (ds, s) \<and> length ds = k \<and> digits_number ds = n"
  using assms
proof (induction k arbitrary: n s)
  case 0
  then show ?case by (cases s) (simp_all add: digits_number_def)
next
  case (Suc k)
  have "n div 10 < 10 ^ k" using Suc.prems by (simp add: div_less_iff_less_mult mult.commute)
  moreover have "0 \<le> n div 10" using Suc.prems(1) by simp
  ultimately obtain ds where
    ds: "scan_run k (digits k (n div 10) @ digit_char (n mod 10) # s) = (ds, digit_char (n mod 10) # s)"
      "length ds = k" "digits_number ds = n div 10"
    using Suc.IH [of "n div 10" "digit_char (n mod 10) # s"] by blast
  have one: "scan_run 1 (digit_char (n mod 10) # s) = ([nat (n mod 10)], s)"
    by (cases s) simp_all
  from scan_run_append [OF ds(1,2), of 1] ds one show ?case
    by (intro exI [of _ "ds @ [nat (n mod 10)]"]) (simp add: digits_number_def)
qed

definition fraction_text :: "civil \<Rightarrow> string" where
  "fraction_text c = (if cv_micro c = 0 then [] else ''.'' @ digits 6 (cv_micro c))"

lemma scan_fraction_written:
  assumes "0 \<le> cv_micro c" and "cv_micro c \<le> 999999" and "s \<noteq> []" and "hd s \<noteq> CHR ''.''"
  shows "scan_fraction (fraction_text c @ s) = Some (cv_micro c, s)"
proof (cases "cv_micro c = 0")
  case False
  from scan_run_written [of "cv_micro c" 6 s] assms obtain ds where
    "scan_run 6 (digits 6 (cv_micro c) @ s) = (ds, s)" "length ds = 6" "digits_number ds = cv_micro c"
    by auto
  with False show ?thesis by (auto simp: scan_fraction_def fraction_text_def)
qed (use assms in \<open>cases s; simp add: scan_fraction_def fraction_text_def\<close>)

section \<open>Parsing what was written\<close>

lemma valid_civilD:
  assumes "valid_civil c"
  shows "0 \<le> cv_year c" "cv_year c < 10000" "0 \<le> cv_month c" "cv_month c < 100" "0 \<le> cv_day c"
    "cv_day c < 100" "0 \<le> cv_hour c" "cv_hour c < 100" "0 \<le> cv_minute c" "cv_minute c < 100"
    "0 \<le> cv_second c" "cv_second c < 100" "0 \<le> cv_micro c" "cv_micro c \<le> 999999"
  using assms by (auto simp: valid_civil_def days_in_month_def split: if_splits)

lemma scan_ymd_written: "valid_civil c \<Longrightarrow> scan_ymd (ymd_text c @ s) = Some ((cv_year c, cv_month c, cv_day c), s)"
  by (simp add: scan_ymd_def ymd_text_def valid_civilD)

lemma scan_dmy_written: "valid_civil c \<Longrightarrow> scan_dmy (dmy_text c @ s) = Some ((cv_year c, cv_month c, cv_day c), s)"
  by (simp add: scan_dmy_def dmy_text_def valid_civilD)

lemma scan_hms_written: "valid_civil c \<Longrightarrow> scan_hms (hms_text c @ s) = Some ((cv_hour c, cv_minute c, cv_second c), s)"
  by (simp add: scan_hms_def hms_text_def valid_civilD)

lemma scan_offset_written:
  assumes "0 \<le> h" "h \<le> 23" "0 \<le> m" "m \<le> 59"
  shows "scan_offset (offset_text west h m) = Some (offset_minutes west h m)"
  using assms scan_two [of m "[]"] by (simp add: scan_offset_def offset_text_def offset_minutes_def)

lemma civil_same:
  "civil_of (cv_year c, cv_month c, cv_day c) (cv_hour c, cv_minute c, cv_second c) (cv_micro c) = c"
  by (simp add: civil_of_def)


text \<open>The short forms do not start like each other.\<close>

lemma scan_digits_stop: "length ds < k \<Longrightarrow> digit_value x = None \<Longrightarrow> scan_digits k a (ds @ x # s) = None"
proof (induction ds arbitrary: k a)
  case Nil
  then show ?case by (cases k) simp_all
next
  case (Cons d ds)
  then show ?case by (cases k) (simp_all split: option.splits)
qed

lemma scan_digits_rest: "scan_digits k a s = Some (n, s') \<Longrightarrow> s' = drop k s"
  by (induction k a s rule: scan_digits.induct) (auto split: option.splits)

lemma length_digits [simp]: "length (digits k n) = k"
  by (induction k arbitrary: n) simp_all

lemma digit_char_slash: "0 \<le> d \<Longrightarrow> d \<le> 9 \<Longrightarrow> digit_char d \<noteq> CHR ''/''"
  using digit_value_char [of d] by (auto simp: digit_value_def)

lemma scan_ymd_dmy: "scan_ymd (dmy_text c @ s) = None"
  using scan_digits_stop [of "digits 2 (cv_day c)" 4 "CHR ''/''" 0]
  by (simp add: scan_ymd_def dmy_text_def digit_value_def)

lemma scan_dmy_ymd: "scan_dmy (ymd_text c @ s) = None"
proof -
  let ?y = "cv_year c"
  have "drop 2 (ymd_text c @ s) = digit_char (?y div 10 mod 10) # digit_char (?y mod 10) # drop 4 (ymd_text c @ s)"
    by (simp add: ymd_text_def eval_nat_numeral)
  moreover have "digit_char (?y div 10 mod 10) \<noteq> CHR ''/''" by (simp add: digit_char_slash)
  ultimately have "scan_char (CHR ''/'') (drop 2 (ymd_text c @ s)) = None"
    by (simp only: scan_char.simps if_False)
  with scan_digits_rest [of 2 0 "ymd_text c @ s"] show ?thesis
    by (cases "scan_digits 2 0 (ymd_text c @ s)") (auto simp: scan_dmy_def simp del: drop_append)
qed

lemma no_offset_form: "scan_char (CHR ''T'') s = None \<Longrightarrow> valid_civil c \<Longrightarrow> parse_offset_form (ymd_text c @ s) = None"
  by (simp add: parse_offset_form_def scan_ymd_written)

lemma no_offset_form_dmy: "parse_offset_form (dmy_text c @ s) = None"
  by (simp add: parse_offset_form_def scan_ymd_dmy)


lemma text_offset_form:
  "parse_offset_form s = Some t \<Longrightarrow> parse_text s = Some t"
  by (simp add: parse_text_def)

lemma parse_iso:
  assumes "valid_civil c" and "0 \<le> h" "h \<le> 23" "0 \<le> m" "m \<le> 59"
  shows "parse_offset_form (ymd_text c @ ''T'' @ hms_text c @ fraction_text c @ offset_text west h m)
      = normalize_aware (micros_of c - offset_minutes west h m * 60000000)"
    and "parse_offset_form (ymd_text c @ ''T'' @ hms_text c @ fraction_text c @ ''Z'')
      = normalize_aware (micros_of c)"
proof -
  have "offset_text west h m \<noteq> []" "hd (offset_text west h m) \<noteq> CHR ''.''"
    by (simp_all add: offset_text_def)
  note f = scan_fraction_written [OF valid_civilD(13,14) [OF assms(1)] this]
  show "parse_offset_form (ymd_text c @ ''T'' @ hms_text c @ fraction_text c @ offset_text west h m)
      = normalize_aware (micros_of c - offset_minutes west h m * 60000000)"
    using assms f by (simp add: parse_offset_form_def scan_ymd_written scan_hms_written
        scan_offset_written civil_same checked_def)
  have "scan_fraction (fraction_text c @ ''Z'') = Some (cv_micro c, ''Z'')"
    using assms(1) by (intro scan_fraction_written) (simp_all add: valid_civilD)
  with assms show "parse_offset_form (ymd_text c @ ''T'' @ hms_text c @ fraction_text c @ ''Z'')
      = normalize_aware (micros_of c)"
    by (simp add: parse_offset_form_def scan_ymd_written scan_hms_written scan_offset_def
        civil_same checked_def)
qed

definition midnight :: "civil \<Rightarrow> civil" where
  "midnight c = c\<lparr>cv_hour := 0, cv_minute := 0, cv_second := 0, cv_micro := 0\<rparr>"

definition whole_seconds :: "civil \<Rightarrow> civil" where
  "whole_seconds c = c\<lparr>cv_micro := 0\<rparr>"

lemma civil_parts:
  "civil_of (cv_year c, cv_month c, cv_day c) (0, 0, 0) 0 = midnight c"
  "civil_of (cv_year c, cv_month c, cv_day c) (cv_hour c, cv_minute c, cv_second c) 0 = whole_seconds c"
  "valid_civil c \<Longrightarrow> valid_civil (midnight c)" "valid_civil c \<Longrightarrow> valid_civil (whole_seconds c)"
  by (simp_all add: civil_of_def midnight_def whole_seconds_def valid_civil_def)

lemma parse_legacy:
  assumes v: "valid_civil c"
  shows "parse_text (ymd_text c) = Some (DT_Naive (micros_of (midnight c)))"
    and "parse_text (dmy_text c) = Some (DT_Naive (micros_of (midnight c)))"
    and "parse_text (ymd_text c @ '' '' @ hms_text c) = Some (DT_Naive (micros_of (whole_seconds c)))"
    and "parse_text (dmy_text c @ '' '' @ hms_text c) = Some (DT_Naive (micros_of (whole_seconds c)))"
  using v scan_ymd_written [OF v] scan_dmy_written [OF v] scan_hms_written [OF v, of "[]"]
    scan_ymd_written [OF v, of "[]"] scan_dmy_written [OF v, of "[]"]
    no_offset_form [OF _ v, of "[]"] no_offset_form [OF _ v, of "'' '' @ hms_text c"]
    no_offset_form_dmy [of c "[]"] no_offset_form_dmy [of c "'' '' @ hms_text c"]
    scan_ymd_dmy [of c "[]"] scan_dmy_ymd [of c "[]"] scan_ymd_dmy [of c] scan_dmy_ymd [of c]
  by (simp_all add: parse_text_def parse_date_form_def parse_date_time_form_def checked_def civil_parts)


section \<open>Different civil times are different instants\<close>

definition year_length :: "int \<Rightarrow> int" where
  "year_length y = (if leap_year y then 366 else 365)"

lemma div_step: "0 < (k::int) \<Longrightarrow> (z + 1) div k = z div k + (if (z + 1) mod k = 0 then 1 else 0)"
proof -
  assume k: "0 < k"
  have "z + 1 = k * (z div k) + (z mod k + 1)" by simp
  then have "(z + 1) div k = z div k + (z mod k + 1) div k" "(z + 1) mod k = (z mod k + 1) mod k"
    using k by (metis add.commute div_mult_self4 less_irrefl mult.commute, metis mod_add_left_eq)
  moreover have "z mod k + 1 \<noteq> 0" using pos_mod_sign [OF k, of z] by linarith
  moreover have "0 \<le> z mod k" "z mod k < k" using k by simp_all
  ultimately show ?thesis
  proof (cases "z mod k + 1 = k")
    case False
    with \<open>z mod k < k\<close> \<open>0 \<le> z mod k\<close> have "(z mod k + 1) mod k = z mod k + 1" "(z mod k + 1) div k = 0"
      by (auto intro: mod_pos_pos_trivial div_pos_pos_trivial)
    with \<open>z mod k + 1 \<noteq> 0\<close> \<open>(z + 1) div k = z div k + (z mod k + 1) div k\<close>
      \<open>(z + 1) mod k = (z mod k + 1) mod k\<close> show ?thesis by (simp only: if_False add_0_right)
  qed (simp_all add: k)
qed

lemma leap_count:
  fixes y :: int
  assumes "p100 \<longrightarrow> p4" and "p400 \<longrightarrow> p100"
  shows "365 * y + (a + (if p4 then 1 else 0)) - (b + (if p100 then 1 else 0)) + (c + (if p400 then 1 else 0))
    = 365 * (y - 1) + a - b + c + (if p4 \<and> (\<not> p100 \<or> p400) then 366 else 365)"
  using assms by (cases p4; cases p100; cases p400) simp_all

lemma days_before_step: "days_before y = days_before (y - 1) + year_length y"
proof -
  have d: "y mod 100 = 0 \<longrightarrow> y mod 4 = 0" "y mod 400 = 0 \<longrightarrow> y mod 100 = 0" by presburger+
  have s: "y div k = (y - 1) div k + (if y mod k = 0 then 1 else 0)" if "0 < k" for k
    using div_step [OF that, of "y - 1"] by simp
  have "y div 4 = (y - 1) div 4 + (if y mod 4 = 0 then 1 else 0)"
    "y div 100 = (y - 1) div 100 + (if y mod 100 = 0 then 1 else 0)"
    "y div 400 = (y - 1) div 400 + (if y mod 400 = 0 then 1 else 0)" by (rule s, simp)+
  then show ?thesis
    unfolding days_before_def year_length_def leap_year_def by (simp only: leap_count [OF d])
qed

lemma days_before_less: "y < y' \<Longrightarrow> days_before (y - 1) + year_length y \<le> days_before (y' - 1)"
proof (induction "nat (y' - y)" arbitrary: y')
  case (Suc n)
  show ?case
  proof (cases "y' = y + 1")
    case False
    then have "days_before (y - 1) + year_length y \<le> days_before (y' - 1 - 1)"
      using Suc by (intro Suc.hyps(1)) auto
    moreover have "0 \<le> year_length (y' - 1)" by (simp add: year_length_def)
    ultimately show ?thesis using days_before_step [of "y' - 1"] by simp
  qed (use days_before_step [of y] in simp)
qed simp

lemma month_step: "1 \<le> m \<Longrightarrow> days_before_month y (Suc m) = days_before_month y m + days_in_month y (int m)"
  by (cases m) simp_all

lemma days_in_month_pos: "1 \<le> days_in_month y m"
  by (simp add: days_in_month_def)

lemma month_less:
  "1 \<le> m \<Longrightarrow> m < m' \<Longrightarrow> days_before_month y m + days_in_month y (int m) \<le> days_before_month y m'"
proof (induction m')
  case (Suc n)
  show ?case
  proof (cases "m = n")
    case False
    then show ?thesis using Suc month_step [of n y] days_in_month_pos [of y "int n"] by simp
  qed (use Suc month_step [of n y] in simp)
qed simp

lemma december: "days_before_month y 12 + days_in_month y 12 = year_length y"
  by (simp add: eval_nat_numeral days_in_month_def year_length_def)

lemma month_end:
  assumes "1 \<le> m" "m \<le> 12"
  shows "days_before_month y m + days_in_month y (int m) \<le> year_length y"
proof (cases "m = 12")
  case True
  then show ?thesis using december [of y] by simp
next
  case False
  then show ?thesis using assms month_less [of m 12 y] december [of y] days_in_month_pos [of y 12] by simp
qed

lemma days_before_month_pos: "1 \<le> m \<Longrightarrow> 0 \<le> days_before_month y m"
  using month_less [of 1 m y] days_in_month_pos [of y 1] by (cases "m = 1") simp_all

text \<open>The day of a civil time within its year.\<close>

definition year_day :: "civil \<Rightarrow> int" where
  "year_day c = days_before_month (cv_year c) (nat (cv_month c)) + cv_day c - 1"

lemma year_day_bounds:
  assumes "valid_civil c"
  shows "0 \<le> year_day c" and "year_day c < year_length (cv_year c)"
proof -
  have m: "1 \<le> nat (cv_month c)" "nat (cv_month c) \<le> 12" "int (nat (cv_month c)) = cv_month c"
    using assms by (auto simp: valid_civil_def)
  show "0 \<le> year_day c" "year_day c < year_length (cv_year c)"
    using assms days_before_month_pos [OF m(1), of "cv_year c"] month_end [OF m(1,2), of "cv_year c"] m(3)
    by (simp_all only: year_day_def valid_civil_def) linarith+
qed

lemma year_day_less:
  assumes "valid_civil c" "valid_civil c'" "cv_year c = cv_year c'" "cv_month c < cv_month c'"
  shows "year_day c < year_day c'"
proof -
  have m: "1 \<le> nat (cv_month c)" "nat (cv_month c) < nat (cv_month c')" "int (nat (cv_month c)) = cv_month c"
    using assms by (auto simp: valid_civil_def)
  show ?thesis using assms month_less [OF m(1,2), of "cv_year c"] m(3)
    by (simp only: year_day_def valid_civil_def) linarith
qed

lemma days_of_less:
  assumes "valid_civil c" "valid_civil c'" "cv_year c < cv_year c'"
  shows "days_of c < days_of c'"
  using assms days_before_less [of "cv_year c" "cv_year c'"] year_day_bounds [of c] year_day_bounds [of c']
  by (simp add: days_of_def year_day_def)

lemma days_of_inject:
  assumes v: "valid_civil c" "valid_civil c'" and d: "days_of c = days_of c'"
  shows "cv_year c = cv_year c' \<and> cv_month c = cv_month c' \<and> cv_day c = cv_day c'"
proof -
  have y: "cv_year c = cv_year c'"
    using days_of_less [OF v] days_of_less [OF v(2,1)] d by (cases "cv_year c" "cv_year c'" rule: linorder_cases) auto
  then have e: "year_day c = year_day c'" using d by (simp add: days_of_def year_day_def)
  have m: "cv_month c = cv_month c'"
    using year_day_less [OF v y] year_day_less [OF v(2,1) y [symmetric]] e
    by (cases "cv_month c" "cv_month c'" rule: linorder_cases) auto
  show ?thesis using e y m by (simp add: year_day_def)
qed

lemma radix_inject:
  fixes a :: int
  assumes "a * k + b = a' * k + b'" "0 \<le> b" "b < k" "0 \<le> b'" "b' < k"
  shows "a = a' \<and> b = b'"
proof -
  have "(a * k + b) div k = a" "(a' * k + b') div k = a'" using assms(2-5) by simp_all
  with assms(1) show ?thesis by simp
qed

lemma valid_timeD:
  assumes "valid_civil c"
  shows "0 \<le> cv_hour c" "cv_hour c < 24" "0 \<le> cv_minute c" "cv_minute c < 60"
    "0 \<le> cv_second c" "cv_second c < 60" "0 \<le> cv_micro c" "cv_micro c < 1000000"
  using assms by (simp_all add: valid_civil_def)

lemma micros_inject:
  assumes v: "valid_civil c" "valid_civil c'" and e: "micros_of c = micros_of c'"
  shows "c = c'"
proof -
  note t = valid_timeD [OF v(1)] and t' = valid_timeD [OF v(2)]
  note us = radix_inject [OF e [unfolded micros_of_def] t(7,8) t'(7,8)]
  note s = radix_inject [OF us [THEN conjunct1] t(5,6) t'(5,6)]
  note m = radix_inject [OF s [THEN conjunct1] t(3,4) t'(3,4)]
  note h = radix_inject [OF m [THEN conjunct1] t(1,2) t'(1,2)]
  note d = days_of_inject [OF v h [THEN conjunct1]]
  show ?thesis
    by (rule civil.equality) (simp_all add: us s m h d)
qed

section \<open>Property\<close>



definition leap_day :: civil where
  "leap_day =
     \<lparr>cv_year = 2024, cv_month = 2, cv_day = 29, cv_hour = 23, cv_minute = 30, cv_second = 5,
      cv_micro = 250000\<rparr>"


end
