(* ===== verification/InternalStore.thy ===== *)
theory InternalStore
  imports Mappers "HOL-Library.Product_Lexorder"
begin

text \<open>
  The internal source-of-truth transactions: the columns and adapters of
  \<open>src/src/infrastructure/postgres/internal_transaction_repository.py\<close> over the model class of
  \<open>src/src/domain/internal_transaction/models.py\<close>. The table is the list of its rows; the
  primary key is the id. Text order is that of the database, given by the sort key \<open>coll\<close> of a
  text.
\<close>

section \<open>Transactions and rows\<close>

datatype txn_status = TX_SUCCESS | TX_FAILED | TX_PENDING | TX_REVERSED

fun txn_status_value :: "txn_status \<Rightarrow> string" where
  "txn_status_value TX_SUCCESS = ''SUCCESS''"
| "txn_status_value TX_FAILED = ''FAILED''"
| "txn_status_value TX_PENDING = ''PENDING''"
| "txn_status_value TX_REVERSED = ''REVERSED''"

definition txn_status_of :: "string \<Rightarrow> txn_status option" where
  "txn_status_of s =
     List.find (\<lambda>t. txn_status_value t = s) [TX_SUCCESS, TX_FAILED, TX_PENDING, TX_REVERSED]"

lemma txn_status_of_value [simp]: "txn_status_of (txn_status_value t) = Some t"
  by (cases t) (simp_all add: txn_status_of_def)

lemma txn_status_of_Some: "txn_status_of s = Some t \<Longrightarrow> txn_status_value t = s"
  by (auto simp: txn_status_of_def split: if_splits)

record internal_transaction =
  it_id :: string
  it_partner :: string
  it_partner_txn_id :: string
  it_amount :: decimal
  it_currency :: string
  it_status :: txn_status
  it_transaction_time :: py_datetime
  it_created_at :: py_datetime
  it_updated_at :: py_datetime

record internal_row =
  ir_id :: string
  ir_partner :: string
  ir_partner_txn_id :: string
  ir_amount :: decimal
  ir_currency :: string
  ir_status :: string
  ir_transaction_time :: datetime
  ir_created_at :: datetime
  ir_updated_at :: datetime

type_synonym internal_table = "internal_row list"

definition internal_transaction_to_row :: "internal_transaction \<Rightarrow> internal_row" where
  "internal_transaction_to_row d =
     \<lparr>ir_id = it_id d, ir_partner = it_partner d, ir_partner_txn_id = it_partner_txn_id d,
      ir_amount = it_amount d, ir_currency = it_currency d,
      ir_status = txn_status_value (it_status d),
      ir_transaction_time = as_utc_naive (it_transaction_time d),
      ir_created_at = as_utc_naive (it_created_at d),
      ir_updated_at = as_utc_naive (it_updated_at d)\<rparr>"

text \<open>A stored status outside the enumeration makes the model class raise: \<^const>\<open>None\<close>.\<close>

definition row_to_internal_transaction :: "internal_row \<Rightarrow> internal_transaction option" where
  "row_to_internal_transaction r =
     map_option
       (\<lambda>s. \<lparr>it_id = ir_id r, it_partner = ir_partner r, it_partner_txn_id = ir_partner_txn_id r,
             it_amount = ir_amount r, it_currency = ir_currency r, it_status = s,
             it_transaction_time = DT_Naive (ir_transaction_time r),
             it_created_at = DT_Naive (ir_created_at r),
             it_updated_at = DT_Naive (ir_updated_at r)\<rparr>)
       (txn_status_of (ir_status r))"

section \<open>Operations\<close>

text \<open>
  \<open>insert_many\<close>: one \<open>INSERT\<close> of all rows; a taken primary key refuses all of them, which is
  \<^const>\<open>None\<close>. A \<open>NUMERIC(20, 4)\<close> column rounds the amount.
\<close>

definition store_internal :: "internal_row \<Rightarrow> internal_row" where
  "store_internal r = r\<lparr>ir_amount := numeric_20_4 (ir_amount r)\<rparr>"

definition insert_internal ::
  "internal_transaction list \<Rightarrow> internal_table \<Rightarrow> (nat \<times> internal_table) option" where
  "insert_internal docs t =
     (let rows = map internal_transaction_to_row docs; t' = t @ map store_internal rows
      in if docs = [] then Some (0, t)
         else if distinct (map ir_id t') then Some (length rows, t') else None)"

definition find_existing_partner_txn_ids ::
  "string \<Rightarrow> string list \<Rightarrow> internal_table \<Rightarrow> string set" where
  "find_existing_partner_txn_ids partner ids t =
     (if ids = [] then {}
      else set (map ir_partner_txn_id
             (filter (\<lambda>r. ir_partner r = partner \<and> ir_partner_txn_id r \<in> set ids) t)))"

definition delete_rows :: "('r \<Rightarrow> bool) \<Rightarrow> 'r list \<Rightarrow> nat \<times> 'r list" where
  "delete_rows p t = (length (filter p t), filter (\<lambda>r. \<not> p r) t)"

definition delete_by_partner_and_txn_id ::
  "string \<Rightarrow> string \<Rightarrow> internal_table \<Rightarrow> nat \<times> internal_table" where
  "delete_by_partner_and_txn_id partner txn =
     delete_rows (\<lambda>r. ir_partner r = partner \<and> ir_partner_txn_id r = txn)"

definition delete_by_partner :: "string \<Rightarrow> internal_table \<Rightarrow> nat \<times> internal_table" where
  "delete_by_partner partner = delete_rows (\<lambda>r. ir_partner r = partner)"

definition in_day_range :: "string \<Rightarrow> datetime \<Rightarrow> datetime \<Rightarrow> internal_row \<Rightarrow> bool" where
  "in_day_range partner start stop r \<longleftrightarrow>
     ir_partner r = partner \<and> start \<le> ir_transaction_time r \<and> ir_transaction_time r \<le> stop"

text \<open>
  \<open>find_by_partner_and_date_range\<close>: \<open>ORDER BY transaction_time, id\<close>, a negative limit read as
  zero; one unreadable row makes the whole read raise.
\<close>

definition find_internal_range ::
  "(string \<Rightarrow> string) \<Rightarrow> string \<Rightarrow> py_datetime \<Rightarrow> py_datetime \<Rightarrow> int option \<Rightarrow> internal_table
     \<Rightarrow> internal_transaction list option" where
  "find_internal_range coll partner start stop limit t =
     (let rows = sort_key (\<lambda>r. (ir_transaction_time r, coll (ir_id r)))
            (filter (in_day_range partner (as_utc_naive start) (as_utc_naive stop)) t)
      in those (map row_to_internal_transaction
           (case limit of None \<Rightarrow> rows | Some n \<Rightarrow> take (nat (max n 0)) rows)))"

definition count_internal_range ::
  "string \<Rightarrow> py_datetime \<Rightarrow> py_datetime \<Rightarrow> internal_table \<Rightarrow> nat" where
  "count_internal_range partner start stop t =
     length (filter (in_day_range partner (as_utc_naive start) (as_utc_naive stop)) t)"

section \<open>Lemmas\<close>

text \<open>Writing and reading back forgets the time zones only.\<close>

definition naive_internal :: "internal_transaction \<Rightarrow> internal_transaction" where
  "naive_internal d =
     d\<lparr>it_transaction_time := DT_Naive (as_utc_naive (it_transaction_time d)),
       it_created_at := DT_Naive (as_utc_naive (it_created_at d)),
       it_updated_at := DT_Naive (as_utc_naive (it_updated_at d))\<rparr>"

lemma internal_row_readable [simp]:
  "row_to_internal_transaction (internal_transaction_to_row d) = Some (naive_internal d)"
  by (simp add: row_to_internal_transaction_def internal_transaction_to_row_def naive_internal_def)

lemma internal_of_row:
  "row_to_internal_transaction r = Some d \<Longrightarrow> internal_transaction_to_row d = r"
  by (auto simp: row_to_internal_transaction_def internal_transaction_to_row_def
      dest: txn_status_of_Some)

lemma insert_internal_distinct:
  "insert_internal docs t = Some (n, t') \<Longrightarrow> distinct (map ir_id t) \<Longrightarrow>
     distinct (map ir_id t') \<and> n = length docs \<and> length t' = length t + n"
  by (auto simp: insert_internal_def Let_def split: if_splits)

lemma delete_rows_counts: "delete_rows p t = (n, t') \<Longrightarrow> length t = n + length t'"
  using sum_length_filter_compl [of p t] by (auto simp: delete_rows_def)

lemma delete_rows_keeps: "r \<in> set (snd (delete_rows p t)) \<longleftrightarrow> r \<in> set t \<and> \<not> p r"
  by (simp add: delete_rows_def)

end
