(* ===== verification/Matching.thy ===== *)
theory Matching
  imports InternalStore
begin

text \<open>
  \<open>src/src/reconciliation/postgres_executor.py\<close>: the set-based matching of the partner and the
  internal transactions of one business day. Each common table expression of the query is a
  function on lists, a \<open>LEFT JOIN\<close> on a group of one row is an optional row, and SQL \<open>NULL\<close> is
  \<^const>\<open>None\<close>. \<open>sq_lower\<close> is \<open>LOWER\<close> and \<open>sq_collate\<close> the sort key of a text, both of the
  database's locale; \<open>sq_json\<close> is the text of a JSON value that is not a string.
\<close>

section \<open>Vocabulary\<close>

datatype scope_type = SC_UNCONFIRMED | SC_FULL_SNAPSHOT | SC_INCREMENTAL_APPEND | SC_REPLACEMENT

fun scope_value :: "scope_type \<Rightarrow> string" where
  "scope_value SC_UNCONFIRMED = ''UNCONFIRMED''"
| "scope_value SC_FULL_SNAPSHOT = ''FULL_SNAPSHOT''"
| "scope_value SC_INCREMENTAL_APPEND = ''INCREMENTAL_APPEND''"
| "scope_value SC_REPLACEMENT = ''REPLACEMENT''"

datatype rec_status =
    RS_MATCHED | RS_MATCHED_FAILED | RS_MATCHED_REVERSED
  | RS_AMOUNT_MISMATCH | RS_STATUS_MISMATCH | RS_MULTIPLE_MISMATCH
  | RS_MISSING_INTERNAL | RS_MISSING_PARTNER | RS_AMBIGUOUS_KEY | RS_UNMAPPED_SKIPPED

datatype time_status = TM_MATCHED | TM_MISMATCH | TM_NOT_AVAILABLE | TM_NOT_EVALUATED

datatype norm_status = NS_SUCCESS | NS_FAILED | NS_REVERSED | NS_PENDING

record sql_env =
  sq_lower :: "string \<Rightarrow> string"
  sq_collate :: "string \<Rightarrow> string"
  sq_json :: "pyval \<Rightarrow> string"

record match_params =
  mp_partner :: string
  mp_date :: string
  mp_start :: datetime
  mp_end :: datetime
  mp_run_id :: "string option"
  mp_source_file_id :: "string option"
  mp_file_uuid :: "uuid option"
  mp_scope :: scope_type
  mp_mapping_version :: "string option"
  mp_tolerance :: int
  mp_timezone :: string

section \<open>Keys and statuses\<close>

text \<open>\<open>NULLIF(BTRIM(x), '')\<close> and \<open>COALESCE\<close>.\<close>

definition sql_key :: "string option \<Rightarrow> string option" where
  "sql_key x = (case x of None \<Rightarrow> None | Some s \<Rightarrow> if sql_btrim s = [] then None else Some (sql_btrim s))"

fun coalesce :: "'a option list \<Rightarrow> 'a option" where
  "coalesce [] = None"
| "coalesce (None # xs) = coalesce xs"
| "coalesce (Some x # xs) = Some x"

text \<open>\<open>metadata ->> key\<close> is NULL for a missing key and for a JSON null.\<close>

definition json_text :: "sql_env \<Rightarrow> pydict \<Rightarrow> string \<Rightarrow> string option" where
  "json_text e d k =
     (case dget d k of VNone \<Rightarrow> None | VStr s \<Rightarrow> Some s | v \<Rightarrow> Some (sq_json e v))"

definition partner_key :: "sql_env \<Rightarrow> partner_row \<Rightarrow> string option" where
  "partner_key e r =
     coalesce [sql_key (pr_partner_trace r),
               sql_key (json_text e (pr_partner_metadata r) ''vspTransId''),
               sql_key (Some (pr_partner_id r))]"

definition internal_key :: "internal_row \<Rightarrow> string option" where
  "internal_key r = sql_key (Some (ir_partner_txn_id r))"

definition success_words :: "string list" where
  "success_words =
     [''success'', ''th'' @ [CHR 0xC3, CHR 0xA0] @ ''nh c'' @ [CHR 0xC3, CHR 0xB4] @ ''ng'',
      ''matched'']"

definition failed_words :: "string list" where
  "failed_words =
     [''fail'', ''failed'',
      ''th'' @ [CHR 0xE1, CHR 0xBA, CHR 0xA5] @ ''t b'' @ [CHR 0xE1, CHR 0xBA, CHR 0xA1] @ ''i'']"

definition reversed_words :: "string list" where
  "reversed_words =
     [''reversed'', ''ho'' @ [CHR 0xC3, CHR 0xA0] @ ''n ti'' @ [CHR 0xE1, CHR 0xBB, CHR 0x81] @ ''n'']"

definition normalized_status :: "sql_env \<Rightarrow> string \<Rightarrow> norm_status" where
  "normalized_status e s =
     (let w = sq_lower e (sql_btrim s)
      in if w \<in> set success_words then NS_SUCCESS
         else if w \<in> set failed_words then NS_FAILED
         else if w \<in> set reversed_words then NS_REVERSED
         else NS_PENDING)"

text \<open>Equality of two \<open>NUMERIC\<close> values.\<close>

definition dec_eq :: "decimal \<Rightarrow> decimal \<Rightarrow> bool" where
  "dec_eq a b \<longleftrightarrow>
     (let m = min (d_exp a) (d_exp b)
      in d_coeff a * 10 ^ nat (d_exp a - m) = d_coeff b * 10 ^ nat (d_exp b - m))"

section \<open>The scope of a run\<close>

definition partner_raw :: "match_params \<Rightarrow> partner_table \<Rightarrow> partner_row list" where
  "partner_raw mp t =
     filter (\<lambda>p. pr_identify p = mp_partner mp \<and> mp_start mp \<le> pr_reconciliation_date p \<and>
                 pr_reconciliation_date p \<le> mp_end mp \<and>
                 (case mp_file_uuid mp of None \<Rightarrow> True | Some u \<Rightarrow> pr_source_file_id p = u)) t"

definition internal_raw ::
  "sql_env \<Rightarrow> match_params \<Rightarrow> partner_table \<Rightarrow> internal_table \<Rightarrow> internal_row list" where
  "internal_raw e mp t it =
     filter (\<lambda>i. in_day_range (mp_partner mp) (mp_start mp) (mp_end mp) i \<and>
                 (mp_file_uuid mp = None \<or> mp_scope mp = SC_FULL_SNAPSHOT \<or>
                  (internal_key i \<noteq> None \<and>
                   internal_key i \<in> set (map (partner_key e) (partner_raw mp t))))) it"

definition internal_eligible ::
  "sql_env \<Rightarrow> match_params \<Rightarrow> partner_table \<Rightarrow> internal_table \<Rightarrow> internal_row list" where
  "internal_eligible e mp t it =
     filter (\<lambda>i. normalized_status e (ir_status i) \<noteq> NS_PENDING) (internal_raw e mp t it)"

text \<open>The rows of a group, and the keys of either side without repetition.\<close>

definition rows_of :: "('r \<Rightarrow> string option) \<Rightarrow> string \<Rightarrow> 'r list \<Rightarrow> 'r list" where
  "rows_of key k rs = filter (\<lambda>r. key r = Some k) rs"

definition key_space :: "sql_env \<Rightarrow> partner_row list \<Rightarrow> internal_row list \<Rightarrow> string list" where
  "key_space e ps is =
     remdups (List.map_filter (partner_key e) ps @ List.map_filter internal_key is)"

text \<open>\<open>ARRAY_AGG(id ORDER BY id)\<close>, and \<open>MIN\<close> of a text column.\<close>

definition sorted_ids :: "(string \<Rightarrow> string) \<Rightarrow> string list \<Rightarrow> string list" where
  "sorted_ids coll ids = sort_key coll ids"

definition min_text :: "(string \<Rightarrow> string) \<Rightarrow> string list \<Rightarrow> string option" where
  "min_text coll xs = (case sort_key coll xs of [] \<Rightarrow> None | x # _ \<Rightarrow> Some x)"

text \<open>The row a \<open>LEFT JOIN\<close> on \<open>row_count = 1\<close> finds.\<close>

definition the_only :: "'r list \<Rightarrow> 'r option" where
  "the_only rs = (case rs of [r] \<Rightarrow> Some r | _ \<Rightarrow> None)"

section \<open>Evidence\<close>

record evidence =
  ev_key :: "string option"
  ev_partner_txn_id :: "string option"
  ev_internal_txn_id :: "string option"
  ev_partner_amount :: "decimal option"
  ev_internal_amount :: "decimal option"
  ev_partner_status :: "string option"
  ev_internal_status :: "string option"
  ev_status :: rec_status
  ev_partner_record_id :: "string option"
  ev_internal_record_id :: "string option"
  ev_partner_trans_date :: "datetime option"
  ev_internal_transaction_time :: "datetime option"
  ev_time_status :: time_status
  ev_delta :: "decimal option"
  ev_timestamp_basis :: string
  ev_ambiguous_partner :: "string list"
  ev_ambiguous_internal :: "string list"
  ev_has_partner_source :: bool

definition legacy_basis :: string where
  "legacy_basis = ''LEGACY_STORED''"

definition ambiguous_row ::
  "sql_env \<Rightarrow> string \<Rightarrow> partner_row list \<Rightarrow> internal_row list \<Rightarrow> evidence" where
  "ambiguous_row e k pg ig =
     \<lparr>ev_key = Some k, ev_partner_txn_id = Some k, ev_internal_txn_id = None,
      ev_partner_amount = None, ev_internal_amount = None, ev_partner_status = None,
      ev_internal_status = None, ev_status = RS_AMBIGUOUS_KEY, ev_partner_record_id = None,
      ev_internal_record_id = None, ev_partner_trans_date = None,
      ev_internal_transaction_time = None, ev_time_status = TM_NOT_EVALUATED, ev_delta = None,
      ev_timestamp_basis =
        (case min_text (sq_collate e) (map pr_timestamp_basis pg) of
           None \<Rightarrow> legacy_basis | Some b \<Rightarrow> b),
      ev_ambiguous_partner = sorted_ids (\<lambda>x. x) (map pr_id pg),
      ev_ambiguous_internal = sorted_ids (sq_collate e) (map ir_id ig),
      ev_has_partner_source = (0 < length pg)\<rparr>"

fun matched_status :: "norm_status \<Rightarrow> rec_status" where
  "matched_status NS_SUCCESS = RS_MATCHED"
| "matched_status NS_FAILED = RS_MATCHED_FAILED"
| "matched_status NS_REVERSED = RS_MATCHED_REVERSED"
| "matched_status NS_PENDING = RS_MATCHED"

fun pair_status :: "sql_env \<Rightarrow> partner_row option \<Rightarrow> internal_row option \<Rightarrow> rec_status" where
  "pair_status e (Some p) (Some i) =
     (let ps = normalized_status e (pr_partner_status p); is = normalized_status e (ir_status i);
          same = dec_eq (pr_partner_amount p) (ir_amount i)
      in if same \<and> ps = is then matched_status ps
         else if \<not> same \<and> ps \<noteq> is then RS_MULTIPLE_MISMATCH
         else if \<not> same then RS_AMOUNT_MISMATCH
         else RS_STATUS_MISMATCH)"
| "pair_status e (Some p) None = RS_MISSING_INTERNAL"
| "pair_status e None i = RS_MISSING_PARTNER"

text \<open>Times are microseconds; the delta has six decimals.\<close>

definition time_delta :: "partner_row option \<Rightarrow> internal_row option \<Rightarrow> int option" where
  "time_delta p i =
     (case (p, i) of
        (Some p', Some i') \<Rightarrow>
          map_option (\<lambda>d. \<bar>d - ir_transaction_time i'\<bar>) (pr_partner_trans_date p')
      | _ \<Rightarrow> None)"

definition pair_time_status ::
  "int \<Rightarrow> partner_row option \<Rightarrow> internal_row option \<Rightarrow> time_status" where
  "pair_time_status tol p i =
     (if p = None \<or> i = None then TM_NOT_EVALUATED
      else case time_delta p i of
             None \<Rightarrow> TM_NOT_AVAILABLE
           | Some d \<Rightarrow> if d \<le> tol * 1000000 then TM_MATCHED else TM_MISMATCH)"

definition one_to_one_row ::
  "sql_env \<Rightarrow> int \<Rightarrow> string \<Rightarrow> partner_row option \<Rightarrow> internal_row option \<Rightarrow> evidence" where
  "one_to_one_row e tol k p i =
     \<lparr>ev_key = Some k,
      ev_partner_txn_id =
        coalesce [Option.bind p (partner_key e), map_option pr_partner_id p,
                  map_option ir_partner_txn_id i, map_option ir_id i],
      ev_internal_txn_id = map_option ir_id i,
      ev_partner_amount = map_option pr_partner_amount p,
      ev_internal_amount = map_option ir_amount i,
      ev_partner_status = map_option pr_partner_status p,
      ev_internal_status = map_option ir_status i,
      ev_status = pair_status e p i,
      ev_partner_record_id = map_option pr_id p,
      ev_internal_record_id = map_option ir_id i,
      ev_partner_trans_date = Option.bind p pr_partner_trans_date,
      ev_internal_transaction_time = map_option ir_transaction_time i,
      ev_time_status = pair_time_status tol p i,
      ev_delta = map_option (\<lambda>d. Decimal d (- 6)) (time_delta p i),
      ev_timestamp_basis =
        (case p of None \<Rightarrow> legacy_basis | Some r \<Rightarrow> pr_timestamp_basis r),
      ev_ambiguous_partner = [], ev_ambiguous_internal = [],
      ev_has_partner_source = (p \<noteq> None)\<rparr>"

definition unmapped_partner :: "partner_row \<Rightarrow> evidence" where
  "unmapped_partner p =
     \<lparr>ev_key = None,
      ev_partner_txn_id = coalesce [sql_key (Some (pr_partner_id p)), Some (pr_id p)],
      ev_internal_txn_id = None, ev_partner_amount = Some (pr_partner_amount p),
      ev_internal_amount = None, ev_partner_status = Some (pr_partner_status p),
      ev_internal_status = None, ev_status = RS_UNMAPPED_SKIPPED,
      ev_partner_record_id = Some (pr_id p), ev_internal_record_id = None,
      ev_partner_trans_date = pr_partner_trans_date p, ev_internal_transaction_time = None,
      ev_time_status = TM_NOT_EVALUATED, ev_delta = None,
      ev_timestamp_basis = pr_timestamp_basis p, ev_ambiguous_partner = [pr_id p],
      ev_ambiguous_internal = [], ev_has_partner_source = True\<rparr>"

definition unmapped_internal :: "internal_row \<Rightarrow> evidence" where
  "unmapped_internal i =
     \<lparr>ev_key = None,
      ev_partner_txn_id = coalesce [internal_key i, Some (ir_id i)],
      ev_internal_txn_id = Some (ir_id i), ev_partner_amount = None,
      ev_internal_amount = Some (ir_amount i), ev_partner_status = None,
      ev_internal_status = Some (ir_status i), ev_status = RS_UNMAPPED_SKIPPED,
      ev_partner_record_id = None, ev_internal_record_id = Some (ir_id i),
      ev_partner_trans_date = None,
      ev_internal_transaction_time = Some (ir_transaction_time i),
      ev_time_status = TM_NOT_EVALUATED, ev_delta = None, ev_timestamp_basis = legacy_basis,
      ev_ambiguous_partner = [], ev_ambiguous_internal = [ir_id i],
      ev_has_partner_source = False\<rparr>"

definition is_ambiguous :: "partner_row list \<Rightarrow> internal_row list \<Rightarrow> bool" where
  "is_ambiguous pg ig \<longleftrightarrow> 1 < length pg \<or> 1 < length ig"

definition key_row ::
  "sql_env \<Rightarrow> int \<Rightarrow> partner_row list \<Rightarrow> internal_row list \<Rightarrow> string \<Rightarrow> evidence" where
  "key_row e tol ps is k =
     (let pg = rows_of (partner_key e) k ps; ig = rows_of internal_key k is
      in if is_ambiguous pg ig then ambiguous_row e k pg ig
         else one_to_one_row e tol k (the_only pg) (the_only ig))"

text \<open>The three parts of the union, in its order.\<close>

definition evidence_of ::
  "sql_env \<Rightarrow> int \<Rightarrow> partner_row list \<Rightarrow> internal_row list \<Rightarrow> evidence list" where
  "evidence_of e tol ps is =
     (let ks = key_space e ps is;
          amb = (\<lambda>k. is_ambiguous (rows_of (partner_key e) k ps) (rows_of internal_key k is))
      in map (key_row e tol ps is) (filter amb ks) @
         map (key_row e tol ps is) (filter (\<lambda>k. \<not> amb k) ks) @
         map unmapped_partner (filter (\<lambda>p. partner_key e p = None) ps) @
         map unmapped_internal (filter (\<lambda>i. internal_key i = None) is))"

definition evidence_rows ::
  "sql_env \<Rightarrow> match_params \<Rightarrow> partner_table \<Rightarrow> internal_table \<Rightarrow> evidence list" where
  "evidence_rows e mp t it =
     evidence_of e (mp_tolerance mp) (partner_raw mp t) (internal_eligible e mp t it)"

end
