(* ===== verification/ReconcileRun.thy ===== *)
theory ReconcileRun
  imports Matching
begin

text \<open>
  The transaction of \<open>PostgresReconciliationExecutor.execute\<close>: the scoped delete, the insert of
  the evidence as rows of \<open>reconciliation_result\<close>, the count of the excluded internal rows, and
  the rows read back. The table is the list of its rows. The advisory lock makes the transactions
  of one partner and date run one after the other, so one run is one step on the table.
\<close>

section \<open>Text columns\<close>

text \<open>
  A text is its UTF-8 bytes; a \<open>VARCHAR(n)\<close> column counts characters, cuts excess spaces and
  refuses any other excess, which is \<^const>\<open>None\<close>.
\<close>

definition continues :: "char \<Rightarrow> bool" where
  "continues c \<longleftrightarrow> 128 \<le> (of_char c :: nat) \<and> (of_char c :: nat) < 192"

fun utf8_chars :: "string \<Rightarrow> string list" where
  "utf8_chars [] = []"
| "utf8_chars (c # cs) =
     (case utf8_chars cs of
        [] \<Rightarrow> [[c]]
      | w # ws \<Rightarrow> if continues (hd w) then (c # w) # ws else [c] # w # ws)"

definition varchar :: "int \<Rightarrow> string \<Rightarrow> string option" where
  "varchar n s =
     (let cs = utf8_chars s
      in if int (length cs) \<le> n then Some s
         else if list_all (\<lambda>c. c = '' '') (drop (nat n) cs) then Some (concat (take (nat n) cs))
         else None)"

definition varchar_null :: "int \<Rightarrow> string option \<Rightarrow> string option option" where
  "varchar_null n s = (case s of None \<Rightarrow> Some None | Some x \<Rightarrow> map_option Some (varchar n x))"

section \<open>Result rows\<close>

record result_row =
  rr_id :: uuid
  rr_partner :: string
  rr_date :: string
  rr_partner_txn_id :: string
  rr_internal_txn_id :: "string option"
  rr_partner_amount :: "decimal option"
  rr_internal_amount :: "decimal option"
  rr_partner_status :: "string option"
  rr_internal_status :: "string option"
  rr_status :: rec_status
  rr_run_id :: "string option"
  rr_source_file_id :: "string option"
  rr_scope :: scope_type
  rr_mapping_version :: "string option"
  rr_partner_record_id :: "string option"
  rr_internal_record_id :: "string option"
  rr_key :: "string option"
  rr_partner_trans_date :: "datetime option"
  rr_internal_transaction_time :: "datetime option"
  rr_time_status :: time_status
  rr_delta :: "decimal option"
  rr_tolerance :: int
  rr_timezone :: string
  rr_timestamp_basis :: string
  rr_ambiguous_partner :: "string list"
  rr_ambiguous_internal :: "string list"
  rr_created_at :: datetime

type_synonym result_table = "result_row list"

text \<open>The source file of a row: that of its partner record, or else the file of the run.\<close>

definition evidence_file :: "match_params \<Rightarrow> partner_row list \<Rightarrow> evidence \<Rightarrow> string option" where
  "evidence_file mp raw v =
     (if ev_has_partner_source v
      then coalesce [map_option pr_source_file_id
                       (List.find (\<lambda>p. Some (pr_id p) = ev_partner_record_id v) raw),
                     mp_source_file_id mp]
      else mp_source_file_id mp)"

text \<open>
  One inserted row; \<^const>\<open>None\<close> when a value is too long for its column or the key column would
  be NULL. The other texts come from columns that are no longer than the ones they go to.
\<close>

definition result_of ::
  "match_params \<Rightarrow> partner_row list \<Rightarrow> datetime \<Rightarrow> uuid \<times> evidence \<Rightarrow> result_row option" where
  "result_of mp raw now x =
     (let v = snd x
      in case (Option.bind (ev_partner_txn_id v) (varchar 255), varchar_null 50 (ev_partner_status v),
               varchar_null 255 (ev_key v), varchar_null 50 (mp_mapping_version mp),
               varchar_null 255 (mp_run_id mp), varchar_null 255 (evidence_file mp raw v)) of
           (Some txn, Some pst, Some key, Some ver, Some run, Some file) \<Rightarrow>
             (if 10 ^ 20 \<le> mp_tolerance mp then None
              else Some
                \<lparr>rr_id = fst x, rr_partner = mp_partner mp, rr_date = mp_date mp,
                 rr_partner_txn_id = txn, rr_internal_txn_id = ev_internal_txn_id v,
                 rr_partner_amount = ev_partner_amount v,
                 rr_internal_amount = ev_internal_amount v,
                 rr_partner_status = pst, rr_internal_status = ev_internal_status v,
                 rr_status = ev_status v, rr_run_id = run, rr_source_file_id = file,
                 rr_scope = mp_scope mp, rr_mapping_version = ver,
                 rr_partner_record_id = ev_partner_record_id v,
                 rr_internal_record_id = ev_internal_record_id v, rr_key = key,
                 rr_partner_trans_date = ev_partner_trans_date v,
                 rr_internal_transaction_time = ev_internal_transaction_time v,
                 rr_time_status = ev_time_status v, rr_delta = ev_delta v,
                 rr_tolerance = mp_tolerance mp, rr_timezone = mp_timezone mp,
                 rr_timestamp_basis = ev_timestamp_basis v,
                 rr_ambiguous_partner = ev_ambiguous_partner v,
                 rr_ambiguous_internal = ev_ambiguous_internal v, rr_created_at = now\<rparr>)
         | _ \<Rightarrow> None)"

text \<open>\<open>gen_random_uuid()\<close> hands out \<open>ids 0\<close>, \<open>ids 1\<close>, ...\<close>

definition inserted_rows ::
  "sql_env \<Rightarrow> match_params \<Rightarrow> partner_table \<Rightarrow> internal_table \<Rightarrow> (nat \<Rightarrow> uuid) \<Rightarrow> datetime
     \<Rightarrow> result_table option" where
  "inserted_rows e mp t it ids now =
     (let ev = evidence_rows e mp t it
      in those (map (result_of mp (partner_raw mp t) now)
           (zip (map ids [0..<length ev]) ev)))"

section \<open>The scoped delete\<close>

definition file_keys :: "sql_env \<Rightarrow> match_params \<Rightarrow> partner_table \<Rightarrow> string set" where
  "file_keys e mp t =
     set (List.map_filter (partner_key e)
       (filter (\<lambda>p. pr_identify p = mp_partner mp \<and> Some (pr_source_file_id p) = mp_file_uuid mp) t))"

definition day_row :: "match_params \<Rightarrow> result_row \<Rightarrow> bool" where
  "day_row mp r \<longleftrightarrow> rr_partner r = mp_partner mp \<and> rr_date r = mp_date mp"

definition delete_filter :: "sql_env \<Rightarrow> match_params \<Rightarrow> partner_table \<Rightarrow> result_row \<Rightarrow> bool" where
  "delete_filter e mp t r \<longleftrightarrow>
     day_row mp r \<and>
     (if str_truthy (mp_source_file_id mp) \<and>
         mp_scope mp \<in> {SC_INCREMENTAL_APPEND, SC_REPLACEMENT}
      then rr_source_file_id r = mp_source_file_id mp \<or> rr_partner_txn_id r \<in> file_keys e mp t
      else if str_truthy (mp_source_file_id mp) \<and> mp_scope mp \<noteq> SC_FULL_SNAPSHOT
      then rr_source_file_id r = mp_source_file_id mp
      else True)"

section \<open>The excluded internal rows\<close>

definition excluded_internal ::
  "sql_env \<Rightarrow> match_params \<Rightarrow> partner_table \<Rightarrow> internal_table \<Rightarrow> nat" where
  "excluded_internal e mp t it =
     length (filter
       (\<lambda>i. ir_partner i = mp_partner mp \<and> mp_start mp \<le> ir_transaction_time i \<and>
            ir_transaction_time i \<le> mp_end mp \<and>
            sq_lower e (sql_btrim (ir_status i))
              \<notin> set (success_words @ failed_words @ reversed_words) \<and>
            (mp_file_uuid mp = None \<or> mp_scope mp = SC_FULL_SNAPSHOT \<or>
             (internal_key i \<noteq> None \<and>
              internal_key i \<in> set (map (partner_key e)
                (filter (\<lambda>p. pr_identify p = mp_partner mp \<and>
                             mp_start mp \<le> pr_reconciliation_date p \<and>
                             pr_reconciliation_date p \<le> mp_end mp \<and>
                             Some (pr_source_file_id p) = mp_file_uuid mp) t)))))
       it)"

section \<open>The run\<close>

text \<open>\<open>UUID(text)\<close>, on ASCII text: \<open>urn:\<close>, \<open>uuid:\<close>, braces and hyphens are dropped.\<close>

fun remove_all :: "string \<Rightarrow> string \<Rightarrow> nat \<Rightarrow> string" where
  "remove_all w s 0 = s"
| "remove_all w [] (Suc n) = []"
| "remove_all w (c # s) (Suc n) =
     (if w \<noteq> [] \<and> starts_with w (c # s) then remove_all w (drop (length w) (c # s)) n
      else c # remove_all w s n)"

definition hex_digit :: "char \<Rightarrow> bool" where
  "hex_digit c \<longleftrightarrow> c \<in> set ''0123456789abcdefABCDEF''"

text \<open>
  \<open>int(hex, 16)\<close> takes surrounding blanks, a plus sign, an \<open>0x\<close> prefix and single underscores
  between digits; the value is printed again with leading zeros.
\<close>

fun hex_groups :: "string \<Rightarrow> bool" where
  "hex_groups [] \<longleftrightarrow> False"
| "hex_groups [c] \<longleftrightarrow> hex_digit c"
| "hex_groups (c # d # s) \<longleftrightarrow>
     hex_digit c \<and> (if d = CHR ''_'' then hex_groups s else hex_groups (d # s))"

definition hex_body :: "string \<Rightarrow> string" where
  "hex_body s =
     (let u = py_strip s; v = (if take 1 u = ''+'' then drop 1 u else u)
      in if take 2 v \<in> {''0x'', ''0X''}
         then (if take 1 (drop 2 v) = ''_'' then drop 3 v else drop 2 v)
         else v)"

definition hex_int :: "string \<Rightarrow> string option" where
  "hex_int s =
     (let b = hex_body s; ds = ascii_lower (filter hex_digit b)
      in if hex_groups b then Some (replicate (32 - length ds) CHR ''0'' @ ds) else None)"

definition parse_uuid :: "string \<Rightarrow> uuid option" where
  "parse_uuid s =
     (let n = length s;
          a = remove_all ''uuid:'' (remove_all ''urn:'' s n) n;
          b = strip_with [''{'', ''}''] a;
          h = filter (\<lambda>c. c \<noteq> CHR ''-'') b
      in if length h \<noteq> 32 then None
         else map_option
           (\<lambda>x. take 8 x @ ''-'' @ take 4 (drop 8 x) @ ''-'' @ take 4 (drop 12 x) @ ''-'' @
                take 4 (drop 16 x) @ ''-'' @ drop 20 x)
           (hex_int h))"

datatype exec_error = Bad_Source_File | Constraint_Violation

text \<open>\<open>Counter\<close> of the timestamp statuses with the two reconciliation counts, as it is logged.\<close>

record exec_metrics =
  em_total :: nat
  em_times :: "time_status \<Rightarrow> nat"
  em_ambiguous :: nat
  em_unmapped :: nat
  em_excluded :: nat

definition metrics_of :: "nat \<Rightarrow> result_table \<Rightarrow> exec_metrics" where
  "metrics_of excluded rs =
     \<lparr>em_total = length rs,
      em_times = (\<lambda>s. length (filter (\<lambda>r. rr_time_status r = s) rs)),
      em_ambiguous = length (filter (\<lambda>r. rr_status r = RS_AMBIGUOUS_KEY) rs),
      em_unmapped = length (filter (\<lambda>r. rr_status r = RS_UNMAPPED_SKIPPED) rs),
      em_excluded = excluded\<rparr>"

text \<open>The rows read after the commit: of the run when it has an id, else of the file, else of the day.\<close>

definition read_results :: "match_params \<Rightarrow> result_table \<Rightarrow> result_table" where
  "read_results mp =
     filter (\<lambda>r. day_row mp r \<and>
       (if str_truthy (mp_run_id mp) then rr_run_id r = mp_run_id mp
        else if str_truthy (mp_source_file_id mp) then rr_source_file_id r = mp_source_file_id mp
        else True))"

text \<open>The transaction; an error rolls it back.\<close>

definition run_transaction ::
  "sql_env \<Rightarrow> match_params \<Rightarrow> partner_table \<Rightarrow> internal_table \<Rightarrow> (nat \<Rightarrow> uuid) \<Rightarrow> datetime
     \<Rightarrow> result_table \<Rightarrow> result_table option" where
  "run_transaction e mp t it ids now tab =
     map_option (\<lambda>new. filter (\<lambda>r. \<not> delete_filter e mp t r) tab @ new)
       (inserted_rows e mp t it ids now)"

text \<open>\<open>execute\<close>: \<open>mp_file_uuid\<close> is filled in from \<open>mp_source_file_id\<close>.\<close>

definition with_uuid :: "match_params \<Rightarrow> match_params option" where
  "with_uuid mp =
     (if str_truthy (mp_source_file_id mp)
      then map_option (\<lambda>u. mp\<lparr>mp_file_uuid := Some u\<rparr>)
             (Option.bind (mp_source_file_id mp) parse_uuid)
      else Some (mp\<lparr>mp_file_uuid := None\<rparr>))"

definition reconcile_execute ::
  "sql_env \<Rightarrow> match_params \<Rightarrow> partner_table \<Rightarrow> internal_table \<Rightarrow> (nat \<Rightarrow> uuid) \<Rightarrow> datetime
     \<Rightarrow> result_table \<Rightarrow> (exec_error + result_table \<times> exec_metrics) \<times> result_table" where
  "reconcile_execute e mp0 t it ids now tab =
     (case with_uuid mp0 of
        None \<Rightarrow> (Inl Bad_Source_File, tab)
      | Some mp \<Rightarrow>
          (case run_transaction e mp t it ids now tab of
             None \<Rightarrow> (Inl Constraint_Violation, tab)
           | Some tab' \<Rightarrow>
               (let rs = read_results mp tab'
                in (Inr (rs, metrics_of (excluded_internal e mp t it) rs), tab'))))"

end
