(* ===== verification/MatchingProps.thy ===== *)
theory MatchingProps
  imports ReconcileRun
begin

text \<open>
  What the matching of one business day guarantees: every row in scope is in exactly one evidence
  row, the status of an evidence row says what was found, no column is NULL that may not be, and
  the count of the excluded internal rows agrees with the matching query.
\<close>

section \<open>The rows behind an evidence row\<close>

definition partner_ids :: "evidence \<Rightarrow> string set" where
  "partner_ids v = set_option (ev_partner_record_id v) \<union> set (ev_ambiguous_partner v)"

definition internal_ids :: "evidence \<Rightarrow> string set" where
  "internal_ids v = set_option (ev_internal_record_id v) \<union> set (ev_ambiguous_internal v)"

named_theorems evidence_simps \<open>fields of the evidence rows\<close>

lemma the_only_short: "length rs \<le> 1 \<Longrightarrow> set_option (the_only rs) = set rs"
  by (cases rs) (auto simp: the_only_def)

lemma the_only_Some [simp]: "the_only rs = Some r \<longleftrightarrow> rs = [r]"
  by (auto simp: the_only_def split: list.splits)

lemma the_only_single [simp]: "the_only [r] = Some r"
  by simp

lemma short_the_only: "length rs \<le> 1 \<Longrightarrow> the_only rs = None \<longleftrightarrow> rs = []"
  by (cases rs) (auto simp: the_only_def)

lemma set_map_option: "set_option (map_option f x) = f ` set_option x"
  by (cases x) auto

lemma key_row_partner_ids [evidence_simps]:
  "partner_ids (key_row e tol ps is k) = pr_id ` set (rows_of (partner_key e) k ps)"
  by (simp add: key_row_def Let_def partner_ids_def is_ambiguous_def ambiguous_row_def
      one_to_one_row_def sorted_ids_def set_map_option the_only_short)

lemma key_row_internal_ids [evidence_simps]:
  "internal_ids (key_row e tol ps is k) = ir_id ` set (rows_of internal_key k is)"
  by (simp add: key_row_def Let_def internal_ids_def is_ambiguous_def ambiguous_row_def
      one_to_one_row_def sorted_ids_def set_map_option the_only_short)

lemma unmapped_ids [evidence_simps]:
  "partner_ids (unmapped_partner p) = {pr_id p}" "partner_ids (unmapped_internal i) = {}"
  "internal_ids (unmapped_partner p) = {}" "internal_ids (unmapped_internal i) = {ir_id i}"
  by (simp_all add: partner_ids_def internal_ids_def unmapped_partner_def unmapped_internal_def)

lemma set_map_filter: "x \<in> set (List.map_filter f xs) \<longleftrightarrow> (\<exists>y \<in> set xs. f y = Some x)"
  by (induction xs) (auto simp: List.map_filter_simps split: option.splits)

lemma in_key_space:
  "k \<in> set (key_space e ps is) \<longleftrightarrow>
     rows_of (partner_key e) k ps \<noteq> [] \<or> rows_of internal_key k is \<noteq> []"
  by (auto simp: key_space_def set_map_filter rows_of_def filter_empty_conv)

lemma in_rows_of: "r \<in> set (rows_of key k rs) \<longleftrightarrow> r \<in> set rs \<and> key r = Some k"
  by (simp add: rows_of_def)

section \<open>Counting evidence rows\<close>

lemma count_split:
  "length (filter P (map f (filter a ks))) + length (filter P (map f (filter (\<lambda>k. \<not> a k) ks)))
     = length (filter (\<lambda>k. P (f k)) ks)"
  by (induction ks) auto

lemma count_evidence:
  "length (filter P (evidence_of e tol ps is)) =
     length (filter (\<lambda>k. P (key_row e tol ps is k)) (key_space e ps is)) +
     length (filter (\<lambda>p. P (unmapped_partner p) \<and> partner_key e p = None) ps) +
     length (filter (\<lambda>i. P (unmapped_internal i) \<and> internal_key i = None) is)"
  by (simp add: evidence_of_def Let_def add.assoc filter_map o_def conj_commute
      flip: count_split [of P "key_row e tol ps is"
        "\<lambda>k. is_ambiguous (rows_of (partner_key e) k ps) (rows_of internal_key k is)"])

lemma count_unique:
  assumes "distinct xs" and "\<And>y. y \<in> set xs \<Longrightarrow> Q y \<longleftrightarrow> y = x"
  shows "length (filter Q xs) = (if x \<in> set xs then 1 else 0)"
proof -
  have "filter Q xs = filter (\<lambda>y. y = x) xs" using assms(2) by (intro filter_cong) auto
  moreover have "length (filter (\<lambda>y. y = x) xs) = count (mset xs) x"
    by (simp add: count_mset count_list_eq_length_filter eq_commute cong: filter_cong)
  ultimately show ?thesis using assms(1) by (simp add: distinct_count_atmost_1 set_mset_mset)
qed

lemma distinct_key_space [simp]: "distinct (key_space e ps is)"
  by (simp add: key_space_def)

lemma same_id: "distinct (map f rs) \<Longrightarrow> q \<in> set rs \<Longrightarrow> r \<in> set rs \<Longrightarrow> f q = f r \<longleftrightarrow> q = r"
  by (auto simp: distinct_map dest: inj_onD)

lemma id_in_rows:
  assumes "distinct (map f rs)" and "r \<in> set rs"
  shows "f r \<in> f ` set (rows_of key k rs) \<longleftrightarrow> key r = Some k"
proof
  assume "f r \<in> f ` set (rows_of key k rs)"
  then obtain q where q: "q \<in> set rs" "key q = Some k" "f q = f r" by (force simp: in_rows_of)
  with same_id [OF assms(1) q(1) assms(2)] show "key r = Some k" by simp
qed (use assms(2) in \<open>simp add: in_rows_of\<close>)

lemma count_same_id:
  assumes "distinct (map f rs)" and "r \<in> set rs"
  shows "length (filter (\<lambda>q. f r = f q \<and> key q = None) rs) = (if key r = None then 1 else 0)"
proof (cases "key r = None")
  case True
  have "length (filter (\<lambda>q. f r = f q \<and> key q = None) rs) = (if r \<in> set rs then 1 else 0)"
  proof (rule count_unique)
    show "distinct rs" using assms(1) by (simp add: distinct_map)
    show "f r = f q \<and> key q = None \<longleftrightarrow> q = r" if "q \<in> set rs" for q
      using same_id [OF assms(1) assms(2) that] True by blast
  qed
  with True assms(2) show ?thesis by simp
next
  case False
  have "\<not> (f r = f q \<and> key q = None)" if "q \<in> set rs" for q
    using same_id [OF assms(1) assms(2) that] False by blast
  then have "filter (\<lambda>q. f r = f q \<and> key q = None) rs = []" by (simp only: filter_empty_conv) blast
  with False show ?thesis by simp
qed

lemma count_key:
  assumes "distinct ks" and "\<And>k. x = Some k \<Longrightarrow> k \<in> set ks"
  shows "length (filter (\<lambda>k'. x = Some k') ks) = (case x of None \<Rightarrow> 0 | Some _ \<Rightarrow> 1)"
proof (cases x)
  case (Some l)
  have "length (filter (\<lambda>k'. x = Some k') ks) = (if l \<in> set ks then 1 else 0)"
    by (rule count_unique [OF assms(1)]) (auto simp: Some)
  with assms(2) [OF Some] Some show ?thesis by simp
qed simp

text \<open>The two sides of the matching have the same counting argument.\<close>

lemma count_ids:
  assumes "distinct (map f rs)" and "r \<in> set rs" and "distinct ks"
    and "\<And>k. key r = Some k \<Longrightarrow> k \<in> set ks"
  shows "length (filter (\<lambda>k. f r \<in> f ` set (rows_of key k rs)) ks) +
         length (filter (\<lambda>q. f r = f q \<and> key q = None) rs) = 1"
  using count_key [OF assms(3,4)] count_same_id [OF assms(1,2), of key]
  by (simp add: id_in_rows [OF assms(1,2)] split: option.splits)

lemma partner_evidence_count:
  assumes "distinct (map pr_id ps)" and "p \<in> set ps"
  shows "length (filter (\<lambda>v. pr_id p \<in> partner_ids v) (evidence_of e tol ps is)) = 1"
proof -
  have "k \<in> set (key_space e ps is)" if "partner_key e p = Some k" for k
    using that assms(2) by (auto simp: in_key_space rows_of_def filter_empty_conv)
  from count_ids [OF assms distinct_key_space this] show ?thesis
    by (simp add: count_evidence evidence_simps)
qed

lemma internal_evidence_count:
  assumes "distinct (map ir_id is)" and "i \<in> set is"
  shows "length (filter (\<lambda>v. ir_id i \<in> internal_ids v) (evidence_of e tol ps is)) = 1"
proof -
  have "k \<in> set (key_space e ps is)" if "internal_key i = Some k" for k
    using that assms(2) by (auto simp: in_key_space rows_of_def filter_empty_conv)
  from count_ids [OF assms distinct_key_space this] show ?thesis
    by (simp add: count_evidence evidence_simps)
qed

lemma evidence_ids:
  assumes "v \<in> set (evidence_of e tol ps is)"
  shows "partner_ids v \<subseteq> pr_id ` set ps" and "internal_ids v \<subseteq> ir_id ` set is"
  using assms by (auto simp: evidence_of_def Let_def evidence_simps in_rows_of)


lemma count_outside:
  "f r \<notin> f ` set rs \<Longrightarrow> (\<And>v. v \<in> set vs \<Longrightarrow> ids v \<subseteq> f ` set rs) \<Longrightarrow>
     length (filter (\<lambda>v. f r \<in> ids v) vs) = 0"
  by (auto simp: filter_empty_conv)

section \<open>The count of the excluded rows\<close>

lemma pending_words:
  "normalized_status e s = NS_PENDING \<longleftrightarrow>
     sq_lower e (sql_btrim s) \<notin> set (success_words @ failed_words @ reversed_words)"
  by (simp add: normalized_status_def Let_def)

lemma excluded_agrees:
  "length (internal_raw e mp t it) = length (internal_eligible e mp t it) + excluded_internal e mp t it"
proof -
  have "excluded_internal e mp t it
      = length (filter (\<lambda>i. normalized_status e (ir_status i) = NS_PENDING) (internal_raw e mp t it))"
    unfolding excluded_internal_def internal_raw_def filter_filter
    by (cases "mp_file_uuid mp")
      (auto simp: pending_words in_day_range_def partner_raw_def conj_ac intro!: arg_cong [where f = length]
        filter_cong)
  then show ?thesis
    using sum_length_filter_compl [of "\<lambda>i. normalized_status e (ir_status i) = NS_PENDING"
        "internal_raw e mp t it"]
    by (simp add: internal_eligible_def)
qed

section \<open>What a status means\<close>

lemma in_evidence:
  "v \<in> set (evidence_of e tol ps is) \<longleftrightarrow>
     (\<exists>k \<in> set (key_space e ps is). v = key_row e tol ps is k) \<or>
     (\<exists>p \<in> set ps. partner_key e p = None \<and> v = unmapped_partner p) \<or>
     (\<exists>i \<in> set is. internal_key i = None \<and> v = unmapped_internal i)"
  by (auto simp: evidence_of_def Let_def)

lemma key_row_fields [evidence_simps]:
  "ev_key (key_row e tol ps is k) = Some k"
  "ev_status (key_row e tol ps is k) =
     (if is_ambiguous (rows_of (partner_key e) k ps) (rows_of internal_key k is) then RS_AMBIGUOUS_KEY
      else pair_status e (the_only (rows_of (partner_key e) k ps)) (the_only (rows_of internal_key k is)))"
  by (simp_all add: key_row_def Let_def ambiguous_row_def one_to_one_row_def)

lemma unmapped_fields [evidence_simps]:
  "ev_key (unmapped_partner p) = None" "ev_status (unmapped_partner p) = RS_UNMAPPED_SKIPPED"
  "ev_key (unmapped_internal i) = None" "ev_status (unmapped_internal i) = RS_UNMAPPED_SKIPPED"
  by (simp_all add: unmapped_partner_def unmapped_internal_def)

text \<open>The partner and the internal rows of one key in the scope of a run.\<close>

definition partner_group :: "sql_env \<Rightarrow> match_params \<Rightarrow> partner_table \<Rightarrow> string \<Rightarrow> partner_row list" where
  "partner_group e mp t k = rows_of (partner_key e) k (partner_raw mp t)"

definition internal_group ::
  "sql_env \<Rightarrow> match_params \<Rightarrow> partner_table \<Rightarrow> internal_table \<Rightarrow> string \<Rightarrow> internal_row list" where
  "internal_group e mp t it k = rows_of internal_key k (internal_eligible e mp t it)"

lemma internal_group_eligible:
  "i \<in> set (internal_group e mp t it k) \<Longrightarrow> normalized_status e (ir_status i) \<noteq> NS_PENDING"
  by (simp add: internal_group_def in_rows_of internal_eligible_def)

definition agree_on ::
  "sql_env \<Rightarrow> match_params \<Rightarrow> partner_table \<Rightarrow> internal_table \<Rightarrow> norm_status \<Rightarrow> evidence \<Rightarrow> bool" where
  "agree_on e mp t it ns v \<longleftrightarrow>
     (\<exists>k p i. ev_key v = Some k \<and> partner_group e mp t k = [p] \<and> internal_group e mp t it k = [i] \<and>
        dec_eq (pr_partner_amount p) (ir_amount i) \<and>
        normalized_status e (pr_partner_status p) = ns \<and> normalized_status e (ir_status i) = ns)"

lemma pair_status_matched:
  assumes "normalized_status e (ir_status i) \<noteq> NS_PENDING" and "ns \<noteq> NS_PENDING"
  shows "pair_status e (Some p) (Some i) = matched_status ns \<longleftrightarrow>
    dec_eq (pr_partner_amount p) (ir_amount i) \<and>
    normalized_status e (pr_partner_status p) = ns \<and> normalized_status e (ir_status i) = ns"
  using assms
  by (cases "normalized_status e (ir_status i)"; cases "normalized_status e (pr_partner_status p)";
      cases ns) (auto simp: Let_def)

lemma evidence_agrees:
  assumes "v \<in> set (evidence_rows e mp t it)" and "ns \<noteq> NS_PENDING"
  shows "ev_status v = matched_status ns \<longleftrightarrow> agree_on e mp t it ns v"
proof (cases "ev_key v")
  case None
  with assms(1) have "ev_status v = RS_UNMAPPED_SKIPPED"
    by (auto simp: evidence_rows_def in_evidence evidence_simps)
  with None show ?thesis by (cases ns) (auto simp: agree_on_def)
next
  case (Some k)
  let ?pg = "partner_group e mp t k" and ?ig = "internal_group e mp t it k"
  have st: "ev_status v = (if is_ambiguous ?pg ?ig then RS_AMBIGUOUS_KEY
      else pair_status e (the_only ?pg) (the_only ?ig))"
    using assms(1) Some
    by (auto simp: evidence_rows_def in_evidence evidence_simps partner_group_def internal_group_def)
  show ?thesis
  proof (cases "\<exists>p i. ?pg = [p] \<and> ?ig = [i]")
    case True
    then obtain p i where pi: "?pg = [p]" "?ig = [i]" by blast
    have "normalized_status e (ir_status i) \<noteq> NS_PENDING"
      by (rule internal_group_eligible [of i e mp t it k]) (simp add: pi)
    from pair_status_matched [OF this assms(2)] show ?thesis
      using pi Some by (simp add: st is_ambiguous_def the_only_def agree_on_def)
  next
    case False
    then have "the_only ?pg = None \<or> the_only ?ig = None"
      by (auto simp: the_only_def split: list.splits)
    then have "ev_status v \<noteq> matched_status ns"
      unfolding st by (cases "the_only ?pg"; cases "the_only ?ig"; cases ns) auto
    with False Some show ?thesis by (auto simp: agree_on_def)
  qed
qed

text \<open>The key column of a row is never NULL.\<close>

lemma coalesce_total: "coalesce xs = None \<longleftrightarrow> set xs \<subseteq> {None}"
  by (induction xs rule: coalesce.induct) auto

lemma key_row_named:
  assumes "k \<in> set (key_space e ps is)"
  shows "ev_partner_txn_id (key_row e tol ps is k) \<noteq> None"
proof (cases "is_ambiguous (rows_of (partner_key e) k ps) (rows_of internal_key k is)")
  case False
  then have "length (rows_of (partner_key e) k ps) \<le> 1" "length (rows_of internal_key k is) \<le> 1"
    by (simp_all add: is_ambiguous_def not_less)
  from short_the_only [OF this(1)] short_the_only [OF this(2)] assms
  have "the_only (rows_of (partner_key e) k ps) \<noteq> None \<or> the_only (rows_of internal_key k is) \<noteq> None"
    by (simp only: in_key_space)
  moreover have "ev_partner_txn_id (one_to_one_row e tol k p i) \<noteq> None" if "p \<noteq> None \<or> i \<noteq> None" for p i
    using that by (simp only: one_to_one_row_def evidence.simps coalesce_total) auto
  ultimately show ?thesis
    using False by (simp only: key_row_def Let_def if_False not_False_eq_True)
qed (simp add: key_row_def Let_def ambiguous_row_def)

lemma evidence_named: "v \<in> set (evidence_rows e mp t it) \<Longrightarrow> ev_partner_txn_id v \<noteq> None"
  unfolding evidence_rows_def in_evidence
  by (elim disjE bexE conjE)
    (simp_all only: key_row_named unmapped_partner_def unmapped_internal_def evidence.simps
      coalesce_total list.set, simp_all)

end
