(* ===== verification/ReconcileProps.thy ===== *)
theory ReconcileProps
  imports MatchingProps
begin

text \<open>
  Guarantees of one reconciliation run on the result table: what it replaces and what it keeps,
  that running it again changes nothing but ids and times, and how it fails.
\<close>

section \<open>Column limits\<close>

lemma length_utf8_chars: "length (utf8_chars s) \<le> length s"
  by (induction s) (auto split: list.splits)

lemma varchar_short: "int (length s) \<le> n \<Longrightarrow> varchar n s = Some s"
  using length_utf8_chars [of s] by (simp add: varchar_def Let_def)

lemma length_strip_front_le: "length (strip_front ws s) \<le> length s"
proof (induction ws s rule: strip_front.induct)
  case (1 ws s)
  show ?case
  proof (cases "drop_first_prefix ws s")
    case (Some t)
    with 1 [OF Some] drop_first_prefix_shorter [OF Some] show ?thesis
      by (simp add: strip_front.simps [of ws s])
  qed (simp add: strip_front.simps)
qed

lemma length_strip_with: "length (strip_with ws s) \<le> length s"
  using length_strip_front_le [of "map rev ws" "rev (strip_front ws s)"] length_strip_front_le [of ws s]
  by (simp add: strip_with_def)

lemma length_hex_body: "length (hex_body s) \<le> length s"
  using length_strip_with [of py_whitespace s]
  by (auto simp: hex_body_def Let_def py_strip_def intro: diff_le_self order_trans)

lemma parse_uuid_short: "parse_uuid s = Some u \<Longrightarrow> length u \<le> 60"
proof -
  assume "parse_uuid s = Some u"
  then obtain h x where h: "length h = 32" "hex_int h = Some x"
    and u: "u = take 8 x @ ''-'' @ take 4 (drop 8 x) @ ''-'' @ take 4 (drop 12 x) @ ''-'' @
      take 4 (drop 16 x) @ ''-'' @ drop 20 x"
    by (auto simp: parse_uuid_def Let_def split: if_splits)
  have "length (ascii_lower (filter hex_digit (hex_body h))) \<le> 32"
    using order_trans [OF length_filter_le length_hex_body, of hex_digit h] h(1)
    by (simp add: ascii_lower_def)
  then have "length x = 32" using h(2) by (auto simp: hex_int_def Let_def split: if_splits)
  then show "length u \<le> 60" by (simp add: u)
qed

section \<open>Inserted rows\<close>

text \<open>A row without the parts that every run draws anew.\<close>

definition strip_row :: "result_row \<Rightarrow> result_row" where
  "strip_row r = r\<lparr>rr_id := [], rr_created_at := 0\<rparr>"

lemma result_of_strip:
  "map_option strip_row (result_of mp raw now (x, v)) = map_option strip_row (result_of mp raw now' (x', v))"
  by (auto simp: result_of_def Let_def strip_row_def split: option.splits)

lemma those_strip:
  assumes "length xs = length vs" and "length ys = length vs"
  shows "map_option (map strip_row) (those (map (result_of mp raw now) (zip xs vs)))
    = map_option (map strip_row) (those (map (result_of mp raw now') (zip ys vs)))"
  using assms
proof (induction vs arbitrary: xs ys)
  case (Cons v vs)
  then obtain x xs' y ys' where *: "xs = x # xs'" "ys = y # ys'"
    "length xs' = length vs" "length ys' = length vs"
    by (metis length_Suc_conv)
  have "map_option strip_row (result_of mp raw now (x, v))
      = map_option strip_row (result_of mp raw now' (y, v))"
    by (rule result_of_strip)
  with Cons.IH [OF *(3,4)] * show ?case
    by (cases "result_of mp raw now (x, v)"; cases "result_of mp raw now' (y, v)";
        cases "those (map (result_of mp raw now) (zip xs' vs))";
        cases "those (map (result_of mp raw now') (zip ys' vs))") simp_all
qed simp

lemma inserted_strip:
  "map_option (map strip_row) (inserted_rows e mp t it ids now)
     = map_option (map strip_row) (inserted_rows e mp t it ids' now')"
  by (simp add: inserted_rows_def Let_def those_strip)

lemma those_elem: "those xs = Some ys \<Longrightarrow> y \<in> set ys \<Longrightarrow> Some y \<in> set xs"
  by (induction xs arbitrary: ys) (auto split: option.splits)

lemma those_length: "those xs = Some ys \<Longrightarrow> length ys = length xs"
  by (induction xs arbitrary: ys) (auto split: option.splits)

lemma those_None: "None \<in> set xs \<Longrightarrow> those xs = None"
  by (induction xs) (auto split: option.splits)

lemma inserted_elem:
  assumes "inserted_rows e mp t it ids now = Some new" and "r \<in> set new"
  obtains x v where "v \<in> set (evidence_rows e mp t it)"
    and "result_of mp (partner_raw mp t) now (x, v) = Some r"
proof -
  from assms have "Some r \<in> set (map (result_of mp (partner_raw mp t) now)
      (zip (map ids [0..<length (evidence_rows e mp t it)]) (evidence_rows e mp t it)))"
    by (auto simp: inserted_rows_def Let_def dest: those_elem)
  then obtain x v where "(x, v) \<in> set (zip (map ids [0..<length (evidence_rows e mp t it)])
      (evidence_rows e mp t it))" "result_of mp (partner_raw mp t) now (x, v) = Some r"
    by (metis (no_types, lifting) imageE list.set_map surj_pair)
  then show thesis by (intro that) (erule set_zip_rightD)
qed

lemma those_map_fields:
  "those (map f xs) = Some ys \<Longrightarrow> (\<And>x y. f x = Some y \<Longrightarrow> g y = h x) \<Longrightarrow> map g ys = map h xs"
  by (induction xs arbitrary: ys) (auto split: option.splits)

text \<open>One value that does not fit refuses all rows.\<close>

lemma unfit_evidence:
  assumes "v \<in> set (evidence_rows e mp t it)" and "varchar_null 255 (ev_key v) = None"
  shows "inserted_rows e mp t it ids now = None"
proof -
  let ?ev = "evidence_rows e mp t it"
  obtain n where n: "n < length ?ev" "?ev ! n = v" using assms(1) by (auto simp: in_set_conv_nth)
  then have "(ids n, v) \<in> set (zip (map ids [0..<length ?ev]) ?ev)"
    by (auto simp: set_zip intro!: exI [of _ n])
  moreover have "result_of mp (partner_raw mp t) now (ids n, v) = None"
    using assms(2) by (auto simp: result_of_def Let_def split: option.splits)
  ultimately have "None \<in> set (map (result_of mp (partner_raw mp t) now)
      (zip (map ids [0..<length ?ev]) ?ev))"
    by (auto simp: image_iff intro: bexI [rotated])
  then show ?thesis by (simp add: inserted_rows_def Let_def those_None)
qed

lemma inserted_length:
  "inserted_rows e mp t it ids now = Some new \<Longrightarrow> length new = length (evidence_rows e mp t it)"
  by (auto simp: inserted_rows_def Let_def dest: those_length)

lemma result_fields:
  assumes "result_of mp raw now (x, v) = Some r"
  shows "day_row mp r" and "rr_status r = ev_status v"
    and "varchar_null 255 (evidence_file mp raw v) = Some (rr_source_file_id r)"
    and "Option.bind (ev_partner_txn_id v) (varchar 255) = Some (rr_partner_txn_id r)"
    and "varchar_null 255 (ev_key v) = Some (rr_key r)"
  using assms by (auto simp: result_of_def Let_def day_row_def split: option.splits if_splits)

lemma inserted_statuses:
  assumes "inserted_rows e mp t it ids now = Some new"
  shows "map rr_status new = map ev_status (evidence_rows e mp t it)"
proof -
  let ?ev = "evidence_rows e mp t it"
  have "map rr_status new = map (\<lambda>x. ev_status (snd x)) (zip (map ids [0..<length ?ev]) ?ev)"
    using assms unfolding inserted_rows_def Let_def
    by (rule those_map_fields) (metis prod.collapse result_fields(2))
  also have "\<dots> = map ev_status (map snd (zip (map ids [0..<length ?ev]) ?ev))"
    by (simp only: map_map o_def)
  finally show ?thesis by simp
qed

lemma inserted_day:
  "inserted_rows e mp t it ids now = Some new \<Longrightarrow> r \<in> set new \<Longrightarrow> day_row mp r"
  by (erule (1) inserted_elem) (rule result_fields(1))

section \<open>The file of a scoped run\<close>

definition canonical_file :: "match_params \<Rightarrow> bool" where
  "canonical_file mp \<longleftrightarrow>
     (str_truthy (mp_source_file_id mp) \<longrightarrow>
        Option.bind (mp_source_file_id mp) parse_uuid = mp_source_file_id mp)"

lemma with_uuid_fields:
  assumes "with_uuid mp = Some mp'"
  shows "mp' = mp\<lparr>mp_file_uuid := mp_file_uuid mp'\<rparr>"
    and "str_truthy (mp_source_file_id mp) \<Longrightarrow> canonical_file mp \<Longrightarrow>
      mp_file_uuid mp' = mp_source_file_id mp"
  using assms by (auto simp: with_uuid_def canonical_file_def split: if_splits)

lemma canonical_varchar:
  assumes "canonical_file mp" and "str_truthy (mp_source_file_id mp)"
  shows "varchar_null 255 (mp_source_file_id mp) = Some (mp_source_file_id mp)"
proof -
  obtain s where s: "mp_source_file_id mp = Some s" using assms(2) by (auto simp: str_truthy_iff)
  with assms have "parse_uuid s = Some s" by (simp add: canonical_file_def)
  then have "length s \<le> 60" by (rule parse_uuid_short)
  then show ?thesis by (simp add: s varchar_null_def varchar_short)
qed

lemma scoped_evidence_file:
  assumes "mp_file_uuid mp = mp_source_file_id mp" and "mp_source_file_id mp = Some s"
  shows "evidence_file mp (partner_raw mp t) v = mp_source_file_id mp"
proof (cases "List.find (\<lambda>p. Some (pr_id p) = ev_partner_record_id v) (partner_raw mp t)")
  case (Some p)
  from find_Some_set [OF Some] have "pr_source_file_id p = s"
    using assms by (simp add: partner_raw_def)
  with Some assms show ?thesis by (simp add: evidence_file_def)
qed (use assms in \<open>simp add: evidence_file_def\<close>)

lemma new_rows_deleted:
  assumes "inserted_rows e mp t it ids now = Some new" and "r \<in> set new"
    and "str_truthy (mp_source_file_id mp) \<Longrightarrow>
      mp_file_uuid mp = mp_source_file_id mp \<and> canonical_file mp"
  shows "delete_filter e mp t' r"
proof -
  obtain x v where v: "result_of mp (partner_raw mp t) now (x, v) = Some r"
    using assms(1,2) by (rule inserted_elem)
  have "rr_source_file_id r = mp_source_file_id mp" if T: "str_truthy (mp_source_file_id mp)"
  proof -
    from T obtain s where s: "mp_source_file_id mp = Some s" by (auto simp: str_truthy_iff)
    from assms(3) [OF T] s have "evidence_file mp (partner_raw mp t) v = mp_source_file_id mp"
      by (intro scoped_evidence_file) auto
    with result_fields(3) [OF v] canonical_varchar [OF _ T] assms(3) [OF T] show ?thesis by simp
  qed
  then show ?thesis using result_fields(1) [OF v] by (simp add: delete_filter_def)
qed

section \<open>Running again\<close>

lemma filter_none: "(\<And>x. x \<in> set xs \<Longrightarrow> P x) \<Longrightarrow> filter (\<lambda>x. \<not> P x) xs = []"
  by (simp add: filter_empty_conv)

lemma transaction_repeats:
  assumes "run_transaction e mp t it ids now tab = Some tab'"
    and "str_truthy (mp_source_file_id mp) \<Longrightarrow>
      mp_file_uuid mp = mp_source_file_id mp \<and> canonical_file mp"
  obtains tab'' where "run_transaction e mp t it ids' now' tab' = Some tab''"
    and "map strip_row tab'' = map strip_row tab'"
proof -
  let ?keep = "\<lambda>r. \<not> delete_filter e mp t r"
  from assms(1) obtain new where new: "inserted_rows e mp t it ids now = Some new"
    and tab': "tab' = filter ?keep tab @ new" by (auto simp: run_transaction_def)
  from new inserted_strip [of e mp t it ids now ids' now'] obtain new'
    where new': "inserted_rows e mp t it ids' now' = Some new'"
      "map strip_row new' = map strip_row new"
    by (cases "inserted_rows e mp t it ids' now'") auto
  have "filter ?keep new = []"
    using new_rows_deleted [OF new _ assms(2)] by (intro filter_none) blast
  then have "filter ?keep tab' = filter ?keep tab" by (simp add: tab')
  with new' have "run_transaction e mp t it ids' now' tab' = Some (filter ?keep tab @ new')"
    by (simp add: run_transaction_def)
  moreover have "map strip_row (filter ?keep tab @ new') = map strip_row tab'"
    using new'(2) by (simp add: tab')
  ultimately show thesis by (rule that)
qed

lemma transaction_keeps_other_days:
  assumes "run_transaction e mp t it ids now tab = Some tab'"
  shows "filter (\<lambda>r. \<not> day_row mp r) tab' = filter (\<lambda>r. \<not> day_row mp r) tab"
proof -
  from assms obtain new where new: "inserted_rows e mp t it ids now = Some new"
    and tab': "tab' = filter (\<lambda>r. \<not> delete_filter e mp t r) tab @ new"
    by (auto simp: run_transaction_def)
  have "filter (\<lambda>r. \<not> day_row mp r) new = []"
    using inserted_day [OF new] by (intro filter_none)
  moreover have "filter (\<lambda>r. \<not> day_row mp r \<and> \<not> delete_filter e mp t r) tab
      = filter (\<lambda>r. \<not> day_row mp r) tab"
    by (rule filter_cong) (auto simp: delete_filter_def)
  ultimately show ?thesis by (simp add: tab' conj_commute)
qed

lemma whole_day_filter:
  "\<not> str_truthy (mp_source_file_id mp) \<or> mp_scope mp = SC_FULL_SNAPSHOT \<Longrightarrow>
     delete_filter e mp t r \<longleftrightarrow> day_row mp r"
  by (auto simp: delete_filter_def)

lemma whole_day_replaced:
  assumes "run_transaction e mp t it ids now tab = Some tab'"
    and "\<not> str_truthy (mp_source_file_id mp) \<or> mp_scope mp = SC_FULL_SNAPSHOT"
  shows "inserted_rows e mp t it ids now = Some (filter (day_row mp) tab')"
proof -
  from assms(1) obtain new where new: "inserted_rows e mp t it ids now = Some new"
    and tab': "tab' = filter (\<lambda>r. \<not> delete_filter e mp t r) tab @ new"
    by (auto simp: run_transaction_def)
  have "filter (day_row mp) new = new"
    using inserted_day [OF new] by (simp add: filter_id_conv)
  moreover have "filter (\<lambda>r. day_row mp r \<and> \<not> delete_filter e mp t r) tab = []"
    by (simp add: filter_empty_conv whole_day_filter [OF assms(2)])
  ultimately have "filter (day_row mp) tab' = new" by (simp add: tab' conj_commute)
  with new show ?thesis by simp
qed

end
