(* ===== verification/ReconcileGuarantees.thy ===== *)
theory ReconcileGuarantees
  imports ReconcileProps
begin

text \<open>The properties of reconciliation matching, with their witnesses on a small day.\<close>

section \<open>A small day\<close>

definition demo_sql :: sql_env where
  "demo_sql = \<lparr>sq_lower = ascii_lower, sq_collate = (\<lambda>s. s), sq_json = (\<lambda>_. [])\<rparr>"

definition demo_file :: "char \<Rightarrow> uuid" where
  "demo_file c =
     replicate 8 c @ ''-'' @ replicate 4 c @ ''-'' @ replicate 4 c @ ''-'' @ replicate 4 c @ ''-'' @
     replicate 12 c"

definition demo_partner :: "char \<Rightarrow> char \<Rightarrow> string \<Rightarrow> string \<Rightarrow> partner_row" where
  "demo_partner x f key status =
     \<lparr>pr_id = demo_file x, pr_request_id = demo_file CHR ''a'', pr_identify = ''MOMO'',
      pr_workflow_type = ''W'', pr_reconciliation_date = 0, pr_operation_status = [],
      pr_reconciliation_status = [], pr_connector_data = [], pr_extra_data = [],
      pr_source_file_id = demo_file f, pr_ingestion_key = [x], pr_partner_id = key,
      pr_partner_trace = None, pr_partner_status = status, pr_partner_amount = Decimal 500000 (- 4),
      pr_partner_currency = ''VND'', pr_partner_trans_date = Some 0,
      pr_timestamp_basis = ''CANONICAL_UTC'', pr_partner_metadata = [], pr_created_by = ''system'',
      pr_created_date = 0, pr_last_modified_by = ''system'', pr_last_modified_date = 0\<rparr>"

definition demo_internal :: "string \<Rightarrow> string \<Rightarrow> string \<Rightarrow> internal_row" where
  "demo_internal x key status =
     \<lparr>ir_id = x, ir_partner = ''MOMO'', ir_partner_txn_id = key, ir_amount = Decimal 50 0,
      ir_currency = ''VND'', ir_status = status, ir_transaction_time = 0, ir_created_at = 0,
      ir_updated_at = 0\<rparr>"

definition demo_params :: "char \<Rightarrow> scope_type \<Rightarrow> match_params" where
  "demo_params f sc =
     \<lparr>mp_partner = ''MOMO'', mp_date = ''1970-01-01'', mp_start = - 100, mp_end = 100,
      mp_run_id = None, mp_source_file_id = Some (demo_file f), mp_file_uuid = Some (demo_file f),
      mp_scope = sc, mp_mapping_version = None, mp_tolerance = 300, mp_timezone = ''UTC''\<rparr>"

definition demo_ids :: "nat \<Rightarrow> uuid" where
  "demo_ids n = nat_text n"

text \<open>The first file holds \<open>A\<close>, a later one \<open>B\<close>; the internal side wrote the second with a blank.\<close>

definition demo_partners :: partner_table where
  "demo_partners = [demo_partner CHR ''1'' CHR ''e'' ''A'' ''SUCCESS'',
     demo_partner CHR ''2'' CHR ''f'' ''B'' ''SUCCESS'']"

definition demo_internals :: internal_table where
  "demo_internals = [demo_internal ''i1'' ''A'' ''Success'', demo_internal ''i2'' '' B'' ''SUCCESS'',
     demo_internal ''i3'' ''C'' ''PENDING'']"

section \<open>Properties\<close>

text \<open>C3: The matching of a day loses no row and repeats none: with distinct primary keys, every
  partner row is named by exactly one evidence row when it is in the scope of the run and by none
  otherwise, the same holds for every internal row with a decided status, and the internal rows in
  scope that are not matched are exactly the ones counted as excluded.\<close>

theorem matching_accounts_for_every_row:
  assumes "distinct (map pr_id t)" and "distinct (map ir_id it)"
    and "p \<in> set t" and "i \<in> set it"
  shows "length (filter (\<lambda>v. pr_id p \<in> partner_ids v) (evidence_rows e mp t it))
      = (if p \<in> set (partner_raw mp t) then 1 else 0) \<and>
    length (filter (\<lambda>v. ir_id i \<in> internal_ids v) (evidence_rows e mp t it))
      = (if i \<in> set (internal_eligible e mp t it) then 1 else 0) \<and>
    length (internal_raw e mp t it)
      = length (internal_eligible e mp t it) + excluded_internal e mp t it"
proof (intro conjI)
  let ?ps = "partner_raw mp t" and ?is = "internal_eligible e mp t it"
  have d: "distinct (map pr_id ?ps)" "distinct (map ir_id ?is)"
    using assms(1,2)
    by (simp_all add: partner_raw_def internal_eligible_def internal_raw_def distinct_map_filter)
  have sub: "set ?ps \<subseteq> set t" "set ?is \<subseteq> set it"
    by (auto simp: partner_raw_def internal_eligible_def internal_raw_def)
  show "length (filter (\<lambda>v. pr_id p \<in> partner_ids v) (evidence_rows e mp t it)) = (if p \<in> set ?ps then 1 else 0)"
  proof (cases "p \<in> set ?ps")
    case True
    then show ?thesis by (simp add: evidence_rows_def partner_evidence_count [OF d(1)])
  next
    case False
    then have "pr_id p \<notin> pr_id ` set ?ps"
      using assms(1,3) sub(1) by (auto simp: distinct_map dest: inj_onD)
    from count_outside [OF this evidence_ids(1)] False show ?thesis by (simp add: evidence_rows_def)
  qed
  show "length (filter (\<lambda>v. ir_id i \<in> internal_ids v) (evidence_rows e mp t it)) = (if i \<in> set ?is then 1 else 0)"
  proof (cases "i \<in> set ?is")
    case True
    then show ?thesis by (simp add: evidence_rows_def internal_evidence_count [OF d(2)])
  next
    case False
    then have "ir_id i \<notin> ir_id ` set ?is"
      using assms(2,4) sub(2) by (auto simp: distinct_map dest: inj_onD)
    from count_outside [OF this evidence_ids(2)] False show ?thesis by (simp add: evidence_rows_def)
  qed
qed (rule excluded_agrees)

lemma demo_day:
  "distinct (map pr_id demo_partners)" "distinct (map ir_id demo_internals)"
  "hd demo_partners \<in> set demo_partners" "hd demo_internals \<in> set demo_internals"
  "length (evidence_rows demo_sql (demo_params CHR ''e'' SC_FULL_SNAPSHOT) demo_partners
     demo_internals) = 2"
  "hd demo_partners \<in> set (partner_raw (demo_params CHR ''e'' SC_FULL_SNAPSHOT) demo_partners)"
  by code_simp+

theorem matching_accounts_for_every_row_witness:
  "length (filter (\<lambda>v. pr_id (hd demo_partners) \<in> partner_ids v)
     (evidence_rows demo_sql (demo_params CHR ''e'' SC_FULL_SNAPSHOT) demo_partners
        demo_internals)) = 1"
  using matching_accounts_for_every_row [OF demo_day(1-4), of demo_sql
      "demo_params CHR ''e'' SC_FULL_SNAPSHOT"]
  by (simp add: demo_day)

text \<open>C7: A day row says matched exactly when it is true: an evidence row has the status MATCHED
  (MATCHED_FAILED, MATCHED_REVERSED) if and only if its key has one partner row and one decided
  internal row in scope, their amounts are equal as numbers and both statuses read as success
  (failed, reversed). In particular a pending partner row is never reported as matched.\<close>

theorem matched_means_equal:
  assumes "v \<in> set (evidence_rows e mp t it)"
  shows "(ev_status v = RS_MATCHED \<longleftrightarrow> agree_on e mp t it NS_SUCCESS v) \<and>
    (ev_status v = RS_MATCHED_FAILED \<longleftrightarrow> agree_on e mp t it NS_FAILED v) \<and>
    (ev_status v = RS_MATCHED_REVERSED \<longleftrightarrow> agree_on e mp t it NS_REVERSED v)"
  using evidence_agrees [OF assms, of NS_SUCCESS] evidence_agrees [OF assms, of NS_FAILED]
    evidence_agrees [OF assms, of NS_REVERSED]
  by simp

lemma demo_matched:
  "hd (evidence_rows demo_sql (demo_params CHR ''e'' SC_FULL_SNAPSHOT) demo_partners demo_internals)
     \<in> set (evidence_rows demo_sql (demo_params CHR ''e'' SC_FULL_SNAPSHOT) demo_partners demo_internals)"
  "ev_status (hd (evidence_rows demo_sql (demo_params CHR ''e'' SC_FULL_SNAPSHOT) demo_partners
     demo_internals)) = RS_MATCHED"
  by code_simp+

theorem matched_means_equal_witness:
  "agree_on demo_sql (demo_params CHR ''e'' SC_FULL_SNAPSHOT) demo_partners demo_internals NS_SUCCESS
     (hd (evidence_rows demo_sql (demo_params CHR ''e'' SC_FULL_SNAPSHOT) demo_partners demo_internals))"
  using matched_means_equal [OF demo_matched(1)] demo_matched(2) by blast

text \<open>C21: Reconciling again is idempotent: when a run with a canonical source file id, or without
  one, has succeeded, a second run with the same arguments on the resulting table succeeds too and
  leaves the same rows in the same order, apart from row ids and creation times.\<close>

theorem rerun_is_idempotent:
  assumes "canonical_file mp"
    and "reconcile_execute e mp t it ids now tab = (Inr out, tab')"
  shows "\<exists>out' tab''. reconcile_execute e mp t it ids' now' tab' = (Inr out', tab'') \<and>
    map strip_row tab'' = map strip_row tab'"
proof -
  from assms(2) obtain mp' where mp': "with_uuid mp = Some mp'"
    and run: "run_transaction e mp' t it ids now tab = Some tab'"
    by (auto simp: reconcile_execute_def Let_def split: option.splits)
  have eq: "mp_source_file_id mp' = mp_source_file_id mp"
    by (subst with_uuid_fields(1) [OF mp']) simp
  have "mp_file_uuid mp' = mp_source_file_id mp' \<and> canonical_file mp'"
    if "str_truthy (mp_source_file_id mp')"
    using with_uuid_fields(2) [OF mp'] that assms(1) by (simp add: eq canonical_file_def)
  from transaction_repeats [OF run this] obtain tab''
    where "run_transaction e mp' t it ids' now' tab' = Some tab''"
      "map strip_row tab'' = map strip_row tab'" by blast
  then show ?thesis by (simp add: reconcile_execute_def mp' Let_def)
qed

definition run_demo :: "char \<Rightarrow> scope_type \<Rightarrow> datetime \<Rightarrow> result_table \<Rightarrow> result_table" where
  "run_demo f sc now tab =
     snd (reconcile_execute demo_sql (demo_params f sc) demo_partners demo_internals demo_ids now tab)"

lemma demo_first_run:
  "canonical_file (demo_params CHR ''f'' SC_INCREMENTAL_APPEND)"
  "isl (fst (reconcile_execute demo_sql (demo_params CHR ''f'' SC_INCREMENTAL_APPEND) demo_partners
     demo_internals demo_ids 0 [])) = False"
  by code_simp+

lemma run_demo_result:
  assumes "isl (fst (reconcile_execute demo_sql (demo_params f sc) demo_partners demo_internals demo_ids now tab)) = False"
  obtains out where "reconcile_execute demo_sql (demo_params f sc) demo_partners demo_internals demo_ids now tab
    = (Inr out, run_demo f sc now tab)"
  using assms unfolding run_demo_def
  by (cases "reconcile_execute demo_sql (demo_params f sc) demo_partners demo_internals demo_ids now tab";
      cases "fst (reconcile_execute demo_sql (demo_params f sc) demo_partners demo_internals demo_ids now tab)")
    auto

theorem rerun_is_idempotent_witness:
  "map strip_row (run_demo CHR ''f'' SC_INCREMENTAL_APPEND 9 (run_demo CHR ''f'' SC_INCREMENTAL_APPEND 0 []))
     = map strip_row (run_demo CHR ''f'' SC_INCREMENTAL_APPEND 0 [])"
proof -
  obtain out where "reconcile_execute demo_sql (demo_params CHR ''f'' SC_INCREMENTAL_APPEND) demo_partners
      demo_internals demo_ids 0 [] = (Inr out, run_demo CHR ''f'' SC_INCREMENTAL_APPEND 0 [])"
    using demo_first_run(2) by (rule run_demo_result)
  from rerun_is_idempotent [OF demo_first_run(1) this, of demo_ids 9] show ?thesis
    by (auto simp: run_demo_def)
qed

text \<open>A run only touches its own partner and date, and a run without a file or for a full
  snapshot replaces that day completely: the rows of other days stay as they were; a failed run
  changes nothing; after a successful one the day holds one row per evidence row.\<close>

theorem run_replaces_only_its_day:
  "(case reconcile_execute e mp t it ids now tab of
      (Inl _, tab') \<Rightarrow> tab' = tab
    | (Inr _, tab') \<Rightarrow>
        filter (\<lambda>r. \<not> day_row mp r) tab' = filter (\<lambda>r. \<not> day_row mp r) tab \<and>
        (if str_truthy (mp_source_file_id mp) \<and> mp_scope mp \<noteq> SC_FULL_SNAPSHOT then True
         else map rr_status (filter (day_row mp) tab')
           = map ev_status (evidence_rows e (case with_uuid mp of None \<Rightarrow> mp | Some mp' \<Rightarrow> mp') t it)))"
proof (cases "with_uuid mp")
  case None
  then show ?thesis by (simp add: reconcile_execute_def)
next
  case (Some mp')
  have mp': "mp' = mp\<lparr>mp_file_uuid := mp_file_uuid mp'\<rparr>" by (rule with_uuid_fields(1) [OF Some])
  have day: "day_row mp' = day_row mp"
    by (subst mp') (simp add: day_row_def fun_eq_iff)
  have eq: "mp_source_file_id mp' = mp_source_file_id mp" "mp_scope mp' = mp_scope mp"
    by (subst mp', simp)+
  show ?thesis
  proof (cases "run_transaction e mp' t it ids now tab")
    case None
    with Some show ?thesis by (simp add: reconcile_execute_def)
  next
    case (Some tab')
    have "map rr_status (filter (day_row mp) tab') = map ev_status (evidence_rows e mp' t it)"
      if "\<not> (str_truthy (mp_source_file_id mp) \<and> mp_scope mp \<noteq> SC_FULL_SNAPSHOT)"
    proof -
      have "inserted_rows e mp' t it ids now = Some (filter (day_row mp) tab')"
        using whole_day_replaced [OF Some] that by (simp add: eq day)
      then show ?thesis by (rule inserted_statuses)
    qed
    with transaction_keeps_other_days [OF Some] \<open>with_uuid mp = Some mp'\<close> Some show ?thesis
      by (simp add: reconcile_execute_def Let_def day)
  qed
qed

text \<open>One key that does not fit its column stops the reconciliation of the whole partner and
  date: when any key in scope is longer than 255 characters (the metadata column it may come from
  has no limit), the run raises and the table stays as it was.\<close>

theorem oversized_key_blocks_the_day:
  assumes "with_uuid mp0 = Some mp" and "p \<in> set (partner_raw mp t)"
    and "partner_key e p = Some k" and "varchar 255 k = None"
  shows "reconcile_execute e mp0 t it ids now tab = (Inl Constraint_Violation, tab)"
proof -
  let ?is = "internal_eligible e mp t it"
  have "k \<in> set (key_space e (partner_raw mp t) ?is)"
    using assms(2,3) by (auto simp: in_key_space rows_of_def filter_empty_conv)
  then have "key_row e (mp_tolerance mp) (partner_raw mp t) ?is k \<in> set (evidence_rows e mp t it)"
    by (auto simp: evidence_rows_def in_evidence)
  moreover have "varchar_null 255 (ev_key (key_row e (mp_tolerance mp) (partner_raw mp t) ?is k)) = None"
    using assms(4) by (simp add: evidence_simps varchar_null_def)
  ultimately have "inserted_rows e mp t it ids now = None" by (rule unfit_evidence)
  then show ?thesis by (simp add: reconcile_execute_def assms(1) run_transaction_def)
qed

definition demo_long :: partner_row where
  "demo_long = demo_partner CHR ''3'' CHR ''f'' (replicate 256 CHR ''k'') ''SUCCESS''"

lemma demo_long_facts:
  "with_uuid (demo_params CHR ''f'' SC_FULL_SNAPSHOT) = Some (demo_params CHR ''f'' SC_FULL_SNAPSHOT)"
  "demo_long \<in> set (partner_raw (demo_params CHR ''f'' SC_FULL_SNAPSHOT) (demo_long # demo_partners))"
  "partner_key demo_sql demo_long = Some (replicate 256 CHR ''k'')"
  "varchar 255 (replicate 256 CHR ''k'') = None"
  by code_simp+

theorem oversized_key_blocks_the_day_witness:
  "reconcile_execute demo_sql (demo_params CHR ''f'' SC_FULL_SNAPSHOT) (demo_long # demo_partners)
     demo_internals demo_ids 0 [] = (Inl Constraint_Violation, [])"
  by (rule oversized_key_blocks_the_day [OF demo_long_facts])

text \<open>Evidence of an untrimmed internal id outlives the match that disproves it: in the small
  day, the first file reports the internal transaction \<open>B\<close> as missing at the partner under its
  stored text with a leading blank; the append of the file that holds \<open>B\<close> deletes by the trimmed
  key, so the day ends with a MISSING\_PARTNER and a MATCHED row for the same internal record.\<close>

theorem append_keeps_stale_missing_partner:
  "map (\<lambda>r. (rr_internal_record_id r, rr_status r))
     (run_demo CHR ''f'' SC_INCREMENTAL_APPEND 1 (run_demo CHR ''e'' SC_FULL_SNAPSHOT 0 []))
   = [(Some ''i1'', RS_MATCHED), (Some ''i2'', RS_MISSING_PARTNER), (Some ''i2'', RS_MATCHED)]"
  by code_simp

end
