(* ===== verification/Scope.thy ===== *)
theory Scope
  imports ReconcileRun
begin

text \<open>
  How a run finds its scope: \<open>src/src/reconciliation/keys.py\<close>,
  \<open>src/src/reconciliation/scope.py\<close>, the business day of \<open>src/src/core/utils.py\<close> and
  \<open>ReconciliationEngine\<close> of \<open>src/src/reconciliation/engine.py\<close>. Counts stay below
  \<open>2 ^ 50\<close>, so that a comparison of a quotient of counts with a decimal constant is that of the
  fractions.
\<close>

section \<open>Keys\<close>

text \<open>\<open>str(candidate).strip()\<close>; \<open>tostr\<close> answers for values that are not text.\<close>

definition stripped_text :: "(pyval \<Rightarrow> string) \<Rightarrow> pyval \<Rightarrow> string" where
  "stripped_text tostr v = py_strip (case v of VStr s \<Rightarrow> s | _ \<Rightarrow> tostr v)"

fun normalize_reconciliation_key :: "(pyval \<Rightarrow> string) \<Rightarrow> pyval list \<Rightarrow> string option" where
  "normalize_reconciliation_key tostr [] = None"
| "normalize_reconciliation_key tostr (c # cs) =
     (if c = VNone \<or> stripped_text tostr c = [] then normalize_reconciliation_key tostr cs
      else Some (stripped_text tostr c))"

definition normalize_reconciliation_keys :: "(pyval \<Rightarrow> string) \<Rightarrow> pyval list \<Rightarrow> string set" where
  "normalize_reconciliation_keys tostr vs =
     set (List.map_filter (\<lambda>v. normalize_reconciliation_key tostr [v]) vs)"

text \<open>\<open>find_reconciliation_keys_by_date_range\<close> of the partner repository.\<close>

definition row_reconciliation_key :: "(pyval \<Rightarrow> string) \<Rightarrow> partner_row \<Rightarrow> string option" where
  "row_reconciliation_key tostr r =
     normalize_reconciliation_key tostr
       [case pr_partner_trace r of None \<Rightarrow> VNone | Some s \<Rightarrow> VStr s,
        dget (pr_partner_metadata r) ''vspTransId'', VStr (pr_partner_id r)]"

definition find_reconciliation_keys_by_date_range ::
  "(pyval \<Rightarrow> string) \<Rightarrow> string \<Rightarrow> py_datetime \<Rightarrow> py_datetime \<Rightarrow> uuid option \<Rightarrow> partner_table
     \<Rightarrow> string set" where
  "find_reconciliation_keys_by_date_range tostr identify start stop exclude t =
     set (List.map_filter (row_reconciliation_key tostr)
       (filter (\<lambda>p. pr_identify p = identify \<and> as_utc_naive start \<le> pr_reconciliation_date p \<and>
                    pr_reconciliation_date p \<le> as_utc_naive stop \<and>
                    (case exclude of None \<Rightarrow> True | Some u \<Rightarrow> pr_source_file_id p \<noteq> u)) t))"

section \<open>Scope from key evidence\<close>

record scope_decision =
  sd_type :: scope_type
  sd_confidence :: pyval
  sd_reasons :: "string list"
  sd_signals :: pydict

text \<open>\<open>str(key).strip()\<close> of the non-blank keys, as a set without repetition.\<close>

definition clean_keys :: "string list \<Rightarrow> string list" where
  "clean_keys ks = remdups (filter (\<lambda>k. k \<noteq> []) (map py_strip ks))"

text \<open>\<open>quot a b\<close> is the float \<open>a / b\<close>, which the signals record and no decision reads.\<close>

definition ratio_signal :: "(nat \<Rightarrow> nat \<Rightarrow> pyval) \<Rightarrow> nat \<Rightarrow> nat \<Rightarrow> pyval" where
  "ratio_signal quot a b = (if b = 0 then VFloat ''0.0'' else quot a b)"

definition scope_signals :: "(nat \<Rightarrow> nat \<Rightarrow> pyval) \<Rightarrow> nat \<Rightarrow> nat \<Rightarrow> nat \<Rightarrow> nat \<Rightarrow> nat \<Rightarrow> pydict" where
  "scope_signals quot inc hist ovl new prior =
     [(''incomingUniqueBusinessKeyCount'', VInt (int inc)),
      (''historicalUniqueBusinessKeyCount'', VInt (int hist)),
      (''overlapBusinessKeyCount'', VInt (int ovl)),
      (''newBusinessKeyCount'', VInt (int new)),
      (''overlapRatio'', ratio_signal quot ovl inc),
      (''historicalCoverage'', ratio_signal quot ovl hist),
      (''newRatio'', ratio_signal quot new inc),
      (''priorFileCount'', VInt (int prior))]"

definition key_scope_of :: "nat \<Rightarrow> nat \<Rightarrow> nat \<Rightarrow> nat \<Rightarrow> nat \<Rightarrow> scope_type \<times> string \<times> string" where
  "key_scope_of inc hist ovl new prior =
     (if inc = 0
      then (SC_UNCONFIRMED, ''0.2'', ''No business keys were available for scope classification.'')
      else if hist = 0
      then (if prior = 0
            then (SC_FULL_SNAPSHOT, ''0.92'', ''No prior same-day partner keys exist; the first delivery is treated as a full snapshot.'')
            else (SC_UNCONFIRMED, ''0.55'', ''Prior files exist, but historical business keys are unavailable for comparison.''))
      else if ovl = 0
      then (SC_INCREMENTAL_APPEND, ''0.98'', ''The file contains only new business keys and no key overlaps the prior same-day deliveries.'')
      else if ovl = hist \<and> 0 < new
      then (SC_REPLACEMENT, ''0.96'', ''The file covers the prior same-day key set and adds new keys, so it supersedes the previous delivery.'')
      else if 4 * inc \<le> 5 * ovl
      then (SC_REPLACEMENT, ''0.86'', ''Most incoming keys overlap prior deliveries, so the file is treated as a replacement candidate.'')
      else if 0 < new \<and> (inc \<le> 2 * new \<or> 2 * ovl < inc)
      then (SC_INCREMENTAL_APPEND, ''0.9'', ''The incoming batch is predominantly new and does not replace the prior same-day key set.'')
      else (SC_UNCONFIRMED, ''0.55'', ''Key overlap is ambiguous; reviewer selection is required.''))"

definition classify_key_scope ::
  "(nat \<Rightarrow> nat \<Rightarrow> pyval) \<Rightarrow> string list \<Rightarrow> string list \<Rightarrow> nat \<Rightarrow> scope_decision" where
  "classify_key_scope quot incoming_keys historical_keys prior =
     (let inc = clean_keys incoming_keys; hist = clean_keys historical_keys;
          ovl = length (filter (\<lambda>k. k \<in> set hist) inc);
          new = length (filter (\<lambda>k. k \<notin> set hist) inc);
          (sc, conf, reason) = key_scope_of (length inc) (length hist) ovl new prior
      in \<lparr>sd_type = sc, sd_confidence = VFloat conf, sd_reasons = [reason],
          sd_signals = scope_signals quot (length inc) (length hist) ovl new prior\<rparr>)"

section \<open>The business day\<close>

text \<open>
  \<open>bz_local\<close> gives the wall clock of the business time zone at a UTC time and \<open>bz_utc\<close> the UTC
  time of a wall clock reading, both in microseconds: the tables of \<open>zoneinfo\<close>.
\<close>

record business_zone =
  bz_local :: "datetime \<Rightarrow> datetime"
  bz_utc :: "datetime \<Rightarrow> datetime"

definition day_usecs :: int where
  "day_usecs = 86400000000"

definition business_date :: "business_zone \<Rightarrow> py_datetime \<Rightarrow> int" where
  "business_date z d = bz_local z (as_utc_naive d) div day_usecs"

definition utc_business_day_bounds :: "business_zone \<Rightarrow> py_datetime \<Rightarrow> datetime \<times> datetime" where
  "utc_business_day_bounds z d =
     (let day = business_date z d
      in (bz_utc z (day * day_usecs), bz_utc z (day * day_usecs + day_usecs - 1)))"

section \<open>Scope without key evidence\<close>

record file_doc =
  fd_partner :: string
  fd_reconciliation_date :: "datetime option"
  fd_scope_type :: pyval

type_synonym file_store = "(string \<times> file_doc) list"

definition same_day_files :: "string \<Rightarrow> datetime option \<Rightarrow> file_store \<Rightarrow> nat" where
  "same_day_files partner date files =
     (case date of
        None \<Rightarrow> 0
      | Some d \<Rightarrow> length (filter (\<lambda>f. fd_partner (snd f) = partner \<and>
                                    fd_reconciliation_date (snd f) = Some d) files))"

definition same_day_internals ::
  "business_zone \<Rightarrow> string \<Rightarrow> datetime option \<Rightarrow> internal_table \<Rightarrow> nat" where
  "same_day_internals z partner date it =
     (case date of
        None \<Rightarrow> 0
      | Some d \<Rightarrow> (let (start, stop) = utc_business_day_bounds z (DT_Utc d)
                   in count_internal_range partner (DT_Utc start) (DT_Utc stop) it))"

definition classify_scope ::
  "business_zone \<Rightarrow> string \<Rightarrow> datetime option \<Rightarrow> scope_type \<Rightarrow> file_store \<Rightarrow> internal_table
     \<Rightarrow> scope_decision" where
  "classify_scope z partner date partner_default files it =
     (let nf = same_day_files partner date files; ni = same_day_internals z partner date it;
          (sc, conf, reasons) =
            (if nf = 0
             then (SC_FULL_SNAPSHOT, ''0.82'',
                   [''No prior same-day partner file exists, so this is treated as the first full snapshot.''])
             else if ni = 0
             then (SC_UNCONFIRMED, ''0.45'',
                   [''Prior files exist but no same-day internal rows are available for comparison.''])
             else (partner_default, if partner_default = SC_UNCONFIRMED then ''0.55'' else ''0.6'',
                   [nat_text nf @ '' file(s) already exist for '' @ partner @
                    '' on this reconciliation date.'',
                    ''Key evidence is required before choosing append, replacement, or snapshot.'']))
      in \<lparr>sd_type = sc, sd_confidence = VFloat conf,
          sd_reasons = reasons @
            (if sc = SC_UNCONFIRMED
             then [''Unconfirmed scope is handled conservatively as file-scoped reconciliation until reviewed.'']
             else []),
          sd_signals = [(''defaultPartnerScope'', VStr (scope_value partner_default)),
                        (''sameDayFileCount'', VInt (int nf)),
                        (''internalDbRecordCount'', VInt (int ni))]\<rparr>)"

section \<open>The engine\<close>

definition scope_of :: "string \<Rightarrow> scope_type option" where
  "scope_of s =
     List.find (\<lambda>c. scope_value c = s)
       [SC_UNCONFIRMED, SC_FULL_SNAPSHOT, SC_INCREMENTAL_APPEND, SC_REPLACEMENT]"

definition resolve_scope_type :: "(pyval \<Rightarrow> string) \<Rightarrow> string option \<Rightarrow> file_store \<Rightarrow> scope_type" where
  "resolve_scope_type tostr source_file_id files =
     (if \<not> str_truthy source_file_id then SC_FULL_SNAPSHOT
      else let raw = (case Option.bind source_file_id (map_of files) of
                        None \<Rightarrow> VNone | Some f \<Rightarrow> fd_scope_type f)
           in if truthy raw
              then (case scope_of (case raw of VStr s \<Rightarrow> s | _ \<Rightarrow> tostr raw) of
                      None \<Rightarrow> SC_UNCONFIRMED | Some c \<Rightarrow> c)
              else SC_FULL_SNAPSHOT)"

record rec_policy =
  rp_tolerance :: int
  rp_timezone :: string

text \<open>
  \<open>find_version\<close> is the lookup of the approved configuration of a version, with its policy;
  \<^const>\<open>None\<close> is an exception, which falls back to the default policy like a missing one.
\<close>

definition resolve_timestamp_policy ::
  "string \<Rightarrow> (string \<Rightarrow> string \<Rightarrow> rec_policy option option) \<Rightarrow> string \<Rightarrow> string option \<Rightarrow> rec_policy" where
  "resolve_timestamp_policy business_zone_name find_version partner version =
     (let fallback = \<lparr>rp_tolerance = 300, rp_timezone = business_zone_name\<rparr>
      in case version of
           Some (c # cs) \<Rightarrow>
             (case find_version partner (c # cs) of
                Some (Some p) \<Rightarrow> p
              | _ \<Rightarrow> fallback)
         | _ \<Rightarrow> fallback)"

record rec_env =
  rn_sql :: sql_env
  rn_tostr :: "pyval \<Rightarrow> string"
  rn_zone :: business_zone
  rn_zone_name :: string
  rn_date_text :: "int \<Rightarrow> string"
  rn_find_version :: "string \<Rightarrow> string \<Rightarrow> rec_policy option option"

definition engine_params ::
  "rec_env \<Rightarrow> file_store \<Rightarrow> string \<Rightarrow> py_datetime \<Rightarrow> string option \<Rightarrow> string option \<Rightarrow> string option
     \<Rightarrow> match_params" where
  "engine_params n files partner date source_file_id run_id version =
     (let (start, stop) = utc_business_day_bounds (rn_zone n) date;
          policy = resolve_timestamp_policy (rn_zone_name n) (rn_find_version n) partner version
      in \<lparr>mp_partner = partner, mp_date = rn_date_text n (business_date (rn_zone n) date),
          mp_start = start, mp_end = stop, mp_run_id = run_id, mp_source_file_id = source_file_id,
          mp_file_uuid = None, mp_scope = resolve_scope_type (rn_tostr n) source_file_id files,
          mp_mapping_version = version, mp_tolerance = rp_tolerance policy,
          mp_timezone = rp_timezone policy\<rparr>)"

definition reconcile ::
  "rec_env \<Rightarrow> file_store \<Rightarrow> partner_table \<Rightarrow> internal_table \<Rightarrow> (nat \<Rightarrow> uuid) \<Rightarrow> datetime \<Rightarrow> string
     \<Rightarrow> py_datetime \<Rightarrow> string option \<Rightarrow> string option \<Rightarrow> string option \<Rightarrow> result_table
     \<Rightarrow> (exec_error + result_table) \<times> result_table" where
  "reconcile n files t it ids now partner date source_file_id run_id version tab =
     (case reconcile_execute (rn_sql n)
             (engine_params n files partner date source_file_id run_id version) t it ids now tab of
        (Inl err, tab') \<Rightarrow> (Inl err, tab')
      | (Inr (rs, m), tab') \<Rightarrow> (Inr rs, tab'))"

section \<open>Lemmas\<close>

lemma scope_of_value [simp]: "scope_of (scope_value c) = Some c"
  by (cases c) (simp_all add: scope_of_def)

lemma clean_keys_distinct [simp]: "distinct (clean_keys ks)"
  by (simp add: clean_keys_def)

lemma key_counts:
  "length (filter (\<lambda>k. k \<in> S) ks) + length (filter (\<lambda>k. k \<notin> S) ks) = length ks"
  by (rule sum_length_filter_compl)

text \<open>A key whose edges hold no whitespace but spaces is stripped the same way on both sides.\<close>

definition plain_edges :: "string \<Rightarrow> bool" where
  "plain_edges s \<longleftrightarrow> py_strip s = sql_btrim s"

definition plain_row :: "partner_row \<Rightarrow> bool" where
  "plain_row r \<longleftrightarrow>
     (case pr_partner_trace r of None \<Rightarrow> True | Some s \<Rightarrow> plain_edges s) \<and>
     plain_edges (pr_partner_id r) \<and>
     (case dget (pr_partner_metadata r) ''vspTransId'' of
        VNone \<Rightarrow> True | VStr s \<Rightarrow> plain_edges s | _ \<Rightarrow> False)"

lemma sql_key_plain:
  "plain_edges s \<Longrightarrow> sql_key (Some s) = (if stripped_text tostr (VStr s) = [] then None
     else Some (stripped_text tostr (VStr s)))"
  by (simp add: sql_key_def stripped_text_def plain_edges_def)

lemma sql_key_None [simp]: "sql_key None = None"
  by (simp add: sql_key_def)

lemma row_key_agrees:
  assumes "plain_row r"
  shows "row_reconciliation_key tostr r = partner_key e r"
proof -
  let ?v = "dget (pr_partner_metadata r) ''vspTransId''"
  have id: "plain_edges (pr_partner_id r)" using assms by (simp add: plain_row_def)
  have v: "?v = VNone \<or> (\<exists>s. ?v = VStr s \<and> plain_edges s)"
    using assms by (cases ?v) (auto simp: plain_row_def)
  show ?thesis
  proof (cases "pr_partner_trace r")
    case None
    with v show ?thesis
      by (elim disjE exE conjE)
        (simp_all add: row_reconciliation_key_def partner_key_def json_text_def
          sql_key_plain [OF id, where tostr = tostr] sql_key_plain [where tostr = tostr])
  next
    case (Some s)
    then have "plain_edges s" using assms by (simp add: plain_row_def)
    with v Some show ?thesis
      by (elim disjE exE conjE)
        (simp_all add: row_reconciliation_key_def partner_key_def json_text_def
          sql_key_plain [OF id, where tostr = tostr] sql_key_plain [where tostr = tostr])
  qed
qed

end
