(* ===== verification/Runtime.thy ===== *)
theory Runtime
  imports Timestamps
begin

text \<open>
  The runtime runs that make fetch, ingestion and reconciliation visible:
  \<open>src/src/domain/runtime/models.py\<close>, the partial update of
  \<open>src/src/application/runtime/service.py\<close>, the queries of
  \<open>src/src/infrastructure/runtime/repository.py\<close> and the error summary of
  \<open>src/src/core/utils.py\<close>. The collection is the list of its documents in insertion order.
\<close>

section \<open>Runs\<close>

datatype trigger_type = TT_SCHEDULER | TT_BACKFILL | TT_MANUAL_RECONCILIATION | TT_POST_APPROVAL_REPROCESS

datatype runtime_status =
    RT_QUEUED | RT_FETCHING | RT_INGESTING | RT_WAITING_REVIEW | RT_WAITING_RECONCILE
  | RT_RECONCILING | RT_COMPLETED | RT_PARTIAL | RT_FAILED

fun runtime_status_value :: "runtime_status \<Rightarrow> string" where
  "runtime_status_value RT_QUEUED = ''QUEUED''"
| "runtime_status_value RT_FETCHING = ''FETCHING''"
| "runtime_status_value RT_INGESTING = ''INGESTING''"
| "runtime_status_value RT_WAITING_REVIEW = ''WAITING_REVIEW''"
| "runtime_status_value RT_WAITING_RECONCILE = ''WAITING_RECONCILE''"
| "runtime_status_value RT_RECONCILING = ''RECONCILING''"
| "runtime_status_value RT_COMPLETED = ''COMPLETED''"
| "runtime_status_value RT_PARTIAL = ''PARTIAL''"
| "runtime_status_value RT_FAILED = ''FAILED''"

record runtime_run =
  rt_id :: uuid
  rt_partner :: string
  rt_date :: string
  rt_trigger_type :: trigger_type
  rt_triggered_by :: "string option"
  rt_status :: runtime_status
  rt_message :: "string option"
  rt_source_file_id :: "string option"
  rt_file_name :: "string option"
  rt_mapping_version :: "string option"
  rt_validation_state :: "string option"
  rt_orchestration :: "pydict option"
  rt_attempt_history :: "pydict list"
  rt_stats :: pydict
  rt_stage_summary :: pydict
  rt_reconciliation_count :: "int option"
  rt_started_at :: "datetime option"
  rt_finished_at :: "datetime option"
  rt_created_at :: datetime
  rt_updated_at :: datetime

type_synonym runtime_store = "runtime_run list"

definition create_runtime_run :: "runtime_run \<Rightarrow> runtime_store \<Rightarrow> runtime_store" where
  "create_runtime_run r rs = rs @ [r]"

section \<open>Updates\<close>

text \<open>The keyword arguments of \<open>update_runtime_run\<close>; an orchestration context is validated before.\<close>

record run_update =
  ru_status :: "runtime_status option"
  ru_message :: "string option"
  ru_source_file_id :: "string option"
  ru_file_name :: "string option"
  ru_mapping_version :: "string option"
  ru_validation_state :: "string option"
  ru_orchestration :: "pydict option"
  ru_stats :: "pydict option"
  ru_reconciliation_count :: "int option"
  ru_started_at :: "datetime option"
  ru_finished_at :: "datetime option"
  ru_clear_finished_at :: bool
  ru_attempt_event :: "pydict option"
  ru_stage_summary :: "pydict option"

definition no_update :: run_update where
  "no_update =
     \<lparr>ru_status = None, ru_message = None, ru_source_file_id = None, ru_file_name = None,
      ru_mapping_version = None, ru_validation_state = None, ru_orchestration = None,
      ru_stats = None, ru_reconciliation_count = None, ru_started_at = None,
      ru_finished_at = None, ru_clear_finished_at = False, ru_attempt_event = None,
      ru_stage_summary = None\<rparr>"

text \<open>A field given as \<open>None\<close> is left as it is.\<close>

definition keep :: "'a option \<Rightarrow> 'a \<Rightarrow> 'a" where
  "keep new old = (case new of None \<Rightarrow> old | Some x \<Rightarrow> x)"

definition keep_null :: "'a option \<Rightarrow> 'a option \<Rightarrow> 'a option" where
  "keep_null new old = (case new of None \<Rightarrow> old | Some x \<Rightarrow> Some x)"

definition apply_update :: "datetime \<Rightarrow> run_update \<Rightarrow> runtime_run \<Rightarrow> runtime_run" where
  "apply_update now u r =
     r\<lparr>rt_updated_at := now,
       rt_status := keep (ru_status u) (rt_status r),
       rt_message := keep_null (ru_message u) (rt_message r),
       rt_source_file_id := keep_null (ru_source_file_id u) (rt_source_file_id r),
       rt_file_name := keep_null (ru_file_name u) (rt_file_name r),
       rt_mapping_version := keep_null (ru_mapping_version u) (rt_mapping_version r),
       rt_validation_state := keep_null (ru_validation_state u) (rt_validation_state r),
       rt_orchestration := keep_null (ru_orchestration u) (rt_orchestration r),
       rt_stats := keep (ru_stats u) (rt_stats r),
       rt_stage_summary := keep (ru_stage_summary u) (rt_stage_summary r),
       rt_reconciliation_count :=
         keep_null (ru_reconciliation_count u) (rt_reconciliation_count r),
       rt_started_at := keep_null (ru_started_at u) (rt_started_at r),
       rt_finished_at :=
         (case ru_finished_at u of
            Some x \<Rightarrow> Some x
          | None \<Rightarrow> if ru_clear_finished_at u then None else rt_finished_at r),
       rt_attempt_history :=
         rt_attempt_history r @ (case ru_attempt_event u of None \<Rightarrow> [] | Some e \<Rightarrow> [e])\<rparr>"

definition update_runtime_run ::
  "datetime \<Rightarrow> uuid \<Rightarrow> run_update \<Rightarrow> runtime_store \<Rightarrow> runtime_store" where
  "update_runtime_run now run_id u rs =
     update_first (\<lambda>r. rt_id r = run_id) (apply_update now u) rs"

section \<open>Queries\<close>

text \<open>\<open>sort=[("createdAt", -1)]\<close> with the first document taken; ties keep the order of the store.\<close>

definition newest_first :: "runtime_store \<Rightarrow> runtime_store" where
  "newest_first rs = sort_key (\<lambda>r. - rt_created_at r) rs"

definition find_runtime_run :: "uuid \<Rightarrow> runtime_store \<Rightarrow> runtime_run option" where
  "find_runtime_run run_id rs = List.find (\<lambda>r. rt_id r = run_id) rs"

definition find_latest_by_partner_and_date ::
  "string \<Rightarrow> string \<Rightarrow> runtime_store \<Rightarrow> runtime_run option" where
  "find_latest_by_partner_and_date partner date rs =
     List.find (\<lambda>r. rt_partner r = partner \<and> rt_date r = date) (newest_first rs)"

definition find_latest_by_partner :: "string \<Rightarrow> runtime_store \<Rightarrow> runtime_run option" where
  "find_latest_by_partner partner rs = List.find (\<lambda>r. rt_partner r = partner) (newest_first rs)"

definition find_recent_by_partner :: "string \<Rightarrow> nat \<Rightarrow> runtime_store \<Rightarrow> runtime_run list" where
  "find_recent_by_partner partner limit rs =
     take limit (filter (\<lambda>r. rt_partner r = partner) (newest_first rs))"

section \<open>The error summary\<close>

definition py_rstrip :: "string \<Rightarrow> string" where
  "py_rstrip s = rev (strip_front (map rev py_whitespace) (rev s))"

text \<open>The text before and after the first occurrence of a separator.\<close>

fun split_first :: "string \<Rightarrow> string \<Rightarrow> (string \<times> string) option" where
  "split_first w [] = None"
| "split_first w (c # s) =
     (if starts_with w (c # s) then Some ([], drop (length w) (c # s))
      else map_option (\<lambda>(a, b). (c # a, b)) (split_first w s))"

definition duplicate_key_marker :: string where
  "duplicate_key_marker = ''dup key: { _id: ''"

definition extract_duplicate_key_value :: "string \<Rightarrow> string option" where
  "extract_duplicate_key_value s =
     (case split_first duplicate_key_marker s of
        None \<Rightarrow> None
      | Some (_, tail) \<Rightarrow>
          (case split_first '' }'' tail of
             None \<Rightarrow> None
           | Some (raw, _) \<Rightarrow>
               Some (strip_with [[CHR 0x27]] (strip_with [[CHR 0x22]] (py_strip raw)))))"

text \<open>Lengths are counted in ASCII characters, as the messages the code cuts are.\<close>

definition summarize_runtime_error :: "string \<Rightarrow> string" where
  "summarize_runtime_error exc =
     (let t = py_strip exc; low = ascii_lower t
      in if t = [] then ''Unexpected runtime error.''
         else if has_infix ''duplicate key error'' low \<and> has_infix ''reconciliation_result'' low
         then (case extract_duplicate_key_value t of
                 Some (c # cs) \<Rightarrow>
                   ''Reconciliation results already exist for record '' @ (c # cs) @
                   ''. Clear or replace existing results before rerunning.''
               | _ \<Rightarrow> ''Reconciliation results already exist for this partner/date. Clear or replace existing results before rerunning.'')
         else if has_infix ''batch op errors occurred'' low \<and> has_infix ''duplicate key'' low
         then ''Reconciliation insert failed because duplicate result rows already exist.''
         else if 220 < length t then py_rstrip (clip 217 t) @ ''...''
         else t)"

section \<open>Lemmas\<close>

lemma apply_update_id [simp]: "rt_id (apply_update now u r) = rt_id r"
  by (simp add: apply_update_def)

lemma update_runtime_ids: "map rt_id (update_runtime_run now k u rs) = map rt_id rs"
  by (simp add: update_runtime_run_def update_first_keys)

lemma find_update_runtime:
  assumes "distinct (map rt_id rs)"
  shows "find_runtime_run k' (update_runtime_run now k u rs)
    = map_option (\<lambda>r. if k' = k then apply_update now u r else r) (find_runtime_run k' rs)"
  using find_update_first [OF assms, of "apply_update now u" k' k "\<lambda>_. True"]
  by (simp add: find_runtime_run_def update_runtime_run_def)

text \<open>An update without a status keeps it, and no update moves the start or the end back to nothing unless asked.\<close>

lemma apply_update_status [simp]:
  "rt_status (apply_update now u r) = keep (ru_status u) (rt_status r)"
  by (simp add: apply_update_def)

end
