(* ===== verification/ManualRuns.thy ===== *)
theory ManualRuns
  imports Scope Runtime
begin

text \<open>
  Manual reconciliation: the context of a run in
  \<open>src/src/application/reconciliation/queries.py\<close> and the state transitions of
  \<open>src/src/application/reconciliation/manual_runs.py\<close>, over the runtime runs, the result table
  and the audit log.
\<close>

section \<open>Dates\<close>

text \<open>\<open>strptime(text, "%Y-%m-%d")\<close>: month and day have one or two digits, the day may have a blank.\<close>

definition scan_one_or_two :: "int \<Rightarrow> string \<Rightarrow> (int \<times> string) option" where
  "scan_one_or_two hi s =
     (case scan_digits 2 0 s of
        Some (v, r) \<Rightarrow>
          if 1 \<le> v \<and> v \<le> hi then Some (v, r)
          else Option.bind (scan_digits 1 0 s) (\<lambda>(w, r'). if 1 \<le> w then Some (w, r') else None)
      | None \<Rightarrow> Option.bind (scan_digits 1 0 s) (\<lambda>(w, r'). if 1 \<le> w then Some (w, r') else None))"

definition scan_day :: "string \<Rightarrow> (int \<times> string) option" where
  "scan_day s =
     (if take 1 s = '' ''
      then Option.bind (scan_digits 1 0 (drop 1 s)) (\<lambda>(w, r). if 1 \<le> w then Some (w, r) else None)
      else scan_one_or_two 31 s)"

definition strptime_day :: "string \<Rightarrow> datetime option" where
  "strptime_day s =
     do { (y, s) \<leftarrow> scan_digits 4 0 s; s \<leftarrow> scan_char (CHR ''-'') s;
          (m, s) \<leftarrow> scan_one_or_two 12 s; s \<leftarrow> scan_char (CHR ''-'') s;
          (d, s) \<leftarrow> scan_day s;
          if s = [] then checked (civil_of (y, m, d) (0, 0, 0) 0) else None }"

section \<open>The context of a run\<close>

record rec_context =
  cx_partner :: string
  cx_date :: string
  cx_source_file_id :: string
  cx_mapping_version :: "string option"

record post_approval_doc =
  pp_partner :: string
  pp_date :: string
  pp_output_file_id :: "string option"
  pp_source_file_id :: "string option"
  pp_created_at :: datetime
  pp_updated_at :: datetime

record source_file_doc =
  sf_id :: uuid
  sf_partner :: string
  sf_reconciliation_date :: "datetime option"
  sf_created_at :: datetime

record context_db =
  cd_post_approval :: "post_approval_doc list"
  cd_runtime :: runtime_store
  cd_files :: "source_file_doc list"

text \<open>\<open>_date_bounds\<close>: the local day that holds midnight UTC of the date.\<close>

definition date_bounds :: "business_zone \<Rightarrow> datetime \<Rightarrow> datetime \<times> datetime" where
  "date_bounds z day = utc_business_day_bounds z (DT_Utc day)"

text \<open>The three latest documents; the dates of every document are stored.\<close>

definition latest_post_approval :: "string \<Rightarrow> string \<Rightarrow> context_db \<Rightarrow> post_approval_doc option" where
  "latest_post_approval partner date db =
     List.find (\<lambda>d. pp_partner d = partner \<and> pp_date d = date \<and>
                    (str_truthy (pp_output_file_id d) \<or> str_truthy (pp_source_file_id d)))
       (sort_key (\<lambda>d. (- pp_updated_at d, - pp_created_at d)) (cd_post_approval db))"

definition latest_scoped_run :: "string \<Rightarrow> string \<Rightarrow> context_db \<Rightarrow> runtime_run option" where
  "latest_scoped_run partner date db =
     List.find (\<lambda>r. rt_partner r = partner \<and> rt_date r = date \<and> str_truthy (rt_source_file_id r))
       (newest_first (cd_runtime db))"

definition latest_file :: "string \<Rightarrow> datetime \<times> datetime \<Rightarrow> context_db \<Rightarrow> source_file_doc option" where
  "latest_file partner bounds db =
     List.find (\<lambda>f. sf_partner f = partner \<and>
                    (case sf_reconciliation_date f of
                       None \<Rightarrow> False | Some d \<Rightarrow> fst bounds \<le> d \<and> d \<le> snd bounds))
       (sort_key (\<lambda>f. - sf_created_at f) (cd_files db))"

text \<open>A candidate: its time, the file id and the mapping version it gives.\<close>

type_synonym candidate = "datetime \<times> string option \<times> string option"

definition context_candidates ::
  "post_approval_doc option \<Rightarrow> runtime_run option \<Rightarrow> source_file_doc option \<Rightarrow> candidate list" where
  "context_candidates p r f =
     (case p of None \<Rightarrow> []
      | Some d \<Rightarrow> [(pp_updated_at d, str_or (pp_output_file_id d) (str_or (pp_source_file_id d) None), None)]) @
     (case r of None \<Rightarrow> []
      | Some d \<Rightarrow> [(rt_updated_at d, str_or (rt_source_file_id d) None, str_or (rt_mapping_version d) None)]) @
     (case f of None \<Rightarrow> []
      | Some d \<Rightarrow> [(sf_created_at d, str_or (Some (sf_id d)) None, None)])"

text \<open>\<open>candidates.sort(reverse=True)\<close> is stable: the first of equal times stays first.\<close>

definition latest_context ::
  "business_zone \<Rightarrow> string \<Rightarrow> string \<Rightarrow> datetime \<Rightarrow> context_db \<Rightarrow> (string option \<times> string option)" where
  "latest_context z partner date day db =
     (case sort_key (\<lambda>c. - fst c)
             (context_candidates (latest_post_approval partner date db)
                (latest_scoped_run partner date db)
                (latest_file partner (date_bounds z day) db)) of
        [] \<Rightarrow> (None, None)
      | c # _ \<Rightarrow> snd c)"

datatype context_error = Bad_Date | No_File_Context | Not_Ingested

text \<open>\<open>resolve\<close>; \<open>row_count\<close> counts the partner rows of a file.\<close>

definition resolve_context ::
  "business_zone \<Rightarrow> (string \<Rightarrow> nat) \<Rightarrow> string \<Rightarrow> string \<Rightarrow> context_db \<Rightarrow> context_error + rec_context" where
  "resolve_context z row_count partner date db =
     (case strptime_day date of
        None \<Rightarrow> Inl Bad_Date
      | Some day \<Rightarrow>
          (case latest_context z partner date day db of
             (None, _) \<Rightarrow> Inl No_File_Context
           | (Some file, version) \<Rightarrow>
               if row_count file = 0 then Inl Not_Ingested
               else Inr \<lparr>cx_partner = partner, cx_date = date, cx_source_file_id = file,
                         cx_mapping_version = version\<rparr>))"

section \<open>One run\<close>

record audit_event =
  ae_entity_type :: string
  ae_entity_id :: string
  ae_action :: string
  ae_metadata :: pydict

record manual_state =
  ms_runs :: runtime_store
  ms_results :: result_table
  ms_audit :: "audit_event list"

definition audit_metadata :: "rec_context \<Rightarrow> string \<Rightarrow> uuid \<Rightarrow> pydict" where
  "audit_metadata c status run_id =
     [(''partner'', VStr (cx_partner c)), (''date'', VStr (cx_date c)),
      (''status'', VStr status), (''reference'', VStr run_id),
      (''sourceFileId'', VStr (cx_source_file_id c)),
      (''mappingVersion'', case cx_mapping_version c of None \<Rightarrow> VNone | Some v \<Rightarrow> VStr v)]"

definition run_audit :: "uuid \<Rightarrow> string \<Rightarrow> pydict \<Rightarrow> audit_event" where
  "run_audit run_id action metadata =
     \<lparr>ae_entity_type = ''RECONCILIATION_RUN'', ae_entity_id = run_id, ae_action = action,
      ae_metadata = metadata\<rparr>"

definition queue_run ::
  "uuid \<Rightarrow> datetime \<Rightarrow> string option \<Rightarrow> rec_context \<Rightarrow> manual_state \<Rightarrow> manual_state" where
  "queue_run run_id now triggered_by c s =
     s\<lparr>ms_runs := create_runtime_run
         \<lparr>rt_id = run_id, rt_partner = cx_partner c, rt_date = cx_date c,
          rt_trigger_type = TT_MANUAL_RECONCILIATION, rt_triggered_by = triggered_by,
          rt_status = RT_QUEUED, rt_message = Some ''Reconciliation is queued.'',
          rt_source_file_id = Some (cx_source_file_id c), rt_file_name = None,
          rt_mapping_version = cx_mapping_version c, rt_validation_state = Some ''NOT_RUN'',
          rt_orchestration = None, rt_attempt_history = [], rt_stats = [], rt_stage_summary = [],
          rt_reconciliation_count = None, rt_started_at = None, rt_finished_at = None,
          rt_created_at = now, rt_updated_at = now\<rparr> (ms_runs s)\<rparr>"

text \<open>
  Which of the calls of a run raise, with the text of the exception: the first update, the
  matching itself apart from its own errors, the update and the audit of the completed run, and
  those of the failed one.
\<close>

record run_faults =
  mf_start :: "string option"
  mf_reconcile :: "string option"
  mf_complete :: "string option"
  mf_complete_audit :: "string option"
  mf_fail :: "string option"
  mf_fail_audit :: "string option"

definition no_faults :: run_faults where
  "no_faults = \<lparr>mf_start = None, mf_reconcile = None, mf_complete = None, mf_complete_audit = None,
     mf_fail = None, mf_fail_audit = None\<rparr>"

record manual_env =
  mv_rec :: rec_env
  mv_files :: file_store
  mv_partners :: partner_table
  mv_internals :: internal_table
  mv_ids :: "nat \<Rightarrow> uuid"
  mv_exec_error :: "exec_error \<Rightarrow> string"
  mv_date_error :: "string \<Rightarrow> string"

definition start_update :: "datetime \<Rightarrow> rec_context \<Rightarrow> run_update" where
  "start_update now c =
     no_update\<lparr>ru_status := Some RT_RECONCILING,
       ru_message := Some ''Reconciling records for the selected partner/date.'',
       ru_started_at := Some now, ru_source_file_id := Some (cx_source_file_id c),
       ru_mapping_version := cx_mapping_version c\<rparr>"

definition complete_update :: "datetime \<Rightarrow> nat \<Rightarrow> run_update" where
  "complete_update now n =
     no_update\<lparr>ru_status := Some RT_COMPLETED,
       ru_message := Some ''Reconciliation completed successfully.'',
       ru_validation_state := Some ''NOT_RUN'', ru_stats := Some [(''resultCount'', VInt (int n))],
       ru_reconciliation_count := Some (int n), ru_finished_at := Some now\<rparr>"

definition fail_update :: "datetime \<Rightarrow> string \<Rightarrow> run_update" where
  "fail_update now err =
     no_update\<lparr>ru_status := Some RT_FAILED,
       ru_message := Some (''Reconciliation failed: '' @ err), ru_finished_at := Some now\<rparr>"

text \<open>The body of the \<open>try\<close>: the exception it raises, and the state it leaves.\<close>

definition execute_body ::
  "manual_env \<Rightarrow> run_faults \<Rightarrow> uuid \<Rightarrow> rec_context \<Rightarrow> datetime \<Rightarrow> manual_state
     \<Rightarrow> string option \<times> manual_state" where
  "execute_body v f run_id c now s =
     (case strptime_day (cx_date c) of
        None \<Rightarrow> (Some (mv_date_error v (cx_date c)), s)
      | Some day \<Rightarrow>
          (case mf_reconcile f of
             Some err \<Rightarrow> (Some err, s)
           | None \<Rightarrow>
               (case reconcile (mv_rec v) (mv_files v) (mv_partners v) (mv_internals v) (mv_ids v) now
                       (cx_partner c) (DT_Utc day) (Some (cx_source_file_id c)) (Some run_id)
                       (cx_mapping_version c) (ms_results s) of
                  (Inl err, tab) \<Rightarrow> (Some (mv_exec_error v err), s\<lparr>ms_results := tab\<rparr>)
                | (Inr rs, tab) \<Rightarrow>
                    (let s1 = s\<lparr>ms_results := tab\<rparr>
                     in case mf_complete f of
                          Some err \<Rightarrow> (Some err, s1)
                        | None \<Rightarrow>
                            (let s2 = s1\<lparr>ms_runs := update_runtime_run now run_id
                                     (complete_update now (length rs)) (ms_runs s1)\<rparr>
                             in case mf_complete_audit f of
                                  Some err \<Rightarrow> (Some err, s2)
                                | None \<Rightarrow>
                                    (None, s2\<lparr>ms_audit := ms_audit s2 @
                                       [run_audit run_id ''COMPLETED''
                                         (audit_metadata c ''COMPLETED'' run_id)]\<rparr>))))))"

text \<open>The \<open>except\<close> branch.\<close>

definition execute_failed ::
  "run_faults \<Rightarrow> uuid \<Rightarrow> rec_context \<Rightarrow> datetime \<Rightarrow> string \<Rightarrow> manual_state
     \<Rightarrow> string option \<times> manual_state" where
  "execute_failed f run_id c now exc s =
     (let err = summarize_runtime_error exc
      in case mf_fail f of
           Some e \<Rightarrow> (Some e, s)
         | None \<Rightarrow>
             (let s1 = s\<lparr>ms_runs := update_runtime_run now run_id (fail_update now err) (ms_runs s)\<rparr>
              in case mf_fail_audit f of
                   Some e \<Rightarrow> (Some e, s1)
                 | None \<Rightarrow>
                     (None, s1\<lparr>ms_audit := ms_audit s1 @
                        [run_audit run_id ''FAILED''
                          (audit_metadata c ''FAILED'' run_id @ [(''error'', VStr err)])]\<rparr>)))"

definition execute_run ::
  "manual_env \<Rightarrow> run_faults \<Rightarrow> uuid \<Rightarrow> rec_context \<Rightarrow> datetime \<Rightarrow> datetime \<Rightarrow> manual_state
     \<Rightarrow> string option \<times> manual_state" where
  "execute_run v f run_id c started finished s =
     (case mf_start f of
        Some e \<Rightarrow> (Some e, s)
      | None \<Rightarrow>
          (case execute_body v f run_id c finished
                  (s\<lparr>ms_runs := update_runtime_run started run_id (start_update started c) (ms_runs s)\<rparr>) of
             (None, s') \<Rightarrow> (None, s')
           | (Some exc, s') \<Rightarrow> execute_failed f run_id c finished exc s'))"

end
