(* ===== verification/ManualProps.thy ===== *)
theory ManualProps
  imports ManualRuns ReconcileGuarantees
begin

text \<open>
  Properties of the scope decision, of the business day and of manual reconciliation runs.
\<close>

section \<open>Scope decisions\<close>

lemma key_scope_unconfirmed:
  assumes "ovl + new = inc"
  shows "fst (key_scope_of inc hist ovl new prior) = SC_UNCONFIRMED \<longleftrightarrow>
    inc = 0 \<or> (hist = 0 \<and> 0 < prior) \<or>
    (0 < hist \<and> ovl \<noteq> hist \<and> inc < 2 * ovl \<and> 5 * ovl < 4 * inc)"
  using assms by (auto simp: key_scope_of_def)

lemma classify_type:
  "sd_type (classify_key_scope quot inc hist prior) =
     fst (key_scope_of (length (clean_keys inc)) (length (clean_keys hist))
        (length (filter (\<lambda>k. k \<in> set (clean_keys hist)) (clean_keys inc)))
        (length (filter (\<lambda>k. k \<notin> set (clean_keys hist)) (clean_keys inc))) prior)"
  by (simp add: classify_key_scope_def Let_def split: prod.splits)

text \<open>The key evidence leaves the scope to the reviewer in exactly three cases: no key arrived;
  there are prior files but none of their keys; or more than half and less than four fifths of the
  arriving keys are known while some known key did not arrive. In particular the decision never
  depends on more than the two key sets and the number of prior files.\<close>

theorem scope_is_unconfirmed_exactly_when_ambiguous:
  "sd_type (classify_key_scope quot inc hist prior) = SC_UNCONFIRMED \<longleftrightarrow>
     (let known = set (clean_keys hist); arriving = clean_keys inc;
          n = length arriving; m = length (filter (\<lambda>k. k \<in> known) arriving)
      in n = 0 \<or> (known = {} \<and> 0 < prior) \<or>
         (known \<noteq> {} \<and> m \<noteq> card known \<and> n < 2 * m \<and> 5 * m < 4 * n))"
proof -
  let ?h = "clean_keys hist" and ?i = "clean_keys inc"
  have c: "card (set ?h) = length ?h" by (simp add: distinct_card)
  have e: "length ?h = 0 \<longleftrightarrow> set ?h = {}" "0 < length ?h \<longleftrightarrow> set ?h \<noteq> {}" by auto
  show ?thesis
    unfolding classify_type Let_def key_scope_unconfirmed [OF key_counts] c e ..
qed

section \<open>Keys in Python and in SQL\<close>

text \<open>C30: The scope analysis and the matching query read the same business keys as long as the
  texts have no whitespace but spaces at their edges and \<open>vspTransId\<close> is a text; the keys that
  \<open>find_reconciliation_keys_by_date_range\<close> returns are then those of the query's partner rows.\<close>

theorem scope_keys_are_matching_keys:
  assumes "list_all plain_row t" and "mp_file_uuid mp = None"
  shows "find_reconciliation_keys_by_date_range tostr (mp_partner mp) (DT_Utc (mp_start mp))
      (DT_Utc (mp_end mp)) None t
    = set (List.map_filter (partner_key e) (partner_raw mp t))"
proof -
  have "row_reconciliation_key tostr p = partner_key e p" if "p \<in> set t" for p
    using assms(1) that by (intro row_key_agrees) (simp add: list_all_iff)
  then show ?thesis
    using assms(2)
    by (auto simp: find_reconciliation_keys_by_date_range_def partner_raw_def set_map_filter)
qed

lemma demo_plain: "list_all plain_row demo_partners"
  by code_simp

theorem scope_keys_are_matching_keys_witness:
  "find_reconciliation_keys_by_date_range (\<lambda>_. []) ''MOMO'' (DT_Utc (- 100)) (DT_Utc 100) None
     demo_partners = {''A'', ''B''}"
  using scope_keys_are_matching_keys [OF demo_plain,
      of "demo_params CHR ''e'' SC_FULL_SNAPSHOT\<lparr>mp_file_uuid := None\<rparr>" "\<lambda>_. []" demo_sql]
proof -
  have "List.map_filter (partner_key demo_sql)
      (partner_raw (demo_params CHR ''e'' SC_FULL_SNAPSHOT\<lparr>mp_file_uuid := None\<rparr>) demo_partners)
    = [''A'', ''B'']" by code_simp
  with scope_keys_are_matching_keys [OF demo_plain,
      of "demo_params CHR ''e'' SC_FULL_SNAPSHOT\<lparr>mp_file_uuid := None\<rparr>" "\<lambda>_. []" demo_sql]
  show ?thesis by (simp add: demo_params_def)
qed

text \<open>Beyond that the two readings differ: for a partner trace that is a tab the scope analysis
  goes on to the partner id, while the matching query takes the tab itself as the key.\<close>

theorem whitespace_key_is_read_differently:
  "row_reconciliation_key (\<lambda>_. []) ((demo_partner CHR ''1'' CHR ''e'' ''A'' ''SUCCESS'')
      \<lparr>pr_partner_trace := Some [CHR 0x09]\<rparr>) = Some ''A'' \<and>
   partner_key demo_sql ((demo_partner CHR ''1'' CHR ''e'' ''A'' ''SUCCESS'')
      \<lparr>pr_partner_trace := Some [CHR 0x09]\<rparr>) = Some [CHR 0x09]"
  by code_simp

section \<open>The business day\<close>

text \<open>A zone with a fixed offset, in microseconds east of UTC.\<close>

definition fixed_zone :: "int \<Rightarrow> business_zone" where
  "fixed_zone off = \<lparr>bz_local = (\<lambda>t. t + off), bz_utc = (\<lambda>t. t - off)\<rparr>"

lemma fixed_zone_date:
  assumes "0 \<le> off + day_usecs" and "off < day_usecs"
  shows "business_date (fixed_zone off) (DT_Utc (d * day_usecs)) = (if off < 0 then d - 1 else d)"
proof (cases "off < 0")
  case True
  have "(d * day_usecs + off) div day_usecs = (off + day_usecs + (d - 1) * day_usecs) div day_usecs"
    by (simp add: algebra_simps)
  also have "\<dots> = d - 1 + (off + day_usecs) div day_usecs"
    by (rule div_mult_self1) (simp add: day_usecs_def)
  also have "(off + day_usecs) div day_usecs = 0"
    using assms True by (intro div_pos_pos_trivial) auto
  finally show ?thesis using True by (simp add: business_date_def fixed_zone_def)
next
  case False
  have "(d * day_usecs + off) div day_usecs = d + off div day_usecs"
    using div_mult_self1 [of day_usecs off d] by (simp add: day_usecs_def add.commute)
  also have "off div day_usecs = 0" using assms False by (intro div_pos_pos_trivial) auto
  finally show ?thesis using False by (simp add: business_date_def fixed_zone_def)
qed

text \<open>A manual run is labelled with midnight UTC of its date. In a business zone east of
  Greenwich the engine reconciles the local day of that date, from its local midnight to its last
  microsecond; in a zone west of it the engine reconciles, and stores the results under, the day
  before.\<close>

theorem manual_date_is_the_business_day_only_east_of_utc:
  assumes "rn_zone n = fixed_zone off" and "0 \<le> off + day_usecs" and "off < day_usecs"
  shows "let mp = engine_params n files partner (DT_Utc (d * day_usecs)) f r v;
             day = (if off < 0 then d - 1 else d)
         in mp_date mp = rn_date_text n day \<and> mp_start mp = day * day_usecs - off \<and>
            mp_end mp = mp_start mp + day_usecs - 1"
  unfolding engine_params_def utc_business_day_bounds_def Let_def assms(1)
    fixed_zone_date [OF assms(2,3)] prod.case match_params.simps
  by (simp add: fixed_zone_def)

definition demo_rec_env :: "int \<Rightarrow> rec_env" where
  "demo_rec_env off =
     \<lparr>rn_sql = demo_sql, rn_tostr = (\<lambda>_. []), rn_zone = fixed_zone off, rn_zone_name = ''UTC'',
      rn_date_text = (\<lambda>d. nat_text (nat d)), rn_find_version = (\<lambda>_ _. None)\<rparr>"

theorem manual_date_is_the_business_day_only_east_of_utc_witness:
  "mp_date (engine_params (demo_rec_env (- 3600000000)) [] ''MOMO'' (DT_Utc (20 * day_usecs)) None None None)
     = ''19''"
proof -
  have z: "rn_zone (demo_rec_env (- 3600000000)) = fixed_zone (- 3600000000)"
    by (simp add: demo_rec_env_def)
  have "mp_date (engine_params (demo_rec_env (- 3600000000)) [] ''MOMO'' (DT_Utc (20 * day_usecs))
      None None None) = rn_date_text (demo_rec_env (- 3600000000)) 19"
    using manual_date_is_the_business_day_only_east_of_utc [OF z, of "[]" "''MOMO''" 20 None None None]
    by (simp add: Let_def day_usecs_def)
  then show ?thesis by (simp add: demo_rec_env_def) code_simp
qed

section \<open>Manual runs\<close>

lemma execute_body_runs:
  assumes "execute_body v f run_id c now s = (out, s')"
  shows "map rt_id (ms_runs s') = map rt_id (ms_runs s)"
  using assms
  by (auto simp: execute_body_def Let_def update_runtime_ids
      split: option.splits sum.splits prod.splits)

lemma execute_body_done:
  assumes "execute_body v f run_id c now s = (None, s')" and "distinct (map rt_id (ms_runs s))"
    and "find_runtime_run run_id (ms_runs s) = Some r"
  obtains r' where "find_runtime_run run_id (ms_runs s') = Some r'" and "rt_status r' = RT_COMPLETED"
    and "ms_audit s' = ms_audit s @ [run_audit run_id ''COMPLETED'' (audit_metadata c ''COMPLETED'' run_id)]"
  using assms
  by (auto simp: execute_body_def Let_def find_update_runtime keep_def complete_update_def
      split: option.splits sum.splits prod.splits)

lemma execute_body_raised:
  "execute_body v f run_id c now s = (Some e, s') \<Longrightarrow> ms_audit s' = ms_audit s"
  by (auto simp: execute_body_def Let_def split: option.splits sum.splits prod.splits)

lemma execute_failed_run:
  assumes "mf_fail f = None" and "mf_fail_audit f = None" and "distinct (map rt_id (ms_runs s))"
    and "find_runtime_run run_id (ms_runs s) = Some r"
  obtains r' md s' where "execute_failed f run_id c now exc s = (None, s')"
    and "find_runtime_run run_id (ms_runs s') = Some r'" and "rt_status r' = RT_FAILED"
    and "ms_audit s' = ms_audit s @ [run_audit run_id ''FAILED'' md]"
    and "ms_results s' = ms_results s"
  using assms
  by (auto simp: execute_failed_def Let_def find_update_runtime keep_def fail_update_def)

lemma find_runtime_run_exists:
  "map rt_id rs' = map rt_id rs \<Longrightarrow> find_runtime_run k rs = Some r \<Longrightarrow>
     \<exists>r'. find_runtime_run k rs' = Some r'"
proof -
  assume ids: "map rt_id rs' = map rt_id rs" and "find_runtime_run k rs = Some r"
  then have "k \<in> set (map rt_id rs)"
    by (auto simp: find_runtime_run_def dest!: find_Some_set)
  then have "k \<in> set (map rt_id rs')" by (simp only: ids)
  then show ?thesis
    by (cases "find_runtime_run k rs'") (auto simp: find_runtime_run_def find_None_iff)
qed

text \<open>C28: A manual run always ends and says how: when the first update and the calls of the failure
  branch go through, execution returns with the run COMPLETED or FAILED, and with exactly one new
  audit event, whose action is that status; whatever the parsing of the date, the matching, the
  update or the audit of the completed run raise.\<close>

theorem manual_run_ends_with_one_audited_outcome:
  assumes "mf_start f = None" and "mf_fail f = None" and "mf_fail_audit f = None"
    and "distinct (map rt_id (ms_runs s))" and "find_runtime_run run_id (ms_runs s) = Some r"
  shows "\<exists>s' r' md. execute_run v f run_id c started finished s = (None, s') \<and>
    find_runtime_run run_id (ms_runs s') = Some r' \<and>
    rt_status r' \<in> {RT_COMPLETED, RT_FAILED} \<and>
    ms_audit s' = ms_audit s @ [run_audit run_id (runtime_status_value (rt_status r')) md]"
proof -
  let ?s1 = "s\<lparr>ms_runs := update_runtime_run started run_id (start_update started c) (ms_runs s)\<rparr>"
  have d1: "distinct (map rt_id (ms_runs ?s1))" using assms(4) by (simp add: update_runtime_ids)
  obtain r1 where r1: "find_runtime_run run_id (ms_runs ?s1) = Some r1"
    using assms(4,5) by (simp add: find_update_runtime)
  obtain out s2 where b: "execute_body v f run_id c finished ?s1 = (out, s2)" by fastforce
  show ?thesis
  proof (cases out)
    case None
    with b have "execute_body v f run_id c finished ?s1 = (None, s2)" by simp
    from execute_body_done [OF this d1 r1] obtain r2 where
      "find_runtime_run run_id (ms_runs s2) = Some r2" "rt_status r2 = RT_COMPLETED"
      "ms_audit s2 = ms_audit s @ [run_audit run_id ''COMPLETED'' (audit_metadata c ''COMPLETED'' run_id)]"
      by auto
    with b None assms(1) show ?thesis by (auto simp: execute_run_def)
  next
    case (Some e)
    with b have be: "execute_body v f run_id c finished ?s1 = (Some e, s2)" by simp
    have ids: "map rt_id (ms_runs s2) = map rt_id (ms_runs ?s1)" by (rule execute_body_runs [OF b])
    obtain r2 where r2: "find_runtime_run run_id (ms_runs s2) = Some r2"
      using find_runtime_run_exists [OF ids r1] by blast
    have d2: "distinct (map rt_id (ms_runs s2))" using d1 by (simp only: ids)
    obtain r3 md s3 where "execute_failed f run_id c finished e s2 = (None, s3)"
      "find_runtime_run run_id (ms_runs s3) = Some r3" "rt_status r3 = RT_FAILED"
      "ms_audit s3 = ms_audit s2 @ [run_audit run_id ''FAILED'' md]"
      by (rule execute_failed_run [OF assms(2,3) d2 r2, of c finished e])
    with be assms(1) execute_body_raised [OF be] show ?thesis by (auto simp: execute_run_def)
  qed
qed

definition demo_run :: "uuid \<Rightarrow> manual_state" where
  "demo_run run_id =
     queue_run run_id 0 None
       \<lparr>cx_partner = ''MOMO'', cx_date = ''1970-01-01'', cx_source_file_id = demo_file CHR ''e'',
        cx_mapping_version = None\<rparr>
       \<lparr>ms_runs = [], ms_results = [], ms_audit = []\<rparr>"

definition demo_context :: rec_context where
  "demo_context = \<lparr>cx_partner = ''MOMO'', cx_date = ''1970-01-01'',
     cx_source_file_id = demo_file CHR ''e'', cx_mapping_version = None\<rparr>"

definition demo_manual_env :: manual_env where
  "demo_manual_env =
     \<lparr>mv_rec = demo_rec_env 0, mv_files = [], mv_partners = demo_partners,
      mv_internals = demo_internals, mv_ids = demo_ids, mv_exec_error = (\<lambda>_. ''refused''),
      mv_date_error = (\<lambda>_. ''bad date'')\<rparr>"

lemma demo_run_ready:
  "distinct (map rt_id (ms_runs (demo_run ''r'')))"
  "find_runtime_run ''r'' (ms_runs (demo_run ''r'')) = Some (hd (ms_runs (demo_run ''r'')))"
  by (simp_all add: demo_run_def queue_run_def create_runtime_run_def find_runtime_run_def)

definition demo_executed :: "string option \<times> manual_state" where
  "demo_executed = execute_run demo_manual_env no_faults ''r'' demo_context 1 2 (demo_run ''r'')"

theorem manual_run_ends_with_one_audited_outcome_witness:
  "fst demo_executed = None \<and> length (ms_audit (snd demo_executed)) = 1"
  using manual_run_ends_with_one_audited_outcome [OF _ _ _ demo_run_ready, of no_faults
      demo_manual_env demo_context 1 2]
  by (auto simp: demo_executed_def no_faults_def demo_run_def queue_run_def)

text \<open>An audit log that refuses the event of a completed run turns it into a failed one although
  its results are committed: when only that call raises, the run ends FAILED, and the result table
  is the one of the run without the fault.\<close>

theorem audit_failure_hides_stored_results:
  assumes "execute_run v (no_faults) run_id c started finished s = (None, ok)"
    and "find_runtime_run run_id (ms_runs ok) = Some r" and "rt_status r = RT_COMPLETED"
    and "distinct (map rt_id (ms_runs s))"
  shows "\<exists>s' r'. execute_run v (no_faults\<lparr>mf_complete_audit := Some e\<rparr>) run_id c started finished s
      = (None, s') \<and>
    find_runtime_run run_id (ms_runs s') = Some r' \<and> rt_status r' = RT_FAILED \<and>
    ms_results s' = ms_results ok"
proof -
  let ?s1 = "s\<lparr>ms_runs := update_runtime_run started run_id (start_update started c) (ms_runs s)\<rparr>"
  let ?g = "no_faults\<lparr>mf_complete_audit := Some e\<rparr>"
  have start: "mf_start no_faults = None" "mf_start ?g = None" "mf_fail ?g = None"
    "mf_fail_audit ?g = None" by (simp_all add: no_faults_def)
  have d1: "distinct (map rt_id (ms_runs ?s1))" using assms(4) by (simp add: update_runtime_ids)
  obtain out s2 where b: "execute_body v no_faults run_id c finished ?s1 = (out, s2)" by fastforce
  have "out = None"
  proof (rule ccontr)
    assume "out \<noteq> None"
    then obtain x where x: "out = Some x" by blast
    have ids: "map rt_id (ms_runs s2) = map rt_id (ms_runs s)"
      using execute_body_runs [OF b] by (simp add: update_runtime_ids)
    have ok: "ok = s2\<lparr>ms_runs := update_runtime_run finished run_id
        (fail_update finished (summarize_runtime_error x)) (ms_runs s2),
        ms_audit := ms_audit ok\<rparr>"
      using assms(1) b x start(1)
      by (auto simp: execute_run_def execute_failed_def no_faults_def Let_def)
    have "find_runtime_run run_id (ms_runs ok) = map_option (apply_update finished
        (fail_update finished (summarize_runtime_error x))) (find_runtime_run run_id (ms_runs s2))"
      using find_update_runtime [of "ms_runs s2" run_id finished run_id] assms(4)
      by (subst ok) (simp add: ids)
    with assms(2,3) show False by (auto simp: fail_update_def keep_def)
  qed
  with b have good: "execute_body v no_faults run_id c finished ?s1 = (None, s2)" by simp
  with assms(1) start(1) have ok: "ok = s2" by (simp add: execute_run_def)
  obtain s3 where s3: "execute_body v ?g run_id c finished ?s1 = (Some e, s3)"
    "ms_runs s3 = ms_runs s2" "ms_results s3 = ms_results s2"
    using good
    by (auto simp: execute_body_def no_faults_def Let_def
        split: option.splits sum.splits prod.splits)
  have ids: "map rt_id (ms_runs s3) = map rt_id (ms_runs s)"
    using execute_body_runs [OF s3(1)] by (simp add: update_runtime_ids)
  have d3: "distinct (map rt_id (ms_runs s3))" using assms(4) by (simp only: ids)
  have r3: "find_runtime_run run_id (ms_runs s3) = Some r" using assms(2) by (simp add: ok s3(2))
  obtain r' md s' where "execute_failed ?g run_id c finished e s3 = (None, s')"
    "find_runtime_run run_id (ms_runs s') = Some r'" "rt_status r' = RT_FAILED"
    "ms_audit s' = ms_audit s3 @ [run_audit run_id ''FAILED'' md]" "ms_results s' = ms_results s3"
    by (rule execute_failed_run [OF start(3,4) d3 r3, of c finished e])
  with s3 start(2) ok show ?thesis by (auto simp: execute_run_def)
qed

lemma demo_completed:
  "fst demo_executed = None"
  "map_option rt_status (find_runtime_run ''r'' (ms_runs (snd demo_executed))) = Some RT_COMPLETED"
  "length (ms_results (snd demo_executed)) = 2"
  by code_simp+

theorem audit_failure_hides_stored_results_witness:
  "\<exists>s'. execute_run demo_manual_env (no_faults\<lparr>mf_complete_audit := Some ''down''\<rparr>) ''r'' demo_context
      1 2 (demo_run ''r'') = (None, s') \<and> length (ms_results s') = 2"
proof -
  have run: "execute_run demo_manual_env no_faults ''r'' demo_context 1 2 (demo_run ''r'')
      = (None, snd demo_executed)"
    using demo_completed(1) by (simp add: demo_executed_def prod_eq_iff)
  obtain r where r: "find_runtime_run ''r'' (ms_runs (snd demo_executed)) = Some r"
    "rt_status r = RT_COMPLETED"
    using demo_completed(2) by blast
  from audit_failure_hides_stored_results [OF run r demo_run_ready(1), of "''down''"]
  show ?thesis using demo_completed(3) by auto
qed

end
