(* ===== verification/MappingConfig.thy ===== *)
theory MappingConfig
  imports Normalizer
begin

text \<open>
  Versioned mapping configurations and their checks: \<open>src/src/domain/mapping/models.py\<close>,
  \<open>src/src/config/validator.py\<close> and \<open>src/src/domain/mapping/contract.py\<close>.
\<close>

section \<open>Configurations\<close>

datatype config_status = CS_APPROVED | CS_PENDING_APPROVAL | CS_REJECTED | CS_SUPERSEDED

record mapping_config =
  mc_id :: uuid
  mc_partner :: string
  mc_workflow_type :: string
  mc_file_type :: string
  mc_sheet_name :: string
  mc_start_row :: int
  mc_mappings :: "field_mapping list"
  mc_version :: "string option"
  mc_signature :: "pydict option"
  mc_health :: "pydict option"
  mc_policy :: reconciliation_policy
  mc_status :: config_status
  mc_approved_at :: "datetime option"
  mc_approved_by :: "string option"
  mc_superseded_at :: "datetime option"
  mc_superseded_by :: "string option"
  mc_created_at :: datetime

section \<open>The validator\<close>

definition config_error :: "string option \<Rightarrow> rule_code \<Rightarrow> string \<Rightarrow> string \<Rightarrow> violation" where
  "config_error version code field message =
     default_violation\<lparr>qv_code := code, qv_phase := QP_CONFIGURATION, qv_severity := QS_FATAL,
       qv_outcome := QO_BATCH_FATAL, qv_field := Some field, qv_message := message,
       qv_config_version := version\<rparr>"

definition column_truthy :: "column option \<Rightarrow> bool" where
  "column_truthy c =
     (case c of None \<Rightarrow> False | Some (Col_Int i) \<Rightarrow> i \<noteq> 0 | Some (Col_Text s) \<Rightarrow> s \<noteq> [])"

text \<open>\<open>^[A-Z]+$\<close>, whose end also matches before a final line feed.\<close>

definition column_pattern :: "string \<Rightarrow> bool" where
  "column_pattern s =
     (let t = (if s \<noteq> [] \<and> last s = CHR 0x0A then butlast s else s)
      in t \<noteq> [] \<and> list_all (\<lambda>c. 65 \<le> (of_char c :: nat) \<and> (of_char c :: nat) \<le> 90) t)"

definition mapping_errors :: "string option \<Rightarrow> string set \<Rightarrow> field_mapping \<Rightarrow> violation list" where
  "mapping_errors version seen m =
     (let p = fm_path m; err = config_error version QR_CONFIG_VALIDATION p in
      (if p \<in> seen
       then [err (''duplicate path '' @ quoted p @ '' '' @ em_dash @
               '' same canonical path mapped multiple times'')] else []) @
      (if fm_type m = FM_CONSTANT \<and> \<not> str_truthy (fm_constant m)
       then [err (''CONSTANT type requires a non-empty constant value for path '' @ quoted p)]
       else []) @
      (if fm_type m = FM_MAPPING \<and> (case fm_mapping m of None \<Rightarrow> True | Some d \<Rightarrow> d = [])
       then [err (''MAPPING type requires a non-empty mapping dict for path '' @ quoted p)]
       else []) @
      (if fm_required m \<and> \<not> column_truthy (fm_column m) \<and> \<not> str_truthy (fm_source_field m) \<and>
          \<not> str_truthy (fm_constant m)
       then [err (''required field '' @ quoted p @ '' has no column, sourceField or constant '' @
               em_dash @ '' cannot be resolved'')]
       else []) @
      (case fm_column m of
         Some (Col_Text s) \<Rightarrow>
           if column_pattern (ascii_upper s) then []
           else [err (''invalid column format '' @ quoted s @ '' '' @ em_dash @
                  '' must be uppercase letters only (A-Z, AA-ZZ, etc.)'')]
       | _ \<Rightarrow> []))"

fun validate_mappings ::
  "string option \<Rightarrow> string set \<Rightarrow> field_mapping list \<Rightarrow> violation list" where
  "validate_mappings version seen [] = []"
| "validate_mappings version seen (m # ms) =
     mapping_errors version seen m @ validate_mappings version (insert (fm_path m) seen) ms"

definition validate_config :: "mapping_config \<Rightarrow> violation list" where
  "validate_config c =
     (if mc_mappings c = []
      then [config_error (mc_version c) QR_CONFIG_VALIDATION ''_global''
              (''field_mappings is empty '' @ em_dash @ '' config has no field mappings defined'')]
      else validate_mappings (mc_version c) {} (mc_mappings c))"

definition mapped_paths :: "mapping_config \<Rightarrow> string list" where
  "mapped_paths c = map fm_path (mc_mappings c)"

definition unmapped_paths :: "mapping_config \<Rightarrow> string list \<Rightarrow> string list" where
  "unmapped_paths c required = filter (\<lambda>p. p \<notin> set (mapped_paths c)) (sort (remdups required))"

definition validate_required_coverage :: "mapping_config \<Rightarrow> string list \<Rightarrow> violation list" where
  "validate_required_coverage c required =
     map (\<lambda>p. config_error (mc_version c) QR_REQUIRED_SCHEMA_PATH p
                (''required path '' @ quoted p @ '' has no field mapping''))
       (unmapped_paths c required)"

section \<open>The mapping contract\<close>

definition required_mapping_paths :: "string list" where
  "required_mapping_paths = [''id'', ''amount'', ''status'']"

text \<open>The last four words are Vietnamese, in UTF-8.\<close>

definition status_mapping_defaults :: pydict where
  "status_mapping_defaults =
     [(''SUCCESS'', VStr ''SUCCESS''), (''FAILED'', VStr ''FAILED''),
      (''PENDING'', VStr ''PENDING''), (''REVERSED'', VStr ''REVERSED''),
      (''Th'' @ [CHR 0xC3, CHR 0xA0] @ ''nh c'' @ [CHR 0xC3, CHR 0xB4] @ ''ng'', VStr ''SUCCESS''),
      (''Th'' @ [CHR 0xE1, CHR 0xBA, CHR 0xA5] @ ''t b'' @ [CHR 0xE1, CHR 0xBA, CHR 0xA1] @ ''i'',
       VStr ''FAILED''),
      ([CHR 0xC4, CHR 0x90] @ ''ang x'' @ [CHR 0xE1, CHR 0xBB, CHR 0xAD] @ '' l'' @
       [CHR 0xC3, CHR 0xBD], VStr ''PENDING''),
      ([CHR 0xC4, CHR 0x90, CHR 0xC3, CHR 0xA3] @ '' ho'' @ [CHR 0xC3, CHR 0xA0] @ ''n t'' @
       [CHR 0xC3, CHR 0xA1] @ ''c'', VStr ''REVERSED'')]"

definition currency_mapping :: pydict where
  "currency_mapping =
     [(''path'', VStr ''currency''), (''type'', VStr ''CONSTANT''), (''constant'', VStr ''VND''),
      (''required'', VBool True)]"

definition upgrade_status :: "norm_env \<Rightarrow> pydict \<Rightarrow> pydict \<times> string list" where
  "upgrade_status N item =
     (if dget item ''path'' = VStr ''status'' \<and>
         ascii_upper (py_str N (case map_of item ''type'' of None \<Rightarrow> VStr [] | Some v \<Rightarrow> v)) = ''STRING''
      then (dput (dput item ''type'' (VStr ''MAPPING'')) ''mapping'' (VDict status_mapping_defaults),
            [''Status mapping was upgraded from STRING to MAPPING. Adjust status normalization if partner values differ.''])
      else (item, []))"

definition canonicalize_field_mappings :: "norm_env \<Rightarrow> pydict list \<Rightarrow> pydict list \<times> string list" where
  "canonicalize_field_mappings N raw =
     (let (items, w) =
        (if VStr ''currency'' \<in> set (map (\<lambda>d. dget d ''path'') raw) then (raw, [])
         else (raw @ [currency_mapping],
               [''Currency was not mapped, so a CONSTANT '' @ quoted ''VND'' @ '' mapping was added.'']));
          ups = map (upgrade_status N) items
      in (map fst ups, w @ concat (map snd ups)))"

record contract_validation =
  cv_errors :: "string list"
  cv_warnings :: "string list"

definition contract_score :: "contract_validation \<Rightarrow> int" where
  "contract_score v =
     max 0 (min 100 (100 - int (length (cv_errors v)) * 15 - int (length (cv_warnings v)) * 5))"

fun joined :: "string list \<Rightarrow> string" where
  "joined [] = []"
| "joined [x] = x"
| "joined (x # y # xs) = x @ '', '' @ joined (y # xs)"

definition shared_columns :: "field_mapping list \<Rightarrow> (column \<times> string list) list" where
  "shared_columns ms =
     map (\<lambda>c. (c, map fm_path (filter (\<lambda>m. fm_column m = Some c) ms)))
       (rev (remdups (rev (List.map_filter fm_column ms))))"

definition validate_mapping_contract :: "mapping_config \<Rightarrow> string list \<Rightarrow> contract_validation" where
  "validate_mapping_contract c required =
     \<lparr>cv_errors = map qv_message (validate_config c @ validate_required_coverage c required),
      cv_warnings =
        concat (map (\<lambda>m. if fm_column m = None \<and> fm_constant m = None
           then [''Field '' @ quoted (fm_path m) @ '' has neither a source column nor a constant value.'']
           else []) (mc_mappings c)) @
        concat (map (\<lambda>(col, paths). if 1 < length paths
           then [''Column '' @ column_text col @ '' is mapped to multiple fields: '' @ joined paths]
           else []) (shared_columns (mc_mappings c)))\<rparr>"

section \<open>Lemmas\<close>

lemma config_error_fatal [simp]:
  "qv_outcome (config_error v c f m) = QO_BATCH_FATAL" "qv_severity (config_error v c f m) = QS_FATAL"
  by (simp_all add: config_error_def)

lemma validate_mappings_Nil:
  "validate_mappings v seen ms = [] \<longleftrightarrow>
     distinct (map fm_path ms) \<and> seen \<inter> set (map fm_path ms) = {} \<and>
     (\<forall>m \<in> set ms. mapping_errors v {} m = [])"
proof (induction ms arbitrary: seen)
  case (Cons m ms)
  have "mapping_errors v seen m = [] \<longleftrightarrow> fm_path m \<notin> seen \<and> mapping_errors v {} m = []"
    by (simp add: mapping_errors_def Let_def)
  with Cons show ?case by auto
qed simp

lemma validate_config_fatal: "v \<in> set (validate_config c) \<Longrightarrow> qv_outcome v = QO_BATCH_FATAL"
proof -
  have "v \<in> set (validate_mappings ver seen ms) \<Longrightarrow> qv_outcome v = QO_BATCH_FATAL" for ver seen ms
    by (induction ms arbitrary: seen)
      (auto simp: mapping_errors_def Let_def split: if_splits option.splits column.splits)
  then show "v \<in> set (validate_config c) \<Longrightarrow> qv_outcome v = QO_BATCH_FATAL"
    by (auto simp: validate_config_def split: if_splits)
qed

lemma upgrade_status_path:
  "dget (fst (upgrade_status N d)) ''path'' = dget d ''path''"
  by (simp add: upgrade_status_def dget_dput)

lemma currency_path: "dget currency_mapping ''path'' = VStr ''currency''"
  by (simp add: dget_def currency_mapping_def)

text \<open>The canonical form maps the currency, keeps the other paths, and is a fixed point.\<close>

lemma canonical_paths:
  "map (\<lambda>d. dget d ''path'') (fst (canonicalize_field_mappings N raw))
     = map (\<lambda>d. dget d ''path'') raw @
       (if VStr ''currency'' \<in> set (map (\<lambda>d. dget d ''path'') raw) then [] else [VStr ''currency''])"
  by (auto simp: canonicalize_field_mappings_def Let_def upgrade_status_path o_def currency_path)

lemma upgrade_status_fixed: "snd (upgrade_status N (fst (upgrade_status N d))) = []"
  by (auto simp: upgrade_status_def dget_dput ascii_upper_def)

end
