(* ===== verification/QualityGate.thy ===== *)
theory QualityGate
  imports MappingConfig Readers
begin

text \<open>
  The structural checks of a file before its rows are read: the signature of
  \<open>src/src/config/signature.py\<close> and the gate of \<open>src/src/pipeline/quality_gate.py\<close>.
\<close>

section \<open>Structure signatures\<close>

record signature =
  sg_headers :: "string list"
  sg_column_count :: int
  sg_sample_rows :: "string list list"
  sg_hash :: string
  sg_header_row_index :: int
  sg_first_data_row_index :: int

definition empty_signature :: signature where
  "empty_signature = \<lparr>sg_headers = [], sg_column_count = 0, sg_sample_rows = [], sg_hash = [],
     sg_header_row_index = 1, sg_first_data_row_index = 2\<rparr>"

definition signature_dict :: "signature \<Rightarrow> pydict" where
  "signature_dict s =
     [(''headers'', VList (map VStr (sg_headers s))), (''columnCount'', VInt (sg_column_count s)),
      (''sampleRows'', VList (map (\<lambda>r. VList (map VStr r)) (take 5 (sg_sample_rows s)))),
      (''hash'', VStr (sg_hash s)), (''headerRowIndex'', VInt (sg_header_row_index s)),
      (''firstDataRowIndex'', VInt (sg_first_data_row_index s))]"

text \<open>\<open>md5\<close> is the MD5 hex digest of the JSON text of headers and column count.\<close>

definition new_signature ::
  "(string list \<Rightarrow> string) \<Rightarrow> string list \<Rightarrow> string list list \<Rightarrow> int \<Rightarrow> int \<Rightarrow> signature" where
  "new_signature md5 headers sample header_row first_row =
     \<lparr>sg_headers = headers, sg_column_count = int (length headers), sg_sample_rows = sample,
      sg_hash = md5 headers, sg_header_row_index = header_row, sg_first_data_row_index = first_row\<rparr>"

text \<open>The items of a JSON document that are all dictionaries, when there is one.\<close>

definition dict_of :: "pyval \<Rightarrow> pydict option" where
  "dict_of v = (case v of VDict d \<Rightarrow> Some d | _ \<Rightarrow> None)"

definition json_objects :: "pyval \<Rightarrow> pydict list option" where
  "json_objects v =
     (case (case v of VDict d \<Rightarrow> dget d ''items'' | _ \<Rightarrow> v) of
        VList (x # xs) \<Rightarrow> those (map dict_of (x # xs))
      | _ \<Rightarrow> None)"

text \<open>The keys of the first objects in order of first occurrence.\<close>

definition object_headers :: "nat \<Rightarrow> pydict list \<Rightarrow> string list" where
  "object_headers n ds = rev (remdups (rev (concat (map (map fst) (take n ds)))))"

definition indexed_rows :: "nat \<Rightarrow> string list list \<Rightarrow> (nat \<times> string list) list" where
  "indexed_rows n rows =
     take n (dropWhile (\<lambda>(i, r). blank_row r) (List.enumerate 1 rows))"

definition excel_signature :: "(string list \<Rightarrow> string) \<Rightarrow> nat \<Rightarrow> string list list \<Rightarrow> signature" where
  "excel_signature md5 sample rows =
     (case indexed_rows (sample + 1) rows of
        [] \<Rightarrow> empty_signature
      | (i, hs) # rest \<Rightarrow>
          new_signature md5 hs (map snd (take sample rest)) (int i)
            (case rest of [] \<Rightarrow> int i + 1 | (j, _) # _ \<Rightarrow> int j))"

definition plain_signature :: "(string list \<Rightarrow> string) \<Rightarrow> nat \<Rightarrow> string list list \<Rightarrow> signature" where
  "plain_signature md5 sample raw =
     (case raw of
        [] \<Rightarrow> empty_signature
      | hs # rest \<Rightarrow>
          new_signature md5 hs (take sample rest) 1 (if take sample rest = [] then 1 else 2))"

text \<open>\<open>compute_signature\<close>; \<^const>\<open>None\<close> is a \<open>ValueError\<close>.\<close>

definition compute_signature ::
  "norm_env \<Rightarrow> (string list \<Rightarrow> string) \<Rightarrow> nat \<Rightarrow> source_file \<Rightarrow> signature option" where
  "compute_signature N md5 sample f =
     (case f of
        SF_Excel sheet active \<Rightarrow> Some (excel_signature md5 sample (map (map (normalize_cell N)) active))
      | SF_Csv rows \<Rightarrow> map_option (plain_signature md5 sample) (read_raw_rows N (sample + 1) f)
      | SF_Json v \<Rightarrow>
          (case json_objects v of
             Some ds \<Rightarrow>
               (let hs = object_headers (sample + 1) ds
                in Some (new_signature md5 hs
                     (map (\<lambda>d. map (\<lambda>h. normalize_cell N (dget d h)) hs) (take sample ds)) 1 1))
           | None \<Rightarrow> map_option (plain_signature md5 sample) (read_raw_rows N (sample + 1) f)))"

text \<open>\<open>structure_signature_shape\<close> of a stored signature; an empty one has no shape.\<close>

definition signature_shape :: "norm_env \<Rightarrow> pydict \<Rightarrow> (string list \<times> int) option" where
  "signature_shape N d =
     (case dget d ''headers'' of
        VList (x # xs) \<Rightarrow>
          Some (map (py_str N) (x # xs),
                case dget d ''columnCount'' of
                  VInt n \<Rightarrow> n
                | VBool b \<Rightarrow> (if b then 1 else 0)
                | _ \<Rightarrow> int (length (x # xs)))
      | _ \<Rightarrow> None)"

definition signatures_equivalent :: "norm_env \<Rightarrow> pydict \<Rightarrow> pydict \<Rightarrow> bool" where
  "signatures_equivalent N a b \<longleftrightarrow>
     signature_shape N a \<noteq> None \<and> signature_shape N a = signature_shape N b"

section \<open>The gate\<close>

definition required_schema_paths :: "string list" where
  "required_schema_paths = [''id'', ''amount'', ''currency'', ''status'']"

definition gate_column_index :: "norm_env \<Rightarrow> column \<Rightarrow> int option" where
  "gate_column_index N c =
     (case c of
        Col_Int i \<Rightarrow> Some i
      | Col_Text s \<Rightarrow> if is_digits s then Some (number_of s) else ne_index N (ascii_upper s))"

definition gate_fatal :: "rule_code \<Rightarrow> string \<Rightarrow> string \<Rightarrow> pyval \<Rightarrow> pyval \<Rightarrow> violation" where
  "gate_fatal code field message expected actual =
     default_violation\<lparr>qv_code := code, qv_phase := QP_FILE, qv_severity := QS_FATAL,
       qv_outcome := QO_BATCH_FATAL, qv_field := Some field, qv_message := message,
       qv_expected := expected, qv_actual := actual\<rparr>"

definition gate_warning :: "rule_code \<Rightarrow> string \<Rightarrow> string \<Rightarrow> pyval \<Rightarrow> pyval \<Rightarrow> violation" where
  "gate_warning code field message expected actual =
     default_violation\<lparr>qv_code := code, qv_phase := QP_FILE, qv_severity := QS_WARNING,
       qv_outcome := QO_WARNING, qv_field := Some field, qv_message := message,
       qv_expected := expected, qv_actual := actual\<rparr>"

text \<open>What the gate knows of the file: trimmed headers and, when there is one, the column count.\<close>

record file_shape =
  st_headers :: "string list"
  st_count :: "int option"
  st_inspected :: bool

definition column_value :: "column \<Rightarrow> pyval" where
  "column_value c = (case c of Col_Int i \<Rightarrow> VInt i | Col_Text s \<Rightarrow> VStr s)"

definition gate_required :: "field_mapping \<Rightarrow> bool" where
  "gate_required m \<longleftrightarrow> fm_required m \<or> fm_path m \<in> set required_schema_paths"

definition absent_column :: "field_mapping \<Rightarrow> column \<Rightarrow> int \<Rightarrow> violation" where
  "absent_column m c n =
     gate_fatal QR_MISSING_REQUIRED_SOURCE_COLUMN (fm_path m)
       (''Required source column '' @ quoted (column_text c) @ '' is not present in the file ('' @
        int_text n @ '' columns).'')
       (VStr (''column <= '' @ int_text n)) (column_value c)"

definition mapping_source_violations ::
  "norm_env \<Rightarrow> file_shape \<Rightarrow> field_mapping \<Rightarrow> violation list" where
  "mapping_source_violations N st m =
     (if fm_type m = FM_CONSTANT then []
      else case (fm_column m, st_count st) of
        (Some c, Some n) \<Rightarrow>
          (case gate_column_index N c of
             None \<Rightarrow> if gate_required m then [absent_column m c n] else []
           | Some i \<Rightarrow>
               if i < 1 \<or> n < i then (if gate_required m then [absent_column m c n] else [])
               else if st_headers st \<noteq> [] \<and> i \<le> int (length (st_headers st)) \<and>
                       st_headers st ! nat (i - 1) = [] \<and> gate_required m
               then [gate_fatal QR_MISSING_REQUIRED_SOURCE_COLUMN (fm_path m)
                       (''Required source column for '' @ quoted (fm_path m) @ '' has no header.'')
                       (VStr ''non-empty header'') (VStr (st_headers st ! nat (i - 1)))]
               else [])
      | _ \<Rightarrow>
          (case fm_source_field m of
             Some f \<Rightarrow>
               if st_inspected st \<and> f \<notin> set (st_headers st) \<and> gate_required m
               then [gate_fatal QR_MISSING_REQUIRED_SOURCE_COLUMN (fm_path m)
                       (''Required source field '' @ quoted f @ '' is not present.'')
                       (VStr f) (VList (map VStr (st_headers st)))]
               else []
           | None \<Rightarrow>
               if fm_column m = None \<and> gate_required m
               then [gate_fatal QR_REQUIRED_SCHEMA_PATH (fm_path m)
                       (''Required mapping '' @ quoted (fm_path m) @ '' has no source reference.'')
                       (VStr ''column or sourceField'') VNone]
               else []))"

definition required_path_violations :: "mapping_config \<Rightarrow> violation list" where
  "required_path_violations c =
     map (\<lambda>p. gate_fatal QR_REQUIRED_SCHEMA_PATH p
                (''Required schema path '' @ quoted p @ '' has no field mapping.'')
                (VStr ''mapped field path'') VNone)
       (unmapped_paths c required_schema_paths)"

definition actual_signature :: "file_shape \<Rightarrow> pydict" where
  "actual_signature st =
     [(''headers'', VList (map VStr (st_headers st))),
      (''columnCount'', VInt (case st_count st of
         Some n \<Rightarrow> if n = 0 then int (length (st_headers st)) else n
       | None \<Rightarrow> int (length (st_headers st))))]"

text \<open>\<open>xs[:n]\<close>\<close>

definition py_slice :: "int \<Rightarrow> 'a list \<Rightarrow> 'a list" where
  "py_slice n xs = (if 0 \<le> n then take (nat n) xs else take (nat (int (length xs) + n)) xs)"

definition append_only_drift :: "norm_env \<Rightarrow> pydict \<Rightarrow> pydict \<Rightarrow> bool" where
  "append_only_drift N expected actual =
     (case (signature_shape N expected, signature_shape N actual) of
        (Some (eh, ec), Some (ah, ac)) \<Rightarrow> ec < ac \<and> py_slice ec ah = eh
      | _ \<Rightarrow> False)"

definition drift_violations :: "norm_env \<Rightarrow> mapping_config \<Rightarrow> file_shape \<Rightarrow> violation list" where
  "drift_violations N c st =
     (case mc_signature c of
        Some (e # es) \<Rightarrow>
          (let expected = e # es; actual = actual_signature st
           in if st_headers st = [] \<or> signatures_equivalent N expected actual then []
              else if append_only_drift N expected actual
              then [gate_warning QR_SCHEMA_CONFIG_DRIFT ''_schema''
                      ''Source structure has non-breaking columns appended to the approved mapping signature.''
                      (VDict expected) (VDict actual)]
              else [gate_fatal QR_SCHEMA_CONFIG_DRIFT ''_schema''
                      ''Source structure differs from the approved mapping signature.''
                      (VDict expected) (VDict actual)])
      | _ \<Rightarrow> [])"

definition gate_violations :: "norm_env \<Rightarrow> mapping_config \<Rightarrow> file_shape \<Rightarrow> violation list" where
  "gate_violations N c st =
     validate_config c @ required_path_violations c @
     concat (map (mapping_source_violations N st) (mc_mappings c)) @ drift_violations N c st"

definition gate_evaluation :: "violation list \<Rightarrow> evaluation" where
  "gate_evaluation vs =
     make_evaluation
       (if \<exists>v \<in> set vs. qv_outcome v = QO_BATCH_FATAL then QO_BATCH_FATAL
        else if vs \<noteq> [] then QO_WARNING else QO_VALID)
       vs [(''phase'', VStr (phase_value QP_FILE))]"

text \<open>
  \<open>evaluate\<close> with the content of the file, or without one when its path does not exist;
  \<^const>\<open>None\<close> is \<open>SourceStructureUnreadableError\<close>.
\<close>

definition file_structure ::
  "norm_env \<Rightarrow> (string list \<Rightarrow> string) \<Rightarrow> source_file option \<Rightarrow> file_shape option" where
  "file_structure N md5 f =
     (case f of
        None \<Rightarrow> Some \<lparr>st_headers = [], st_count = None, st_inspected = False\<rparr>
      | Some g \<Rightarrow>
          map_option (\<lambda>s. \<lparr>st_headers = map py_strip (sg_headers s),
                          st_count = Some (sg_column_count s), st_inspected = True\<rparr>)
            (compute_signature N md5 0 g))"

definition evaluate_gate ::
  "norm_env \<Rightarrow> (string list \<Rightarrow> string) \<Rightarrow> mapping_config \<Rightarrow> source_file option \<Rightarrow> evaluation option"
  where
  "evaluate_gate N md5 c f =
     map_option (\<lambda>st. gate_evaluation (gate_violations N c st)) (file_structure N md5 f)"

end
