(* ===== verification/GateProps.thy ===== *)
theory GateProps
  imports QualityGate
begin

text \<open>What a file that passes the gate guarantees to the rows, and where the gate is too strict.\<close>

lemma gate_outcome_fatal:
  "v \<in> set vs \<Longrightarrow> qv_outcome v = QO_BATCH_FATAL \<Longrightarrow> qe_outcome (gate_evaluation vs) = QO_BATCH_FATAL"
  by (auto simp: gate_evaluation_def make_evaluation_def infer_outcome_def)

lemma no_member_Nil: "(\<And>v. v \<notin> set xs) \<Longrightarrow> xs = []"
  by (metis list.set_intros(1) neq_Nil_conv)

lemma gate_fatal_outcome [simp]: "qv_outcome (gate_fatal c f m e a) = QO_BATCH_FATAL"
  by (simp add: gate_fatal_def)

lemma source_violations_fatal:
  "v \<in> set (mapping_source_violations N st m) \<Longrightarrow> qv_outcome v = QO_BATCH_FATAL"
  by (auto simp: mapping_source_violations_def absent_column_def Let_def
      split: if_splits option.splits)

text \<open>A gate that does not fail found no violation but an appended column.\<close>

lemma gate_passed:
  assumes "qe_outcome (gate_evaluation (gate_violations N c st)) \<noteq> QO_BATCH_FATAL"
  shows "validate_config c = []" and "unmapped_paths c required_schema_paths = []"
    and "m \<in> set (mc_mappings c) \<Longrightarrow> mapping_source_violations N st m = []"
proof -
  have no: "qv_outcome v \<noteq> QO_BATCH_FATAL" if "v \<in> set (gate_violations N c st)" for v
    using assms gate_outcome_fatal [OF that] by blast
  have "v \<notin> set (validate_config c)" for v
    using no [of v] validate_config_fatal [of v c] by (auto simp: gate_violations_def)
  then show "validate_config c = []" by (rule no_member_Nil)
  have "v \<notin> set (required_path_violations c)" for v
    using no [of v] by (auto simp: gate_violations_def required_path_violations_def)
  then have "required_path_violations c = []" by (rule no_member_Nil)
  then show "unmapped_paths c required_schema_paths = []" by (simp add: required_path_violations_def)
  assume m: "m \<in> set (mc_mappings c)"
  have "v \<notin> set (mapping_source_violations N st m)" for v
    using no [of v] source_violations_fatal [of v N st m] m by (auto simp: gate_violations_def)
  then show "mapping_source_violations N st m = []" by (rule no_member_Nil)
qed

lemma unmapped_none: "unmapped_paths c required = [] \<Longrightarrow> set required \<subseteq> set (mapped_paths c)"
  by (auto simp: unmapped_paths_def filter_empty_conv)

lemma file_structure_Some:
  "file_structure N md5 (Some f) = Some st \<Longrightarrow>
     \<exists>s. compute_signature N md5 0 f = Some s \<and> st_count st = Some (sg_column_count s) \<and>
       st_headers st = map py_strip (sg_headers s)"
  by (auto simp: file_structure_def)

lemma passed_column_resolves:
  assumes "mapping_source_violations N st m = []" and "gate_required m"
    and "fm_type m \<noteq> FM_CONSTANT" and "fm_column m = Some col" and "st_count st = Some n"
    and "n \<le> int (length xs)"
    and "case col of Col_Text s \<Rightarrow> ne_index N (ascii_upper s) = ne_index N s | Col_Int _ \<Rightarrow> True"
  shows "\<exists>i. 1 \<le> i \<and> i \<le> n \<and> resolve_source N (VList xs) m row = Src_Value (xs ! nat (i - 1))"
proof -
  obtain i where i: "gate_column_index N col = Some i" "1 \<le> i" "i \<le> n"
    using assms(1-5)
    by (auto simp: mapping_source_violations_def split: option.splits if_splits)
  have index: "(case col of Col_Int i \<Rightarrow> Some i
      | Col_Text s \<Rightarrow> if is_digits s then Some (number_of s) else ne_index N s) = Some i"
    using i(1) assms(7) by (cases col) (simp_all add: gate_column_index_def split: if_splits)
  have "resolve_in_list N xs col m row = Src_Value (xs ! nat (i - 1))"
    unfolding resolve_in_list_def index using i(2,3) assms(6) by (simp add: Let_def)
  with i assms(4) show ?thesis by (auto simp: resolve_source_def)
qed

text \<open>C24: A file that passes the gate can be read: all four canonical fields are mapped, and for every
  required or canonical field with a column, the column exists in the file's header, so that the
  normalizer finds a source value in every row with at least as many cells as the header. Column
  letters are read alike in upper and lower case, as openpyxl does.\<close>

theorem gate_guarantees_required_columns:
  assumes "evaluate_gate N md5 c (Some f) = Some ev" and "qe_outcome ev \<noteq> QO_BATCH_FATAL"
    and "compute_signature N md5 0 f = Some s" and "sg_column_count s \<le> int (length xs)"
    and "m \<in> set (mc_mappings c)" and "gate_required m" and "fm_type m \<noteq> FM_CONSTANT"
    and "fm_column m = Some col"
    and "case col of Col_Text t \<Rightarrow> ne_index N (ascii_upper t) = ne_index N t | Col_Int _ \<Rightarrow> True"
  shows "set required_schema_paths \<subseteq> set (mapped_paths c) \<and>
    (\<exists>i. 1 \<le> i \<and> i \<le> sg_column_count s \<and>
       resolve_source N (VList xs) m row = Src_Value (xs ! nat (i - 1)))"
proof -
  obtain st where st: "file_structure N md5 (Some f) = Some st"
    and ev: "ev = gate_evaluation (gate_violations N c st)"
    using assms(1) by (auto simp: evaluate_gate_def)
  have n: "st_count st = Some (sg_column_count s)"
    using file_structure_Some [OF st] assms(3) by auto
  note pass = gate_passed [OF assms(2) [unfolded ev]]
  show ?thesis
    using unmapped_none [OF pass(2)]
      passed_column_resolves [OF pass(3) [OF assms(5)] assms(6-8) n assms(4,9)]
    by blast
qed

definition plain_mapping :: "string \<Rightarrow> int \<Rightarrow> field_mapping" where
  "plain_mapping path i =
     \<lparr>fm_path = path, fm_column = Some (Col_Int i), fm_source_field = None, fm_type = FM_STRING,
      fm_required = True, fm_constant = None, fm_mapping = None\<rparr>"

definition gate_env :: norm_env where
  "gate_env = \<lparr>ne_str = \<lambda>_. ''?'', ne_keys = \<lambda>_. [], ne_letter = \<lambda>_. None, ne_index = \<lambda>_. None,
     ne_zone = \<lambda>_ _. None, ne_coerce = Some\<rparr>"

definition gate_config :: "pydict option \<Rightarrow> mapping_config" where
  "gate_config sig =
     \<lparr>mc_id = ''c'', mc_partner = ''MOMO'', mc_workflow_type = ''W'', mc_file_type = ''RECONCILIATION'',
      mc_sheet_name = [], mc_start_row = 2,
      mc_mappings = [plain_mapping ''id'' 1, plain_mapping ''amount'' 2, plain_mapping ''currency'' 3,
        plain_mapping ''status'' 4],
      mc_version = None, mc_signature = sig, mc_health = None,
      mc_policy = \<lparr>rp_tolerance_seconds = 300, rp_timezone = ''UTC''\<rparr>, mc_status = CS_APPROVED,
      mc_approved_at = None, mc_approved_by = None, mc_superseded_at = None,
      mc_superseded_by = None, mc_created_at = 0\<rparr>"

definition gate_file :: source_file where
  "gate_file = SF_Csv [[''id'', ''amount'', ''ccy'', ''status''], [''1'', ''5'', ''VND'', ''SUCCESS'']]"

lemma gate_demo:
  "evaluate_gate gate_env (\<lambda>_. []) (gate_config None) (Some gate_file)
     = Some \<lparr>qe_outcome = QO_VALID, qe_violations = [], qe_row_context = [(''phase'', VStr ''FILE'')]\<rparr>"
  "compute_signature gate_env (\<lambda>_. []) 0 gate_file
     = Some \<lparr>sg_headers = [''id'', ''amount'', ''ccy'', ''status''], sg_column_count = 4,
         sg_sample_rows = [], sg_hash = [], sg_header_row_index = 1, sg_first_data_row_index = 1\<rparr>"
  "plain_mapping ''amount'' 2 \<in> set (mc_mappings (gate_config None))"
  "gate_required (plain_mapping ''amount'' 2)"
  by code_simp+

theorem gate_guarantees_required_columns_witness:
  "\<exists>i. 1 \<le> i \<and> i \<le> (4::int) \<and>
     resolve_source gate_env (VList (map VStr [''1'', ''5'', ''VND'', ''SUCCESS'']))
       (plain_mapping ''amount'' 2) None
     = Src_Value (map VStr [''1'', ''5'', ''VND'', ''SUCCESS''] ! nat (i - 1))"
  using gate_guarantees_required_columns [OF gate_demo(1) _ gate_demo(2) _ gate_demo(3,4),
      of "map VStr [''1'', ''5'', ''VND'', ''SUCCESS'']" "Col_Int 2" None]
  by (simp add: plain_mapping_def)

section \<open>A JSON source whose first object is not the widest\<close>

lemma remdups_append_suffix: "\<exists>zs. remdups (xs @ ys) = zs @ remdups ys"
  by (induction xs) auto

lemma object_headers_grow:
  assumes "n \<le> k"
  shows "\<exists>extra. object_headers k ds = object_headers n ds @ extra"
proof -
  have "take k ds = take n ds @ take (k - n) (drop n ds)"
    using assms by (metis take_add le_add_diff_inverse)
  then obtain ms where "rev (concat (map (map fst) (take k ds))) = ms @ rev (concat (map (map fst) (take n ds)))"
    by (metis concat_append map_append rev_append)
  then show ?thesis
    using remdups_append_suffix [of ms "rev (concat (map (map fst) (take n ds)))"]
    by (auto simp: object_headers_def)
qed

lemma shape_of_signature:
  assumes "hs \<noteq> []"
  shows "signature_shape N (signature_dict (new_signature md5 hs sample i j))
    = Some (hs, int (length hs))"
proof -
  obtain h t where "hs = h # t" using assms by (cases hs) auto
  then show ?thesis
    by (simp add: signature_shape_def signature_dict_def new_signature_def dget_def o_def)
qed

lemma shape_of_actual:
  assumes "st_headers st \<noteq> []" and "st_count st = Some (int (length (st_headers st)))"
  shows "signature_shape N (actual_signature st)
    = Some (st_headers st, int (length (st_headers st)))"
proof -
  obtain h t where "st_headers st = h # t" using assms(1) by (cases "st_headers st") auto
  then show ?thesis
    using assms(2) by (simp add: signature_shape_def actual_signature_def dget_def o_def)
qed

text \<open>The gate and the configuration health check disagree on JSON sources: the health check
  takes the keys of the first eleven objects as the structure, the gate those of the first object
  only. When a later one of them has a key the first lacks, the gate refuses the very file whose
  signature the configuration holds.\<close>

theorem optional_json_key_fails_the_gate:
  assumes "json_objects v = Some ds" and "object_headers 1 ds \<noteq> []"
    and "object_headers 11 ds \<noteq> object_headers 1 ds"
    and "compute_signature N md5 10 (SF_Json v) = Some s"
    and "mc_signature c = Some (signature_dict s)"
  shows "\<exists>ev. evaluate_gate N md5 c (Some (SF_Json v)) = Some ev \<and>
    qe_outcome ev = QO_BATCH_FATAL \<and> evaluation_decision ev = QD_FAIL"
proof -
  let ?hs = "object_headers 1 ds" and ?ws = "object_headers 11 ds"
  let ?st = "\<lparr>st_headers = map py_strip ?hs, st_count = Some (int (length ?hs)), st_inspected = True\<rparr>"
  obtain extra where extra: "?ws = ?hs @ extra" using object_headers_grow [of 1 11 ds] by auto
  with assms(3) have longer: "length ?hs < length ?ws" by (cases extra) auto
  have ws: "?ws \<noteq> []" using longer by auto
  obtain sample where s: "s = new_signature md5 ?ws sample 1 1"
    using assms(1,4) by (auto simp: compute_signature_def Let_def)
  have st: "file_structure N md5 (Some (SF_Json v)) = Some ?st"
    using assms(1) by (simp add: file_structure_def compute_signature_def Let_def new_signature_def)
  have exp: "signature_shape N (signature_dict s) = Some (?ws, int (length ?ws))"
    unfolding s by (rule shape_of_signature [OF ws])
  have act: "signature_shape N (actual_signature ?st) = Some (map py_strip ?hs, int (length ?hs))"
    using shape_of_actual [of ?st N] assms(2) by simp
  obtain e es where d: "signature_dict s = e # es" by (cases "signature_dict s") (simp_all add: signature_dict_def)
  have "\<not> signatures_equivalent N (e # es) (actual_signature ?st)"
    using exp act longer by (simp add: signatures_equivalent_def d)
  moreover have "\<not> append_only_drift N (e # es) (actual_signature ?st)"
    using exp act longer by (simp add: append_only_drift_def d)
  ultimately have "\<exists>w \<in> set (drift_violations N c ?st). qv_outcome w = QO_BATCH_FATAL"
    using assms(2,5) by (simp add: drift_violations_def d Let_def)
  then obtain w where w: "w \<in> set (gate_violations N c ?st)" "qv_outcome w = QO_BATCH_FATAL"
    by (auto simp: gate_violations_def)
  have "qe_outcome (gate_evaluation (gate_violations N c ?st)) = QO_BATCH_FATAL"
    by (rule gate_outcome_fatal [OF w])
  then show ?thesis
    by (simp add: evaluate_gate_def st evaluation_decision_def decision_from_evaluations
        worst_decision_def)
qed

definition json_demo :: pyval where
  "json_demo =
     VList [VDict [(''id'', VStr ''1''), (''amount'', VStr ''5''), (''currency'', VStr ''VND''),
               (''status'', VStr ''SUCCESS'')],
            VDict [(''id'', VStr ''2''), (''amount'', VStr ''7''), (''currency'', VStr ''VND''),
               (''status'', VStr ''FAILED''), (''reason'', VStr ''limit'')]]"

definition json_demo_signature :: signature where
  "json_demo_signature =
     (case compute_signature gate_env (\<lambda>_. []) 10 (SF_Json json_demo) of None \<Rightarrow> empty_signature | Some s \<Rightarrow> s)"

lemma json_demo_facts:
  "json_objects json_demo = Some (List.map_filter dict_of (case json_demo of VList xs \<Rightarrow> xs | _ \<Rightarrow> []))"
  "object_headers 1 (List.map_filter dict_of (case json_demo of VList xs \<Rightarrow> xs | _ \<Rightarrow> [])) \<noteq> []"
  "object_headers 11 (List.map_filter dict_of (case json_demo of VList xs \<Rightarrow> xs | _ \<Rightarrow> []))
     \<noteq> object_headers 1 (List.map_filter dict_of (case json_demo of VList xs \<Rightarrow> xs | _ \<Rightarrow> []))"
  "compute_signature gate_env (\<lambda>_. []) 10 (SF_Json json_demo) = Some json_demo_signature"
  by code_simp+

theorem optional_json_key_fails_the_gate_witness:
  "\<exists>ev. evaluate_gate gate_env (\<lambda>_. []) (gate_config (Some (signature_dict json_demo_signature)))
      (Some (SF_Json json_demo)) = Some ev \<and> evaluation_decision ev = QD_FAIL"
  using optional_json_key_fails_the_gate [OF json_demo_facts,
      of "gate_config (Some (signature_dict json_demo_signature))"]
  by (auto simp: gate_config_def)

section \<open>Column numbers written as text\<close>

text \<open>A column given as digits fails the gate although gate and normalizer both know its index.\<close>

lemma digit_column_fails_the_gate:
  assumes "m \<in> set (mc_mappings c)" and "fm_column m = Some (Col_Text s)" and "is_digits s"
    and "evaluate_gate N md5 c f = Some ev"
  shows "qe_outcome ev = QO_BATCH_FATAL"
proof (rule ccontr)
  assume "qe_outcome ev \<noteq> QO_BATCH_FATAL"
  with assms(4) have "validate_config c = []"
    using gate_passed(1) by (auto simp: evaluate_gate_def)
  then have err: "mapping_errors (mc_version c) {} m = []"
    using assms(1) by (auto simp: validate_config_def validate_mappings_Nil split: if_splits)
  obtain d t where s: "s = d # t" and "digit_value d \<noteq> None"
    using assms(3) by (cases s) (auto simp: is_digits_def)
  then have d: "(of_char d :: nat) < 58" "(of_char d :: nat) \<ge> 48"
    by (auto simp: digit_value_def Let_def split: if_splits)
  have "\<not> column_pattern (ascii_upper s)"
    using d by (cases t) (auto simp: column_pattern_def ascii_upper_def s Let_def)
  with err assms(2) show False by (simp add: mapping_errors_def Let_def)
qed

end
