(* ===== verification/FileClaims.thy ===== *)
theory FileClaims
  imports Scope RunState Readers
begin

text \<open>
  File claims: \<open>src/src/domain/ingestion/models.py\<close>, the collection of
  \<open>src/src/infrastructure/ingestion/file_repository.py\<close> with its unique indexes, and the claim
  of \<open>src/src/pipeline/file_claim.py\<close>. The collection is the list of its documents.
\<close>

section \<open>Files\<close>

datatype processing_status = PS_PENDING | PS_PROCESSING | PS_COMPLETED | PS_PARTIAL | PS_FAILED

fun processing_status_value :: "processing_status \<Rightarrow> string" where
  "processing_status_value PS_PENDING = ''PENDING''"
| "processing_status_value PS_PROCESSING = ''PROCESSING''"
| "processing_status_value PS_COMPLETED = ''COMPLETED''"
| "processing_status_value PS_PARTIAL = ''PARTIAL''"
| "processing_status_value PS_FAILED = ''FAILED''"

record recon_file =
  rf_id :: uuid
  rf_partner :: string
  rf_file_name :: string
  rf_file_hash :: string
  rf_file_type :: string
  rf_date :: datetime
  rf_status :: processing_status
  rf_total_rows :: nat
  rf_success_rows :: nat
  rf_failed_rows :: nat
  rf_duplicate_rows :: nat
  rf_stage_summary :: pydict
  rf_config_version :: "string option"
  rf_fetch_unit_key :: "string option"
  rf_metadata :: pydict
  rf_source_path :: "string option"
  rf_scope :: scope_decision
  rf_uploaded_at :: datetime
  rf_created_by :: string
  rf_created_at :: datetime

type_synonym file_table = "recon_file list"

text \<open>What the scope classification and the engine read of a file.\<close>

definition file_docs :: "file_table \<Rightarrow> file_store" where
  "file_docs fs =
     map (\<lambda>f. (rf_id f, \<lparr>fd_partner = rf_partner f, fd_reconciliation_date = Some (rf_date f),
                        fd_scope_type = VStr (scope_value (sd_type (rf_scope f)))\<rparr>)) fs"

section \<open>Repository\<close>

definition same_content :: "string \<Rightarrow> string \<Rightarrow> recon_file \<Rightarrow> bool" where
  "same_content partner hash f \<longleftrightarrow> rf_partner f = partner \<and> rf_file_hash f = hash"

definition find_by_file_hash :: "string \<Rightarrow> string \<Rightarrow> file_table \<Rightarrow> recon_file option" where
  "find_by_file_hash partner hash fs = List.find (same_content partner hash) fs"

definition reclaim_failed_by_file_hash ::
  "string \<Rightarrow> string \<Rightarrow> file_table \<Rightarrow> recon_file option \<times> file_table" where
  "reclaim_failed_by_file_hash partner hash fs =
     find_and_update_doc (\<lambda>f. same_content partner hash f \<and> rf_status f = PS_FAILED)
       (\<lambda>f. f\<lparr>rf_status := PS_PROCESSING, rf_total_rows := 0, rf_success_rows := 0,
              rf_failed_rows := 0, rf_duplicate_rows := 0, rf_stage_summary := []\<rparr>) fs"

text \<open>A filter \<open>{field: text}\<close> also matches a list that contains the text.\<close>

definition mongo_text :: "pyval \<Rightarrow> string \<Rightarrow> bool" where
  "mongo_text v s \<longleftrightarrow> v = VStr s \<or> (case v of VList xs \<Rightarrow> VStr s \<in> set xs | _ \<Rightarrow> False)"

definition find_by_fetch_unit_key :: "string \<Rightarrow> file_table \<Rightarrow> recon_file option" where
  "find_by_fetch_unit_key k fs =
     List.find (\<lambda>f. rf_fetch_unit_key f = Some k \<or> mongo_text (dget (rf_metadata f) ''sourceUnitKey'') k \<or>
       mongo_text (dget (rf_metadata f) ''sourceUnitKeys'') k) fs"

definition find_completed_by_raw_stage_key :: "string \<Rightarrow> file_table \<Rightarrow> recon_file option" where
  "find_completed_by_raw_stage_key k fs =
     List.find (\<lambda>f. mongo_text (dget (rf_metadata f) ''rawStageKey'') k \<and> rf_status f = PS_COMPLETED) fs"

definition find_files_by_partner_and_date :: "string \<Rightarrow> datetime \<Rightarrow> file_table \<Rightarrow> file_table" where
  "find_files_by_partner_and_date partner d fs = filter (\<lambda>f. rf_partner f = partner \<and> rf_date f = d) fs"

text \<open>The unique indexes: the id, the partner with the content hash, and the fetch unit key if any.\<close>

definition clashes :: "recon_file \<Rightarrow> recon_file \<Rightarrow> bool" where
  "clashes f g \<longleftrightarrow> rf_id g = rf_id f \<or> same_content (rf_partner f) (rf_file_hash f) g \<or>
     rf_fetch_unit_key f \<noteq> None \<and> rf_fetch_unit_key g = rf_fetch_unit_key f"

text \<open>\<open>create_or_get_by_file_hash\<close>; \<^const>\<open>None\<close> is the duplicate-key error raised again.\<close>

definition create_or_get_by_file_hash ::
  "recon_file \<Rightarrow> file_table \<Rightarrow> (recon_file \<times> bool) option \<times> file_table" where
  "create_or_get_by_file_hash f fs =
     (if List.find (clashes f) fs = None then (Some (f, True), fs @ [f])
      else case find_by_file_hash (rf_partner f) (rf_file_hash f) fs of
             Some g \<Rightarrow> (Some (g, False), fs)
           | None \<Rightarrow>
               if str_truthy (rf_fetch_unit_key f)
               then (map_option (\<lambda>g. (g, False)) (find_by_fetch_unit_key (the (rf_fetch_unit_key f)) fs), fs)
               else (None, fs))"

text \<open>
  \<open>read_row\<close>: \<open>content\<close> gives the parsed file a path names, if there is one; \<^const>\<open>Inl\<close> is the
  \<open>ValueError\<close> of a row number below one.
\<close>

definition read_row ::
  "norm_env \<Rightarrow> (string \<Rightarrow> source_file option) \<Rightarrow> uuid \<Rightarrow> int \<Rightarrow> file_table \<Rightarrow> unit + pyval option" where
  "read_row N content fid row fs =
     (case List.find (\<lambda>f. rf_id f = fid) fs of
        None \<Rightarrow> Inr None
      | Some f \<Rightarrow>
          (case (case str_or (rf_source_path f) None of
                   Some p \<Rightarrow> Some p
                 | None \<Rightarrow> (case dget (rf_metadata f) ''localPath'' of VStr (c # s) \<Rightarrow> Some (c # s) | _ \<Rightarrow> None)) of
             None \<Rightarrow> Inr None
           | Some p \<Rightarrow>
               (case content p of None \<Rightarrow> Inr None | Some src \<Rightarrow> read_authoritative_row N src row)))"

definition update_file :: "uuid \<Rightarrow> (recon_file \<Rightarrow> recon_file) \<Rightarrow> file_table \<Rightarrow> file_table" where
  "update_file fid f fs = update_first (\<lambda>g. rf_id g = fid) f fs"

definition set_stats :: "nat \<Rightarrow> nat \<Rightarrow> nat \<Rightarrow> nat \<Rightarrow> recon_file \<Rightarrow> recon_file" where
  "set_stats rows success failed duplicate f =
     f\<lparr>rf_total_rows := rows, rf_success_rows := success, rf_failed_rows := failed,
       rf_duplicate_rows := duplicate\<rparr>"

definition update_processing_stats ::
  "uuid \<Rightarrow> nat \<Rightarrow> nat \<Rightarrow> nat \<Rightarrow> nat \<Rightarrow> file_table \<Rightarrow> file_table" where
  "update_processing_stats fid rows success failed duplicate fs =
     update_file fid (set_stats rows success failed duplicate) fs"

definition update_status :: "uuid \<Rightarrow> processing_status \<Rightarrow> file_table \<Rightarrow> file_table" where
  "update_status fid st fs = update_file fid (\<lambda>f. f\<lparr>rf_status := st\<rparr>) fs"

text \<open>The document also gets an \<open>updatedAt\<close> the model class has no field for.\<close>

definition update_stage_summary :: "uuid \<Rightarrow> pydict \<Rightarrow> file_table \<Rightarrow> file_table" where
  "update_stage_summary fid summary fs = update_file fid (\<lambda>f. f\<lparr>rf_stage_summary := summary\<rparr>) fs"

section \<open>Fetch unit keys\<close>

text \<open>
  \<open>digest\<close> is the SHA-256 hex digest of the canonical JSON text of the identity; the two errors
  are the \<open>ValueError\<close>s.
\<close>

datatype key_error = KE_No_Endpoint | KE_No_Window

definition fetch_unit_identity ::
  "string \<Rightarrow> string \<Rightarrow> string \<Rightarrow> string \<Rightarrow> string option \<Rightarrow> pydict \<Rightarrow> pydict" where
  "fetch_unit_identity partner workflow ftype date version d =
     [(''partner'', VStr partner), (''workflowType'', VStr workflow), (''fileType'', VStr ftype),
      (''reconciliationDate'', VStr date), (''configVersion'', text_value version),
      (''sourceEndpoint'', dget d ''sourceEndpoint''), (''page'', dget d ''page''),
      (''cursor'', dget d ''cursor''), (''windowStart'', dget d ''windowStart''),
      (''windowEnd'', dget d ''windowEnd'')]"

definition derive_fetch_unit_key ::
  "(pydict \<Rightarrow> string) \<Rightarrow> string \<Rightarrow> string \<Rightarrow> string \<Rightarrow> string \<Rightarrow> string option \<Rightarrow> pydict option
     \<Rightarrow> key_error + string option" where
  "derive_fetch_unit_key digest partner workflow ftype date version metadata =
     (case metadata of
        None \<Rightarrow> Inr None
      | Some [] \<Rightarrow> Inr None
      | Some d \<Rightarrow>
          (case (case dget d ''sourceUnitKey'' of VStr s \<Rightarrow> py_strip s | _ \<Rightarrow> []) of
             c # k \<Rightarrow> Inr (Some (c # k))
           | [] \<Rightarrow>
               if \<not> truthy (dget d ''sourceEndpoint'') then Inl KE_No_Endpoint
               else if list_all (\<lambda>k. dget d k = VNone) [''page'', ''cursor'', ''windowStart'', ''windowEnd'']
               then Inl KE_No_Window
               else Inr (Some (digest (fetch_unit_identity partner workflow ftype date version d)))))"

section \<open>Claims\<close>

record claim_result =
  cl_file :: recon_file
  cl_created :: bool
  cl_duplicate_code :: "string option"

text \<open>
  \<open>claim\<close> with the answer of its first lookup, which is arbitrarily old by the time the second
  operation runs; \<^const>\<open>None\<close> is the duplicate-key error.
\<close>

definition claim_file ::
  "recon_file option \<Rightarrow> recon_file \<Rightarrow> file_table \<Rightarrow> claim_result option \<times> file_table" where
  "claim_file existing cand fs =
     (case existing of
        Some f \<Rightarrow>
          (let duplicate = \<lparr>cl_file = f, cl_created = False, cl_duplicate_code = Some ''file_duplicate''\<rparr>
           in if rf_status f = PS_FAILED
              then (case reclaim_failed_by_file_hash (rf_partner cand) (rf_file_hash cand) fs of
                      (Some g, fs') \<Rightarrow> (Some \<lparr>cl_file = g, cl_created = True, cl_duplicate_code = None\<rparr>, fs')
                    | (None, fs') \<Rightarrow> (Some duplicate, fs'))
              else (Some duplicate, fs))
      | None \<Rightarrow>
          (case create_or_get_by_file_hash cand fs of
             (None, fs') \<Rightarrow> (None, fs')
           | (Some (g, created), fs') \<Rightarrow>
               (Some \<lparr>cl_file = g, cl_created = created,
                      cl_duplicate_code =
                        (if created then None
                         else if str_truthy (rf_fetch_unit_key cand) \<and>
                                 rf_fetch_unit_key g = rf_fetch_unit_key cand \<and>
                                 rf_file_hash g \<noteq> rf_file_hash cand
                         then Some ''fetch_unit_duplicate'' else Some ''file_duplicate'')\<rparr>, fs')))"

text \<open>\<open>Path(p).name\<close> of a path that does not end in a slash.\<close>

definition path_name :: "string \<Rightarrow> string" where
  "path_name p = rev (takeWhile (\<lambda>c. c \<noteq> CHR ''/'') (rev p))"

definition new_file ::
  "uuid \<Rightarrow> datetime \<Rightarrow> string \<Rightarrow> string \<Rightarrow> string \<Rightarrow> datetime \<Rightarrow> string \<Rightarrow> string option \<Rightarrow> string option
     \<Rightarrow> pydict option \<Rightarrow> scope_decision \<Rightarrow> recon_file" where
  "new_file fid now path partner ftype date hash version key metadata scope =
     \<lparr>rf_id = fid, rf_partner = partner, rf_file_name = path_name path, rf_file_hash = hash,
      rf_file_type = ftype, rf_date = date, rf_status = PS_PROCESSING, rf_total_rows = 0,
      rf_success_rows = 0, rf_failed_rows = 0, rf_duplicate_rows = 0, rf_stage_summary = [],
      rf_config_version = version, rf_fetch_unit_key = key,
      rf_metadata = (case metadata of None \<Rightarrow> [] | Some d \<Rightarrow> d), rf_source_path = Some path,
      rf_scope = scope, rf_uploaded_at = now, rf_created_by = ''system'', rf_created_at = now\<rparr>"

text \<open>Claims of several workers, each with the answer its own lookup gave it at some time.\<close>

fun claim_all ::
  "(recon_file option \<times> recon_file) list \<Rightarrow> file_table \<Rightarrow> claim_result option list \<times> file_table" where
  "claim_all [] fs = ([], fs)"
| "claim_all ((ex, cand) # cs) fs =
     (let (r, fs') = claim_file ex cand fs; (rs, fs'') = claim_all cs fs' in (r # rs, fs''))"

section \<open>The unique indexes as an invariant\<close>

definition files_ok :: "file_table \<Rightarrow> bool" where
  "files_ok fs \<longleftrightarrow> distinct (map rf_id fs) \<and> distinct (map (\<lambda>f. (rf_partner f, rf_file_hash f)) fs) \<and>
     distinct (List.map_filter rf_fetch_unit_key fs)"

text \<open>An update that keeps the indexed fields keeps the indexes.\<close>

lemma update_first_ok:
  assumes "\<And>f. rf_id (h f) = rf_id f" "\<And>f. rf_partner (h f) = rf_partner f"
    "\<And>f. rf_file_hash (h f) = rf_file_hash f" "\<And>f. rf_fetch_unit_key (h f) = rf_fetch_unit_key f"
  shows "files_ok (update_first p h fs) = files_ok fs"
proof -
  have "map rf_id (update_first p h fs) = map rf_id fs"
    "map (\<lambda>f. (rf_partner f, rf_file_hash f)) (update_first p h fs) = map (\<lambda>f. (rf_partner f, rf_file_hash f)) fs"
    using assms by (auto intro!: update_first_keys)
  moreover have "List.map_filter rf_fetch_unit_key (update_first p h fs) = List.map_filter rf_fetch_unit_key fs"
    using assms(4) by (induction fs) (auto simp: List.map_filter_simps split: option.splits)
  ultimately show ?thesis by (simp add: files_ok_def)
qed

lemma find_None: "List.find P xs = None \<longleftrightarrow> (\<forall>x \<in> set xs. \<not> P x)"
  by (auto simp: find_None_iff)

lemma create_ok:
  assumes "files_ok fs" and "create_or_get_by_file_hash f fs = (r, fs')"
  shows "files_ok fs'"
proof (cases "List.find (clashes f) fs = None")
  case True
  then have no: "\<forall>g \<in> set fs. \<not> clashes f g" by (simp add: find_None)
  have "rf_id f \<notin> rf_id ` set fs" "(rf_partner f, rf_file_hash f) \<notin> (\<lambda>f. (rf_partner f, rf_file_hash f)) ` set fs"
    using no by (fastforce simp: clashes_def same_content_def)+
  moreover have "k \<notin> set (List.map_filter rf_fetch_unit_key fs)" if "rf_fetch_unit_key f = Some k" for k
    using no that by (auto simp: clashes_def List.map_filter_def)
  ultimately show ?thesis
    using assms True
    by (auto simp: create_or_get_by_file_hash_def files_ok_def List.map_filter_def
        split: option.splits)
next
  case False
  with assms show ?thesis
    by (auto simp: create_or_get_by_file_hash_def split: option.splits if_splits)
qed

lemma reclaim_ok:
  "reclaim_failed_by_file_hash p h fs = (r, fs') \<Longrightarrow> files_ok fs' = files_ok fs"
proof -
  assume a: "reclaim_failed_by_file_hash p h fs = (r, fs')"
  have "fs' = snd (reclaim_failed_by_file_hash p h fs)" using a by simp
  then show ?thesis by (simp add: reclaim_failed_by_file_hash_def update_first_ok)
qed

lemma claim_ok:
  assumes "files_ok fs" and "claim_file ex cand fs = (r, fs')"
  shows "files_ok fs'"
  using assms create_ok [OF assms(1)] reclaim_ok
  by (auto simp: claim_file_def Let_def split: option.splits if_splits prod.splits)

lemma update_file_ok:
  "files_ok (update_status i st fs) = files_ok fs"
  "files_ok (update_processing_stats i n s d e fs) = files_ok fs"
  "files_ok (update_stage_summary i sm fs) = files_ok fs"
  by (simp_all add: update_status_def update_processing_stats_def update_stage_summary_def
      update_file_def set_stats_def update_first_ok)

section \<open>Ownership\<close>

definition claimed :: "string \<Rightarrow> string \<Rightarrow> file_table \<Rightarrow> bool" where
  "claimed p h fs \<longleftrightarrow> (\<exists>f \<in> set fs. same_content p h f \<and> rf_status f \<noteq> PS_FAILED)"

definition owns :: "string \<Rightarrow> string \<Rightarrow> (recon_file option \<times> recon_file) \<times> claim_result option \<Rightarrow> bool" where
  "owns p h x \<longleftrightarrow> same_content p h (snd (fst x)) \<and>
     (case snd x of None \<Rightarrow> False | Some c \<Rightarrow> cl_created c)"

lemma create_owns:
  assumes "rf_status cand \<noteq> PS_FAILED" and "create_or_get_by_file_hash cand fs = (r, fs')"
  shows "(claimed p h fs \<longrightarrow> claimed p h fs') \<and>
    ((\<exists>g. r = Some (g, True)) \<and> same_content p h cand \<longrightarrow> \<not> claimed p h fs \<and> claimed p h fs')"
proof (cases "List.find (clashes cand) fs = None")
  case True
  then have "\<not> clashes cand g" if "g \<in> set fs" for g using that by (simp add: find_None)
  then have "same_content p h cand \<longrightarrow> \<not> claimed p h fs"
    by (auto simp: claimed_def clashes_def same_content_def)
  with True assms show ?thesis by (auto simp: create_or_get_by_file_hash_def claimed_def)
next
  case False
  with assms(2) show ?thesis
    by (auto simp: create_or_get_by_file_hash_def split: option.splits if_splits)
qed

lemma reclaim_first:
  assumes "distinct (map (\<lambda>f. (rf_partner f, rf_file_hash f)) fs)"
    and "g \<in> set fs" and "same_content p h g" and "rf_status g = PS_FAILED" and "same_content p h f" and "f \<in> set fs"
  shows "rf_status f = PS_FAILED"
proof -
  have "f = g"
    using assms by (auto simp: same_content_def distinct_map inj_on_def)
  with assms(4) show ?thesis by simp
qed

lemma reclaim_owns:
  assumes "files_ok fs" and "reclaim_failed_by_file_hash p' h' fs = (r, fs')"
  shows "(claimed p h fs \<longrightarrow> claimed p h fs') \<and>
    (r \<noteq> None \<and> p' = p \<and> h' = h \<longrightarrow> \<not> claimed p h fs \<and> claimed p h fs')"
proof -
  let ?P = "\<lambda>f. same_content p' h' f \<and> rf_status f = PS_FAILED"
  let ?h = "\<lambda>f. f\<lparr>rf_status := PS_PROCESSING, rf_total_rows := 0, rf_success_rows := 0,
              rf_failed_rows := 0, rf_duplicate_rows := 0, rf_stage_summary := []\<rparr>"
  have up: "fs' = update_first ?P ?h fs"
    using arg_cong [OF assms(2), of snd] by (simp add: reclaim_failed_by_file_hash_def)
  have keep: "f \<in> set (update_first ?P ?h xs)" if "f \<in> set xs" "rf_status f \<noteq> PS_FAILED" for f xs
    using that by (induction xs) auto
  have new: "?h g \<in> set (update_first ?P ?h xs)" if "List.find ?P xs = Some g" for g xs
    using that by (induction xs) (auto split: if_splits)
  have mono: "claimed p h fs \<longrightarrow> claimed p h fs'"
    using keep up by (fastforce simp: claimed_def)
  have "\<not> claimed p h fs \<and> claimed p h fs'" if ne: "r \<noteq> None" "p' = p" "h' = h"
  proof -
    obtain g where g: "List.find ?P fs = Some g"
      using ne assms(2) by (auto simp: reclaim_failed_by_file_hash_def find_and_update_doc_def split: option.splits)
    then have "g \<in> set fs" "?P g" by (auto simp: find_Some_iff in_set_conv_nth)
    with assms(1) ne have "\<not> claimed p h fs"
      using reclaim_first [of fs g p h] by (auto simp: files_ok_def claimed_def)
    moreover have "claimed p h fs'"
      using new [OF g] \<open>?P g\<close> ne up by (auto simp: claimed_def same_content_def intro!: bexI [of _ "?h g"])
    ultimately show ?thesis by blast
  qed
  with mono show ?thesis by blast
qed

lemma claim_owns:
  assumes "files_ok fs" and "rf_status cand \<noteq> PS_FAILED" and "claim_file ex cand fs = (r, fs')"
  shows "(claimed p h fs \<longrightarrow> claimed p h fs') \<and>
    (owns p h ((ex, cand), r) \<longrightarrow> \<not> claimed p h fs \<and> claimed p h fs')"
proof (cases ex)
  case None
  obtain q fs1 where c: "create_or_get_by_file_hash cand fs = (q, fs1)" by (metis prod.exhaust)
  from create_owns [OF assms(2) c] assms(3) None c show ?thesis
    by (auto simp: claim_file_def owns_def split: option.splits prod.splits)
next
  case (Some f)
  obtain q fs1 where c: "reclaim_failed_by_file_hash (rf_partner cand) (rf_file_hash cand) fs = (q, fs1)"
    by (metis prod.exhaust)
  from reclaim_owns [OF assms(1) c, of p h] assms(3) Some c show ?thesis
    by (auto simp: claim_file_def owns_def same_content_def Let_def split: option.splits if_splits)
qed

lemma claim_all_owners:
  assumes "files_ok fs" and "list_all (\<lambda>c. rf_status (snd c) \<noteq> PS_FAILED) cs"
    and "claim_all cs fs = (rs, fs')"
  shows "files_ok fs' \<and> length (filter (owns p h) (zip cs rs)) \<le> (if claimed p h fs then 0 else 1)"
  using assms
proof (induction cs arbitrary: fs rs fs')
  case Nil
  then show ?case by simp
next
  case (Cons c cs)
  obtain ex cand where c: "c = (ex, cand)" by (cases c)
  obtain r fs1 where r: "claim_file ex cand fs = (r, fs1)" by (metis prod.exhaust)
  obtain rs1 fs2 where rs: "claim_all cs fs1 = (rs1, fs2)" by (metis prod.exhaust)
  have eq: "rs = r # rs1" "fs' = fs2" using Cons.prems(3) c r rs by simp_all
  have cand: "rf_status cand \<noteq> PS_FAILED" "list_all (\<lambda>c. rf_status (snd c) \<noteq> PS_FAILED) cs"
    using Cons.prems(2) c by simp_all
  note o = claim_owns [OF Cons.prems(1) cand(1) r, of p h]
  have IH: "files_ok fs2 \<and> length (filter (owns p h) (zip cs rs1)) \<le> (if claimed p h fs1 then 0 else 1)"
    by (rule Cons.IH [OF claim_ok [OF Cons.prems(1) r] cand(2) rs])
  then show ?case using o unfolding eq c by (auto split: if_splits)
qed

end
