(* ===== verification/ConfigHealth.thy ===== *)
theory ConfigHealth
  imports QualityGate
begin

text \<open>
  Loading a mapping configuration for a file: the queries and updates of
  \<open>src/src/infrastructure/mapping/config_repository.py\<close>, the cache of \<open>src/src/config/cache.py\<close>,
  the loader of \<open>src/src/config/loader.py\<close>, the health check of \<open>src/src/config/config_health.py\<close>
  and \<open>src/src/pipeline/config_preparation.py\<close>. The collection is the list of its documents.
\<close>

type_synonym config_store = "mapping_config list"

section \<open>Repository\<close>

definition find_by_partner_and_type ::
  "string \<Rightarrow> string \<Rightarrow> string \<Rightarrow> config_store \<Rightarrow> mapping_config option" where
  "find_by_partner_and_type partner workflow ftype cs =
     List.find (\<lambda>c. mc_partner c = partner \<and> mc_workflow_type c = workflow \<and>
       mc_file_type c = ftype \<and> mc_status c = CS_APPROVED) cs"

definition find_by_version :: "string \<Rightarrow> string \<Rightarrow> config_store \<Rightarrow> mapping_config option" where
  "find_by_version partner version cs =
     List.find (\<lambda>c. mc_partner c = partner \<and> mc_version c = Some version \<and>
       mc_status c = CS_APPROVED) cs"

text \<open>\<open>sort=[("createdAt", -1)]\<close> with the first of equals kept.\<close>

definition find_latest_pending_by_partner_and_type ::
  "string \<Rightarrow> string \<Rightarrow> string \<Rightarrow> config_store \<Rightarrow> mapping_config option" where
  "find_latest_pending_by_partner_and_type partner workflow ftype cs =
     (case sort_key (\<lambda>c. - mc_created_at c)
             (filter (\<lambda>c. mc_partner c = partner \<and> mc_workflow_type c = workflow \<and>
                mc_file_type c = ftype \<and> mc_status c = CS_PENDING_APPROVAL) cs) of
        [] \<Rightarrow> None | c # _ \<Rightarrow> Some c)"

definition mark_superseded ::
  "uuid \<Rightarrow> uuid \<Rightarrow> datetime \<Rightarrow> config_store \<Rightarrow> bool \<times> config_store" where
  "mark_superseded cid by_id time cs =
     update_doc (\<lambda>c. mc_id c = cid)
       (\<lambda>c. c\<lparr>mc_status := CS_SUPERSEDED, mc_superseded_at := Some time, mc_superseded_by := Some by_id\<rparr>) cs"

definition mark_approved ::
  "uuid \<Rightarrow> datetime \<Rightarrow> string option \<Rightarrow> pydict \<Rightarrow> config_store \<Rightarrow> bool \<times> config_store" where
  "mark_approved cid time by_whom health cs =
     update_doc (\<lambda>c. mc_id c = cid)
       (\<lambda>c. c\<lparr>mc_status := CS_APPROVED, mc_approved_at := Some time, mc_approved_by := by_whom,
              mc_health := Some health\<rparr>) cs"

definition mark_rejected :: "uuid \<Rightarrow> pydict \<Rightarrow> config_store \<Rightarrow> bool \<times> config_store" where
  "mark_rejected cid health cs =
     update_doc (\<lambda>c. mc_id c = cid) (\<lambda>c. c\<lparr>mc_status := CS_REJECTED, mc_health := Some health\<rparr>) cs"

definition update_pending_draft ::
  "uuid \<Rightarrow> (mapping_config \<Rightarrow> mapping_config) \<Rightarrow> config_store \<Rightarrow> bool \<times> config_store" where
  "update_pending_draft cid f cs =
     update_doc (\<lambda>c. mc_id c = cid \<and> mc_status c = CS_PENDING_APPROVAL) f cs"

definition replace_approved :: "mapping_config \<Rightarrow> config_store \<Rightarrow> config_store" where
  "replace_approved d cs = snd (update_doc (\<lambda>c. mc_id c = mc_id d) (\<lambda>_. d) cs)"

definition insert_approved :: "mapping_config \<Rightarrow> config_store \<Rightarrow> config_store" where
  "insert_approved d cs = cs @ [d]"

text \<open>\<open>^<partner>_v\d+$\<close> over ASCII digits and without a final line feed, and the number after the last \<open>v\<close>.\<close>

definition version_number :: "string \<Rightarrow> string \<Rightarrow> int option" where
  "version_number partner v =
     (let p = partner @ ''_v''; ds = drop (length p) v
      in if take (length p) v = p \<and> is_digits ds then Some (number_of ds) else None)"

definition max_version_number :: "string \<Rightarrow> config_store \<Rightarrow> int" where
  "max_version_number partner cs =
     foldl max 0 (List.map_filter
       (\<lambda>c. if mc_partner c = partner
             then (case mc_version c of None \<Rightarrow> None | Some v \<Rightarrow> version_number partner v) else None) cs)"

definition two_digits :: "int \<Rightarrow> string" where
  "two_digits n = (if 0 \<le> n \<and> n < 10 then ''0'' @ int_text n else int_text n)"

definition allocate_next_version ::
  "string \<Rightarrow> config_store \<Rightarrow> (string \<Rightarrow> int option) \<Rightarrow> string \<times> (string \<Rightarrow> int option)" where
  "allocate_next_version partner cs counters =
     (let n = (case counters partner of None \<Rightarrow> max_version_number partner cs | Some i \<Rightarrow> i) + 1
      in (partner @ ''_v'' @ two_digits n, counters(partner \<mapsto> n)))"

section \<open>Cache\<close>

type_synonym config_cache = "string \<Rightarrow> (mapping_config \<times> datetime) option"

definition cache_get :: "datetime \<Rightarrow> string \<Rightarrow> config_cache \<Rightarrow> mapping_config option \<times> config_cache" where
  "cache_get now key cache =
     (case cache key of
        None \<Rightarrow> (None, cache)
      | Some (c, expires) \<Rightarrow>
          if expires \<le> now then (None, cache(key := None)) else (Some c, cache))"

text \<open>The loader puts every entry with its default of 300 seconds.\<close>

definition cache_put :: "datetime \<Rightarrow> string \<Rightarrow> mapping_config \<Rightarrow> config_cache \<Rightarrow> config_cache" where
  "cache_put now key c cache = cache(key \<mapsto> (c, now + 300000000))"

definition cache_invalidate :: "string \<Rightarrow> config_cache \<Rightarrow> config_cache" where
  "cache_invalidate key cache = cache(key := None)"

section \<open>Loader\<close>

record load_error =
  le_message :: string
  le_violations :: "violation list"

type_synonym load_result = "(load_error + mapping_config) \<times> config_cache"

definition cache_key_partner_type :: "string \<Rightarrow> string \<Rightarrow> string \<Rightarrow> string" where
  "cache_key_partner_type partner workflow ftype = partner @ '':'' @ workflow @ '':'' @ ftype @ '':latest''"

definition cache_key_version :: "string \<Rightarrow> string \<Rightarrow> string" where
  "cache_key_version partner version = partner @ '':*:*:'' @ version"

definition validate_and_cache ::
  "datetime \<Rightarrow> string \<Rightarrow> string list \<Rightarrow> mapping_config \<Rightarrow> config_cache \<Rightarrow> load_result" where
  "validate_and_cache now key required c cache =
     (if validate_config c \<noteq> []
      then (Inl \<lparr>le_message = ''Config validation failed'', le_violations = validate_config c\<rparr>, cache)
      else if required \<noteq> [] \<and> validate_required_coverage c required \<noteq> []
      then (Inl \<lparr>le_message = ''Required path coverage validation failed'',
                 le_violations = validate_required_coverage c required\<rparr>, cache)
      else (Inr c, cache_put now key c cache))"

definition not_found :: "string \<Rightarrow> load_error" where
  "not_found detail = \<lparr>le_message = ''Config not found for '' @ detail, le_violations = []\<rparr>"

definition load_by_partner_type ::
  "datetime \<Rightarrow> string \<Rightarrow> string \<Rightarrow> string \<Rightarrow> string list \<Rightarrow> config_store \<Rightarrow> config_cache \<Rightarrow> load_result"
  where
  "load_by_partner_type now partner workflow ftype required cs cache =
     (let key = cache_key_partner_type partner workflow ftype;
          stored = find_by_partner_and_type partner workflow ftype cs;
          (hit, cache) = cache_get now key cache;
          query = (\<lambda>cache. case stored of
             None \<Rightarrow> (Inl (not_found (''partner='' @ partner @ '', workflow='' @ workflow @
                               '', file_type='' @ ftype)), cache)
           | Some c \<Rightarrow> validate_and_cache now key required c cache)
      in case hit of
           None \<Rightarrow> query cache
         | Some c \<Rightarrow>
             if map_option mc_id stored = Some (mc_id c) then (Inr c, cache)
             else query (cache_invalidate key cache))"

definition load_by_version ::
  "datetime \<Rightarrow> string \<Rightarrow> string \<Rightarrow> string list \<Rightarrow> config_store \<Rightarrow> config_cache \<Rightarrow> load_result" where
  "load_by_version now partner version required cs cache =
     (let key = cache_key_version partner version;
          (hit, cache) = cache_get now key cache;
          query = (\<lambda>cache. case find_by_version partner version cs of
             None \<Rightarrow> (Inl (not_found (''partner='' @ partner @ '', version='' @ version)), cache)
           | Some c \<Rightarrow> validate_and_cache now key required c cache)
      in case hit of
           None \<Rightarrow> query cache
         | Some c \<Rightarrow>
             if map_option mc_status (List.find (\<lambda>d. mc_id d = mc_id c) cs) = Some (mc_status c)
             then (Inr c, cache)
             else query (cache_invalidate key cache))"

text \<open>What the ingestion pipeline loads: by version when it has one.\<close>

definition load_config ::
  "datetime \<Rightarrow> string \<Rightarrow> string \<Rightarrow> string \<Rightarrow> string option \<Rightarrow> config_store \<Rightarrow> config_cache \<Rightarrow> load_result"
  where
  "load_config now partner workflow ftype version cs cache =
     (case version of
        Some v \<Rightarrow> load_by_version now partner v [] cs cache
      | None \<Rightarrow> load_by_partner_type now partner workflow ftype [] cs cache)"

definition config_cache_key :: "string \<Rightarrow> string \<Rightarrow> string \<Rightarrow> string option \<Rightarrow> string" where
  "config_cache_key partner workflow ftype version =
     (case version of
        Some v \<Rightarrow> cache_key_version partner v | None \<Rightarrow> cache_key_partner_type partner workflow ftype)"

section \<open>Health\<close>

definition config_query :: "string \<Rightarrow> string \<Rightarrow> string \<Rightarrow> string option \<Rightarrow> mapping_config \<Rightarrow> bool" where
  "config_query partner workflow ftype version c \<longleftrightarrow>
     mc_partner c = partner \<and> mc_workflow_type c = workflow \<and> mc_file_type c = ftype \<and>
     mc_status c = CS_APPROVED \<and> (version = None \<or> mc_version c = version)"

definition health_of :: "mapping_config \<Rightarrow> pydict" where
  "health_of c = (case mc_health c of None \<Rightarrow> [] | Some h \<Rightarrow> h)"

definition set_health :: "pydict \<Rightarrow> mapping_config \<Rightarrow> mapping_config" where
  "set_health sets c = c\<lparr>mc_health := Some (foldl (\<lambda>h (k, v). dput h k v) (health_of c) sets)\<rparr>"

text \<open>
  \<open>failed / rows >= 0.20\<close>, which floats decide as the fractions do; \<open>rate\<close> prints the quotient.
\<close>

definition run_is_stale :: "nat \<Rightarrow> nat \<Rightarrow> bool" where
  "run_is_stale rows failed \<longleftrightarrow> rows \<noteq> 0 \<and> rows \<le> 5 * failed"

definition record_config_run_health ::
  "(nat \<Rightarrow> nat \<Rightarrow> string) \<Rightarrow> datetime \<Rightarrow> string \<Rightarrow> string \<Rightarrow> string \<Rightarrow> string option \<Rightarrow> nat \<Rightarrow> nat
     \<Rightarrow> config_store \<Rightarrow> config_store" where
  "record_config_run_health rate now partner workflow ftype version rows failed cs =
     snd (update_doc (config_query partner workflow ftype version)
       (set_health [(''lastRunTotalRows'', VInt (int rows)), (''lastRunFailedRows'', VInt (int failed)),
          (''lastRunErrorRate'', VFloat (if rows = 0 then ''0.0'' else rate failed rows)),
          (''stale'', VBool (run_is_stale rows failed)), (''updatedAt'', VTime now)]) cs)"

definition is_config_stale :: "norm_env \<Rightarrow> mapping_config \<Rightarrow> signature \<Rightarrow> bool" where
  "is_config_stale N c sig =
     (let stored = (case mc_signature c of None \<Rightarrow> [] | Some d \<Rightarrow> d)
      in if truthy (dget (health_of c) ''stale'') then True
         else if truthy (dget stored ''hash'') then dget stored ''hash'' \<noteq> VStr (sg_hash sig)
         else \<not> signatures_equivalent N stored (signature_dict sig))"

text \<open>
  The first signature of a configuration is taken from the file: it is set on the loaded object,
  which is the one in the cache, and on the stored document the query finds.
\<close>

definition attach_signature ::
  "datetime \<Rightarrow> string \<Rightarrow> string \<Rightarrow> string \<Rightarrow> string option \<Rightarrow> signature \<Rightarrow> config_store \<Rightarrow> config_store"
  where
  "attach_signature now partner workflow ftype version sig cs =
     snd (update_doc (config_query partner workflow ftype version)
       (\<lambda>c. (set_health [(''stale'', VBool False), (''signatureBootstrappedAt'', VTime now)] c)
              \<lparr>mc_signature := Some (signature_dict sig)\<rparr>) cs)"

text \<open>
  Creating or reusing the proposal for a reviewer (\<open>create_scheduled_mapping_proposal\<close>) is the
  argument \<open>he_propose\<close>: it answers with the ids of proposal and action, with the approval error
  it raises for a file without sample rows, or with another exception, and may add a draft.
\<close>

datatype proposal = Proposed uuid uuid | Proposal_Refused | Proposal_Error string

record health_env =
  he_norm :: norm_env
  he_md5 :: "string list \<Rightarrow> string"
  he_propose :: "signature \<Rightarrow> string \<Rightarrow> config_store \<Rightarrow> proposal \<times> config_store"
  he_strict :: bool

datatype health =
  Healthy "mapping_config option"
| Approval_Required "(uuid \<times> uuid) option"
| Health_Error string

definition sample_size :: nat where
  "sample_size = 10"

definition propose_config ::
  "health_env \<Rightarrow> string option \<Rightarrow> signature \<Rightarrow> mapping_config option \<Rightarrow> config_store \<Rightarrow> health \<times> config_store"
  where
  "propose_config H backfill sig config cs =
     (case he_propose H sig (if config = None then ''No approved config found''
              else ''Detected stale or changed file structure'') cs of
        (Proposed p a, cs) \<Rightarrow>
          (if backfill \<noteq> None \<or> (config = None \<and> he_strict H) then Approval_Required (Some (p, a))
           else Healthy config, cs)
      | (Proposal_Refused, cs) \<Rightarrow> (Approval_Required None, cs)
      | (Proposal_Error e, cs) \<Rightarrow> (Health_Error e, cs))"

definition check_and_refresh_config ::
  "health_env \<Rightarrow> datetime \<Rightarrow> string \<Rightarrow> string \<Rightarrow> string \<Rightarrow> string option \<Rightarrow> string option
     \<Rightarrow> source_file option \<Rightarrow> config_store \<Rightarrow> config_cache \<Rightarrow> health \<times> config_store \<times> config_cache" where
  "check_and_refresh_config H now partner workflow ftype version backfill f cs cache =
     (case Option.bind f (compute_signature (he_norm H) (he_md5 H) sample_size) of
        None \<Rightarrow> (Health_Error ''Unable to compute the structure signature'', cs, cache)
      | Some sig \<Rightarrow>
          (let (loaded, cache) = load_config now partner workflow ftype version cs cache;
               key = config_cache_key partner workflow ftype version;
               config = (case loaded of Inl _ \<Rightarrow> None | Inr c \<Rightarrow> Some c)
           in case config of
                Some c \<Rightarrow>
                  if mc_signature c = None
                  then (let c' = c\<lparr>mc_signature := Some (signature_dict sig)\<rparr>
                        in (Healthy (Some c'), attach_signature now partner workflow ftype version sig cs,
                            cache(key := map_option (\<lambda>e. (c', snd e)) (cache key))))
                  else if \<not> is_config_stale (he_norm H) c sig then (Healthy config, cs, cache)
                  else (let (h, cs) = propose_config H backfill sig config cs in (h, cs, cache))
              | None \<Rightarrow> (let (h, cs) = propose_config H backfill sig config cs in (h, cs, cache))))"

section \<open>Preparation\<close>

text \<open>\<open>interpolate_date\<close>; \<open>fmt\<close> is \<open>date.strftime\<close>, and \<open>.*?\<close> does not cross a line feed.\<close>

fun until_brace :: "string \<Rightarrow> (string \<times> string) option" where
  "until_brace [] = None"
| "until_brace (c # s) =
     (if c = CHR ''}'' then Some ([], s)
      else if c = CHR 0x0A then None
      else map_option (\<lambda>(a, b). (c # a, b)) (until_brace s))"

lemma until_brace_shorter: "until_brace s = Some (a, b) \<Longrightarrow> length b < length s"
  by (induction s arbitrary: a b) (fastforce split: if_splits)+

function interpolate_date :: "(string \<Rightarrow> string) \<Rightarrow> string \<Rightarrow> string" where
  "interpolate_date fmt [] = []"
| "interpolate_date fmt (c # s) =
     (case (if take 6 (c # s) = ''{date:'' then until_brace (drop 6 (c # s)) else None) of
        Some (a, b) \<Rightarrow> fmt (if a = [] then ''%Y%m%d'' else a) @ interpolate_date fmt b
      | None \<Rightarrow> c # interpolate_date fmt s)"
  by pat_completeness auto

termination
  by (relation "measure (\<lambda>(fmt, s). length s)")
    (auto dest!: until_brace_shorter split: if_splits)

datatype prepared =
  Prepared mapping_config
| Prepare_Approval "(uuid \<times> uuid) option"
| Prepare_Failed load_error

definition with_sheet :: "(string \<Rightarrow> string) \<Rightarrow> mapping_config \<Rightarrow> mapping_config" where
  "with_sheet fmt c =
     (if CHR ''{'' \<in> set (mc_sheet_name c)
      then c\<lparr>mc_sheet_name := interpolate_date fmt (mc_sheet_name c)\<rparr> else c)"

definition prepare_config ::
  "health_env \<Rightarrow> (string \<Rightarrow> string) \<Rightarrow> datetime \<Rightarrow> string \<Rightarrow> string \<Rightarrow> string \<Rightarrow> string option \<Rightarrow> string option
     \<Rightarrow> bool \<Rightarrow> source_file option \<Rightarrow> config_store \<Rightarrow> config_cache \<Rightarrow> prepared \<times> config_store \<times> config_cache" where
  "prepare_config H fmt now partner workflow ftype version backfill check f cs cache =
     (let (h, cs, cache) =
            (if check then check_and_refresh_config H now partner workflow ftype version backfill f cs cache
             else (Healthy None, cs, cache))
      in case h of
           Approval_Required ids \<Rightarrow> (Prepare_Approval ids, cs, cache)
         | Healthy (Some c) \<Rightarrow> (Prepared (with_sheet fmt c), cs, cache)
         | _ \<Rightarrow>
             (case load_config now partner workflow ftype version cs cache of
                (Inl e, cache) \<Rightarrow> (Prepare_Failed e, cs, cache)
              | (Inr c, cache) \<Rightarrow> (Prepared (with_sheet fmt c), cs, cache)))"

section \<open>Lemmas\<close>

text \<open>A cache whose entries are all valid keeps to valid ones, and a load answers with nothing else.\<close>

definition valid_cache :: "config_cache \<Rightarrow> bool" where
  "valid_cache cache \<longleftrightarrow> (\<forall>k e. cache k = Some e \<longrightarrow> validate_config (fst e) = [])"

lemma valid_cacheD: "valid_cache cache \<Longrightarrow> cache k = Some (c, e) \<Longrightarrow> validate_config c = []"
  by (fastforce simp: valid_cache_def)

lemma valid_cache_get:
  assumes "valid_cache cache" and "cache_get now key cache = (hit, cache')"
  shows "valid_cache cache' \<and> (\<forall>c. hit = Some c \<longrightarrow> validate_config c = [])"
proof -
  have "valid_cache (cache(key := None))" using assms(1) by (simp add: valid_cache_def)
  with assms valid_cacheD [OF assms(1), of key] show ?thesis
    by (auto simp: cache_get_def split: option.splits if_splits prod.splits)
qed

lemma valid_cache_invalidate [simp]: "valid_cache cache \<Longrightarrow> valid_cache (cache_invalidate key cache)"
  by (simp add: valid_cache_def cache_invalidate_def)

lemma valid_cache_put:
  "valid_cache cache \<Longrightarrow> validate_config c = [] \<Longrightarrow> valid_cache (cache_put now key c cache)"
  by (auto simp: valid_cache_def cache_put_def)

lemma validate_and_cache_valid:
  assumes "valid_cache cache" and "validate_and_cache now key required c cache = (r, cache')"
  shows "valid_cache cache' \<and> (\<forall>d. r = Inr d \<longrightarrow> validate_config d = [])"
  using assms by (auto simp: validate_and_cache_def valid_cache_put split: if_splits)

lemma load_config_valid:
  assumes "valid_cache cache" and "load_config now partner workflow ftype version cs cache = (r, cache')"
  shows "valid_cache cache' \<and> (\<forall>c. r = Inr c \<longrightarrow> validate_config c = [])"
proof -
  obtain hit c1 where g: "cache_get now (config_cache_key partner workflow ftype version) cache = (hit, c1)"
    by (metis prod.exhaust)
  note v = valid_cache_get [OF assms(1) g]
  note vi = valid_cache_invalidate [OF conjunct1 [OF v]]
  show ?thesis
    using assms(2) g v vi validate_and_cache_valid [OF conjunct1 [OF v]] validate_and_cache_valid [OF vi]
    by (cases version)
      (auto simp: load_config_def load_by_version_def load_by_partner_type_def config_cache_key_def
        Let_def split: option.splits if_splits)
qed

lemma validate_config_cong:
  "mc_mappings c = mc_mappings d \<Longrightarrow> mc_version c = mc_version d \<Longrightarrow> validate_config c = validate_config d"
  by (simp add: validate_config_def)

lemma health_config_valid:
  assumes "valid_cache cache" and
    "check_and_refresh_config H now partner workflow ftype version backfill f cs cache = (h, cs', cache')"
  shows "valid_cache cache' \<and> (\<forall>c. h = Healthy (Some c) \<longrightarrow> validate_config c = [])"
proof (cases "Option.bind f (compute_signature (he_norm H) (he_md5 H) sample_size)")
  case None
  with assms show ?thesis by (auto simp: check_and_refresh_config_def)
next
  case (Some sig)
  obtain r c1 where l: "load_config now partner workflow ftype version cs cache = (r, c1)"
    by (metis prod.exhaust)
  note v = load_config_valid [OF assms(1) l]
  show ?thesis
  proof (cases r)
    case (Inl e)
    with assms(2) Some l v show ?thesis
      by (auto simp: check_and_refresh_config_def Let_def propose_config_def
          split: prod.splits proposal.splits if_splits)
  next
    case (Inr c)
    show ?thesis
    proof (cases "mc_signature c = None")
      case True
      let ?c = "c\<lparr>mc_signature := Some (signature_dict sig)\<rparr>"
      have ok: "validate_config ?c = []"
        using v Inr validate_config_cong [of ?c c] by simp
      have "h = Healthy (Some ?c)"
        "cache' = c1(config_cache_key partner workflow ftype version :=
           map_option (\<lambda>e. (?c, snd e)) (c1 (config_cache_key partner workflow ftype version)))"
        using assms(2) Some l Inr True by (simp_all add: check_and_refresh_config_def Let_def)
      with ok v show ?thesis by (auto simp: valid_cache_def)
    next
      case False
      with assms(2) Some l v Inr show ?thesis
        by (auto simp: check_and_refresh_config_def Let_def propose_config_def
            split: prod.splits proposal.splits if_splits)
    qed
  qed
qed

end
