(* ===== verification/IngestionRun.thy ===== *)
theory IngestionRun
  imports FileClaims ConfigHealth RowPipeline
begin

text \<open>
  The ingestion of one file: \<open>src/src/pipeline/ingestion_pipeline.py\<close> with the finalizer of
  \<open>src/src/pipeline/finalizer.py\<close> and the results of
  \<open>src/src/application/ingestion/contracts.py\<close>. A file is claimed, its configuration prepared, its
  structure gated, its rows run and its terminal status stored; any exception ends in the
  failure path.
\<close>

section \<open>Inputs\<close>

record process_command =
  pf_path :: string
  pf_partner :: string
  pf_workflow_type :: string
  pf_file_type :: string
  pf_date :: datetime
  pf_version :: "string option"
  pf_backfill :: "string option"
  pf_metadata :: "pydict option"
  pf_check :: bool
  pf_run_id :: "string option"
  pf_attempt :: int

text \<open>
  What the pipeline is built with and what surrounds it: the content of a path under a sheet name
  and its SHA-256 digest, absent when it cannot be read; fresh identifiers and the clock; the texts
  of exceptions that only reach a message.
\<close>

record ingest_env =
  ie_run :: run_env
  ie_health :: health_env
  ie_hashing :: hashing
  ie_rank :: schedule
  ie_whole :: "string \<Rightarrow> int option"
  ie_workers :: nat
  ie_batch_size :: nat
  ie_fast :: bool
  ie_zone :: business_zone
  ie_default_scope :: scope_type
  ie_internal :: internal_table
  ie_digest :: "pydict \<Rightarrow> string"
  ie_strftime :: "datetime \<Rightarrow> string \<Rightarrow> string"
  ie_rate :: "nat \<Rightarrow> nat \<Rightarrow> string"
  ie_timing :: "string \<Rightarrow> pyval"
  ie_now :: datetime
  ie_file_id :: uuid
  ie_run_id :: uuid
  ie_row_fresh :: "int \<Rightarrow> uuid \<times> uuid \<times> datetime"
  ie_record_fresh :: "nat \<Rightarrow> uuid \<times> datetime"
  ie_sla_hours :: nat
  ie_retention_days :: nat
  ie_content :: "string \<Rightarrow> string \<Rightarrow> source_file option"
  ie_file_hash :: "string \<Rightarrow> string option"
  ie_read_error :: string
  ie_structure_error :: string
  ie_duplicate_error :: string
  ie_reader_error :: string
  ie_row_error :: "run_error \<Rightarrow> string"

text \<open>The stores an ingestion reads and writes.\<close>

record ingest_world =
  iw_files :: file_table
  iw_configs :: config_store
  iw_cache :: config_cache
  iw_partner :: partner_table
  iw_quarantine :: "q_store option"

text \<open>
  Writes of the file record or of the configuration that raise, before they change anything: with
  the text of the exception where that is recorded.
\<close>

record ingest_faults =
  ft_claim :: "string option"
  ft_pending :: "string option"
  ft_stats :: "string option"
  ft_status :: "string option"
  ft_health :: "string option"
  ft_summary :: bool
  ft_fail_stats :: bool
  ft_fail_status :: bool

definition no_faults :: ingest_faults where
  "no_faults = \<lparr>ft_claim = None, ft_pending = None, ft_stats = None, ft_status = None,
     ft_health = None, ft_summary = False, ft_fail_stats = False, ft_fail_status = False\<rparr>"

section \<open>Results\<close>

datatype file_outcome =
  FO_INGESTED | FO_PARTIAL | FO_FILE_DUPLICATE | FO_FETCH_UNIT_REPLAY | FO_WAITING_REVIEW | FO_FAILED

fun file_outcome_value :: "file_outcome \<Rightarrow> string" where
  "file_outcome_value FO_INGESTED = ''INGESTED''"
| "file_outcome_value FO_PARTIAL = ''PARTIAL''"
| "file_outcome_value FO_FILE_DUPLICATE = ''FILE_DUPLICATE''"
| "file_outcome_value FO_FETCH_UNIT_REPLAY = ''FETCH_UNIT_REPLAY''"
| "file_outcome_value FO_WAITING_REVIEW = ''WAITING_REVIEW''"
| "file_outcome_value FO_FAILED = ''FAILED''"

record ingestion_result =
  ir_file :: "recon_file option"
  ir_stats :: processing_stats
  ir_errors :: "pydict list"
  ir_outcome :: file_outcome
  ir_duplicate_code :: "string option"
  ir_ingestion_keys :: "string list"
  ir_quality_counters :: "(string \<times> nat) list"
  ir_decision :: decision
  ir_summary :: summary
  ir_action :: action
  ir_error_fields :: "string set"

definition build_result ::
  "recon_file option \<Rightarrow> run_state \<Rightarrow> file_outcome \<Rightarrow> string option \<Rightarrow> ingestion_result" where
  "build_result f s oc code =
     \<lparr>ir_file = f, ir_stats = run_stats s, ir_errors = rs_errors s,
      ir_outcome = (if oc = FO_INGESTED \<and> is_partial s then FO_PARTIAL else oc),
      ir_duplicate_code = code, ir_ingestion_keys = rs_ingestion_keys s,
      ir_quality_counters = quality_counters s, ir_decision = rs_decision s,
      ir_summary = quality_summary s, ir_action = rs_action s, ir_error_fields = rs_error_fields s\<rparr>"

definition missing_key_failure :: "nat \<Rightarrow> nat \<Rightarrow> nat \<Rightarrow> string set \<Rightarrow> bool" where
  "missing_key_failure rows success failed names \<longleftrightarrow>
     0 < rows \<and> success = 0 \<and> rows \<le> failed \<and> ''id'' \<in> names \<and> ''trace'' \<in> names"

definition error_fields_of :: "run_env \<Rightarrow> pydict list \<Rightarrow> string set \<Rightarrow> string set" where
  "error_fields_of E errors names =
     \<Union> (error_field E ` set errors) \<union> {f \<in> names. f \<noteq> []}"

definition missing_ingestion_key :: "run_env \<Rightarrow> run_state \<Rightarrow> bool" where
  "missing_ingestion_key E s \<longleftrightarrow>
     missing_key_failure (rs_total_rows s) (rs_success_rows s) (rs_failed_rows s)
       (error_fields_of E (rs_errors s) (rs_error_fields s))"

section \<open>Stages\<close>

definition run_context :: "string \<Rightarrow> string option \<Rightarrow> source_context" where
  "run_context run file =
     \<lparr>sc_run_id = Some run, sc_partner = None, sc_source_file_id = file, sc_source_unit_key = None,
      sc_page = None, sc_checkpoint_before = None, sc_checkpoint_after = None, sc_attempt = None\<rparr>"

definition enter_stage ::
  "run_env \<Rightarrow> string \<Rightarrow> string \<Rightarrow> string option \<Rightarrow> string option \<Rightarrow> run_state \<Rightarrow> run_state" where
  "enter_stage E stage run file code s =
     (let s = set_source_context (run_context run file) s;
          s = (case code of
                 None \<Rightarrow> s
               | Some c \<Rightarrow> s\<lparr>rs_last_error_code := Some (sanitize_runtime_error (re_redact E) c 96)\<rparr>)
      in begin_stage stage s)"

definition text_option :: "pyval \<Rightarrow> string option" where
  "text_option v = (case v of VStr s \<Rightarrow> Some s | _ \<Rightarrow> None)"

definition start_state :: "ingest_env \<Rightarrow> process_command \<Rightarrow> run_state" where
  "start_state I cmd =
     (let d = (case pf_metadata cmd of None \<Rightarrow> [] | Some d \<Rightarrow> d)
      in set_source_context
           \<lparr>sc_run_id = None, sc_partner = None, sc_source_file_id = None,
            sc_source_unit_key =
              text_option (if truthy (dget d ''sourceUnitKey'') then dget d ''sourceUnitKey''
                           else dget d ''source_unit_key''),
            sc_page = as_row_number (dget d ''page''),
            sc_checkpoint_before = (case dget d ''checkpointBefore'' of VDict x \<Rightarrow> Some x | _ \<Rightarrow> None),
            sc_checkpoint_after = (case dget d ''checkpointAfter'' of VDict x \<Rightarrow> Some x | _ \<Rightarrow> None),
            sc_attempt = None\<rparr>
           ((new_run (ie_run I) (ie_now I) [])
              \<lparr>rs_run_id := str_or (pf_run_id cmd) (Some (ie_run_id I)),
               rs_partner := Some (pf_partner cmd), rs_attempt := max 1 (pf_attempt cmd)\<rparr>))"

definition run_summary_of :: "ingest_env \<Rightarrow> run_state \<Rightarrow> pydict" where
  "run_summary_of I s = stage_summary (ie_run I) (ie_timing I) s"

definition put_files :: "file_table \<Rightarrow> ingest_world \<Rightarrow> ingest_world" where
  "put_files fs w = w\<lparr>iw_files := fs\<rparr>"

text \<open>The summary is set on the object; storing it is best effort.\<close>

definition store_summary ::
  "ingest_env \<Rightarrow> ingest_faults \<Rightarrow> run_state \<Rightarrow> uuid \<Rightarrow> file_table \<Rightarrow> file_table" where
  "store_summary I ft s fid fs =
     (if ft_summary ft then fs else update_stage_summary fid (run_summary_of I s) fs)"

definition persist_stage_summary ::
  "ingest_env \<Rightarrow> ingest_faults \<Rightarrow> run_state \<Rightarrow> recon_file \<Rightarrow> ingest_world \<Rightarrow> recon_file \<times> ingest_world" where
  "persist_stage_summary I ft s f w =
     (f\<lparr>rf_stage_summary := run_summary_of I s\<rparr>,
      put_files (store_summary I ft s (rf_id f) (iw_files w)) w)"

section \<open>Finalizer\<close>

definition apply_stats :: "ingest_env \<Rightarrow> run_state \<Rightarrow> processing_status \<Rightarrow> recon_file \<Rightarrow> recon_file" where
  "apply_stats I s st f =
     (set_stats (rs_total_rows s) (rs_success_rows s) (rs_failed_rows s) (rs_duplicate_rows s) f)
       \<lparr>rf_status := st, rf_stage_summary := run_summary_of I s\<rparr>"

definition store_stats :: "run_state \<Rightarrow> uuid \<Rightarrow> file_table \<Rightarrow> file_table" where
  "store_stats s fid fs =
     update_processing_stats fid (rs_total_rows s) (rs_success_rows s) (rs_failed_rows s)
       (rs_duplicate_rows s) fs"

definition final_status :: "run_state \<Rightarrow> processing_status" where
  "final_status s = (if is_partial s then PS_PARTIAL else PS_COMPLETED)"

text \<open>\<open>complete\<close>; the text is the exception of one of its first two writes.\<close>

definition complete_run ::
  "ingest_env \<Rightarrow> ingest_faults \<Rightarrow> run_state \<Rightarrow> recon_file \<Rightarrow> ingest_world
     \<Rightarrow> string option \<times> run_state \<times> recon_file \<times> ingest_world" where
  "complete_run I ft s f w =
     (let s = finish_run (ie_now I) s; fid = rf_id f; fs = iw_files w
      in case ft_stats ft of
           Some e \<Rightarrow> (Some e, s, f, w)
         | None \<Rightarrow>
             (let fs = store_stats s fid fs
              in case ft_status ft of
                   Some e \<Rightarrow> (Some e, s, f, put_files fs w)
                 | None \<Rightarrow>
                     (let fs = store_summary I ft s fid (update_status fid (final_status s) fs)
                      in (None, s, apply_stats I s (final_status s) f, put_files fs w))))"

definition fail_run ::
  "ingest_env \<Rightarrow> ingest_faults \<Rightarrow> string \<Rightarrow> run_state \<Rightarrow> recon_file option \<Rightarrow> ingest_world
     \<Rightarrow> run_state \<times> recon_file option \<times> ingest_world" where
  "fail_run I ft err s file w =
     (let s = finish_run (ie_now I)
                (record_error (ie_run I) err (str_or (rs_last_error_code s) (Some ''ingestion_failed'')) s);
          (file', w') =
            (case file of
               None \<Rightarrow> (None, w)
             | Some f \<Rightarrow>
                 (let fid = rf_id f; ok = \<not> ft_fail_stats ft \<and> \<not> ft_fail_status ft;
                      fs = (if ft_fail_stats ft then iw_files w else store_stats s fid (iw_files w));
                      fs = (if ok then update_status fid PS_FAILED fs else fs)
                  in (Some (if ok then apply_stats I s PS_FAILED f else f),
                      put_files (store_summary I ft s fid fs) w)))
      in (add_error (ie_run I) s
            [(''field'', VStr ''ingestion_error''), (''reason'', text_value (rs_last_error s))],
          file', w'))"

section \<open>Claiming\<close>

definition key_error_text :: "key_error \<Rightarrow> string" where
  "key_error_text e =
     (case e of
        KE_No_Endpoint \<Rightarrow> ''fetch_unit metadata requires sourceEndpoint''
      | KE_No_Window \<Rightarrow> ''fetch_unit metadata requires page, cursor, or a fetch window'')"

definition new_claim_file ::
  "ingest_env \<Rightarrow> process_command \<Rightarrow> string \<Rightarrow> string option \<Rightarrow> file_table \<Rightarrow> recon_file" where
  "new_claim_file I cmd hash key fs =
     new_file (ie_file_id I) (ie_now I) (pf_path cmd) (pf_partner cmd) (pf_file_type cmd) (pf_date cmd)
       hash (pf_version cmd) key (pf_metadata cmd)
       (classify_scope (ie_zone I) (pf_partner cmd) (Some (pf_date cmd)) (ie_default_scope I)
          (file_docs fs) (ie_internal I))"

definition claim_source_file ::
  "ingest_env \<Rightarrow> ingest_faults \<Rightarrow> process_command \<Rightarrow> ingest_world \<Rightarrow> (string + claim_result) \<times> ingest_world"
  where
  "claim_source_file I ft cmd w =
     (case ie_file_hash I (pf_path cmd) of
        None \<Rightarrow> (Inl (ie_read_error I), w)
      | Some hash \<Rightarrow>
          (case derive_fetch_unit_key (ie_digest I) (pf_partner cmd) (pf_workflow_type cmd)
                  (pf_file_type cmd) (re_iso (ie_run I) (pf_date cmd)) (pf_version cmd) (pf_metadata cmd) of
             Inl e \<Rightarrow> (Inl (key_error_text e), w)
           | Inr key \<Rightarrow>
               (case ft_claim ft of
                  Some e \<Rightarrow> (Inl e, w)
                | None \<Rightarrow>
                    (case claim_file (find_by_file_hash (pf_partner cmd) hash (iw_files w))
                            (new_claim_file I cmd hash key (iw_files w)) (iw_files w) of
                       (None, fs) \<Rightarrow> (Inl (ie_duplicate_error I), put_files fs w)
                     | (Some c, fs) \<Rightarrow> (Inr c, put_files fs w)))))"

text \<open>The run takes the id of the file when it has none of its own.\<close>

definition claimed_run_id :: "run_state \<Rightarrow> recon_file \<Rightarrow> string" where
  "claimed_run_id s f =
     (case rs_run_id s of
        Some (c # r) \<Rightarrow> if c # r = ''pending'' then rf_id f else c # r
      | _ \<Rightarrow> rf_id f)"

definition claimed_state :: "ingest_env \<Rightarrow> recon_file \<Rightarrow> run_state \<Rightarrow> run_state" where
  "claimed_state I f s =
     enter_stage (ie_run I) ''CLAIMING'' (claimed_run_id s f) (Some (rf_id f)) None s"

definition duplicate_result :: "ingest_env \<Rightarrow> claim_result \<Rightarrow> string \<Rightarrow> run_state \<Rightarrow> ingestion_result" where
  "duplicate_result I c hash s =
     (let code = (case str_or (cl_duplicate_code c) None of None \<Rightarrow> ''file_duplicate'' | Some x \<Rightarrow> x);
          s = enter_stage (ie_run I) ''CLAIMING'' (claimed_run_id s (cl_file c)) (Some (rf_id (cl_file c)))
                (Some code) s;
          s = add_error (ie_run I) s
                [(''field'', VStr code),
                 (''reason'', VStr (if code = ''fetch_unit_duplicate'' then ''Fetch unit already processed''
                    else ''File already processed (hash: '' @ take 16 hash @ ''...)''))]
      in build_result (Some (cl_file c)) s
           (if code = ''fetch_unit_duplicate'' then FO_FETCH_UNIT_REPLAY else FO_FILE_DUPLICATE)
           (Some code))"

section \<open>Configuration and structure\<close>

text \<open>An exception leaves the run state as it was when it was raised.\<close>

type_synonym 'a phase = "(string + 'a) \<times> run_state \<times> recon_file \<times> ingest_world"

definition id_or_unknown :: "uuid option \<Rightarrow> string" where
  "id_or_unknown i = (case str_or i None of None \<Rightarrow> ''unknown'' | Some x \<Rightarrow> x)"

definition approval_reason :: "string \<Rightarrow> (uuid \<times> uuid) option \<Rightarrow> string" where
  "approval_reason partner ids =
     ''configuration approval required for partner='' @ partner @ ''; proposal_id='' @
     id_or_unknown (map_option fst ids) @ ''; action_id='' @ id_or_unknown (map_option snd ids)"

definition record_evaluation :: "run_env \<Rightarrow> evaluation \<Rightarrow> run_state \<Rightarrow> run_state" where
  "record_evaluation E e s =
     add_errors E (map (serialize_quality_violation E) (qe_violations e)) (record_quality_evaluation e s)"

definition load_violations :: "load_error \<Rightarrow> violation list" where
  "load_violations e =
     (if le_violations e = []
      then [default_violation\<lparr>qv_code := QR_CONFIG_VALIDATION, qv_phase := QP_CONFIGURATION,
              qv_severity := QS_FATAL, qv_outcome := QO_BATCH_FATAL, qv_field := Some ''_config'',
              qv_message := le_message e\<rparr>]
      else map (\<lambda>v. v\<lparr>qv_phase := QP_CONFIGURATION, qv_severity := QS_FATAL,
                      qv_outcome := QO_BATCH_FATAL\<rparr>) (le_violations e))"

fun joined_messages :: "string list \<Rightarrow> string" where
  "joined_messages [] = []"
| "joined_messages [x] = x"
| "joined_messages (x # y # xs) = x @ ''; '' @ joined_messages (y # xs)"

definition gate_failure_text :: "violation list \<Rightarrow> string" where
  "gate_failure_text vs =
     (case joined_messages (map qv_message vs) of [] \<Rightarrow> ''Quality gate failed.'' | c # m \<Rightarrow> c # m)"

text \<open>\<open>_prepare_mapping\<close>; \<^const>\<open>None\<close> is a configuration that waits for approval.\<close>

definition prepare_mapping ::
  "ingest_env \<Rightarrow> ingest_faults \<Rightarrow> process_command \<Rightarrow> string \<Rightarrow> run_state \<Rightarrow> recon_file \<Rightarrow> ingest_world
     \<Rightarrow> mapping_config option phase" where
  "prepare_mapping I ft cmd run s f w =
     (let s = enter_stage (ie_run I) ''CONFIGURING'' run (Some (rf_id f)) None s;
          (p, cs, cache) =
            prepare_config (ie_health I) (ie_strftime I (pf_date cmd)) (ie_now I) (pf_partner cmd)
              (pf_workflow_type cmd) (pf_file_type cmd) (pf_version cmd) (pf_backfill cmd) (pf_check cmd)
              (ie_content I (pf_path cmd) []) (iw_configs w) (iw_cache w);
          w = w\<lparr>iw_configs := cs, iw_cache := cache\<rparr>
      in case p of
           Prepared c \<Rightarrow> (Inr (Some c), s, f, w)
         | Prepare_Approval ids \<Rightarrow>
             (let s = enter_stage (ie_run I) ''CONFIGURING'' run (Some (rf_id f))
                        (Some ''configuration_approval_required'') s
              in case ft_pending ft of
                   Some e \<Rightarrow> (Inl e, s, f, w)
                 | None \<Rightarrow>
                     (Inr None,
                      add_error (ie_run I) s
                        [(''field'', VStr ''configApproval''),
                         (''reason'', VStr (approval_reason (pf_partner cmd) ids))],
                      f\<lparr>rf_status := PS_PENDING\<rparr>,
                      put_files (update_status (rf_id f) PS_PENDING (iw_files w)) w))
         | Prepare_Failed e \<Rightarrow>
             (Inl (gate_failure_text (load_violations e)),
              record_evaluation (ie_run I) (make_evaluation QO_BATCH_FATAL (load_violations e) []) s, f, w))"

definition unreadable_evaluation :: "string \<Rightarrow> evaluation" where
  "unreadable_evaluation err =
     make_evaluation QO_BATCH_FATAL
       [default_violation\<lparr>qv_code := QR_SOURCE_STRUCTURE_UNREADABLE, qv_phase := QP_FILE,
          qv_severity := QS_FATAL, qv_outcome := QO_BATCH_FATAL, qv_field := Some ''_file'',
          qv_message := ''Unable to inspect source structure: '' @ err, qv_actual := VStr err\<rparr>] []"

definition file_evaluation :: "ingest_env \<Rightarrow> process_command \<Rightarrow> mapping_config \<Rightarrow> evaluation" where
  "file_evaluation I cmd c =
     (case evaluate_gate (he_norm (ie_health I)) (he_md5 (ie_health I)) c
             (ie_content I (pf_path cmd) (mc_sheet_name c)) of
        Some e \<Rightarrow> e
      | None \<Rightarrow> unreadable_evaluation (ie_structure_error I))"

section \<open>Rows\<close>

text \<open>The text under a key of the metadata, where it is one.\<close>

definition metadata_text :: "process_command \<Rightarrow> string \<Rightarrow> string option" where
  "metadata_text cmd k =
     text_option (dget (case pf_metadata cmd of None \<Rightarrow> [] | Some d \<Rightarrow> d) k)"

definition row_setup :: "ingest_env \<Rightarrow> process_command \<Rightarrow> mapping_config \<Rightarrow> string option \<Rightarrow> recon_file \<Rightarrow> run_setup"
  where
  "row_setup I cmd c key f =
     \<lparr>su_env = ie_run I, su_hashing = ie_hashing I, su_rank = ie_rank I,
      su_processor =
        \<lparr>pc_env = he_norm (ie_health I), pc_policy = Some (mc_policy c), pc_mappings = mc_mappings c,
         pc_fast = ie_fast I, pc_partner = pf_partner cmd, pc_workflow_type = pf_workflow_type cmd,
         pc_reconciliation_date = DT_Utc (pf_date cmd), pc_source_file_id = rf_id f,
         pc_fresh = ie_row_fresh I\<rparr>,
      su_start_row = mc_start_row c, su_batch_size = ie_batch_size I,
      su_context =
        \<lparr>fx_file_id = rf_id f, fx_partner = pf_partner cmd, fx_reconciliation_date = pf_date cmd,
         fx_fetch_unit_key = key, fx_config_version = str_or (mc_version c) (pf_version cmd),
         fx_review_packet_id = metadata_text cmd ''reviewPacketId'',
         fx_post_approval_run_id = metadata_text cmd ''postApprovalRunId''\<rparr>,
      su_fresh = ie_record_fresh I, su_now = ie_now I, su_sla_hours = ie_sla_hours I,
      su_retention_days = ie_retention_days I\<rparr>"

definition after_rows :: "run_box \<Rightarrow> ingest_world \<Rightarrow> ingest_world" where
  "after_rows bx w = w\<lparr>iw_partner := bx_table bx, iw_quarantine := bx_quarantine bx\<rparr>"

text \<open>
  \<open>_run_row_phase\<close>. A reader or a writer that cannot be built raises before the first row; a
  failing run keeps what its batches have stored.
\<close>

definition run_row_phase ::
  "ingest_env \<Rightarrow> process_command \<Rightarrow> mapping_config \<Rightarrow> string \<Rightarrow> string option \<Rightarrow> run_state \<Rightarrow> recon_file
     \<Rightarrow> ingest_world \<Rightarrow> unit phase" where
  "run_row_phase I cmd c run key s f w =
     (let s = enter_stage (ie_run I) ''READING'' run (Some (rf_id f)) None s
      in case ie_content I (pf_path cmd) (mc_sheet_name c) of
           None \<Rightarrow> (Inl (ie_reader_error I), s, f, w)
         | Some src \<Rightarrow>
             (case run_pipeline (row_setup I cmd c key f) (ie_whole I) (ie_workers I) src s
                     (iw_partner w) (iw_quarantine w) of
                None \<Rightarrow> (Inl (ie_reader_error I), s, f, w)
              | Some (Inl (e, bx)) \<Rightarrow> (Inl (ie_row_error I e), bx_state bx, f, after_rows bx w)
              | Some (Inr bx) \<Rightarrow> (Inr (), bx_state bx, f, after_rows bx w)))"

section \<open>The whole file\<close>

definition finalize_success ::
  "ingest_env \<Rightarrow> ingest_faults \<Rightarrow> process_command \<Rightarrow> string \<Rightarrow> run_state \<Rightarrow> recon_file \<Rightarrow> ingest_world
     \<Rightarrow> unit phase" where
  "finalize_success I ft cmd run s f w =
     (let s = enter_stage (ie_run I) ''FINALIZING'' run (Some (rf_id f)) None s
      in case complete_run I ft s f w of
           (Some e, s, f, w) \<Rightarrow> (Inl e, s, f, w)
         | (None, s, f, w) \<Rightarrow>
             if pf_check cmd
             then (case ft_health ft of
                     Some e \<Rightarrow> (Inl e, s, f, w)
                   | None \<Rightarrow>
                       (Inr (), s, f,
                        w\<lparr>iw_configs := record_config_run_health (ie_rate I) (ie_now I) (pf_partner cmd)
                            (pf_workflow_type cmd) (pf_file_type cmd) (pf_version cmd)
                            (rs_total_rows s) (rs_failed_rows s) (iw_configs w)\<rparr>))
             else (Inr (), s, f, w))"

text \<open>The two ways to fail: with a code of its own, or as an unexpected exception.\<close>

definition failed_result ::
  "ingest_env \<Rightarrow> ingest_faults \<Rightarrow> string \<Rightarrow> string \<Rightarrow> string \<Rightarrow> run_state \<Rightarrow> recon_file option \<Rightarrow> ingest_world
     \<Rightarrow> ingestion_result \<times> ingest_world" where
  "failed_result I ft code err run s file w =
     (let s = enter_stage (ie_run I) ''FINALIZING'' run (map_option rf_id file) (Some code) s;
          (s, file, w) = fail_run I ft err s file w
      in (build_result file s FO_FAILED None, w))"

definition raised_result ::
  "ingest_env \<Rightarrow> ingest_faults \<Rightarrow> string \<Rightarrow> string \<Rightarrow> run_state \<Rightarrow> recon_file \<Rightarrow> ingest_world
     \<Rightarrow> ingestion_result \<times> ingest_world" where
  "raised_result I ft err run s f w = failed_result I ft ''ingestion_failed'' err run s (Some f) w"

definition missing_key_text :: string where
  "missing_key_text = ''Unable to derive ingestion_key: both id and trace are missing from the source rows.''"

definition ingest_rows ::
  "ingest_env \<Rightarrow> ingest_faults \<Rightarrow> process_command \<Rightarrow> mapping_config \<Rightarrow> string \<Rightarrow> string option \<Rightarrow> run_state
     \<Rightarrow> recon_file \<Rightarrow> ingest_world \<Rightarrow> ingestion_result \<times> ingest_world" where
  "ingest_rows I ft cmd c run key s f w =
     (case run_row_phase I cmd c run key s f w of
        (Inl e, s, f, w) \<Rightarrow> raised_result I ft e run s f w
      | (Inr _, s, f, w) \<Rightarrow>
          if missing_ingestion_key (ie_run I) s
          then failed_result I ft ''ingestion_key_error'' missing_key_text run s (Some f) w
          else case finalize_success I ft cmd run s f w of
                 (Inl e, s, f, w) \<Rightarrow> raised_result I ft e run s f w
               | (Inr _, s, f, w) \<Rightarrow> (build_result (Some f) s FO_INGESTED None, w))"

definition ingest_claimed ::
  "ingest_env \<Rightarrow> ingest_faults \<Rightarrow> process_command \<Rightarrow> string \<Rightarrow> string option \<Rightarrow> run_state \<Rightarrow> recon_file
     \<Rightarrow> ingest_world \<Rightarrow> ingestion_result \<times> ingest_world" where
  "ingest_claimed I ft cmd run key s f w =
     (let (f, w) = persist_stage_summary I ft s f w
      in case prepare_mapping I ft cmd run s f w of
           (Inl e, s, f, w) \<Rightarrow> raised_result I ft e run s f w
         | (Inr None, s, f, w) \<Rightarrow>
             (let s = finish_run (ie_now I) s; (f, w) = persist_stage_summary I ft s f w
              in (build_result (Some f) s FO_WAITING_REVIEW None, w))
         | (Inr (Some c), s, f, w) \<Rightarrow>
             (let e = file_evaluation I cmd c; s = record_evaluation (ie_run I) e s
              in if evaluation_decision e = QD_FAIL
                 then failed_result I ft (outcome_value QO_BATCH_FATAL)
                        (gate_failure_text (qe_violations e)) run s (Some f) w
                 else ingest_rows I ft cmd c run key s f w))"

text \<open>\<open>_process_file\<close> of a pipeline that is built with its repositories.\<close>

definition process_file ::
  "ingest_env \<Rightarrow> ingest_faults \<Rightarrow> process_command \<Rightarrow> ingest_world \<Rightarrow> ingestion_result \<times> ingest_world" where
  "process_file I ft cmd w =
     (let s = start_state I cmd;
          s = enter_stage (ie_run I) ''CLAIMING'' (case rs_run_id s of Some r \<Rightarrow> r | None \<Rightarrow> ''pending'')
                None None s
      in case claim_source_file I ft cmd w of
           (Inl e, w) \<Rightarrow> failed_result I ft ''ingestion_failed'' e ''unknown'' s None w
         | (Inr c, w) \<Rightarrow>
             (let run = claimed_run_id s (cl_file c); s = claimed_state I (cl_file c) s
              in if cl_created c
                 then ingest_claimed I ft cmd run
                        (case derive_fetch_unit_key (ie_digest I) (pf_partner cmd) (pf_workflow_type cmd)
                                (pf_file_type cmd) (re_iso (ie_run I) (pf_date cmd)) (pf_version cmd)
                                (pf_metadata cmd) of Inr k \<Rightarrow> k | Inl _ \<Rightarrow> None)
                        s (cl_file c) w
                 else (duplicate_result I c
                         (case ie_file_hash I (pf_path cmd) of None \<Rightarrow> [] | Some h \<Rightarrow> h) s, w)))"

end
