(* ===== verification/IngestionProps.thy ===== *)
theory IngestionProps
  imports IngestionRun RunCompletion GateProps
begin

text \<open>
  What one ingestion does to the stored file, and to the rows: the lemmas behind the properties of
  \<open>process_file\<close>.
\<close>

section \<open>Stored files\<close>

definition find_file :: "uuid \<Rightarrow> file_table \<Rightarrow> recon_file option" where
  "find_file i fs = List.find (\<lambda>f. rf_id f = i) fs"

lemma find_file_update:
  assumes "\<And>f. rf_id (h f) = rf_id f"
  shows "find_file i (update_file j h fs) = map_option (\<lambda>f. if i = j then h f else f) (find_file i fs)"
  using assms by (induction fs) (auto simp: find_file_def update_file_def map_option_case split: option.splits)

lemma find_file_writes [store_simps]:
  "find_file i (update_status j st fs)
     = map_option (\<lambda>f. if i = j then f\<lparr>rf_status := st\<rparr> else f) (find_file i fs)"
  "find_file i (update_processing_stats j n k d e fs)
     = map_option (\<lambda>f. if i = j then set_stats n k d e f else f) (find_file i fs)"
  "find_file i (update_stage_summary j sm fs)
     = map_option (\<lambda>f. if i = j then f\<lparr>rf_stage_summary := sm\<rparr> else f) (find_file i fs)"
  by (simp_all add: update_status_def update_processing_stats_def update_stage_summary_def
      find_file_update set_stats_def)

text \<open>The status and the row counts a file is stored with.\<close>

definition row_counts :: "recon_file \<Rightarrow> processing_stats" where
  "row_counts f =
     \<lparr>ps_total_rows = rf_total_rows f, ps_success_rows = rf_success_rows f,
      ps_failed_rows = rf_failed_rows f, ps_duplicate_rows = rf_duplicate_rows f\<rparr>"

definition stored_as :: "uuid \<Rightarrow> file_table \<Rightarrow> (processing_status \<times> processing_stats) option" where
  "stored_as i fs = map_option (\<lambda>f. (rf_status f, row_counts f)) (find_file i fs)"

lemma stored_writes [store_simps]:
  "stored_as i (update_status j st fs)
     = map_option (\<lambda>(t, n). (if i = j then st else t, n)) (stored_as i fs)"
  "stored_as i (update_processing_stats j n k d e fs)
     = map_option (\<lambda>(t, m). (t, if i = j then \<lparr>ps_total_rows = n, ps_success_rows = k, ps_failed_rows = d, ps_duplicate_rows = e\<rparr>
                       else m)) (stored_as i fs)"
  "stored_as i (update_stage_summary j sm fs) = stored_as i fs"
  by (cases "find_file i fs"; simp add: stored_as_def store_simps row_counts_def set_stats_def)+

lemma stored_store_summary [store_simps]: "stored_as i (store_summary I ft s j fs) = stored_as i fs"
  by (simp add: store_summary_def store_simps)

lemma stored_store_stats [store_simps]:
  "stored_as i (store_stats s j fs)
     = map_option (\<lambda>(t, m). (t, if i = j then run_stats s else m)) (stored_as i fs)"
  unfolding run_stats_def by (simp add: store_stats_def store_simps)

section \<open>Run states\<close>

lemma counts_of_steps [simp]:
  "run_stats (enter_stage E st run file code s) = run_stats s"
  "run_stats (finish_run now s) = run_stats s"
  "run_stats (record_error E e c s) = run_stats s"
  by (simp_all add: run_stats_def enter_stage_def set_source_context_def begin_stage_def
      finish_run_def record_error_def Let_def split: option.splits)

lemma add_error_frame [simp]:
  "run_stats (add_error E s e) = run_stats s"
  "is_partial (add_error E s e) = is_partial s" "no_rows (add_error E s e) = no_rows s"
  by (simp_all add: run_stats_def is_partial_def no_rows_def add_error_def Let_def)

lemma add_errors_keeps [simp]:
  "run_stats (add_errors E es s) = run_stats s" "no_rows (add_errors E es s) = no_rows s"
  unfolding add_errors_def by (induction es arbitrary: s) simp_all

lemma is_partial_steps [simp]:
  "is_partial (enter_stage E st run file code s) = is_partial s" "is_partial (finish_run now s) = is_partial s"
  by (simp_all add: is_partial_def enter_stage_def set_source_context_def begin_stage_def
      finish_run_def Let_def split: option.splits)

lemma no_rows_steps [simp]:
  "no_rows (enter_stage E st run file code s) = no_rows s" "no_rows (start_state I cmd)"
  by (simp_all add: no_rows_def enter_stage_def set_source_context_def begin_stage_def start_state_def
      new_run_def Let_def split: option.splits)

section \<open>Terminal writes\<close>

definition outcome_status :: "file_outcome \<Rightarrow> processing_status" where
  "outcome_status oc =
     (case oc of FO_INGESTED \<Rightarrow> PS_COMPLETED | FO_PARTIAL \<Rightarrow> PS_PARTIAL
      | FO_WAITING_REVIEW \<Rightarrow> PS_PENDING | _ \<Rightarrow> PS_FAILED)"

text \<open>
  A file is settled by a result when the result carries it under its id, with the status that the
  stored document also has, and the stored counts are those of the result.
\<close>

definition settles :: "uuid \<Rightarrow> ingestion_result \<Rightarrow> ingest_world \<Rightarrow> bool" where
  "settles i r w \<longleftrightarrow>
     (case ir_file r of
        None \<Rightarrow> False
      | Some f \<Rightarrow> rf_id f = i \<and> rf_status f = outcome_status (ir_outcome r) \<and>
          stored_as i (iw_files w) =
            Some (outcome_status (ir_outcome r), ir_stats r))"

definition is_stored :: "uuid \<Rightarrow> ingest_world \<Rightarrow> bool" where
  "is_stored i w \<longleftrightarrow> stored_as i (iw_files w) \<noteq> None"

lemma is_stored_files: "iw_files w' = iw_files w \<Longrightarrow> is_stored i w' = is_stored i w"
  by (simp add: is_stored_def)

definition fails_safely :: "ingest_faults \<Rightarrow> bool" where
  "fails_safely ft \<longleftrightarrow> \<not> ft_fail_stats ft \<and> \<not> ft_fail_status ft"

lemma put_files_simps [simp]:
  "iw_files (put_files fs w) = fs" "iw_partner (put_files fs w) = iw_partner w"
  "iw_quarantine (put_files fs w) = iw_quarantine w" "iw_configs (put_files fs w) = iw_configs w"
  "iw_cache (put_files fs w) = iw_cache w"
  by (simp_all add: put_files_def)

lemma apply_stats_simps [simp]:
  "rf_id (apply_stats I s st f) = rf_id f" "rf_status (apply_stats I s st f) = st"
  by (simp_all add: apply_stats_def set_stats_def)

lemma build_result_simps [simp]:
  "ir_file (build_result f s oc c) = f" "ir_stats (build_result f s oc c) = run_stats s"
  "ir_errors (build_result f s oc c) = rs_errors s" "ir_duplicate_code (build_result f s oc c) = c"
  "ir_outcome (build_result f s oc c) = (if oc = FO_INGESTED \<and> is_partial s then FO_PARTIAL else oc)"
  "ir_action (build_result f s oc c) = rs_action s"
  by (simp_all add: build_result_def)

lemma failed_result_settles:
  assumes "fails_safely ft" and "is_stored (rf_id f) w"
    and "failed_result I ft code err run s (Some f) w = (r, w')"
  shows "settles (rf_id f) r w' \<and> ir_outcome r = FO_FAILED \<and>
    iw_partner w' = iw_partner w \<and> iw_quarantine w' = iw_quarantine w"
  using assms
  by (auto simp: is_stored_def failed_result_def fail_run_def fails_safely_def settles_def outcome_status_def Let_def
      store_simps)

text \<open>Without the failure writes the file keeps the status it had.\<close>

lemma complete_run_cases:
  assumes "complete_run I ft s f w = (err, s', f', w')" and "is_stored (rf_id f) w"
  shows "rf_id f' = rf_id f \<and> is_stored (rf_id f) w' \<and>
    iw_partner w' = iw_partner w \<and> iw_quarantine w' = iw_quarantine w \<and>
    run_stats s' = run_stats s \<and> is_partial s' = is_partial s \<and>
    (err = None \<longrightarrow> rf_status f' = final_status s \<and>
       stored_as (rf_id f) (iw_files w') = Some (final_status s, run_stats s))"
  using assms
  by (auto simp: is_stored_def complete_run_def Let_def store_simps final_status_def split: option.splits)

lemma finalize_success_cases:
  assumes "finalize_success I ft cmd run s f w = (err, s', f', w')"
    and "is_stored (rf_id f) w"
  shows "rf_id f' = rf_id f \<and> is_stored (rf_id f) w' \<and>
    iw_partner w' = iw_partner w \<and> iw_quarantine w' = iw_quarantine w \<and>
    run_stats s' = run_stats s \<and> is_partial s' = is_partial s \<and>
    (err = Inr () \<longrightarrow> rf_status f' = final_status s \<and>
       stored_as (rf_id f) (iw_files w') = Some (final_status s, run_stats s))"
proof -
  let ?s = "enter_stage (ie_run I) ''FINALIZING'' run (Some (rf_id f)) None s"
  obtain e s1 f1 w1 where c: "complete_run I ft ?s f w = (e, s1, f1, w1)" by (metis prod_cases4)
  have fs: "final_status ?s = final_status s" by (simp add: final_status_def)
  from complete_run_cases [OF c assms(2)] assms(1) c show ?thesis
    by (auto simp: is_stored_def finalize_success_def Let_def fs split: option.splits if_splits)
qed

section \<open>One claimed file\<close>

lemma raised_result_settles:
  assumes "fails_safely ft" and "is_stored i w" and "rf_id f = i"
    and "raised_result I ft err run s f w = (r, w')"
  shows "settles i r w' \<and> ir_outcome r = FO_FAILED \<and>
    iw_partner w' = iw_partner w \<and> iw_quarantine w' = iw_quarantine w"
  using failed_result_settles [OF assms(1)] assms by (auto simp: raised_result_def)

lemma row_phase_files:
  "run_row_phase I cmd c run key s f w = (err, s', f', w') \<Longrightarrow> f' = f \<and> iw_files w' = iw_files w"
  by (auto simp: run_row_phase_def after_rows_def Let_def split: option.splits sum.splits)

lemma ingest_rows_settles:
  assumes ft: "fails_safely ft" and st: "is_stored (rf_id f) w"
    and r: "ingest_rows I ft cmd c run key s f w = (r, w')"
  shows "settles (rf_id f) r w' \<and> ir_outcome r \<in> {FO_INGESTED, FO_PARTIAL, FO_FAILED}"
proof -
  obtain e1 s1 f1 w1 where p: "run_row_phase I cmd c run key s f w = (e1, s1, f1, w1)" by (metis prod_cases4)
  note f1 = row_phase_files [OF p]
  have st1: "is_stored (rf_id f) w1" using st f1 by (simp add: is_stored_files [of w1 w])
  show ?thesis
  proof (cases e1)
    case (Inl e)
    with r p have "raised_result I ft e run s1 f1 w1 = (r, w')" by (simp add: ingest_rows_def)
    from raised_result_settles [OF ft st1 _ this] f1 show ?thesis by simp
  next
    case (Inr u)
    show ?thesis
    proof (cases "missing_ingestion_key (ie_run I) s1")
      case True
      with r p Inr f1 have "failed_result I ft ''ingestion_key_error'' missing_key_text run s1 (Some f) w1 = (r, w')"
        by (simp add: ingest_rows_def)
      from failed_result_settles [OF ft st1 this] show ?thesis by simp
    next
      case False
      obtain e2 s2 f2 w2 where c: "finalize_success I ft cmd run s1 f w1 = (e2, s2, f2, w2)" by (metis prod_cases4)
      note fin = finalize_success_cases [OF c st1]
      show ?thesis
      proof (cases e2)
        case (Inl e)
        with r p Inr False c f1 have "raised_result I ft e run s2 f2 w2 = (r, w')"
          by (simp add: ingest_rows_def)
        from raised_result_settles [OF ft _ _ this, of "rf_id f"] fin show ?thesis by simp
      next
        case (Inr v)
        with r p \<open>e1 = Inr u\<close> False c f1 have "r = build_result (Some f2) s2 FO_INGESTED None" "w' = w2"
          by (simp_all add: ingest_rows_def)
        with fin Inr show ?thesis
          by (auto simp: settles_def outcome_status_def final_status_def)
      qed
    qed
  qed
qed

lemma persist_summary_keeps:
  assumes "persist_stage_summary I ft s f w = (f', w')"
  shows "rf_id f' = rf_id f \<and> rf_status f' = rf_status f \<and>
    stored_as i (iw_files w') = stored_as i (iw_files w) \<and>
    iw_partner w' = iw_partner w \<and> iw_quarantine w' = iw_quarantine w \<and>
    iw_configs w' = iw_configs w \<and> iw_cache w' = iw_cache w"
  using assms by (auto simp: persist_stage_summary_def store_simps)

text \<open>The record evaluation of a file keeps the counts, whatever it finds.\<close>

lemma record_quality_counts:
  assumes "oc \<noteq> QO_CONFLICTING_DUPLICATE" and "oc \<noteq> QO_EQUIVALENT_DUPLICATE"
  shows "run_stats (record_quality oc vs warn s) = run_stats s \<and>
    no_rows (record_quality oc vs warn s) = no_rows s"
  using assms
  by (simp add: record_quality_def advance_disposition_def count_kind_def run_stats_def no_rows_def Let_def)

lemma record_evaluation_counts:
  assumes "qe_outcome e \<noteq> QO_CONFLICTING_DUPLICATE" and "qe_outcome e \<noteq> QO_EQUIVALENT_DUPLICATE"
  shows "run_stats (record_evaluation E e s) = run_stats s" "no_rows (record_evaluation E e s) = no_rows s"
  using record_quality_counts [OF assms]
  by (simp_all add: record_evaluation_def record_quality_evaluation_def)

lemma gate_violation_outcomes:
  assumes "v \<in> set (gate_violations N c st)"
  shows "qv_outcome v \<in> {QO_BATCH_FATAL, QO_WARNING}"
proof -
  have "qv_outcome v \<in> {QO_BATCH_FATAL, QO_WARNING}" if "v \<in> set (drift_violations N c st)"
    using that by (auto simp: drift_violations_def gate_fatal_def gate_warning_def Let_def
        split: option.splits list.splits if_splits)
  moreover have "qv_outcome v = QO_BATCH_FATAL" if "v \<in> set (required_path_violations c)"
    using that by (auto simp: required_path_violations_def)
  ultimately show ?thesis
    using assms source_violations_fatal validate_config_fatal by (auto simp: gate_violations_def)
qed

lemma file_evaluation_outcome:
  "qe_outcome (file_evaluation I cmd c) \<noteq> QO_CONFLICTING_DUPLICATE \<and>
   qe_outcome (file_evaluation I cmd c) \<noteq> QO_EQUIVALENT_DUPLICATE"
proof -
  have "qe_outcome (gate_evaluation (gate_violations N c st)) \<notin> {QO_CONFLICTING_DUPLICATE, QO_EQUIVALENT_DUPLICATE}"
    for N st
    using gate_violation_outcomes [of _ N c st]
    by (auto simp: gate_evaluation_def make_evaluation_def infer_outcome_def)
  moreover have "qe_outcome (unreadable_evaluation err) = QO_BATCH_FATAL" for err
    by (simp add: unreadable_evaluation_def make_evaluation_def infer_outcome_def)
  ultimately show ?thesis
    by (auto simp: file_evaluation_def evaluate_gate_def split: option.splits)
qed

lemma prepare_mapping_cases:
  assumes "prepare_mapping I ft cmd run s f w = (e, s', f', w')"
  shows "rf_id f' = rf_id f \<and> iw_partner w' = iw_partner w \<and> iw_quarantine w' = iw_quarantine w \<and>
    (is_stored (rf_id f) w \<longrightarrow> is_stored (rf_id f) w') \<and>
    (case e of
       Inl x \<Rightarrow> True
     | Inr None \<Rightarrow> run_stats s' = run_stats s \<and> is_partial s' = is_partial s \<and> rf_status f' = PS_PENDING \<and>
         stored_as (rf_id f) (iw_files w') =
           map_option (\<lambda>(t, n). (PS_PENDING, n)) (stored_as (rf_id f) (iw_files w))
     | Inr (Some c) \<Rightarrow> run_stats s' = run_stats s \<and> no_rows s' = no_rows s)"
proof -
  obtain p cs cache where p: "prepare_config (ie_health I) (ie_strftime I (pf_date cmd)) (ie_now I)
      (pf_partner cmd) (pf_workflow_type cmd) (pf_file_type cmd) (pf_version cmd) (pf_backfill cmd)
      (pf_check cmd) (ie_content I (pf_path cmd) []) (iw_configs w) (iw_cache w) = (p, cs, cache)"
    by (metis prod_cases3)
  show ?thesis
  proof (cases p)
    case (Prepare_Approval ids)
    with assms p show ?thesis
      by (auto simp: prepare_mapping_def Let_def is_stored_def store_simps split: option.splits)
  qed (use assms p in \<open>auto simp: prepare_mapping_def Let_def is_stored_def\<close>)
qed

lemma ingest_claimed_settles:
  assumes ft: "fails_safely ft" and st: "stored_as (rf_id f) (iw_files w) = Some (t0, run_stats s)"
    and r: "ingest_claimed I ft cmd run key s f w = (r, w')"
  shows "settles (rf_id f) r w' \<and>
    ir_outcome r \<in> {FO_INGESTED, FO_PARTIAL, FO_WAITING_REVIEW, FO_FAILED}"
proof -
  obtain f1 w1 where p1: "persist_stage_summary I ft s f w = (f1, w1)" by (metis prod.exhaust)
  note k1 = persist_summary_keeps [OF p1]
  obtain e2 s2 f2 w2 where p2: "prepare_mapping I ft cmd run s f1 w1 = (e2, s2, f2, w2)" by (metis prod_cases4)
  note k2 = prepare_mapping_cases [OF p2]
  have st1: "stored_as (rf_id f) (iw_files w1) = Some (t0, run_stats s)" using k1 st by simp
  then have st2: "is_stored (rf_id f) w2" "rf_id f2 = rf_id f" using k1 k2 by (simp_all add: is_stored_def)
  show ?thesis
  proof (cases e2)
    case (Inl e)
    with r p1 p2 have "raised_result I ft e run s2 f2 w2 = (r, w')" by (simp add: ingest_claimed_def)
    from raised_result_settles [OF ft st2 this] show ?thesis by simp
  next
    case (Inr x)
    show ?thesis
    proof (cases x)
      case None
      obtain f3 w3 where p3: "persist_stage_summary I ft (finish_run (ie_now I) s2) f2 w2 = (f3, w3)"
        by (metis prod.exhaust)
      note k3 = persist_summary_keeps [OF p3]
      have "r = build_result (Some f3) (finish_run (ie_now I) s2) FO_WAITING_REVIEW None" "w' = w3"
        using r p1 p2 p3 Inr None by (simp_all add: ingest_claimed_def Let_def)
      with k1 k2 k3 st1 Inr None show ?thesis
        by (auto simp: settles_def outcome_status_def)
    next
      case (Some c)
      let ?e = "file_evaluation I cmd c"
      let ?s = "record_evaluation (ie_run I) ?e s2"
      show ?thesis
      proof (cases "evaluation_decision ?e = QD_FAIL")
        case True
        with r p1 p2 Inr Some have "failed_result I ft (outcome_value QO_BATCH_FATAL)
            (gate_failure_text (qe_violations ?e)) run ?s (Some f2) w2 = (r, w')"
          by (simp add: ingest_claimed_def Let_def)
        with failed_result_settles [OF ft, of f2 w2] st2 show ?thesis by simp
      next
        case False
        with r p1 p2 Inr Some have "ingest_rows I ft cmd c run key ?s f2 w2 = (r, w')"
          by (simp add: ingest_claimed_def Let_def)
        from ingest_rows_settles [OF ft _ this] st2 show ?thesis by auto
      qed
    qed
  qed
qed

section \<open>Claims\<close>

lemma find_updated:
  assumes "distinct (map rf_id fs)" and "\<And>f. rf_id (h f) = rf_id f" and "List.find P fs = Some g"
  shows "find_file (rf_id g) (update_first P h fs) = Some (h g)"
  using assms
proof (induction fs)
  case (Cons a fs)
  show ?case
  proof (cases "P a")
    case False
    with Cons.prems have f: "List.find P fs = Some g" by simp
    then have "g \<in> set fs" by (auto simp: find_Some_iff)
    with Cons.prems(1) have "rf_id a \<noteq> rf_id g" by auto
    with Cons f False show ?thesis by (simp add: find_file_def)
  qed (use Cons.prems in \<open>simp add: find_file_def\<close>)
qed simp

lemma find_file_new: "List.find (clashes f) fs = None \<Longrightarrow> find_file (rf_id f) (fs @ [f]) = Some f"
  by (induction fs) (auto simp: find_file_def clashes_def split: if_splits)

lemma claim_reclaimed:
  assumes "claim_file (Some f) cand fs = (Some c, fs')" and "cl_created c"
  obtains g where
    "List.find (\<lambda>f. same_content (rf_partner cand) (rf_file_hash cand) f \<and> rf_status f = PS_FAILED) fs = Some g"
    "cl_file c = g\<lparr>rf_status := PS_PROCESSING, rf_total_rows := 0, rf_success_rows := 0,
       rf_failed_rows := 0, rf_duplicate_rows := 0, rf_stage_summary := []\<rparr>"
    "fs' = update_first (\<lambda>f. same_content (rf_partner cand) (rf_file_hash cand) f \<and> rf_status f = PS_FAILED)
       (\<lambda>f. f\<lparr>rf_status := PS_PROCESSING, rf_total_rows := 0, rf_success_rows := 0,
         rf_failed_rows := 0, rf_duplicate_rows := 0, rf_stage_summary := []\<rparr>) fs"
proof -
  obtain g fs1 where g: "reclaim_failed_by_file_hash (rf_partner cand) (rf_file_hash cand) fs = (g, fs1)"
    by (metis prod.exhaust)
  with assms obtain g' where "g = Some g'" "cl_file c = g'" "fs1 = fs'"
    by (cases g) (auto simp: claim_file_def Let_def split: if_splits)
  with g that show thesis
    by (auto simp: reclaim_failed_by_file_hash_def find_and_update_doc_def split: option.splits)
qed

lemma claim_created:
  assumes "files_ok fs" and "claim_file ex cand fs = (Some c, fs')" and "cl_created c"
    and "cand = new_file i now path p ftype d h v k md sc"
  shows "stored_as (rf_id (cl_file c)) fs'
    = Some (PS_PROCESSING, \<lparr>ps_total_rows = 0, ps_success_rows = 0, ps_failed_rows = 0, ps_duplicate_rows = 0\<rparr>)"
proof (cases ex)
  case None
  with assms(2,3) have "List.find (clashes cand) fs = None" "fs' = fs @ [cand]" "cl_file c = cand"
    by (auto simp: claim_file_def create_or_get_by_file_hash_def split: option.splits if_splits)
  then have "find_file (rf_id (cl_file c)) fs' = Some cand"
    by (simp add: find_file_new)
  with assms(4) show ?thesis by (simp add: stored_as_def row_counts_def new_file_def)
next
  case (Some f)
  let ?P = "\<lambda>f. same_content (rf_partner cand) (rf_file_hash cand) f \<and> rf_status f = PS_FAILED"
  let ?h = "\<lambda>f. f\<lparr>rf_status := PS_PROCESSING, rf_total_rows := 0, rf_success_rows := 0,
              rf_failed_rows := 0, rf_duplicate_rows := 0, rf_stage_summary := []\<rparr>"
  obtain g where g: "List.find ?P fs = Some g" "cl_file c = ?h g" "fs' = update_first ?P ?h fs"
    by (rule claim_reclaimed [OF assms(2) [unfolded Some] assms(3)])
  have "find_file (rf_id g) fs' = Some (?h g)"
    unfolding g(3) using assms(1) g(1) by (intro find_updated) (simp_all add: files_ok_def)
  then show ?thesis using g(2) by (simp add: stored_as_def row_counts_def)
qed

lemma claim_duplicate:
  assumes "claim_file ex cand fs = (r, fs')" and "\<forall>c. r = Some c \<longrightarrow> \<not> cl_created c"
  shows "fs' = fs"
  using assms
  by (auto simp: claim_file_def create_or_get_by_file_hash_def reclaim_failed_by_file_hash_def
      find_and_update_doc_def Let_def split: option.splits if_splits prod.splits)

lemma put_same [simp]: "put_files (iw_files w) w = w"
  by (simp add: put_files_def)

lemma claim_source_cases:
  assumes "claim_source_file I ft cmd w = (e, w')"
  obtains (error) x where "e = Inl x" "w' = w"
  | (duplicate) c where "e = Inr c" "\<not> cl_created c" "w' = w"
  | (created) c hash key fs where "e = Inr c" "cl_created c"
      "ie_file_hash I (pf_path cmd) = Some hash"
      "claim_file (find_by_file_hash (pf_partner cmd) hash (iw_files w))
         (new_claim_file I cmd hash key (iw_files w)) (iw_files w) = (Some c, fs)" "w' = put_files fs w"
proof (cases "ie_file_hash I (pf_path cmd)")
  case None
  with assms error show thesis by (auto simp: claim_source_file_def)
next
  case (Some hash)
  show thesis
  proof (cases "derive_fetch_unit_key (ie_digest I) (pf_partner cmd) (pf_workflow_type cmd)
      (pf_file_type cmd) (re_iso (ie_run I) (pf_date cmd)) (pf_version cmd) (pf_metadata cmd)")
    case (Inl x)
    with assms error Some show thesis by (auto simp: claim_source_file_def)
  next
    case (Inr key)
    obtain r fs where c: "claim_file (find_by_file_hash (pf_partner cmd) hash (iw_files w))
        (new_claim_file I cmd hash key (iw_files w)) (iw_files w) = (r, fs)" by (metis prod.exhaust)
    show thesis
    proof (cases "ft_claim ft")
      case (Some x)
      with assms error \<open>ie_file_hash I (pf_path cmd) = Some hash\<close> Inr show thesis
        by (auto simp: claim_source_file_def)
    next
      case None
      show thesis
      proof (cases "\<exists>cl. r = Some cl \<and> cl_created cl")
        case True
        with assms Some Inr None c created show thesis by (auto simp: claim_source_file_def)
      next
        case False
        then have "fs = iw_files w" using claim_duplicate [OF c] by blast
        with assms Some Inr None c False error duplicate show thesis
          by (cases r) (auto simp: claim_source_file_def)
      qed
    qed
  qed
qed

lemma zero_stats: "no_rows s \<Longrightarrow>
    run_stats s = \<lparr>ps_total_rows = 0, ps_success_rows = 0, ps_failed_rows = 0, ps_duplicate_rows = 0\<rparr>"
  by (simp add: no_rows_def run_stats_def)

section \<open>Rows\<close>

lemma row_phase_runs:
  assumes "run_row_phase I cmd c run key s f w = (Inr u, s', f', w')" and "no_rows s"
  shows "\<exists>src rows bx. ie_content I (pf_path cmd) (mc_sheet_name c) = Some src \<and>
    iter_rows (he_norm (ie_health I)) (ie_whole I) (mc_start_row c) src = Some rows \<and>
    s' = bx_state bx \<and> rs_total_rows s' = length rows \<and>
    rs_rejected_rows s' = rejections (row_outcomes (row_setup I cmd c key f) 0 rows) \<and>
    iw_partner w' = bx_table bx \<and> iw_quarantine w' = bx_quarantine bx \<and>
    settled (length (iw_partner w)) (map_option length (iw_quarantine w)) bx"
proof -
  let ?s = "enter_stage (ie_run I) ''READING'' run (Some (rf_id f)) None s"
  let ?su = "row_setup I cmd c key f"
  obtain src bx where src: "ie_content I (pf_path cmd) (mc_sheet_name c) = Some src"
    and p: "run_pipeline ?su (ie_whole I) (ie_workers I) src ?s (iw_partner w) (iw_quarantine w) = Some (Inr bx)"
    and w: "s' = bx_state bx" "w' = after_rows bx w"
    using assms(1) by (auto simp: run_row_phase_def Let_def split: option.splits sum.splits)
  obtain wr rows where wr: "new_writer (ie_workers I) = Some wr"
    and rows: "iter_rows (he_norm (ie_health I)) (ie_whole I) (mc_start_row c) src = Some rows"
    and run: "run_rows ?su rows (start_box ?s wr (iw_partner w) (iw_quarantine w)) = Inr bx"
    using p by (auto simp: run_pipeline_def row_setup_def split: if_splits option.splits)
  from run_rows_settled [OF wr _ run] assms(2) src rows w show ?thesis
    by (auto simp: after_rows_def)
qed

text \<open>What a file whose rows were all run has added to the tables.\<close>

definition accounts :: "ingestion_result \<Rightarrow> ingest_world \<Rightarrow> ingest_world \<Rightarrow> bool" where
  "accounts r w w' \<longleftrightarrow>
     (let n = ir_stats r
      in ps_total_rows n = ps_success_rows n + ps_duplicate_rows n + ps_failed_rows n \<and>
         length (iw_partner w') = length (iw_partner w) + ps_success_rows n \<and>
         (case (iw_quarantine w, iw_quarantine w') of
            (None, None) \<Rightarrow> ir_outcome r = FO_PARTIAL \<longleftrightarrow> ps_failed_rows n \<noteq> 0
          | (Some q, Some q') \<Rightarrow>
              length q + ps_failed_rows n \<le> length q' \<and>
              length q' \<le> length q + ps_failed_rows n + ps_duplicate_rows n \<and>
              (ir_outcome r = FO_PARTIAL \<longleftrightarrow> length q < length q')
          | _ \<Rightarrow> False))"

lemma settled_accounts:
  assumes "settled (length (iw_partner w)) (map_option length (iw_quarantine w)) bx"
    and "iw_partner w' = bx_table bx" and "iw_quarantine w' = bx_quarantine bx"
    and "run_stats s = run_stats (bx_state bx)" and "is_partial s = is_partial (bx_state bx)"
  shows "accounts (build_result f s FO_INGESTED None) w w'"
  using assms
  by (auto simp: accounts_def settled_def is_partial_def run_stats_def Let_def split: option.splits)

lemma ingest_rows_accounts:
  assumes "no_rows s" and "is_stored (rf_id f) w" and "ingest_rows I ft cmd c run key s f w = (r, w')"
    and "ir_outcome r = FO_INGESTED \<or> ir_outcome r = FO_PARTIAL"
  shows "accounts r w w' \<and> (\<exists>src rows. ie_content I (pf_path cmd) (mc_sheet_name c) = Some src \<and>
    iter_rows (he_norm (ie_health I)) (ie_whole I) (mc_start_row c) src = Some rows \<and>
    ps_total_rows (ir_stats r) = length rows)"
proof -
  obtain e1 s1 f1 w1 where p: "run_row_phase I cmd c run key s f w = (e1, s1, f1, w1)" by (metis prod_cases4)
  note f1 = row_phase_files [OF p]
  have failed: "ir_outcome r \<noteq> FO_FAILED" using assms(4) by auto
  have fail: "ir_outcome (fst (failed_result I ft code err run s' fo w'')) = FO_FAILED"
    for code err s' fo w'' by (simp add: failed_result_def Let_def split: prod.splits)
  obtain u where u: "e1 = Inr u"
    using assms(3) p failed fail by (cases e1) (auto simp: ingest_rows_def raised_result_def, metis fst_conv)
  obtain src rows bx where b: "ie_content I (pf_path cmd) (mc_sheet_name c) = Some src"
    "iter_rows (he_norm (ie_health I)) (ie_whole I) (mc_start_row c) src = Some rows"
    "s1 = bx_state bx" "rs_total_rows s1 = length rows" "iw_partner w1 = bx_table bx"
    "iw_quarantine w1 = bx_quarantine bx"
    "settled (length (iw_partner w)) (map_option length (iw_quarantine w)) bx"
    using row_phase_runs [OF p [unfolded u] assms(1)] by blast
  obtain e2 s2 f2 w2 where c: "finalize_success I ft cmd run s1 f1 w1 = (e2, s2, f2, w2)" by (metis prod_cases4)
  have st: "is_stored (rf_id f1) w1" using f1 assms(2) by (simp add: is_stored_files [of w1 w])
  note fin = finalize_success_cases [OF c st]
  have "\<not> missing_ingestion_key (ie_run I) s1"
    using assms(3) p u failed fail by (auto simp: ingest_rows_def) (metis fst_conv)
  moreover obtain v where "e2 = Inr v"
    using assms(3) p u c calculation failed fail
    by (cases e2) (auto simp: ingest_rows_def raised_result_def, metis fst_conv)
  ultimately have r: "r = build_result (Some f2) s2 FO_INGESTED None" "w' = w2"
    using assms(3) p u c by (simp_all add: ingest_rows_def)
  have "accounts r w w'"
    unfolding r using b fin by (intro settled_accounts) auto
  moreover have "ps_total_rows (ir_stats r) = length rows"
    using r fin b(4) by (simp add: run_stats_def)
  ultimately show ?thesis using b(1,2) by blast
qed

section \<open>Files that are ingested\<close>

lemma decision_not_fail: "evaluation_decision e \<noteq> QD_FAIL \<Longrightarrow> qe_outcome e \<noteq> QO_BATCH_FATAL"
  by (auto simp: evaluation_decision_def decision_from_evaluations worst_decision_def)

lemma file_passed:
  assumes "evaluation_decision (file_evaluation I cmd c) \<noteq> QD_FAIL"
  shows "validate_config c = []" "mc_mappings c \<noteq> []" "set required_schema_paths \<subseteq> set (mapped_paths c)"
proof -
  obtain ev where ev: "evaluate_gate (he_norm (ie_health I)) (he_md5 (ie_health I)) c
      (ie_content I (pf_path cmd) (mc_sheet_name c)) = Some ev"
    using decision_not_fail [OF assms]
    by (auto simp: file_evaluation_def unreadable_evaluation_def make_evaluation_def infer_outcome_def
        split: option.splits)
  with decision_not_fail [OF assms] show v: "validate_config c = []"
    using gate_passed(1) by (auto simp: file_evaluation_def evaluate_gate_def)
  then show "mc_mappings c \<noteq> []" by (auto simp: validate_config_def)
  from ev decision_not_fail [OF assms] have "unmapped_paths c required_schema_paths = []"
    using gate_passed(2) by (auto simp: file_evaluation_def evaluate_gate_def)
  then show "set required_schema_paths \<subseteq> set (mapped_paths c)" by (rule unmapped_none)
qed

lemma row_outcomes_key: "row_outcomes (row_setup I cmd c key f) n rows = row_outcomes (row_setup I cmd c None f) n rows"
  by (simp add: row_outcomes_def row_setup_def)

lemma row_phase_total:
  assumes "ie_content I (pf_path cmd) (mc_sheet_name c) = Some src"
    and "iter_rows (he_norm (ie_health I)) (ie_whole I) (mc_start_row c) src = Some rows"
    and "0 < ie_workers I" and "mc_mappings c \<noteq> []" and "no_rows s"
    and "None \<notin> set (row_outcomes (row_setup I cmd c None f) 0 rows)"
    and "list_all storable (accepted_containers (row_outcomes (row_setup I cmd c None f) 0 rows))"
  shows "\<exists>s' w'. run_row_phase I cmd c run key s f w = (Inr (), s', f, w')"
proof -
  let ?s = "enter_stage (ie_run I) ''READING'' run (Some (rf_id f)) None s"
  let ?su = "row_setup I cmd c key f"
  have outs: "None \<notin> set (row_outcomes ?su 0 rows)"
      "list_all storable (accepted_containers (row_outcomes ?su 0 rows))"
    using assms(6,7) by (simp_all add: row_outcomes_key [of I cmd c key])
  obtain wr where wr: "new_writer (ie_workers I) = Some wr" using assms(3) by (auto simp: new_writer_def)
  have "no_rows ?s" using assms(5) by simp
  from run_rows_total [OF wr this outs, of "iw_partner w" "iw_quarantine w"]
  obtain bx where "run_rows ?su rows (start_box ?s wr (iw_partner w) (iw_quarantine w)) = Inr bx" by blast
  moreover have "pc_mappings (su_processor ?su) = mc_mappings c"
    "pc_env (su_processor ?su) = he_norm (ie_health I)" "su_start_row ?su = mc_start_row c"
    by (simp_all add: row_setup_def)
  ultimately have "run_pipeline ?su (ie_whole I) (ie_workers I) src ?s (iw_partner w) (iw_quarantine w)
      = Some (Inr bx)"
    using assms(2,4) wr by (simp add: run_pipeline_def)
  with assms(1) show ?thesis by (simp add: run_row_phase_def)
qed

lemma no_fault_simps [simp]:
  "ft_claim no_faults = None" "ft_pending no_faults = None" "ft_stats no_faults = None"
  "ft_status no_faults = None" "ft_health no_faults = None" "\<not> ft_summary no_faults"
  "\<not> ft_fail_stats no_faults" "\<not> ft_fail_status no_faults" "fails_safely no_faults"
  by (simp_all add: no_faults_def fails_safely_def)

lemma ingest_rows_total:
  assumes run: "run_row_phase I cmd c run key s f w = (Inr (), s1, f1, w1)" and "no_rows s"
    and rows: "iter_rows (he_norm (ie_health I)) (ie_whole I) (mc_start_row c) src = Some rows"
    and src: "ie_content I (pf_path cmd) (mc_sheet_name c) = Some src"
    and few: "rejections (row_outcomes (row_setup I cmd c None f) 0 rows) < length rows"
    and st: "is_stored (rf_id f) w"
  shows "\<exists>r w'. ingest_rows I no_faults cmd c run key s f w = (r, w') \<and>
    (ir_outcome r = FO_INGESTED \<or> ir_outcome r = FO_PARTIAL) \<and>
    ps_failed_rows (ir_stats r) = rejections (row_outcomes (row_setup I cmd c None f) 0 rows)"
proof -
  from row_phase_runs [OF run assms(2)] rows src obtain bx where
    bx: "s1 = bx_state bx" "rs_total_rows s1 = length rows"
      "rs_rejected_rows s1 = rejections (row_outcomes (row_setup I cmd c None f) 0 rows)"
      "settled (length (iw_partner w)) (map_option length (iw_quarantine w)) bx"
    by (auto simp: row_outcomes_key [of I cmd c key])
  have failed: "rs_failed_rows s1 = rs_rejected_rows s1"
    using bx(1,4) by (simp add: settled_def Let_def)
  then have nm: "\<not> missing_ingestion_key (ie_run I) s1"
    using bx few by (simp add: missing_ingestion_key_def missing_key_failure_def)
  obtain e2 s2 f2 w2 where c: "finalize_success I no_faults cmd run s1 f1 w1 = (e2, s2, f2, w2)" by (metis prod_cases4)
  have "is_stored (rf_id f1) w1"
    using row_phase_files [OF run] st by (simp add: is_stored_files [of w1 w])
  note fin = finalize_success_cases [OF c this]
  have "e2 = Inr ()"
    using c by (auto simp: finalize_success_def complete_run_def Let_def split: if_splits)
  with run nm c have "ingest_rows I no_faults cmd c run key s f w = (build_result (Some f2) s2 FO_INGESTED None, w2)"
    by (simp add: ingest_rows_def)
  moreover have "rs_failed_rows s2 = rs_failed_rows s1"
    using fin by (simp add: run_stats_def)
  ultimately show ?thesis using failed bx(3) by (auto simp: run_stats_def)
qed

section \<open>The whole file\<close>

lemma created_state:
  "no_rows (claimed_state I f (enter_stage E st run file code (start_state I cmd)))"
  by (simp add: claimed_state_def)

text \<open>How \<open>process_file\<close> can end: without a claim, with a duplicate, or with a claimed file.\<close>

lemma process_file_cases:
  assumes "process_file I ft cmd w = (r, w')" and "files_ok (iw_files w)"
  obtains (unclaimed) x where "ir_file r = None" "ir_outcome r = FO_FAILED" "w' = w"
      "fst (claim_source_file I ft cmd w) = Inl x"
  | (duplicate) c where "ir_file r = Some (cl_file c)" "fst (claim_source_file I ft cmd w) = Inr c" "\<not> cl_created c"
      "ir_outcome r = FO_FILE_DUPLICATE \<or> ir_outcome r = FO_FETCH_UNIT_REPLAY" "w' = w"
  | (claimed) c w1 run key s where "claim_source_file I ft cmd w = (Inr c, w1)" "cl_created c"
      "no_rows s" "stored_as (rf_id (cl_file c)) (iw_files w1) = Some (PS_PROCESSING, run_stats s)"
      "iw_partner w1 = iw_partner w" "iw_quarantine w1 = iw_quarantine w"
      "iw_configs w1 = iw_configs w" "iw_cache w1 = iw_cache w"
      "ingest_claimed I ft cmd run key s (cl_file c) w1 = (r, w')"
proof -
  let ?s = "enter_stage (ie_run I) ''CLAIMING'' (case rs_run_id (start_state I cmd) of Some r \<Rightarrow> r
      | None \<Rightarrow> ''pending'') None None (start_state I cmd)"
  obtain e w1 where c: "claim_source_file I ft cmd w = (e, w1)" by (metis prod.exhaust)
  from c show thesis
  proof (cases rule: claim_source_cases)
    case (error x)
    obtain r1 w2 where "failed_result I ft ''ingestion_failed'' x ''unknown'' ?s None w = (r1, w2)"
      by (metis prod.exhaust)
    then have "process_file I ft cmd w = (r1, w2)" "ir_file r1 = None" "ir_outcome r1 = FO_FAILED" "w2 = w"
      using c error by (auto simp: process_file_def Let_def failed_result_def fail_run_def)
    with assms(1) unclaimed [of x] c error show thesis by simp
  next
    case d: (duplicate cl)
    from assms(1) c d have r: "r = duplicate_result I cl
        (case ie_file_hash I (pf_path cmd) of None \<Rightarrow> [] | Some h \<Rightarrow> h) (claimed_state I (cl_file cl) ?s)" "w' = w"
      by (simp_all add: process_file_def Let_def)
    show thesis
      by (rule duplicate [of cl]) (use c d r in \<open>auto simp: duplicate_result_def Let_def\<close>)
  next
    case k: (created cl hash key fs)
    let ?s1 = "claimed_state I (cl_file cl) ?s"
    have z: "no_rows ?s1" by (rule created_state)
    have st: "stored_as (rf_id (cl_file cl)) fs = Some (PS_PROCESSING, run_stats ?s1)"
      unfolding zero_stats [OF z]
      by (rule claim_created [OF assms(2) k(4,2)]) (simp add: new_claim_file_def)
    show thesis
      by (rule claimed [of cl w1 ?s1, OF _ k(2) z])
        (use assms(1) c k st in \<open>auto simp: process_file_def Let_def\<close>)
  qed
qed

section \<open>From the claim to the rows\<close>

text \<open>A claimed file whose configuration is prepared and whose structure passes reaches its rows.\<close>

lemma claimed_reaches_rows:
  assumes claim: "fst (claim_source_file I ft cmd w) = Inr cl" and own: "cl_created cl"
    and ok: "files_ok (iw_files w)" and r: "process_file I ft cmd w = (r, w')"
    and prep: "fst (prepare_config (ie_health I) (ie_strftime I (pf_date cmd)) (ie_now I) (pf_partner cmd)
      (pf_workflow_type cmd) (pf_file_type cmd) (pf_version cmd) (pf_backfill cmd) (pf_check cmd)
      (ie_content I (pf_path cmd) []) (iw_configs w) (iw_cache w)) = Prepared c"
    and pass: "evaluation_decision (file_evaluation I cmd c) \<noteq> QD_FAIL"
  shows "\<exists>run key s f w2. rf_id f = rf_id (cl_file cl) \<and> no_rows s \<and> is_stored (rf_id f) w2 \<and>
    iw_partner w2 = iw_partner w \<and> iw_quarantine w2 = iw_quarantine w \<and>
    ingest_rows I ft cmd c run key s f w2 = (r, w')"
  using r ok
proof (cases rule: process_file_cases)
  case (unclaimed x)
  with claim show ?thesis by simp
next
  case (duplicate c')
  with claim own show ?thesis by simp
next
  case (claimed c' w1 run key s)
  have c': "c' = cl" using claimed(1) claim by simp
  obtain f1 w2 where p1: "persist_stage_summary I ft s (cl_file cl) w1 = (f1, w2)" by (metis prod.exhaust)
  note k1 = persist_summary_keeps [OF p1]
  obtain e2 s2 f2 w3 where p2: "prepare_mapping I ft cmd run s f1 w2 = (e2, s2, f2, w3)" by (metis prod_cases4)
  have e2: "e2 = Inr (Some c)"
    using p2 prep k1 claimed(7,8) by (auto simp: prepare_mapping_def Let_def split: prod.splits)
  note k2 = prepare_mapping_cases [OF p2]
  let ?s = "record_evaluation (ie_run I) (file_evaluation I cmd c) s2"
  have "ingest_rows I ft cmd c run key ?s f2 w3 = (r, w')"
    using claimed(9) p1 p2 e2 pass by (simp add: ingest_claimed_def c' Let_def)
  moreover have "no_rows ?s"
    using record_evaluation_counts(2) file_evaluation_outcome k2 e2 claimed(3) by simp
  moreover have "is_stored (rf_id (cl_file cl)) w3"
    using claimed(4) k1 k2 by (simp add: is_stored_def c')
  ultimately show ?thesis
    using k1 k2 claimed(5,6) by (intro exI [of _ run] exI [of _ key] exI [of _ ?s] exI [of _ f2] exI [of _ w3]) simp
qed

lemma row_outcomes_file:
  "rf_id f = rf_id g \<Longrightarrow>
     row_outcomes (row_setup I cmd c None f) n rows = row_outcomes (row_setup I cmd c None g) n rows"
  by (simp add: row_outcomes_def row_setup_def)

lemma well_formed_run:
  assumes claim: "fst (claim_source_file I no_faults cmd w) = Inr cl" "cl_created cl"
    and ok: "files_ok (iw_files w)"
    and prep: "fst (prepare_config (ie_health I) (ie_strftime I (pf_date cmd)) (ie_now I) (pf_partner cmd)
      (pf_workflow_type cmd) (pf_file_type cmd) (pf_version cmd) (pf_backfill cmd) (pf_check cmd)
      (ie_content I (pf_path cmd) []) (iw_configs w) (iw_cache w)) = Prepared c"
    and pass: "evaluation_decision (file_evaluation I cmd c) \<noteq> QD_FAIL"
    and src: "ie_content I (pf_path cmd) (mc_sheet_name c) = Some src"
    and rows: "iter_rows (he_norm (ie_health I)) (ie_whole I) (mc_start_row c) src = Some rows"
    and workers: "0 < ie_workers I"
    and outs: "outs = row_outcomes (row_setup I cmd c None (cl_file cl)) 0 rows"
    and fine: "None \<notin> set outs" "list_all storable (accepted_containers outs)" "rejections outs < length rows"
  shows "\<exists>r w'. process_file I no_faults cmd w = (r, w') \<and>
    (ir_outcome r = FO_INGESTED \<or> ir_outcome r = FO_PARTIAL) \<and>
    ps_total_rows (ir_stats r) = length rows \<and> ps_failed_rows (ir_stats r) = rejections outs"
proof -
  obtain r w' where r: "process_file I no_faults cmd w = (r, w')" by (metis prod.exhaust)
  obtain run key s f w2 where f: "rf_id f = rf_id (cl_file cl)" "no_rows s" "is_stored (rf_id f) w2"
      "ingest_rows I no_faults cmd c run key s f w2 = (r, w')"
    using claimed_reaches_rows [OF claim ok r prep pass] by blast
  have outs: "outs = row_outcomes (row_setup I cmd c None f) 0 rows"
    using outs row_outcomes_file [OF f(1)] by simp
  note fine = fine [unfolded outs]
  obtain s1 w1 where run: "run_row_phase I cmd c run key s f w2 = (Inr (), s1, f, w1)"
    using row_phase_total [OF src rows workers file_passed(2) [OF pass] f(2) fine(1,2)] by blast
  obtain r1 where r1: "r1 = r" "ir_outcome r1 = FO_INGESTED \<or> ir_outcome r1 = FO_PARTIAL"
      "ps_failed_rows (ir_stats r1) = rejections outs"
    using ingest_rows_total [OF run f(2) rows src fine(3) f(3)] f(4) outs by auto
  have "ps_total_rows (ir_stats r) = length rows"
    using ingest_rows_accounts [OF f(2,3,4)] r1(1,2) src rows by auto
  with r r1 show ?thesis by blast
qed

lemma claimed_accounts:
  assumes "no_rows s" and "is_stored (rf_id f) w"
    and r: "ingest_claimed I ft cmd run key s f w = (r, w')"
    and oc: "ir_outcome r = FO_INGESTED \<or> ir_outcome r = FO_PARTIAL"
  shows "accounts r w w'"
proof -
  obtain f1 w1 where p1: "persist_stage_summary I ft s f w = (f1, w1)" by (metis prod.exhaust)
  note k1 = persist_summary_keeps [OF p1]
  obtain e2 s2 f2 w2 where p2: "prepare_mapping I ft cmd run s f1 w1 = (e2, s2, f2, w2)" by (metis prod_cases4)
  note k2 = prepare_mapping_cases [OF p2]
  have fail: "ir_outcome (fst (failed_result I ft code err run s' fo w'')) = FO_FAILED"
    for code err s' fo w'' by (simp add: failed_result_def Let_def split: prod.splits)
  have not_failed: "(r, w') \<noteq> failed_result I ft code err run s' fo w''" for code err s' fo w''
    using oc fail [of code err s' fo w''] by (metis fst_conv file_outcome.distinct(9) file_outcome.distinct(17))
  show ?thesis
  proof (cases e2)
    case (Inl e)
    with r p1 p2 not_failed show ?thesis by (simp add: ingest_claimed_def raised_result_def eq_commute)
  next
    case (Inr x)
    show ?thesis
    proof (cases x)
      case None
      with r p1 p2 Inr oc show ?thesis
        by (auto simp: ingest_claimed_def Let_def split: prod.splits)
    next
      case (Some c)
      let ?s = "record_evaluation (ie_run I) (file_evaluation I cmd c) s2"
      have rows: "ingest_rows I ft cmd c run key ?s f2 w2 = (r, w')"
        using r p1 p2 Inr Some not_failed by (simp add: ingest_claimed_def Let_def split: if_splits) metis
      have "no_rows ?s"
        using record_evaluation_counts(2) file_evaluation_outcome k2 Inr Some assms(1) by simp
      moreover have "is_stored (rf_id f2) w2"
        using assms(2) k1 k2 by (simp add: is_stored_def)
      ultimately have "accounts r w2 w'" using ingest_rows_accounts rows oc by blast
      with k1 k2 show ?thesis by (simp add: accounts_def)
    qed
  qed
qed

lemma process_accounts:
  assumes "files_ok (iw_files w)" and "process_file I ft cmd w = (r, w')"
    and "ir_outcome r = FO_INGESTED \<or> ir_outcome r = FO_PARTIAL"
  shows "accounts r w w'"
  using assms(2,1)
proof (cases rule: process_file_cases)
  case (claimed c w1 run key s)
  have "is_stored (rf_id (cl_file c)) w1" using claimed(4) by (simp add: is_stored_def)
  from claimed_accounts [OF claimed(3) this claimed(9) assms(3)] claimed(5,6) show ?thesis
    by (simp add: accounts_def)
qed (use assms(3) in auto)

text \<open>Nothing but the row phase touches the transactions and the quarantine.\<close>

definition same_rows :: "ingest_world \<Rightarrow> ingest_world \<Rightarrow> bool" where
  "same_rows w w' \<longleftrightarrow> iw_partner w' = iw_partner w \<and> iw_quarantine w' = iw_quarantine w"

lemma failed_same_rows: "failed_result I ft code err run s fo w = (r, w') \<Longrightarrow> same_rows w w'"
  by (auto simp: failed_result_def fail_run_def same_rows_def Let_def split: option.splits)

lemma claimed_changes_rows:
  assumes r: "ingest_claimed I ft cmd run key s f w = (r, w')" and ch: "\<not> same_rows w w'"
  shows "\<exists>c. fst (prepare_config (ie_health I) (ie_strftime I (pf_date cmd)) (ie_now I) (pf_partner cmd)
      (pf_workflow_type cmd) (pf_file_type cmd) (pf_version cmd) (pf_backfill cmd) (pf_check cmd)
      (ie_content I (pf_path cmd) []) (iw_configs w) (iw_cache w)) = Prepared c \<and>
    evaluation_decision (file_evaluation I cmd c) \<noteq> QD_FAIL"
proof -
  obtain f1 w1 where p1: "persist_stage_summary I ft s f w = (f1, w1)" by (metis prod.exhaust)
  note k1 = persist_summary_keeps [OF p1]
  obtain e2 s2 f2 w2 where p2: "prepare_mapping I ft cmd run s f1 w1 = (e2, s2, f2, w2)" by (metis prod_cases4)
  note k2 = prepare_mapping_cases [OF p2]
  have same: "same_rows w w2" using k1 k2 by (simp add: same_rows_def)
  then have ch2: "\<not> same_rows w2 w'" using ch by (auto simp: same_rows_def)
  show ?thesis
  proof (cases e2)
    case (Inl e)
    with r p1 p2 have "raised_result I ft e run s2 f2 w2 = (r, w')" by (simp add: ingest_claimed_def)
    with ch2 failed_same_rows show ?thesis by (auto simp: raised_result_def)
  next
    case (Inr x)
    show ?thesis
    proof (cases x)
      case None
      obtain f3 w3 where p3: "persist_stage_summary I ft (finish_run (ie_now I) s2) f2 w2 = (f3, w3)"
        by (metis prod.exhaust)
      with r p1 p2 Inr None have "w' = w3" by (simp add: ingest_claimed_def Let_def)
      with persist_summary_keeps [OF p3] ch2 show ?thesis by (simp add: same_rows_def)
    next
      case (Some c)
      have "evaluation_decision (file_evaluation I cmd c) \<noteq> QD_FAIL"
        using r p1 p2 Inr Some ch2 failed_same_rows by (fastforce simp: ingest_claimed_def Let_def)
      moreover have "fst (prepare_config (ie_health I) (ie_strftime I (pf_date cmd)) (ie_now I) (pf_partner cmd)
          (pf_workflow_type cmd) (pf_file_type cmd) (pf_version cmd) (pf_backfill cmd) (pf_check cmd)
          (ie_content I (pf_path cmd) []) (iw_configs w) (iw_cache w)) = Prepared c"
        using p2 k1 Inr Some
        by (auto simp: prepare_mapping_def Let_def split: prod.splits prepared.splits option.splits)
      ultimately show ?thesis by blast
    qed
  qed
qed

lemma process_changes_rows:
  assumes "files_ok (iw_files w)" and "process_file I ft cmd w = (r, w')"
    and "iw_partner w' \<noteq> iw_partner w \<or> iw_quarantine w' \<noteq> iw_quarantine w"
  shows "\<exists>c. fst (prepare_config (ie_health I) (ie_strftime I (pf_date cmd)) (ie_now I) (pf_partner cmd)
      (pf_workflow_type cmd) (pf_file_type cmd) (pf_version cmd) (pf_backfill cmd) (pf_check cmd)
      (ie_content I (pf_path cmd) []) (iw_configs w) (iw_cache w)) = Prepared c \<and>
    evaluation_decision (file_evaluation I cmd c) \<noteq> QD_FAIL"
  using assms(2,1)
proof (cases rule: process_file_cases)
  case (claimed c w1 run key s)
  have "\<not> same_rows w1 w'" using assms(3) claimed(5,6) by (simp add: same_rows_def)
  from claimed_changes_rows [OF claimed(9) this] claimed(7,8) show ?thesis by simp
qed (use assms(3) in auto)

lemma outcome_settles:
  assumes "files_ok (iw_files w)" and "fails_safely ft" and "process_file I ft cmd w = (r, w')"
  shows "case ir_file r of
      None \<Rightarrow> ir_outcome r = FO_FAILED \<and> w' = w
    | Some f \<Rightarrow>
        if ir_outcome r = FO_FILE_DUPLICATE \<or> ir_outcome r = FO_FETCH_UNIT_REPLAY then w' = w
        else settles (rf_id f) r w'"
  using assms(3,1)
proof (cases rule: process_file_cases)
  case (claimed c w1 run key s)
  from ingest_claimed_settles [OF assms(2) claimed(4,9)] show ?thesis
    by (auto simp: settles_def split: option.splits)
qed auto

end
