(* ===== verification/UnitIngestor.thy ===== *)
theory UnitIngestor
  imports IngestionRun Orchestrator
begin

text \<open>
  \<open>src/src/application/automation/stream_ingestion.py\<close>: the ingestor that the source-unit
  orchestrator calls. It runs the ingestion of the unit's file, translates its result into the
  dictionary the orchestrator reads, and reconciles the day when the file was ingested.
\<close>

section \<open>Configuration\<close>

datatype method_config =
  MC_Api string bool
| MC_Sftp string int string
| MC_Filedrop string string

text \<open>\<open>MC_Api\<close> holds the base URL and whether the API is paginated.\<close>

record fetch_config =
  fc_partner :: string
  fc_method :: method_config
  fc_validate_rows :: bool

definition fetch_source_endpoint :: "fetch_config \<Rightarrow> string" where
  "fetch_source_endpoint c =
     (case fc_method c of
        MC_Api url _ \<Rightarrow> url
      | MC_Sftp host port path \<Rightarrow> ''sftp://'' @ host @ '':'' @ int_text port @ path
      | MC_Filedrop dir pattern \<Rightarrow> ''filedrop://'' @ dir @ ''/'' @ pattern)"

definition is_paginated_api :: "fetch_config \<Rightarrow> bool" where
  "is_paginated_api c = (case fc_method c of MC_Api _ paginated \<Rightarrow> paginated | _ \<Rightarrow> False)"

text \<open>\<open>{**a, **b}\<close>\<close>

definition dmerge :: "pydict \<Rightarrow> pydict \<Rightarrow> pydict" where
  "dmerge a b = foldl (\<lambda>d (k, v). dput d k v) a b"

definition dict_value :: "pydict option \<Rightarrow> pyval" where
  "dict_value d = (case d of None \<Rightarrow> VNone | Some x \<Rightarrow> VDict x)"

definition bool_value :: "bool option \<Rightarrow> pyval" where
  "bool_value b = (case b of None \<Rightarrow> VNone | Some x \<Rightarrow> VBool x)"

text \<open>\<open>unit.model_dump(by_alias=True)\<close>\<close>

definition unit_payload :: "source_unit \<Rightarrow> pydict" where
  "unit_payload u =
     [(''sourceUnitKey'', text_value (um_source_unit_key u)),
      (''sourceIdentity'', VDict (um_source_identity u)), (''localPath'', text_value (um_local_path u)),
      (''fileSize'', VInt (um_file_size u)), (''contentHash'', text_value (um_content_hash u)),
      (''status'', text_value (um_status u)), (''page'', int_value (um_page u)),
      (''cursorBefore'', text_value (um_cursor_before u)),
      (''cursorAfter'', text_value (um_cursor_after u)),
      (''highWaterMark'', dict_value (um_high_water_mark u)),
      (''statusCode'', int_value (um_status_code u)),
      (''contentType'', text_value (um_content_type u)), (''itemCount'', int_value (um_item_count u)),
      (''hasMore'', bool_value (um_has_more u)), (''error'', text_value (um_error u)),
      (''errorCode'', text_value (um_error_code u)), (''fetchMetadata'', VDict (um_fetch_metadata u))]"

definition fetch_unit_metadata :: "fetch_config \<Rightarrow> pydict \<Rightarrow> string \<Rightarrow> pydict" where
  "fetch_unit_metadata c meta date =
     (let d = dmerge meta [(''sourceEndpoint'', VStr (fetch_source_endpoint c)),
                           (''windowStart'', VStr date), (''windowEnd'', VStr date)]
      in case fc_method c of
           MC_Filedrop _ _ \<Rightarrow> dput d ''cursor'' (dget meta ''selected_file'')
         | _ \<Rightarrow> d)"

section \<open>Results\<close>

definition counters_value :: "(string \<times> nat) list \<Rightarrow> pyval" where
  "counters_value cs = VDict (map (\<lambda>(k, n). (k, VInt (int n))) cs)"

definition bounded_source_unit_result :: "ingestion_result \<Rightarrow> pydict" where
  "bounded_source_unit_result r =
     [(''success'', VBool (ir_outcome r \<noteq> FO_FAILED)),
      (''outcome'', VStr (file_outcome_value (ir_outcome r))),
      (''qualityDecision'', VStr (decision_value (ir_decision r))),
      (''orchestrationAction'', VStr (action_value (ir_action r))),
      (''qualityCounters'', counters_value (ir_quality_counters r)),
      (''topRuleCodes'', VList (map VStr (take 10 (qm_top_rule_codes (ir_summary r)))))] @
     (case ir_file r of None \<Rightarrow> [] | Some f \<Rightarrow> [(''stageSummary'', VDict (rf_stage_summary f))])"

definition ingestion_error_result :: "run_env \<Rightarrow> string \<Rightarrow> string \<Rightarrow> bool option \<Rightarrow> pydict" where
  "ingestion_error_result E message code retryable =
     [(''success'', VBool False),
      (''error'', VStr (sanitize_runtime_error (re_redact E) message 220)),
      (''errorCode'', VStr (sanitize_runtime_error (re_redact E) code 96)),
      (''retryable'', VBool (case retryable of
         None \<Rightarrow> code = ''source_persist_error'' \<or> code = ''checkpoint_advance_error''
       | Some b \<Rightarrow> b))]"

definition last_reason :: "run_env \<Rightarrow> pydict list \<Rightarrow> string" where
  "last_reason E errors =
     (case List.find (\<lambda>e. truthy (dget e ''reason'')) (rev errors) of
        None \<Rightarrow> ''Ingestion failed.'' | Some e \<Rightarrow> str_of E (dget e ''reason''))"

definition failed_ingestion_result :: "run_env \<Rightarrow> ingestion_result \<Rightarrow> pydict" where
  "failed_ingestion_result E r =
     (if missing_key_failure (ps_total_rows (ir_stats r)) (ps_success_rows (ir_stats r))
           (ps_failed_rows (ir_stats r)) (error_fields_of E (ir_errors r) (ir_error_fields r))
      then ingestion_error_result E missing_key_text ''ingestion_key_error'' (Some False)
      else let reading = (dget (case ir_file r of None \<Rightarrow> [] | Some f \<Rightarrow> rf_stage_summary f) ''currentStage''
                            = VStr ''READING'')
           in ingestion_error_result E (last_reason E (ir_errors r))
                (if reading then ''file_parse_error'' else ''source_persist_error'')
                (if reading then Some False else None))"

section \<open>The ingestor\<close>

text \<open>
  Every call has its own fresh identifiers and its own faults, given by its number. What
  reconciliation raises becomes an exception of the ingestor.
\<close>

record unit_env =
  ui_ingest :: "nat \<Rightarrow> ingest_env"
  ui_faults :: "nat \<Rightarrow> ingest_faults"
  ui_reconcile :: rec_env
  ui_result_ids :: "nat \<Rightarrow> nat \<Rightarrow> uuid"
  ui_reconcile_exn :: "exec_error \<Rightarrow> exn"
  ui_config :: fetch_config
  ui_date :: datetime
  ui_run_id :: "string option"
  ui_version :: "string option"
  ui_backfill :: "string option"
  ui_health_enabled :: bool
  ui_attempt :: int

record unit_stats =
  us_total_rows :: nat
  us_success_rows :: nat
  us_duplicate_rows :: nat
  us_failed_rows :: nat
  us_rejected_rows :: nat
  us_persistence_failed_rows :: nat
  us_quarantined_rows :: nat
  us_units_processed :: nat
  us_reconciliation_count :: nat

record unit_world =
  uw_ingest :: ingest_world
  uw_results :: result_table
  uw_stats :: unit_stats
  uw_health_checked :: bool
  uw_calls :: nat

definition count_of :: "(string \<times> nat) list \<Rightarrow> string \<Rightarrow> nat" where
  "count_of cs k = (case map_of cs k of None \<Rightarrow> 0 | Some n \<Rightarrow> n)"

definition add_stats :: "ingestion_result \<Rightarrow> unit_stats \<Rightarrow> unit_stats" where
  "add_stats r st =
     (let n = ir_stats r; cs = ir_quality_counters r
      in st\<lparr>us_units_processed := us_units_processed st + 1,
            us_total_rows := us_total_rows st + ps_total_rows n,
            us_success_rows := us_success_rows st + ps_success_rows n,
            us_duplicate_rows := us_duplicate_rows st + ps_duplicate_rows n,
            us_failed_rows := us_failed_rows st + ps_failed_rows n,
            us_rejected_rows := us_rejected_rows st + count_of cs ''rejectedRows'',
            us_persistence_failed_rows :=
              us_persistence_failed_rows st + count_of cs ''persistenceFailedRows'',
            us_quarantined_rows := us_quarantined_rows st + count_of cs ''quarantinedRows''\<rparr>)"

definition source_context_of :: "source_unit \<Rightarrow> recon_file \<Rightarrow> pydict" where
  "source_context_of u f =
     [(''stageSummary'', VDict (rf_stage_summary f)), (''sourceFileId'', VStr (rf_id f)),
      (''sourceUnitKey'', text_value (um_source_unit_key u)), (''page'', int_value (um_page u))]"

definition approval_mentioned :: "run_env \<Rightarrow> pydict list \<Rightarrow> bool" where
  "approval_mentioned E errors \<longleftrightarrow>
     (\<exists>e \<in> set errors. has_infix ''configuration approval required''
        (ascii_lower (str_of E (case map_of e ''reason'' of None \<Rightarrow> VStr [] | Some v \<Rightarrow> v))))"

definition unit_command :: "unit_env \<Rightarrow> source_unit \<Rightarrow> string \<Rightarrow> unit_world \<Rightarrow> process_command" where
  "unit_command U u path w =
     \<lparr>pf_path = path, pf_partner = fc_partner (ui_config U), pf_workflow_type = ''UPC'',
      pf_file_type = ''SETTLEMENT'', pf_date = ui_date U, pf_version = ui_version U,
      pf_backfill = ui_backfill U,
      pf_metadata = Some (fetch_unit_metadata (ui_config U)
        (dmerge (unit_payload u) (um_fetch_metadata u))
        (re_iso (ie_run (ui_ingest U (uw_calls w))) (ui_date U))),
      pf_check = (ui_health_enabled U \<and> (\<not> uw_health_checked w \<or> \<not> is_paginated_api (ui_config U))),
      pf_run_id = ui_run_id U, pf_attempt = ui_attempt U\<rparr>"

definition no_record :: "run_env \<Rightarrow> pydict" where
  "no_record E =
     ingestion_error_result E ''Ingestion pipeline did not return a file record.'' ''source_persist_error'' None"

definition duplicate_unit :: "source_unit \<Rightarrow> recon_file \<Rightarrow> ingestion_result \<Rightarrow> pydict" where
  "duplicate_unit u f r =
     dmerge (dmerge (bounded_source_unit_result r) (source_context_of u f))
       [(''success'', VBool True), (''outcome'', VStr (file_outcome_value (ir_outcome r))),
        (''duplicateCode'', text_value (ir_duplicate_code r))]"

definition unfinished_unit :: "run_env \<Rightarrow> source_unit \<Rightarrow> recon_file \<Rightarrow> ingestion_result \<Rightarrow> pydict" where
  "unfinished_unit E u f r =
     (if ir_outcome r = FO_WAITING_REVIEW \<or> rf_status f = PS_PENDING \<or> approval_mentioned E (ir_errors r)
      then dmerge (source_context_of u f)
             [(''success'', VBool False), (''outcome'', VStr ''WAITING_REVIEW''),
              (''waitingForReview'', VBool True),
              (''error'', VStr ''Ingestion is waiting for configuration approval. Operator action is required.''),
              (''errorCode'', VStr ''configuration_approval_required''), (''retryable'', VBool False)]
      else let failure = failed_ingestion_result E r
           in if ir_action r = OA_FAIL
              then dmerge (dmerge (dmerge failure (bounded_source_unit_result r)) (source_context_of u f))
                     [(''success'', VBool False), (''outcome'', VStr ''FAILED'')]
              else dmerge failure (source_context_of u f))"

definition held_unit :: "source_unit \<Rightarrow> recon_file \<Rightarrow> ingestion_result \<Rightarrow> pydict" where
  "held_unit u f r =
     dmerge (dmerge (bounded_source_unit_result r) (source_context_of u f))
       [(''success'', VBool True), (''outcome'', VStr ''PARTIAL''), (''reconciliationSkipped'', VBool True)]"

definition reconciled_unit :: "source_unit \<Rightarrow> recon_file \<Rightarrow> ingestion_result \<Rightarrow> nat \<Rightarrow> pydict" where
  "reconciled_unit u f r n =
     dmerge (dmerge (bounded_source_unit_result r) (source_context_of u f))
       [(''success'', VBool True),
        (''outcome'', VStr (if rf_status f = PS_PARTIAL then ''PARTIAL'' else ''INGESTED'')),
        (''reconciliationCount'', VInt (int n))]"

definition reconcile_unit ::
  "unit_env \<Rightarrow> source_unit \<Rightarrow> recon_file \<Rightarrow> ingestion_result \<Rightarrow> nat \<Rightarrow> unit_world \<Rightarrow> (exn + pydict) \<times> unit_world"
  where
  "reconcile_unit U u f r n w =
     (let I = ui_ingest U n; iw = uw_ingest w
      in case reconcile (ui_reconcile U) (file_docs (iw_files iw)) (iw_partner iw) (ie_internal I)
                (ui_result_ids U n) (ie_now I) (fc_partner (ui_config U)) (DT_Utc (ui_date U))
                (Some (rf_id f)) (ui_run_id U) (ui_version U) (uw_results w) of
           (Inl e, tab) \<Rightarrow> (Inl (ui_reconcile_exn U e), w\<lparr>uw_results := tab\<rparr>)
         | (Inr rs, tab) \<Rightarrow>
             (Inr (reconciled_unit u f r (length rs)),
              w\<lparr>uw_results := tab,
                uw_stats := (uw_stats w)\<lparr>us_reconciliation_count :=
                  us_reconciliation_count (uw_stats w) + length rs\<rparr>\<rparr>))"

definition ingest_unit :: "unit_env \<Rightarrow> source_unit \<Rightarrow> unit_world \<Rightarrow> (exn + pydict) \<times> unit_world" where
  "ingest_unit U u w =
     (let n = uw_calls w; E = ie_run (ui_ingest U n); w = w\<lparr>uw_calls := n + 1\<rparr>
      in case str_or (um_local_path u) None of
           None \<Rightarrow>
             (Inr (ingestion_error_result E ''Source unit is missing localPath'' ''source_persist_error'' None), w)
         | Some path \<Rightarrow>
             (let I = (ui_ingest U n)\<lparr>ie_fast := \<not> fc_validate_rows (ui_config U)\<rparr>;
                  (r, iw) = process_file I (ui_faults U n) (unit_command U u path (w\<lparr>uw_calls := n\<rparr>))
                              (uw_ingest w);
                  w = w\<lparr>uw_ingest := iw\<rparr>
              in case ir_file r of
                   None \<Rightarrow> (Inr (no_record E), w)
                 | Some f \<Rightarrow>
                     (let w = w\<lparr>uw_stats := add_stats r (uw_stats w)\<rparr>
                      in if ir_outcome r = FO_FILE_DUPLICATE \<or> ir_outcome r = FO_FETCH_UNIT_REPLAY
                         then (Inr (duplicate_unit u f r), w)
                         else let w = w\<lparr>uw_health_checked :=
                                         (uw_health_checked w \<or> is_paginated_api (ui_config U))\<rparr>
                              in if rf_status f \<noteq> PS_COMPLETED \<and> rf_status f \<noteq> PS_PARTIAL
                                 then (Inr (unfinished_unit E u f r), w)
                                 else if ir_action r = OA_HOLD_FOR_REVIEW
                                 then (Inr (held_unit u f r), w)
                                 else reconcile_unit U u f r n w)))"

text \<open>The ingestor as the orchestrator's service calls it.\<close>

definition ingest_service :: "unit_env \<Rightarrow> source_unit \<Rightarrow> unit_world \<Rightarrow> (exn + ingest_result) \<times> unit_world" where
  "ingest_service U u w =
     (case ingest_unit U u w of
        (Inl e, w') \<Rightarrow> (Inl e, w')
      | (Inr d, w') \<Rightarrow> (Inr (ResMap d), w'))"

section \<open>Lemmas\<close>

lemma map_of_foldl_dput:
  "map_of (foldl (\<lambda>d (k, v). dput d k v) a b) k = (case map_of (rev b) k of None \<Rightarrow> map_of a k | Some v \<Rightarrow> Some v)"
  by (induction b arbitrary: a) (auto split: option.splits)

lemma dget_dmerge: "dget (dmerge a b) k = (case map_of (rev b) k of None \<Rightarrow> dget a k | Some v \<Rightarrow> v)"
  by (simp add: dget_def dmerge_def map_of_foldl_dput split: option.splits)

end
