(* ===== verification/IngestionDemo.thy ===== *)
theory IngestionDemo
  imports IngestionProps UnitIngestor RunGuarantees
begin

text \<open>A concrete file, configuration and surroundings for the witnesses of the ingestion.\<close>

definition demo_health :: "mapping_config \<Rightarrow> health_env" where
  "demo_health c =
     \<lparr>he_norm = demo_norm_env, he_md5 = (\<lambda>hs. ''m'' @ concat hs),
      he_propose = (\<lambda>s why cs. (Proposed ''p'' ''a'', cs)), he_strict = True\<rparr>"

definition live_mapping :: "string \<Rightarrow> int \<Rightarrow> mapping_type \<Rightarrow> field_mapping" where
  "live_mapping path col ty =
     \<lparr>fm_path = path, fm_column = Some (Col_Int col), fm_source_field = None, fm_type = ty,
      fm_required = True, fm_constant = None, fm_mapping = None\<rparr>"

definition live_config :: mapping_config where
  "live_config =
     \<lparr>mc_id = ''c'', mc_partner = ''MOMO'', mc_workflow_type = ''UPC'', mc_file_type = ''SETTLEMENT'',
      mc_sheet_name = [], mc_start_row = 2,
      mc_mappings = [live_mapping ''id'' 1 FM_STRING, live_mapping ''amount'' 2 FM_DECIMAL,
        live_mapping ''currency'' 3 FM_STRING, live_mapping ''status'' 4 FM_STRING],
      mc_version = Some ''MOMO_v01'', mc_signature = None, mc_health = None,
      mc_policy = \<lparr>rp_tolerance_seconds = 300, rp_timezone = ''UTC''\<rparr>, mc_status = CS_APPROVED,
      mc_approved_at = None, mc_approved_by = None, mc_superseded_at = None,
      mc_superseded_by = None, mc_created_at = 0\<rparr>"

text \<open>Two rows, the second with an amount that is no number.\<close>

definition live_file :: source_file where
  "live_file = SF_Csv [[''id'', ''amount'', ''ccy'', ''status''], [''A1'', ''5'', ''VND'', ''SUCCESS''],
     [''A2'', ''x'', ''VND'', ''SUCCESS'']]"

definition live_env :: ingest_env where
  "live_env =
     \<lparr>ie_run = demo_run_env, ie_health = demo_health live_config, ie_hashing = demo_hashing,
      ie_rank = (\<lambda>d i. i), ie_whole = (\<lambda>_. None), ie_workers = 2, ie_batch_size = 5, ie_fast = True,
      ie_zone = \<lparr>bz_local = (\<lambda>t. t), bz_utc = (\<lambda>t. t)\<rparr>, ie_default_scope = SC_UNCONFIRMED,
      ie_internal = [], ie_digest = (\<lambda>_. ''key''), ie_strftime = (\<lambda>_ f. f), ie_rate = (\<lambda>_ _. ''0.5''),
      ie_timing = (\<lambda>_. VNone), ie_now = 0, ie_file_id = ''f1'', ie_run_id = ''r1'',
      ie_row_fresh = (\<lambda>_. (''u'', ''v'', 0)), ie_record_fresh = (\<lambda>n. (''q'', 0)), ie_sla_hours = 24,
      ie_retention_days = 30, ie_content = (\<lambda>_ _. Some live_file), ie_file_hash = (\<lambda>p. Some p),
      ie_read_error = [], ie_structure_error = [], ie_duplicate_error = [], ie_reader_error = [],
      ie_row_error = (\<lambda>_. [])\<rparr>"

definition live_command :: process_command where
  "live_command =
     \<lparr>pf_path = ''in.csv'', pf_partner = ''MOMO'', pf_workflow_type = ''UPC'',
      pf_file_type = ''SETTLEMENT'', pf_date = 0, pf_version = None, pf_backfill = None,
      pf_metadata = None, pf_check = True, pf_run_id = None, pf_attempt = 1\<rparr>"

definition live_world :: ingest_world where
  "live_world =
     \<lparr>iw_files = [], iw_configs = [live_config], iw_cache = (\<lambda>_. None), iw_partner = [],
      iw_quarantine = Some []\<rparr>"

section \<open>The run, step by step\<close>

definition live_claim :: claim_result where
  "live_claim = \<lparr>cl_file = new_claim_file live_env live_command ''in.csv'' None [], cl_created = True,
     cl_duplicate_code = None\<rparr>"

definition live_prepared :: mapping_config where
  "live_prepared = live_config\<lparr>mc_signature := map_option signature_dict
     (compute_signature demo_norm_env (\<lambda>hs. ''m'' @ concat hs) 10 live_file)\<rparr>"

definition live_rows :: "pyval list" where
  "live_rows = [VList (map VStr [''A1'', ''5'', ''VND'', ''SUCCESS'']), VList (map VStr [''A2'', ''x'', ''VND'', ''SUCCESS''])]"

lemma live_claimed: "fst (claim_source_file live_env no_faults live_command live_world) = Inr live_claim"
  by (simp add: claim_source_file_def live_env_def live_command_def live_world_def live_claim_def
      derive_fetch_unit_key_def find_by_file_hash_def claim_file_def create_or_get_by_file_hash_def
      no_faults_def)

lemma live_owned: "cl_created live_claim"
  by (simp add: live_claim_def)

definition live_outcomes :: "processed_outcome option list" where
  "live_outcomes = row_outcomes (row_setup live_env live_command live_prepared None (cl_file live_claim)) 0 live_rows"

lemma live_prepares:
  "fst (prepare_config (ie_health live_env) (ie_strftime live_env (pf_date live_command)) (ie_now live_env)
     (pf_partner live_command) (pf_workflow_type live_command) (pf_file_type live_command)
     (pf_version live_command) (pf_backfill live_command) (pf_check live_command)
     (ie_content live_env (pf_path live_command) []) (iw_configs live_world) (iw_cache live_world))
   = Prepared live_prepared"
  by code_simp

lemma live_gate: "evaluation_decision (file_evaluation live_env live_command live_prepared) \<noteq> QD_FAIL"
  by code_simp

lemma live_reads:
  "ie_content live_env (pf_path live_command) (mc_sheet_name live_prepared) = Some live_file"
  "iter_rows (he_norm (ie_health live_env)) (ie_whole live_env) (mc_start_row live_prepared) live_file = Some live_rows"
  "0 < ie_workers live_env"
  by code_simp+

lemma live_accepts:
  "None \<notin> set live_outcomes" "list_all storable (accepted_containers live_outcomes)"
  "rejections live_outcomes = 1"
  by code_simp+

end
