(* ===== verification/IngestionGuarantees.thy ===== *)
theory IngestionGuarantees
  imports IngestionDemo
begin

text \<open>
  The properties of claims, of the ingestion of one file and of the unit it belongs to, with what
  the model showed of files that were left unfinished.
\<close>

section \<open>Claims\<close>

text \<open>C6: At most one worker owns a file. However many workers claim files at once, and however old the
  answer of each one's first lookup is, at most one claim of a content is answered with ownership,
  and none if the content is already claimed and has not failed; the unique indexes of the collection
  are kept.\<close>

theorem at_most_one_claim_owns_a_file:
  assumes "files_ok fs" and "list_all (\<lambda>c. rf_status (snd c) = PS_PROCESSING) cs"
    and "claim_all cs fs = (rs, fs')"
  shows "files_ok fs' \<and>
    length (filter (owns partner hash) (zip cs rs)) \<le> (if claimed partner hash fs then 0 else 1)"
proof -
  have "list_all (\<lambda>c. rf_status (snd c) \<noteq> PS_FAILED) cs"
    using assms(2) by (auto simp: list_all_iff)
  from claim_all_owners [OF assms(1) this assms(3)] show ?thesis .
qed

definition race_file :: "string \<Rightarrow> processing_status \<Rightarrow> recon_file" where
  "race_file i st =
     (new_file i 0 ''in.csv'' ''MOMO'' ''SETTLEMENT'' 0 ''hash'' None None None
        (classify_scope \<lparr>bz_local = (\<lambda>t. t), bz_utc = (\<lambda>t. t)\<rparr> ''MOMO'' (Some 0) SC_UNCONFIRMED [] []))
       \<lparr>rf_status := st\<rparr>"

text \<open>Three workers find the same failed file; a fourth looked before it was there.\<close>

definition race_claims :: "(recon_file option \<times> recon_file) list" where
  "race_claims =
     map (\<lambda>(ex, i). (ex, race_file i PS_PROCESSING))
       [(Some (race_file ''a'' PS_FAILED), ''b''), (Some (race_file ''a'' PS_FAILED), ''c''),
        (None, ''d''), (Some (race_file ''a'' PS_FAILED), ''e'')]"

lemma race_facts:
  "files_ok [race_file ''a'' PS_FAILED]"
  "list_all (\<lambda>c. rf_status (snd c) = PS_PROCESSING) race_claims"
  "filter (owns ''MOMO'' ''hash'') (zip race_claims (fst (claim_all race_claims [race_file ''a'' PS_FAILED]))) \<noteq> []"
  by code_simp+

theorem at_most_one_claim_owns_a_file_witness:
  "length (filter (owns ''MOMO'' ''hash'')
     (zip race_claims (fst (claim_all race_claims [race_file ''a'' PS_FAILED])))) = 1"
proof -
  let ?xs = "filter (owns ''MOMO'' ''hash'')
     (zip race_claims (fst (claim_all race_claims [race_file ''a'' PS_FAILED])))"
  have "length ?xs \<le> 1"
    using at_most_one_claim_owns_a_file [OF race_facts(1,2) surjective_pairing, of "''MOMO''" "''hash''"]
    by (simp split: if_splits)
  moreover have "0 < length ?xs" using race_facts(3) by simp
  ultimately show ?thesis by linarith
qed

section \<open>One file\<close>

text \<open>C10: The result of an ingestion and the stored file agree, whichever write, health check or
  configuration step raises, as long as the two writes of the failure path themselves succeed. A
  result without a file has changed nothing. A duplicate has changed nothing and names the claimed
  file. In every other case the stored document has the status the outcome stands for, COMPLETED,
  PARTIAL, PENDING or FAILED and never PROCESSING, and the row counts of the result.\<close>

theorem outcome_agrees_with_stored_file:
  assumes "files_ok (iw_files w)" and "fails_safely ft" and "process_file I ft cmd w = (r, w')"
  shows "case ir_file r of
      None \<Rightarrow> ir_outcome r = FO_FAILED \<and> w' = w
    | Some f \<Rightarrow>
        if ir_outcome r = FO_FILE_DUPLICATE \<or> ir_outcome r = FO_FETCH_UNIT_REPLAY then w' = w
        else stored_as (rf_id f) (iw_files w') = Some (outcome_status (ir_outcome r), ir_stats r)"
  using outcome_settles [OF assms] by (auto simp: settles_def split: option.splits)

lemma live_world_ok: "files_ok (iw_files live_world)"
  by code_simp



lemma live_process:
  "\<exists>r w'. process_file live_env no_faults live_command live_world = (r, w') \<and>
     (ir_outcome r = FO_INGESTED \<or> ir_outcome r = FO_PARTIAL) \<and>
     ps_total_rows (ir_stats r) = 2 \<and> ps_failed_rows (ir_stats r) = 1"
  using well_formed_run [OF live_claimed live_owned live_world_ok live_prepares live_gate
      live_reads live_outcomes_def live_accepts(1,2)] live_accepts(3)
  by (simp add: live_rows_def numeral_2_eq_2)

theorem outcome_agrees_with_stored_file_witness:
  "\<exists>r w' f. process_file live_env no_faults live_command live_world = (r, w') \<and> ir_file r = Some f \<and>
     stored_as (rf_id f) (iw_files w') = Some (outcome_status (ir_outcome r), ir_stats r) \<and>
     ps_failed_rows (ir_stats r) = 1"
proof -
  obtain r w' where r: "process_file live_env no_faults live_command live_world = (r, w')"
      "ir_outcome r = FO_INGESTED \<or> ir_outcome r = FO_PARTIAL" "ps_failed_rows (ir_stats r) = 1"
    using live_process by blast
  with outcome_agrees_with_stored_file [OF live_world_ok no_fault_simps(9) r(1)] show ?thesis
    by (auto split: option.splits)
qed

text \<open>C4: A file that is ingested accounts for every row. When an ingestion ends with INGESTED or PARTIAL,
  whatever faults occurred on the way, its rows are the inserted, the duplicate and the failed ones;
  the transaction table has grown by exactly the inserted rows; and when there is a quarantine, it has
  grown by a record for every failed row and at most one for every duplicate, and the outcome is
  PARTIAL exactly when it has grown.\<close>

theorem ingested_file_accounts_for_every_row:
  assumes "files_ok (iw_files w)" and "process_file I ft cmd w = (r, w')"
    and "ir_outcome r = FO_INGESTED \<or> ir_outcome r = FO_PARTIAL"
  shows "let n = ir_stats r
    in ps_total_rows n = ps_success_rows n + ps_duplicate_rows n + ps_failed_rows n \<and>
       length (iw_partner w') = length (iw_partner w) + ps_success_rows n \<and>
       (case (iw_quarantine w, iw_quarantine w') of
          (None, None) \<Rightarrow> ir_outcome r = FO_PARTIAL \<longleftrightarrow> ps_failed_rows n \<noteq> 0
        | (Some q, Some q') \<Rightarrow>
            length q + ps_failed_rows n \<le> length q' \<and>
            length q' \<le> length q + ps_failed_rows n + ps_duplicate_rows n \<and>
            (ir_outcome r = FO_PARTIAL \<longleftrightarrow> length q < length q')
        | _ \<Rightarrow> False)"
  using process_accounts [OF assms] unfolding accounts_def .

theorem ingested_file_accounts_for_every_row_witness:
  "\<exists>r w' q. process_file live_env no_faults live_command live_world = (r, w') \<and>
     ir_outcome r = FO_PARTIAL \<and> ps_success_rows (ir_stats r) + ps_duplicate_rows (ir_stats r) = 1 \<and>
     length (iw_partner w') = ps_success_rows (ir_stats r) \<and> iw_quarantine w' = Some q \<and> 1 \<le> length q"
proof -
  obtain r w' where r: "process_file live_env no_faults live_command live_world = (r, w')"
      "ir_outcome r = FO_INGESTED \<or> ir_outcome r = FO_PARTIAL"
      "ps_total_rows (ir_stats r) = 2" "ps_failed_rows (ir_stats r) = 1"
    using live_process by blast
  with ingested_file_accounts_for_every_row [OF live_world_ok r(1,2)] show ?thesis
    by (auto simp: Let_def live_world_def split: option.splits)
qed

text \<open>C14: Rows are stored only behind the gate. When an ingestion has changed the transactions or the
  quarantine, it has prepared a configuration that is valid and maps every required path, and the
  structure of the file has passed its gate, whatever the outcome is.\<close>

theorem rows_are_stored_only_behind_the_gate:
  assumes "files_ok (iw_files w)" and "process_file I ft cmd w = (r, w')"
    and "iw_partner w' \<noteq> iw_partner w \<or> iw_quarantine w' \<noteq> iw_quarantine w"
  shows "\<exists>c. fst (prepare_config (ie_health I) (ie_strftime I (pf_date cmd)) (ie_now I) (pf_partner cmd)
        (pf_workflow_type cmd) (pf_file_type cmd) (pf_version cmd) (pf_backfill cmd) (pf_check cmd)
        (ie_content I (pf_path cmd) []) (iw_configs w) (iw_cache w)) = Prepared c \<and>
      validate_config c = [] \<and> set required_schema_paths \<subseteq> set (mapped_paths c) \<and>
      evaluation_decision (file_evaluation I cmd c) \<noteq> QD_FAIL"
  using process_changes_rows [OF assms] file_passed(1,3) by blast

theorem rows_are_stored_only_behind_the_gate_witness:
  "validate_config live_prepared = [] \<and> set required_schema_paths \<subseteq> set (mapped_paths live_prepared) \<and>
     evaluation_decision (file_evaluation live_env live_command live_prepared) \<noteq> QD_FAIL"
proof -
  obtain r w' where r: "process_file live_env no_faults live_command live_world = (r, w')"
      "ir_outcome r = FO_INGESTED \<or> ir_outcome r = FO_PARTIAL" "ps_failed_rows (ir_stats r) = 1"
    using live_process by blast
  have "iw_quarantine w' \<noteq> iw_quarantine live_world"
    using process_accounts [OF live_world_ok r(1,2)] r(3)
    by (auto simp: accounts_def live_world_def Let_def split: option.splits)
  with rows_are_stored_only_behind_the_gate [OF live_world_ok r(1)] show ?thesis
    unfolding live_prepares by auto
qed

section \<open>Configuration health\<close>

text \<open>Recording the health of the configuration decides over the file. When every row has been run and
  the terminal status is stored, and only the best-effort health record then raises, the file is
  turned from COMPLETED or PARTIAL to FAILED, with its full row counts and with all its rows and
  quarantine records stored.\<close>

theorem health_write_failure_fails_a_stored_file:
  assumes "run_row_phase I cmd c run key s f w = (Inr (), s1, f1, w1)"
    and "\<not> missing_ingestion_key (ie_run I) s1" and "pf_check cmd" and "is_stored (rf_id f) w"
  shows "\<exists>r w'. ingest_rows I (no_faults\<lparr>ft_health := Some e\<rparr>) cmd c run key s f w = (r, w') \<and>
    ir_outcome r = FO_FAILED \<and> stored_as (rf_id f) (iw_files w') = Some (PS_FAILED, run_stats s1) \<and>
    iw_partner w' = iw_partner w1 \<and> iw_quarantine w' = iw_quarantine w1"
proof -
  let ?ft = "no_faults\<lparr>ft_health := Some e\<rparr>"
  have safe: "fails_safely ?ft" by (simp add: fails_safely_def no_faults_def)
  note f1 = row_phase_files [OF assms(1)]
  have st: "is_stored (rf_id f1) w1" using f1 assms(4) by (simp add: is_stored_files [of w1 w])
  obtain e2 s2 f2 w2 where c: "finalize_success I ?ft cmd run s1 f1 w1 = (e2, s2, f2, w2)" by (metis prod_cases4)
  note fin = finalize_success_cases [OF c st]
  have e2: "e2 = Inl e"
    using c assms(3) by (auto simp: finalize_success_def complete_run_def no_faults_def Let_def)
  obtain r w' where r: "raised_result I ?ft e run s2 f2 w2 = (r, w')" by (metis prod.exhaust)
  have "ingest_rows I ?ft cmd c run key s f w = (r, w')"
    using assms(1,2) c e2 r by (simp add: ingest_rows_def)
  moreover have "settles (rf_id f) r w' \<and> ir_outcome r = FO_FAILED \<and>
      iw_partner w' = iw_partner w2 \<and> iw_quarantine w' = iw_quarantine w2"
    using fin f1 by (intro raised_result_settles [OF safe _ _ r]) simp_all
  moreover have "ir_stats r = run_stats s1"
    using r fin by (auto simp: raised_result_def failed_result_def fail_run_def Let_def split: if_splits)
  ultimately show ?thesis
    using fin by (auto simp: settles_def outcome_status_def split: option.splits)
qed

lemma live_state:
  "no_rows (start_state live_env live_command)"
  "is_stored ''f1'' (live_world\<lparr>iw_files := [cl_file live_claim]\<rparr>)"
  by (simp_all add: is_stored_def stored_as_def find_file_def live_claim_def new_claim_file_def
      new_file_def live_env_def)

theorem health_write_failure_fails_a_stored_file_witness:
  "\<exists>r w' s1. ingest_rows live_env (no_faults\<lparr>ft_health := Some ''timeout''\<rparr>) live_command live_prepared
      ''r1'' None (start_state live_env live_command) (cl_file live_claim)
      (live_world\<lparr>iw_files := [cl_file live_claim]\<rparr>) = (r, w') \<and>
    ir_outcome r = FO_FAILED \<and> rs_total_rows s1 = 2 \<and>
    stored_as ''f1'' (iw_files w') = Some (PS_FAILED, run_stats s1)"
proof -
  let ?w = "live_world\<lparr>iw_files := [cl_file live_claim]\<rparr>" and ?s = "start_state live_env live_command"
  have i: "rf_id (cl_file live_claim) = ''f1''"
    by (simp add: live_claim_def new_claim_file_def new_file_def live_env_def)
  obtain s1 w1 where run: "run_row_phase live_env live_command live_prepared ''r1'' None ?s (cl_file live_claim) ?w
      = (Inr (), s1, cl_file live_claim, w1)"
    using row_phase_total [OF live_reads file_passed(2) [OF live_gate] live_state(1)
        live_accepts(1,2) [unfolded live_outcomes_def]] by blast
  obtain rows bx where b: "rs_total_rows s1 = length rows" "rows = live_rows" "s1 = bx_state bx"
      "rs_rejected_rows s1 = rejections live_outcomes"
      "settled (length (iw_partner ?w)) (map_option length (iw_quarantine ?w)) bx"
    using row_phase_runs [OF run live_state(1)] live_reads by (auto simp: live_outcomes_def)
  then have "rs_failed_rows s1 < rs_total_rows s1"
    using live_accepts(3) by (simp add: settled_def Let_def live_rows_def)
  then have nm: "\<not> missing_ingestion_key (ie_run live_env) s1"
    by (simp add: missing_ingestion_key_def missing_key_failure_def)
  have "pf_check live_command" by (simp add: live_command_def)
  from health_write_failure_fails_a_stored_file [OF run nm this, of "''timeout''"] live_state(2) i b(1,2)
  show ?thesis by (auto simp: live_rows_def numeral_2_eq_2 intro!: exI [of _ s1])
qed

text \<open>A configuration that a run has marked stale stays in use while it is cached. When the cache
  holds the approved configuration from before the mark, its signature still matches, and the entry has
  not expired, the health check answers with the cached object and proposes nothing, although the
  stored document says that it is stale.\<close>

theorem cached_configuration_hides_its_stale_mark:
  assumes "cache (cache_key_partner_type partner workflow ftype) = Some (c, expires)" and "now < expires"
    and "find_by_partner_and_type partner workflow ftype cs = Some d" and "mc_id d = mc_id c"
    and "truthy (dget (health_of d) ''stale'')"
    and "compute_signature (he_norm H) (he_md5 H) sample_size f = Some sig"
    and "mc_signature c \<noteq> None" and "\<not> is_config_stale (he_norm H) c sig"
  shows "is_config_stale (he_norm H) d sig \<and>
    check_and_refresh_config H now partner workflow ftype None backfill (Some f) cs cache
      = (Healthy (Some c), cs, cache)"
  using assms
  by (auto simp: check_and_refresh_config_def load_config_def load_by_partner_type_def cache_get_def
      is_config_stale_def Let_def)

definition fresh_config :: mapping_config where
  "fresh_config = live_config\<lparr>mc_signature :=
     Some (signature_dict (new_signature (\<lambda>hs. ''m'' @ concat hs) [''id'', ''amount'', ''ccy'', ''status''] [] 1 2))\<rparr>"

definition marked_config :: mapping_config where
  "marked_config = hd (record_config_run_health (\<lambda>_ _. ''0.5'') 5 ''MOMO'' ''UPC'' ''SETTLEMENT'' None 2 1 [fresh_config])"

lemma stale_demo:
  "find_by_partner_and_type ''MOMO'' ''UPC'' ''SETTLEMENT'' [marked_config] = Some marked_config"
  "mc_id marked_config = mc_id fresh_config" "truthy (dget (health_of marked_config) ''stale'')"
  "compute_signature (he_norm (demo_health fresh_config)) (he_md5 (demo_health fresh_config)) sample_size live_file
     = Some (new_signature (\<lambda>hs. ''m'' @ concat hs) [''id'', ''amount'', ''ccy'', ''status'']
         [[''A1'', ''5'', ''VND'', ''SUCCESS''], [''A2'', ''x'', ''VND'', ''SUCCESS'']] 1 2)"
  "mc_signature fresh_config \<noteq> None"
  "\<not> is_config_stale (he_norm (demo_health fresh_config)) fresh_config
     (new_signature (\<lambda>hs. ''m'' @ concat hs) [''id'', ''amount'', ''ccy'', ''status'']
       [[''A1'', ''5'', ''VND'', ''SUCCESS''], [''A2'', ''x'', ''VND'', ''SUCCESS'']] 1 2)"
  by code_simp+

theorem cached_configuration_hides_its_stale_mark_witness:
  "fst (check_and_refresh_config (demo_health fresh_config) 9 ''MOMO'' ''UPC'' ''SETTLEMENT'' None None
     (Some live_file) [marked_config]
     [cache_key_partner_type ''MOMO'' ''UPC'' ''SETTLEMENT'' \<mapsto> (fresh_config, 300000000)])
   = Healthy (Some fresh_config)"
  using cached_configuration_hides_its_stale_mark [OF _ _ stale_demo, of
      "[cache_key_partner_type ''MOMO'' ''UPC'' ''SETTLEMENT'' \<mapsto> (fresh_config, 300000000)]" 300000000 9 None]
  by simp

end
