(* ===== verification/UnitGuarantees.thy ===== *)
theory UnitGuarantees
  imports IngestionGuarantees
begin

text \<open>
  What the orchestrator is told of a unit: success is backed by a stored file, or else by a claim
  that was refused, whatever has become of the file it found.
\<close>

section \<open>The dictionaries\<close>

lemma bounded_keys:
  "dget (bounded_source_unit_result r) ''outcome'' = VStr (file_outcome_value (ir_outcome r))"
  "dget (bounded_source_unit_result r) ''orchestrationAction'' = VStr (action_value (ir_action r))"
  "dget (bounded_source_unit_result r) ''topRuleCodes''
     = VList (map VStr (take 10 (qm_top_rule_codes (ir_summary r))))"
  "dget (bounded_source_unit_result r) ''waitingForReview'' = VNone"
  "dget (bounded_source_unit_result r) ''waiting_for_review'' = VNone"
  by (simp_all add: bounded_source_unit_result_def dget_def map_of_append split: option.splits)

lemma duplicate_unit_keys:
  "dget (duplicate_unit u f r) ''success'' = VBool True"
  "dget (duplicate_unit u f r) ''outcome'' = VStr (file_outcome_value (ir_outcome r))"
  "dget (duplicate_unit u f r) ''orchestrationAction'' = VStr (action_value (ir_action r))"
  "dget (duplicate_unit u f r) ''topRuleCodes'' = VList (map VStr (take 10 (qm_top_rule_codes (ir_summary r))))"
  "dget (duplicate_unit u f r) ''waitingForReview'' = VNone"
  "dget (duplicate_unit u f r) ''waiting_for_review'' = VNone"
  by (simp_all add: duplicate_unit_def dget_dmerge source_context_of_def bounded_keys)

lemma error_result_keys:
  "dget (ingestion_error_result E m c b) ''success'' = VBool False"
  "dget (ingestion_error_result E m c b) ''outcome'' = VNone"
  by (simp_all add: ingestion_error_result_def dget_def)

lemma failed_result_keys:
  "dget (failed_ingestion_result E r) ''success'' = VBool False"
  "dget (failed_ingestion_result E r) ''outcome'' = VNone"
  by (simp_all add: failed_ingestion_result_def error_result_keys Let_def)

lemma unfinished_unit_keys:
  "dget (unfinished_unit E u f r) ''success'' = VBool False"
  "dget (unfinished_unit E u f r) ''outcome'' \<notin> {VStr ''FILE_DUPLICATE'', VStr ''FETCH_UNIT_REPLAY'', VStr ''PARTIAL''}"
  by (simp_all add: unfinished_unit_def dget_dmerge source_context_of_def failed_result_keys
      dget_def [of "[]"] Let_def)

lemma stored_unit_keys:
  "dget (held_unit u f r) ''sourceFileId'' = VStr (rf_id f)"
  "dget (reconciled_unit u f r n) ''sourceFileId'' = VStr (rf_id f)"
  by (simp_all add: held_unit_def reconciled_unit_def dget_dmerge source_context_of_def)

text \<open>The rule codes of every dictionary are a list, or missing.\<close>

definition codes_ok :: "pydict \<Rightarrow> bool" where
  "codes_ok d \<longleftrightarrow> (dget d ''topRuleCodes'' = VNone \<or> (\<exists>xs. dget d ''topRuleCodes'' = VList xs)) \<and>
     dget d ''top_rule_codes'' = VNone"

lemma codes_ok_units:
  "codes_ok (bounded_source_unit_result r)" "codes_ok (ingestion_error_result E m c b)"
  "codes_ok (failed_ingestion_result E r)"
  by (auto simp: codes_ok_def bounded_source_unit_result_def ingestion_error_result_def
      failed_ingestion_result_def dget_def map_of_append Let_def split: option.splits)

lemma codes_ok_merge:
  "codes_ok d \<Longrightarrow> map_of (rev e) ''topRuleCodes'' = None \<Longrightarrow> map_of (rev e) ''top_rule_codes'' = None \<Longrightarrow>
     codes_ok (dmerge d e)"
  "codes_ok d \<Longrightarrow> codes_ok (dmerge d (bounded_source_unit_result r))"
  by (auto simp: codes_ok_def dget_dmerge bounded_source_unit_result_def split: option.splits)

lemma unit_codes:
  assumes "ingest_unit U u w = (Inr d, w')"
  shows "py_list (first_of d [''topRuleCodes'', ''top_rule_codes''] (VList [])) \<noteq> None"
proof -
  have ctx: "codes_ok (source_context_of u f)" for f
    by (simp add: codes_ok_def source_context_of_def dget_def)
  have "codes_ok d"
    using assms
    by (auto simp: ingest_unit_def reconcile_unit_def no_record_def duplicate_unit_def unfinished_unit_def
        held_unit_def reconciled_unit_def Let_def source_context_of_def
        intro!: codes_ok_units codes_ok_merge ctx [unfolded source_context_of_def]
        split: if_splits option.splits sum.splits prod.splits)
  then show ?thesis by (auto simp: codes_ok_def)
qed

lemma from_map_total:
  assumes "py_list (first_of d [''topRuleCodes'', ''top_rule_codes''] (VList [])) \<noteq> None"
  shows "\<exists>io. from_result str (ResMap d) = Some io"
proof -
  obtain xs where "py_list (first_of d [''topRuleCodes'', ''top_rule_codes''] (VList [])) = Some xs"
    using assms by blast
  then show ?thesis
    unfolding from_result_def ingest_result.case outcome_of_map_def by (simp only: option.case Let_def) blast
qed

text \<open>A dictionary that reports neither success nor an accepted outcome is no success.\<close>

lemma unsuccessful_map:
  assumes "dget d ''success'' = VBool False"
    and "dget d ''outcome'' \<notin> {VStr ''FILE_DUPLICATE'', VStr ''FETCH_UNIT_REPLAY'', VStr ''PARTIAL''}"
    and "from_result str (ResMap d) = Some io"
  shows "\<not> io_success io"
  using assms by (auto simp: from_result_def outcome_of_map_def accepted_duplicate_def Let_def split: option.splits)

section \<open>Success is backed by a stored file\<close>

lemma successful_unit_is_stored:
  assumes "files_ok (iw_files (uw_ingest w))" and "fails_safely (ui_faults U (uw_calls w))"
    and iu: "ingest_unit U u w = (Inr d, w')"
    and yes: "\<not> (dget d ''success'' = VBool False \<and>
      dget d ''outcome'' \<notin> {VStr ''FILE_DUPLICATE'', VStr ''FETCH_UNIT_REPLAY'', VStr ''PARTIAL''})"
    and nodup: "\<not> accepted_duplicate (dget d ''outcome'')"
  shows "\<exists>i t n. dget d ''sourceFileId'' = VStr i \<and>
    stored_as i (iw_files (uw_ingest w')) = Some (t, n) \<and> (t = PS_COMPLETED \<or> t = PS_PARTIAL)"
proof -
  let ?n = "uw_calls w"
  let ?I = "(ui_ingest U ?n)\<lparr>ie_fast := \<not> fc_validate_rows (ui_config U)\<rparr>"
  obtain path where path: "str_or (um_local_path u) None = Some path"
    using iu yes by (cases "str_or (um_local_path u) None") (auto simp: ingest_unit_def error_result_keys Let_def)
  let ?cmd = "unit_command U u path w"
  obtain r iw where r: "process_file ?I (ui_faults U ?n) ?cmd (uw_ingest w) = (r, iw)" by (metis prod.exhaust)
  note agree = outcome_settles [OF assms(1,2) r]
  obtain f where f: "ir_file r = Some f"
    using iu yes path r
    by (cases "ir_file r") (auto simp: ingest_unit_def error_result_keys no_record_def Let_def)
  have nd: "\<not> (ir_outcome r = FO_FILE_DUPLICATE \<or> ir_outcome r = FO_FETCH_UNIT_REPLAY)"
    using iu path r f nodup
    by (auto simp: ingest_unit_def Let_def duplicate_unit_keys accepted_duplicate_def)
  have stored: "stored_as (rf_id f) (iw_files iw) = Some (rf_status f, ir_stats r)"
    using agree f nd by (auto simp: settles_def)
  have st: "rf_status f = PS_COMPLETED \<or> rf_status f = PS_PARTIAL"
    using iu path r f nd yes unfinished_unit_keys by (auto simp: ingest_unit_def Let_def split: if_splits)
  have "uw_ingest w' = iw \<and> dget d ''sourceFileId'' = VStr (rf_id f)"
    using iu path r f nd st
    by (auto simp: ingest_unit_def Let_def reconcile_unit_def stored_unit_keys split: if_splits sum.splits prod.splits)
  with stored st show ?thesis by auto
qed


definition live_unit :: source_unit where
  "live_unit = (new_source_unit (Some ''unit-1''))\<lparr>um_local_path := Some ''in.csv''\<rparr>"

definition live_units :: unit_env where
  "live_units =
     \<lparr>ui_ingest = (\<lambda>_. live_env), ui_faults = (\<lambda>_. no_faults),
      ui_reconcile =
        \<lparr>rn_sql = \<lparr>sq_lower = ascii_lower, sq_collate = (\<lambda>s. s), sq_json = (\<lambda>_. [])\<rparr>,
         rn_tostr = (\<lambda>_. ''?''), rn_zone = \<lparr>bz_local = (\<lambda>t. t), bz_utc = (\<lambda>t. t)\<rparr>,
         rn_zone_name = ''UTC'', rn_date_text = (\<lambda>_. ''1970-01-01''), rn_find_version = (\<lambda>_ _. None)\<rparr>,
      ui_result_ids = (\<lambda>_ _. ''id''), ui_reconcile_exn = (\<lambda>_. \<lparr>ex_class = ''E'', ex_text = []\<rparr>),
      ui_config = \<lparr>fc_partner = ''MOMO'', fc_method = MC_Api ''http://partner'' False, fc_validate_rows = False\<rparr>,
      ui_date = 0, ui_run_id = None, ui_version = None, ui_backfill = None, ui_health_enabled = True,
      ui_attempt = 1\<rparr>"

definition units_world :: "file_table \<Rightarrow> unit_world" where
  "units_world fs =
     \<lparr>uw_ingest = live_world\<lparr>iw_files := fs\<rparr>, uw_results = [],
      uw_stats = \<lparr>us_total_rows = 0, us_success_rows = 0, us_duplicate_rows = 0, us_failed_rows = 0,
        us_rejected_rows = 0, us_persistence_failed_rows = 0, us_quarantined_rows = 0,
        us_units_processed = 0, us_reconciliation_count = 0\<rparr>,
      uw_health_checked = False, uw_calls = 0\<rparr>"


section \<open>Refused claims\<close>

lemma claim_ignores_mode [simp]:
  "claim_source_file (I\<lparr>ie_fast := b\<rparr>) ft cmd w = claim_source_file I ft cmd w"
  by (simp add: claim_source_file_def new_claim_file_def
      cong del: option.case_cong_weak sum.case_cong_weak)

lemma action_of_duplicate: "ir_action (duplicate_result I c h (claimed_state I f
    (enter_stage E st run fo code (start_state I cmd)))) = OA_CONTINUE"
  by (simp add: duplicate_result_def claimed_state_def enter_stage_def set_source_context_def begin_stage_def
      start_state_def new_run_def add_error_def Let_def split: option.splits)

lemma refused_claim_completes:
  assumes path: "um_local_path u = Some path" "path \<noteq> []"
    and c: "fst (claim_source_file (ui_ingest U (uw_calls w)) (ui_faults U (uw_calls w))
      (unit_command U u path w) (uw_ingest w)) = Inr c" "\<not> cl_created c"
  shows "\<exists>d io w'. ingest_service U u w = (Inr (ResMap d), w') \<and>
    from_result str (ResMap d) = Some io \<and> io_success io \<and> \<not> io_waiting io \<and>
    uw_ingest w' = uw_ingest w \<and> uw_results w' = uw_results w"
proof -
  let ?n = "uw_calls w"
  let ?J = "ui_ingest U ?n"
  let ?I = "?J\<lparr>ie_fast := \<not> fc_validate_rows (ui_config U)\<rparr>"
  let ?cmd = "unit_command U u path w"
  obtain e w1 where cl: "claim_source_file ?J (ui_faults U ?n) ?cmd (uw_ingest w) = (e, w1)"
    by (metis prod.exhaust)
  have "w1 = uw_ingest w"
    by (rule claim_source_cases [OF cl]) (use c cl in auto)
  then have cl1: "claim_source_file ?J (ui_faults U ?n) ?cmd (uw_ingest w) = (Inr c, uw_ingest w)"
    using c cl by simp
  let ?s = "enter_stage (ie_run ?I) ''CLAIMING'' (case rs_run_id (start_state ?I ?cmd) of Some r \<Rightarrow> r
      | None \<Rightarrow> ''pending'') None None (start_state ?I ?cmd)"
  define r where "r = duplicate_result ?I c (case ie_file_hash ?I (pf_path ?cmd) of None \<Rightarrow> [] | Some h \<Rightarrow> h)
      (claimed_state ?I (cl_file c) ?s)"
  have p: "process_file ?I (ui_faults U ?n) ?cmd (uw_ingest w) = (r, uw_ingest w)"
    using cl1 c(2) by (simp add: process_file_def r_def Let_def)
  have act: "ir_action r = OA_CONTINUE" unfolding r_def by (rule action_of_duplicate)
  have oc: "ir_file r = Some (cl_file c)" "ir_outcome r = FO_FILE_DUPLICATE \<or> ir_outcome r = FO_FETCH_UNIT_REPLAY"
    by (auto simp: r_def duplicate_result_def Let_def)
  obtain c0 p0 where path': "path = c0 # p0" using path(2) by (cases path) auto
  have iu: "\<exists>w'. ingest_unit U u w = (Inr (duplicate_unit u (cl_file c) r), w') \<and>
      uw_ingest w' = uw_ingest w \<and> uw_results w' = uw_results w"
    using p oc path(1) by (auto simp: ingest_unit_def str_or_def path' Let_def)
  have "from_result str (ResMap (duplicate_unit u (cl_file c) r)) \<noteq> None"
    using iu from_map_total [OF unit_codes] by fastforce
  then obtain io where io: "from_result str (ResMap (duplicate_unit u (cl_file c) r)) = Some io" by blast
  then have "io_success io \<and> \<not> io_waiting io"
    using oc(2) act
    by (auto simp: from_result_def outcome_of_map_def map_action_def map_waiting_def accepted_duplicate_def
        duplicate_unit_keys Let_def split: option.splits)
  with iu io show ?thesis by (auto simp: ingest_service_def)
qed

lemma unit_metadata_keys:
  "dget (fetch_unit_metadata c m date) ''sourceEndpoint'' = VStr (fetch_source_endpoint c)"
  "dget (fetch_unit_metadata c m date) ''windowStart'' = VStr date"
  "dget (fetch_unit_metadata c m date) ''sourceUnitKey'' = dget m ''sourceUnitKey''"
  by (auto simp: fetch_unit_metadata_def Let_def dget_dput dget_dmerge split: method_config.splits)

lemma unit_key_total:
  assumes "fetch_source_endpoint (ui_config U) \<noteq> []"
  shows "\<exists>key. derive_fetch_unit_key digest p wt ft date v (pf_metadata (unit_command U u path w)) = Inr key"
proof -
  let ?d = "fetch_unit_metadata (ui_config U) (dmerge (unit_payload u) (um_fetch_metadata u))
      (re_iso (ie_run (ui_ingest U (uw_calls w))) (ui_date U))"
  have e: "truthy (dget ?d ''sourceEndpoint'')" "dget ?d ''windowStart'' \<noteq> VNone"
    using assms by (simp_all add: unit_metadata_keys)
  then obtain x xs where d: "?d = x # xs" by (cases ?d) (auto simp: dget_def)
  have m: "pf_metadata (unit_command U u path w) = Some ?d" by (simp add: unit_command_def)
  show ?thesis
    using e unfolding m d by (auto simp: derive_fetch_unit_key_def split: list.splits)
qed

lemma unit_key_own:
  assumes "um_source_unit_key u = Some k" "py_strip k \<noteq> []" "map_of (rev (um_fetch_metadata u)) ''sourceUnitKey'' = None"
  shows "derive_fetch_unit_key digest p wt ft date v (pf_metadata (unit_command U u path w)) = Inr (Some (py_strip k))"
proof -
  let ?d = "fetch_unit_metadata (ui_config U) (dmerge (unit_payload u) (um_fetch_metadata u))
      (re_iso (ie_run (ui_ingest U (uw_calls w))) (ui_date U))"
  have e: "dget ?d ''sourceUnitKey'' = VStr k"
    using assms by (simp add: unit_metadata_keys dget_dmerge) (simp add: dget_def unit_payload_def text_value_def)
  then obtain x xs where d: "?d = x # xs" by (cases ?d) (auto simp: dget_def)
  have m: "pf_metadata (unit_command U u path w) = Some ?d" by (simp add: unit_command_def)
  show ?thesis
    using e assms(2) unfolding m d by (auto simp: derive_fetch_unit_key_def split: list.splits)
qed

text \<open>C40: A file that was left unfinished is never read again, and its unit still completes. When the
  content of a unit was claimed before and the claim has not failed, so also when the worker that owned
  it has died and left it PROCESSING, or when it waits for an approval as PENDING, the claim is refused,
  nothing is read or stored, and the result tells the orchestrator success without waiting.\<close>

theorem unfinished_file_completes_its_unit:
  assumes "um_local_path u = Some path" and "path \<noteq> []" and "fetch_source_endpoint (ui_config U) \<noteq> []"
    and "ie_file_hash (ui_ingest U (uw_calls w)) path = Some hash"
    and "ft_claim (ui_faults U (uw_calls w)) = None"
    and "find_by_file_hash (fc_partner (ui_config U)) hash (iw_files (uw_ingest w)) = Some f"
    and "rf_status f = PS_PROCESSING \<or> rf_status f = PS_PENDING"
  shows "\<exists>d io w'. ingest_service U u w = (Inr (ResMap d), w') \<and>
    from_result str (ResMap d) = Some io \<and> io_success io \<and> \<not> io_waiting io \<and>
    uw_ingest w' = uw_ingest w \<and> uw_results w' = uw_results w"
proof -
  let ?I = "ui_ingest U (uw_calls w)"
  let ?cmd = "unit_command U u path w"
  obtain key where key: "derive_fetch_unit_key (ie_digest ?I) (pf_partner ?cmd) (pf_workflow_type ?cmd)
      (pf_file_type ?cmd) (re_iso (ie_run ?I) (pf_date ?cmd)) (pf_version ?cmd) (pf_metadata ?cmd) = Inr key"
    using unit_key_total [OF assms(3)] by blast
  have cmd: "pf_path ?cmd = path" "pf_partner ?cmd = fc_partner (ui_config U)"
    by (simp_all add: unit_command_def)
  have "fst (claim_source_file ?I (ui_faults U (uw_calls w)) ?cmd (uw_ingest w))
      = Inr \<lparr>cl_file = f, cl_created = False, cl_duplicate_code = Some ''file_duplicate''\<rparr>"
    using assms(4-7) key by (auto simp: claim_source_file_def claim_file_def cmd Let_def)
  from refused_claim_completes [OF assms(1,2) this] show ?thesis by simp
qed

text \<open>A unit that is fetched again after its file failed, with other content, is a replay. When a file
  with the key of the unit exists, even one that FAILED, and the new content is not known, the claim of
  the new content is refused by the unique key, the failed file is not reclaimed, nothing is read or
  stored, and the result tells the orchestrator success without waiting.\<close>

theorem failed_unit_with_new_content_completes:
  assumes "um_local_path u = Some path" and "path \<noteq> []"
    and "um_source_unit_key u = Some k" and "py_strip k \<noteq> []"
    and "map_of (rev (um_fetch_metadata u)) ''sourceUnitKey'' = None"
    and "ie_file_hash (ui_ingest U (uw_calls w)) path = Some hash"
    and "ft_claim (ui_faults U (uw_calls w)) = None"
    and "find_by_file_hash (fc_partner (ui_config U)) hash (iw_files (uw_ingest w)) = None"
    and "f \<in> set (iw_files (uw_ingest w))" and "rf_fetch_unit_key f = Some (py_strip k)"
    and "rf_status f = PS_FAILED"
  shows "\<exists>d io w'. ingest_service U u w = (Inr (ResMap d), w') \<and>
    from_result str (ResMap d) = Some io \<and> io_success io \<and> \<not> io_waiting io \<and>
    uw_ingest w' = uw_ingest w \<and> uw_results w' = uw_results w"
proof -
  let ?I = "ui_ingest U (uw_calls w)" and ?fs = "iw_files (uw_ingest w)"
  let ?cmd = "unit_command U u path w"
  let ?cand = "new_claim_file ?I ?cmd hash (Some (py_strip k)) ?fs"
  have cmd: "pf_path ?cmd = path" "pf_partner ?cmd = fc_partner (ui_config U)"
    by (simp_all add: unit_command_def)
  have cand: "rf_partner ?cand = fc_partner (ui_config U)" "rf_file_hash ?cand = hash"
    "rf_fetch_unit_key ?cand = Some (py_strip k)"
    by (simp_all add: new_claim_file_def new_file_def cmd)
  have "clashes ?cand f" using assms(10) by (simp add: clashes_def cand)
  then have clash: "List.find (clashes ?cand) ?fs \<noteq> None" using assms(9) by (auto simp: find_None)
  obtain g where g: "find_by_fetch_unit_key (py_strip k) ?fs = Some g"
    using assms(9,10) by (cases "find_by_fetch_unit_key (py_strip k) ?fs") (auto simp: find_by_fetch_unit_key_def find_None)
  obtain c0 k0 where k: "py_strip k = c0 # k0" using assms(4) by (cases "py_strip k") auto
  have "create_or_get_by_file_hash ?cand ?fs = (Some (g, False), ?fs)"
    using clash g assms(8) by (simp add: create_or_get_by_file_hash_def cand [unfolded k] k)
  then have "\<exists>c. fst (claim_source_file ?I (ui_faults U (uw_calls w)) ?cmd (uw_ingest w)) = Inr c \<and> \<not> cl_created c"
    using assms(6-8) unit_key_own [OF assms(3-5)]
    by (simp add: claim_source_file_def claim_file_def cmd)
  with refused_claim_completes [OF assms(1,2)] show ?thesis by blast
qed

definition stale_file :: "string \<Rightarrow> processing_status \<Rightarrow> recon_file" where
  "stale_file hash st = (race_file ''old'' st)\<lparr>rf_file_hash := hash, rf_fetch_unit_key := Some ''unit-1''\<rparr>"

lemma stale_facts:
  "um_local_path live_unit = Some ''in.csv''" "um_source_unit_key live_unit = Some ''unit-1''"
  "py_strip ''unit-1'' = ''unit-1''" "map_of (rev (um_fetch_metadata live_unit)) ''sourceUnitKey'' = None"
  "fetch_source_endpoint (ui_config live_units) = ''http://partner''"
  "ie_file_hash (ui_ingest live_units (uw_calls (units_world fs))) ''in.csv'' = Some ''in.csv''"
  "ft_claim (ui_faults live_units (uw_calls (units_world fs))) = None"
  "find_by_file_hash (fc_partner (ui_config live_units)) ''in.csv''
     (iw_files (uw_ingest (units_world [stale_file ''in.csv'' st]))) = Some (stale_file ''in.csv'' st)"
  "find_by_file_hash (fc_partner (ui_config live_units)) ''in.csv''
     (iw_files (uw_ingest (units_world [stale_file ''x'' st]))) = None"
  "rf_status (stale_file h st) = st" "rf_fetch_unit_key (stale_file h st) = Some ''unit-1''"
  "iw_files (uw_ingest (units_world fs)) = fs"
proof -
  show "py_strip ''unit-1'' = ''unit-1''" by code_simp
qed (simp_all add: live_unit_def new_source_unit_def live_units_def fetch_source_endpoint_def units_world_def
    live_world_def live_env_def find_by_file_hash_def same_content_def stale_file_def race_file_def new_file_def)

theorem unfinished_file_completes_its_unit_witness:
  "\<exists>d io w'. ingest_service live_units live_unit (units_world [stale_file ''in.csv'' PS_PROCESSING])
      = (Inr (ResMap d), w') \<and> from_result (\<lambda>_. ''?'') (ResMap d) = Some io \<and> io_success io \<and>
    iw_files (uw_ingest w') = [stale_file ''in.csv'' PS_PROCESSING] \<and> iw_partner (uw_ingest w') = []"
proof -
  let ?w = "units_world [stale_file ''in.csv'' PS_PROCESSING]"
  have "rf_status (stale_file ''in.csv'' PS_PROCESSING) = PS_PROCESSING \<or>
      rf_status (stale_file ''in.csv'' PS_PROCESSING) = PS_PENDING" by (simp add: stale_facts)
  from unfinished_file_completes_its_unit [OF stale_facts(1) _ _ stale_facts(6-8) this, of "\<lambda>_. ''?''"]
  obtain d io w' where "ingest_service live_units live_unit ?w = (Inr (ResMap d), w')"
      "from_result (\<lambda>_. ''?'') (ResMap d) = Some io" "io_success io" "uw_ingest w' = uw_ingest ?w"
    by (auto simp: stale_facts(5))
  then show ?thesis by (auto simp: units_world_def live_world_def)
qed

theorem failed_unit_with_new_content_completes_witness:
  "\<exists>d io w'. ingest_service live_units live_unit (units_world [stale_file ''x'' PS_FAILED])
      = (Inr (ResMap d), w') \<and> from_result (\<lambda>_. ''?'') (ResMap d) = Some io \<and> io_success io \<and>
    iw_files (uw_ingest w') = [stale_file ''x'' PS_FAILED] \<and> iw_partner (uw_ingest w') = []"
proof -
  let ?w = "units_world [stale_file ''x'' PS_FAILED]"
  have "stale_file ''x'' PS_FAILED \<in> set (iw_files (uw_ingest ?w))" by (simp add: stale_facts)
  from failed_unit_with_new_content_completes [OF stale_facts(1) _ stale_facts(2) _ stale_facts(4,6,7,9) this,
      of "\<lambda>_. ''?''"]
  obtain d io w' where "ingest_service live_units live_unit ?w = (Inr (ResMap d), w')"
      "from_result (\<lambda>_. ''?'') (ResMap d) = Some io" "io_success io" "uw_ingest w' = uw_ingest ?w"
    by (auto simp: stale_facts(3,10,11))
  then show ?thesis by (auto simp: units_world_def live_world_def)
qed

end
