(* ===== verification/ReviewPackets.thy ===== *)
theory ReviewPackets
  imports ConfigHealth FileClaims
begin

text \<open>
  The approval desk: review packets, copilot actions and post-approval runs of
  \<open>src/src/domain/review/models.py\<close>, the queries and updates of
  \<open>src/src/infrastructure/review/repository.py\<close> and the audit trail of
  \<open>src/src/application/audit/service.py\<close>. Collections are the lists of their documents.
\<close>

section \<open>Packets\<close>

datatype packet_status = RK_PENDING | RK_APPROVED | RK_REJECTED | RK_SUPERSEDED

fun packet_status_value :: "packet_status \<Rightarrow> string" where
  "packet_status_value RK_PENDING = ''PENDING''"
| "packet_status_value RK_APPROVED = ''APPROVED''"
| "packet_status_value RK_REJECTED = ''REJECTED''"
| "packet_status_value RK_SUPERSEDED = ''SUPERSEDED''"

datatype packet_source = PKS_UPLOAD | PKS_SCHEDULER_JOB | PKS_STUDIO_HANDOFF

datatype decision_mode = DM_ACTIVATE_NEXT_RUNTIME | DM_KEEP_CURRENT | DM_REJECT | DM_SEND_TO_STUDIO

fun decision_mode_value :: "decision_mode \<Rightarrow> string" where
  "decision_mode_value DM_ACTIVATE_NEXT_RUNTIME = ''APPROVE_ACTIVATE_NEXT_RUNTIME''"
| "decision_mode_value DM_KEEP_CURRENT = ''APPROVE_KEEP_CURRENT_FOR_FILE''"
| "decision_mode_value DM_REJECT = ''REJECT''"
| "decision_mode_value DM_SEND_TO_STUDIO = ''SEND_TO_MAPPING_STUDIO''"

datatype batch_gate = BG_PENDING | BG_PASS | BG_REVIEW_REQUIRED | BG_FAIL

fun batch_gate_value :: "batch_gate \<Rightarrow> string" where
  "batch_gate_value BG_PENDING = ''PENDING''"
| "batch_gate_value BG_PASS = ''PASS''"
| "batch_gate_value BG_REVIEW_REQUIRED = ''REVIEW_REQUIRED''"
| "batch_gate_value BG_FAIL = ''FAIL''"

text \<open>
  A packet as it is read back: \<open>rk_draft\<close> is \<open>draftMappingId\<close>, or \<open>proposalConfigId\<close> in a
  document that has only that. \<open>rk_backfill_stored\<close> says whether the document has a
  \<open>backfillRunId\<close> at all: one the repository has created has every field of the class, with
  null for \<^const>\<open>None\<close>. A scope is one of the four the engine knows; other texts are left out.
\<close>

record review_packet =
  rk_id :: uuid
  rk_source_type :: packet_source
  rk_partner :: string
  rk_file_name :: string
  rk_file_type :: string
  rk_signature :: "pydict option"
  rk_active_config :: "uuid option"
  rk_draft :: "uuid option"
  rk_draft_version :: "string option"
  rk_action :: "uuid option"
  rk_source_file_id :: "uuid option"
  rk_source_path :: "string option"
  rk_raw_stage_key :: "string option"
  rk_backfill :: "uuid option"
  rk_backfill_stored :: bool
  rk_date :: "datetime option"
  rk_scope :: "scope_type option"
  rk_parse_strategy :: pydict
  rk_gates :: "pydict list"
  rk_sample_preview :: "pydict list"
  rk_internal_count :: nat
  rk_internal_preview :: "pydict list"
  rk_gate_status :: batch_gate
  rk_gate_summary :: pydict
  rk_post_run :: "uuid option"
  rk_status :: packet_status
  rk_decision :: "decision_mode option"
  rk_created_at :: datetime
  rk_reviewed_at :: "datetime option"
  rk_reviewed_by :: "string option"

type_synonym packet_store = "review_packet list"

text \<open>\<open>create\<close> of the base repository writes every field of the class.\<close>

definition create_packet :: "review_packet \<Rightarrow> packet_store \<Rightarrow> packet_store" where
  "create_packet p ps = ps @ [p\<lparr>rk_backfill_stored := True\<rparr>]"

definition find_packet :: "uuid \<Rightarrow> packet_store \<Rightarrow> review_packet option" where
  "find_packet pid ps = List.find (\<lambda>p. rk_id p = pid) ps"

definition newest_packet :: "packet_store \<Rightarrow> review_packet option" where
  "newest_packet ps = (case sort_key (\<lambda>p. - rk_created_at p) ps of [] \<Rightarrow> None | p # _ \<Rightarrow> Some p)"

definition find_latest_by_proposal :: "uuid \<Rightarrow> packet_store \<Rightarrow> review_packet option" where
  "find_latest_by_proposal cid ps = newest_packet (filter (\<lambda>p. rk_draft p = Some cid) ps)"

definition find_latest_pending_by_stage ::
  "string \<Rightarrow> string \<Rightarrow> string \<Rightarrow> packet_store \<Rightarrow> review_packet option" where
  "find_latest_pending_by_stage partner key ftype ps =
     newest_packet (filter (\<lambda>p. rk_partner p = partner \<and> rk_source_type p = PKS_SCHEDULER_JOB \<and>
       rk_file_type p = ftype \<and> rk_raw_stage_key p = Some key \<and> rk_status p = RK_PENDING) ps)"

text \<open>\<open>update_many\<close>, with \<open>modified_count\<close>.\<close>

definition update_many :: "('d \<Rightarrow> bool) \<Rightarrow> ('d \<Rightarrow> 'd) \<Rightarrow> 'd list \<Rightarrow> nat \<times> 'd list" where
  "update_many p f ds =
     (length (filter (\<lambda>d. p d \<and> f d \<noteq> d) ds), map (\<lambda>d. if p d then f d else d) ds)"

text \<open>\<open>{"backfillRunId": {"$exists": False}}\<close> matches a document without the field.\<close>

definition packet_sync_filter :: "uuid \<Rightarrow> review_packet \<Rightarrow> bool" where
  "packet_sync_filter cid p \<longleftrightarrow>
     rk_draft p = Some cid \<and> rk_status p = RK_PENDING \<and> \<not> rk_backfill_stored p"

definition sync_packet_status ::
  "uuid \<Rightarrow> packet_status \<Rightarrow> datetime \<Rightarrow> packet_store \<Rightarrow> nat \<times> packet_store" where
  "sync_packet_status cid st time ps =
     update_many (packet_sync_filter cid) (\<lambda>p. p\<lparr>rk_status := st, rk_reviewed_at := Some time\<rparr>) ps"

definition update_packet :: "uuid \<Rightarrow> (review_packet \<Rightarrow> review_packet) \<Rightarrow> packet_store \<Rightarrow> packet_store" where
  "update_packet pid f ps = update_first (\<lambda>p. rk_id p = pid) f ps"

definition update_mapping_draft ::
  "uuid \<Rightarrow> uuid \<Rightarrow> string \<Rightarrow> pydict \<Rightarrow> pydict list \<Rightarrow> packet_store \<Rightarrow> bool \<times> packet_store" where
  "update_mapping_draft pid draft version strategy gates ps =
     update_doc (\<lambda>p. rk_id p = pid \<and> rk_status p = RK_PENDING)
       (\<lambda>p. p\<lparr>rk_draft := Some draft, rk_draft_version := Some version,
              rk_parse_strategy := strategy, rk_gates := gates\<rparr>) ps"

definition update_scope_evidence ::
  "uuid \<Rightarrow> nat \<Rightarrow> pydict list \<Rightarrow> packet_store \<Rightarrow> bool \<times> packet_store" where
  "update_scope_evidence pid n preview ps =
     update_doc (\<lambda>p. rk_id p = pid)
       (\<lambda>p. p\<lparr>rk_internal_count := n, rk_internal_preview := preview\<rparr>) ps"

section \<open>Actions\<close>

datatype action_status = CA_PENDING_APPROVAL | CA_APPROVED | CA_REJECTED | CA_DISMISSED

datatype action_type = AT_MAPPING_PROPOSAL | AT_PIPELINE_REVIEW | AT_RECON_INSIGHT_ACTION

text \<open>
  \<open>ca_target\<close> is the field \<open>targetConfigId\<close> of a document that has one. The class reads it as an
  alias of \<open>draftMappingId\<close> and writes \<open>draftMappingId\<close>.
\<close>

record copilot_action =
  ca_id :: uuid
  ca_type :: action_type
  ca_status :: action_status
  ca_partner :: string
  ca_draft :: "uuid option"
  ca_target :: "uuid option"
  ca_reason :: string
  ca_reviewed_at :: "datetime option"
  ca_reviewed_by :: "string option"

type_synonym action_store = "copilot_action list"

definition create_action :: "copilot_action \<Rightarrow> action_store \<Rightarrow> action_store" where
  "create_action a cs =
     cs @ [a\<lparr>ca_draft := (case ca_draft a of Some i \<Rightarrow> Some i | None \<Rightarrow> ca_target a), ca_target := None\<rparr>]"

definition sync_actions ::
  "uuid \<Rightarrow> action_status \<Rightarrow> string option \<Rightarrow> datetime \<Rightarrow> action_store \<Rightarrow> nat \<times> action_store" where
  "sync_actions cid st by_whom time cs =
     update_many (\<lambda>a. (ca_draft a = Some cid \<or> ca_target a = Some cid) \<and> ca_status a = CA_PENDING_APPROVAL)
       (\<lambda>a. a\<lparr>ca_status := st, ca_reviewed_at := Some time, ca_reviewed_by := by_whom\<rparr>) cs"

section \<open>Post-approval runs\<close>

datatype post_status =
  PO_QUEUED | PO_INGESTING | PO_WAITING_REVIEW | PO_RECONCILING | PO_COMPLETED | PO_FAILED

datatype post_stage = PG_APPROVAL | PG_INGESTION | PG_RECONCILIATION | PG_CACHE_INVALIDATION

record post_run =
  po_id :: uuid
  po_packet_id :: uuid
  po_partner :: string
  po_date :: "string option"
  po_status :: post_status
  po_gate_status :: batch_gate
  po_gate_summary :: pydict
  po_stage :: post_stage
  po_message :: "string option"
  po_source_file_id :: "uuid option"
  po_output_file_id :: "uuid option"
  po_count :: "int option"
  po_stats :: pydict
  po_errors :: "pyval list"
  po_started_at :: "datetime option"
  po_finished_at :: "datetime option"
  po_created_at :: datetime
  po_updated_at :: datetime

type_synonym post_store = "post_run list"

definition find_post_run :: "uuid \<Rightarrow> post_store \<Rightarrow> post_run option" where
  "find_post_run rid rs = List.find (\<lambda>r. po_id r = rid) rs"

definition find_latest_by_packet_id :: "uuid \<Rightarrow> post_store \<Rightarrow> post_run option" where
  "find_latest_by_packet_id pid rs =
     (case sort_key (\<lambda>r. - po_created_at r) (filter (\<lambda>r. po_packet_id r = pid) rs) of
        [] \<Rightarrow> None | r # _ \<Rightarrow> Some r)"

section \<open>Audit events\<close>

text \<open>
  \<open>record_audit_event\<close> of an event without an action id: it is inserted, whatever was recorded
  before. An event with an action id that was recorded for the same entity is not repeated.
\<close>

record audit_record =
  ar_entity_type :: string
  ar_entity_id :: string
  ar_action :: string
  ar_actor :: "string option"
  ar_metadata :: pydict

definition same_action :: "string \<Rightarrow> string \<Rightarrow> string \<Rightarrow> audit_record \<Rightarrow> bool" where
  "same_action etype eid aid e \<longleftrightarrow>
     ar_entity_type e = etype \<and> ar_entity_id e = eid \<and> dget (ar_metadata e) ''actionId'' = VStr aid"

definition record_audit_event :: "audit_record \<Rightarrow> audit_record list \<Rightarrow> audit_record \<times> audit_record list" where
  "record_audit_event e trail =
     (case dget (ar_metadata e) ''actionId'' of
        VStr (c # s) \<Rightarrow>
          (case List.find (same_action (ar_entity_type e) (ar_entity_id e) (c # s)) trail of
             Some old \<Rightarrow> (old, trail)
           | None \<Rightarrow> (e, trail @ [e]))
      | _ \<Rightarrow> (e, trail @ [e]))"

section \<open>Lemmas\<close>

lemma update_many_keys [simp]:
  "(\<And>d. key (f d) = key d) \<Longrightarrow> map key (snd (update_many p f ds)) = map key ds"
  by (simp add: update_many_def)

lemma update_many_none: "(\<And>d. d \<in> set ds \<Longrightarrow> \<not> p d) \<Longrightarrow> update_many p f ds = (0, ds)"
  by (auto simp: update_many_def filter_empty_conv intro: map_idI)

lemma update_packet_ids: "(\<And>p. rk_id (f p) = rk_id p) \<Longrightarrow> map rk_id (update_packet pid f ps) = map rk_id ps"
  by (simp add: update_packet_def update_first_keys)

lemma find_update_packet:
  assumes "distinct (map rk_id ps)" and "\<And>p. rk_id (f p) = rk_id p"
  shows "find_packet k (update_packet pid f ps) =
    map_option (\<lambda>p. if k = pid then f p else p) (find_packet k ps)"
  using find_update_first [OF assms, of k pid "\<lambda>_. True"] by (simp add: find_packet_def update_packet_def)

end
