(* ===== verification/Backfill.thy ===== *)
theory Backfill
  imports Timestamps
begin

text \<open>
  Backfills: the runs of \<open>src/src/domain/backfill/models.py\<close>, the queries and updates of
  \<open>src/src/infrastructure/backfill/repository.py\<close> and the service of
  \<open>src/src/application/automation/backfill_service.py\<close>. A date is the number of days since 1970;
  what the workflow provider answers is an argument.
\<close>

section \<open>Business days\<close>

definition weekday :: "int \<Rightarrow> int" where
  "weekday d = (d + 3) mod 7"

definition is_business_day :: "int \<Rightarrow> bool" where
  "is_business_day d \<longleftrightarrow> weekday d < 5"

datatype backfill_error = BE_Validation string | BE_Not_Found string | BE_Conflict string | BE_Unavailable string

definition expand_business_dates :: "int \<Rightarrow> int \<Rightarrow> backfill_error + int list" where
  "expand_business_dates from_date to_date =
     (if to_date < from_date then Inl (BE_Validation ''fromDate must be on or before toDate.'')
      else let ds = filter is_business_day [from_date..to_date]
           in if ds = [] then Inl (BE_Validation ''Backfill range must include at least one business day.'')
              else if 31 < length ds
              then Inl (BE_Validation ''Backfill range cannot exceed 31 business days.'')
              else Inr ds)"

section \<open>Runs\<close>

datatype backfill_status = BF_WAITING_CONFIG | BF_QUEUED | BF_RUNNING | BF_COMPLETED | BF_FAILED

datatype day_status = BD_PENDING | BD_RUNNING | BD_COMPLETED | BD_FAILED | BD_WAITING_CONFIG

record backfill_day =
  bd_date :: int
  bd_status :: day_status
  bd_runtime_run_id :: "string option"
  bd_message :: "string option"
  bd_updated_at :: datetime

record workflow_run =
  wr_dag_id :: string
  wr_dag_run_id :: string
  wr_task_id :: string
  wr_map_index :: "int option"
  wr_correlation_id :: string

record backfill_run =
  bf_id :: uuid
  bf_partner :: string
  bf_fetch_config_id :: uuid
  bf_status :: backfill_status
  bf_from :: int
  bf_to :: int
  bf_current :: "int option"
  bf_completed_days :: nat
  bf_total_days :: nat
  bf_config_version :: "string option"
  bf_mapping_version :: "string option"
  bf_approval_required :: bool
  bf_approval_packet :: "uuid option option"
  bf_workflow :: "workflow_run option"
  bf_days :: "backfill_day list"
  bf_triggered_by :: "string option"
  bf_created_at :: datetime
  bf_updated_at :: datetime

type_synonym backfill_store = "backfill_run list"

text \<open>\<open>bf_approval_packet\<close> is the approval context, when there is one, with the packet it names.\<close>

section \<open>Repository\<close>

definition find_backfill :: "uuid \<Rightarrow> backfill_store \<Rightarrow> backfill_run option" where
  "find_backfill bid bs = List.find (\<lambda>b. bf_id b = bid) bs"

definition find_latest_active :: "string \<Rightarrow> backfill_store \<Rightarrow> backfill_run option" where
  "find_latest_active partner bs =
     List.find (\<lambda>b. bf_partner b = partner \<and> bf_status b \<noteq> BF_COMPLETED)
       (sort_key (\<lambda>b. - bf_updated_at b) (sort_key (\<lambda>b. - bf_created_at b) bs))"

definition update_backfill :: "datetime \<Rightarrow> uuid \<Rightarrow> (backfill_run \<Rightarrow> backfill_run) \<Rightarrow> backfill_store \<Rightarrow> backfill_store"
  where
  "update_backfill now bid f bs =
     update_first (\<lambda>b. bf_id b = bid) (\<lambda>b. (f b)\<lparr>bf_updated_at := now\<rparr>) bs"

text \<open>
  The filter of \<open>claim_day\<close> has two conditions on the array \<open>days\<close>; each may be met by a day of its
  own, and the positional operator then updates a day that meets one of them. Which one is the
  choice \<open>pick\<close> of the database among the two.
\<close>

definition open_day :: "backfill_day \<Rightarrow> bool" where
  "open_day d \<longleftrightarrow> bd_status d = BD_PENDING \<or> bd_status d = BD_WAITING_CONFIG"

fun first_index :: "('a \<Rightarrow> bool) \<Rightarrow> 'a list \<Rightarrow> nat option" where
  "first_index p [] = None"
| "first_index p (x # xs) = (if p x then Some 0 else map_option Suc (first_index p xs))"

definition claim_position :: "bool \<Rightarrow> int \<Rightarrow> backfill_day list \<Rightarrow> nat option" where
  "claim_position pick date ds =
     (case (first_index (\<lambda>d. bd_date d = date) ds, first_index open_day ds) of
        (Some i, Some j) \<Rightarrow> Some (if pick then i else j)
      | _ \<Rightarrow> None)"

definition claim_update :: "datetime \<Rightarrow> bool \<Rightarrow> int \<Rightarrow> backfill_run \<Rightarrow> backfill_run" where
  "claim_update now pick date b =
     (case claim_position pick date (bf_days b) of
        None \<Rightarrow> b
      | Some i \<Rightarrow>
          b\<lparr>bf_current := Some date, bf_updated_at := now,
            bf_days := (bf_days b)[i := (bf_days b ! i)\<lparr>bd_status := BD_RUNNING, bd_updated_at := now\<rparr>]\<rparr>)"

definition claim_day :: "datetime \<Rightarrow> bool \<Rightarrow> uuid \<Rightarrow> int \<Rightarrow> backfill_store \<Rightarrow> bool \<times> backfill_store" where
  "claim_day now pick bid date bs =
     update_doc (\<lambda>b. bf_id b = bid \<and> claim_position pick date (bf_days b) \<noteq> None)
       (claim_update now pick date) bs"

text \<open>\<open>update_day\<close> has one condition on the array.\<close>

definition set_day :: "datetime \<Rightarrow> int \<Rightarrow> (backfill_day \<Rightarrow> backfill_day) \<Rightarrow> backfill_run \<Rightarrow> backfill_run" where
  "set_day now date f b =
     (case first_index (\<lambda>d. bd_date d = date) (bf_days b) of
        None \<Rightarrow> b
      | Some i \<Rightarrow>
          b\<lparr>bf_updated_at := now, bf_days := (bf_days b)[i := (f (bf_days b ! i))\<lparr>bd_updated_at := now\<rparr>]\<rparr>)"

definition update_day ::
  "datetime \<Rightarrow> uuid \<Rightarrow> int \<Rightarrow> (backfill_day \<Rightarrow> backfill_day) \<Rightarrow> backfill_store \<Rightarrow> backfill_store" where
  "update_day now bid date f bs = update_first (\<lambda>b. bf_id b = bid) (set_day now date f) bs"

section \<open>Starting\<close>

record fetch_job =
  fj_id :: uuid
  fj_partner :: string
  fj_enabled :: bool
  fj_updated_at :: string

record backfill_command =
  bc_run_id :: uuid
  bc_fetch_config_id :: uuid
  bc_partner :: string
  bc_config_version :: string
  bc_mapping_version :: "string option"
  bc_runtime_run_id :: string
  bc_from :: int
  bc_to :: int

datatype submission_state = SB_SUBMITTED | SB_ALREADY_EXISTS | SB_RETRIED

record submission =
  sb_workflow_id :: string
  sb_workflow_run_id :: string
  sb_state :: submission_state

datatype gateway_answer = GA_Conflict | GA_Unavailable | GA_Submitted submission

text \<open>
  What the service calls: the workflow provider, the state of a task and its retry (\<^const>\<open>None\<close> for
  an exception), the approved mapping version of a partner and the finder that attaches a pending
  packet.
\<close>

record backfill_env =
  be_now :: datetime
  be_trigger :: "backfill_command \<Rightarrow> gateway_answer"
  be_task_state :: "string \<Rightarrow> string \<Rightarrow> int \<Rightarrow> string option"
  be_retry :: "string \<Rightarrow> string \<Rightarrow> int \<Rightarrow> gateway_answer"
  be_version :: "string \<Rightarrow> string option"
  be_packet :: "string \<Rightarrow> uuid \<Rightarrow> uuid option"
  be_date_text :: "int \<Rightarrow> string"

definition correlation_of :: "backfill_run \<Rightarrow> string" where
  "correlation_of b = ''backfill:'' @ bf_id b"

definition command_for_run ::
  "backfill_run \<Rightarrow> fetch_job \<Rightarrow> string option \<Rightarrow> string \<Rightarrow> backfill_command" where
  "command_for_run b j version run =
     \<lparr>bc_run_id = bf_id b, bc_fetch_config_id = fj_id j, bc_partner = bf_partner b,
      bc_config_version = fj_updated_at j, bc_mapping_version = version, bc_runtime_run_id = run,
      bc_from = bf_from b, bc_to = bf_to b\<rparr>"

definition workflow_of :: "backfill_run \<Rightarrow> submission \<Rightarrow> workflow_run" where
  "workflow_of b s =
     \<lparr>wr_dag_id = sb_workflow_id s, wr_dag_run_id = sb_workflow_run_id s, wr_task_id = ''run_stream'',
      wr_map_index = None, wr_correlation_id = correlation_of b\<rparr>"

definition find_job :: "uuid option \<Rightarrow> string \<Rightarrow> fetch_job list \<Rightarrow> fetch_job option" where
  "find_job fid partner js =
     (case str_or fid None of
        Some i \<Rightarrow> List.find (\<lambda>j. fj_id j = i) js
      | None \<Rightarrow> List.find (\<lambda>j. fj_partner j = partner) js)"

definition new_backfill ::
  "backfill_env \<Rightarrow> uuid \<Rightarrow> string \<Rightarrow> string \<Rightarrow> int \<Rightarrow> int \<Rightarrow> int list \<Rightarrow> fetch_job \<Rightarrow> backfill_run" where
  "new_backfill E bid partner actor from_date to_date ds j =
     (let version = be_version E partner
      in \<lparr>bf_id = bid, bf_partner = partner, bf_fetch_config_id = fj_id j,
          bf_status = (if version = None then BF_WAITING_CONFIG else BF_QUEUED),
          bf_from = from_date, bf_to = to_date, bf_current = Some (hd ds), bf_completed_days = 0,
          bf_total_days = length ds, bf_config_version = Some (fj_updated_at j),
          bf_mapping_version = version, bf_approval_required = (version = None),
          bf_approval_packet = (if version = None then Some None else None), bf_workflow = None,
          bf_days = map (\<lambda>d. \<lparr>bd_date = d, bd_status = BD_PENDING, bd_runtime_run_id = None,
                               bd_message = None, bd_updated_at = be_now E\<rparr>) ds,
          bf_triggered_by = Some actor, bf_created_at = be_now E, bf_updated_at = be_now E\<rparr>)"

definition backfill_status_text :: "backfill_status \<Rightarrow> string" where
  "backfill_status_text s =
     (case s of BF_WAITING_CONFIG \<Rightarrow> ''WAITING_CONFIG'' | BF_QUEUED \<Rightarrow> ''QUEUED''
      | BF_RUNNING \<Rightarrow> ''RUNNING'' | BF_COMPLETED \<Rightarrow> ''COMPLETED'' | BF_FAILED \<Rightarrow> ''FAILED'')"

definition active_conflict :: "backfill_env \<Rightarrow> backfill_run \<Rightarrow> backfill_error" where
  "active_conflict E b =
     BE_Conflict (''An active backfill is already '' @ backfill_status_text (bf_status b) @ '' at '' @
       (case bf_current b of Some d \<Rightarrow> be_date_text E d | None \<Rightarrow> ''the current checkpoint'') @
       ''; resume that run instead of creating another.'')"

definition submit_backfill ::
  "backfill_env \<Rightarrow> backfill_run \<Rightarrow> fetch_job \<Rightarrow> backfill_store
     \<Rightarrow> (backfill_error + backfill_run) \<times> backfill_store" where
  "submit_backfill E b j bs =
     (let fail = update_backfill (be_now E) (bf_id b) (\<lambda>b. b\<lparr>bf_status := BF_FAILED\<rparr>) bs
      in case be_trigger E (command_for_run b j (bf_mapping_version b) (bf_id b)) of
           GA_Conflict \<Rightarrow> (Inl (BE_Conflict ''Workflow run ID collision.''), fail)
         | GA_Unavailable \<Rightarrow> (Inl (BE_Unavailable ''Workflow orchestration is unavailable.''), fail)
         | GA_Submitted s \<Rightarrow>
             (let f = (\<lambda>b. b\<lparr>bf_workflow := Some (workflow_of b s)\<rparr>)
              in (Inr (f b), update_backfill (be_now E) (bf_id b) f bs)))"

definition create_backfill ::
  "backfill_env \<Rightarrow> backfill_run \<Rightarrow> fetch_job \<Rightarrow> backfill_store
     \<Rightarrow> (backfill_error + backfill_run) \<times> backfill_store" where
  "create_backfill E b j bs =
     (let bs = bs @ [b]
      in if bf_approval_required b
         then (case str_or (be_packet E (bf_partner b) (bf_id b)) None of
                 None \<Rightarrow> (Inr b, bs)
               | Some p \<Rightarrow>
                   (let f = (\<lambda>b. b\<lparr>bf_approval_packet := Some (Some p)\<rparr>)
                    in (Inr (f b), update_backfill (be_now E) (bf_id b) f bs)))
         else submit_backfill E b j bs)"

definition start_backfill ::
  "backfill_env \<Rightarrow> fetch_job list \<Rightarrow> uuid \<Rightarrow> string \<Rightarrow> string \<Rightarrow> int \<Rightarrow> int \<Rightarrow> uuid option
     \<Rightarrow> backfill_store \<Rightarrow> (backfill_error + backfill_run) \<times> backfill_store" where
  "start_backfill E js bid partner actor from_date to_date fid bs =
     (case expand_business_dates from_date to_date of
        Inl e \<Rightarrow> (Inl e, bs)
      | Inr ds \<Rightarrow>
          (case find_job fid partner js of
             None \<Rightarrow> (Inl (BE_Not_Found ''Automation job not found for partner.''), bs)
           | Some j \<Rightarrow>
               if fj_partner j \<noteq> partner
               then (Inl (BE_Not_Found ''Automation job not found for partner.''), bs)
               else if \<not> fj_enabled j then (Inl (BE_Validation ''Automation job is disabled.''), bs)
               else (case find_latest_active partner bs of
                       Some b \<Rightarrow>
                         if bf_from b = from_date \<and> bf_to b = to_date then (Inr b, bs)
                         else (Inl (active_conflict E b), bs)
                     | None \<Rightarrow>
                         create_backfill E (new_backfill E bid partner actor from_date to_date ds j) j bs)))"

end
