(* ===== verification/MappingApproval.thy ===== *)
theory MappingApproval
  imports ReviewPackets IngestionRun Runtime CheckpointOps Backfill
begin

text \<open>
  The transitions of a mapping configuration: \<open>src/src/application/mapping/service.py\<close>, over the
  collections that the approval desk, the ingestion and the reconciliation share. The cache of insights it invalidates holds only texts for
  the user interface and is left out.
\<close>

section \<open>The collections\<close>

text \<open>\<open>rw_scheduled\<close> are the background tasks that were handed to the event loop: run, packet, configuration.\<close>

record review_world =
  rw_ingest :: ingest_world
  rw_results :: result_table
  rw_counters :: "string \<Rightarrow> int option"
  rw_packets :: packet_store
  rw_actions :: action_store
  rw_posts :: post_store
  rw_runtime :: runtime_store
  rw_checkpoints :: ckpt_db
  rw_backfills :: backfill_store
  rw_audit :: "audit_record list"
  rw_scheduled :: "(uuid \<times> uuid \<times> uuid) list"

definition rw_configs :: "review_world \<Rightarrow> config_store" where
  "rw_configs w = iw_configs (rw_ingest w)"

definition put_configs :: "config_store \<Rightarrow> review_world \<Rightarrow> review_world" where
  "put_configs cs w = w\<lparr>rw_ingest := (rw_ingest w)\<lparr>iw_configs := cs\<rparr>\<rparr>"

datatype review_error = RE_Not_Found | RE_Conflict | RE_Validation "string list" | RE_Unavailable

definition find_config :: "uuid \<Rightarrow> config_store \<Rightarrow> mapping_config option" where
  "find_config cid cs = List.find (\<lambda>c. mc_id c = cid) cs"

definition health_of :: "mapping_config \<Rightarrow> pydict" where
  "health_of c = (case mc_health c of None \<Rightarrow> [] | Some h \<Rightarrow> h)"

section \<open>Approving, rejecting and saving\<close>

definition mapping_reference :: "mapping_config \<Rightarrow> string" where
  "mapping_reference c = (case str_or (mc_version c) None of Some v \<Rightarrow> v | None \<Rightarrow> mc_id c)"

definition config_status_text :: "config_status \<Rightarrow> string" where
  "config_status_text s =
     (case s of CS_APPROVED \<Rightarrow> ''APPROVED'' | CS_PENDING_APPROVAL \<Rightarrow> ''PENDING_APPROVAL''
      | CS_REJECTED \<Rightarrow> ''REJECTED'' | CS_SUPERSEDED \<Rightarrow> ''SUPERSEDED'')"

definition mapping_audit :: "mapping_config \<Rightarrow> config_status \<Rightarrow> string \<Rightarrow> string option \<Rightarrow> audit_record" where
  "mapping_audit c st action actor =
     \<lparr>ar_entity_type = ''MAPPING_CONFIG'', ar_entity_id = mc_id c, ar_action = action, ar_actor = actor,
      ar_metadata =
        [(''partner'', VStr (mc_partner c)), (''reference'', VStr (mapping_reference c)),
         (''mappingVersion'', VStr (mapping_reference c)), (''status'', VStr (config_status_text st))]\<rparr>"

definition put_optional :: "string \<Rightarrow> pyval option \<Rightarrow> pydict \<Rightarrow> pydict" where
  "put_optional k v d = (case v of None \<Rightarrow> d | Some x \<Rightarrow> dput d k x)"

definition approved_health ::
  "datetime \<Rightarrow> pyval option \<Rightarrow> pyval option \<Rightarrow> mapping_config \<Rightarrow> pydict" where
  "approved_health now confidence reasoning c =
     put_optional ''reasoning'' reasoning
       (put_optional ''confidence'' confidence
         (dput (dput (dput (health_of c) ''stale'' (VBool False))
            ''status'' (VStr ''APPROVED'')) ''approvedAt'' (VTime now)))"

text \<open>Superseding the approved configuration of the same partner, workflow and file type.\<close>

definition supersede_current :: "datetime \<Rightarrow> mapping_config \<Rightarrow> config_store \<Rightarrow> config_store" where
  "supersede_current now c cs =
     (case find_by_partner_and_type (mc_partner c) (mc_workflow_type c) (mc_file_type c) cs of
        None \<Rightarrow> cs
      | Some d \<Rightarrow> snd (mark_superseded (mc_id d) (mc_id c) now cs))"

definition activate_config ::
  "datetime \<Rightarrow> string option \<Rightarrow> pydict \<Rightarrow> mapping_config \<Rightarrow> config_store \<Rightarrow> config_store" where
  "activate_config now actor health c cs =
     snd (mark_approved (mc_id c) now actor health (supersede_current now c cs))"

definition sync_packets :: "uuid \<Rightarrow> packet_status \<Rightarrow> datetime \<Rightarrow> packet_store \<Rightarrow> packet_store" where
  "sync_packets cid st now ps = snd (sync_packet_status cid st now ps)"

definition approve_mapping ::
  "datetime \<Rightarrow> uuid \<Rightarrow> string option \<Rightarrow> pyval option \<Rightarrow> pyval option \<Rightarrow> review_world
     \<Rightarrow> (review_error + mapping_config) \<times> review_world" where
  "approve_mapping now cid actor confidence reasoning w =
     (case find_config cid (rw_configs w) of
        None \<Rightarrow> (Inl RE_Not_Found, w)
      | Some c \<Rightarrow>
          if mc_status c \<noteq> CS_PENDING_APPROVAL then (Inl RE_Conflict, w)
          else
            (let health = approved_health now confidence reasoning c
             in (Inr (c\<lparr>mc_status := CS_APPROVED, mc_approved_at := Some now, mc_approved_by := actor,
                        mc_health := Some health\<rparr>),
                 (put_configs (activate_config now actor health c (rw_configs w)) w)
                  \<lparr>rw_actions := snd (sync_actions cid CA_APPROVED actor now (rw_actions w)),
                   rw_packets := sync_packets cid RK_APPROVED now (rw_packets w),
                   rw_audit := snd (record_audit_event (mapping_audit c CS_APPROVED ''APPROVED'' actor)
                                      (rw_audit w))\<rparr>)))"

definition reject_mapping ::
  "datetime \<Rightarrow> uuid \<Rightarrow> string option \<Rightarrow> review_world
     \<Rightarrow> (review_error + mapping_config) \<times> review_world" where
  "reject_mapping now cid actor w =
     (case find_config cid (rw_configs w) of
        None \<Rightarrow> (Inl RE_Not_Found, w)
      | Some c \<Rightarrow>
          if mc_status c \<noteq> CS_PENDING_APPROVAL then (Inl RE_Conflict, w)
          else
            (let health = dput (health_of c) ''status'' (VStr ''REJECTED'')
             in (Inr (c\<lparr>mc_status := CS_REJECTED, mc_health := Some health\<rparr>),
                 (put_configs (snd (mark_rejected cid health (rw_configs w))) w)
                  \<lparr>rw_actions := snd (sync_actions cid CA_REJECTED actor now (rw_actions w)),
                   rw_packets := sync_packets cid RK_REJECTED now (rw_packets w),
                   rw_audit := snd (record_audit_event (mapping_audit c CS_REJECTED ''REJECTED'' actor)
                                      (rw_audit w))\<rparr>)))"

definition placeholder_versions :: "string list" where
  "placeholder_versions = [''v_manual'', ''v_ai_generated'', ''latest'']"

definition needs_version :: "mapping_config \<Rightarrow> bool" where
  "needs_version c \<longleftrightarrow>
     \<not> str_truthy (mc_version c) \<or> mc_version c \<in> Some ` set placeholder_versions"

definition saved_health :: "datetime \<Rightarrow> pydict" where
  "saved_health now =
     [(''stale'', VBool False), (''status'', VStr ''APPROVED''), (''approvedAt'', VTime now),
      (''confidence'', VFloat ''1.0''), (''reasoning'', VStr ''Manually saved by administrator.'')]"

text \<open>An administrator's mapping takes the place of the approved one, under its id, or is inserted.\<close>

definition save_mapping ::
  "datetime \<Rightarrow> mapping_config \<Rightarrow> string option \<Rightarrow> review_world \<Rightarrow> mapping_config \<times> review_world" where
  "save_mapping now c actor w =
     (let cs = rw_configs w;
          existing = find_by_partner_and_type (mc_partner c) (mc_workflow_type c) (mc_file_type c) cs;
          (version, counters) =
            (if needs_version c
             then (case allocate_next_version (mc_partner c) cs (rw_counters w) of
                     (v, counters) \<Rightarrow> (Some v, counters))
             else (mc_version c, rw_counters w));
          c = c\<lparr>mc_version := version, mc_status := CS_APPROVED, mc_approved_at := Some now,
                mc_approved_by := actor, mc_health := Some (saved_health now)\<rparr>
      in case existing of
           Some d \<Rightarrow>
             (c\<lparr>mc_id := mc_id d\<rparr>,
              (put_configs (replace_approved (c\<lparr>mc_id := mc_id d\<rparr>) cs) w)\<lparr>rw_counters := counters\<rparr>)
         | None \<Rightarrow> (c, (put_configs (insert_approved c cs) w)\<lparr>rw_counters := counters\<rparr>))"

end
