(* ===== verification/PostApproval.thy ===== *)
theory PostApproval
  imports MappingApproval
begin

text \<open>
  The replay of an approved review packet:
  \<open>src/src/application/review/post_approval_reconciliation.py\<close>, with the source path of
  \<open>src/src/application/review/raw_stream.py\<close>. A packet's file is cleared, ingested again with the
  approved mapping, held while quarantine records are open, and reconciled.
\<close>

section \<open>Calls that may raise\<close>

text \<open>An operation on the collections ends with a value or with the text of an exception.\<close>

type_synonym 'a call = "review_world \<Rightarrow> (string + 'a) \<times> review_world"

definition pass :: "'a \<Rightarrow> 'a call" where
  "pass x w = (Inr x, w)"

definition raises :: "string \<Rightarrow> 'a call" where
  "raises e w = (Inl e, w)"

definition chain :: "'a call \<Rightarrow> ('a \<Rightarrow> 'b call) \<Rightarrow> 'b call" where
  "chain m f w = (case m w of (Inl e, w') \<Rightarrow> (Inl e, w') | (Inr x, w') \<Rightarrow> f x w')"

text \<open>A write, and the exception that takes its place.\<close>

definition write_or :: "string option \<Rightarrow> (review_world \<Rightarrow> review_world) \<Rightarrow> unit call" where
  "write_or fault g w = (case fault of Some e \<Rightarrow> (Inl e, w) | None \<Rightarrow> (Inr (), g w))"

text \<open>A write whose exception is swallowed.\<close>

definition best_effort :: "bool \<Rightarrow> (review_world \<Rightarrow> review_world) \<Rightarrow> unit call" where
  "best_effort fails g w = (Inr (), if fails then w else g w)"

section \<open>Updates of a run\<close>

record post_update =
  pu_status :: "post_status option"
  pu_stage :: "post_stage option"
  pu_message :: "string option"
  pu_started_at :: "datetime option"
  pu_finished_at :: "datetime option"
  pu_source_file_id :: "uuid option"
  pu_output_file_id :: "uuid option"
  pu_count :: "int option"
  pu_stats :: "pydict option"
  pu_errors :: "pyval list option"
  pu_gate_status :: "batch_gate option"
  pu_gate_summary :: "pydict option"

definition no_post_update :: post_update where
  "no_post_update =
     \<lparr>pu_status = None, pu_stage = None, pu_message = None, pu_started_at = None,
      pu_finished_at = None, pu_source_file_id = None, pu_output_file_id = None, pu_count = None,
      pu_stats = None, pu_errors = None, pu_gate_status = None, pu_gate_summary = None\<rparr>"

definition apply_post_update :: "datetime \<Rightarrow> post_update \<Rightarrow> post_run \<Rightarrow> post_run" where
  "apply_post_update now u r =
     r\<lparr>po_updated_at := now,
       po_status := keep (pu_status u) (po_status r),
       po_stage := keep (pu_stage u) (po_stage r),
       po_message := keep_null (pu_message u) (po_message r),
       po_started_at := keep_null (pu_started_at u) (po_started_at r),
       po_finished_at := keep_null (pu_finished_at u) (po_finished_at r),
       po_source_file_id := keep_null (pu_source_file_id u) (po_source_file_id r),
       po_output_file_id := keep_null (pu_output_file_id u) (po_output_file_id r),
       po_count := keep_null (pu_count u) (po_count r),
       po_stats := keep (pu_stats u) (po_stats r),
       po_errors := keep (pu_errors u) (po_errors r),
       po_gate_status := keep (pu_gate_status u) (po_gate_status r),
       po_gate_summary := keep (pu_gate_summary u) (po_gate_summary r)\<rparr>"

definition update_post_run :: "datetime \<Rightarrow> uuid \<Rightarrow> post_update \<Rightarrow> review_world \<Rightarrow> review_world" where
  "update_post_run now rid u w =
     w\<lparr>rw_posts := update_first (\<lambda>r. po_id r = rid) (apply_post_update now u) (rw_posts w)\<rparr>"

definition post_state :: "post_status \<Rightarrow> post_stage \<Rightarrow> string \<Rightarrow> post_update" where
  "post_state st stage msg =
     no_post_update\<lparr>pu_status := Some st, pu_stage := Some stage, pu_message := Some msg\<rparr>"

section \<open>Environment and faults\<close>

text \<open>
  \<open>pv_event\<close> is the attempt event that \<open>runtime_attempt_event\<close> formats; \<open>pv_staged\<close> the replay of a
  staged stream (\<open>staged_page_replay.py\<close>), which answers with a result or with nothing;
  \<open>pv_pick\<close> the checkpoint document that a query by file and runtime run returns.
\<close>

record replay_result =
  xr_ok :: bool
  xr_outcome :: string
  xr_waiting :: bool
  xr_file_id :: uuid
  xr_gate :: "batch_gate option"
  xr_count :: "int option"

record post_env =
  pv_ingest :: ingest_env
  pv_rec :: rec_env
  pv_ids :: "nat \<Rightarrow> uuid"
  pv_exec_error :: "exec_error \<Rightarrow> string"
  pv_now :: datetime
  pv_runtime_id :: uuid
  pv_is_file :: "string \<Rightarrow> bool"
  pv_cwd :: string
  pv_date_error :: string
  pv_uuid_error :: string
  pv_event :: "runtime_status \<Rightarrow> string \<Rightarrow> pydict \<Rightarrow> pydict"
  pv_staged :: "review_packet \<Rightarrow> mapping_config \<Rightarrow> uuid \<Rightarrow> uuid \<Rightarrow> replay_result option call"
  pv_pick :: "(checkpoint \<Rightarrow> bool) \<Rightarrow> ckpt_db \<Rightarrow> checkpoint option"

record post_faults =
  pf_create :: "string option"
  pf_report :: "string option"
  pf_delete_rows :: "string option"
  pf_delete_results :: "string option"
  pf_delete_file :: "string option"
  pf_ingesting :: "string option"
  pf_rebind :: "string option"
  pf_gate :: "string option"
  pf_packet_gate :: "string option"
  pf_scope :: "string option"
  pf_reconciling :: "string option"
  pf_reconcile :: "string option"
  pf_counted :: "string option"
  pf_invalidate :: "string option"
  pf_completed :: "string option"
  pf_observe :: bool
  pf_pipeline :: ingest_faults

definition report :: "post_env \<Rightarrow> string option \<Rightarrow> uuid \<Rightarrow> post_update \<Rightarrow> unit call" where
  "report v fault rid u = write_or fault (update_post_run (pv_now v) rid u)"

definition finished :: "post_env \<Rightarrow> post_update \<Rightarrow> post_update" where
  "finished v u = u\<lparr>pu_finished_at := Some (pv_now v)\<rparr>"

section \<open>The runtime projection\<close>

definition safe_text :: "post_env \<Rightarrow> string \<Rightarrow> string" where
  "safe_text v s = sanitize_runtime_error (re_redact (ie_run (pv_ingest v))) s 220"

text \<open>\<open>_update_runtime_observation\<close>: an update with its attempt event that never raises.\<close>

definition observe_update :: "post_env \<Rightarrow> runtime_status \<Rightarrow> string \<Rightarrow> pydict \<Rightarrow> run_update \<Rightarrow> run_update" where
  "observe_update v st msg summary u =
     u\<lparr>ru_status := Some st, ru_message := Some (safe_text v msg), ru_stage_summary := Some summary,
       ru_attempt_event := Some (pv_event v st (safe_text v msg) summary)\<rparr>"

definition observe_run ::
  "post_env \<Rightarrow> post_faults \<Rightarrow> uuid \<Rightarrow> runtime_status \<Rightarrow> string \<Rightarrow> pydict \<Rightarrow> run_update \<Rightarrow> unit call" where
  "observe_run v f run st msg summary u =
     best_effort (pf_observe f)
       (\<lambda>w. w\<lparr>rw_runtime := update_runtime_run (pv_now v) run (observe_update v st msg summary u)
                             (rw_runtime w)\<rparr>)"

definition ended :: "post_env \<Rightarrow> run_update \<Rightarrow> run_update" where
  "ended v u = u\<lparr>ru_finished_at := Some (pv_now v)\<rparr>"

section \<open>Source files\<close>

text \<open>\<open>_candidate_source_paths\<close> of an absolute or relative path without redundant separators.\<close>

definition moved_path :: "string \<Rightarrow> string \<Rightarrow> string \<Rightarrow> string list" where
  "moved_path src dst p =
     (if p = src \<or> starts_with (src @ ''/'') p then [dst @ drop (length src) p] else [])"

definition candidate_source_paths :: "string \<Rightarrow> string \<Rightarrow> string list" where
  "candidate_source_paths cwd p =
     (if starts_with ''/'' p
      then p # moved_path ''/opt/airflow/app'' ''/app'' p @ moved_path ''/app'' ''/opt/airflow/app'' p
      else [p, cwd @ ''/'' @ p, ''/app/'' @ p, ''/opt/airflow/app/'' @ p])"

definition resolve_review_source_file :: "post_env \<Rightarrow> string \<Rightarrow> string option" where
  "resolve_review_source_file v p = List.find (pv_is_file v) (candidate_source_paths (pv_cwd v) p)"

definition find_source_record :: "uuid \<Rightarrow> review_world \<Rightarrow> recon_file option" where
  "find_source_record fid w = List.find (\<lambda>f. rf_id f = fid) (iw_files (rw_ingest w))"

definition on_ingest :: "(ingest_world \<Rightarrow> ingest_world) \<Rightarrow> review_world \<Rightarrow> review_world" where
  "on_ingest g w = w\<lparr>rw_ingest := g (rw_ingest w)\<rparr>"

definition delete_by_source_file :: "uuid \<Rightarrow> partner_table \<Rightarrow> partner_table" where
  "delete_by_source_file u t = filter (\<lambda>r. pr_source_file_id r \<noteq> u) t"

definition delete_by_partner_and_date :: "string \<Rightarrow> string \<Rightarrow> result_table \<Rightarrow> result_table" where
  "delete_by_partner_and_date partner date tab = filter (\<lambda>r. \<not> (rr_partner r = partner \<and> rr_date r = date)) tab"

fun delete_file :: "uuid \<Rightarrow> file_table \<Rightarrow> file_table" where
  "delete_file fid [] = []"
| "delete_file fid (f # fs) = (if rf_id f = fid then fs else f # delete_file fid fs)"

definition date_text :: "post_env \<Rightarrow> datetime \<Rightarrow> string" where
  "date_text v d = rn_date_text (pv_rec v) (business_date (rn_zone (pv_rec v)) (DT_Utc d))"

text \<open>The rows of the file and the results of its day go; a file that is not COMPLETED goes too.\<close>

definition clear_previous ::
  "post_env \<Rightarrow> post_faults \<Rightarrow> mapping_config \<Rightarrow> recon_file \<Rightarrow> unit call" where
  "clear_previous v f c file =
     chain (case parse_uuid (rf_id file) of
              None \<Rightarrow> raises (pv_uuid_error v)
            | Some u \<Rightarrow>
                write_or (pf_delete_rows f)
                  (on_ingest (\<lambda>iw. iw\<lparr>iw_partner := delete_by_source_file u (iw_partner iw)\<rparr>)))
       (\<lambda>_. chain (write_or (pf_delete_results f)
                (\<lambda>w. w\<lparr>rw_results := delete_by_partner_and_date (mc_partner c) (date_text v (rf_date file))
                                       (rw_results w)\<rparr>))
          (\<lambda>_. if rf_status file \<noteq> PS_COMPLETED
               then write_or (pf_delete_file f)
                      (on_ingest (\<lambda>iw. iw\<lparr>iw_files := delete_file (rf_id file) (iw_files iw)\<rparr>))
               else pass ()))"

section \<open>The ingestion of the packet's file\<close>

definition version_of :: "mapping_config \<Rightarrow> string" where
  "version_of c = mapping_reference c"

definition replay_metadata :: "post_env \<Rightarrow> review_packet \<Rightarrow> uuid \<Rightarrow> recon_file \<Rightarrow> pydict" where
  "replay_metadata v p rid file =
     [(''sourceEndpoint'', VStr (''review://'' @ rf_id file)), (''sourceFileId'', VStr (rf_id file)),
      (''cursor'', VStr (''post-approval:'' @ rid)), (''reviewPacketId'', VStr (rk_id p)),
      (''postApprovalRunId'', VStr rid), (''sourceUnitKey'', text_value (rf_fetch_unit_key file)),
      (''page'', VInt 1),
      (''windowStart'', VStr (re_iso (ie_run (pv_ingest v)) (rf_date file))),
      (''windowEnd'', VStr (re_iso (ie_run (pv_ingest v)) (rf_date file)))]"

definition replay_command ::
  "post_env \<Rightarrow> review_packet \<Rightarrow> mapping_config \<Rightarrow> uuid \<Rightarrow> uuid \<Rightarrow> string \<Rightarrow> recon_file \<Rightarrow> process_command" where
  "replay_command v p c rid run path file =
     \<lparr>pf_path = path, pf_partner = mc_partner c, pf_workflow_type = mc_workflow_type c,
      pf_file_type = mc_file_type c, pf_date = rf_date file, pf_version = mc_version c,
      pf_backfill = None, pf_metadata = Some (replay_metadata v p rid file), pf_check = False,
      pf_run_id = Some run, pf_attempt = 1\<rparr>"

text \<open>The pipeline is built anew, with an empty cache and the fast row processor.\<close>

definition replay_file ::
  "post_env \<Rightarrow> post_faults \<Rightarrow> process_command \<Rightarrow> ingestion_result call" where
  "replay_file v f cmd w =
     (let iw = rw_ingest w;
          (r, iw') = process_file ((pv_ingest v)\<lparr>ie_fast := True\<rparr>) (pf_pipeline f) cmd
                       (iw\<lparr>iw_cache := (\<lambda>_. None)\<rparr>)
      in (Inr r, w\<lparr>rw_ingest := iw'\<lparr>iw_cache := iw_cache iw\<rparr>\<rparr>))"

definition replacement_keys :: "ingestion_result \<Rightarrow> string list" where
  "replacement_keys r = filter (\<lambda>k. k \<noteq> []) (map py_strip (ir_ingestion_keys r))"

definition rebind_by_ingestion_keys ::
  "string \<Rightarrow> string list \<Rightarrow> uuid \<Rightarrow> partner_table \<Rightarrow> partner_table" where
  "rebind_by_ingestion_keys identify ks u t =
     map (\<lambda>r. if pr_identify r = identify \<and> pr_ingestion_key r \<in> set ks
              then r\<lparr>pr_source_file_id := u\<rparr> else r) t"

definition rebind_replacement_transactions ::
  "post_env \<Rightarrow> post_faults \<Rightarrow> review_packet \<Rightarrow> mapping_config \<Rightarrow> ingestion_result \<Rightarrow> uuid \<Rightarrow> unit call" where
  "rebind_replacement_transactions v f p c r fid =
     (if rk_scope p \<noteq> Some SC_REPLACEMENT \<or> replacement_keys r = [] then pass ()
      else case parse_uuid fid of
             None \<Rightarrow> raises (pv_uuid_error v)
           | Some u \<Rightarrow>
               write_or (pf_rebind f)
                 (on_ingest (\<lambda>iw. iw\<lparr>iw_partner :=
                    rebind_by_ingestion_keys (mc_partner c) (replacement_keys r) u (iw_partner iw)\<rparr>)))"

section \<open>Quality gates\<close>

definition batch_fatal_summary :: "ingestion_result \<Rightarrow> pydict option" where
  "batch_fatal_summary r =
     (if ir_decision r = QD_FAIL \<or>
         0 < cget (qm_outcome_counts (ir_summary r)) (outcome_value QO_BATCH_FATAL)
      then Some [(''outcome'', VStr ''BATCH_FATAL''),
                 (''errorCodes'', VList (map VStr (take 10 (qm_top_rule_codes (ir_summary r))))),
                 (''totalRows'', VInt (int (ps_total_rows (ir_stats r)))),
                 (''failedRows'', VInt (int (ps_failed_rows (ir_stats r)))),
                 (''activeRows'', VInt 0)]
      else None)"

definition quarantine_docs :: "review_world \<Rightarrow> q_store" where
  "quarantine_docs w = (case iw_quarantine (rw_ingest w) of None \<Rightarrow> [] | Some q \<Rightarrow> q)"

definition active_record :: "q_doc \<Rightarrow> bool" where
  "active_record d \<longleftrightarrow> qd_status d = Q_PENDING \<or> qd_status d = Q_REPROCESSING"

text \<open>The records of the run, or of the file when the run has none.\<close>

definition gate_records :: "uuid \<Rightarrow> uuid option \<Rightarrow> q_store \<Rightarrow> q_store" where
  "gate_records rid file q =
     (let own = filter (\<lambda>d. qd_post_approval_run_id d = Some rid) q
      in if own = [] \<and> str_truthy file
         then filter (\<lambda>d. Some (qd_source_file_id d) = file) q else own)"

definition count_records :: "(q_doc \<Rightarrow> bool) \<Rightarrow> q_store \<Rightarrow> pyval" where
  "count_records p q = VInt (int (length (filter p q)))"

definition gate_counts :: "datetime \<Rightarrow> q_store \<Rightarrow> pydict" where
  "gate_counts now q =
     [(''totalRows'', count_records (\<lambda>_. True) q),
      (''pendingRows'', count_records (\<lambda>d. qd_status d = Q_PENDING) q),
      (''reprocessingRows'', count_records (\<lambda>d. qd_status d = Q_REPROCESSING) q),
      (''resolvedRows'', count_records (\<lambda>d. qd_status d = Q_RESOLVED) q),
      (''rejectedRows'', count_records (\<lambda>d. qd_status d = Q_REJECTED) q),
      (''overdueRows'', count_records (\<lambda>d. active_record d \<and>
          (case qd_review_due_at d of None \<Rightarrow> False | Some t \<Rightarrow> t \<le> now)) q),
      (''highPriorityRows'', count_records (\<lambda>d. qd_priority d = QPR_HIGH) q),
      (''activeRows'', count_records active_record q)]"

definition quarantine_gate ::
  "post_env \<Rightarrow> uuid \<Rightarrow> uuid option \<Rightarrow> review_world \<Rightarrow> batch_gate \<times> pydict" where
  "quarantine_gate v rid file w =
     (let q = gate_records rid file (quarantine_docs w)
      in (if filter active_record q \<noteq> [] then BG_REVIEW_REQUIRED else BG_PASS, gate_counts (pv_now v) q))"

definition persist_packet_gate ::
  "post_faults \<Rightarrow> uuid \<Rightarrow> uuid \<Rightarrow> batch_gate \<Rightarrow> pydict \<Rightarrow> unit call" where
  "persist_packet_gate f pid rid g summary =
     write_or (pf_packet_gate f)
       (\<lambda>w. w\<lparr>rw_packets := update_packet pid
          (\<lambda>p. p\<lparr>rk_gate_status := g, rk_gate_summary := summary, rk_post_run := Some rid\<rparr>) (rw_packets w)\<rparr>)"

end
