(* ===== verification/PostReplay.thy ===== *)
theory PostReplay
  imports PostApproval
begin

text \<open>
  The operations of \<open>src/src/application/review/post_approval_reconciliation.py\<close>: queueing the
  replay of an approved packet, running it in the background, and going on with a run that waited
  for its quarantine.
\<close>

section \<open>Replaying a packet\<close>

definition stored_file :: "recon_file \<Rightarrow> bool" where
  "stored_file f \<longleftrightarrow> rf_status f = PS_COMPLETED \<or> rf_status f = PS_PARTIAL"

definition replay_outcome :: "recon_file \<Rightarrow> string" where
  "replay_outcome file =
     (if rf_status file = PS_COMPLETED then ''INGESTED''
      else if rf_status file = PS_PARTIAL then ''PARTIAL'' else ''FAILED'')"

definition replay_result_of ::
  "bool \<Rightarrow> bool \<Rightarrow> recon_file \<Rightarrow> batch_gate option \<Rightarrow> int option \<Rightarrow> replay_result" where
  "replay_result_of ok waiting file g n =
     \<lparr>xr_ok = ok, xr_outcome = replay_outcome file, xr_waiting = waiting, xr_file_id = rf_id file,
      xr_gate = g, xr_count = n\<rparr>"

definition replay_stats :: "ingestion_result \<Rightarrow> recon_file \<Rightarrow> pydict" where
  "replay_stats r file =
     [(''totalRows'', VInt (int (ps_total_rows (ir_stats r)))),
      (''successRows'', VInt (int (ps_success_rows (ir_stats r)))),
      (''duplicateRows'', VInt (int (ps_duplicate_rows (ir_stats r)))),
      (''failedRows'', VInt (int (ps_failed_rows (ir_stats r)))),
      (''outcome'', VStr (replay_outcome file)),
      (''qualityCounters'', VDict (map (\<lambda>(k, n). (k, VInt (int n))) (ir_quality_counters r)))]"

definition error_values :: "ingestion_result \<Rightarrow> pyval list" where
  "error_values r = map VDict (ir_errors r)"

text \<open>A packet without a usable source: both projections fail and the replay answers nothing.\<close>

definition unusable_source ::
  "post_env \<Rightarrow> post_faults \<Rightarrow> uuid \<Rightarrow> uuid \<Rightarrow> string \<Rightarrow> replay_result option call" where
  "unusable_source v f rid run msg =
     chain (observe_run v f run RT_FAILED msg [] (ended v no_update))
       (\<lambda>_. chain (report v (pf_report f) rid (finished v (post_state PO_FAILED PG_APPROVAL msg)))
          (\<lambda>_. pass None))"

text \<open>The structure or the rows were refused: the packet's gate fails and nothing is reconciled.\<close>

definition fail_batch ::
  "post_env \<Rightarrow> post_faults \<Rightarrow> review_packet \<Rightarrow> uuid \<Rightarrow> uuid \<Rightarrow> ingestion_result \<Rightarrow> recon_file \<Rightarrow> pydict
     \<Rightarrow> replay_result option call" where
  "fail_batch v f p rid run r file summary =
     (let msg = ''Post-approval quality gate failed before reconciliation.'';
          stats = replay_stats r file @ [(''qualityGate'', VDict summary)]
      in chain (persist_packet_gate f (rk_id p) rid BG_FAIL summary)
           (\<lambda>_. chain (observe_run v f run RT_FAILED msg (rf_stage_summary file)
                         (ended v (no_update\<lparr>ru_source_file_id := Some (rf_id file), ru_stats := Some stats\<rparr>)))
              (\<lambda>_. chain (report v (pf_report f) rid
                            (finished v ((post_state PO_FAILED PG_INGESTION msg)
                               \<lparr>pu_output_file_id := Some (rf_id file), pu_stats := Some stats,
                                pu_errors := Some (error_values r), pu_gate_status := Some BG_FAIL,
                                pu_gate_summary := Some summary\<rparr>)))
                 (\<lambda>_. pass (Some (replay_result_of (stored_file file) False file (Some BG_FAIL) None))))))"

definition fail_ingestion ::
  "post_env \<Rightarrow> post_faults \<Rightarrow> uuid \<Rightarrow> uuid \<Rightarrow> ingestion_result \<Rightarrow> recon_file \<Rightarrow> replay_result option call" where
  "fail_ingestion v f rid run r file =
     (let msg = ''Ingestion failed after approval.''; stats = replay_stats r file
      in chain (observe_run v f run RT_FAILED msg (rf_stage_summary file)
                  (ended v (no_update\<lparr>ru_source_file_id := Some (rf_id file), ru_stats := Some stats\<rparr>)))
           (\<lambda>_. chain (report v (pf_report f) rid
                         (finished v ((post_state PO_FAILED PG_INGESTION msg)
                            \<lparr>pu_output_file_id := Some (rf_id file), pu_stats := Some stats,
                             pu_errors := Some (error_values r)\<rparr>)))
              (\<lambda>_. pass (Some (replay_result_of False False file None None)))))"

definition wait_for_review ::
  "post_env \<Rightarrow> post_faults \<Rightarrow> uuid \<Rightarrow> uuid \<Rightarrow> ingestion_result \<Rightarrow> recon_file \<Rightarrow> pydict
     \<Rightarrow> replay_result option call" where
  "wait_for_review v f rid run r file summary =
     (let n = (case dget summary ''activeRows'' of VInt i \<Rightarrow> i | _ \<Rightarrow> 0);
          msg = int_text n @ '' quarantine record(s) require review before reconciliation.'';
          stats = replay_stats r file @ [(''qualityGate'', VDict summary)]
      in chain (report v (pf_report f) rid
                  ((post_state PO_WAITING_REVIEW PG_INGESTION msg)
                     \<lparr>pu_output_file_id := Some (rf_id file), pu_stats := Some stats,
                      pu_errors := Some (error_values r), pu_gate_status := Some BG_REVIEW_REQUIRED,
                      pu_gate_summary := Some summary\<rparr>))
           (\<lambda>_. chain (observe_run v f run RT_WAITING_REVIEW msg (rf_stage_summary file)
                         (no_update\<lparr>ru_source_file_id := Some (rf_id file), ru_stats := Some stats\<rparr>))
              (\<lambda>_. pass (Some (replay_result_of False True file (Some BG_REVIEW_REQUIRED) None)))))"

section \<open>Reconciling\<close>

definition set_file_scope :: "uuid \<Rightarrow> scope_type \<Rightarrow> file_table \<Rightarrow> file_table" where
  "set_file_scope fid sc fs = update_file fid (\<lambda>g. g\<lparr>rf_scope := (rf_scope g)\<lparr>sd_type := sc\<rparr>\<rparr>) fs"

definition reconcile_file ::
  "post_env \<Rightarrow> string option \<Rightarrow> mapping_config \<Rightarrow> datetime \<Rightarrow> uuid \<Rightarrow> uuid option \<Rightarrow> nat call" where
  "reconcile_file v fault c date fid run w =
     (case fault of
        Some e \<Rightarrow> (Inl e, w)
      | None \<Rightarrow>
          (let iw = rw_ingest w
           in case reconcile (pv_rec v) (file_docs (iw_files iw)) (iw_partner iw)
                     (ie_internal (pv_ingest v)) (pv_ids v) (pv_now v) (mc_partner c) (DT_Utc date)
                     (Some fid) run (Some (version_of c)) (rw_results w) of
                (Inl e, tab) \<Rightarrow> (Inl (pv_exec_error v e), w\<lparr>rw_results := tab\<rparr>)
              | (Inr rs, tab) \<Rightarrow> (Inr (length rs), w\<lparr>rw_results := tab\<rparr>)))"

definition reconcile_replayed ::
  "post_env \<Rightarrow> post_faults \<Rightarrow> review_packet \<Rightarrow> mapping_config \<Rightarrow> uuid \<Rightarrow> uuid \<Rightarrow> datetime
     \<Rightarrow> ingestion_result \<Rightarrow> recon_file \<Rightarrow> pydict \<Rightarrow> replay_result option call" where
  "reconcile_replayed v f p c rid run date r file summary =
     (let fid = rf_id file; stats = replay_stats r file @ [(''qualityGate'', VDict summary)];
          msg = ''Reconciling ingested partner rows against internal transactions.'';
          gate = (\<lambda>u. u\<lparr>pu_output_file_id := Some fid, pu_errors := Some (error_values r),
                        pu_gate_status := Some BG_PASS, pu_gate_summary := Some summary\<rparr>)
      in chain (case rk_scope p of
                  None \<Rightarrow> pass ()
                | Some sc \<Rightarrow> write_or (pf_scope f)
                    (on_ingest (\<lambda>iw. iw\<lparr>iw_files := set_file_scope fid sc (iw_files iw)\<rparr>)))
         (\<lambda>_. chain (report v (pf_reconciling f) rid
                       (gate ((post_state PO_RECONCILING PG_RECONCILIATION msg)\<lparr>pu_stats := Some stats\<rparr>)))
         (\<lambda>_. chain (observe_run v f run RT_RECONCILING msg (rf_stage_summary file)
                       (no_update\<lparr>ru_source_file_id := Some fid, ru_stats := Some stats\<rparr>))
         (\<lambda>_. chain (reconcile_file v (pf_reconcile f) c date fid (Some run))
         (\<lambda>n. let counted = stats @ [(''resultCount'', VInt (int n)), (''reconciliationCount'', VInt (int n))]
              in chain (report v (pf_counted f) rid
                   (no_post_update\<lparr>pu_stage := Some PG_CACHE_INVALIDATION,
                      pu_message := Some ''Invalidating insight cache after reconciliation.'',
                      pu_output_file_id := Some fid, pu_count := Some (int n), pu_stats := Some counted\<rparr>))
              (\<lambda>_. chain (write_or (pf_invalidate f) (\<lambda>w. w))
              (\<lambda>_. chain (report v (pf_completed f) rid
                     (finished v (gate ((post_state PO_COMPLETED PG_CACHE_INVALIDATION
                         ''Post-approval processing completed successfully.'')
                         \<lparr>pu_count := Some (int n), pu_stats := Some counted\<rparr>))))
              (\<lambda>_. chain (observe_run v f run
                     (if rf_status file = PS_PARTIAL then RT_PARTIAL else RT_COMPLETED)
                     (if rf_status file = PS_PARTIAL then ''Reconciliation completed with rejected records.''
                      else ''Reconciliation completed successfully.'')
                     (rf_stage_summary file)
                     (ended v (no_update\<lparr>ru_source_file_id := Some fid,
                        ru_stats := Some ((''resultCount'', VInt (int n)) # stats),
                        ru_reconciliation_count := Some (int n)\<rparr>)))
              (\<lambda>_. pass (Some (replay_result_of True False file (Some BG_PASS) (Some (int n)))))))))))))"

definition read_gate :: "post_env \<Rightarrow> post_faults \<Rightarrow> uuid \<Rightarrow> uuid \<Rightarrow> (batch_gate \<times> pydict) call" where
  "read_gate v f rid fid w =
     (case pf_gate f of Some e \<Rightarrow> (Inl e, w) | None \<Rightarrow> (Inr (quarantine_gate v rid (Some fid) w), w))"

text \<open>What follows the ingestion.\<close>

definition after_replay ::
  "post_env \<Rightarrow> post_faults \<Rightarrow> review_packet \<Rightarrow> mapping_config \<Rightarrow> uuid \<Rightarrow> uuid \<Rightarrow> datetime
     \<Rightarrow> ingestion_result \<Rightarrow> recon_file \<Rightarrow> replay_result option call" where
  "after_replay v f p c rid run date r file =
     chain (if stored_file file then rebind_replacement_transactions v f p c r (rf_id file) else pass ())
       (\<lambda>_. case batch_fatal_summary r of
          Some summary \<Rightarrow> fail_batch v f p rid run r file summary
        | None \<Rightarrow>
            if \<not> stored_file file then fail_ingestion v f rid run r file
            else chain (read_gate v f rid (rf_id file))
              (\<lambda>(g, summary). chain (persist_packet_gate f (rk_id p) rid g summary)
                 (\<lambda>_. if g = BG_REVIEW_REQUIRED then wait_for_review v f rid run r file summary
                      else reconcile_replayed v f p c rid run date r file summary)))"

text \<open>The file of a packet: cleared, then ingested as a new run of the pipeline.\<close>

definition replay_source ::
  "post_env \<Rightarrow> post_faults \<Rightarrow> review_packet \<Rightarrow> mapping_config \<Rightarrow> uuid \<Rightarrow> uuid \<Rightarrow> string \<Rightarrow> recon_file
     \<Rightarrow> replay_result option call" where
  "replay_source v f p c rid run path file =
     (let msg = ''Ingesting partner file with the approved mapping.''
      in chain (clear_previous v f c file)
         (\<lambda>_. chain (report v (pf_ingesting f) rid
                       ((post_state PO_INGESTING PG_INGESTION msg)\<lparr>pu_started_at := Some (pv_now v)\<rparr>))
         (\<lambda>_. chain (observe_run v f run RT_INGESTING msg []
                       (no_update\<lparr>ru_started_at := Some (pv_now v)\<rparr>))
         (\<lambda>_. chain (replay_file v f (replay_command v p c rid run path file))
         (\<lambda>r. case ir_file r of
                None \<Rightarrow> raises ''Ingestion did not return a source file record.''
              | Some g \<Rightarrow> after_replay v f p c rid run (rf_date file) r g)))))"

definition new_runtime :: "post_env \<Rightarrow> review_packet \<Rightarrow> mapping_config \<Rightarrow> datetime \<Rightarrow> runtime_run" where
  "new_runtime v p c date =
     \<lparr>rt_id = pv_runtime_id v, rt_partner = mc_partner c, rt_date = date_text v date,
      rt_trigger_type = TT_POST_APPROVAL_REPROCESS, rt_triggered_by = Some ''system:post-approval'',
      rt_status = RT_INGESTING, rt_message = Some ''Approved file is queued for ingestion.'',
      rt_source_file_id = rk_source_file_id p, rt_file_name = None,
      rt_mapping_version = Some (version_of c), rt_validation_state = Some ''NOT_RUN'',
      rt_orchestration = None, rt_attempt_history = [], rt_stats = [], rt_stage_summary = [],
      rt_reconciliation_count = None, rt_started_at = None, rt_finished_at = None,
      rt_created_at = pv_now v, rt_updated_at = pv_now v\<rparr>"

definition replay_packet_file ::
  "post_env \<Rightarrow> post_faults \<Rightarrow> review_packet \<Rightarrow> mapping_config \<Rightarrow> uuid \<Rightarrow> uuid \<Rightarrow> replay_result option call" where
  "replay_packet_file v f p c rid run w =
     (case (str_or (rk_source_path p) None, str_or (rk_source_file_id p) None) of
        (Some path, Some fid) \<Rightarrow>
          (case resolve_review_source_file v path of
             None \<Rightarrow> unusable_source v f rid run (''Source file is no longer available at '' @ path @ ''.'') w
           | Some path1 \<Rightarrow>
               (case find_source_record fid w of
                  None \<Rightarrow> unusable_source v f rid run (''Source file record '' @ fid @ '' was not found.'') w
                | Some file \<Rightarrow> replay_source v f p c rid run path1 file w))
      | _ \<Rightarrow> unusable_source v f rid run
               ''Review packet has no source file attached for post-approval processing.'' w)"

definition reconcile_approved_packet ::
  "post_env \<Rightarrow> post_faults \<Rightarrow> review_packet \<Rightarrow> mapping_config \<Rightarrow> uuid \<Rightarrow> replay_result option call" where
  "reconcile_approved_packet v f p c rid =
     (case rk_date p of
        None \<Rightarrow> raises (pv_date_error v)
      | Some date \<Rightarrow>
          chain (write_or (pf_create f)
                   (\<lambda>w. w\<lparr>rw_runtime := create_runtime_run (new_runtime v p c date) (rw_runtime w)\<rparr>))
            (\<lambda>_. let run = pv_runtime_id v
                 in chain (if str_truthy (rk_raw_stage_key p) then pv_staged v p c rid run else pass None)
                      (\<lambda>x. case x of Some res \<Rightarrow> pass (Some res)
                                   | None \<Rightarrow> replay_packet_file v f p c rid run)))"

section \<open>The background task\<close>

text \<open>\<open>queue_post_approval_reprocess\<close>\<close>

definition queued_run :: "(datetime \<Rightarrow> string) \<Rightarrow> uuid \<Rightarrow> datetime \<Rightarrow> review_packet \<Rightarrow> post_run" where
  "queued_run date_of rid now p =
     \<lparr>po_id = rid, po_packet_id = rk_id p, po_partner = rk_partner p,
      po_date = map_option date_of (rk_date p), po_status = PO_QUEUED, po_gate_status = BG_PENDING,
      po_gate_summary = [], po_stage = PG_APPROVAL,
      po_message = Some ''Approved. Post-approval processing is queued.'',
      po_source_file_id = rk_source_file_id p, po_output_file_id = None, po_count = None,
      po_stats = [], po_errors = [], po_started_at = None, po_finished_at = None,
      po_created_at = now, po_updated_at = now\<rparr>"

definition queue_post_approval ::
  "(datetime \<Rightarrow> string) \<Rightarrow> uuid \<Rightarrow> datetime \<Rightarrow> review_packet \<Rightarrow> mapping_config \<Rightarrow> review_world
     \<Rightarrow> post_run \<times> review_world" where
  "queue_post_approval date_of rid now p c w =
     (let run = queued_run date_of rid now p
      in (run,
          w\<lparr>rw_posts := rw_posts w @ [run],
            rw_packets := update_packet (rk_id p) (\<lambda>q. q\<lparr>rk_post_run := Some rid\<rparr>) (rw_packets w),
            rw_scheduled := rw_scheduled w @ [(rid, rk_id p, mc_id c)]\<rparr>))"

text \<open>The runtime projection of a task that raised is closed when it is the latest of the partner.\<close>

definition close_runtime ::
  "post_env \<Rightarrow> post_faults \<Rightarrow> string \<Rightarrow> string \<Rightarrow> review_world \<Rightarrow> review_world" where
  "close_runtime v f partner err w =
     (case find_latest_by_partner partner (rw_runtime w) of
        None \<Rightarrow> w
      | Some r \<Rightarrow>
          if rt_trigger_type r \<noteq> TT_POST_APPROVAL_REPROCESS \<or>
             rt_status r \<in> {RT_COMPLETED, RT_PARTIAL, RT_FAILED} then w
          else snd (observe_run v f (rt_id r) RT_FAILED (''Post-approval processing failed: '' @ err) []
                 (ended v (no_update\<lparr>ru_stats :=
                    Some [(''errorCode'', VStr ''POST_APPROVAL_PROCESSING_FAILED''),
                          (''error'', VStr (safe_text v err)), (''retryable'', VBool False)]\<rparr>)) w))"

text \<open>
  \<open>run_post_approval_reprocess\<close>. The exception of the last report, \<open>broken\<close>, leaves the task.
\<close>

definition fail_post_run ::
  "post_env \<Rightarrow> post_faults \<Rightarrow> string option \<Rightarrow> uuid \<Rightarrow> string \<Rightarrow> string \<Rightarrow> unit call" where
  "fail_post_run v f broken rid partner exc =
     (let err = summarize_runtime_error exc
      in chain (report v broken rid
                  (finished v (no_post_update\<lparr>pu_status := Some PO_FAILED,
                     pu_message := Some (''Post-approval processing failed: '' @ err),
                     pu_errors := Some [VStr err]\<rparr>)))
           (\<lambda>_ w. (Inr (), close_runtime v f partner err w)))"

definition run_post_approval ::
  "post_env \<Rightarrow> post_faults \<Rightarrow> string option \<Rightarrow> uuid \<Rightarrow> uuid \<Rightarrow> uuid \<Rightarrow> unit call" where
  "run_post_approval v f broken rid pid cid w =
     (case (find_packet pid (rw_packets w), find_config cid (rw_configs w)) of
        (Some p, Some c) \<Rightarrow>
          (case reconcile_approved_packet v f p c rid w of
             (Inr _, w') \<Rightarrow> (Inr (), w')
           | (Inl e, w') \<Rightarrow> fail_post_run v f broken rid (rk_partner p) e w')
      | _ \<Rightarrow> report v broken rid (finished v (post_state PO_FAILED PG_APPROVAL
               ''Packet or approved mapping could not be loaded for post-approval processing.'')) w)"

end
