(* ===== verification/PostContinue.thy ===== *)
theory PostContinue
  imports PostReplay
begin

text \<open>
  \<open>continue_waiting_post_approval_run\<close> of
  \<open>src/src/application/review/post_approval_reconciliation.py\<close>: a run that waited for its
  quarantine records goes on once they are closed. Only the caller whose guarded update moves the
  run from WAITING_REVIEW goes on.
\<close>

datatype continuation =
  Not_Waiting
| Unavailable
| Still_Waiting pydict
| Reconciled nat
| Reconciliation_Failed

text \<open>
  The reads and writes outside the \<open>try\<close> block, the packet's gate and the quarantine summary, may
  raise out of the operation; what is raised inside becomes a failed run.
\<close>

record continue_faults =
  cf_gate :: "string option"
  cf_packet_gate :: "string option"
  cf_reconcile :: "string option"
  cf_complete :: "string option"
  cf_invalidate :: "string option"
  cf_observe :: bool

definition take_waiting :: "post_env \<Rightarrow> uuid \<Rightarrow> review_world \<Rightarrow> post_run option \<times> review_world" where
  "take_waiting v rid w =
     (case find_and_update_doc (\<lambda>r. po_id r = rid \<and> po_status r = PO_WAITING_REVIEW)
             (apply_post_update (pv_now v) (post_state PO_RECONCILING PG_RECONCILIATION
                ''Quarantine review completed. Reconciliation is continuing.'')) (rw_posts w) of
        (r, posts) \<Rightarrow> (r, w\<lparr>rw_posts := posts\<rparr>))"

definition continuation_config :: "review_packet \<Rightarrow> review_world \<Rightarrow> mapping_config option" where
  "continuation_config p w =
     (case str_or (rk_draft p) (str_or (rk_active_config p) None) of
        None \<Rightarrow> None | Some cid \<Rightarrow> find_config cid (rw_configs w))"

definition continuation_runtime :: "uuid \<Rightarrow> review_world \<Rightarrow> uuid option" where
  "continuation_runtime fid w =
     map_option rt_id (List.find (\<lambda>r. rt_trigger_type r = TT_POST_APPROVAL_REPROCESS \<and>
       rt_source_file_id r = Some fid) (newest_first (rw_runtime w)))"

section \<open>The checkpoint\<close>

definition truthy_ids :: "pyval list \<Rightarrow> string list" where
  "truthy_ids vs = List.map_filter (\<lambda>v. case v of VStr (c # s) \<Rightarrow> Some (c # s) | _ \<Rightarrow> None) vs"

text \<open>Identifiers in the metadata are texts, as the pipeline writes them.\<close>

definition checkpoint_query :: "recon_file \<Rightarrow> post_run \<Rightarrow> uuid option \<Rightarrow> checkpoint \<Rightarrow> bool" where
  "checkpoint_query file r run d \<longleftrightarrow>
     ck_source_file_id d \<in> Some ` set (truthy_ids
        [VStr (rf_id file), text_value (po_source_file_id r), dget (rf_metadata file) ''sourceFileId'']) \<or>
     run \<noteq> None \<and> ck_runtime_run_id d = run"

definition plain_unit :: "string \<Rightarrow> completed_unit" where
  "plain_unit k =
     \<lparr>cu_unit_key = Some k, cu_page = None, cu_label = None, cu_cursor_before = None,
      cu_cursor_after = None\<rparr>"

text \<open>\<open>enumerate(keys, start=1)\<close> numbers every entry, also those that are left out.\<close>

fun keyed_units :: "nat \<Rightarrow> pyval list \<Rightarrow> completed_unit list" where
  "keyed_units n [] = []"
| "keyed_units n (v # vs) =
     (case v of
        VStr (c # s) \<Rightarrow> (plain_unit (c # s))\<lparr>cu_page := Some (VInt (int n))\<rparr> # keyed_units (n + 1) vs
      | _ \<Rightarrow> keyed_units (n + 1) vs)"

definition timeline_unit :: "unit_summary \<Rightarrow> completed_unit" where
  "timeline_unit u =
     \<lparr>cu_unit_key = Some (su_unit_key u), cu_page = su_page u, cu_label = None,
      cu_cursor_before = su_cursor_before u, cu_cursor_after = su_cursor_after u\<rparr>"

definition completed_units :: "recon_file \<Rightarrow> checkpoint \<Rightarrow> completed_unit list" where
  "completed_units file d =
     (let own = (case dget (rf_metadata file) ''sourceUnitKeys'' of VList ks \<Rightarrow> keyed_units 1 ks | _ \<Rightarrow> [])
      in if own \<noteq> [] then own else map timeline_unit (ck_unit_timeline d))"

definition completion_key :: "completed_unit list \<Rightarrow> checkpoint \<Rightarrow> string option" where
  "completion_key us d =
     (if us \<noteq> [] then cu_unit_key (last us)
      else str_or (ck_current_unit_key d) (ck_last_completed_unit_key d))"

definition finalize_checkpoint ::
  "post_env \<Rightarrow> uuid \<Rightarrow> recon_file \<Rightarrow> post_run \<Rightarrow> uuid option \<Rightarrow> review_world \<Rightarrow> review_world" where
  "finalize_checkpoint v eid file r run w =
     (case pv_pick v (checkpoint_query file r run) (rw_checkpoints w) of
        None \<Rightarrow> w
      | Some d \<Rightarrow>
          (let us = completed_units file d
           in case completion_key us d of
                Some (c # s) \<Rightarrow>
                  w\<lparr>rw_checkpoints := snd (mark_stream_completed_after_review (c # s) None None
                      (if us \<noteq> [] then us else [plain_unit (c # s)]) (pv_now v) eid d (rw_checkpoints w))\<rparr>
              | _ \<Rightarrow> w))"

section \<open>The continuation\<close>

definition continuation_unavailable :: "post_env \<Rightarrow> uuid \<Rightarrow> string \<Rightarrow> continuation call" where
  "continuation_unavailable v rid msg w =
     (Inr Unavailable, update_post_run (pv_now v) rid (finished v (post_state PO_FAILED PG_RECONCILIATION msg)) w)"

text \<open>The body of the \<open>try\<close>.\<close>

definition continue_reconcile ::
  "post_env \<Rightarrow> continue_faults \<Rightarrow> uuid \<Rightarrow> uuid \<Rightarrow> post_run \<Rightarrow> mapping_config \<Rightarrow> recon_file \<Rightarrow> pydict
     \<Rightarrow> uuid option \<Rightarrow> nat call" where
  "continue_reconcile v f eid rid r c file summary run =
     chain (reconcile_file v (cf_reconcile f) c (rf_date file) (rf_id file) run)
       (\<lambda>n. chain (\<lambda>w. (Inr (), finalize_checkpoint v eid file r run w))
       (\<lambda>_. chain (report v (cf_complete f) rid
               (finished v ((post_state PO_COMPLETED PG_RECONCILIATION
                   ''Quarantine review completed and reconciliation finished.'')
                 \<lparr>pu_output_file_id := Some (rf_id file), pu_count := Some (int n),
                  pu_stats := Some (dput (dput (dput (po_stats r) ''resultCount'' (VInt (int n)))
                     ''reconciliationCount'' (VInt (int n))) ''qualityGate'' (VDict summary)),
                  pu_gate_status := Some BG_PASS, pu_gate_summary := Some summary\<rparr>)))
       (\<lambda>_. chain (case run of
               None \<Rightarrow> pass ()
             | Some k \<Rightarrow>
                 best_effort (cf_observe f)
                   (\<lambda>w. w\<lparr>rw_runtime := update_runtime_run (pv_now v) k
                      (observe_update v (if rf_status file = PS_PARTIAL then RT_PARTIAL else RT_COMPLETED)
                         ''Reconciliation completed after quarantine review.'' (rf_stage_summary file)
                         (ended v (no_update\<lparr>ru_source_file_id := Some (rf_id file),
                            ru_reconciliation_count := Some (int n),
                            ru_stats := Some
                              [(''outcome'', VStr (if rf_status file = PS_PARTIAL then ''PARTIAL'' else ''INGESTED'')),
                               (''resultCount'', VInt (int n)), (''qualityGate'', VDict summary)]\<rparr>)))
                      (rw_runtime w)\<rparr>))
       (\<lambda>_. chain (write_or (cf_invalidate f) (\<lambda>w. w)) (\<lambda>_. pass n)))))"

definition continue_failed :: "post_env \<Rightarrow> uuid \<Rightarrow> string \<Rightarrow> review_world \<Rightarrow> review_world" where
  "continue_failed v rid e =
     update_post_run (pv_now v) rid
       (finished v ((post_state PO_FAILED PG_RECONCILIATION ''Reconciliation failed after quarantine review.'')
          \<lparr>pu_errors := Some [VDict [(''errorCode'', VStr ''RECONCILIATION_FAILED''),
                                    (''reason'', VStr (summarize_runtime_error e))]]\<rparr>))"

definition continue_gated ::
  "post_env \<Rightarrow> continue_faults \<Rightarrow> uuid \<Rightarrow> uuid \<Rightarrow> post_run \<Rightarrow> review_packet \<Rightarrow> mapping_config \<Rightarrow> uuid
     \<Rightarrow> pydict \<Rightarrow> continuation call" where
  "continue_gated v f eid rid r p c fid summary w =
     (case find_source_record fid w of
        None \<Rightarrow> continuation_unavailable v rid ''Post-approval continuation could not find its output file.'' w
      | Some file \<Rightarrow>
          chain (write_or (cf_packet_gate f)
                   (\<lambda>w. w\<lparr>rw_packets := update_packet (rk_id p)
                      (\<lambda>p. p\<lparr>rk_gate_status := BG_PASS, rk_gate_summary := summary, rk_post_run := Some rid\<rparr>)
                      (rw_packets w)\<rparr>))
            (\<lambda>_ w. case continue_reconcile v f eid rid r c file summary (continuation_runtime fid w) w of
                (Inl e, w) \<Rightarrow> (Inr Reconciliation_Failed, continue_failed v rid e w)
              | (Inr n, w) \<Rightarrow> (Inr (Reconciled n), w)) w)"

definition continue_waiting ::
  "post_env \<Rightarrow> continue_faults \<Rightarrow> uuid \<Rightarrow> uuid \<Rightarrow> continuation call" where
  "continue_waiting v f eid rid w =
     (case take_waiting v rid w of
        (None, w) \<Rightarrow> (Inr Not_Waiting, w)
      | (Some r, w) \<Rightarrow>
          (case find_packet (po_packet_id r) (rw_packets w) of
             None \<Rightarrow> continuation_unavailable v rid
               ''Post-approval continuation could not load its packet, mapping, or output file.'' w
           | Some p \<Rightarrow>
               (case (continuation_config p w, str_or (po_output_file_id r) (po_source_file_id r)) of
                  (Some c, Some fid) \<Rightarrow>
                    (case cf_gate f of
                       Some e \<Rightarrow> (Inl e, w)
                     | None \<Rightarrow>
                         (let (g, summary) = quarantine_gate v rid (Some fid) w
                          in if g = BG_REVIEW_REQUIRED
                             then chain (write_or (cf_packet_gate f)
                                    (\<lambda>w. w\<lparr>rw_packets := update_packet (rk_id p)
                                       (\<lambda>p. p\<lparr>rk_gate_status := g, rk_gate_summary := summary,
                                              rk_post_run := Some rid\<rparr>) (rw_packets w)\<rparr>))
                                  (\<lambda>_ w. (Inr (Still_Waiting summary),
                                     update_post_run (pv_now v) rid
                                       ((post_state PO_WAITING_REVIEW PG_INGESTION
                                           ''Additional quarantine records still require review.'')
                                         \<lparr>pu_gate_status := Some g, pu_gate_summary := Some summary\<rparr>) w)) w
                             else continue_gated v f eid rid r p c fid summary w))
                | _ \<Rightarrow> continuation_unavailable v rid
                    ''Post-approval continuation could not load its packet, mapping, or output file.'' w)))"

end
