(* ===== verification/PostProps.thy ===== *)
theory PostProps
  imports PostContinue
begin

text \<open>
  What the replay of an approved packet guarantees: it is left in a settled status whatever raises,
  and it is reported complete only behind a quarantine without active records. Outcomes of calls are
  computed by \<open>wp\<close>, the weakest precondition.
\<close>

named_theorems wp_simps

section \<open>Weakest preconditions\<close>

definition wp :: "'a call \<Rightarrow> ('a \<Rightarrow> review_world \<Rightarrow> bool) \<Rightarrow> (review_world \<Rightarrow> bool) \<Rightarrow> review_world \<Rightarrow> bool" where
  "wp m Q E w = (case m w of (Inl e, w') \<Rightarrow> E w' | (Inr x, w') \<Rightarrow> Q x w')"

lemma wp_basic [wp_simps]:
  "wp (pass x) Q E w = Q x w"
  "wp (raises e) Q' E' w = E' w"
  "wp (\<lambda>w. (Inr (g w), h w)) Q'' E'' w = Q'' (g w) (h w)"
  by (simp_all add: wp_def pass_def raises_def)

lemma wp_write [wp_simps]:
  "wp (write_or fault k) Q E w = (case fault of Some e \<Rightarrow> E w | None \<Rightarrow> Q () (k w))"
  "wp (best_effort b k) Q E w = Q () (if b then w else k w)"
  by (simp_all add: wp_def write_or_def best_effort_def split: option.split)

lemma wp_chain [wp_simps]: "wp (chain m k) Q E w = wp m (\<lambda>x. wp (k x) Q E) E w"
  by (auto simp: wp_def chain_def split: prod.split sum.split)

lemma wp_cases [wp_simps]:
  "wp (if b then m1 else m2) Q E w = (if b then wp m1 Q E w else wp m2 Q E w)"
  "wp (case p of (x, y) \<Rightarrow> k x y) Q E w = (case p of (x, y) \<Rightarrow> wp (k x y) Q E w)"
  "wp (case v of None \<Rightarrow> n | Some y \<Rightarrow> l y) Q E w =
     (case v of None \<Rightarrow> wp n Q E w | Some y \<Rightarrow> wp (l y) Q E w)"
  by (simp_all split: option.split prod.split)

lemma wp_weaken:
  assumes "wp m Q E w" "\<And>x w'. Q x w' \<Longrightarrow> Q' x w'" "\<And>w'. E w' \<Longrightarrow> E' w'"
  shows "wp m Q' E' w"
  using assms by (auto simp: wp_def split: prod.splits sum.splits)

section \<open>Settled runs\<close>

definition is_queued :: "uuid \<Rightarrow> review_world \<Rightarrow> bool" where
  "is_queued rid w \<longleftrightarrow> find_post_run rid (rw_posts w) \<noteq> None"

definition open_records :: "uuid \<Rightarrow> uuid option \<Rightarrow> review_world \<Rightarrow> q_store" where
  "open_records rid file w = filter active_record (gate_records rid file (quarantine_docs w))"

definition settled_run :: "review_world \<Rightarrow> post_run \<Rightarrow> bool" where
  "settled_run w r =
     (case po_status r of
        PO_COMPLETED \<Rightarrow> po_gate_status r = BG_PASS \<and> open_records (po_id r) (po_output_file_id r) w = []
      | PO_WAITING_REVIEW \<Rightarrow>
          po_gate_status r = BG_REVIEW_REQUIRED \<and> open_records (po_id r) (po_output_file_id r) w \<noteq> []
      | PO_FAILED \<Rightarrow> po_finished_at r \<noteq> None
      | _ \<Rightarrow> False)"

definition is_settled :: "uuid \<Rightarrow> review_world \<Rightarrow> bool" where
  "is_settled rid w =
     (case find_post_run rid (rw_posts w) of None \<Rightarrow> False | Some r \<Rightarrow> settled_run w r)"

lemma apply_post_simps [simp]:
  "po_id (apply_post_update now u r) = po_id r"
  "po_status (apply_post_update now u r) = keep (pu_status u) (po_status r)"
  "po_gate_status (apply_post_update now u r) = keep (pu_gate_status u) (po_gate_status r)"
  "po_output_file_id (apply_post_update now u r) = keep_null (pu_output_file_id u) (po_output_file_id r)"
  "po_finished_at (apply_post_update now u r) = keep_null (pu_finished_at u) (po_finished_at r)"
  by (simp_all add: apply_post_update_def)

lemma post_update_simps [simp]:
  "pu_status (post_state st stage msg) = Some st"
  "pu_gate_status (post_state st stage msg) = None"
  "pu_output_file_id (post_state st stage msg) = None"
  "pu_finished_at (finished v u) = Some (pv_now v)"
  "pu_status (finished v u) = pu_status u"
  "pu_gate_status (finished v u) = pu_gate_status u"
  "pu_output_file_id (finished v u) = pu_output_file_id u"
  "keep (Some x) y = x" "keep None y = y" "keep_null (Some z) t = Some z" "keep_null None t = t"
  by (simp_all add: post_state_def no_post_update_def finished_def keep_def keep_null_def)

lemma find_updated_run:
  "find_post_run rid (rw_posts (update_post_run now rid u w)) =
     map_option (apply_post_update now u) (find_post_run rid (rw_posts w))"
proof -
  have "List.find (\<lambda>r. po_id r = rid) (update_first (\<lambda>r. po_id r = rid) (apply_post_update now u) rs) =
    map_option (apply_post_update now u) (List.find (\<lambda>r. po_id r = rid) rs)" for rs
    by (induction rs) simp_all
  then show ?thesis
    by (simp add: update_post_run_def find_post_run_def)
qed

lemma find_post_id: "find_post_run rid rs = Some r \<Longrightarrow> po_id r = rid"
  by (auto simp: find_post_run_def find_Some_iff)

lemma update_post_frame [simp]:
  "quarantine_docs (update_post_run now rid u w) = quarantine_docs w"
  "rw_packets (update_post_run now rid u w) = rw_packets w"
  "rw_ingest (update_post_run now rid u w) = rw_ingest w"
  "rw_results (update_post_run now rid u w) = rw_results w"
  by (simp_all add: update_post_run_def quarantine_docs_def)

lemma queued_update [wp_simps]: "is_queued rid (update_post_run now rid u w) = is_queued rid w"
  by (simp add: is_queued_def find_updated_run)

text \<open>The last report of a run, by the status it writes.\<close>

lemma settled_update:
  assumes "is_queued rid w"
  shows "pu_status u = Some PO_FAILED \<Longrightarrow> pu_finished_at u \<noteq> None \<Longrightarrow> is_settled rid (update_post_run now rid u w)"
    and "pu_status u = Some PO_COMPLETED \<Longrightarrow> pu_gate_status u = Some BG_PASS \<Longrightarrow>
      pu_output_file_id u = Some fid \<Longrightarrow> open_records rid (Some fid) w = [] \<Longrightarrow>
      is_settled rid (update_post_run now rid u w)"
    and "pu_status u = Some PO_WAITING_REVIEW \<Longrightarrow> pu_gate_status u = Some BG_REVIEW_REQUIRED \<Longrightarrow>
      pu_output_file_id u = Some fid \<Longrightarrow> open_records rid (Some fid) w \<noteq> [] \<Longrightarrow>
      is_settled rid (update_post_run now rid u w)"
  using assms
  by (auto simp: is_queued_def is_settled_def find_updated_run settled_run_def open_records_def find_post_id)

section \<open>What the other writes keep\<close>

lemma desk_frame:
  assumes "rw_posts w' = rw_posts w" "quarantine_docs w' = quarantine_docs w"
  shows "is_queued rid w' = is_queued rid w"
    and "is_settled rid w' = is_settled rid w"
    and "open_records rid file w' = open_records rid file w"
  using assms
  by (simp_all add: is_queued_def is_settled_def open_records_def settled_run_def
      cong: option.case_cong post_status.case_cong)

lemma docs_frame [simp]:
  "quarantine_docs (w\<lparr>rw_packets := ps\<rparr>) = quarantine_docs w"
  "quarantine_docs (w\<lparr>rw_runtime := rs\<rparr>) = quarantine_docs w"
  "quarantine_docs (w\<lparr>rw_results := tab\<rparr>) = quarantine_docs w"
  "quarantine_docs (w\<lparr>rw_checkpoints := ds\<rparr>) = quarantine_docs w"
  "rw_posts (on_ingest g w) = rw_posts w"
  by (simp_all add: quarantine_docs_def on_ingest_def)

lemma docs_frame_ingest [simp]:
  "quarantine_docs (on_ingest (\<lambda>iw. iw\<lparr>iw_files := h iw\<rparr>) w) = quarantine_docs w"
  "quarantine_docs (on_ingest (\<lambda>iw. iw\<lparr>iw_partner := k iw\<rparr>) w) = quarantine_docs w"
  by (simp_all add: quarantine_docs_def on_ingest_def)

text \<open>A call that touches neither the runs nor the quarantine.\<close>

definition keeps_desk :: "'a call \<Rightarrow> bool" where
  "keeps_desk m \<longleftrightarrow>
     (\<forall>w. rw_posts (snd (m w)) = rw_posts w \<and> quarantine_docs (snd (m w)) = quarantine_docs w)"

definition same_desk :: "review_world \<Rightarrow> review_world \<Rightarrow> bool" where
  "same_desk w' w \<longleftrightarrow>
     (\<forall>rid. is_queued rid w' = is_queued rid w \<and> is_settled rid w' = is_settled rid w \<and>
        (\<forall>file. open_records rid file w' = open_records rid file w))"

lemma same_desk_simps:
  assumes "same_desk w' w"
  shows "is_queued rid w' = is_queued rid w" "is_settled rid w' = is_settled rid w"
    "open_records rid file w' = open_records rid file w"
  using assms by (simp_all add: same_desk_def)

lemma keeps_wp:
  assumes "keeps_desk m" "\<And>x w'. same_desk w' w \<Longrightarrow> Q x w'" "\<And>w'. same_desk w' w \<Longrightarrow> E w'"
  shows "wp m Q E w"
proof -
  obtain x w' where m: "m w = (x, w')"
    by fastforce
  with assms(1) have kept: "rw_posts w' = rw_posts w" "quarantine_docs w' = quarantine_docs w"
    by (metis keeps_desk_def snd_conv)+
  have "same_desk w' w"
    by (simp add: same_desk_def desk_frame [OF kept])
  with m assms(2,3) show ?thesis
    by (simp add: wp_def split: sum.split)
qed

lemma observe_keeps: "keeps_desk (observe_run v f run st msg summary u)"
  by (simp add: keeps_desk_def observe_run_def best_effort_def)

lemma gate_keeps: "keeps_desk (persist_packet_gate f pid rid g summary)"
  by (simp add: keeps_desk_def persist_packet_gate_def write_or_def split: option.split)

lemma reconcile_keeps: "keeps_desk (reconcile_file v fault c date fid run)"
  by (simp add: keeps_desk_def reconcile_file_def Let_def split: option.split sum.split prod.split)

lemma rebind_keeps: "keeps_desk (rebind_replacement_transactions v f p c r fid)"
  by (simp add: keeps_desk_def rebind_replacement_transactions_def pass_def raises_def write_or_def
      split: option.split)

lemma clear_keeps: "keeps_desk (clear_previous v f c file)"
  by (auto simp: keeps_desk_def clear_previous_def pass_def raises_def write_or_def chain_def
      split: option.splits prod.splits sum.splits if_splits)

lemmas desk_calls = observe_keeps gate_keeps reconcile_keeps rebind_keeps clear_keeps

lemma report_wp [wp_simps]:
  "wp (report v fault rid u) Q E w =
     (case fault of Some e \<Rightarrow> E w | None \<Rightarrow> Q () (update_post_run (pv_now v) rid u w))"
  by (simp add: report_def wp_simps)

section \<open>The parts of a replay\<close>

abbreviation settling :: "uuid \<Rightarrow> 'a call \<Rightarrow> review_world \<Rightarrow> bool" where
  "settling rid m w \<equiv> wp m (\<lambda>_. is_settled rid) (is_queued rid) w"

lemma unusable_settles: "is_queued rid w \<Longrightarrow> settling rid (unusable_source v f rid run msg) w"
  unfolding unusable_source_def wp_chain
  by (intro keeps_wp [OF observe_keeps])
    (auto simp: wp_simps settled_update same_desk_simps split: option.split)

lemma fail_batch_settles:
  "is_queued rid w \<Longrightarrow> settling rid (fail_batch v f p rid run r file summary) w"
  unfolding fail_batch_def wp_chain Let_def
  by (intro keeps_wp [OF observe_keeps] keeps_wp [OF gate_keeps])
    (auto simp: wp_simps settled_update same_desk_simps split: option.split)

lemma fail_ingestion_settles:
  "is_queued rid w \<Longrightarrow> settling rid (fail_ingestion v f rid run r file) w"
  unfolding fail_ingestion_def wp_chain Let_def
  by (intro keeps_wp [OF observe_keeps])
    (auto simp: wp_simps settled_update same_desk_simps split: option.split)

lemma wait_settles:
  assumes "is_queued rid w" "open_records rid (Some (rf_id file)) w \<noteq> []"
  shows "settling rid (wait_for_review v f rid run r file summary) w"
  using assms unfolding wait_for_review_def wp_chain Let_def
  by (auto simp: wp_simps settled_update same_desk_simps split: option.split
      intro!: keeps_wp [OF observe_keeps])

lemma reconcile_settles:
  assumes "is_queued rid w" "open_records rid (Some (rf_id file)) w = []"
  shows "settling rid (reconcile_replayed v f p c rid run date r file summary) w"
proof -
  have scope: "keeps_desk (case rk_scope p of None \<Rightarrow> pass ()
      | Some sc \<Rightarrow> write_or (pf_scope f)
          (on_ingest (\<lambda>iw. iw\<lparr>iw_files := set_file_scope (rf_id file) sc (iw_files iw)\<rparr>)))"
    by (auto simp: keeps_desk_def pass_def write_or_def split: option.split)
  have open_update: "open_records rid fid (update_post_run now i u w') = open_records rid fid w'" for fid now i u w'
    by (simp add: open_records_def)
  show ?thesis
    unfolding reconcile_replayed_def wp_chain Let_def
  proof (rule keeps_wp [OF scope])
    fix w' assume "same_desk w' w"
    with assms show "is_queued rid w'"
      by (simp add: same_desk_simps)
  qed (use assms in \<open>auto simp: wp_simps settled_update same_desk_simps open_update split: option.split
        intro!: keeps_wp [OF observe_keeps] keeps_wp [OF reconcile_keeps]\<close>)
qed

lemma gate_open:
  assumes "quarantine_gate v rid file w = (g, summary)"
  shows "(g = BG_REVIEW_REQUIRED) = (open_records rid file w \<noteq> [])"
  using assms by (auto simp: quarantine_gate_def open_records_def Let_def split: if_splits)

lemma read_gate_wp:
  "wp (read_gate v f rid fid) Q E w =
     (case pf_gate f of Some e \<Rightarrow> E w | None \<Rightarrow> Q (quarantine_gate v rid (Some fid) w) w)"
  by (simp add: wp_def read_gate_def split: option.split)

lemma after_replay_settles:
  assumes "is_queued rid w"
  shows "settling rid (after_replay v f p c rid run date r file) w"
proof -
  have rebound: "keeps_desk (if stored_file file then rebind_replacement_transactions v f p c r (rf_id file) else pass ())"
    using rebind_keeps by (auto simp: keeps_desk_def pass_def)
  show ?thesis
    unfolding after_replay_def wp_chain
  proof (rule keeps_wp [OF rebound])
    fix w1 assume w1: "same_desk w1 w"
    then have q1: "is_queued rid w1"
      using assms by (simp add: same_desk_simps)
    then show "is_queued rid w1" .
    obtain g summary where gate: "quarantine_gate v rid (Some (rf_id file)) w1 = (g, summary)"
      by fastforce
    have passed: "settling rid (chain (persist_packet_gate f (rk_id p) rid g summary)
        (\<lambda>_. if g = BG_REVIEW_REQUIRED then wait_for_review v f rid run r file summary
             else reconcile_replayed v f p c rid run date r file summary)) w1"
      unfolding wp_chain
    proof (rule keeps_wp [OF gate_keeps])
      fix w2 assume w2: "same_desk w2 w1"
      with q1 gate_open [OF gate]
      show "settling rid (if g = BG_REVIEW_REQUIRED then wait_for_review v f rid run r file summary
          else reconcile_replayed v f p c rid run date r file summary) w2"
        by (auto intro!: wait_settles reconcile_settles simp: same_desk_simps)
    qed (use q1 in \<open>simp add: same_desk_simps\<close>)
    then show "settling rid (case batch_fatal_summary r of
          Some summary \<Rightarrow> fail_batch v f p rid run r file summary
        | None \<Rightarrow>
            if \<not> stored_file file then fail_ingestion v f rid run r file
            else chain (read_gate v f rid (rf_id file))
              (\<lambda>(g, summary). chain (persist_packet_gate f (rk_id p) rid g summary)
                 (\<lambda>_. if g = BG_REVIEW_REQUIRED then wait_for_review v f rid run r file summary
                      else reconcile_replayed v f p c rid run date r file summary))) w1"
      using q1 gate
      by (auto simp: fail_batch_settles fail_ingestion_settles wp_chain [of "read_gate v f rid (rf_id file)"]
          read_gate_wp split: option.split)
  qed
qed

lemma replay_keeps_posts:
  "wp (replay_file v f cmd) Q E w =
     (let (r, iw) = process_file ((pv_ingest v)\<lparr>ie_fast := True\<rparr>) (pf_pipeline f) cmd
            ((rw_ingest w)\<lparr>iw_cache := (\<lambda>_. None)\<rparr>)
      in Q r (w\<lparr>rw_ingest := iw\<lparr>iw_cache := iw_cache (rw_ingest w)\<rparr>\<rparr>))"
  by (simp add: wp_def replay_file_def Let_def split: prod.split)

lemma queued_ingest [simp]: "is_queued rid (w\<lparr>rw_ingest := iw\<rparr>) = is_queued rid w"
  by (simp add: is_queued_def)

lemma replay_source_settles:
  assumes "is_queued rid w"
  shows "settling rid (replay_source v f p c rid run path file) w"
  using assms unfolding replay_source_def wp_chain Let_def
  by (auto simp: wp_simps replay_keeps_posts same_desk_simps after_replay_settles
      split: option.split prod.split intro!: keeps_wp [OF clear_keeps] keeps_wp [OF observe_keeps])

lemma packet_file_settles:
  assumes "is_queued rid w"
  shows "settling rid (replay_packet_file v f p c rid run) w"
proof -
  have "wp (\<lambda>w. m w w) Q E w = wp (m w) Q E w" for m :: "review_world \<Rightarrow> 'a call" and Q E
    by (simp add: wp_def)
  then show ?thesis
    using assms
    by (auto simp: wp_def replay_packet_file_def unusable_settles [unfolded wp_def]
        replay_source_settles [unfolded wp_def] split: option.split)
qed

lemma approved_packet_settles:
  assumes "is_queued rid w" "\<not> str_truthy (rk_raw_stage_key p)"
  shows "settling rid (reconcile_approved_packet v f p c rid) w"
proof -
  have "is_queued rid (w\<lparr>rw_runtime := rs\<rparr>)" for rs
    using assms(1) by (simp add: is_queued_def)
  with assms show ?thesis
    by (auto simp: reconcile_approved_packet_def wp_simps Let_def packet_file_settles split: option.split)
qed

lemma fail_run_settles:
  assumes "is_queued rid w"
  shows "is_settled rid (snd (fail_post_run v f None rid partner exc w))"
proof -
  have close: "rw_posts (close_runtime v f partner err w') = rw_posts w'"
    "quarantine_docs (close_runtime v f partner err w') = quarantine_docs w'" for err w'
    by (simp_all add: close_runtime_def observe_run_def best_effort_def split: option.split)
  show ?thesis
    using assms
    by (simp add: fail_post_run_def chain_def report_def write_or_def Let_def desk_frame [OF close] settled_update)
qed

lemma replay_settles:
  assumes "is_queued rid w" "find_packet pid (rw_packets w) = Some p" "find_config cid (rw_configs w) = Some c"
    and "\<not> str_truthy (rk_raw_stage_key p)"
  shows "is_settled rid (snd (run_post_approval v f None rid pid cid w))"
proof -
  have "settling rid (reconcile_approved_packet v f p c rid) w"
    by (rule approved_packet_settles [OF assms(1,4)])
  then show ?thesis
    using assms by (auto simp: run_post_approval_def wp_def fail_run_settles split: prod.splits sum.splits)
qed

end
