(* ===== verification/PostGuarantees.thy ===== *)
theory PostGuarantees
  imports PostProps IngestionDemo ManualProps
begin

text \<open>
  Guarantees of the replay of an approved packet, and the replay of a file that was complete, whose
  rows are removed and never read again.
\<close>

section \<open>A concrete desk\<close>

definition desk_env :: post_env where
  "desk_env =
     \<lparr>pv_ingest = live_env, pv_rec = demo_rec_env 0, pv_ids = (\<lambda>_. ''res''), pv_exec_error = (\<lambda>_. []),
      pv_now = 1, pv_runtime_id = ''rt'', pv_is_file = (\<lambda>p. True), pv_cwd = ''/app'',
      pv_date_error = ''date'', pv_uuid_error = ''uuid'', pv_event = (\<lambda>_ _ _. []),
      pv_staged = (\<lambda>_ _ _ _. pass None), pv_pick = (\<lambda>_ _. None)\<rparr>"

definition no_post_faults :: post_faults where
  "no_post_faults =
     \<lparr>pf_create = None, pf_report = None, pf_delete_rows = None, pf_delete_results = None,
      pf_delete_file = None, pf_ingesting = None, pf_rebind = None, pf_gate = None,
      pf_packet_gate = None, pf_scope = None, pf_reconciling = None, pf_reconcile = None,
      pf_counted = None, pf_invalidate = None, pf_completed = None, pf_observe = False,
      pf_pipeline = IngestionRun.no_faults\<rparr>"

definition desk_packet :: review_packet where
  "desk_packet =
     \<lparr>rk_id = ''p'', rk_source_type = PKS_UPLOAD, rk_partner = ''MOMO'', rk_file_name = ''in.csv'',
      rk_file_type = ''SETTLEMENT'', rk_signature = None, rk_active_config = None,
      rk_draft = Some ''c'', rk_draft_version = None, rk_action = None, rk_source_file_id = Some ''12345678123456781234567812345678'',
      rk_source_path = Some ''/in.csv'', rk_raw_stage_key = None, rk_backfill = None,
      rk_backfill_stored = True, rk_date = Some 0, rk_scope = None, rk_parse_strategy = [],
      rk_gates = [], rk_sample_preview = [], rk_internal_count = 0, rk_internal_preview = [],
      rk_gate_status = BG_PENDING, rk_gate_summary = [], rk_post_run = Some ''run'',
      rk_status = RK_APPROVED, rk_decision = None, rk_created_at = 0, rk_reviewed_at = None,
      rk_reviewed_by = None\<rparr>"

definition desk_file :: recon_file where
  "desk_file =
     (new_file ''12345678123456781234567812345678'' 0 ''/in.csv'' ''MOMO'' ''SETTLEMENT'' 0 ''/in.csv'' None None None
        (classify_scope (ie_zone live_env) ''MOMO'' (Some 0) SC_UNCONFIRMED [] []))
       \<lparr>rf_status := PS_COMPLETED, rf_total_rows := 1, rf_success_rows := 1\<rparr>"

definition desk_row :: partner_row where
  "desk_row = (demo_partner CHR ''1'' CHR ''e'' ''A'' ''SUCCESS'')
     \<lparr>pr_source_file_id := ''12345678-1234-5678-1234-567812345678''\<rparr>"

definition desk_world :: review_world where
  "desk_world =
     \<lparr>rw_ingest = live_world\<lparr>iw_files := [desk_file], iw_partner := [desk_row]\<rparr>, rw_results = [], rw_counters = (\<lambda>_. None),
      rw_packets = [desk_packet], rw_actions = [],
      rw_posts = [queued_run (\<lambda>_. []) ''run'' 0 desk_packet], rw_runtime = [], rw_checkpoints = (\<lambda>_. None), rw_backfills = [],
      rw_audit = [], rw_scheduled = [(''run'', ''p'', ''c'')]\<rparr>"

section \<open>Every run settles\<close>



section \<open>Replaying a completed file\<close>

text \<open>A call that leaves the rows and the files as they are, but for the scopes of the files.\<close>

definition counted :: "recon_file \<Rightarrow> processing_status \<times> nat" where
  "counted f = (rf_status f, rf_success_rows f)"

definition stored_state :: "uuid \<Rightarrow> review_world \<Rightarrow> partner_table \<times> (processing_status \<times> nat) option" where
  "stored_state fid w = (iw_partner (rw_ingest w), map_option counted (find_source_record fid w))"

definition keeps_store :: "'a call \<Rightarrow> bool" where
  "keeps_store m \<longleftrightarrow> (\<forall>w fid. stored_state fid (snd (m w)) = stored_state fid w)"

lemma keeps_store_chain: "keeps_store m \<Longrightarrow> (\<And>x. keeps_store (k x)) \<Longrightarrow> keeps_store (chain m k)"
  by (auto simp: keeps_store_def chain_def split: prod.split sum.split)
    (metis snd_conv)+

lemma same_ingest: "rw_ingest w' = rw_ingest w \<Longrightarrow> stored_state fid w' = stored_state fid w"
  by (simp add: stored_state_def find_source_record_def)

lemma keeps_store_basic:
  "keeps_store (pass x)" "keeps_store (raises e)" "keeps_store (report v fault rid u)"
  "keeps_store (observe_run v f run st msg summary ru)" "keeps_store (persist_packet_gate f pid rid g d)"
  "keeps_store (reconcile_file v fault c date fid orun)" "keeps_store (read_gate v f rid fid)"
  "keeps_store (write_or fault (\<lambda>w. w))"
  by (auto simp: keeps_store_def pass_def raises_def report_def write_or_def observe_run_def
      best_effort_def persist_packet_gate_def reconcile_file_def read_gate_def Let_def
      intro!: same_ingest split: option.split sum.split prod.split)

lemma find_updated_scope:
  "map_option counted (List.find (\<lambda>f. rf_id f = fid) (set_file_scope i sc fs)) =
   map_option counted (List.find (\<lambda>f. rf_id f = fid) fs)"
  by (induction fs) (simp_all add: set_file_scope_def update_file_def counted_def)

lemma keeps_store_scope:
  "keeps_store (write_or fault (on_ingest (\<lambda>iw. iw\<lparr>iw_files := set_file_scope i sc (iw_files iw)\<rparr>)))"
  by (simp add: keeps_store_def write_or_def stored_state_def find_source_record_def on_ingest_def
      find_updated_scope split: option.split)

lemmas keeps_store_rules = keeps_store_chain keeps_store_basic keeps_store_scope

text \<open>After a refusal as a duplicate nothing is rebound, so what follows the ingestion keeps the store.\<close>

lemma after_duplicate_keeps:
  assumes "ir_ingestion_keys r = []"
  shows "keeps_store (after_replay v f p c rid run date r file)"
proof -
  have "rebind_replacement_transactions v f p c r fid = pass ()" for fid
    using assms by (simp add: rebind_replacement_transactions_def replacement_keys_def)
  then show ?thesis
    by (auto simp: after_replay_def fail_batch_def fail_ingestion_def wait_for_review_def
        reconcile_replayed_def Let_def split: option.split prod.split intro!: keeps_store_rules)
qed

lemma duplicate_keys: "ir_ingestion_keys (duplicate_result I c hash (claimed_state I g (enter_stage E st i None None (start_state I cmd)))) = []"
  by (simp add: duplicate_result_def build_result_def claimed_state_def enter_stage_def start_state_def
      Let_def add_error_def begin_stage_def set_source_context_def new_run_def)

lemma completed_is_duplicate:
  assumes "ie_file_hash I (pf_path cmd) = Some h" "ft_claim ft = None"
    and "find_by_file_hash (pf_partner cmd) h (iw_files w) = Some g" "rf_status g \<noteq> PS_FAILED"
    and "derive_fetch_unit_key (ie_digest I) (pf_partner cmd) (pf_workflow_type cmd) (pf_file_type cmd)
      (re_iso (ie_run I) (pf_date cmd)) (pf_version cmd) (pf_metadata cmd) = Inr key"
  obtains r where "process_file I ft cmd w = (r, w)" "ir_ingestion_keys r = []" "ir_file r = Some g"
proof -
  have claim: "claim_source_file I ft cmd w =
      (Inr \<lparr>cl_file = g, cl_created = False, cl_duplicate_code = Some ''file_duplicate''\<rparr>, w)"
    using assms by (simp add: claim_source_file_def claim_file_def put_files_def)
  show thesis
    by (rule that [of "fst (process_file I ft cmd w)"])
      (simp_all add: process_file_def claim Let_def duplicate_keys,
       simp add: duplicate_result_def build_result_def Let_def)
qed

lemma replay_key:
  "\<exists>k. derive_fetch_unit_key digest partner workflow ftype date version
     (Some (replay_metadata v p rid file)) = Inr k"
  by (auto simp: derive_fetch_unit_key_def replay_metadata_def dget_def split: list.split pyval.split)

lemma wp_snd: "wp m (\<lambda>_. P) P w = P (snd (m w))"
  by (simp add: wp_def split: prod.split sum.split)

lemma ingest_wp:
  assumes "\<And>w. rw_ingest (snd (m w)) = rw_ingest w"
    and "\<And>x w'. rw_ingest w' = rw_ingest w \<Longrightarrow> Q x w'" "\<And>w'. rw_ingest w' = rw_ingest w \<Longrightarrow> E w'"
  shows "wp m Q E w"
  using assms(1) [of w] assms(2,3) by (auto simp: wp_def split: prod.split sum.split)

lemma report_ingest: "rw_ingest (snd (report v fault rid u w)) = rw_ingest w"
  by (simp add: report_def write_or_def split: option.split)

lemma observe_ingest: "rw_ingest (snd (observe_run v f run st msg d u w)) = rw_ingest w"
  by (simp add: observe_run_def best_effort_def)

lemma completed_loses_rows:
  assumes rec: "find_source_record fid w = Some file" "rf_status file = PS_COMPLETED" "rf_id file = fid"
    and u: "parse_uuid fid = Some u" and partner: "rf_partner file = mc_partner c"
    and hash: "ie_file_hash (pv_ingest v) path = Some (rf_file_hash file)"
    and only: "find_by_file_hash (rf_partner file) (rf_file_hash file) (iw_files (rw_ingest w)) = Some file"
    and faults: "pf_delete_rows f = None" "pf_delete_results f = None" "ft_claim (pf_pipeline f) = None"
  shows "stored_state fid (snd (replay_source v f p c rid run path file w)) =
    (delete_by_source_file u (iw_partner (rw_ingest w)), Some (counted file))"
proof -
  define w1 where "w1 = on_ingest (\<lambda>iw. iw\<lparr>iw_partner := delete_by_source_file u (iw_partner iw)\<rparr>) w"
  define w2 where "w2 = w1\<lparr>rw_results := delete_by_partner_and_date (mc_partner c) (date_text v (rf_date file)) (rw_results w1)\<rparr>"
  have clear: "clear_previous v f c file w = (Inr (), w2)"
    using assms by (simp add: clear_previous_def chain_def write_or_def pass_def w2_def w1_def)
  have s2: "stored_state fid w2 = (delete_by_source_file u (iw_partner (rw_ingest w)), Some (counted file))"
    and f2: "iw_files (rw_ingest w2) = iw_files (rw_ingest w)"
    using rec(1) by (simp_all add: stored_state_def w2_def w1_def on_ingest_def find_source_record_def)
  have replay: "wp (replay_file v f (replay_command v p c rid run path file)) Q E w'"
    if w': "rw_ingest w' = rw_ingest w2"
      and Q: "\<And>r w''. ir_ingestion_keys r = [] \<Longrightarrow> ir_file r = Some file \<Longrightarrow> stored_state fid w'' = stored_state fid w2 \<Longrightarrow> Q r w''"
    for Q E w'
  proof -
    obtain key where key: "derive_fetch_unit_key (ie_digest (pv_ingest v)) (mc_partner c) (mc_workflow_type c)
        (mc_file_type c) (re_iso (ie_run (pv_ingest v)) (rf_date file)) (mc_version c)
        (Some (replay_metadata v p rid file)) = Inr key"
      using replay_key by blast
    obtain r where "process_file ((pv_ingest v)\<lparr>ie_fast := True\<rparr>) (pf_pipeline f)
        (replay_command v p c rid run path file) ((rw_ingest w')\<lparr>iw_cache := (\<lambda>_. None)\<rparr>) =
          (r, (rw_ingest w')\<lparr>iw_cache := (\<lambda>_. None)\<rparr>)"
        "ir_ingestion_keys r = []" "ir_file r = Some file"
      by (rule completed_is_duplicate [of "(pv_ingest v)\<lparr>ie_fast := True\<rparr>"
            "replay_command v p c rid run path file" "rf_file_hash file" "pf_pipeline f"
            "(rw_ingest w')\<lparr>iw_cache := (\<lambda>_. None)\<rparr>" "file" key])
        (use hash only partner rec faults w' f2 key in \<open>simp_all add: replay_command_def\<close>)
    then show ?thesis
      using Q w' by (simp add: replay_keeps_posts stored_state_def find_source_record_def)
  qed
  have after: "wp (after_replay v f p c rid run (rf_date file) r file) (\<lambda>_ w''. stored_state fid w'' = stored_state fid w2)
      (\<lambda>w''. stored_state fid w'' = stored_state fid w2) w'"
    if "ir_ingestion_keys r = []" "stored_state fid w' = stored_state fid w2" for r w'
    using after_duplicate_keeps [OF that(1)] that(2) by (simp add: wp_snd keeps_store_def)
  have "wp (replay_source v f p c rid run path file) (\<lambda>_ w'. stored_state fid w' = stored_state fid w2)
      (\<lambda>w'. stored_state fid w' = stored_state fid w2) w"
    unfolding replay_source_def Let_def wp_chain clear wp_def [of "clear_previous v f c file"] prod.case sum.case
  proof (rule ingest_wp [OF report_ingest]; (rule same_ingest, assumption)?)
    fix x and w1 :: review_world assume w1: "rw_ingest w1 = rw_ingest w2"
    show "wp (observe_run v f run RT_INGESTING ''Ingesting partner file with the approved mapping.'' []
        (no_update\<lparr>ru_started_at := Some (pv_now v)\<rparr>))
        (\<lambda>_. wp (replay_file v f (replay_command v p c rid run path file))
          (\<lambda>r. wp (case ir_file r of None \<Rightarrow> raises ''Ingestion did not return a source file record.''
             | Some g \<Rightarrow> after_replay v f p c rid run (rf_date file) r g)
            (\<lambda>_ w'. stored_state fid w' = stored_state fid w2) (\<lambda>w'. stored_state fid w' = stored_state fid w2))
          (\<lambda>w'. stored_state fid w' = stored_state fid w2))
        (\<lambda>w'. stored_state fid w' = stored_state fid w2) w1"
      by (rule ingest_wp [OF observe_ingest]) (use w1 in \<open>auto intro!: replay after same_ingest\<close>)
  qed
  then show ?thesis
    by (simp add: wp_snd s2)
qed

lemma fail_run_keeps: "stored_state fid (snd (fail_post_run v f broken rid partner e w)) = stored_state fid w"
  by (simp add: fail_post_run_def chain_def report_def write_or_def close_runtime_def observe_run_def
      best_effort_def stored_state_def find_source_record_def Let_def split: option.split)

text \<open>C36: a packet whose file is stored as COMPLETED loses the file's rows when it is approved. They are
  deleted before the file is ingested again, but the document of a completed file is kept, so the
  ingestion refuses the same content as a duplicate: afterwards no row of the file is stored, while
  the document still says COMPLETED with its old count of rows.
\<close>

theorem approving_a_completed_file_loses_its_rows:
  assumes "find_packet pid (rw_packets w) = Some p" "find_config cid (rw_configs w) = Some c"
    and "rk_date p = Some d" "\<not> str_truthy (rk_raw_stage_key p)"
    and "str_or (rk_source_path p) None = Some path" "resolve_review_source_file v path = Some found"
    and "str_or (rk_source_file_id p) None = Some fid" "find_source_record fid w = Some src"
    and "rf_status src = PS_COMPLETED" "parse_uuid fid = Some u" "rf_partner src = mc_partner c"
    and "ie_file_hash (pv_ingest v) found = Some (rf_file_hash src)" "files_ok (iw_files (rw_ingest w))"
    and "pf_create f = None" "pf_delete_rows f = None" "pf_delete_results f = None"
    and "ft_claim (pf_pipeline f) = None"
  shows "stored_state fid (snd (run_post_approval v f None rid pid cid w)) =
    (filter (\<lambda>r. pr_source_file_id r \<noteq> u) (iw_partner (rw_ingest w)), Some (PS_COMPLETED, rf_success_rows src))"
proof -
  let ?w = "w\<lparr>rw_runtime := create_runtime_run (new_runtime v p c d) (rw_runtime w)\<rparr>"
  have id: "rf_id src = fid" and mem: "src \<in> set (iw_files (rw_ingest w))"
    using assms(8) by (auto simp: find_source_record_def find_Some_iff)
  have "find_by_file_hash (rf_partner src) (rf_file_hash src) (iw_files (rw_ingest w)) = Some src"
    using assms(13) mem
    by (auto simp: files_ok_def find_by_file_hash_def same_content_def find_Some_iff in_set_conv_nth
        distinct_conv_nth)
  then have lost: "stored_state fid (snd (replay_source v f p c rid (pv_runtime_id v) found src ?w)) =
      (delete_by_source_file u (iw_partner (rw_ingest w)), Some (counted src))"
    using completed_loses_rows [of fid ?w src u c v found f p rid "pv_runtime_id v"] assms id
    by (simp add: find_source_record_def)
  have "reconcile_approved_packet v f p c rid w = replay_source v f p c rid (pv_runtime_id v) found src ?w"
    using assms by (simp add: reconcile_approved_packet_def chain_def write_or_def pass_def
        replay_packet_file_def find_source_record_def)
  with lost assms show ?thesis
    by (auto simp: run_post_approval_def delete_by_source_file_def counted_def fail_run_keeps
        split: prod.split sum.split)
qed

theorem approving_a_completed_file_loses_its_rows_witness:
  "iw_partner (rw_ingest desk_world) = [desk_row] \<and>
   stored_state ''12345678123456781234567812345678''
     (snd (run_post_approval desk_env no_post_faults None ''run'' ''p'' ''c'' desk_world)) =
     ([], Some (PS_COMPLETED, 1))"
proof -
  have "stored_state ''12345678123456781234567812345678''
     (snd (run_post_approval desk_env no_post_faults None ''run'' ''p'' ''c'' desk_world)) =
    (filter (\<lambda>r. pr_source_file_id r \<noteq> ''12345678-1234-5678-1234-567812345678'')
       (iw_partner (rw_ingest desk_world)), Some (PS_COMPLETED, rf_success_rows desk_file))"
    by (rule approving_a_completed_file_loses_its_rows [where p = desk_packet and c = live_config
          and d = 0 and path = "''/in.csv''" and found = "''/in.csv''"]; code_simp)
  then show ?thesis
    by (simp add: desk_world_def desk_row_def desk_file_def new_file_def)
qed

end
