(* ===== verification/ContinueProps.thy ===== *)
theory ContinueProps
  imports PostGuarantees
begin

text \<open>
  The continuation of a run that waited for its quarantine: it settles the run or leaves it waiting,
  unless an operation outside its \<open>try\<close> block raises, which strands the run for good.
\<close>

section \<open>Taking a run\<close>

lemma first_guard:
  assumes "List.find (\<lambda>d. key d = k) ds = Some d" "g d"
  shows "List.find (\<lambda>d. key d = k \<and> g d) ds = Some d"
    and "update_first (\<lambda>d. key d = k \<and> g d) f ds = update_first (\<lambda>d. key d = k) f ds"
  using assms by (induction ds) (auto split: if_splits)

definition going_on :: post_update where
  "going_on = post_state PO_RECONCILING PG_RECONCILIATION
     ''Quarantine review completed. Reconciliation is continuing.''"

lemma take_found:
  assumes "find_post_run rid (rw_posts w) = Some r" "po_status r = PO_WAITING_REVIEW"
  shows "take_waiting v rid w =
    (Some (apply_post_update (pv_now v) going_on r), update_post_run (pv_now v) rid going_on w)"
  using first_guard [of po_id rid "rw_posts w" r "\<lambda>r. po_status r = PO_WAITING_REVIEW"] assms
  by (simp add: take_waiting_def find_and_update_doc_def find_post_run_def update_post_run_def going_on_def)

lemma take_refused:
  assumes "distinct (map po_id (rw_posts w))" "find_post_run rid (rw_posts w) = Some r"
    and "po_status r \<noteq> PO_WAITING_REVIEW"
  shows "take_waiting v rid w = (None, w)"
proof -
  have "List.find (\<lambda>r. po_id r = rid \<and> po_status r = PO_WAITING_REVIEW) rs = None"
    if "distinct (map po_id rs)" "List.find (\<lambda>r. po_id r = rid) rs = Some r" for rs
    using that assms(3)
  proof (induction rs)
    case (Cons x rs)
    then show ?case
      using find_key_None [of rid po_id rs] by (auto split: if_splits)
  qed simp
  with assms(1,2) show ?thesis
    by (simp add: take_waiting_def find_and_update_doc_def find_post_run_def)
qed

section \<open>Reconciling\<close>

lemma finalize_keeps: "keeps_desk (\<lambda>w. (Inr (), finalize_checkpoint v eid file r run w))"
  by (simp add: keeps_desk_def finalize_checkpoint_def Let_def split: option.split list.split)

lemma runtime_frame [wp_simps]:
  "is_queued rid (w\<lparr>rw_runtime := rs\<rparr>) = is_queued rid w"
  "is_settled rid (w\<lparr>rw_runtime := rs\<rparr>) = is_settled rid w"
  by (rule desk_frame; simp)+

lemma packets_frame [wp_simps]:
  "is_queued rid (w\<lparr>rw_packets := ps\<rparr>) = is_queued rid w"
  "is_settled rid (w\<lparr>rw_packets := ps\<rparr>) = is_settled rid w"
  "open_records rid fid (w\<lparr>rw_packets := ps\<rparr>) = open_records rid fid w"
  by (rule desk_frame; simp)+

lemma continue_reconcile_settles:
  assumes "is_queued rid w" "open_records rid (Some (rf_id file)) w = []"
  shows "settling rid (continue_reconcile v f eid rid r c file summary run) w"
  using assms unfolding continue_reconcile_def wp_chain
  by (auto simp: wp_simps settled_update same_desk_simps split: option.split
      intro!: keeps_wp [OF reconcile_keeps] keeps_wp [OF finalize_keeps])

lemma continue_gated_settles:
  assumes "is_queued rid w" "open_records rid (Some fid) w = []" "cf_packet_gate f = None"
  shows "is_settled rid (snd (continue_gated v f eid rid r p c fid summary w))"
proof (cases "find_source_record fid w")
  case None
  then show ?thesis
    using assms by (simp add: continue_gated_def continuation_unavailable_def settled_update)
next
  case (Some src)
  then have fid: "rf_id src = fid"
    by (auto simp: find_source_record_def find_Some_iff)
  define w1 where "w1 = w\<lparr>rw_packets := update_packet (rk_id p)
    (\<lambda>p. p\<lparr>rk_gate_status := BG_PASS, rk_gate_summary := summary, rk_post_run := Some rid\<rparr>) (rw_packets w)\<rparr>"
  have w1: "is_queued rid w1" "open_records rid (Some (rf_id src)) w1 = []"
    using assms(1,2) fid by (simp_all add: w1_def wp_simps)
  show ?thesis
    using continue_reconcile_settles [OF w1, of v f eid r c summary "continuation_runtime fid w1"] Some assms(3)
    by (auto simp: continue_gated_def chain_def write_or_def wp_def continue_failed_def settled_update
        simp flip: w1_def split: prod.splits sum.splits)
qed


definition desk_run :: post_run where
  "desk_run = (queued_run (\<lambda>_. []) ''run'' 0 desk_packet)
     \<lparr>po_status := PO_WAITING_REVIEW, po_output_file_id := Some ''12345678123456781234567812345678''\<rparr>"

definition desk_waiting :: review_world where
  "desk_waiting = desk_world\<lparr>rw_posts := [desk_run]\<rparr>"

lemma desk_waiting_simps:
  "find_post_run ''run'' (rw_posts desk_waiting) = Some desk_run" "po_status desk_run = PO_WAITING_REVIEW"
  "str_truthy (po_output_file_id desk_run)" "distinct (map po_id (rw_posts desk_waiting))"
  "find_packet (po_packet_id desk_run) (rw_packets desk_waiting) = Some desk_packet"
  "rw_ingest desk_waiting = rw_ingest desk_world"
  by (simp_all add: desk_waiting_def desk_run_def find_post_run_def queued_run_def find_packet_def
      desk_packet_def desk_world_def)

definition no_continue_faults :: continue_faults where
  "no_continue_faults =
     \<lparr>cf_gate = None, cf_packet_gate = None, cf_reconcile = None, cf_complete = None,
      cf_invalidate = None, cf_observe = False\<rparr>"


section \<open>A stranded run\<close>

text \<open>an exception of the continuation's quarantine query strands the run. The run has been moved
  to RECONCILING before the query and the query is outside the \<open>try\<close> block, so the exception leaves
  it there, and every later continuation, which looks for WAITING_REVIEW, passes it over: approved
  rows are never reconciled though their quarantine is closed.
\<close>

theorem raising_gate_strands_the_run:
  assumes "distinct (map po_id (rw_posts w))" "find_post_run rid (rw_posts w) = Some r"
    and "po_status r = PO_WAITING_REVIEW" "find_packet (po_packet_id r) (rw_packets w) = Some p"
    and "continuation_config p w = Some c" "str_truthy (po_output_file_id r)" "cf_gate f = Some e"
  shows "(case continue_waiting v f eid rid w of
      (x, w') \<Rightarrow> x = Inl e \<and> map_option po_status (find_post_run rid (rw_posts w')) = Some PO_RECONCILING \<and>
        continue_waiting v' f' eid' rid w' = (Inr Not_Waiting, w'))"
proof -
  define w1 where "w1 = update_post_run (pv_now v) rid going_on w"
  define r1 where "r1 = apply_post_update (pv_now v) going_on r"
  note take = take_found [OF assms(2,3), of v, folded w1_def r1_def]
  have packet: "find_packet (po_packet_id r1) (rw_packets w1) = Some p"
    using assms(4) by (simp add: w1_def r1_def apply_post_update_def)
  have "rw_configs w1 = rw_configs w"
    by (simp add: w1_def rw_configs_def)
  with assms(5) have config: "continuation_config p w1 = Some c"
    by (simp only: continuation_config_def)
  obtain fid where fid: "str_or (po_output_file_id r1) x = Some fid" for x
    using assms(6) by (auto simp: str_or_def str_truthy_def r1_def going_on_def split: option.splits list.splits)
  have stuck: "continue_waiting v f eid rid w = (Inl e, w1)"
    using take packet config fid assms(7) by (simp add: continue_waiting_def)
  have r1: "find_post_run rid (rw_posts w1) = Some r1" "po_status r1 = PO_RECONCILING"
    using assms(2) by (simp_all add: w1_def r1_def find_updated_run going_on_def)
  have "map po_id (rw_posts w1) = map po_id (rw_posts w)"
    by (simp add: w1_def update_post_run_def update_first_keys)
  then have "take_waiting v' rid w1 = (None, w1)"
    using assms(1) r1(2) by (intro take_refused [OF _ r1(1)]) simp_all
  with stuck r1 show ?thesis
    by (simp add: continue_waiting_def)
qed

theorem raising_gate_strands_the_run_witness:
  "(case continue_waiting desk_env (no_continue_faults\<lparr>cf_gate := Some ''down''\<rparr>) ''e'' ''run'' desk_waiting of
      (x, w') \<Rightarrow> x = Inl ''down'' \<and> map_option po_status (find_post_run ''run'' (rw_posts w')) = Some PO_RECONCILING \<and>
        continue_waiting desk_env no_continue_faults ''e'' ''run'' w' = (Inr Not_Waiting, w'))"
proof (rule raising_gate_strands_the_run [OF desk_waiting_simps(4,1,2,5) _ desk_waiting_simps(3)])
  show "continuation_config desk_packet desk_waiting = Some live_config"
    by (simp add: continuation_config_def desk_packet_def desk_waiting_simps desk_world_def str_or_def
        find_config_def rw_configs_def live_world_def live_config_def)
qed (simp add: no_continue_faults_def)

end
