(* ===== verification/BackfillRun.thy ===== *)
theory BackfillRun
  imports Backfill
begin

text \<open>
  Resuming a backfill after an approval, of \<open>src/src/application/automation/backfill_service.py\<close>,
  and the ordered execution of its days, \<open>src/src/application/automation/backfill_runner.py\<close>.
\<close>

section \<open>Resuming\<close>

definition retry_runtime_id :: "backfill_run \<Rightarrow> uuid \<Rightarrow> string" where
  "retry_runtime_id b fid = bf_id b @ '':approval-retry:'' @ fid"

definition is_current_day :: "backfill_run \<Rightarrow> backfill_day \<Rightarrow> bool" where
  "is_current_day b d \<longleftrightarrow> (case bf_current b of None \<Rightarrow> True | Some c \<Rightarrow> bd_date d = c)"

definition is_stale_queued :: "backfill_run \<Rightarrow> bool" where
  "is_stale_queued b \<longleftrightarrow>
     (bf_status b = BF_QUEUED \<or> bf_status b = BF_RUNNING) \<and> bf_workflow b \<noteq> None \<and>
     (\<exists>d \<in> set (bf_days b). (bd_status d = BD_WAITING_CONFIG \<or> bd_status d = BD_RUNNING) \<and> is_current_day b d)"

definition gateway_result :: "string \<Rightarrow> gateway_answer \<Rightarrow> backfill_error + submission" where
  "gateway_result unavailable a =
     (case a of
        GA_Conflict \<Rightarrow> Inl (BE_Conflict ''Workflow run ID collision.'')
      | GA_Unavailable \<Rightarrow> Inl (BE_Unavailable unavailable)
      | GA_Submitted s \<Rightarrow> Inr s)"

definition triggered :: "backfill_env \<Rightarrow> backfill_command \<Rightarrow> backfill_error + submission" where
  "triggered E cmd = gateway_result ''Workflow orchestration is unavailable.'' (be_trigger E cmd)"

definition settled_task :: "string \<Rightarrow> bool" where
  "settled_task s \<longleftrightarrow> s \<in> {''success'', ''failed'', ''upstream_failed'', ''up_for_retry''}"

definition stale_message :: string where
  "stale_message = ''Recovered after a stale backfill orchestration checkpoint.''"

definition not_finalized :: backfill_error where
  "not_finalized = BE_Conflict ''The workflow completed but the backfill checkpoint was not finalized.''"

definition reopen_day ::
  "backfill_env \<Rightarrow> backfill_run \<Rightarrow> backfill_day \<Rightarrow> backfill_store \<Rightarrow> backfill_store" where
  "reopen_day E b d bs =
     update_backfill (be_now E) (bf_id b)
       (\<lambda>x. x\<lparr>bf_status := BF_QUEUED, bf_approval_required := False, bf_current := bf_current b\<rparr>)
       (update_day (be_now E) (bf_id b) (bd_date d)
          (\<lambda>x. x\<lparr>bd_status := BD_WAITING_CONFIG, bd_message := Some stale_message\<rparr>) bs)"

text \<open>The gateway has the operations for the state of a task and for its retry, as the Airflow one has.\<close>

definition recover_stale ::
  "backfill_env \<Rightarrow> backfill_run \<Rightarrow> backfill_command \<Rightarrow> backfill_store
     \<Rightarrow> (backfill_error + submission) \<times> backfill_store" where
  "recover_stale E b cmd bs =
     (case bf_workflow b of
        None \<Rightarrow>
          (Inl (BE_Unavailable ''The existing backfill checkpoint cannot be recovered by its workflow provider.''), bs)
      | Some wr \<Rightarrow>
          (let task = (if wr_task_id wr = [] then ''run_stream'' else wr_task_id wr);
               index = (case wr_map_index wr of None \<Rightarrow> 0 | Some i \<Rightarrow> i)
           in case be_task_state E (wr_dag_run_id wr) task index of
                None \<Rightarrow> (Inl (BE_Unavailable ''Unable to inspect the existing backfill workflow.''), bs)
              | Some state \<Rightarrow>
                  if \<not> settled_task (ascii_lower state)
                  then (Inl (BE_Conflict
                    ''The existing backfill workflow is still active; wait for it before resuming.''), bs)
                  else
                    (case List.find (is_current_day b) (bf_days b) of
                       None \<Rightarrow> (Inl not_finalized, bs)
                     | Some d \<Rightarrow>
                         if ascii_lower state = ''success'' \<and> bd_status d \<noteq> BD_WAITING_CONFIG
                         then (Inl not_finalized, bs)
                         else
                           (let run = retry_runtime_id b (bc_fetch_config_id cmd)
                            in (if wr_dag_run_id wr \<noteq> ''manual__'' @ run
                                then triggered E (cmd\<lparr>bc_runtime_run_id := run\<rparr>)
                                else gateway_result ''The existing backfill workflow could not be retried.''
                                       (be_retry E (wr_dag_run_id wr) task index),
                                reopen_day E b d bs)))))"

text \<open>A waiting run is triggered under its own id, and under the retry id when that one exists.\<close>

definition trigger_resumed ::
  "backfill_env \<Rightarrow> backfill_run \<Rightarrow> fetch_job \<Rightarrow> string \<Rightarrow> backfill_error + submission" where
  "trigger_resumed E b j version =
     (case triggered E (command_for_run b j (Some version) (bf_id b)) of
        Inl e \<Rightarrow> Inl e
      | Inr s \<Rightarrow>
          if sb_state s = SB_ALREADY_EXISTS
          then triggered E (command_for_run b j (Some version) (retry_runtime_id b (fj_id j)))
          else Inr s)"

definition resumed :: "fetch_job \<Rightarrow> string \<Rightarrow> workflow_run \<Rightarrow> backfill_run \<Rightarrow> backfill_run" where
  "resumed j version wr b =
     b\<lparr>bf_status := BF_QUEUED, bf_approval_required := False, bf_config_version := Some (fj_updated_at j),
       bf_mapping_version := Some version, bf_workflow := Some wr\<rparr>"

definition resume_after_approval ::
  "backfill_env \<Rightarrow> fetch_job list \<Rightarrow> uuid \<Rightarrow> string \<Rightarrow> backfill_store
     \<Rightarrow> (backfill_error + backfill_run) \<times> backfill_store" where
  "resume_after_approval E js bid version bs =
     (case find_backfill bid bs of
        None \<Rightarrow> (Inl (BE_Not_Found ''Backfill run not found.''), bs)
      | Some b \<Rightarrow>
          if bf_status b \<noteq> BF_WAITING_CONFIG \<and> \<not> is_stale_queued b
          then (Inl (BE_Conflict ''Backfill is not waiting for mapping approval.''), bs)
          else
            (case List.find (\<lambda>j. fj_id j = bf_fetch_config_id b) js of
               None \<Rightarrow> (Inl (BE_Not_Found ''Backfill fetch configuration is no longer available.''), bs)
             | Some j \<Rightarrow>
                 if fj_partner j \<noteq> bf_partner b \<or> \<not> fj_enabled j
                 then (Inl (BE_Not_Found ''Backfill fetch configuration is no longer available.''), bs)
                 else
                   (case (if is_stale_queued b
                          then recover_stale E b (command_for_run b j (Some version) (bf_id b)) bs
                          else (trigger_resumed E b j version, bs)) of
                      (Inl e, bs) \<Rightarrow> (Inl e, bs)
                    | (Inr s, bs) \<Rightarrow>
                        (Inr (resumed j version (workflow_of b s) b),
                         update_backfill (be_now E) bid (resumed j version (workflow_of b s)) bs))))"

section \<open>Running the days\<close>

datatype stream_outcome =
  SO_COMPLETED | SO_NO_DATA | SO_ALREADY_PROCESSED | SO_SAFE_DUPLICATE | SO_PARTIAL |
  SO_WAITING_REVIEW | SO_BLOCKED | SO_FAILED

fun stream_outcome_value :: "stream_outcome \<Rightarrow> string" where
  "stream_outcome_value SO_COMPLETED = ''COMPLETED''"
| "stream_outcome_value SO_NO_DATA = ''NO_DATA''"
| "stream_outcome_value SO_ALREADY_PROCESSED = ''ALREADY_PROCESSED''"
| "stream_outcome_value SO_SAFE_DUPLICATE = ''SAFE_DUPLICATE''"
| "stream_outcome_value SO_PARTIAL = ''PARTIAL''"
| "stream_outcome_value SO_WAITING_REVIEW = ''WAITING_REVIEW''"
| "stream_outcome_value SO_BLOCKED = ''BLOCKED''"
| "stream_outcome_value SO_FAILED = ''FAILED''"

definition success_outcome :: "stream_outcome \<Rightarrow> bool" where
  "success_outcome oc \<longleftrightarrow>
     oc \<in> {SO_COMPLETED, SO_NO_DATA, SO_ALREADY_PROCESSED, SO_SAFE_DUPLICATE, SO_PARTIAL}"

record day_answer =
  da_outcome :: stream_outcome
  da_runtime_run_id :: "string option"
  da_message :: "string option"
  da_error_code :: "string option"

datatype run_answer =
  Days_Completed nat nat
| Days_Waiting string nat
| Days_Stopped stream_outcome "string option" string nat
| Claim_Refused int nat
| Day_Raised string

definition truthy_text :: "string option \<Rightarrow> string \<Rightarrow> string" where
  "truthy_text t alt = (case str_or t None of None \<Rightarrow> alt | Some s \<Rightarrow> s)"

definition day_ends :: "day_status \<Rightarrow> day_answer \<Rightarrow> string \<Rightarrow> backfill_day \<Rightarrow> backfill_day" where
  "day_ends st a msg d = d\<lparr>bd_status := st, bd_runtime_run_id := da_runtime_run_id a, bd_message := Some msg\<rparr>"

text \<open>The next day of the snapshot that was read when the run started.\<close>

definition next_date :: "backfill_day list \<Rightarrow> int \<Rightarrow> int option" where
  "next_date snapshot date =
     map_option bd_date (List.find (\<lambda>d. date < bd_date d \<and> bd_status d \<noteq> BD_COMPLETED) snapshot)"

text \<open>
  The loop over the days of the snapshot: \<open>pick\<close> is the database's choice in each claim, \<open>exec\<close> the
  execution of a day, which answers or raises, and \<open>n\<close> the number of completed days.
\<close>

fun run_days ::
  "datetime \<Rightarrow> (int \<Rightarrow> bool) \<Rightarrow> (int \<Rightarrow> string + day_answer) \<Rightarrow> uuid \<Rightarrow> backfill_day list
     \<Rightarrow> backfill_day list \<Rightarrow> nat \<Rightarrow> backfill_store \<Rightarrow> run_answer \<times> backfill_store" where
  "run_days now pick exec bid snapshot [] n bs =
     (Days_Completed n (length snapshot),
      update_backfill now bid (\<lambda>b. b\<lparr>bf_status := BF_COMPLETED, bf_completed_days := n, bf_current := None\<rparr>) bs)"
| "run_days now pick exec bid snapshot (d # ds) n bs =
     (if bd_status d = BD_COMPLETED then run_days now pick exec bid snapshot ds n bs
      else
        (let date = bd_date d
         in case claim_day now (pick date) bid date bs of
              (False, bs) \<Rightarrow> (Claim_Refused date n, bs)
            | (True, bs) \<Rightarrow>
                (case exec date of
                   Inl e \<Rightarrow> (Day_Raised e, bs)
                 | Inr a \<Rightarrow>
                     if success_outcome (da_outcome a)
                     then run_days now pick exec bid snapshot ds (n + 1)
                            (update_backfill now bid
                               (\<lambda>b. b\<lparr>bf_completed_days := n + 1, bf_current := next_date snapshot date\<rparr>)
                               (update_day now bid date
                                  (day_ends BD_COMPLETED a
                                     (truthy_text (da_message a) (stream_outcome_value (da_outcome a)))) bs))
                     else if da_outcome a = SO_WAITING_REVIEW
                     then (let msg = truthy_text (da_message a) ''Mapping approval is required.''
                           in (Days_Waiting msg n,
                               update_backfill now bid
                                 (\<lambda>b. b\<lparr>bf_status := BF_WAITING_CONFIG, bf_approval_required := True,
                                        bf_current := Some date\<rparr>)
                                 (update_day now bid date (day_ends BD_WAITING_CONFIG a msg) bs)))
                     else (Days_Stopped (da_outcome a) (da_error_code a)
                             (truthy_text (da_message a) (stream_outcome_value (da_outcome a))) n,
                           update_backfill now bid
                             (\<lambda>b. b\<lparr>bf_status := BF_FAILED, bf_completed_days := n, bf_current := Some date\<rparr>)
                             (update_day now bid date
                                (day_ends BD_FAILED a
                                   (truthy_text (da_message a)
                                      (truthy_text (da_error_code a) (stream_outcome_value (da_outcome a))))) bs)))))"

text \<open>\<^const>\<open>None\<close> is the \<open>ValueError\<close> of a run that does not exist.\<close>

definition execute_ordered_backfill ::
  "datetime \<Rightarrow> (int \<Rightarrow> bool) \<Rightarrow> (int \<Rightarrow> string + day_answer) \<Rightarrow> uuid \<Rightarrow> backfill_store
     \<Rightarrow> run_answer option \<times> backfill_store" where
  "execute_ordered_backfill now pick exec bid bs =
     (case find_backfill bid bs of
        None \<Rightarrow> (None, bs)
      | Some b \<Rightarrow>
          (case run_days now pick exec bid (bf_days b) (bf_days b) (bf_completed_days b)
                  (update_backfill now bid (\<lambda>b. b\<lparr>bf_status := BF_RUNNING\<rparr>) bs) of
             (r, bs) \<Rightarrow> (Some r, bs)))"

end
