(* ===== verification/ReviewWorkflow.thy ===== *)
theory ReviewWorkflow
  imports PostReplay BackfillRun
begin

text \<open>
  Decisions on a review packet: \<open>src/src/application/review/actions.py\<close> and the decisions of
  \<open>src/src/application/review/mapping_workflow.py\<close>, with the gate check of
  \<open>src/src/application/review/mapping_support.py\<close>. Generating and editing a draft are not modelled.
\<close>

section \<open>Environment\<close>

text \<open>
  \<open>de_gateway\<close> is the workflow provider of a backfill, \<^const>\<open>None\<close> when it is not configured;
  \<open>de_runs\<close> the id a queued run gets, \<open>de_date\<close> the text of a packet's business date.
\<close>

record decision_env =
  de_now :: datetime
  de_date :: "datetime \<Rightarrow> string"
  de_run_id :: uuid
  de_gateway :: "backfill_env option"
  de_jobs :: "fetch_job list"

datatype decision_error = DE_Review review_error | DE_Backfill backfill_error

datatype decision_effect = Run_Queued post_run | Backfill_Resumed backfill_run

record decision_answer =
  dn_packet :: review_packet
  dn_effect :: "decision_effect option"

section \<open>The packet\<close>

definition has_passing_runtime_gate :: "review_packet \<Rightarrow> bool" where
  "has_passing_runtime_gate p \<longleftrightarrow>
     list_ex (\<lambda>g. dget g ''gateKey'' = VStr ''runtime_validation'' \<and>
       (case dget g ''status'' of VStr s \<Rightarrow> ascii_lower s = ''pass'' | _ \<Rightarrow> False)) (rk_gates p)"

definition decision_action_status :: "packet_status \<Rightarrow> action_status" where
  "decision_action_status st = (if st = RK_APPROVED then CA_APPROVED else CA_REJECTED)"

text \<open>\<open>sync_action_status\<close>: the reviewer is not written.\<close>

definition sync_action_status ::
  "datetime \<Rightarrow> uuid option \<Rightarrow> action_status \<Rightarrow> action_store \<Rightarrow> action_store" where
  "sync_action_status now aid st cs =
     (case str_or aid None of
        None \<Rightarrow> cs
      | Some i \<Rightarrow> update_first (\<lambda>a. ca_id a = i) (\<lambda>a. a\<lparr>ca_status := st, ca_reviewed_at := Some now\<rparr>) cs)"

definition packet_audit ::
  "decision_env \<Rightarrow> review_packet \<Rightarrow> packet_status \<Rightarrow> decision_mode \<Rightarrow> string option \<Rightarrow> audit_record" where
  "packet_audit E p st mode actor =
     \<lparr>ar_entity_type = ''REVIEW_PACKET'', ar_entity_id = rk_id p, ar_action = decision_mode_value mode,
      ar_actor = actor,
      ar_metadata =
        [(''partner'', VStr (rk_partner p)), (''date'', text_value (map_option (de_date E) (rk_date p))),
         (''status'', VStr (packet_status_value st)),
         (''reference'', text_value (str_or (rk_draft_version p) (str_or (rk_draft p) (rk_source_file_id p)))),
         (''draftMappingId'', text_value (rk_draft p)),
         (''draftMappingVersion'', text_value (rk_draft_version p)),
         (''sourceFileId'', text_value (rk_source_file_id p))]\<rparr>"

definition decided ::
  "decision_env \<Rightarrow> packet_status \<Rightarrow> decision_mode \<Rightarrow> string option \<Rightarrow> review_packet \<Rightarrow> review_packet" where
  "decided E st mode actor p =
     p\<lparr>rk_status := st, rk_decision := Some mode, rk_reviewed_at := Some (de_now E), rk_reviewed_by := actor\<rparr>"

definition pass_gates :: "packet_status \<Rightarrow> pydict list \<Rightarrow> review_packet \<Rightarrow> review_packet" where
  "pass_gates st gates p =
     (if st = RK_APPROVED then p\<lparr>rk_gates := map (\<lambda>g. dput g ''status'' (VStr ''pass'')) gates\<rparr> else p)"

text \<open>The stored packet gets the gates as they were read, all passing.\<close>

definition mark_packet ::
  "decision_env \<Rightarrow> uuid \<Rightarrow> packet_status \<Rightarrow> decision_mode \<Rightarrow> string option \<Rightarrow> review_world
     \<Rightarrow> (review_error + review_packet) \<times> review_world" where
  "mark_packet E pid st mode actor w =
     (case find_packet pid (rw_packets w) of
        None \<Rightarrow> (Inl RE_Not_Found, w)
      | Some p \<Rightarrow>
          if rk_status p \<noteq> RK_PENDING then (Inl RE_Conflict, w)
          else (Inr (decided E st mode actor p),
                w\<lparr>rw_packets := update_packet pid (\<lambda>q. pass_gates st (rk_gates p) (decided E st mode actor q))
                                  (rw_packets w),
                  rw_actions := sync_action_status (de_now E) (rk_action p) (decision_action_status st)
                                  (rw_actions w),
                  rw_audit := snd (record_audit_event (packet_audit E p st mode actor) (rw_audit w))\<rparr>))"

definition update_packet_scope ::
  "uuid \<Rightarrow> review_packet \<Rightarrow> scope_type option \<Rightarrow> review_world \<Rightarrow> review_packet \<times> review_world" where
  "update_packet_scope pid p scope w =
     (case scope of
        None \<Rightarrow> (p, w)
      | Some sc \<Rightarrow>
          (p\<lparr>rk_scope := Some sc\<rparr>,
           (let w = w\<lparr>rw_packets := update_packet pid (\<lambda>q. q\<lparr>rk_scope := Some sc\<rparr>) (rw_packets w)\<rparr>
            in case str_or (rk_source_file_id p) None of
                 None \<Rightarrow> w
               | Some fid \<Rightarrow> on_ingest (\<lambda>iw. iw\<lparr>iw_files := set_file_scope fid sc (iw_files iw)\<rparr>) w)))"

section \<open>Actions of an approval\<close>

definition reviewed_health :: "datetime \<Rightarrow> mapping_config \<Rightarrow> pydict" where
  "reviewed_health now c =
     (let h = health_of c
      in dput (dput (dput (dput h ''stale'' (VBool False)) ''status'' (VStr ''APPROVED''))
           ''approvedAt'' (VTime now)) ''reasoning''
           (if truthy (dget h ''reasoning'') then dget h ''reasoning''
            else VStr ''Approved from review packet.''))"

definition activate_draft ::
  "decision_env \<Rightarrow> string option \<Rightarrow> mapping_config \<Rightarrow> review_world \<Rightarrow> review_world" where
  "activate_draft E actor c w =
     put_configs (activate_config (de_now E) actor (reviewed_health (de_now E) c) c (rw_configs w)) w"

definition resume_backfill ::
  "decision_env \<Rightarrow> uuid \<Rightarrow> mapping_config \<Rightarrow> review_world
     \<Rightarrow> (decision_error + decision_effect option) \<times> review_world" where
  "resume_backfill E bid c w =
     (case de_gateway E of
        None \<Rightarrow> (Inl (DE_Review RE_Unavailable), w)
      | Some B \<Rightarrow>
          (case resume_after_approval B (de_jobs E) bid (truthy_text (mc_version c) []) (rw_backfills w) of
             (Inl e, bs) \<Rightarrow> (Inl (DE_Backfill e), w\<lparr>rw_backfills := bs\<rparr>)
           | (Inr b, bs) \<Rightarrow> (Inr (Some (Backfill_Resumed b)), w\<lparr>rw_backfills := bs\<rparr>)))"

definition queue_replay ::
  "decision_env \<Rightarrow> review_packet \<Rightarrow> mapping_config \<Rightarrow> review_world
     \<Rightarrow> (decision_error + decision_effect option) \<times> review_world" where
  "queue_replay E p c w =
     (let (run, w) = queue_post_approval (de_date E) (de_run_id E) (de_now E) p c w
      in (Inr (Some (Run_Queued run)), w))"

text \<open>\<open>approve_packet_mapping_and_reprocess\<close>, with the packet as it was read.\<close>

definition approve_packet_mapping ::
  "decision_env \<Rightarrow> review_packet \<Rightarrow> string option \<Rightarrow> review_world
     \<Rightarrow> (decision_error + decision_effect option) \<times> review_world" where
  "approve_packet_mapping E p actor w =
     (case str_or (rk_draft p) None of
        None \<Rightarrow> (Inr None, w)
      | Some cid \<Rightarrow>
          (case find_config cid (rw_configs w) of
             None \<Rightarrow> (Inr None, w)
           | Some c \<Rightarrow>
               if mc_status c \<noteq> CS_PENDING_APPROVAL \<and> mc_status c \<noteq> CS_APPROVED then (Inr None, w)
               else
                 (let w = (if mc_status c = CS_PENDING_APPROVAL then activate_draft E actor c w else w)
                  in case str_or (rk_backfill p) None of
                       Some bid \<Rightarrow> resume_backfill E bid c w
                     | None \<Rightarrow> queue_replay E p c w)))"

definition reprocess_with_current ::
  "decision_env \<Rightarrow> review_packet \<Rightarrow> review_world
     \<Rightarrow> (decision_error + decision_effect option) \<times> review_world" where
  "reprocess_with_current E p w =
     (case str_or (rk_active_config p) None of
        None \<Rightarrow> (Inr None, w)
      | Some cid \<Rightarrow>
          (case find_config cid (rw_configs w) of
             None \<Rightarrow> (Inr None, w)
           | Some c \<Rightarrow> if mc_status c \<noteq> CS_APPROVED then (Inr None, w) else queue_replay E p c w))"

section \<open>Decisions\<close>

definition gate_error :: review_error where
  "gate_error = RE_Validation [''Runtime validation must pass before approval.'']"

text \<open>What follows the action: the packet is marked, if it is still pending.\<close>

definition mark_decided ::
  "decision_env \<Rightarrow> uuid \<Rightarrow> decision_mode \<Rightarrow> string option
     \<Rightarrow> (decision_error + decision_effect option) \<times> review_world
     \<Rightarrow> (decision_error + decision_answer) \<times> review_world" where
  "mark_decided E pid mode actor r =
     (case r of
        (Inl e, w) \<Rightarrow> (Inl e, w)
      | (Inr effect, w) \<Rightarrow>
          (case mark_packet E pid RK_APPROVED mode actor w of
             (Inl e, w) \<Rightarrow> (Inl (DE_Review e), w)
           | (Inr p, w) \<Rightarrow> (Inr \<lparr>dn_packet = p, dn_effect = effect\<rparr>, w)))"

text \<open>The part of an approval behind the reads and checks of the packet \<open>p\<close>.\<close>

definition activate_pending ::
  "decision_env \<Rightarrow> uuid \<Rightarrow> review_packet \<Rightarrow> string option \<Rightarrow> scope_type option \<Rightarrow> review_world
     \<Rightarrow> (decision_error + decision_answer) \<times> review_world" where
  "activate_pending E pid p actor scope w =
     (case update_packet_scope pid p scope w of
        (p, w) \<Rightarrow> mark_decided E pid DM_ACTIVATE_NEXT_RUNTIME actor (approve_packet_mapping E p actor w))"

definition already_approved_backfill :: "review_packet \<Rightarrow> bool" where
  "already_approved_backfill p \<longleftrightarrow>
     rk_status p = RK_APPROVED \<and> rk_decision p = Some DM_ACTIVATE_NEXT_RUNTIME \<and> str_truthy (rk_backfill p)"

definition approve_activate ::
  "decision_env \<Rightarrow> uuid \<Rightarrow> string option \<Rightarrow> scope_type option \<Rightarrow> review_world
     \<Rightarrow> (decision_error + decision_answer) \<times> review_world" where
  "approve_activate E pid actor scope w =
     (case find_packet pid (rw_packets w) of
        None \<Rightarrow> (Inl (DE_Review RE_Not_Found), w)
      | Some p \<Rightarrow>
          if already_approved_backfill p
          then (if \<not> has_passing_runtime_gate p then (Inl (DE_Review gate_error), w)
                else (case approve_packet_mapping E p actor w of
                        (Inl e, w) \<Rightarrow> (Inl e, w)
                      | (Inr effect, w) \<Rightarrow> (Inr \<lparr>dn_packet = p, dn_effect = effect\<rparr>, w)))
          else if rk_status p \<noteq> RK_PENDING then (Inl (DE_Review RE_Conflict), w)
          else if \<not> has_passing_runtime_gate p then (Inl (DE_Review gate_error), w)
          else activate_pending E pid p actor scope w)"

definition approve_keep_current ::
  "decision_env \<Rightarrow> uuid \<Rightarrow> string option \<Rightarrow> scope_type option \<Rightarrow> review_world
     \<Rightarrow> (decision_error + decision_answer) \<times> review_world" where
  "approve_keep_current E pid actor scope w =
     (case find_packet pid (rw_packets w) of
        None \<Rightarrow> (Inl (DE_Review RE_Not_Found), w)
      | Some p \<Rightarrow>
          if rk_status p \<noteq> RK_PENDING then (Inl (DE_Review RE_Conflict), w)
          else if \<not> has_passing_runtime_gate p then (Inl (DE_Review gate_error), w)
          else (case update_packet_scope pid p scope w of
                  (p, w) \<Rightarrow> mark_decided E pid DM_KEEP_CURRENT actor (reprocess_with_current E p w)))"

definition reject_packet ::
  "decision_env \<Rightarrow> uuid \<Rightarrow> string option \<Rightarrow> review_world
     \<Rightarrow> (review_error + review_packet) \<times> review_world" where
  "reject_packet E pid actor w =
     (case find_packet pid (rw_packets w) of
        None \<Rightarrow> (Inl RE_Not_Found, w)
      | Some p \<Rightarrow>
          if rk_status p \<noteq> RK_PENDING then (Inl RE_Conflict, w)
          else mark_packet E pid RK_REJECTED DM_REJECT actor w)"

end
