(* ===== verification/MappingProps.thy ===== *)
theory MappingProps
  imports MappingApproval IngestionDemo
begin

text \<open>
  At most one approved configuration per partner, workflow and file type: kept by every operation
  that runs alone, and lost by two approvals that interleave.
\<close>

section \<open>The invariant\<close>

definition config_key :: "mapping_config \<Rightarrow> string \<times> string \<times> string" where
  "config_key c = (mc_partner c, mc_workflow_type c, mc_file_type c)"

definition approved_keys :: "config_store \<Rightarrow> (string \<times> string \<times> string) list" where
  "approved_keys cs = map config_key (filter (\<lambda>c. mc_status c = CS_APPROVED) cs)"

definition configs_ok :: "config_store \<Rightarrow> bool" where
  "configs_ok cs \<longleftrightarrow> distinct (map mc_id cs) \<and> distinct (approved_keys cs)"

lemma find_approved:
  "find_by_partner_and_type p w t cs = List.find (\<lambda>c. config_key c = (p, w, t) \<and> mc_status c = CS_APPROVED) cs"
  by (simp add: find_by_partner_and_type_def config_key_def conj_assoc)

text \<open>Taking a status away keeps the keys distinct; no key is added to those that remain.\<close>

lemma demoted_keys:
  assumes "\<And>c. mc_status (g c) \<noteq> CS_APPROVED"
  shows "distinct (approved_keys cs) \<Longrightarrow> distinct (approved_keys (update_first p g cs))"
    and "set (approved_keys (update_first p g cs)) \<subseteq> set (approved_keys cs)"
proof -
  show sub: "set (approved_keys (update_first p g cs)) \<subseteq> set (approved_keys cs)" for cs
    using assms by (induction cs) (auto simp: approved_keys_def)
  show "distinct (approved_keys cs) \<Longrightarrow> distinct (approved_keys (update_first p g cs))"
  proof (induction cs)
    case (Cons c cs)
    then show ?case
      using assms sub [of cs] by (auto simp: approved_keys_def)
  qed (simp add: approved_keys_def)
qed

text \<open>After the approved configuration of a key is superseded, the key is free.\<close>

lemma demoted_frees:
  assumes "\<And>c. mc_status (g c) \<noteq> CS_APPROVED"
  shows "distinct (approved_keys cs) \<Longrightarrow> distinct (map mc_id cs) \<Longrightarrow>
    List.find (\<lambda>c. config_key c = k \<and> mc_status c = CS_APPROVED) cs = Some d \<Longrightarrow>
    k \<notin> set (approved_keys (update_first (\<lambda>c. mc_id c = mc_id d) g cs))"
proof (induction cs)
  case (Cons c cs)
  show ?case
  proof (cases "config_key c = k \<and> mc_status c = CS_APPROVED")
    case True
    then show ?thesis
      using Cons.prems assms by (auto simp: approved_keys_def)
  next
    case False
    then have "List.find (\<lambda>c. config_key c = k \<and> mc_status c = CS_APPROVED) cs = Some d"
      using Cons.prems(3) by (simp split: if_splits)
    moreover from this have "mc_id c \<noteq> mc_id d"
      using Cons.prems(2) by (force simp: find_Some_iff)
    ultimately show ?thesis
      using Cons False by (auto simp: approved_keys_def split: if_splits)
  qed
qed simp

lemma not_found_free:
  "List.find (\<lambda>c. config_key c = k \<and> mc_status c = CS_APPROVED) cs = None \<Longrightarrow> k \<notin> set (approved_keys cs)"
  by (auto simp: approved_keys_def find_None)

lemma supersede_frees:
  assumes "distinct (approved_keys cs)" "distinct (map mc_id cs)"
  shows "config_key c \<notin> set (approved_keys (supersede_current now c cs))"
    and "distinct (approved_keys (supersede_current now c cs))"
    and "map mc_id (supersede_current now c cs) = map mc_id cs"
proof -
  define g :: "mapping_config \<Rightarrow> mapping_config" where "g = (\<lambda>d. d\<lparr>mc_status := CS_SUPERSEDED, mc_superseded_at := Some now, mc_superseded_by := Some (mc_id c)\<rparr>)"
  have g: "mc_status (g d) \<noteq> CS_APPROVED" "mc_id (g d) = mc_id d" for d
    by (simp_all add: g_def)
  have eq: "supersede_current now c cs =
      (case List.find (\<lambda>d. config_key d = config_key c \<and> mc_status d = CS_APPROVED) cs of
         None \<Rightarrow> cs | Some d \<Rightarrow> update_first (\<lambda>x. mc_id x = mc_id d) g cs)"
    by (auto simp: supersede_current_def find_approved mark_superseded_def config_key_def g_def split: option.split)
  show "config_key c \<notin> set (approved_keys (supersede_current now c cs))"
    using demoted_frees [of g, OF g(1) assms] by (simp add: eq not_found_free split: option.split)
  show "distinct (approved_keys (supersede_current now c cs))"
    using demoted_keys(1) [of g, OF g(1) assms(1)] assms(1) by (simp add: eq split: option.split)
  show "map mc_id (supersede_current now c cs) = map mc_id cs"
    using g(2) by (simp add: eq update_first_keys split: option.split)
qed

text \<open>Approving one configuration whose key is free.\<close>

lemma promoted_keys:
  assumes "\<And>c. config_key (g c) = config_key c" "\<And>c. mc_id (g c) = mc_id c"
  shows "distinct (map mc_id cs) \<Longrightarrow> distinct (approved_keys cs) \<Longrightarrow>
    (\<And>c. c \<in> set cs \<Longrightarrow> mc_id c = i \<Longrightarrow> config_key c \<notin> set (approved_keys cs)) \<Longrightarrow>
    distinct (approved_keys (update_first (\<lambda>c. mc_id c = i) g cs))"
proof (induction cs)
  case (Cons c cs)
  have keys: "set (approved_keys (update_first (\<lambda>c. mc_id c = i) g xs)) \<subseteq>
      set (approved_keys xs) \<union> config_key ` {x \<in> set xs. mc_id x = i}" for xs
    using assms by (induction xs) (auto simp: approved_keys_def)
  show ?case
  proof (cases "mc_id c = i")
    case True
    then show ?thesis
      using Cons.prems assms by (auto simp: approved_keys_def split: if_splits)
  next
    case False
    then have "distinct (approved_keys (update_first (\<lambda>c. mc_id c = i) g cs))"
      using Cons.prems by (intro Cons.IH) (auto simp: approved_keys_def split: if_splits)
    moreover have "config_key c \<notin> set (approved_keys (update_first (\<lambda>c. mc_id c = i) g cs))"
      if "mc_status c = CS_APPROVED"
      using keys [of cs] Cons.prems that False by (auto simp: approved_keys_def)
    ultimately show ?thesis
      using False by (auto simp: approved_keys_def)
  qed
qed (simp add: approved_keys_def)

section \<open>The operations\<close>

lemma put_configs_simps [simp]: "rw_configs (put_configs cs w) = cs"
  "rw_configs (w\<lparr>rw_actions := a\<rparr>) = rw_configs w" "rw_configs (w\<lparr>rw_packets := ps\<rparr>) = rw_configs w"
  "rw_configs (w\<lparr>rw_audit := t\<rparr>) = rw_configs w" "rw_configs (w\<lparr>rw_counters := n\<rparr>) = rw_configs w"
  by (simp_all add: put_configs_def rw_configs_def)

lemma supersede_members:
  assumes "d \<in> set (supersede_current now c cs)"
  shows "\<exists>e \<in> set cs. mc_id d = mc_id e \<and> config_key d = config_key e"
proof -
  have "map (\<lambda>d. (mc_id d, config_key d)) (supersede_current now c cs) = map (\<lambda>d. (mc_id d, config_key d)) cs"
    by (simp add: supersede_current_def mark_superseded_def update_first_keys config_key_def split: option.split)
  then have "(mc_id d, config_key d) \<in> (\<lambda>d. (mc_id d, config_key d)) ` set cs"
    using assms by (metis (no_types, lifting) image_eqI list.set_map)
  then show ?thesis by auto
qed

lemma activate_ok:
  assumes "configs_ok cs" "c \<in> set cs"
  shows "configs_ok (activate_config now actor health c cs)"
proof -
  note free = supersede_frees [where cs = cs and c = c and now = now]
  have key: "config_key d = config_key c" if "d \<in> set (supersede_current now c cs)" "mc_id d = mc_id c" for d
    using supersede_members [OF that(1)] that(2) assms
    by (auto simp: configs_ok_def inj_on_def distinct_map)
  show ?thesis
    using assms free key
    by (auto simp: configs_ok_def activate_config_def mark_approved_def update_first_keys config_key_def
        intro!: promoted_keys)
qed

lemma approve_ok:
  assumes "configs_ok (rw_configs w)"
  shows "configs_ok (rw_configs (snd (approve_mapping now cid actor conf reason w)))"
proof (cases "find_config cid (rw_configs w)")
  case (Some c)
  then have "c \<in> set (rw_configs w)"
    by (auto simp: find_config_def find_Some_iff)
  with Some assms show ?thesis
    by (simp add: approve_mapping_def Let_def activate_ok)
qed (simp add: approve_mapping_def assms)

lemma reject_ok:
  assumes "configs_ok (rw_configs w)"
  shows "configs_ok (rw_configs (snd (reject_mapping now cid actor w)))"
  using assms demoted_keys(1)
  by (auto simp: reject_mapping_def Let_def mark_rejected_def configs_ok_def update_first_keys split: option.split)

lemma replaced_map:
  assumes "distinct (map mc_id cs)" "d \<in> set cs" "f c = f d"
  shows "map f (update_first (\<lambda>x. mc_id x = mc_id d) (\<lambda>_. c) cs) = map f cs"
  using assms by (induction cs) (auto simp: image_iff)

lemma keys_of_map: "approved_keys cs = map snd (filter fst (map (\<lambda>c. (mc_status c = CS_APPROVED, config_key c)) cs))"
  by (induction cs) (simp_all add: approved_keys_def)

lemma replaced_ok:
  assumes "configs_ok cs" "d \<in> set cs" "mc_id c = mc_id d" "mc_status c = mc_status d" "config_key c = config_key d"
  shows "configs_ok (replace_approved c cs)"
  using assms
  by (simp add: configs_ok_def replace_approved_def keys_of_map replaced_map cong: map_cong)

lemma save_ok:
  assumes "configs_ok (rw_configs w)" "mc_id c \<notin> set (map mc_id (rw_configs w))"
  shows "configs_ok (rw_configs (snd (save_mapping now c actor w)))"
proof -
  let ?cs = "rw_configs w"
  obtain version counters where v: "(if needs_version c
      then (case allocate_next_version (mc_partner c) ?cs (rw_counters w) of (x, n) \<Rightarrow> (Some x, n))
      else (mc_version c, rw_counters w)) = (version, counters)"
    by fastforce
  define c1 where "c1 = c\<lparr>mc_version := version, mc_status := CS_APPROVED, mc_approved_at := Some now,
    mc_approved_by := actor, mc_health := Some (saved_health now)\<rparr>"
  have c1: "mc_status c1 = CS_APPROVED" "config_key c1 = config_key c" "mc_id c1 = mc_id c"
    "config_key (c1\<lparr>mc_id := i\<rparr>) = config_key c" for i
    by (simp_all add: c1_def config_key_def)
  show ?thesis
  proof (cases "find_by_partner_and_type (mc_partner c) (mc_workflow_type c) (mc_file_type c) ?cs")
    case None
    then have "config_key c \<notin> set (approved_keys ?cs)"
      using not_found_free by (simp add: find_approved config_key_def)
    moreover have "rw_configs (snd (save_mapping now c actor w)) = ?cs @ [c1]"
      using None v by (simp add: save_mapping_def c1_def insert_approved_def Let_def)
    ultimately show ?thesis
      using assms c1 by (auto simp: configs_ok_def approved_keys_def)
  next
    case (Some d)
    then have d: "d \<in> set ?cs" "mc_status d = CS_APPROVED" "config_key d = config_key c"
      by (auto simp: find_approved find_Some_iff config_key_def)
    have "rw_configs (snd (save_mapping now c actor w)) = replace_approved (c1\<lparr>mc_id := mc_id d\<rparr>) ?cs"
      using Some v by (simp add: save_mapping_def c1_def Let_def)
    with replaced_ok [OF assms(1) d(1)] d c1 show ?thesis
      by simp
  qed
qed

section \<open>Histories\<close>

text \<open>The operations of the service, one after another; a saved mapping is a new document.\<close>

inductive mapping_step :: "review_world \<Rightarrow> review_world \<Rightarrow> bool" where
  step_approve: "mapping_step w (snd (approve_mapping now cid actor conf reason w))"
| step_reject: "mapping_step w (snd (reject_mapping now cid actor w))"
| step_save: "mc_id c \<notin> set (map mc_id (rw_configs w)) \<Longrightarrow> mapping_step w (snd (save_mapping now c actor w))"

inductive_cases mapping_stepE [elim!]: "mapping_step w w'"

inductive mapping_run :: "review_world \<Rightarrow> review_world \<Rightarrow> bool" where
  run_none: "mapping_run w w"
| run_step: "mapping_run w w' \<Longrightarrow> mapping_step w' w'' \<Longrightarrow> mapping_run w w''"

text \<open>A world with a mapping in force, a draft that waits for its approval, and a packet of the draft.\<close>

definition draft_config :: mapping_config where
  "draft_config = live_config\<lparr>mc_id := ''d'', mc_status := CS_PENDING_APPROVAL\<rparr>"

definition draft_packet :: review_packet where
  "draft_packet =
     \<lparr>rk_id = ''p'', rk_source_type = PKS_UPLOAD, rk_partner = ''MOMO'', rk_file_name = ''in.csv'',
      rk_file_type = ''SETTLEMENT'', rk_signature = None, rk_active_config = Some ''c'',
      rk_draft = Some ''d'', rk_draft_version = None, rk_action = None, rk_source_file_id = None,
      rk_source_path = None, rk_raw_stage_key = None, rk_backfill = None, rk_backfill_stored = False,
      rk_date = None, rk_scope = None, rk_parse_strategy = [], rk_gates = [], rk_sample_preview = [],
      rk_internal_count = 0, rk_internal_preview = [], rk_gate_status = BG_PENDING,
      rk_gate_summary = [], rk_post_run = None, rk_status = RK_PENDING, rk_decision = None,
      rk_created_at = 0, rk_reviewed_at = None, rk_reviewed_by = None\<rparr>"

definition draft_world :: review_world where
  "draft_world =
     \<lparr>rw_ingest = live_world\<lparr>iw_configs := [live_config, draft_config]\<rparr>, rw_results = [],
      rw_counters = (\<lambda>_. None), rw_packets = create_packet draft_packet [], rw_actions = [],
      rw_posts = [], rw_runtime = [], rw_checkpoints = (\<lambda>_. None), rw_backfills = [], rw_audit = [], rw_scheduled = []\<rparr>"

lemma draft_world_ok: "configs_ok (rw_configs draft_world)"
  by code_simp

text \<open>C19: however mappings are approved, rejected and saved one after another, each partner, workflow and
  file type keeps at most one approved configuration: the approval supersedes the one in force before
  it approves the next, and a save replaces it. The unique index of approved mappings is never hit.
\<close>

theorem single_approved_mapping:
  assumes "mapping_run w w'" "configs_ok (rw_configs w)"
  shows "configs_ok (rw_configs w')"
  using assms
proof (induction rule: mapping_run.induct)
  case (run_step w w' w'')
  then show ?case
    by (auto intro: approve_ok reject_ok save_ok)
qed

theorem single_approved_mapping_witness:
  "configs_ok (rw_configs (snd (approve_mapping 9 ''d'' None None None draft_world)))"
  by (rule single_approved_mapping [OF run_step [OF run_none step_approve] draft_world_ok])

lemma promoted_found:
  assumes "distinct (map mc_id cs)" "c \<in> set cs" "config_key c = k" "k \<notin> set (approved_keys cs)"
    and "mc_status (g c) = CS_APPROVED" "config_key (g c) = config_key c"
  shows "List.find (\<lambda>c. config_key c = k \<and> mc_status c = CS_APPROVED)
    (update_first (\<lambda>x. mc_id x = mc_id c) g cs) = Some (g c)"
  using assms by (induction cs) (auto simp: approved_keys_def split: if_splits)

lemma untouched: "c \<in> set cs \<Longrightarrow> \<not> p c \<Longrightarrow> c \<in> set (update_first p g cs)"
  by (induction cs) auto

text \<open>The activated draft is the configuration in force.\<close>

lemma activated_in_force:
  assumes "configs_ok cs" "c \<in> set cs" "mc_status c \<noteq> CS_APPROVED"
  shows "find_by_partner_and_type (mc_partner c) (mc_workflow_type c) (mc_file_type c)
      (activate_config now actor health c cs) =
    Some (c\<lparr>mc_status := CS_APPROVED, mc_approved_at := Some now, mc_approved_by := actor, mc_health := Some health\<rparr>)"
proof -
  let ?cs = "supersede_current now c cs"
  have ok: "distinct (approved_keys cs)" "distinct (map mc_id cs)"
    using assms(1) by (simp_all add: configs_ok_def)
  have "c \<in> set ?cs"
  proof (cases "find_by_partner_and_type (mc_partner c) (mc_workflow_type c) (mc_file_type c) cs")
    case (Some e)
    then have e: "e \<in> set cs" "mc_status e = CS_APPROVED"
      by (auto simp: find_approved find_Some_iff)
    with assms ok(2) have "mc_id c \<noteq> mc_id e"
      by (metis distinct_map inj_onD)
    with Some assms show ?thesis
      by (simp add: supersede_current_def mark_superseded_def untouched)
  qed (use assms in \<open>simp add: supersede_current_def\<close>)
  then show ?thesis
    using promoted_found [of ?cs c "config_key c" "\<lambda>x. x\<lparr>mc_status := CS_APPROVED, mc_approved_at := Some now,
        mc_approved_by := actor, mc_health := Some health\<rparr>"] supersede_frees [OF ok] ok(2)
    by (simp add: find_approved activate_config_def mark_approved_def config_key_def)
qed

text \<open>after an approval the configuration in force for its partner, workflow and file type, which
  the loader reads for the next file, is the approved one, with its approval and health stamped.
\<close>

theorem approval_takes_effect:
  assumes "configs_ok (rw_configs w)" "approve_mapping now cid actor conf reason w = (Inr c, w')"
  shows "find_by_partner_and_type (mc_partner c) (mc_workflow_type c) (mc_file_type c) (rw_configs w') = Some c"
proof -
  obtain d where "find_config cid (rw_configs w) = Some d" "mc_status d = CS_PENDING_APPROVAL"
    using assms(2) by (auto simp: approve_mapping_def split: option.splits if_splits)
  moreover from this have "d \<in> set (rw_configs w)"
    by (auto simp: find_config_def find_Some_iff)
  ultimately show ?thesis
    using assms(2) activated_in_force [OF assms(1), of d now actor "approved_health now conf reason d"]
    by (auto simp: approve_mapping_def Let_def)
qed

theorem approval_takes_effect_witness:
  "(case approve_mapping 9 ''d'' None None None draft_world of (Inr c, w') \<Rightarrow>
      mc_id c = ''d'' \<and> find_by_partner_and_type ''MOMO'' ''UPC'' ''SETTLEMENT'' (rw_configs w') = Some c
    | (Inl e, w') \<Rightarrow> False)"
proof -
  define c where "c = draft_config\<lparr>mc_status := CS_APPROVED, mc_approved_at := Some 9, mc_approved_by := None,
      mc_health := Some (approved_health 9 None None draft_config)\<rparr>"
  have "find_config ''d'' (rw_configs draft_world) = Some draft_config" "mc_status draft_config = CS_PENDING_APPROVAL"
    by (simp_all add: find_config_def rw_configs_def draft_world_def draft_config_def live_config_def)
  then have "\<exists>w'. approve_mapping 9 ''d'' None None None draft_world = (Inr c, w')"
    by (simp add: approve_mapping_def Let_def c_def)
  then obtain w' where a: "approve_mapping 9 ''d'' None None None draft_world = (Inr c, w')"
    by blast
  from approval_takes_effect [OF draft_world_ok a] a show ?thesis
    by (simp add: c_def draft_config_def live_config_def)
qed

text \<open>approving or rejecting a mapping in the studio does not settle the packets that wait for it.
  The update looks for packets without a \<open>backfillRunId\<close> field, but every packet the repository has
  inserted has the field, with null when it belongs to no backfill: none matches, so the mapping is
  decided and the packets stay PENDING.
\<close>

theorem studio_decision_leaves_packets_pending:
  assumes "rw_packets w = foldl (\<lambda>ps p. create_packet p ps) [] qs"
  shows "rw_packets (snd (approve_mapping now cid actor conf reason w)) = rw_packets w \<and>
    rw_packets (snd (reject_mapping now cid actor w)) = rw_packets w"
proof -
  have "foldl (\<lambda>ps p. create_packet p ps) ps qs = ps @ map (\<lambda>p. p\<lparr>rk_backfill_stored := True\<rparr>) qs" for ps
    by (induction qs arbitrary: ps) (simp_all add: create_packet_def)
  then have stored: "rk_backfill_stored p" if "p \<in> set (rw_packets w)" for p
    using that assms by auto
  have none: "sync_packets cid st now (rw_packets w) = rw_packets w" for st
    using stored
    by (simp add: sync_packets_def sync_packet_status_def packet_sync_filter_def update_many_none)
  show ?thesis
    using none by (simp_all add: approve_mapping_def reject_mapping_def Let_def put_configs_def split: option.split)
qed

theorem studio_decision_leaves_packets_pending_witness:
  "rw_packets (snd (approve_mapping 9 ''d'' None None None draft_world)) =
     [draft_packet\<lparr>rk_backfill_stored := True\<rparr>]"
proof -
  have w: "rw_packets draft_world = foldl (\<lambda>ps p. create_packet p ps) [] [draft_packet]"
    by (simp add: draft_world_def)
  from studio_decision_leaves_packets_pending [OF w, of 9 "''d''" None None None]
  show ?thesis
    by (simp add: w create_packet_def)
qed

end
