(* ===== verification/ReviewProps.thy ===== *)
theory ReviewProps
  imports ReviewWorkflow MappingProps PostGuarantees
begin

text \<open>
  What the decisions on a review packet do to the desk: an approval puts its draft in force and queues
  one replay, decisions one after another queue at most one replay for each packet, and the gaps
  of the approval, which reads the packet once and writes it last.
\<close>

section \<open>Packets\<close>

lemma find_packet_updated:
  assumes "\<And>q. rk_id (f q) = rk_id q"
  shows "find_packet i (update_packet j f ps) =
    map_option (\<lambda>q. if i = j then f q else q) (find_packet i ps)"
  using assms by (induction ps) (auto simp: find_packet_def update_packet_def option.map_ident)

lemma find_packet_id: "find_packet i ps = Some p \<Longrightarrow> rk_id p = i"
  by (auto simp: find_packet_def find_Some_iff)

definition pending :: "uuid \<Rightarrow> packet_store \<Rightarrow> bool" where
  "pending i ps \<longleftrightarrow> (case find_packet i ps of None \<Rightarrow> False | Some p \<Rightarrow> rk_status p = RK_PENDING)"

lemma pending_update [simp]:
  assumes "\<And>q. rk_id (f q) = rk_id q" "\<And>q. rk_status (f q) = rk_status q"
  shows "pending i (update_packet j f ps) = pending i ps"
  using assms by (simp add: pending_def find_packet_updated split: option.split)

lemma desk_frame_simps [simp]:
  "rw_packets (put_configs cs w) = rw_packets w" "rw_packets (on_ingest g w) = rw_packets w"
  "rw_scheduled (put_configs cs w) = rw_scheduled w" "rw_scheduled (on_ingest g w) = rw_scheduled w"
  by (simp_all add: put_configs_def on_ingest_def)

section \<open>The effect of each part\<close>

lemma scope_effect:
  assumes "update_packet_scope pid p scope w = (p', w')"
  shows "rw_scheduled w' = rw_scheduled w" "pending i (rw_packets w') = pending i (rw_packets w)"
    and "rk_id p' = rk_id p" "rk_backfill p' = rk_backfill p" "rk_draft p' = rk_draft p"
    and "rw_configs w' = rw_configs w"
  using assms
  by (auto simp: update_packet_scope_def Let_def rw_configs_def on_ingest_def
      split: option.splits)

lemma queue_effect:
  assumes "queue_replay E p c w = (r, w')"
  shows "rw_scheduled w' = rw_scheduled w @ [(de_run_id E, rk_id p, mc_id c)]"
    and "pending i (rw_packets w') = pending i (rw_packets w)" "r = Inr (Some (Run_Queued (queued_run (de_date E) (de_run_id E) (de_now E) p)))"
  using assms by (auto simp: queue_replay_def queue_post_approval_def Let_def)

lemma resume_effect:
  assumes "resume_backfill E b c w = (r, w')"
  shows "rw_scheduled w' = rw_scheduled w" "pending i (rw_packets w') = pending i (rw_packets w)"
  using assms by (auto simp: resume_backfill_def split: option.splits prod.splits sum.splits)

lemma draft_effect [simp]:
  "rw_scheduled (activate_draft E actor c w) = rw_scheduled w"
  "pending i (rw_packets (activate_draft E actor c w)) = pending i (rw_packets w)"
  by (simp_all add: activate_draft_def)

text \<open>What an action may do: queue at most one replay, of this packet, and only with an answer.\<close>

definition at_most_queues :: "uuid \<Rightarrow> (decision_error + decision_effect option) \<times> review_world \<Rightarrow> review_world \<Rightarrow> bool" where
  "at_most_queues pid rw w \<longleftrightarrow>
     (case rw of (r, w') \<Rightarrow>
        (\<forall>i. pending i (rw_packets w') = pending i (rw_packets w)) \<and>
        (rw_scheduled w' = rw_scheduled w \<or>
         (\<exists>t. rw_scheduled w' = rw_scheduled w @ [t] \<and> fst (snd t) = pid \<and> (\<exists>x. r = Inr x))))"

lemma queue_queues: "at_most_queues (rk_id p) (queue_replay E p c w) w"
  using queue_effect [of E p c w] by (cases "queue_replay E p c w") (simp add: at_most_queues_def)

lemma resume_queues: "at_most_queues pid (resume_backfill E b c w) w"
  using resume_effect [of E b c w] by (cases "resume_backfill E b c w") (simp add: at_most_queues_def)

lemma nothing_queued: "at_most_queues pid (r, w) w"
  by (simp add: at_most_queues_def)

lemma queues_activated:
  "at_most_queues pid rw (activate_draft E actor c w) = at_most_queues pid rw w"
  by (simp add: at_most_queues_def)

lemma mapping_queues: "at_most_queues (rk_id p) (approve_packet_mapping E p actor w) w"
  by (auto simp: approve_packet_mapping_def Let_def nothing_queued
      intro: queue_queues [of p E _ "activate_draft E actor _ w", unfolded queues_activated] queue_queues
        resume_queues [of _ E _ _ "activate_draft E actor _ w", unfolded queues_activated] resume_queues
      split: option.split)

lemma current_queues: "at_most_queues (rk_id p) (reprocess_with_current E p w) w"
  by (auto simp: reprocess_with_current_def nothing_queued intro: queue_queues split: option.split)

lemma backfill_never_queues:
  assumes "str_truthy (rk_backfill p)"
  shows "rw_scheduled (snd (approve_packet_mapping E p actor w)) = rw_scheduled w"
proof -
  obtain b where "str_or (rk_backfill p) None = Some b"
    using assms by (auto simp: str_or_def str_truthy_def split: option.splits list.splits)
  moreover have "rw_scheduled (snd (resume_backfill E b c w')) = rw_scheduled w'" for c w'
    by (cases "resume_backfill E b c w'") (simp add: resume_effect)
  ultimately show ?thesis
    by (simp add: approve_packet_mapping_def Let_def split: option.split)
qed

lemma mark_effect:
  assumes "st \<noteq> RK_PENDING"
  shows "pending i (rw_packets (snd (mark_packet E pid st mode actor w))) \<longleftrightarrow> pending i (rw_packets w) \<and> i \<noteq> pid"
    and "rw_scheduled (snd (mark_packet E pid st mode actor w)) = rw_scheduled w"
  using assms
  by (auto simp: mark_packet_def pending_def find_packet_updated decided_def pass_gates_def split: option.split)

section \<open>One replay for each packet\<close>

definition replayed :: "review_world \<Rightarrow> uuid list" where
  "replayed w = map (\<lambda>(run, pid, cid). pid) (rw_scheduled w)"

definition one_replay :: "review_world \<Rightarrow> bool" where
  "one_replay w \<longleftrightarrow> distinct (replayed w) \<and> (\<forall>i \<in> set (replayed w). \<not> pending i (rw_packets w))"

lemma decided_one_replay:
  assumes "one_replay w" "pending pid (rw_packets w)" "at_most_queues pid (r, w') w"
  shows "one_replay (snd (mark_decided E pid mode actor (r, w')))"
proof (cases r)
  case (Inl e)
  with assms show ?thesis
    by (auto simp: one_replay_def replayed_def at_most_queues_def mark_decided_def)
next
  case (Inr e)
  obtain x v where m: "mark_packet E pid RK_APPROVED mode actor w' = (x, v)"
    by fastforce
  have "pending i (rw_packets v) \<longleftrightarrow> pending i (rw_packets w') \<and> i \<noteq> pid" "rw_scheduled v = rw_scheduled w'" for i
    using mark_effect(1) [of RK_APPROVED i E pid mode actor w'] mark_effect(2) [of RK_APPROVED E pid mode actor w'] m
    by simp_all
  moreover have "snd (mark_decided E pid mode actor (r, w')) = v"
    by (simp add: mark_decided_def Inr m split: sum.split)
  ultimately show ?thesis
    using assms by (auto simp: one_replay_def replayed_def at_most_queues_def case_prod_beta)
qed

lemma scoped_one_replay:
  assumes "update_packet_scope pid p scope w = (p', w')"
  shows "one_replay w' = one_replay w"
  using scope_effect [OF assms] by (simp add: one_replay_def replayed_def)

lemma activate_pending_one_replay:
  assumes "one_replay w" "pending pid (rw_packets w)" "rk_id p = pid"
  shows "one_replay (snd (activate_pending E pid p actor scope w))"
proof -
  obtain p' w1 where s: "update_packet_scope pid p scope w = (p', w1)"
    by fastforce
  obtain r w2 where a: "approve_packet_mapping E p' actor w1 = (r, w2)"
    by fastforce
  have "at_most_queues pid (r, w2) w1"
    using mapping_queues [of p' E actor w1] scope_effect(3) [OF s] assms(3) a by simp
  then show ?thesis
    using decided_one_replay [of w1 pid r w2] assms scope_effect(2) [OF s] scoped_one_replay [OF s]
    by (simp add: activate_pending_def s a)
qed

lemma keep_current_one_replay:
  assumes "one_replay w"
  shows "one_replay (snd (approve_keep_current E pid actor scope w))"
proof -
  have "one_replay (snd (mark_decided E pid mode actor (reprocess_with_current E p' w1)))"
    if "find_packet pid (rw_packets w) = Some p" "rk_status p = RK_PENDING"
      "update_packet_scope pid p scope w = (p', w1)" for mode p p' w1
  proof -
    obtain r w2 where a: "reprocess_with_current E p' w1 = (r, w2)"
      by fastforce
    have "at_most_queues pid (r, w2) w1" "pending pid (rw_packets w)"
      using current_queues [of p' E w1] scope_effect(3) [OF that(3)] find_packet_id [OF that(1)] that a
      by (simp_all add: pending_def)
    then show ?thesis
      using decided_one_replay [of w1 pid r w2] assms scope_effect(2) [OF that(3)] scoped_one_replay [OF that(3)]
      by (simp add: a)
  qed
  with assms show ?thesis
    by (simp add: approve_keep_current_def split: option.split prod.split)
qed

lemma activate_one_replay:
  assumes "one_replay w"
  shows "one_replay (snd (approve_activate E pid actor scope w))"
proof -
  have again: "one_replay (snd (approve_packet_mapping E p actor w))" if "already_approved_backfill p" for p
    using that assms backfill_never_queues [of p E actor w] mapping_queues [of p E actor w]
    by (auto simp: one_replay_def replayed_def at_most_queues_def already_approved_backfill_def)
  have "one_replay (snd (activate_pending E pid p actor scope w))"
    if "find_packet pid (rw_packets w) = Some p" "rk_status p = RK_PENDING" for p
    using that assms by (intro activate_pending_one_replay find_packet_id) (simp_all add: pending_def)
  with assms again show ?thesis
    by (auto simp: approve_activate_def split: option.split prod.split sum.split) (metis snd_conv)+
qed

lemma reject_one_replay:
  assumes "one_replay w"
  shows "one_replay (snd (reject_packet E pid actor w))"
  using assms mark_effect(1) [of RK_REJECTED _ E pid DM_REJECT actor w] mark_effect(2) [of RK_REJECTED E pid DM_REJECT actor w]
  by (auto simp: reject_packet_def one_replay_def replayed_def split: option.split)

section \<open>Histories of the desk\<close>

lemma find_synced:
  "find_packet i (sync_packets cid st now ps) =
    map_option (\<lambda>p. if packet_sync_filter cid p then p\<lparr>rk_status := st, rk_reviewed_at := Some now\<rparr> else p)
      (find_packet i ps)"
  by (induction ps) (auto simp: sync_packets_def sync_packet_status_def update_many_def find_packet_def)

lemma synced_pending:
  "st \<noteq> RK_PENDING \<Longrightarrow> pending i (sync_packets cid st now ps) \<Longrightarrow> pending i ps"
  by (auto simp: pending_def find_synced packet_sync_filter_def split: option.splits if_splits)

lemma mapping_one_replay:
  assumes "one_replay w" "mapping_step w w'"
  shows "one_replay w'"
proof -
  have "rw_scheduled w' = rw_scheduled w \<and> (\<forall>i. pending i (rw_packets w') \<longrightarrow> pending i (rw_packets w))"
    using assms(2)
    by cases (auto simp: approve_mapping_def reject_mapping_def save_mapping_def Let_def
        dest: synced_pending [rotated] split: option.split prod.split)
  with assms(1) show ?thesis
    by (auto simp: one_replay_def replayed_def)
qed

text \<open>
  The decisions on packets and on mappings, one after another, and packets with new ids that arrive in
  between.
\<close>

inductive desk_step :: "review_world \<Rightarrow> review_world \<Rightarrow> bool" where
  desk_activate: "desk_step w (snd (approve_activate E pid actor scope w))"
| desk_keep: "desk_step w (snd (approve_keep_current E pid actor scope w))"
| desk_reject: "desk_step w (snd (reject_packet E pid actor w))"
| desk_mapping: "mapping_step w w' \<Longrightarrow> desk_step w w'"
| desk_arrival: "rk_id p \<notin> set (replayed w) \<Longrightarrow> desk_step w (w\<lparr>rw_packets := create_packet p (rw_packets w)\<rparr>)"

inductive desk_run :: "review_world \<Rightarrow> review_world \<Rightarrow> bool" where
  desk_none: "desk_run w w"
| desk_more: "desk_run w w' \<Longrightarrow> desk_step w' w'' \<Longrightarrow> desk_run w w''"

lemma find_arrived: "rk_id p \<noteq> i \<Longrightarrow> find_packet i (create_packet p ps) = find_packet i ps"
  by (induction ps) (auto simp: find_packet_def create_packet_def)

lemma desk_one_replay: "desk_step w w' \<Longrightarrow> one_replay w \<Longrightarrow> one_replay w'"
proof (induction rule: desk_step.induct)
  case (desk_arrival p w)
  then have "pending i (create_packet p (rw_packets w)) = pending i (rw_packets w)" if "i \<in> set (replayed w)" for i
  proof -
    from that desk_arrival(1) have "rk_id p \<noteq> i"
      by auto
    then show ?thesis
      by (simp add: pending_def find_arrived)
  qed
  with desk_arrival show ?case
    by (simp add: one_replay_def replayed_def)
qed (simp_all add: activate_one_replay keep_current_one_replay reject_one_replay mapping_one_replay)

section \<open>A desk with a draft that passed\<close>

definition ready_packet :: review_packet where
  "ready_packet = draft_packet\<lparr>rk_backfill_stored := True,
     rk_gates := [[(''gateKey'', VStr ''runtime_validation''), (''status'', VStr ''PASS'')]]\<rparr>"

definition ready_world :: review_world where
  "ready_world = draft_world\<lparr>rw_packets := [ready_packet]\<rparr>"

definition ready_env :: "uuid \<Rightarrow> decision_env" where
  "ready_env run = \<lparr>de_now = 9, de_date = (\<lambda>_. ''2026-01-01''), de_run_id = run, de_gateway = None, de_jobs = []\<rparr>"

lemma ready_world_one: "one_replay ready_world"
  by (simp add: one_replay_def replayed_def ready_world_def draft_world_def)

text \<open>C17: however packets and mappings are decided one after another, at most one replay of each packet is
  handed to the background: its transactions are removed and ingested again once. An approval queues
  the replay only for a packet that is pending, and leaves it approved.
\<close>

theorem packet_is_replayed_once:
  assumes "desk_run w w'" "one_replay w"
  shows "one_replay w'"
  using assms by (induction rule: desk_run.induct) (auto intro: desk_one_replay)

theorem packet_is_replayed_once_witness:
  "one_replay (snd (approve_activate (ready_env ''r2'') ''p'' None None
     (snd (approve_activate (ready_env ''r1'') ''p'' None None ready_world))))"
  by (rule packet_is_replayed_once [OF desk_more [OF desk_more [OF desk_none desk_activate] desk_activate] ready_world_one])

lemma find_rejected:
  "List.find (\<lambda>c. mc_id c = i) cs = Some c \<Longrightarrow>
   List.find (\<lambda>c. mc_id c = i) (update_first (\<lambda>c. mc_id c = i) (\<lambda>c. c\<lparr>mc_status := CS_REJECTED, mc_health := h\<rparr>) cs) =
     Some (c\<lparr>mc_status := CS_REJECTED, mc_health := h\<rparr>)"
  by (induction cs) (auto split: if_splits)

lemma scope_keeps_packets:
  "update_packet_scope pid p scope w = (p', w') \<Longrightarrow>
   find_packet i (rw_packets w') = None \<longleftrightarrow> find_packet i (rw_packets w) = None"
  by (auto simp: update_packet_scope_def Let_def find_packet_updated on_ingest_def split: option.splits)

lemma queue_keeps_packets:
  "queue_replay E p c w = (r, w') \<Longrightarrow>
   find_packet i (rw_packets w') = None \<longleftrightarrow> find_packet i (rw_packets w) = None"
  by (auto simp: queue_replay_def queue_post_approval_def Let_def find_packet_updated)

section \<open>What an approval does\<close>

lemma mark_pending:
  assumes "find_packet pid (rw_packets w) = Some p" "rk_status p = RK_PENDING" "mark_packet E pid st mode actor w = (r, w')"
  shows "r = Inr (decided E st mode actor p)"
    and "find_packet pid (rw_packets w') = Some (pass_gates st (rk_gates p) (decided E st mode actor p))"
    and "rw_configs w' = rw_configs w" "rw_scheduled w' = rw_scheduled w" "rw_posts w' = rw_posts w"
    and "rw_ingest w' = rw_ingest w" "rw_backfills w' = rw_backfills w"
  using assms
  by (auto simp: mark_packet_def find_packet_updated decided_def pass_gates_def rw_configs_def)

lemma scoped_packet:
  assumes "update_packet_scope pid p scope w = (p', w')" "find_packet pid (rw_packets w) = Some p"
  shows "\<exists>sc. p' = p\<lparr>rk_scope := sc\<rparr> \<and> find_packet pid (rw_packets w') = Some p'"
    and "rw_backfills w' = rw_backfills w" "rw_posts w' = rw_posts w"
  using assms
  by (auto simp: update_packet_scope_def Let_def find_packet_updated on_ingest_def split: option.splits
      intro: exI [of _ "rk_scope p"])

lemma queued_packet:
  assumes "queue_replay E p c w = (r, w')" "find_packet (rk_id p) (rw_packets w) = Some q"
  shows "find_packet (rk_id p) (rw_packets w') = Some (q\<lparr>rk_post_run := Some (de_run_id E)\<rparr>)"
    and "rw_configs w' = rw_configs w" "rw_backfills w' = rw_backfills w"
    and "rw_posts w' = rw_posts w @ [queued_run (de_date E) (de_run_id E) (de_now E) p]"
  using assms by (auto simp: queue_replay_def queue_post_approval_def Let_def find_packet_updated rw_configs_def)

lemma find_appended: "p x \<Longrightarrow> \<exists>y. List.find p (xs @ [x]) = Some y"
  by (induction xs) auto

lemma packet_of_world:
  "rw_packets (activate_draft E actor c w) = rw_packets w" "rw_posts (activate_draft E actor c w) = rw_posts w"
  "rw_configs (activate_draft E actor c w) = activate_config (de_now E) actor (reviewed_health (de_now E) c) c (rw_configs w)"
  by (simp_all add: activate_draft_def put_configs_def rw_configs_def)

lemma not_backfill: "\<not> str_truthy b \<Longrightarrow> str_or b None = None"
  by (auto simp: str_truthy_def str_or_def split: option.split list.split)

text \<open>The approval of a pending packet of a pending draft, with what it leaves.\<close>

lemma approved_draft:
  assumes "find_packet pid (rw_packets w) = Some p" "rk_status p = RK_PENDING"
    and "str_or (rk_draft p) None = Some cid" "find_config cid (rw_configs w) = Some c"
    and "mc_status c = CS_PENDING_APPROVAL" "\<not> str_truthy (rk_backfill p)"
    and "activate_pending E pid p actor scope w = (r, w')"
  shows "\<exists>q. r = Inr \<lparr>dn_packet = q, dn_effect = Some (Run_Queued (queued_run (de_date E) (de_run_id E) (de_now E) p))\<rparr>"
    and "rw_configs w' = activate_config (de_now E) actor (reviewed_health (de_now E) c) c (rw_configs w)"
    and "rw_scheduled w' = rw_scheduled w @ [(de_run_id E, pid, cid)]"
    and "\<exists>sc. find_packet pid (rw_packets w') = Some (pass_gates RK_APPROVED (rk_gates p)
      (decided E RK_APPROVED DM_ACTIVATE_NEXT_RUNTIME actor (p\<lparr>rk_scope := sc, rk_post_run := Some (de_run_id E)\<rparr>)))"
    and "is_queued (de_run_id E) w'"
proof -
  obtain p1 w1 where s: "update_packet_scope pid p scope w = (p1, w1)"
    by fastforce
  obtain sc where p1: "p1 = p\<lparr>rk_scope := sc\<rparr>" "find_packet pid (rw_packets w1) = Some p1"
    using scoped_packet(1) [OF s assms(1)] by auto
  let ?w2 = "activate_draft E actor c w1"
  obtain x w3 where q: "queue_replay E p1 c ?w2 = (x, w3)"
    by fastforce
  have pid: "rk_id p1 = pid"
    using p1 find_packet_id by blast
  have cfg: "rw_configs w1 = rw_configs w" "rw_scheduled w1 = rw_scheduled w"
    using scope_effect [OF s] by simp_all
  have cid: "mc_id c = cid"
    using assms(4) by (auto simp: find_config_def find_Some_iff)
  have act: "approve_packet_mapping E p1 actor w1 = (x, w3)"
    using assms p1(1) q by (simp add: approve_packet_mapping_def cfg not_backfill Let_def)
  have f3: "find_packet pid (rw_packets w3) = Some (p1\<lparr>rk_post_run := Some (de_run_id E)\<rparr>)"
    using queued_packet(1) [OF q] p1(2) pid by (simp add: packet_of_world)
  have st3: "rk_status (p1\<lparr>rk_post_run := Some (de_run_id E)\<rparr>) = RK_PENDING"
    using assms(2) p1(1) by simp
  obtain y v where m: "mark_packet E pid RK_APPROVED DM_ACTIVATE_NEXT_RUNTIME actor w3 = (y, v)"
    by fastforce
  note marked = mark_pending [OF f3 st3 m]
  have res: "r = Inr \<lparr>dn_packet = decided E RK_APPROVED DM_ACTIVATE_NEXT_RUNTIME actor (p1\<lparr>rk_post_run := Some (de_run_id E)\<rparr>),
      dn_effect = Some (Run_Queued (queued_run (de_date E) (de_run_id E) (de_now E) p1))\<rparr>" "w' = v"
    using assms(7) act queue_effect(3) [OF q] marked(1) m by (simp_all add: activate_pending_def s mark_decided_def)
  show "\<exists>q. r = Inr \<lparr>dn_packet = q, dn_effect = Some (Run_Queued (queued_run (de_date E) (de_run_id E) (de_now E) p))\<rparr>"
    by (simp add: res(1) p1(1) queued_run_def)
  have found2: "find_packet (rk_id p1) (rw_packets ?w2) = Some p1"
    using p1(2) pid by (simp add: packet_of_world)
  show "rw_configs w' = activate_config (de_now E) actor (reviewed_health (de_now E) c) c (rw_configs w)"
    using marked(3) queued_packet(2) [OF q found2] by (simp add: res(2) packet_of_world cfg)
  show "rw_scheduled w' = rw_scheduled w @ [(de_run_id E, pid, cid)]"
    using marked(4) queue_effect(1) [OF q] by (simp add: res(2) cfg pid cid)
  show "\<exists>sc. find_packet pid (rw_packets w') = Some (pass_gates RK_APPROVED (rk_gates p)
      (decided E RK_APPROVED DM_ACTIVATE_NEXT_RUNTIME actor (p\<lparr>rk_scope := sc, rk_post_run := Some (de_run_id E)\<rparr>)))"
    using marked(2) by (intro exI [of _ sc]) (simp add: res(2) p1(1))
  show "is_queued (de_run_id E) w'"
    using marked(5) queued_packet(4) [OF q found2]
    by (simp add: res(2) is_queued_def find_post_run_def find_appended queued_run_def)
qed

lemma approved_found:
  assumes "i \<in> set (map mc_id cs)"
  shows "\<exists>d. find_config i (update_first (\<lambda>d. mc_id d = i) (\<lambda>d. d\<lparr>mc_status := CS_APPROVED, mc_approved_at := t,
      mc_approved_by := a, mc_health := h\<rparr>) cs) = Some d \<and> mc_id d = i \<and> mc_status d = CS_APPROVED"
  using assms by (induction cs) (auto simp: find_config_def split: if_splits)

lemma find_activated:
  assumes "find_config cid cs = Some c"
  shows "\<exists>d. find_config cid (activate_config now actor h c cs) = Some d \<and> mc_id d = cid \<and> mc_status d = CS_APPROVED"
proof -
  have cid: "mc_id c = cid"
    using assms by (auto simp: find_config_def find_Some_iff)
  have "map mc_id (supersede_current now c cs) = map mc_id cs"
    by (simp add: supersede_current_def mark_superseded_def update_first_keys split: option.split)
  moreover have "cid \<in> set (map mc_id cs)"
    using assms by (auto simp: find_config_def find_Some_iff)
  ultimately have "cid \<in> set (map mc_id (supersede_current now c cs))"
    by simp
  then show ?thesis
    using approved_found [of cid] by (simp add: activate_config_def mark_approved_def cid)
qed


lemma ready_facts:
  "configs_ok (rw_configs ready_world)" "find_packet ''p'' (rw_packets ready_world) = Some ready_packet"
  "rk_status ready_packet = RK_PENDING" "has_passing_runtime_gate ready_packet"
  "str_or (rk_draft ready_packet) None = Some ''d''" "find_config ''d'' (rw_configs ready_world) = Some draft_config"
  "mc_status draft_config = CS_PENDING_APPROVAL" "\<not> str_truthy (rk_backfill ready_packet)"
  "\<not> str_truthy (rk_raw_stage_key ready_packet)" "rk_backfill_stored ready_packet"
  by code_simp+


section \<open>Gaps of the approval\<close>

text \<open>C34: the approval reads the packet and writes its status last, with the replay queued in between. Of two
  approvals that both read the packet while it was pending, the second is told that only pending
  packets can be processed, yet its replay is queued too: the background removes the transactions of
  the file and ingests it a second time.
\<close>

theorem concurrent_approvals_replay_twice:
  assumes "find_packet pid (rw_packets w) = Some p" "rk_status p = RK_PENDING"
    and "str_or (rk_draft p) None = Some cid" "find_config cid (rw_configs w) = Some c"
    and "mc_status c = CS_PENDING_APPROVAL" "\<not> str_truthy (rk_backfill p)"
    and "activate_pending E pid p actor scope w = (r, w1)"
    and "activate_pending E' pid p actor' scope' w1 = (r', w2)"
  shows "r' = Inl (DE_Review RE_Conflict) \<and>
    rw_scheduled w2 = rw_scheduled w @ [(de_run_id E, pid, cid), (de_run_id E', pid, cid)]"
proof -
  note first = approved_draft [OF assms(1-7)]
  obtain sc where stored: "find_packet pid (rw_packets w1) = Some (pass_gates RK_APPROVED (rk_gates p)
      (decided E RK_APPROVED DM_ACTIVATE_NEXT_RUNTIME actor (p\<lparr>rk_scope := sc, rk_post_run := Some (de_run_id E)\<rparr>)))"
    using first(4) by blast
  have settled: "\<not> pending pid (rw_packets w1)"
    by (simp add: pending_def stored pass_gates_def decided_def)
  obtain d where d: "find_config cid (rw_configs w1) = Some d" "mc_id d = cid" "mc_status d = CS_APPROVED"
    using find_activated [OF assms(4), of "de_now E" actor "reviewed_health (de_now E) c"] first(2) by auto
  obtain p2 v where s: "update_packet_scope pid p scope' w1 = (p2, v)"
    by fastforce
  obtain x u where q: "queue_replay E' p2 d v = (x, u)"
    by fastforce
  note scoped = scope_effect [OF s]
  have id: "rk_id p2 = pid"
    using scoped(3) find_packet_id [OF assms(1)] by simp
  have act: "approve_packet_mapping E' p2 actor' v = (x, u)"
    using assms(3,6) d q scoped by (simp add: approve_packet_mapping_def Let_def not_backfill)
  have "\<not> pending pid (rw_packets u)"
    using queue_effect(2) [OF q] scoped(2) settled by simp
  moreover have "find_packet pid (rw_packets u) \<noteq> None"
    using queue_keeps_packets [OF q] scope_keeps_packets [OF s] stored by simp
  ultimately have "mark_packet E' pid RK_APPROVED DM_ACTIVATE_NEXT_RUNTIME actor' u = (Inl RE_Conflict, u)"
    by (auto simp: mark_packet_def pending_def split: option.splits)
  then show ?thesis
    using assms(8) queue_effect(1,3) [OF q] scoped(1) first(3) id d(2)
    by (simp add: activate_pending_def s act mark_decided_def)
qed

theorem concurrent_approvals_replay_twice_witness:
  "rw_scheduled (snd (activate_pending (ready_env ''r2'') ''p'' ready_packet None None
     (snd (activate_pending (ready_env ''r1'') ''p'' ready_packet None None ready_world)))) =
   [(''r1'', ''p'', ''d''), (''r2'', ''p'', ''d'')]"
proof -
  have "rw_scheduled ready_world = []" "de_run_id (ready_env run) = run" for run
    by (simp_all add: ready_world_def draft_world_def ready_env_def)
  with concurrent_approvals_replay_twice [OF ready_facts(2,3,5-8) surjective_pairing surjective_pairing,
      of "ready_env ''r2''" None None "ready_env ''r1''" None None]
  show ?thesis by simp
qed

text \<open>C35: a draft that was rejected in the studio leaves its packet pending with its passed gate. Approving
  that packet is answered with success and stores it as approved, but no mapping is activated,
  no replay is queued and the draft stays rejected; unless the packet belongs to a backfill it can
  never be decided again.
\<close>

theorem rejected_draft_is_approved_without_effect:
  assumes "reject_mapping now cid who w = (Inr c, w1)"
    and "find_packet pid (rw_packets w) = Some p" "rk_status p = RK_PENDING" "has_passing_runtime_gate p"
    and "str_or (rk_draft p) None = Some cid" "rk_backfill_stored p" "\<not> str_truthy (rk_backfill p)"
    and "approve_activate E pid actor scope w1 = (r, w2)"
  shows "(\<exists>a. r = Inr a \<and> dn_effect a = None) \<and>
    rw_configs w2 = rw_configs w1 \<and> rw_scheduled w2 = rw_scheduled w \<and>
    (\<exists>d. find_config cid (rw_configs w2) = Some d \<and> mc_status d = CS_REJECTED) \<and>
    (\<exists>q. find_packet pid (rw_packets w2) = Some q \<and> rk_status q = RK_APPROVED) \<and>
    fst (approve_activate E' pid actor' scope' w2) = Inl (DE_Review RE_Conflict)"
proof -
  have w1: "find_packet pid (rw_packets w1) = Some p" "rw_scheduled w1 = rw_scheduled w"
    and rejected: "\<exists>d. find_config cid (rw_configs w1) = Some d \<and> mc_status d = CS_REJECTED"
    using assms(1,2,6)
    by (auto simp: reject_mapping_def Let_def find_synced packet_sync_filter_def mark_rejected_def
        find_config_def find_rejected split: option.splits if_splits)
  obtain p2 v where s: "update_packet_scope pid p scope w1 = (p2, v)"
    by fastforce
  note scoped = scope_effect [OF s]
  obtain sc where p2: "p2 = p\<lparr>rk_scope := sc\<rparr>" "find_packet pid (rw_packets v) = Some p2"
    using scoped_packet(1) [OF s w1(1)] by auto
  have act: "approve_packet_mapping E p2 actor v = (Inr None, v)"
    using assms(5) rejected scoped by (auto simp: approve_packet_mapping_def)
  obtain x u where m: "mark_packet E pid RK_APPROVED DM_ACTIVATE_NEXT_RUNTIME actor v = (x, u)"
    by fastforce
  have "rk_status p2 = RK_PENDING"
    using p2(1) assms(3) by simp
  note marked = mark_pending [OF p2(2) this m]
  have rw: "r = Inr \<lparr>dn_packet = decided E RK_APPROVED DM_ACTIVATE_NEXT_RUNTIME actor p2, dn_effect = None\<rparr>" "w2 = u"
    using assms(3,4,8) w1(1) act m marked(1)
    by (simp_all add: approve_activate_def already_approved_backfill_def activate_pending_def s mark_decided_def)
  have "fst (approve_activate E' pid actor' scope' u) = Inl (DE_Review RE_Conflict)"
    using marked(2) assms(7) p2(1)
    by (simp add: approve_activate_def already_approved_backfill_def pass_gates_def decided_def)
  with marked rejected scoped w1(2) show ?thesis
    by (simp add: rw pass_gates_def decided_def)
qed

theorem rejected_draft_is_approved_without_effect_witness:
  "(\<exists>d. find_config ''d'' (rw_configs (snd (approve_activate (ready_env ''r1'') ''p'' None None
      (snd (reject_mapping 8 ''d'' None ready_world))))) = Some d \<and> mc_status d = CS_REJECTED) \<and>
   (\<exists>q. find_packet ''p'' (rw_packets (snd (approve_activate (ready_env ''r1'') ''p'' None None
      (snd (reject_mapping 8 ''d'' None ready_world))))) = Some q \<and> rk_status q = RK_APPROVED)"
proof -
  obtain c w1 where r: "reject_mapping 8 ''d'' None ready_world = (Inr c, w1)"
    using ready_facts(6,7) by (simp add: reject_mapping_def Let_def)
  from rejected_draft_is_approved_without_effect [OF r ready_facts(2-5,10,8) surjective_pairing,
      of "ready_env ''r1''" None None "ready_env ''r2''" None None]
  show ?thesis
    by (auto simp: r)
qed

end
