(* ===== verification/BackfillProps.thy ===== *)
theory BackfillProps
  imports BackfillRun
begin

text \<open>
  What a backfill guarantees when one worker runs it, whatever the database picks in its claims, and
  what it does not: a claim that two workers win, and a failed run that can never be finished.
\<close>

section \<open>Lookups\<close>

lemma find_update_backfill:
  assumes "\<And>b. bf_id (f b) = bf_id b"
  shows "find_backfill bid (update_first (\<lambda>b. bf_id b = bid) f bs) = map_option f (find_backfill bid bs)"
  using assms by (induction bs) (simp_all add: find_backfill_def)

lemma set_day_frame [simp]:
  "bf_id (set_day now date f b) = bf_id b" "bf_status (set_day now date f b) = bf_status b"
  "bf_current (set_day now date f b) = bf_current b" "bf_partner (set_day now date f b) = bf_partner b"
  by (simp_all add: set_day_def split: option.split)

lemma claim_update_frame [simp]:
  "bf_id (claim_update now pick date b) = bf_id b" "bf_status (claim_update now pick date b) = bf_status b"
  "bf_partner (claim_update now pick date b) = bf_partner b"
  by (simp_all add: claim_update_def split: option.split)

lemma find_writes [simp]:
  "find_backfill bid (update_day now bid date f bs) = map_option (set_day now date f) (find_backfill bid bs)"
  "(\<And>b. bf_id (g b) = bf_id b) \<Longrightarrow>
     find_backfill bid (update_backfill now bid g bs) =
       map_option (\<lambda>b. (g b)\<lparr>bf_updated_at := now\<rparr>) (find_backfill bid bs)"
  by (simp_all add: update_day_def update_backfill_def find_update_backfill)

text \<open>The claim of the run \<open>bid\<close>, where there is one document of that id.\<close>

lemma claim_found:
  assumes "find_backfill bid bs = Some b" "claim_position pick date (bf_days b) \<noteq> None"
  shows "fst (claim_day now pick bid date bs) = (claim_update now pick date b \<noteq> b)"
    and "find_backfill bid (snd (claim_day now pick bid date bs)) = Some (claim_update now pick date b)"
  using assms
  by (induction bs) (auto simp: find_backfill_def claim_day_def update_doc_def split: option.splits if_splits)

lemma claim_none:
  assumes "distinct (map bf_id bs)" "find_backfill bid bs = Some b" "claim_position pick date (bf_days b) = None"
  shows "claim_day now pick bid date bs = (False, bs)"
proof -
  have "List.find (\<lambda>b. bf_id b = bid \<and> claim_position pick date (bf_days b) \<noteq> None) bs = None"
    using assms
  proof (induction bs)
    case (Cons x bs)
    then show ?case
      using find_key_None [of bid bf_id bs] by (auto simp: find_backfill_def split: if_splits)
  qed simp
  then show ?thesis
    by (simp add: claim_day_def update_doc_def)
qed

section \<open>Positions\<close>

lemma first_index_append:
  "first_index p (xs @ ys) =
     (case first_index p xs of Some i \<Rightarrow> Some i | None \<Rightarrow> map_option (\<lambda>i. length xs + i) (first_index p ys))"
  by (induction xs; cases "first_index p ys") (auto split: option.split)

lemma first_index_None: "first_index p xs = None \<longleftrightarrow> (\<forall>x \<in> set xs. \<not> p x)"
  by (induction xs) auto

lemma first_index_Some: "first_index p xs = Some i \<Longrightarrow> i < length xs \<and> p (xs ! i)"
  by (induction xs arbitrary: i) (auto split: if_splits)

text \<open>Behind days of other dates that are not open, both conditions of a claim point at the same day.\<close>

lemma claim_in_order:
  assumes "\<forall>d \<in> set pre. bd_date d \<noteq> bd_date d0 \<and> \<not> open_day d" "open_day d0"
  shows "claim_position pick (bd_date d0) (pre @ d0 # post) = Some (length pre)"
  using assms by (simp add: claim_position_def first_index_append first_index_None [THEN iffD2])

lemma day_position:
  assumes "\<forall>d \<in> set pre. bd_date d \<noteq> bd_date d0"
  shows "first_index (\<lambda>d. bd_date d = bd_date d0) (pre @ d0 # post) = Some (length pre)"
  using assms by (simp add: first_index_append first_index_None [THEN iffD2])

section \<open>The order of the days\<close>

text \<open>
  The specification: completed days are passed over, the others run in the order of the list until
  one does not succeed. The pair of a day is its date and its status.
\<close>

type_synonym day_view = "int \<times> day_status"

fun ordered_days :: "(int \<Rightarrow> string + day_answer) \<Rightarrow> day_view list \<Rightarrow> day_view list" where
  "ordered_days exec [] = []"
| "ordered_days exec ((date, st) # ds) =
     (if st = BD_COMPLETED then (date, st) # ordered_days exec ds
      else case exec date of
             Inl e \<Rightarrow> (date, BD_RUNNING) # ds
           | Inr a \<Rightarrow>
               if success_outcome (da_outcome a) then (date, BD_COMPLETED) # ordered_days exec ds
               else (date, if da_outcome a = SO_WAITING_REVIEW then BD_WAITING_CONFIG else BD_FAILED) # ds)"

fun ordered_status :: "(int \<Rightarrow> string + day_answer) \<Rightarrow> day_view list \<Rightarrow> backfill_status" where
  "ordered_status exec [] = BF_COMPLETED"
| "ordered_status exec ((date, st) # ds) =
     (if st = BD_COMPLETED then ordered_status exec ds
      else case exec date of
             Inl e \<Rightarrow> BF_RUNNING
           | Inr a \<Rightarrow>
               if success_outcome (da_outcome a) then ordered_status exec ds
               else if da_outcome a = SO_WAITING_REVIEW then BF_WAITING_CONFIG else BF_FAILED)"

definition day_view :: "backfill_day \<Rightarrow> day_view" where
  "day_view d = (bd_date d, bd_status d)"

definition run_view :: "uuid \<Rightarrow> backfill_store \<Rightarrow> (day_view list \<times> backfill_status) option" where
  "run_view bid bs = map_option (\<lambda>b. (map day_view (bf_days b), bf_status b)) (find_backfill bid bs)"

definition claimable :: "day_view \<Rightarrow> bool" where
  "claimable v \<longleftrightarrow> snd v \<in> {BD_COMPLETED, BD_PENDING, BD_WAITING_CONFIG}"

lemma day_view_simps [simp]: "fst (day_view d) = bd_date d" "snd (day_view d) = bd_status d"
  by (simp_all add: day_view_def)

lemma success_not_waiting: "success_outcome oc \<Longrightarrow> oc \<noteq> SO_WAITING_REVIEW"
  by (auto simp: success_outcome_def)

text \<open>One day: its claim and its end, behind days that are not open.\<close>

lemma claim_day_in_order:
  assumes "find_backfill bid bs = Some b" "bf_days b = pre @ d # post"
    and "\<forall>x \<in> set pre. bd_date x \<noteq> bd_date d \<and> \<not> open_day x" "open_day d"
  obtains bs' b' where "claim_day now pick bid (bd_date d) bs = (True, bs')"
    "find_backfill bid bs' = Some b'" "bf_status b' = bf_status b"
    "bf_days b' = pre @ d\<lparr>bd_status := BD_RUNNING, bd_updated_at := now\<rparr> # post"
proof -
  have pos: "claim_position pick (bd_date d) (bf_days b) = Some (length pre)"
    using claim_in_order [OF assms(3,4)] assms(2) by simp
  let ?b = "claim_update now pick (bd_date d) b"
  have days: "bf_days ?b = pre @ d\<lparr>bd_status := BD_RUNNING, bd_updated_at := now\<rparr> # post"
    using pos by (simp add: claim_update_def assms(2))
  have "?b \<noteq> b"
  proof
    assume "?b = b"
    with days assms(2) have "d\<lparr>bd_status := BD_RUNNING, bd_updated_at := now\<rparr> = d"
      by simp
    then have "bd_status d = BD_RUNNING"
      by (metis backfill_day.select_convs(2) backfill_day.surjective backfill_day.update_convs(2,5))
    with assms(4) show False by (simp add: open_day_def)
  qed
  with claim_found [OF assms(1), of pick "bd_date d" now] pos
  have "fst (claim_day now pick bid (bd_date d) bs)"
    "find_backfill bid (snd (claim_day now pick bid (bd_date d) bs)) = Some ?b"
    by auto
  then show thesis
    using that [of "snd (claim_day now pick bid (bd_date d) bs)" ?b] days by (metis claim_update_frame(2) prod.collapse)
qed

lemma day_end_in_order:
  assumes "bf_days b = pre @ d # post" "\<forall>x \<in> set pre. bd_date x \<noteq> bd_date d"
  shows "bf_days (set_day now (bd_date d) (day_ends st a msg) b) =
    pre @ (day_ends st a msg d)\<lparr>bd_updated_at := now\<rparr> # post"
  using day_position [OF assms(2)] assms(1) by (simp add: set_day_def)

lemma day_view_writes:
  "day_view (d\<lparr>bd_status := st, bd_updated_at := now\<rparr>) = (bd_date d, st)"
  "day_view ((day_ends st a msg d)\<lparr>bd_updated_at := now\<rparr>) = (bd_date d, st)"
  by (simp_all add: day_view_def day_ends_def)

lemma run_days_refines:
  assumes "find_backfill bid bs = Some b" "bf_status b = BF_RUNNING" "bf_days b = pre @ rest"
    and "map day_view rest = map day_view ds" "list_all (\<lambda>d. claimable (day_view d)) ds"
    and "\<forall>d \<in> set pre. \<not> open_day d" "distinct (map bd_date (pre @ rest))"
  shows "run_view bid (snd (run_days now pick exec bid snapshot ds n bs)) =
    Some (map day_view pre @ ordered_days exec (map day_view ds), ordered_status exec (map day_view ds))"
  using assms
proof (induction ds arbitrary: n bs b pre rest)
  case Nil
  then show ?case by (simp add: run_view_def)
next
  case (Cons d ds)
  obtain r rest' where rest: "rest = r # rest'" and view: "day_view r = day_view d"
    and rest': "map day_view rest' = map day_view ds"
    using Cons.prems(4) by (cases rest) auto
  from view have r: "bd_date r = bd_date d" "bd_status r = bd_status d"
    by (simp_all add: day_view_def)
  show ?case
  proof (cases "bd_status d = BD_COMPLETED")
    case True
    have "run_view bid (snd (run_days now pick exec bid snapshot ds n bs)) =
        Some (map day_view (pre @ [r]) @ ordered_days exec (map day_view ds), ordered_status exec (map day_view ds))"
      using Cons.prems rest rest' r True by (intro Cons.IH [where rest = rest']) (auto simp: open_day_def)
    with True r show ?thesis
      by (simp add: day_view_def [of d] day_view_def [of r])
  next
    case False
    then have "open_day r"
      using Cons.prems(5) r by (auto simp: claimable_def open_day_def)
    moreover have pre: "\<forall>x \<in> set pre. bd_date x \<noteq> bd_date r \<and> \<not> open_day x"
      using Cons.prems(6,7) rest by (auto simp: image_iff)
    ultimately obtain bs' b' where claim: "claim_day now (pick (bd_date d)) bid (bd_date d) bs = (True, bs')"
      and b': "find_backfill bid bs' = Some b'" "bf_status b' = bf_status b"
        "bf_days b' = pre @ r\<lparr>bd_status := BD_RUNNING, bd_updated_at := now\<rparr> # rest'"
      using claim_day_in_order [OF Cons.prems(1), of pre r rest' now "pick (bd_date d)"] Cons.prems(3) rest r(1)
      by auto
    note ends = day_end_in_order [of b' pre "r\<lparr>bd_status := BD_RUNNING, bd_updated_at := now\<rparr>" rest' now]
    have days: "bf_days (set_day now (bd_date d) (day_ends st a msg) b') =
        pre @ (day_ends st a msg (r\<lparr>bd_status := BD_RUNNING, bd_updated_at := now\<rparr>))\<lparr>bd_updated_at := now\<rparr> # rest'"
      for st a msg
      using ends b'(3) pre r(1) by simp
    show ?thesis
    proof (cases "exec (bd_date d)")
      case (Inl e)
      then show ?thesis
        using False claim b' Cons.prems(2) rest' r by (simp add: run_view_def day_view_def [of d] day_view_writes)
    next
      case (Inr a)
      show ?thesis
      proof (cases "success_outcome (da_outcome a)")
        case True
        let ?r = "(day_ends BD_COMPLETED a (truthy_text (da_message a) (stream_outcome_value (da_outcome a)))
          (r\<lparr>bd_status := BD_RUNNING, bd_updated_at := now\<rparr>))\<lparr>bd_updated_at := now\<rparr>"
        let ?b = "(set_day now (bd_date d) (day_ends BD_COMPLETED a
            (truthy_text (da_message a) (stream_outcome_value (da_outcome a)))) b')
          \<lparr>bf_completed_days := n + 1, bf_current := next_date snapshot (bd_date d), bf_updated_at := now\<rparr>"
        have "run_view bid (snd (run_days now pick exec bid snapshot ds (n + 1)
            (update_backfill now bid
               (\<lambda>b. b\<lparr>bf_completed_days := n + 1, bf_current := next_date snapshot (bd_date d)\<rparr>)
               (update_day now bid (bd_date d)
                  (day_ends BD_COMPLETED a
                     (truthy_text (da_message a) (stream_outcome_value (da_outcome a)))) bs')))) =
          Some (map day_view (pre @ [?r]) @ ordered_days exec (map day_view ds), ordered_status exec (map day_view ds))"
          using Cons.prems rest rest' b' days
          by (intro Cons.IH [where rest = rest' and b = ?b]) (auto simp: open_day_def day_ends_def)
        with False Inr True claim r show ?thesis
          by (simp add: day_view_def [of d] day_view_writes Let_def)
      next
        case failed: False
        with False Inr claim b' days rest' r show ?thesis
          by (auto simp: run_view_def day_view_def [of d] day_view_writes Let_def)
      qed
    qed
  qed
qed


definition demo_day :: "int \<Rightarrow> backfill_day" where
  "demo_day d = \<lparr>bd_date = d, bd_status = BD_PENDING, bd_runtime_run_id = None, bd_message = None, bd_updated_at = 0\<rparr>"

definition demo_backfill :: backfill_run where
  "demo_backfill =
     \<lparr>bf_id = ''b'', bf_partner = ''MOMO'', bf_fetch_config_id = ''j'', bf_status = BF_QUEUED, bf_from = 4,
      bf_to = 6, bf_current = Some 4, bf_completed_days = 0, bf_total_days = 3, bf_config_version = None,
      bf_mapping_version = Some ''v'', bf_approval_required = False, bf_approval_packet = None,
      bf_workflow = None, bf_days = map demo_day [4, 5, 6], bf_triggered_by = None, bf_created_at = 0,
      bf_updated_at = 0\<rparr>"

definition demo_answer :: "stream_outcome \<Rightarrow> day_answer" where
  "demo_answer oc = \<lparr>da_outcome = oc, da_runtime_run_id = None, da_message = None, da_error_code = None\<rparr>"

definition demo_exec :: "int \<Rightarrow> string + day_answer" where
  "demo_exec d = Inr (demo_answer (if d = 5 then SO_WAITING_REVIEW else SO_COMPLETED))"


section \<open>Claims of two workers\<close>

lemma still_open:
  assumes "j < length ds" "i \<noteq> j" "open_day (ds ! j)"
  shows "first_index open_day (ds[i := d]) \<noteq> None"
  using assms nth_mem [of j "ds[i := d]"] by (auto simp: first_index_None)

lemma claim_update_later: "claim_position pick date (bf_days b) \<noteq> None \<Longrightarrow> bf_updated_at (claim_update now pick date b) = now"
  by (auto simp: claim_update_def)

text \<open>C38: the claim of a day does not exclude a second worker. The filter asks for a day of the date and
  for an open day, not for an open day of the date, so while any other day of the run is open, a
  second claim of the day that the first worker is executing succeeds as well, and both execute it.
\<close>

theorem claim_is_not_exclusive:
  assumes "find_backfill bid bs = Some b" "i < length (bf_days b)" "j < length (bf_days b)" "i \<noteq> j"
    and "bd_date (bf_days b ! i) = date" "open_day (bf_days b ! i)" "open_day (bf_days b ! j)"
    and "bf_updated_at b < now1" "now1 < now2"
  shows "fst (claim_day now1 pick1 bid date bs) \<and>
    fst (claim_day now2 pick2 bid date (snd (claim_day now1 pick1 bid date bs)))"
proof -
  let ?b = "claim_update now1 pick1 date b"
  have dated: "first_index (\<lambda>d. bd_date d = date) ds \<noteq> None"
    if "map bd_date ds = map bd_date (bf_days b)" for ds
  proof -
    have "date \<in> set (map bd_date ds)"
      using that assms(2,5) by (metis length_map nth_map nth_mem)
    then show ?thesis by (auto simp: first_index_None)
  qed
  have opened: "first_index open_day (bf_days b) \<noteq> None"
    using assms(2,6) by (auto simp: first_index_None)
  have pos: "claim_position pick1 date (bf_days b) \<noteq> None"
    using dated [OF refl] opened by (auto simp: claim_position_def)
  then obtain k where k: "claim_position pick1 date (bf_days b) = Some k"
    by blast
  then have days: "bf_days ?b = (bf_days b)[k := (bf_days b ! k)\<lparr>bd_status := BD_RUNNING, bd_updated_at := now1\<rparr>]"
    by (simp add: claim_update_def)
  have "map bd_date (bf_days ?b) = map bd_date (bf_days b)"
    by (cases "k < length (bf_days b)") (simp_all add: days map_update list_update_same_conv list_update_beyond)
  moreover have "first_index open_day (bf_days ?b) \<noteq> None"
    using still_open assms(2,3,4,6,7) days by metis
  ultimately have "claim_position pick2 date (bf_days ?b) \<noteq> None"
    using dated [of "bf_days ?b"] by (auto simp: claim_position_def)
  note second = claim_found [OF claim_found(2) [OF assms(1) pos] this, of now2]
  have "claim_update now2 pick2 date ?b \<noteq> ?b"
    using claim_update_later [OF \<open>claim_position pick2 date (bf_days ?b) \<noteq> None\<close>, of now2]
      claim_update_later [OF pos, of now1] assms(9) by auto
  moreover have "?b \<noteq> b"
    using claim_update_later [OF pos, of now1] assms(8) by auto
  ultimately show ?thesis
    using claim_found(1) [OF assms(1) pos] second(1) by simp
qed

theorem claim_is_not_exclusive_witness:
  "fst (claim_day 1 True ''b'' 4 [demo_backfill]) \<and>
   fst (claim_day 2 True ''b'' 4 (snd (claim_day 1 True ''b'' 4 [demo_backfill])))"
  by (rule claim_is_not_exclusive [where b = demo_backfill and i = 0 and j = 1])
    (simp_all add: find_backfill_def demo_backfill_def demo_day_def open_day_def)

section \<open>A failed run\<close>

text \<open>A run that stopped at its last day: nothing is open and nothing runs.\<close>

definition dead_run :: "backfill_run \<Rightarrow> bool" where
  "dead_run b \<longleftrightarrow> bf_status b \<in> {BF_FAILED, BF_RUNNING} \<and>
     (\<forall>d \<in> set (bf_days b). bd_status d = BD_COMPLETED \<or> bd_status d = BD_FAILED) \<and>
     (\<exists>d \<in> set (bf_days b). bd_status d = BD_FAILED)"

lemma dead_not_stale: "dead_run b \<Longrightarrow> \<not> is_stale_queued b"
  by (auto simp: dead_run_def is_stale_queued_def)

lemma dead_closed:
  assumes "dead_run b"
  shows "claim_position pick date (bf_days b) = None"
proof -
  have "first_index open_day (bf_days b) = None"
    using assms by (auto simp: dead_run_def first_index_None open_day_def)
  then show ?thesis
    by (simp add: claim_position_def split: option.split)
qed

text \<open>Operations on another run, and the ids of the documents.\<close>

definition keeps_run :: "uuid \<Rightarrow> backfill_store \<Rightarrow> backfill_store \<Rightarrow> bool" where
  "keeps_run bid bs' bs \<longleftrightarrow> find_backfill bid bs' = find_backfill bid bs \<and> map bf_id bs' = map bf_id bs"

lemma keeps_run_refl [simp]: "keeps_run bid bs bs"
  by (simp add: keeps_run_def)

lemma keeps_run_trans [trans]: "keeps_run bid cs bs \<Longrightarrow> keeps_run bid bs as \<Longrightarrow> keeps_run bid cs as"
  by (simp add: keeps_run_def)

lemma keeps_run_update:
  assumes "\<And>b. bf_id (f b) = bf_id b" "\<And>b. q b \<Longrightarrow> bf_id b \<noteq> bid"
  shows "keeps_run bid (update_first q f bs) bs"
  using assms by (induction bs) (auto simp: keeps_run_def find_backfill_def)

lemma keeps_run_writes:
  assumes "other \<noteq> bid"
  shows "keeps_run bid (update_day now other date f bs) bs"
    and "(\<And>b. bf_id (g b) = bf_id b) \<Longrightarrow> keeps_run bid (update_backfill now other g bs) bs"
    and "keeps_run bid (snd (claim_day now pick other date bs)) bs"
  using assms by (auto simp: update_day_def update_backfill_def claim_day_def intro!: keeps_run_update)

lemma run_days_other:
  assumes "other \<noteq> bid"
  shows "keeps_run bid (snd (run_days now pick exec other snapshot ds n bs)) bs"
proof (induction ds arbitrary: n bs)
  case (Cons d ds)
  obtain ok bs1 where claim: "claim_day now (pick (bd_date d)) other (bd_date d) bs = (ok, bs1)"
    by fastforce
  then have k1: "keeps_run bid bs1 bs"
    using keeps_run_writes(3) [OF assms, of now "pick (bd_date d)" "bd_date d" bs] by simp
  have k2: "keeps_run bid (update_backfill now other g (update_day now other date f bs1)) bs"
    if "\<And>b. bf_id (g b) = bf_id b" for g date f
    using keeps_run_writes [OF assms] that k1 by (meson keeps_run_trans)
  show ?case
  proof (cases "bd_status d = BD_COMPLETED \<or> \<not> ok")
    case True
    then show ?thesis
      using Cons.IH k1 by (auto simp: claim Let_def)
  next
    case False
    show ?thesis
    proof (cases "exec (bd_date d)")
      case (Inl e)
      then show ?thesis using False k1 by (simp add: claim Let_def)
    next
      case (Inr a)
      then show ?thesis
        using False k2 keeps_run_trans [OF Cons.IH k2] by (simp add: claim Let_def)
    qed
  qed
qed (simp add: keeps_run_writes assms)

lemma run_days_dead:
  assumes "\<And>pick date. claim_position pick date (bf_days b) = None" "find_backfill bid bs = Some b"
    and "distinct (map bf_id bs)" "\<exists>d \<in> set ds. bd_status d \<noteq> BD_COMPLETED"
  shows "\<exists>date. run_days now pick exec bid snapshot ds n bs = (Claim_Refused date n, bs)"
  using assms(4)
proof (induction ds)
  case (Cons d ds)
  then show ?case
    using claim_none [OF assms(3,2,1)] by auto
qed simp

section \<open>Histories\<close>

text \<open>Starts of new runs, resumptions and executions, by any worker at any time.\<close>

inductive backfill_step :: "backfill_store \<Rightarrow> backfill_store \<Rightarrow> bool" where
  step_start: "bid \<notin> set (map bf_id bs) \<Longrightarrow>
    backfill_step bs (snd (start_backfill E js bid partner actor from_date to_date fid bs))"
| step_resume: "backfill_step bs (snd (resume_after_approval E js bid version bs))"
| step_execute: "backfill_step bs (snd (execute_ordered_backfill now pick exec bid bs))"

inductive backfill_history :: "backfill_store \<Rightarrow> backfill_store \<Rightarrow> bool" where
  history_none: "backfill_history bs bs"
| history_step: "backfill_history bs bs' \<Longrightarrow> backfill_step bs' bs'' \<Longrightarrow> backfill_history bs bs''"

definition stays_dead :: "uuid \<Rightarrow> string \<Rightarrow> backfill_day list \<Rightarrow> backfill_store \<Rightarrow> bool" where
  "stays_dead bid partner ds bs \<longleftrightarrow> distinct (map bf_id bs) \<and>
     (case find_backfill bid bs of
        None \<Rightarrow> False | Some b \<Rightarrow> dead_run b \<and> bf_days b = ds \<and> bf_partner b = partner)"

lemma stays_dead_keeps: "keeps_run bid bs' bs \<Longrightarrow> stays_dead bid partner ds bs' = stays_dead bid partner ds bs"
  by (simp add: stays_dead_def keeps_run_def)

lemma execute_dead:
  assumes "stays_dead bid partner ds bs"
  shows "stays_dead bid partner ds (snd (execute_ordered_backfill now pick exec other bs))"
proof (cases "other = bid")
  case False
  have "keeps_run bid (snd (execute_ordered_backfill now pick exec other bs)) bs"
  proof (cases "find_backfill other bs")
    case (Some b)
    have "keeps_run bid (update_backfill now other (\<lambda>b. b\<lparr>bf_status := BF_RUNNING\<rparr>) bs) bs"
      by (rule keeps_run_writes(2) [OF False]) simp
    from keeps_run_trans [OF run_days_other [OF False] this] Some show ?thesis
      by (simp add: execute_ordered_backfill_def case_prod_beta)
  qed (simp add: execute_ordered_backfill_def)
  with assms show ?thesis by (simp add: stays_dead_keeps)
next
  case True
  obtain b where b: "find_backfill bid bs = Some b" "dead_run b" "bf_days b = ds" "distinct (map bf_id bs)"
      "bf_partner b = partner"
    using assms by (auto simp: stays_dead_def split: option.splits)
  let ?bs = "update_backfill now bid (\<lambda>b. b\<lparr>bf_status := BF_RUNNING\<rparr>) bs"
  let ?b = "b\<lparr>bf_status := BF_RUNNING, bf_updated_at := now\<rparr>"
  have found: "find_backfill bid ?bs = Some ?b"
    using b(1) by simp
  have ids: "map bf_id ?bs = map bf_id bs"
    by (simp add: update_backfill_def update_first_keys)
  have dead: "dead_run ?b"
    using b(2) by (simp add: dead_run_def)
  moreover have "\<exists>d \<in> set (bf_days b). bd_status d \<noteq> BD_COMPLETED"
    using b(2) by (force simp: dead_run_def)
  ultimately obtain date where "run_days now pick exec bid (bf_days b) (bf_days b) (bf_completed_days b) ?bs =
      (Claim_Refused date (bf_completed_days b), ?bs)"
    using run_days_dead [of ?b bid ?bs "bf_days b"] dead_closed [OF dead] found ids b(4) by metis
  with b found ids dead True show ?thesis
    by (simp add: execute_ordered_backfill_def stays_dead_def)
qed

lemma resume_dead:
  assumes "stays_dead bid partner ds bs"
  shows "stays_dead bid partner ds (snd (resume_after_approval E js other version bs))"
proof (cases "other = bid")
  case True
  then show ?thesis
    using assms dead_not_stale
    by (auto simp: resume_after_approval_def stays_dead_def dead_run_def split: option.splits)
next
  case False
  have ids: "bf_id (resumed j version wr b) = bf_id b" for j wr b
    by (simp add: resumed_def)
  have reopen: "keeps_run bid (reopen_day E b d bs) bs" if "bf_id b = other" for b d
    using keeps_run_trans [OF keeps_run_writes(2) [OF False] keeps_run_writes(1) [OF False]] that
    by (simp add: reopen_day_def)
  have recover: "keeps_run bid (snd (recover_stale E b cmd bs)) bs" if "bf_id b = other" for b cmd
    using reopen [OF that] by (auto simp: recover_stale_def Let_def split: option.split)
  have "keeps_run bid (snd (resume_after_approval E js other version bs)) bs"
  proof (cases "find_backfill other bs")
    case (Some b)
    then have "bf_id b = other"
      by (auto simp: find_backfill_def find_Some_iff)
    then show ?thesis
      using Some recover [of b] keeps_run_trans [OF keeps_run_writes(2) [OF False]] ids
      by (auto simp: resume_after_approval_def case_prod_beta split: option.split sum.split)
  qed (simp add: resume_after_approval_def)
  with assms show ?thesis by (simp add: stays_dead_keeps)
qed

lemma append_dead:
  assumes "stays_dead bid partner ds bs" "bf_id b \<notin> set (map bf_id bs)"
  shows "stays_dead bid partner ds (bs @ [b])"
proof -
  have "find_backfill bid (bs @ [b]) = find_backfill bid bs" if "find_backfill bid bs \<noteq> None"
    using that by (induction bs) (auto simp: find_backfill_def)
  with assms show ?thesis
    by (auto simp: stays_dead_def split: option.splits)
qed

lemma find_active:
  assumes "find_backfill bid bs = Some b" "bf_status b \<noteq> BF_COMPLETED"
  shows "find_latest_active (bf_partner b) bs \<noteq> None"
  using assms by (auto simp: find_latest_active_def find_backfill_def find_None_iff find_Some_iff)

text \<open>A run that is not complete blocks every other start of its partner.\<close>

lemma start_blocked:
  assumes "find_latest_active partner bs \<noteq> None"
  shows "snd (start_backfill E js bid partner actor from_date to_date fid bs) = bs"
  using assms by (auto simp: start_backfill_def split: option.split sum.split)

lemma start_dead:
  assumes "stays_dead bid partner ds bs" "new \<notin> set (map bf_id bs)"
  shows "stays_dead bid partner ds (snd (start_backfill E js new other actor from_date to_date fid bs))"
proof -
  have fresh: "new \<noteq> bid"
    using assms by (auto simp: stays_dead_def find_backfill_def find_Some_iff image_iff split: option.splits)
  have created: "stays_dead bid partner ds (snd (create_backfill E b j bs))" if "bf_id b = new" for b j
  proof -
    have app: "stays_dead bid partner ds (bs @ [b])"
      using append_dead [OF assms(1)] assms(2) that by simp
    have "keeps_run bid (snd (create_backfill E b j bs)) (bs @ [b])"
      using keeps_run_writes(2) [OF fresh] that
      by (auto simp: create_backfill_def submit_backfill_def Let_def split: option.split gateway_answer.split)
    then show ?thesis
      using app by (simp add: stays_dead_keeps)
  qed
  have "bf_id (new_backfill E new other actor from_date to_date dates j) = new" for dates j
    by (simp add: new_backfill_def Let_def)
  then show ?thesis
    using created assms(1) by (auto simp: start_backfill_def split: option.split sum.split)
qed

text \<open>C37: a backfill that stopped because its last day failed is never finished. The claim of a day needs
  an open day in the run, so the failed day is refused on every later execution; a resumption refuses
  a run that does not wait for approval; and because the run is not complete, every start for its
  partner is turned away: whatever happens, the days stay as they are and the partner gets no other
  backfill.
\<close>

theorem failed_last_day_is_final:
  assumes "backfill_history bs bs'" "stays_dead bid partner ds bs"
  shows "stays_dead bid partner ds bs' \<and>
    snd (start_backfill E js new partner actor from_date to_date fid bs') = bs'"
proof -
  have dead: "stays_dead bid partner ds bs'"
    using assms
  proof (induction rule: backfill_history.induct)
    case (history_step bs bs' bs'')
    then show ?case
      by (auto elim!: backfill_step.cases intro: start_dead resume_dead execute_dead)
  qed
  then obtain b where b: "find_backfill bid bs' = Some b" "dead_run b" "bf_partner b = partner"
    by (auto simp: stays_dead_def split: option.splits)
  then have "find_latest_active partner bs' \<noteq> None"
    using find_active [OF b(1)] by (auto simp: dead_run_def)
  with dead show ?thesis
    by (simp add: start_blocked)
qed

text \<open>The run of the demonstration fails at its last day, and is then executed again.\<close>

definition failing_exec :: "int \<Rightarrow> string + day_answer" where
  "failing_exec d = Inr (demo_answer (if d = 6 then SO_FAILED else SO_COMPLETED))"

definition failed_store :: backfill_store where
  "failed_store = snd (execute_ordered_backfill 9 (\<lambda>_. False) failing_exec ''b'' [demo_backfill])"

definition failed_days :: "backfill_day list" where
  "failed_days = bf_days (hd failed_store)"

lemma failed_store_dead: "stays_dead ''b'' ''MOMO'' failed_days failed_store"
  by code_simp

theorem failed_last_day_is_final_witness:
  "stays_dead ''b'' ''MOMO'' failed_days
     (snd (execute_ordered_backfill 10 (\<lambda>_. True) demo_exec ''b'' failed_store))"
  using failed_last_day_is_final [OF history_step [OF history_none step_execute] failed_store_dead] by blast

end
