(* ===== verification/Spec2Isabelle.thy ===== *)
theory Spec2Isabelle
  imports CheckpointProps OrchestratorProps QuarantineGuarantees RunGuarantees TimestampProps
    ReconcileGuarantees ManualProps GateProps UnitGuarantees ContinueProps ReviewProps BackfillProps
begin

text \<open>
  The reconciliation and ingestion platform: a verification of its ingestion core.

  \<^bold>\<open>The program.\<close> Files and API pages of payment partners arrive as the source units of a stream.
  An orchestrator takes the units in order, claiming each in a checkpoint document; the ingestion of
  a unit reads its rows, normalizes and validates them, writes the accepted ones in batches to a
  PostgreSQL table with a unique ingestion key and stores the rejected ones and the conflicting
  duplicates as quarantine records; a quality summary decides whether the stream goes on. Operators
  claim quarantine records and replay, accept or reject them, or escalate them. Around the rows, a file is claimed against the files seen
  before, its mapping configuration is loaded and checked for drift, and a gate compares the
  configuration with the structure of the file. The stored transactions of a day are then matched
  with the internal ones into evidence rows, after every ingested unit or in runs an operator starts.
  A file whose mapping needs a decision waits in a review packet; once its mapping is approved, the
  packet's file is ingested and reconciled in the background, and a backfill of past days that waited
  for the approval goes on.

  \<^bold>\<open>Theories.\<close>

  \<^item> \<open>Prelude\<close>: Python values, dictionaries and text, results and lists.
  \<^item> \<open>Retry\<close> (\<open>domain/ingestion/retry_policy.py\<close>), \<open>Checkpoint\<close>, \<open>CheckpointOps\<close>
    (\<open>domain/ingestion/checkpoints.py\<close>, \<open>infrastructure/ingestion/checkpoint_repository.py\<close>): the
    checkpoint document and each command of the repository, a query and an update that MongoDB
    applies atomically. \<open>CheckpointRace\<close> lets any number of workers and operators interleave these
    commands with snapshots read earlier. \<open>CheckpointInv\<close> has the locale of one guarded update,
    interpreted on every command; \<open>CheckpointClaim\<close> and \<open>CheckpointProps\<close> the results.
  \<^item> \<open>SourceUnits\<close> (\<open>domain/ingestion/source_units.py\<close>, \<open>application/automation/stream_identity.py\<close>),
    \<open>Orchestrator\<close> (\<open>application/ingestion/source_unit_orchestrator.py\<close>,
    \<open>source_unit_resume.py\<close>). \<open>OrchestratorSpec\<close> states as a locale what the orchestrator expects of
    the repository and proves its runs from that; \<open>OrchestratorRepo\<close> interprets it on the
    repository of \<open>CheckpointOps\<close>; \<open>OrchestratorProps\<close> has the results.
  \<^item> \<open>Quality\<close> (\<open>domain/ingestion/quality.py\<close>, \<open>application/ingestion/quality_policy.py\<close>).
  \<^item> \<open>PartnerStore\<close> (\<open>domain/partner_transaction/duplicates.py\<close>,
    \<open>infrastructure/partner_transaction/repository.py\<close>): the conflict-safe batch write. \<open>Mappers\<close>:
    transactions and table columns.
  \<^item> \<open>Timestamps\<close>, \<open>TimestampProps\<close> (\<open>normalizer/timestamps.py\<close>): the accepted timestamps over a
    model of the civil calendar.
  \<^item> \<open>Normalizer\<close>, \<open>Transactions\<close> (\<open>normalizer/normalizer.py\<close>, \<open>validators/validator.py\<close>),
    \<open>RowProcessor\<close> (\<open>pipeline/row_processor.py\<close>): one row, from raw cells to a container or
    violations; \<open>RowProcessorProps\<close> and \<open>RowGuarantees\<close> the results.
  \<^item> \<open>Readers\<close> (\<open>readers/\<close>, \<open>infrastructure/ingestion/source_row_reader.py\<close>): the row streams and
    the re-reading of one row.
  \<^item> \<open>RunState\<close>, \<open>RunStateProps\<close> (\<open>pipeline/run_state.py\<close>): the counters of a run, against the
    history of its events.
  \<^item> \<open>RowPipeline\<close> (\<open>pipeline/batch_writer.py\<close>, \<open>row_batch_coordinator.py\<close>, \<open>row_pipeline.py\<close>): the
    row loop of a file with concurrent batch writes. \<open>RowAccounting\<close> has the effect of a write, a
    drain and a recorded result on the accounting, \<open>RowRun\<close> the invariant of the loop,
    \<open>RunCompletion\<close> the induction over the rows, \<open>RunGuarantees\<close> the results.
  \<^item> \<open>Quarantine\<close>, \<open>QuarantineRepo\<close> (\<open>domain/ingestion/quarantine.py\<close>,
    \<open>infrastructure/ingestion/quarantine_repository.py\<close>), \<open>QuarantineInv\<close>, \<open>QuarantineRace\<close>,
    \<open>QuarantineProps\<close>: records and the commands that change them, as for checkpoints.
    \<open>QuarantineService\<close> (\<open>application/ingestion/quarantine_service.py\<close>), \<open>QuarantineServiceProps\<close>,
    \<open>QuarantineGuarantees\<close>: the resolution service on top of them.
  \<^item> \<open>MappingConfig\<close> (\<open>domain/mapping/\<close>, \<open>config/validator.py\<close>), \<open>QualityGate\<close>
    (\<open>config/signature.py\<close>, \<open>pipeline/quality_gate.py\<close>), \<open>ConfigHealth\<close> (\<open>config/cache.py\<close>, \<open>loader.py\<close>,
    \<open>config_health.py\<close>, \<open>infrastructure/mapping/config_repository.py\<close>,
    \<open>pipeline/config_preparation.py\<close>): the mapping configuration from its document to the prepared
    one, and the structure of a file. \<open>GateProps\<close>: what a passed gate guarantees.
  \<^item> \<open>FileClaims\<close> (\<open>pipeline/file_claim.py\<close>, \<open>infrastructure/ingestion/file_repository.py\<close>): the file
    documents under their unique keys, and why only one claim owns a content. \<open>IngestionRun\<close>
    (\<open>pipeline/ingestion_pipeline.py\<close>, \<open>finalizer.py\<close>): the whole ingestion of a file, \<open>process_file\<close>,
    composed of the claim, the preparation, the gate, \<open>RowPipeline\<close> and the finalizer.
    \<open>UnitIngestor\<close> (\<open>application/automation/stream_ingestion.py\<close>): the call of it for a source unit and
    the dictionary the orchestrator reads. \<open>IngestionProps\<close> has the lemmas of each phase,
    \<open>IngestionDemo\<close> a concrete file and its ingestion, \<open>IngestionGuarantees\<close> and \<open>UnitGuarantees\<close> the
    results.
  \<^item> \<open>InternalStore\<close> (\<open>infrastructure/postgres/internal_transaction_repository.py\<close>), \<open>Matching\<close>,
    \<open>ReconcileRun\<close> (\<open>reconciliation/postgres_executor.py\<close>): the set-based query, one function per
    common table expression, and the transaction that replaces a day. \<open>MatchingProps\<close>,
    \<open>ReconcileProps\<close>, \<open>ReconcileGuarantees\<close>: the results.
  \<^item> \<open>Scope\<close> (\<open>reconciliation/keys.py\<close>, \<open>scope.py\<close>, \<open>engine.py\<close>), \<open>Runtime\<close>
    (\<open>domain/runtime/models.py\<close>, \<open>application/runtime/service.py\<close>), \<open>ManualRuns\<close>
    (\<open>application/reconciliation/\<close>), \<open>ManualProps\<close>: the scope of a file, the engine and the runs
    operators start.
  \<^item> \<open>ReviewPackets\<close> (\<open>domain/review/models.py\<close>, \<open>infrastructure/review/repository.py\<close>),
    \<open>MappingApproval\<close> (\<open>application/mapping/service.py\<close>), \<open>MappingProps\<close>: the collections of the
    approval desk and the transitions of a mapping, with the one approved mapping as an invariant.
  \<^item> \<open>PostApproval\<close>, \<open>PostReplay\<close>, \<open>PostContinue\<close>
    (\<open>application/review/post_approval_reconciliation.py\<close>): the replay of an approved packet on top of
    \<open>IngestionRun\<close> and \<open>ReconcileRun\<close>, and the continuation of a run that waited for its quarantine, as
    calls over one world of collections that end with a value or an exception. \<open>PostProps\<close> computes
    their weakest preconditions; \<open>PostGuarantees\<close> and \<open>ContinueProps\<close> have the results.
  \<^item> \<open>ReviewWorkflow\<close> (\<open>application/review/actions.py\<close>, the decisions of \<open>mapping_workflow.py\<close>): approving a
    packet with its draft or with the mapping in force, and rejecting it, with the replay or the
    backfill an approval hands on. \<open>ReviewProps\<close>: histories of decisions on packets and mappings, and
    the gap between the read and the write of an approval.
  \<^item> \<open>Backfill\<close> (\<open>domain/backfill/models.py\<close>, \<open>infrastructure/backfill/repository.py\<close>), \<open>BackfillRun\<close>
    (\<open>application/automation/backfill_service.py\<close>, \<open>backfill_runner.py\<close>), \<open>BackfillProps\<close>: backfills, the
    claims of their days with the choice MongoDB has in them, and a specification of their order.

  \<^bold>\<open>Modelling.\<close> A collection is a map or a list of records; an atomic command is a function of it.
  Exceptions are values of a sum or option type. Loops are recursive functions over the units or
  rows they consume, so every run ends without fuel; the only bounds are those of the code (batch
  size, workers, error samples, attempts). Times are microseconds since 1970; decimals are a
  coefficient and an exponent; text is a list of bytes. What a library computes is a parameter: JSON
  and hash texts, \<open>isoformat\<close>, \<open>str()\<close> of objects other than text and numbers, the time zone
  database, column letters, pydantic's datetime coercion, the parsers of csv, xlsx and JSON files and
  the redaction of error texts, hash digests and file content per sheet name. The proposal that the
  configuration health check creates is a parameter too. Writes that may raise are faults given to
  a run, and a fault happens before its write has changed anything. A drain of concurrent writes commits them in an order a schedule
  gives; every order is covered.

  \<^bold>\<open>Not modelled.\<close> Durations and other floats; database outages in the middle of an operation;
  tasks that go on after a failed drain; the difference between microseconds and the milliseconds of
  MongoDB; numeric overflow in PostgreSQL, the context precision of \<open>Decimal\<close> and the sign of a zero;
  digits and letters outside ASCII in numbers, dates and case folding; dictionary keys other than
  text; the fallbacks for older repository signatures in the quarantine service; queries and
  aggregations that only read; the cleanup of local files; the replay of a staged stream, which the
  replay of a packet takes as an argument, and the routes from a proposal to a draft that can be approved; the stream
  runners and jobs; the cache of insights.
  Fetchers, prompts, HTTP routes, command line, scripts and user interface are input
  and output around the modelled core.
\<close>

end
